(* ===== verification/Prelude.thy ===== *)
theory Prelude
  imports Main "HOL-Library.List_Lexorder" "HOL-Library.Char_ord" "HOL-Library.Sublist"
begin

text \<open>
  Shared vocabulary of the development: the type names of the model, the exceptions of the
  Python code as a datatype, the fact collections the component proofs use, and generic
  lemmas on tables (lists of rows with a key), on prefixes and on filtered updates.
\<close>

section \<open>Names of the model's types\<close>

text \<open>
  A Python \<open>UUID\<close> is its 128-bit integer value, a timezone-aware \<open>datetime\<close> the number of
  microseconds since an epoch, a Python \<open>str\<close> a list of characters, one per code point
  (the model covers the code points below 256).
\<close>

type_synonym uuid = nat
type_synonym instant = int
type_synonym pystr = string

named_theorems prog_simps \<open>evaluation of the request monad\<close>
named_theorems keeps_rules \<open>preservation rules of the request monad\<close>

section \<open>Exceptions\<close>

text \<open>
  \<open>ApplicationError\<close> is \<open>core/exceptions.py\<close>; \<open>IntegrityError\<close> is the subclass of
  \<open>SQLAlchemyError\<close> that a violated constraint raises; \<open>ValidationError\<close> is what building a
  pydantic model from bad data raises; \<open>PythonError\<close> is any other built-in exception, by its
  class name.
\<close>

datatype exn =
    ApplicationError (err_code: pystr) (err_message: pystr) (err_status: nat)
  | SQLAlchemyError
  | IntegrityError
  | ValidationError
  | PythonError (err_class: pystr)

definition is_application_error :: "exn \<Rightarrow> bool" where
  "is_application_error e = (case e of ApplicationError _ _ _ \<Rightarrow> True | _ \<Rightarrow> False)"

definition is_sqlalchemy_error :: "exn \<Rightarrow> bool" where
  "is_sqlalchemy_error e = (case e of SQLAlchemyError \<Rightarrow> True | IntegrityError \<Rightarrow> True | _ \<Rightarrow> False)"

lemma exn_kinds [simp]:
  "is_application_error (ApplicationError c m k)"
  "\<not> is_application_error SQLAlchemyError"
  "\<not> is_application_error IntegrityError"
  "\<not> is_application_error ValidationError"
  "\<not> is_sqlalchemy_error (ApplicationError c m k)"
  "is_sqlalchemy_error SQLAlchemyError"
  "is_sqlalchemy_error IntegrityError"
  "\<not> is_sqlalchemy_error ValidationError"
  "\<not> is_application_error (PythonError p)"
  "\<not> is_sqlalchemy_error (PythonError p)"
  by (simp_all add: is_application_error_def is_sqlalchemy_error_def)

section \<open>Tables\<close>

text \<open>
  \<open>session.scalar(select ...)\<close> returns the first selected row or \<open>None\<close>;
  \<open>update(...).where(...).values(...)\<close> rewrites the selected rows in place;
  \<open>limit\<close>/\<open>offset\<close> cut a window out of the ordered result.
\<close>

definition first_row :: "'r list \<Rightarrow> 'r option" where
  "first_row rows = (case rows of [] \<Rightarrow> None | r # _ \<Rightarrow> Some r)"

definition update_where :: "('r \<Rightarrow> bool) \<Rightarrow> ('r \<Rightarrow> 'r) \<Rightarrow> 'r list \<Rightarrow> 'r list" where
  "update_where sel f rows = map (\<lambda>r. if sel r then f r else r) rows"

definition window :: "nat \<Rightarrow> nat \<Rightarrow> 'r list \<Rightarrow> 'r list" where
  "window limit offset rows = take limit (drop offset rows)"

lemma first_row_simps [simp]: "first_row [] = None" "first_row (r # rs) = Some r"
  by (simp_all add: first_row_def)

lemma first_row_in: "first_row xs = Some r \<Longrightarrow> r \<in> set xs"
  by (cases xs) simp_all

lemma first_row_filter_Some:
  "first_row (filter P xs) = Some r \<Longrightarrow> r \<in> set xs \<and> P r"
  by (induction xs) (auto split: if_splits)

lemma first_row_filter_None_iff:
  "first_row (filter P xs) = None \<longleftrightarrow> (\<forall>r \<in> set xs. \<not> P r)"
  by (induction xs) auto

lemma update_where_simps [simp]:
  "update_where sel f [] = []"
  "update_where sel f (r # rs) = (if sel r then f r else r) # update_where sel f rs"
  by (simp_all add: update_where_def)

lemma length_update_where [simp]: "length (update_where sel f rows) = length rows"
  by (simp add: update_where_def)

lemma update_where_none: "\<forall>r \<in> set rows. \<not> sel r \<Longrightarrow> update_where sel f rows = rows"
  by (induction rows) auto

lemma map_update_where:
  "(\<And>r. g (f r) = g r) \<Longrightarrow> map g (update_where sel f rows) = map g rows"
  by (induction rows) auto

lemma set_update_where:
  "x \<in> set (update_where sel f rows) \<longleftrightarrow>
   (\<exists>r \<in> set rows. (sel r \<and> x = f r) \<or> (\<not> sel r \<and> x = r))"
  by (induction rows) auto

lemma first_row_update_where:
  "(\<And>r. sel r \<Longrightarrow> P (f r)) \<Longrightarrow> (\<And>r. P r \<Longrightarrow> sel r) \<Longrightarrow>
   first_row (filter P (update_where sel f rows)) = map_option f (first_row (filter sel rows))"
  by (induction rows) auto

lemma filter_distinct_key:
  "distinct (map key rows) \<Longrightarrow> r \<in> set rows \<Longrightarrow> filter (\<lambda>x. key x = key r) rows = [r]"
proof (induction rows)
  case Nil
  then show ?case by simp
next
  case (Cons a rows)
  show ?case
  proof (cases "key a = key r")
    case True
    then have ra: "r = a" using Cons.prems by (auto simp: image_iff)
    have "filter (\<lambda>x. key x = key a) rows = []"
      using Cons.prems(1) by (simp add: filter_empty_conv) (metis image_eqI)
    then show ?thesis by (simp add: ra)
  next
    case False
    then show ?thesis using Cons by auto
  qed
qed

lemma filter_same_id:
  assumes "filter (\<lambda>x. key x = k) rows = [a]" and "P a"
  shows "filter (\<lambda>x. key x = k \<and> P x) rows = [a]"
proof -
  have "filter (\<lambda>x. key x = k \<and> P x) rows = filter P (filter (\<lambda>x. key x = k) rows)"
    by (simp add: conj_commute)
  with assms show ?thesis by simp
qed

lemma length_window [simp]: "length (window l k rows) \<le> l"
  by (simp add: window_def)

lemma set_window: "set (window l k rows) \<subseteq> set rows"
  by (auto simp: window_def dest: in_set_takeD in_set_dropD)

lemma sorted_window: "sorted (map key rows) \<Longrightarrow> sorted (map key (window l k rows))"
  by (simp add: window_def take_map [symmetric] drop_map [symmetric])

section \<open>References between tables\<close>

definition references :: "('r \<Rightarrow> uuid option) \<Rightarrow> 'r list \<Rightarrow> uuid list \<Rightarrow> bool" where
  "references fk rows keys = list_all (\<lambda>r. case fk r of None \<Rightarrow> True | Some k \<Rightarrow> List.member keys k) rows"

lemma references_iff:
  "references fk rows keys \<longleftrightarrow> (\<forall>r \<in> set rows. \<forall>k. fk r = Some k \<longrightarrow> k \<in> set keys)"
  by (auto simp: references_def list_all_iff split: option.splits)

definition between :: "nat \<Rightarrow> nat \<Rightarrow> pystr \<Rightarrow> bool" where
  "between lo hi t = (lo \<le> length t \<and> length t \<le> hi)"

definition opt_all :: "('a \<Rightarrow> bool) \<Rightarrow> 'a option \<Rightarrow> bool" where
  "opt_all P x = (case x of None \<Rightarrow> True | Some a \<Rightarrow> P a)"

lemma opt_all_simps [simp]: "opt_all P None" "opt_all P (Some a) = P a"
  by (simp_all add: opt_all_def)

text \<open>A validator applied to the value of an optional field.\<close>

definition optional_field :: "('a \<Rightarrow> 'b option) \<Rightarrow> 'a option \<Rightarrow> 'b option option" where
  "optional_field f x = (case x of None \<Rightarrow> Some None | Some a \<Rightarrow> map_option Some (f a))"

section \<open>Prefixes\<close>

lemma prefix_append_both: "prefix xs ys \<Longrightarrow> prefix xs (ys @ zs)"
  by (auto simp: prefix_def)

section \<open>Lists of options\<close>

lemma those_map_Some: "those (map f xs) = Some ys \<longleftrightarrow> list_all2 (\<lambda>x y. f x = Some y) xs ys"
  by (induction xs arbitrary: ys)
    (auto simp: list_all2_Cons1 split: option.splits)

end
