(* ===== verification/Regex.thy ===== *)
theory Regex
  imports Prelude
begin

text \<open>
  The regular expressions of the code, as a datatype with a derivative matcher
  (\<open>fullmatch\<close>), the language it recognises (\<open>lang\<close>) and the patterns themselves,
  each a transliteration of the source's pattern string. Every pattern of the source that is
  used with \<open>fullmatch\<close> is here; patterns used with \<open>search\<close> are in the theory of
  their component.
\<close>

section \<open>Regular expressions\<close>

datatype rx =
    Zero
  | Eps
  | Cls "char \<Rightarrow> bool"
  | Seq rx rx
  | Alt rx rx
  | Star rx

fun nullable :: "rx \<Rightarrow> bool" where
  "nullable Zero = False"
| "nullable Eps = True"
| "nullable (Cls p) = False"
| "nullable (Seq r s) = (nullable r \<and> nullable s)"
| "nullable (Alt r s) = (nullable r \<or> nullable s)"
| "nullable (Star r) = True"

fun seq :: "rx \<Rightarrow> rx \<Rightarrow> rx" where
  "seq Zero s = Zero"
| "seq Eps s = s"
| "seq r s = Seq r s"

fun alt :: "rx \<Rightarrow> rx \<Rightarrow> rx" where
  "alt Zero s = s"
| "alt r Zero = r"
| "alt r s = Alt r s"

fun deriv :: "char \<Rightarrow> rx \<Rightarrow> rx" where
  "deriv c Zero = Zero"
| "deriv c Eps = Zero"
| "deriv c (Cls p) = (if p c then Eps else Zero)"
| "deriv c (Seq r s) =
     (if nullable r then alt (seq (deriv c r) s) (deriv c s) else seq (deriv c r) s)"
| "deriv c (Alt r s) = alt (deriv c r) (deriv c s)"
| "deriv c (Star r) = seq (deriv c r) (Star r)"

fun fullmatch :: "rx \<Rightarrow> pystr \<Rightarrow> bool" where
  "fullmatch r [] = nullable r"
| "fullmatch r (c # cs) = fullmatch (deriv c r) cs"

definition opt :: "rx \<Rightarrow> rx" where
  "opt r = Alt Eps r"

primrec upto_times :: "nat \<Rightarrow> rx \<Rightarrow> rx" where
  "upto_times 0 r = Eps"
| "upto_times (Suc n) r = opt (Seq r (upto_times n r))"

definition lit :: "char \<Rightarrow> rx" where
  "lit c = Cls (\<lambda>d. d = c)"

section \<open>The language of an expression\<close>

inductive lang :: "rx \<Rightarrow> pystr \<Rightarrow> bool" where
  eps: "lang Eps []"
| cls: "p c \<Longrightarrow> lang (Cls p) [c]"
| seqI: "lang r u \<Longrightarrow> lang s v \<Longrightarrow> lang (Seq r s) (u @ v)"
| altL: "lang r u \<Longrightarrow> lang (Alt r s) u"
| altR: "lang s u \<Longrightarrow> lang (Alt r s) u"
| star0: "lang (Star r) []"
| starS: "lang r u \<Longrightarrow> lang (Star r) v \<Longrightarrow> lang (Star r) (u @ v)"

inductive_cases lang_ZeroE [elim!]: "lang Zero u"
inductive_cases lang_EpsE [elim!]: "lang Eps u"
inductive_cases lang_ClsE [elim!]: "lang (Cls p) u"
inductive_cases lang_SeqE [elim!]: "lang (Seq r s) u"
inductive_cases lang_AltE [elim!]: "lang (Alt r s) u"
inductive_simps lang_Eps [simp]: "lang Eps u"
inductive_simps lang_Zero [simp]: "lang Zero u"
inductive_simps lang_Alt [simp]: "lang (Alt r s) u"

lemma lang_Cls [simp]: "lang (Cls p) u \<longleftrightarrow> (\<exists>c. u = [c] \<and> p c)"
  by (auto intro: lang.cls)

lemma lang_Seq: "lang (Seq r s) w \<longleftrightarrow> (\<exists>u v. w = u @ v \<and> lang r u \<and> lang s v)"
  by (auto intro: lang.seqI)

lemma lang_seq [simp]: "lang (seq r s) u = lang (Seq r s) u"
  by (cases r) (auto simp: lang_Seq)

lemma lang_alt [simp]: "lang (alt r s) u = lang (Alt r s) u"
  by (cases r; cases s) auto

lemma lang_nullable: "nullable r \<longleftrightarrow> lang r []"
proof (induction r)
  case (Star r)
  show ?case by (simp add: lang.star0)
qed (auto simp: lang_Seq)

lemma lang_Star_Cons:
  assumes "lang (Star r) w" and "w = c # cs"
  shows "\<exists>u v. cs = u @ v \<and> lang r (c # u) \<and> lang (Star r) v"
  using assms
proof (induction "Star r" w arbitrary: cs rule: lang.induct)
  case (starS u v)
  then show ?case by (cases u) auto
qed simp

lemma lang_deriv: "lang (deriv c r) cs \<longleftrightarrow> lang r (c # cs)"
proof (induction r arbitrary: cs)
  case (Seq r s)
  have "lang (Seq r s) (c # cs) \<longleftrightarrow>
      (lang r [] \<and> lang s (c # cs)) \<or> (\<exists>u v. cs = u @ v \<and> lang r (c # u) \<and> lang s v)"
    by (auto simp: lang_Seq Cons_eq_append_conv)
  then show ?case by (auto simp: Seq lang_Seq lang_nullable)
next
  case (Star r)
  have "lang (Star r) (c # u @ v)" if "lang r (c # u)" "lang (Star r) v" for u v
    using lang.starS [OF that] by simp
  then show ?case by (auto simp: Star lang_Seq dest: lang_Star_Cons)
qed auto

theorem fullmatch_iff_lang: "fullmatch r w \<longleftrightarrow> lang r w"
  by (induction r w rule: fullmatch.induct) (simp_all add: lang_nullable lang_deriv)

section \<open>The character classes of the patterns\<close>

definition lower_az :: "char \<Rightarrow> bool" where
  "lower_az c = (CHR ''a'' \<le> c \<and> c \<le> CHR ''z'')"

definition upper_az :: "char \<Rightarrow> bool" where
  "upper_az c = (CHR ''A'' \<le> c \<and> c \<le> CHR ''Z'')"

definition digit09 :: "char \<Rightarrow> bool" where
  "digit09 c = (CHR ''0'' \<le> c \<and> c \<le> CHR ''9'')"

definition ident_char :: "char \<Rightarrow> bool" where
  "ident_char c = (lower_az c \<or> digit09 c \<or> c = CHR ''_'')"

definition ascii_alnum :: "char \<Rightarrow> bool" where
  "ascii_alnum c = (lower_az c \<or> upper_az c \<or> digit09 c)"

section \<open>The patterns of the code\<close>

text \<open>\<open>[a-z][a-z0-9_]*\<close>, the building block of the dotted names.\<close>

definition name_rx :: rx where
  "name_rx = Seq (Cls lower_az) (Star (Cls ident_char))"

text \<open>\<open>^[a-z][a-z0-9_]{0,63}$\<close>\<close>

definition TYPE_IDENTIFIER :: rx where
  "TYPE_IDENTIFIER = Seq (Cls lower_az) (upto_times 63 (Cls ident_char))"

text \<open>\<open>^[a-z][a-z0-9_-]{0,31}$\<close>\<close>

definition ENVIRONMENT :: rx where
  "ENVIRONMENT =
     Seq (Cls lower_az) (upto_times 31 (Cls (\<lambda>c. ident_char c \<or> c = CHR ''-'')))"

text \<open>\<open>^[a-z][a-z0-9_]*(?:\.[a-z][a-z0-9_]*)+$\<close>\<close>

definition ACTION :: rx where
  "ACTION = Seq name_rx (Seq (Seq (lit CHR ''.'') name_rx) (Star (Seq (lit CHR ''.'') name_rx)))"

text \<open>\<open>^(?:\*|[a-z][a-z0-9_]*(?:\.[a-z][a-z0-9_]*)*(?:\.\*)?)$\<close>\<close>

definition ACTION_PATTERN :: rx where
  "ACTION_PATTERN =
     Alt (lit CHR ''*'')
         (Seq name_rx (Seq (Star (Seq (lit CHR ''.'') name_rx))
                           (opt (Seq (lit CHR ''.'') (lit CHR ''*'')))))"

text \<open>\<open>^[a-z][a-z0-9_]*(?:\.[a-z][a-z0-9_]*)*$\<close>\<close>

definition SOURCE_PATTERN :: rx where
  "SOURCE_PATTERN = Seq name_rx (Star (Seq (lit CHR ''.'') name_rx))"

text \<open>\<open>^[A-Za-z0-9][A-Za-z0-9._:-]{0,127}$\<close>\<close>

definition REFERENCE_PATTERN :: rx where
  "REFERENCE_PATTERN =
     Seq (Cls ascii_alnum) (upto_times 127 (Cls (\<lambda>c. ascii_alnum c \<or> c \<in> set ''._:-'')))"

section \<open>Shape of the accepted names\<close>

lemma lang_Star_Cls: "lang (Star (Cls p)) w \<longleftrightarrow> list_all p w"
proof
  show "lang (Star (Cls p)) w \<Longrightarrow> list_all p w"
    by (induction "Star (Cls p)" w rule: lang.induct) auto
  show "list_all p w \<Longrightarrow> lang (Star (Cls p)) w"
  proof (induction w)
    case (Cons c w)
    then show ?case using lang.starS [of "Cls p" "[c]" w] by simp
  qed (simp add: lang.star0)
qed

lemma lang_Seq_Cls:
  "lang (Seq (Cls p) r) w \<longleftrightarrow> (\<exists>c cs. w = c # cs \<and> p c \<and> lang r cs)"
proof
  assume "\<exists>c cs. w = c # cs \<and> p c \<and> lang r cs"
  then obtain c cs where "w = [c] @ cs" "p c" "lang r cs" by auto
  then show "lang (Seq (Cls p) r) w" by (blast intro: lang.seqI lang.cls)
qed auto

lemma lang_upto_times_Cls:
  "lang (upto_times n (Cls p)) w \<longleftrightarrow> length w \<le> n \<and> list_all p w"
proof (induction n arbitrary: w)
  case (Suc n)
  show ?case by (cases w) (auto simp: opt_def lang_Seq_Cls Suc)
qed auto

lemma fullmatch_identifier:
  "fullmatch (Seq (Cls p) (upto_times n (Cls q))) w \<longleftrightarrow>
   (\<exists>c cs. w = c # cs \<and> p c \<and> length cs \<le> n \<and> list_all q cs)"
  by (simp add: fullmatch_iff_lang lang_Seq_Cls lang_upto_times_Cls)

lemma name_rx_iff: "lang name_rx w \<longleftrightarrow> (\<exists>c cs. w = c # cs \<and> lower_az c \<and> list_all ident_char cs)"
  by (simp add: name_rx_def lang_Seq_Cls lang_Star_Cls)

lemma TYPE_IDENTIFIER_iff:
  "fullmatch TYPE_IDENTIFIER w \<longleftrightarrow>
   (\<exists>c cs. w = c # cs \<and> lower_az c \<and> length cs \<le> 63 \<and> list_all ident_char cs)"
  unfolding TYPE_IDENTIFIER_def by (rule fullmatch_identifier)

lemma TYPE_IDENTIFIER_length: "fullmatch TYPE_IDENTIFIER w \<Longrightarrow> between 1 64 w"
  by (auto simp: TYPE_IDENTIFIER_iff between_def)

text \<open>Every character of a word of a pattern belongs to one of the pattern's classes.\<close>

fun rx_chars :: "rx \<Rightarrow> char \<Rightarrow> bool" where
  "rx_chars (Cls p) c = p c"
| "rx_chars (Seq r s) c = (rx_chars r c \<or> rx_chars s c)"
| "rx_chars (Alt r s) c = (rx_chars r c \<or> rx_chars s c)"
| "rx_chars (Star r) c = rx_chars r c"
| "rx_chars Zero c = False"
| "rx_chars Eps c = False"

lemma lang_rx_chars: "lang r w \<Longrightarrow> c \<in> set w \<Longrightarrow> rx_chars r c"
  by (induction r w rule: lang.induct) auto

lemma rx_chars_upto_times: "rx_chars (upto_times n r) c \<Longrightarrow> rx_chars r c"
  by (induction n) (auto simp: opt_def)

lemma TYPE_IDENTIFIER_chars: "fullmatch TYPE_IDENTIFIER w \<Longrightarrow> c \<in> set w \<Longrightarrow> ident_char c \<or> c = CHR ''.''"
  by (auto simp: fullmatch_iff_lang TYPE_IDENTIFIER_def ident_char_def
      dest!: lang_rx_chars rx_chars_upto_times)

lemma SOURCE_PATTERN_chars: "fullmatch SOURCE_PATTERN w \<Longrightarrow> c \<in> set w \<Longrightarrow> ident_char c \<or> c = CHR ''.''"
  by (auto simp: fullmatch_iff_lang SOURCE_PATTERN_def name_rx_def lit_def ident_char_def
      dest!: lang_rx_chars)

section \<open>Evaluation\<close>

text \<open>
  The classes read off the bits of a character, for the concrete runs.
\<close>

lemma char_classes_code [code]:
  "lower_az c \<longleftrightarrow> \<not> digit7 c \<and> digit6 c \<and> digit5 c \<and> (digit4 c \<or> digit3 c \<or> digit2 c \<or> digit1 c \<or> digit0 c) \<and>
     \<not> (digit4 c \<and> digit3 c \<and> (digit2 c \<or> digit1 c \<and> digit0 c))"
  "upper_az c \<longleftrightarrow> \<not> digit7 c \<and> digit6 c \<and> \<not> digit5 c \<and> (digit4 c \<or> digit3 c \<or> digit2 c \<or> digit1 c \<or> digit0 c) \<and>
     \<not> (digit4 c \<and> digit3 c \<and> (digit2 c \<or> digit1 c \<and> digit0 c))"
  "digit09 c \<longleftrightarrow> \<not> digit7 c \<and> \<not> digit6 c \<and> digit5 c \<and> digit4 c \<and> \<not> (digit3 c \<and> (digit2 c \<or> digit1 c))"
  by (cases c; auto simp: lower_az_def upper_az_def digit09_def of_bool_def split: if_splits)+

end
