(* ===== verification/Pyval.thy ===== *)
theory Pyval
  imports Regex
begin

text \<open>
  Python values as far as the code inspects them (\<open>isinstance\<close> chains over \<open>Any\<close>), the
  string methods the code calls, and the text form of a \<open>UUID\<close>. Dictionaries keep their
  insertion order and have arbitrary keys; a float is finite (with the digits \<open>repr\<close> prints)
  or not.
\<close>

section \<open>Values\<close>

datatype pyfloat = Finite pystr | Infinite | NegInfinite | NotANumber

datatype pyval =
    PNone
  | PBool bool
  | PInt int
  | PFloat pyfloat
  | PStr pystr
  | PList "pyval list"
  | PDict "(pyval \<times> pyval) list"
  | POther

definition isfinite :: "pyfloat \<Rightarrow> bool" where
  "isfinite x = (case x of Finite _ \<Rightarrow> True | _ \<Rightarrow> False)"

section \<open>Strings\<close>

text \<open>
  \<open>isalnum\<close>, \<open>casefold\<close> and \<open>isspace\<close> on the code points below 256. \<open>casefold\<close> maps the
  sharp s to two letters, and the micro sign to a Greek letter outside this range; the model
  keeps the micro sign, which no name the code looks for contains.
\<close>

definition isalnum :: "char \<Rightarrow> bool" where
  "isalnum c = (ascii_alnum c \<or>
     (let n = of_char c :: nat in
      n \<in> {170, 178, 179, 181, 185, 186, 188, 189, 190} \<or> (192 \<le> n \<and> n \<noteq> 215 \<and> n \<noteq> 247)))"

definition fold_char :: "char \<Rightarrow> pystr" where
  "fold_char c = (let n = of_char c :: nat in
     if upper_az c then [char_of (n + 32)]
     else if 192 \<le> n \<and> n \<le> 222 \<and> n \<noteq> 215 then [char_of (n + 32)]
     else if n = 223 then ''ss''
     else [c])"

definition casefold :: "pystr \<Rightarrow> pystr" where
  "casefold t = concat (map fold_char t)"

definition lower_char :: "char \<Rightarrow> char" where
  "lower_char c = (let n = of_char c :: nat in
     if upper_az c \<or> (192 \<le> n \<and> n \<le> 222 \<and> n \<noteq> 215) then char_of (n + 32) else c)"

definition lower :: "pystr \<Rightarrow> pystr" where
  "lower t = map lower_char t"

definition isspace :: "char \<Rightarrow> bool" where
  "isspace c = (let n = of_char c :: nat in
     (9 \<le> n \<and> n \<le> 13) \<or> (28 \<le> n \<and> n \<le> 32) \<or> n = 133 \<or> n = 160)"

definition strip_by :: "(char \<Rightarrow> bool) \<Rightarrow> pystr \<Rightarrow> pystr" where
  "strip_by space t = rev (dropWhile space (rev (dropWhile space t)))"

definition strip :: "pystr \<Rightarrow> pystr" where
  "strip = strip_by isspace"

text \<open>
  \<open>strip_whitespace\<close> of pydantic's \<open>StringConstraints\<close>: Unicode white space, which, unlike
  \<open>str.isspace\<close>, leaves out the separators U+001C to U+001F.
\<close>

definition white_space :: "char \<Rightarrow> bool" where
  "white_space c = (let n = of_char c :: nat in (9 \<le> n \<and> n \<le> 13) \<or> n = 32 \<or> n = 133 \<or> n = 160)"

definition trim :: "pystr \<Rightarrow> pystr" where
  "trim = strip_by white_space"

text \<open>\<open>sep.join(ts)\<close>.\<close>

definition join_with :: "pystr \<Rightarrow> pystr list \<Rightarrow> pystr" where
  "join_with sep ts = (case ts of [] \<Rightarrow> [] | t # rest \<Rightarrow> t @ concat (map (\<lambda>u. sep @ u) rest))"

lemma white_space_isspace: "white_space c \<Longrightarrow> isspace c"
  by (auto simp: white_space_def isspace_def Let_def)

lemma plain_char: "ident_char c \<or> c = CHR ''.'' \<Longrightarrow> \<not> isspace c \<and> lower_char c = c"
  by (cases "of_char c :: nat")
    (auto simp: ident_char_def lower_az_def digit09_def isspace_def lower_char_def upper_az_def Let_def
      less_eq_char_def)

lemma plain_word:
  assumes "\<forall>c \<in> set w. ident_char c \<or> c = CHR ''.''"
  shows "strip w = w \<and> lower w = w \<and> trim w = w"
proof -
  have *: "dropWhile isspace v = v \<and> dropWhile white_space v = v" if "set v \<subseteq> set w" for v
    using that assms plain_char white_space_isspace by (cases v) auto
  have "lower w = map (\<lambda>c. c) w" unfolding lower_def by (rule map_cong) (use assms plain_char in auto)
  then show ?thesis using * [of w] * [of "rev w"] by (simp add: strip_def trim_def strip_by_def)
qed

lemma dropWhile_idem: "dropWhile p (dropWhile p xs) = dropWhile p xs"
  by (induction xs) auto

lemma dropWhile_rev_idem:
  assumes "dropWhile p xs = xs"
  shows "dropWhile p (rev (dropWhile p (rev xs))) = rev (dropWhile p (rev xs))"
proof (cases "rev (dropWhile p (rev xs))")
  case (Cons c cs)
  have "rev (dropWhile p (rev xs)) = take (length (dropWhile p (rev xs))) xs"
    by (metis dropWhile_eq_drop length_rev rev_drop rev_rev_ident diff_diff_cancel length_dropWhile_le length_drop)
  then obtain ys where "xs = c # ys" using Cons by (cases xs) auto
  with assms have "\<not> p c" by (auto split: if_splits) (metis dropWhile_eq_Cons_conv)
  with Cons show ?thesis by simp
qed (simp only: dropWhile.simps)

lemma strip_by_idem: "strip_by sp (strip_by sp t) = strip_by sp t"
  by (simp add: strip_by_def dropWhile_idem dropWhile_rev_idem)

lemma strip_idem [simp]: "strip (strip t) = strip t" "trim (trim t) = trim t"
  by (simp_all add: strip_def trim_def strip_by_idem)

lemma length_strip: "length (strip t) \<le> length t" "length (trim t) \<le> length t"
  unfolding strip_def trim_def strip_by_def by (metis length_dropWhile_le length_rev order_trans)+

text \<open>\<open>needle in haystack\<close> for strings.\<close>

fun contains :: "pystr \<Rightarrow> pystr \<Rightarrow> bool" where
  "contains needle [] = (needle = [])"
| "contains needle (c # cs) = (take (length needle) (c # cs) = needle \<or> contains needle cs)"

definition startswith :: "pystr \<Rightarrow> pystr \<Rightarrow> bool" where
  "startswith t p = (take (length p) t = p)"

definition endswith :: "pystr \<Rightarrow> pystr \<Rightarrow> bool" where
  "endswith t p = (length p \<le> length t \<and> drop (length t - length p) t = p)"

lemma contains_iff: "contains needle t \<longleftrightarrow> (\<exists>u v. t = u @ needle @ v)"
proof (induction t)
  case (Cons c cs)
  have "take (length needle) (c # cs) = needle \<longleftrightarrow> (\<exists>v. c # cs = needle @ v)"
    by (metis append_eq_conv_conj append_take_drop_id)
  then show ?case
    by (auto simp: Cons Cons_eq_append_conv)
qed simp

lemma startswith_iff: "startswith t p \<longleftrightarrow> (\<exists>v. t = p @ v)"
  unfolding startswith_def by (metis append_eq_conv_conj append_take_drop_id)

lemma endswith_iff: "endswith t p \<longleftrightarrow> (\<exists>v. t = v @ p)"
  unfolding endswith_def by (metis append_eq_conv_conj append_take_drop_id diff_add_inverse2
      le_add2 length_append)

section \<open>The text form of a UUID\<close>

definition hex_digit :: "nat \<Rightarrow> char" where
  "hex_digit n = (if n < 10 then char_of (48 + n) else char_of (87 + n))"

fun hex_fixed :: "nat \<Rightarrow> nat \<Rightarrow> pystr" where
  "hex_fixed 0 n = []"
| "hex_fixed (Suc k) n = hex_fixed k (n div 16) @ [hex_digit (n mod 16)]"

definition uuid_str :: "uuid \<Rightarrow> pystr" where
  "uuid_str u = (let h = hex_fixed 32 u in
     take 8 h @ ''-'' @ take 4 (drop 8 h) @ ''-'' @ take 4 (drop 12 h) @ ''-'' @
     take 4 (drop 16 h) @ ''-'' @ drop 20 h)"

lemma take_drop_join: "take n (drop m h) @ drop (n + m) h = drop m h"
  by (metis append_take_drop_id drop_drop)

lemma length_hex_fixed [simp]: "length (hex_fixed k n) = k"
  by (induction k arbitrary: n) auto

lemma hex_digit_inj: "a < 16 \<Longrightarrow> b < 16 \<Longrightarrow> hex_digit a = hex_digit b \<Longrightarrow> a = b"
proof -
  assume ab: "a < 16" "b < 16" and eq: "hex_digit a = hex_digit b"
  have *: "(of_char (hex_digit k) :: nat) = (if k < 10 then 48 + k else 87 + k)" if "k < 16" for k
    using that by (simp add: hex_digit_def)
  from arg_cong [OF eq, of "of_char :: char \<Rightarrow> nat"] show "a = b"
    using ab by (simp add: * split: if_splits)
qed

lemma hex_fixed_inj: "a < 16 ^ k \<Longrightarrow> b < 16 ^ k \<Longrightarrow> hex_fixed k a = hex_fixed k b \<Longrightarrow> a = b"
proof (induction k arbitrary: a b)
  case (Suc k)
  then have "a div 16 < 16 ^ k" "b div 16 < 16 ^ k" by auto
  moreover from Suc.prems(3) have "hex_fixed k (a div 16) = hex_fixed k (b div 16)"
    and d: "hex_digit (a mod 16) = hex_digit (b mod 16)" by auto
  ultimately have "a div 16 = b div 16" using Suc.IH by blast
  moreover have "a mod 16 = b mod 16" using d by (intro hex_digit_inj) auto
  ultimately show ?case by (metis div_mult_mod_eq)
qed simp

lemma uuid_str_hex: "uuid_str a = uuid_str b \<Longrightarrow> hex_fixed 32 a = hex_fixed 32 b"
proof -
  assume eq: "uuid_str a = uuid_str b"
  have *: "filter (\<lambda>c. c \<noteq> CHR ''-'') (hex_fixed k n) = hex_fixed k n" for k n
  proof (induction k arbitrary: n)
    case (Suc k)
    have "(of_char (hex_digit (n mod 16)) :: nat) \<noteq> of_char CHR ''-''"
      by (simp add: hex_digit_def)
    then show ?case using Suc by auto
  qed simp
  let ?f = "filter (\<lambda>c. c \<noteq> CHR ''-'')"
  have split: "take 8 h @ take 4 (drop 8 h) @ take 4 (drop 12 h) @ take 4 (drop 16 h) @ drop 20 h = h"
    for h :: pystr
    using take_drop_join [of 4 16 h] take_drop_join [of 4 12 h] take_drop_join [of 4 8 h] by simp
  have "?f (uuid_str n) = hex_fixed 32 n" for n
  proof -
    have "?f (uuid_str n) = ?f (hex_fixed 32 n)"
      unfolding uuid_str_def Let_def by (subst (6) split [symmetric]) simp
    then show ?thesis by (simp add: *)
  qed
  then show "hex_fixed 32 a = hex_fixed 32 b" using eq by metis
qed

theorem uuid_str_inj: "a < 2 ^ 128 \<Longrightarrow> b < 2 ^ 128 \<Longrightarrow> uuid_str a = uuid_str b \<Longrightarrow> a = b"
  by (rule hex_fixed_inj [of _ 32]) (auto dest: uuid_str_hex)

section \<open>Evaluation\<close>

text \<open>
  The characters by their bits, and a text that waits for its number: a concrete run is evaluated
  without unfolding the text of an identifier that is not drawn yet.
\<close>

lemma isalnum_code [code]: "isalnum c \<longleftrightarrow> ascii_alnum c \<or> digit7 c \<and> (let n = of_char c :: nat in
    n \<in> {170, 178, 179, 181, 185, 186, 188, 189, 190} \<or> (192 \<le> n \<and> n \<noteq> 215 \<and> n \<noteq> 247))"
  by (cases c) (auto simp: isalnum_def Let_def of_bool_def)

lemma fold_char_code [code]: "fold_char c =
    (if digit7 c then
       (let n = of_char c :: nat in
        if 192 \<le> n \<and> n \<le> 222 \<and> n \<noteq> 215 then [char_of (n + 32)] else if n = 223 then ''ss'' else [c])
     else if upper_az c then [Char (digit0 c) (digit1 c) (digit2 c) (digit3 c) (digit4 c) True (digit6 c) False]
     else [c])"
proof -
  have up: "\<not> digit7 c \<and> \<not> digit5 c" if "upper_az c"
    using that by (cases c) (auto simp: upper_az_def of_bool_def split: if_splits)
  moreover have "of_char (Char (digit0 c) (digit1 c) (digit2 c) (digit3 c) (digit4 c) True (digit6 c) False) =
      of_char c + (32 :: nat)" if "upper_az c"
    using up [OF that] by (cases c) simp
  then have "char_of (of_char c + 32 :: nat) =
      Char (digit0 c) (digit1 c) (digit2 c) (digit3 c) (digit4 c) True (digit6 c) False" if "upper_az c"
    using that by (metis char_of_char)
  moreover have "of_char c < (128 :: nat)" if "\<not> digit7 c"
    using that by (cases c) (simp add: of_bool_def)
  ultimately show ?thesis unfolding fold_char_def Let_def by (cases "upper_az c"; cases "digit7 c") auto
qed

definition uuid_text :: "uuid \<Rightarrow> pystr" where
  "uuid_text u = (let h = hex_fixed 32 u in
     take 8 h @ ''-'' @ take 4 (drop 8 h) @ ''-'' @ take 4 (drop 12 h) @ ''-'' @
     take 4 (drop 16 h) @ ''-'' @ drop 20 h)"

lemma uuid_str_code [code]: "uuid_str u = (case u of 0 \<Rightarrow> uuid_text 0 | Suc m \<Rightarrow> uuid_text u)"
  by (cases u) (simp_all only: uuid_text_def uuid_str_def nat.case)

end
