(* ===== verification/Schema.thy ===== *)
theory Schema
  imports Pyval
begin

text \<open>
  The persistent data: one record per ORM class of the \<open>models.py\<close> files (a field per mapped
  column, the table's prefix in front), the check constraints of each table, and the database
  as the tables together. \<open>constraints\<close> is what PostgreSQL enforces when a statement writes:
  checks, primary keys, unique constraints and foreign keys. A row's status columns hold the
  strings the enums of the code have as values, as the mapped columns do. Of the columns with a
  server default only those some modelled code reads are kept.
\<close>

section \<open>Rows\<close>

record tenant =
  tn_id :: uuid
  tn_name :: pystr
  tn_slug :: pystr

record workspace =
  ws_id :: uuid
  ws_tenant_id :: uuid
  ws_name :: pystr
  ws_slug :: pystr

record project =
  pj_id :: uuid
  pj_workspace_id :: uuid
  pj_name :: pystr
  pj_slug :: pystr
  pj_description :: "pystr option"
  pj_status :: pystr
  pj_created_at :: instant
  pj_updated_at :: instant

record task =
  tk_id :: uuid
  tk_project_id :: uuid
  tk_title :: pystr
  tk_description :: "pystr option"
  tk_status :: pystr
  tk_created_at :: instant
  tk_updated_at :: instant

record policy_rule =
  pr_id :: uuid
  pr_tenant_id :: uuid
  pr_workspace_id :: "uuid option"
  pr_name :: pystr
  pr_enabled :: bool
  pr_action_pattern :: pystr
  pr_effect :: pystr
  pr_actor_type :: "pystr option"
  pr_resource_type :: "pystr option"
  pr_conditions_json :: pyval
  pr_created_at :: instant

record approval_request =
  ap_id :: uuid
  ap_tenant_id :: uuid
  ap_workspace_id :: uuid
  ap_action :: pystr
  ap_requester_actor_type :: pystr
  ap_requester_actor_id :: "pystr option"
  ap_resource_type :: "pystr option"
  ap_resource_id :: "uuid option"
  ap_project_id :: "uuid option"
  ap_task_id :: "uuid option"
  ap_status :: pystr
  ap_scope_type :: pystr
  ap_policy_effect :: pystr
  ap_matched_rule_ids :: pyval
  ap_policy_reasons :: pyval
  ap_decision_actor_type :: "pystr option"
  ap_decision_actor_id :: "pystr option"
  ap_requested_at :: instant
  ap_decided_at :: "instant option"
  ap_correlation_id :: "pystr option"
  ap_mutation_fingerprint :: "pystr option"

record audit_record =
  au_id :: uuid
  au_tenant_id :: uuid
  au_workspace_id :: uuid
  au_action :: pystr
  au_actor_type :: pystr
  au_actor_id :: "pystr option"
  au_outcome :: pystr
  au_resource_type :: "pystr option"
  au_resource_id :: "uuid option"
  au_project_id :: "uuid option"
  au_task_id :: "uuid option"
  au_correlation_id :: "pystr option"
  au_occurred_at :: instant
  au_metadata_json :: "pyval option"

record runtime_event =
  ev_id :: uuid
  ev_tenant_id :: uuid
  ev_workspace_id :: uuid
  ev_project_id :: "uuid option"
  ev_task_id :: "uuid option"
  ev_event_type :: pystr
  ev_source :: pystr
  ev_occurred_at :: instant
  ev_correlation_id :: "pystr option"
  ev_payload :: "pyval option"

record agent_definition =
  ad_id :: uuid
  ad_tenant_id :: uuid
  ad_workspace_id :: uuid
  ad_name :: pystr
  ad_slug :: pystr
  ad_version :: int
  ad_status :: pystr
  ad_category :: "pystr option"
  ad_mission :: pystr
  ad_capabilities :: "pystr list"
  ad_permissions :: "pystr list"
  ad_created_at :: instant

record agent_run =
  ar_id :: uuid
  ar_tenant_id :: uuid
  ar_workspace_id :: uuid
  ar_project_id :: "uuid option"
  ar_task_id :: "uuid option"
  ar_agent_definition_id :: uuid
  ar_agent_version :: int
  ar_agent_name :: pystr
  ar_agent_slug :: pystr
  ar_model_run_id :: "uuid option"
  ar_parent_agent_run_id :: "uuid option"
  ar_status :: pystr
  ar_correlation_id :: "pystr option"
  ar_failure_code :: "pystr option"
  ar_started_at :: "instant option"
  ar_completed_at :: "instant option"
  ar_created_at :: instant
  ar_updated_at :: instant

text \<open>
  The money columns (\<open>Numeric(20, 10)\<close>) are counted in units of \<open>10\<^sup>-\<^sup>1\<^sup>0\<close>, a duration
  (\<open>Numeric(20, 3)\<close>) in thousandths of a millisecond.
\<close>

type_synonym money = int

record model_definition =
  md_id :: uuid
  md_provider_id :: pystr
  md_provider_model_id :: pystr
  md_display_name :: pystr
  md_status :: pystr
  md_execution_target_class :: pystr
  md_context_window :: "int option"
  md_max_output_tokens :: "int option"
  md_reasoning :: "bool option"
  md_coding :: "bool option"
  md_tool_calling :: "bool option"
  md_structured_output :: "bool option"
  md_contract_enforcement_grade :: pystr
  md_enforcement_metadata_source :: pystr
  md_vision :: "bool option"
  md_input_price_per_million :: "money option"
  md_output_price_per_million :: "money option"
  md_currency :: "pystr option"
  md_free_allowlisted :: bool
  md_family :: "pystr option"
  md_revision :: "pystr option"
  md_last_verified_at :: "instant option"

text \<open>
  A model run is kept in three parts: what identifies the invocation and its lifecycle, the
  route and contract it ran under, and what it used.
\<close>

record model_route =
  mr_target_structured_output_capability :: bool
  mr_contract_enforcement_grade :: pystr
  mr_minimum_contract_enforcement_grade :: pystr
  mr_enforcement_metadata_source :: "pystr option"
  mr_qualification_present :: bool
  mr_qualification_source :: "pystr option"
  mr_upstream_provider_constraint :: "pystr option"
  mr_provider_allow_fallbacks :: "bool option"
  mr_provider_require_parameters :: bool
  mr_contract_strategy_tier :: "pystr option"
  mr_contract_fingerprint :: "pystr option"
  mr_contextual_constraint_count :: "int option"
  mr_execution_max_output_tokens :: "int option"
  mr_output_budget_source :: "pystr option"
  mr_recovery_attempt_kind :: pystr
  mr_recovery_attempt_index :: int

record model_used =
  mr_finish_reason :: "pystr option"
  mr_truncation_classification :: pystr
  mr_provider_resolved_model_id :: "pystr option"
  mr_upstream_provider_id :: "pystr option"
  mr_provider_request_id :: "pystr option"
  mr_input_tokens :: "int option"
  mr_output_tokens :: "int option"
  mr_total_tokens :: "int option"
  mr_estimated_cost :: "money option"
  mr_actual_cost :: "money option"
  mr_input_price_per_million_snapshot :: "money option"
  mr_output_price_per_million_snapshot :: "money option"
  mr_currency :: "pystr option"
  mr_duration_ms :: "int option"

record model_run =
  mr_id :: uuid
  mr_tenant_id :: uuid
  mr_workspace_id :: uuid
  mr_project_id :: "uuid option"
  mr_agent_run_id :: "uuid option"
  mr_model_definition_id :: "uuid option"
  mr_provider_id :: pystr
  mr_provider_model_id :: pystr
  mr_route :: model_route
  mr_used :: model_used
  mr_status :: pystr
  mr_correlation_id :: "pystr option"
  mr_failure_code :: "pystr option"
  mr_started_at :: instant
  mr_completed_at :: "instant option"
  mr_created_at :: instant
  mr_updated_at :: instant

record workflow_plan =
  wp_id :: uuid
  wp_tenant_id :: uuid
  wp_workspace_id :: uuid
  wp_project_id :: uuid
  wp_task_id :: uuid
  wp_version :: int
  wp_title :: pystr
  wp_summary :: "pystr option"
  wp_change_reason :: "pystr option"
  wp_created_at :: instant

record workflow_step =
  wt_id :: uuid
  wt_workflow_plan_id :: uuid
  wt_step_key :: pystr
  wt_title :: pystr
  wt_step_type :: pystr
  wt_assigned_capability :: "pystr option"
  wt_agent_definition_id :: "uuid option"
  wt_position :: nat
  wt_risk_level :: "pystr option"
  wt_created_at :: instant

record step_dependency =
  sd_workflow_plan_id :: uuid
  sd_workflow_step_id :: uuid
  sd_depends_on_step_id :: uuid

record workflow_run =
  wr_id :: uuid
  wr_tenant_id :: uuid
  wr_workspace_id :: uuid
  wr_project_id :: uuid
  wr_task_id :: uuid
  wr_workflow_plan_id :: uuid
  wr_plan_version :: int
  wr_status :: pystr
  wr_correlation_id :: "pystr option"
  wr_failure_code :: "pystr option"
  wr_started_at :: "instant option"
  wr_completed_at :: "instant option"
  wr_created_at :: instant
  wr_updated_at :: instant

record workflow_step_run =
  sr_id :: uuid
  sr_workflow_run_id :: uuid
  sr_workflow_plan_id :: uuid
  sr_workflow_step_id :: uuid
  sr_agent_run_id :: "uuid option"
  sr_status :: pystr
  sr_failure_code :: "pystr option"
  sr_started_at :: "instant option"
  sr_completed_at :: "instant option"
  sr_created_at :: instant
  sr_updated_at :: instant

record step_handoff =
  ho_id :: uuid
  ho_workflow_run_id :: uuid
  ho_workflow_plan_id :: uuid
  ho_source_step_run_id :: "uuid option"
  ho_destination_step_run_id :: uuid
  ho_handoff_type :: pystr
  ho_objective :: pystr
  ho_acceptance_criteria :: "pystr list"
  ho_evidence_items :: "pystr list"

record tool_call =
  tc_id :: uuid
  tc_tenant_id :: uuid
  tc_workspace_id :: uuid
  tc_project_id :: "uuid option"
  tc_task_id :: "uuid option"
  tc_agent_run_id :: uuid
  tc_proposal_model_run_id :: "uuid option"
  tc_approval_request_id :: "uuid option"
  tc_call_key :: pystr
  tc_tool_id :: pystr
  tc_safe_input_metadata :: pyval
  tc_status :: pystr
  tc_policy_effect :: "pystr option"
  tc_matched_rule_ids :: "pystr list"
  tc_execution_target_class :: pystr
  tc_side_effect_class :: pystr
  tc_result_metadata :: "pyval option"
  tc_failure_code :: "pystr option"
  tc_started_at :: "instant option"
  tc_completed_at :: "instant option"
  tc_mutation_fingerprint :: "pystr option"
  tc_preimage_sha256 :: "pystr option"
  tc_candidate_sha256 :: "pystr option"
  tc_prepared_mutation :: "pyval option"
  tc_created_at :: instant

text \<open>The confidence (\<open>Numeric(3, 2)\<close>) is counted in hundredths.\<close>

record memory_record =
  me_id :: uuid
  me_workspace_id :: uuid
  me_project_id :: "uuid option"
  me_task_id :: "uuid option"
  me_workflow_run_id :: "uuid option"
  me_kind :: pystr
  me_knowledge_state :: pystr
  me_statement :: pystr
  me_confidence :: int
  me_importance :: int
  me_valid_from :: instant
  me_valid_to :: "instant option"
  me_lifecycle :: pystr
  me_sensitivity :: pystr
  me_model_access :: pystr
  me_created_at :: instant
  me_updated_at :: instant

record memory_source =
  mo_id :: uuid
  mo_memory_id :: uuid
  mo_source_type :: pystr
  mo_source_reference_id :: "pystr option"
  mo_created_at :: instant

section \<open>Check constraints\<close>

text \<open>
  One predicate per table, the conjunction of the \<open>CheckConstraint\<close>s its model declares, in
  their order. A regular expression of a check is matched like the pattern it spells.
\<close>

definition one_of :: "pystr list \<Rightarrow> pystr \<Rightarrow> bool" where
  "one_of values v = List.member values v"

definition tenant_checks :: "tenant \<Rightarrow> bool" where
  "tenant_checks r = (between 1 200 (tn_name r) \<and> between 1 63 (tn_slug r))"

definition workspace_checks :: "workspace \<Rightarrow> bool" where
  "workspace_checks r = (between 1 200 (ws_name r) \<and> between 1 63 (ws_slug r))"

definition project_checks :: "project \<Rightarrow> bool" where
  "project_checks r =
    (between 1 200 (pj_name r) \<and> between 1 63 (pj_slug r) \<and>
     opt_all (\<lambda>d. length d \<le> 4000) (pj_description r) \<and>
     one_of [''ACTIVE'', ''PAUSED'', ''ARCHIVED''] (pj_status r))"

definition task_checks :: "task \<Rightarrow> bool" where
  "task_checks r =
    (between 1 200 (tk_title r) \<and>
     opt_all (\<lambda>d. length d \<le> 4000) (tk_description r) \<and>
     one_of [''BACKLOG'', ''READY'', ''IN_PROGRESS'', ''BLOCKED'', ''REVIEW'', ''DONE'', ''CANCELLED'']
       (tk_status r))"

definition policy_rule_checks :: "policy_rule \<Rightarrow> bool" where
  "policy_rule_checks r =
    (between 1 200 (pr_name r) \<and> between 1 100 (pr_action_pattern r) \<and>
     one_of [''ALLOW'', ''ALLOW_WITH_LOG'', ''REQUIRE_CONFIRMATION'', ''BLOCK''] (pr_effect r) \<and>
     opt_all (between 1 64) (pr_actor_type r) \<and> opt_all (between 1 64) (pr_resource_type r))"

definition json_array_upto :: "nat \<Rightarrow> pyval \<Rightarrow> bool" where
  "json_array_upto n v = (case v of PList xs \<Rightarrow> length xs \<le> n | _ \<Rightarrow> False)"

definition approval_checks :: "approval_request \<Rightarrow> bool" where
  "approval_checks r =
    (between 3 100 (ap_action r) \<and>
     one_of [''api'', ''agent'', ''model'', ''service'', ''tool''] (ap_requester_actor_type r) \<and>
     opt_all (between 1 128) (ap_requester_actor_id r) \<and>
     opt_all (between 1 64) (ap_resource_type r) \<and>
     (ap_resource_type r = None) = (ap_resource_id r = None) \<and>
     (ap_task_id r = None \<or> ap_project_id r \<noteq> None) \<and>
     one_of [''PENDING'', ''APPROVED'', ''REJECTED''] (ap_status r) \<and>
     ap_scope_type r = ''ONE_ACTION'' \<and>
     ap_policy_effect r = ''REQUIRE_CONFIRMATION'' \<and>
     json_array_upto 64 (ap_matched_rule_ids r) \<and>
     json_array_upto 64 (ap_policy_reasons r) \<and>
     (ap_status r = ''PENDING'' \<and> ap_decision_actor_type r = None \<and>
        ap_decision_actor_id r = None \<and> ap_decided_at r = None \<or>
      one_of [''APPROVED'', ''REJECTED''] (ap_status r) \<and>
        ap_decision_actor_type r = Some ''local_user'' \<and>
        ap_decision_actor_id r = None \<and> ap_decided_at r \<noteq> None) \<and>
     opt_all (between 1 128) (ap_correlation_id r))"

definition audit_checks :: "audit_record \<Rightarrow> bool" where
  "audit_checks r =
    (between 3 100 (au_action r) \<and>
     one_of [''system'', ''api'', ''local_user'', ''service''] (au_actor_type r) \<and>
     opt_all (between 1 128) (au_actor_id r) \<and>
     one_of [''success'', ''failure'', ''blocked'', ''cancelled''] (au_outcome r) \<and>
     opt_all (one_of [''project'', ''task'']) (au_resource_type r) \<and>
     (au_resource_type r = None) = (au_resource_id r = None) \<and>
     (au_task_id r = None \<or> au_project_id r \<noteq> None) \<and>
     opt_all (between 1 128) (au_correlation_id r))"

definition event_checks :: "runtime_event \<Rightarrow> bool" where
  "event_checks r =
    (between 3 100 (ev_event_type r) \<and> between 1 64 (ev_source r) \<and>
     opt_all (between 1 128) (ev_correlation_id r) \<and>
     (ev_task_id r = None \<or> ev_project_id r \<noteq> None))"

definition agent_definition_checks :: "agent_definition \<Rightarrow> bool" where
  "agent_definition_checks r =
    (between 1 120 (ad_name r) \<and> fullmatch TYPE_IDENTIFIER (ad_slug r) \<and> 0 < ad_version r \<and>
     one_of [''ENABLED'', ''DISABLED'', ''ARCHIVED''] (ad_status r) \<and>
     opt_all (between 1 64) (ad_category r) \<and> between 1 2000 (ad_mission r) \<and>
     length (ad_capabilities r) \<le> 32 \<and> length (ad_permissions r) \<le> 32)"

text \<open>
  The lifecycle shape the three kinds of run share: which of \<open>started_at\<close>, \<open>completed_at\<close>
  and \<open>failure_code\<close> each status requires or forbids. \<open>idle\<close> are the statuses before the
  start, \<open>active\<close> those between start and end, \<open>good\<close> the successful end.
\<close>

definition lifecycle_shape ::
  "pystr list \<Rightarrow> pystr list \<Rightarrow> pystr \<Rightarrow> pystr \<Rightarrow> instant option \<Rightarrow> instant option \<Rightarrow> pystr option \<Rightarrow> bool"
where
  "lifecycle_shape idle active good status started completed failure =
    (one_of idle status \<and> started = None \<and> completed = None \<and> failure = None \<or>
     one_of active status \<and> started \<noteq> None \<and> completed = None \<and> failure = None \<or>
     status = good \<and> started \<noteq> None \<and> completed \<noteq> None \<and> failure = None \<or>
     status = ''FAILED'' \<and> started \<noteq> None \<and> completed \<noteq> None \<and> failure \<noteq> None \<or>
     status = ''CANCELLED'' \<and> completed \<noteq> None \<and> failure = None)"

definition timestamp_order :: "instant option \<Rightarrow> instant option \<Rightarrow> bool" where
  "timestamp_order started completed =
    (case (started, completed) of (Some s, Some c) \<Rightarrow> s \<le> c | _ \<Rightarrow> True)"

definition agent_run_checks :: "agent_run \<Rightarrow> bool" where
  "agent_run_checks r =
    (0 < ar_agent_version r \<and> between 1 120 (ar_agent_name r) \<and>
     fullmatch TYPE_IDENTIFIER (ar_agent_slug r) \<and>
     one_of [''CREATED'', ''RUNNING'', ''WAITING_FOR_APPROVAL'', ''SUCCEEDED'', ''FAILED'', ''CANCELLED'']
       (ar_status r) \<and>
     opt_all (between 1 128) (ar_correlation_id r) \<and>
     opt_all (fullmatch TYPE_IDENTIFIER) (ar_failure_code r) \<and>
     (ar_task_id r = None \<or> ar_project_id r \<noteq> None) \<and>
     ar_parent_agent_run_id r \<noteq> Some (ar_id r) \<and>
     lifecycle_shape [''CREATED''] [''RUNNING'', ''WAITING_FOR_APPROVAL''] ''SUCCEEDED''
       (ar_status r) (ar_started_at r) (ar_completed_at r) (ar_failure_code r) \<and>
     timestamp_order (ar_started_at r) (ar_completed_at r))"

definition GRADES :: "pystr list" where
  "GRADES = [''UNSUPPORTED'', ''BEST_EFFORT'', ''PROVIDER_ENFORCED'', ''STRICT_SCHEMA_GUARANTEED'']"

definition model_definition_checks :: "model_definition \<Rightarrow> bool" where
  "model_definition_checks r =
    (between 1 64 (md_provider_id r) \<and> between 1 256 (md_provider_model_id r) \<and>
     between 1 200 (md_display_name r) \<and>
     one_of [''AVAILABLE'', ''UNAVAILABLE'', ''STALE'', ''UNKNOWN''] (md_status r) \<and>
     one_of [''LOCAL'', ''REMOTE''] (md_execution_target_class r) \<and>
     opt_all (\<lambda>n. 1 \<le> n \<and> n \<le> 10000000) (md_context_window r) \<and>
     opt_all (\<lambda>n. 1 \<le> n \<and> n \<le> 10000000) (md_max_output_tokens r) \<and>
     one_of GRADES (md_contract_enforcement_grade r) \<and>
     between 1 64 (md_enforcement_metadata_source r) \<and>
     opt_all ((\<le>) 0) (md_input_price_per_million r) \<and>
     opt_all ((\<le>) 0) (md_output_price_per_million r) \<and>
     (md_input_price_per_million r = None \<and> md_output_price_per_million r = None \<and>
        md_currency r = None \<or>
      (md_input_price_per_million r \<noteq> None \<or> md_output_price_per_million r \<noteq> None) \<and>
        opt_all (\<lambda>c. length c = 3) (md_currency r)) \<and>
     opt_all (between 1 128) (md_family r) \<and> opt_all (between 1 128) (md_revision r))"

definition fingerprint_format :: "pystr \<Rightarrow> bool" where
  "fingerprint_format t =
    (between 8 64 t \<and> list_all (\<lambda>c. digit09 c \<or> (CHR ''a'' \<le> c \<and> c \<le> CHR ''f'')) t)"

definition model_route_checks :: "model_route \<Rightarrow> bool" where
  "model_route_checks r =
    (one_of GRADES (mr_contract_enforcement_grade r) \<and>
     one_of GRADES (mr_minimum_contract_enforcement_grade r) \<and>
     opt_all (one_of [''STRICT_SCHEMA'', ''JSON_OBJECT'', ''JSON_INSTRUCTION'']) (mr_contract_strategy_tier r) \<and>
     one_of [''INITIAL'', ''TRUNCATION'', ''CONTRACT_REPAIR'', ''TOOL_CONTINUATION'']
       (mr_recovery_attempt_kind r) \<and>
     0 \<le> mr_recovery_attempt_index r \<and> mr_recovery_attempt_index r \<le> 1 \<and>
     opt_all (between 1 64) (mr_enforcement_metadata_source r) \<and>
     opt_all (between 1 64) (mr_qualification_source r) \<and>
     opt_all (between 1 128) (mr_upstream_provider_constraint r) \<and>
     opt_all fingerprint_format (mr_contract_fingerprint r) \<and>
     opt_all (\<lambda>n. 0 \<le> n \<and> n \<le> 16) (mr_contextual_constraint_count r) \<and>
     opt_all (\<lambda>n. 1 \<le> n \<and> n \<le> 65536) (mr_execution_max_output_tokens r) \<and>
     opt_all (between 1 64) (mr_output_budget_source r))"

definition model_used_checks :: "model_used \<Rightarrow> bool" where
  "model_used_checks r =
    (one_of [''NONE'', ''TOKEN_LIMIT'', ''OTHER''] (mr_truncation_classification r) \<and>
     opt_all (between 1 128) (mr_upstream_provider_id r) \<and>
     opt_all (between 1 128) (mr_finish_reason r) \<and>
     opt_all (between 1 256) (mr_provider_resolved_model_id r) \<and>
     opt_all (between 1 128) (mr_provider_request_id r) \<and>
     opt_all ((\<le>) 0) (mr_input_tokens r) \<and> opt_all ((\<le>) 0) (mr_output_tokens r) \<and>
     opt_all ((\<le>) 0) (mr_total_tokens r) \<and>
     (case (mr_input_tokens r, mr_output_tokens r, mr_total_tokens r) of
        (Some i, Some u, Some t) \<Rightarrow> t = i + u | _ \<Rightarrow> True) \<and>
     opt_all ((\<le>) 0) (mr_estimated_cost r) \<and> opt_all ((\<le>) 0) (mr_actual_cost r) \<and>
     opt_all ((\<le>) 0) (mr_input_price_per_million_snapshot r) \<and>
     opt_all ((\<le>) 0) (mr_output_price_per_million_snapshot r) \<and>
     opt_all ((\<le>) 0) (mr_duration_ms r) \<and> opt_all (\<lambda>c. length c = 3) (mr_currency r) \<and>
     (mr_estimated_cost r = None \<and> mr_actual_cost r = None \<and>
        mr_input_price_per_million_snapshot r = None \<and>
        mr_output_price_per_million_snapshot r = None \<or> mr_currency r \<noteq> None))"

definition model_run_checks :: "model_run \<Rightarrow> bool" where
  "model_run_checks r =
    (between 1 64 (mr_provider_id r) \<and> between 1 256 (mr_provider_model_id r) \<and>
     model_route_checks (mr_route r) \<and> model_used_checks (mr_used r) \<and>
     one_of [''RUNNING'', ''SUCCEEDED'', ''FAILED'', ''CANCELLED''] (mr_status r) \<and>
     opt_all (between 1 128) (mr_correlation_id r) \<and>
     opt_all (between 1 64) (mr_failure_code r) \<and>
     (mr_status r = ''RUNNING'' \<and> mr_completed_at r = None \<and> mr_failure_code r = None \<or>
      mr_status r = ''SUCCEEDED'' \<and> mr_completed_at r \<noteq> None \<and> mr_failure_code r = None \<or>
      mr_status r = ''FAILED'' \<and> mr_completed_at r \<noteq> None \<and> mr_failure_code r \<noteq> None \<or>
      mr_status r = ''CANCELLED'' \<and> mr_completed_at r \<noteq> None \<and>
        mr_failure_code r = Some ''cancellation'') \<and>
     timestamp_order (Some (mr_started_at r)) (mr_completed_at r))"

definition workflow_plan_checks :: "workflow_plan \<Rightarrow> bool" where
  "workflow_plan_checks r =
    (0 < wp_version r \<and> between 1 200 (wp_title r) \<and>
     opt_all (\<lambda>t. length t \<le> 2000) (wp_summary r) \<and>
     opt_all (between 1 500) (wp_change_reason r) \<and>
     (wp_version r = 1 \<and> wp_change_reason r = None \<or>
      1 < wp_version r \<and> wp_change_reason r \<noteq> None))"

definition workflow_step_checks :: "workflow_step \<Rightarrow> bool" where
  "workflow_step_checks r =
    (fullmatch TYPE_IDENTIFIER (wt_step_key r) \<and> between 1 200 (wt_title r) \<and>
     one_of [''AGENT_TASK'', ''MANUAL_REVIEW'', ''SYSTEM''] (wt_step_type r) \<and>
     opt_all (fullmatch TYPE_IDENTIFIER) (wt_assigned_capability r) \<and>
     0 \<le> wt_position r \<and>
     opt_all (one_of [''LOW'', ''MEDIUM'', ''HIGH'', ''CRITICAL'']) (wt_risk_level r))"

definition step_dependency_checks :: "step_dependency \<Rightarrow> bool" where
  "step_dependency_checks r = (sd_workflow_step_id r \<noteq> sd_depends_on_step_id r)"

definition workflow_run_checks :: "workflow_run \<Rightarrow> bool" where
  "workflow_run_checks r =
    (0 < wr_plan_version r \<and>
     one_of [''CREATED'', ''RUNNING'', ''COMPLETED'', ''FAILED'', ''CANCELLED''] (wr_status r) \<and>
     opt_all (between 1 128) (wr_correlation_id r) \<and>
     opt_all (fullmatch TYPE_IDENTIFIER) (wr_failure_code r) \<and>
     lifecycle_shape [''CREATED''] [''RUNNING''] ''COMPLETED''
       (wr_status r) (wr_started_at r) (wr_completed_at r) (wr_failure_code r) \<and>
     timestamp_order (wr_started_at r) (wr_completed_at r))"

definition workflow_step_run_checks :: "workflow_step_run \<Rightarrow> bool" where
  "workflow_step_run_checks r =
    (one_of [''PENDING'', ''READY'', ''RUNNING'', ''WAITING_FOR_APPROVAL'', ''COMPLETED'', ''FAILED'', ''CANCELLED'']
       (sr_status r) \<and>
     opt_all (fullmatch TYPE_IDENTIFIER) (sr_failure_code r) \<and>
     lifecycle_shape [''PENDING'', ''READY''] [''RUNNING'', ''WAITING_FOR_APPROVAL''] ''COMPLETED''
       (sr_status r) (sr_started_at r) (sr_completed_at r) (sr_failure_code r) \<and>
     timestamp_order (sr_started_at r) (sr_completed_at r))"

definition step_handoff_checks :: "step_handoff \<Rightarrow> bool" where
  "step_handoff_checks r =
    (one_of [''DEVELOPMENT_REQUEST'', ''MANAGER_ASSIGNMENT'', ''WORKER_EVIDENCE''] (ho_handoff_type r) \<and>
     between 1 2000 (ho_objective r) \<and>
     1 \<le> length (ho_acceptance_criteria r) \<and> length (ho_acceptance_criteria r) \<le> 24 \<and>
     length (ho_evidence_items r) \<le> 64)"

definition is_object :: "pyval \<Rightarrow> bool" where
  "is_object v = (case v of PDict _ \<Rightarrow> True | _ \<Rightarrow> False)"

definition tool_call_checks :: "tool_call \<Rightarrow> bool" where
  "tool_call_checks r =
    (between 1 100 (tc_tool_id r) \<and> between 1 100 (tc_call_key r) \<and>
     one_of [''PROPOSED'', ''PENDING_APPROVAL'', ''RUNNING'', ''SUCCEEDED'', ''FAILED'', ''BLOCKED''] (tc_status r) \<and>
     opt_all (one_of [''ALLOW'', ''ALLOW_WITH_LOG'', ''REQUIRE_CONFIRMATION'', ''BLOCK'']) (tc_policy_effect r) \<and>
     tc_execution_target_class r = ''LOCAL'' \<and> one_of [''READ_ONLY'', ''MUTATION''] (tc_side_effect_class r) \<and>
     opt_all (between 1 64) (tc_failure_code r) \<and> timestamp_order (tc_started_at r) (tc_completed_at r) \<and>
     (tc_task_id r = None \<or> tc_project_id r \<noteq> None) \<and> is_object (tc_safe_input_metadata r) \<and>
     length (tc_matched_rule_ids r) \<le> 64 \<and> opt_all is_object (tc_result_metadata r) \<and>
     ((one_of [''PROPOSED'', ''PENDING_APPROVAL''] (tc_status r) \<and> tc_started_at r = None \<and> tc_completed_at r = None) \<or>
      (tc_status r = ''RUNNING'' \<and> tc_started_at r \<noteq> None \<and> tc_completed_at r = None) \<or>
      (one_of [''SUCCEEDED'', ''FAILED''] (tc_status r) \<and> tc_started_at r \<noteq> None \<and> tc_completed_at r \<noteq> None) \<or>
      (tc_status r = ''BLOCKED'' \<and> tc_completed_at r \<noteq> None)))"

definition memory_record_checks :: "memory_record \<Rightarrow> bool" where
  "memory_record_checks r =
    (one_of [''FACT'', ''DECISION'', ''PREFERENCE'', ''CONSTRAINT'', ''EVENT'', ''NOTE''] (me_kind r) \<and>
     one_of [''CONFIRMED_FACT'', ''OBSERVED_FACT'', ''INFERENCE'', ''HYPOTHESIS'', ''DISPUTED'', ''OBSOLETE'']
       (me_knowledge_state r) \<and>
     between 1 2000 (me_statement r) \<and> 0 \<le> me_confidence r \<and> me_confidence r \<le> 100 \<and>
     1 \<le> me_importance r \<and> me_importance r \<le> 5 \<and>
     opt_all (\<lambda>t. me_valid_from r < t) (me_valid_to r) \<and>
     one_of [''ACTIVE'', ''ARCHIVED''] (me_lifecycle r) \<and>
     one_of [''PUBLIC'', ''INTERNAL'', ''SENSITIVE'', ''RESTRICTED''] (me_sensitivity r) \<and>
     one_of [''LOCAL_ONLY'', ''LOCAL_AND_REMOTE''] (me_model_access r) \<and>
     (me_sensitivity r \<noteq> ''RESTRICTED'' \<or> me_model_access r = ''LOCAL_ONLY'') \<and>
     (me_task_id r = None \<or> me_project_id r \<noteq> None))"

definition memory_source_checks :: "memory_source \<Rightarrow> bool" where
  "memory_source_checks r =
    (one_of [''USER_STATEMENT'', ''TOOL_OBSERVATION'', ''DOCUMENT'', ''AGENT_RESULT'', ''SYSTEM_EVENT'',
       ''DERIVED_FROM_MEMORY'', ''MANUAL_EDIT''] (mo_source_type r) \<and>
     opt_all (between 1 256) (mo_source_reference_id r))"

section \<open>The database\<close>

record db =
  tenants :: "tenant list"
  workspaces :: "workspace list"
  projects :: "project list"
  tasks :: "task list"
  policy_rules :: "policy_rule list"
  approval_requests :: "approval_request list"
  audit_records :: "audit_record list"
  runtime_events :: "runtime_event list"
  agent_definitions :: "agent_definition list"
  agent_runs :: "agent_run list"
  model_definitions :: "model_definition list"
  model_runs :: "model_run list"
  workflow_plans :: "workflow_plan list"
  workflow_steps :: "workflow_step list"
  step_dependencies :: "step_dependency list"
  workflow_runs :: "workflow_run list"
  workflow_step_runs :: "workflow_step_run list"
  step_handoffs :: "step_handoff list"
  tool_calls :: "tool_call list"
  memory_records :: "memory_record list"
  memory_sources :: "memory_source list"

definition empty_db :: db where
  "empty_db = \<lparr>tenants = [], workspaces = [], projects = [], tasks = [], policy_rules = [],
     approval_requests = [], audit_records = [], runtime_events = [], agent_definitions = [],
     agent_runs = [], model_definitions = [], model_runs = [], workflow_plans = [], workflow_steps = [], step_dependencies = [],
     workflow_runs = [], workflow_step_runs = [], step_handoffs = [], tool_calls = [],
     memory_records = [], memory_sources = []\<rparr>"

definition tenant_ids :: "db \<Rightarrow> uuid list" where "tenant_ids d = map tn_id (tenants d)"
definition workspace_ids :: "db \<Rightarrow> uuid list" where "workspace_ids d = map ws_id (workspaces d)"
definition project_ids :: "db \<Rightarrow> uuid list" where "project_ids d = map pj_id (projects d)"
definition task_ids :: "db \<Rightarrow> uuid list" where "task_ids d = map tk_id (tasks d)"
definition definition_ids :: "db \<Rightarrow> uuid list" where "definition_ids d = map ad_id (agent_definitions d)"
definition agent_run_ids :: "db \<Rightarrow> uuid list" where "agent_run_ids d = map ar_id (agent_runs d)"

text \<open>
  The constraints of each table over the whole database: its checks on every row, its primary
  key and unique constraints, and its foreign keys. \<open>distinct\<close> over optional keys counts
  only the present ones, as a unique constraint does.
\<close>

definition tenant_table_ok :: "db \<Rightarrow> bool" where
  "tenant_table_ok d =
    (list_all tenant_checks (tenants d) \<and> distinct (tenant_ids d) \<and>
     distinct (map tn_slug (tenants d)))"

definition workspace_table_ok :: "db \<Rightarrow> bool" where
  "workspace_table_ok d =
    (list_all workspace_checks (workspaces d) \<and> distinct (workspace_ids d) \<and>
     distinct (map (\<lambda>r. (ws_tenant_id r, ws_slug r)) (workspaces d)) \<and>
     references (Some \<circ> ws_tenant_id) (workspaces d) (tenant_ids d))"

definition project_table_ok :: "db \<Rightarrow> bool" where
  "project_table_ok d =
    (list_all project_checks (projects d) \<and> distinct (project_ids d) \<and>
     distinct (map (\<lambda>r. (pj_workspace_id r, pj_slug r)) (projects d)) \<and>
     references (Some \<circ> pj_workspace_id) (projects d) (workspace_ids d))"

definition task_table_ok :: "db \<Rightarrow> bool" where
  "task_table_ok d =
    (list_all task_checks (tasks d) \<and> distinct (task_ids d) \<and>
     references (Some \<circ> tk_project_id) (tasks d) (project_ids d))"

definition policy_table_ok :: "db \<Rightarrow> bool" where
  "policy_table_ok d =
    (list_all policy_rule_checks (policy_rules d) \<and> distinct (map pr_id (policy_rules d)) \<and>
     references (Some \<circ> pr_tenant_id) (policy_rules d) (tenant_ids d) \<and>
     references pr_workspace_id (policy_rules d) (workspace_ids d))"

definition approval_table_ok :: "db \<Rightarrow> bool" where
  "approval_table_ok d =
    (list_all approval_checks (approval_requests d) \<and>
     distinct (map ap_id (approval_requests d)) \<and>
     references (Some \<circ> ap_tenant_id) (approval_requests d) (tenant_ids d) \<and>
     references (Some \<circ> ap_workspace_id) (approval_requests d) (workspace_ids d) \<and>
     references ap_project_id (approval_requests d) (project_ids d) \<and>
     references ap_task_id (approval_requests d) (task_ids d))"

definition audit_table_ok :: "db \<Rightarrow> bool" where
  "audit_table_ok d =
    (list_all audit_checks (audit_records d) \<and> distinct (map au_id (audit_records d)) \<and>
     references (Some \<circ> au_tenant_id) (audit_records d) (tenant_ids d) \<and>
     references (Some \<circ> au_workspace_id) (audit_records d) (workspace_ids d) \<and>
     references au_project_id (audit_records d) (project_ids d) \<and>
     references au_task_id (audit_records d) (task_ids d))"

definition event_table_ok :: "db \<Rightarrow> bool" where
  "event_table_ok d =
    (list_all event_checks (runtime_events d) \<and> distinct (map ev_id (runtime_events d)) \<and>
     references (Some \<circ> ev_tenant_id) (runtime_events d) (tenant_ids d) \<and>
     references (Some \<circ> ev_workspace_id) (runtime_events d) (workspace_ids d) \<and>
     references ev_project_id (runtime_events d) (project_ids d) \<and>
     references ev_task_id (runtime_events d) (task_ids d))"

definition agent_definition_table_ok :: "db \<Rightarrow> bool" where
  "agent_definition_table_ok d =
    (list_all agent_definition_checks (agent_definitions d) \<and> distinct (definition_ids d) \<and>
     distinct (map (\<lambda>r. (ad_tenant_id r, ad_workspace_id r, ad_slug r, ad_version r))
       (agent_definitions d)) \<and>
     references (Some \<circ> ad_tenant_id) (agent_definitions d) (tenant_ids d) \<and>
     references (Some \<circ> ad_workspace_id) (agent_definitions d) (workspace_ids d))"

definition agent_run_table_ok :: "db \<Rightarrow> bool" where
  "agent_run_table_ok d =
    (list_all agent_run_checks (agent_runs d) \<and> distinct (agent_run_ids d) \<and>
     distinct (List.map_filter ar_model_run_id (agent_runs d)) \<and>
     references (Some \<circ> ar_tenant_id) (agent_runs d) (tenant_ids d) \<and>
     references (Some \<circ> ar_workspace_id) (agent_runs d) (workspace_ids d) \<and>
     references ar_project_id (agent_runs d) (project_ids d) \<and>
     references ar_task_id (agent_runs d) (task_ids d) \<and>
     references (Some \<circ> ar_agent_definition_id) (agent_runs d) (definition_ids d) \<and>
     references ar_model_run_id (agent_runs d) (map mr_id (model_runs d)) \<and>
     references ar_parent_agent_run_id (agent_runs d) (agent_run_ids d))"

definition model_definition_table_ok :: "db \<Rightarrow> bool" where
  "model_definition_table_ok d =
    (list_all model_definition_checks (model_definitions d) \<and>
     distinct (map md_id (model_definitions d)) \<and>
     distinct (map (\<lambda>r. (md_provider_id r, md_provider_model_id r)) (model_definitions d)))"

definition model_run_table_ok :: "db \<Rightarrow> bool" where
  "model_run_table_ok d =
    (list_all model_run_checks (model_runs d) \<and> distinct (map mr_id (model_runs d)) \<and>
     distinct (List.map_filter mr_agent_run_id
       (filter (\<lambda>r. mr_recovery_attempt_kind (mr_route r) = ''TOOL_CONTINUATION'') (model_runs d))) \<and>
     references (Some \<circ> mr_tenant_id) (model_runs d) (tenant_ids d) \<and>
     references (Some \<circ> mr_workspace_id) (model_runs d) (workspace_ids d) \<and>
     references mr_project_id (model_runs d) (project_ids d) \<and>
     references mr_agent_run_id (model_runs d) (agent_run_ids d) \<and>
     references mr_model_definition_id (model_runs d) (map md_id (model_definitions d)))"

definition workflow_plan_table_ok :: "db \<Rightarrow> bool" where
  "workflow_plan_table_ok d =
    (list_all workflow_plan_checks (workflow_plans d) \<and> distinct (map wp_id (workflow_plans d)) \<and>
     distinct (map (\<lambda>r. (wp_tenant_id r, wp_workspace_id r, wp_task_id r, wp_version r))
       (workflow_plans d)) \<and>
     references (Some \<circ> wp_tenant_id) (workflow_plans d) (tenant_ids d) \<and>
     references (Some \<circ> wp_workspace_id) (workflow_plans d) (workspace_ids d) \<and>
     references (Some \<circ> wp_project_id) (workflow_plans d) (project_ids d) \<and>
     references (Some \<circ> wp_task_id) (workflow_plans d) (task_ids d))"

definition workflow_step_table_ok :: "db \<Rightarrow> bool" where
  "workflow_step_table_ok d =
    (list_all workflow_step_checks (workflow_steps d) \<and> distinct (map wt_id (workflow_steps d)) \<and>
     distinct (map (\<lambda>r. (wt_workflow_plan_id r, wt_step_key r)) (workflow_steps d)) \<and>
     distinct (map (\<lambda>r. (wt_workflow_plan_id r, wt_position r)) (workflow_steps d)) \<and>
     references (Some \<circ> wt_workflow_plan_id) (workflow_steps d) (map wp_id (workflow_plans d)) \<and>
     references wt_agent_definition_id (workflow_steps d) (definition_ids d))"

definition step_plan_keys :: "db \<Rightarrow> (uuid \<times> uuid) list" where
  "step_plan_keys d = map (\<lambda>r. (wt_id r, wt_workflow_plan_id r)) (workflow_steps d)"

definition step_dependency_table_ok :: "db \<Rightarrow> bool" where
  "step_dependency_table_ok d =
    (list_all step_dependency_checks (step_dependencies d) \<and>
     distinct (map (\<lambda>r. (sd_workflow_plan_id r, sd_workflow_step_id r, sd_depends_on_step_id r))
       (step_dependencies d)) \<and>
     list_all (\<lambda>r. List.member (step_plan_keys d) (sd_workflow_step_id r, sd_workflow_plan_id r) \<and>
                   List.member (step_plan_keys d) (sd_depends_on_step_id r, sd_workflow_plan_id r))
       (step_dependencies d) \<and>
     references (Some \<circ> sd_workflow_plan_id) (step_dependencies d) (map wp_id (workflow_plans d)))"

definition workflow_run_table_ok :: "db \<Rightarrow> bool" where
  "workflow_run_table_ok d =
    (list_all workflow_run_checks (workflow_runs d) \<and> distinct (map wr_id (workflow_runs d)) \<and>
     references (Some \<circ> wr_tenant_id) (workflow_runs d) (tenant_ids d) \<and>
     references (Some \<circ> wr_workspace_id) (workflow_runs d) (workspace_ids d) \<and>
     references (Some \<circ> wr_project_id) (workflow_runs d) (project_ids d) \<and>
     references (Some \<circ> wr_task_id) (workflow_runs d) (task_ids d) \<and>
     references (Some \<circ> wr_workflow_plan_id) (workflow_runs d) (map wp_id (workflow_plans d)))"

definition workflow_step_run_table_ok :: "db \<Rightarrow> bool" where
  "workflow_step_run_table_ok d =
    (list_all workflow_step_run_checks (workflow_step_runs d) \<and>
     distinct (map sr_id (workflow_step_runs d)) \<and>
     distinct (map (\<lambda>r. (sr_workflow_run_id r, sr_workflow_step_id r)) (workflow_step_runs d)) \<and>
     distinct (List.map_filter sr_agent_run_id (workflow_step_runs d)) \<and>
     references sr_agent_run_id (workflow_step_runs d) (agent_run_ids d) \<and>
     list_all (\<lambda>r.
         List.member (map (\<lambda>w. (wr_id w, wr_workflow_plan_id w)) (workflow_runs d))
           (sr_workflow_run_id r, sr_workflow_plan_id r) \<and>
         List.member (step_plan_keys d) (sr_workflow_step_id r, sr_workflow_plan_id r))
       (workflow_step_runs d))"

definition step_handoff_table_ok :: "db \<Rightarrow> bool" where
  "step_handoff_table_ok d =
    (list_all step_handoff_checks (step_handoffs d) \<and> distinct (map ho_id (step_handoffs d)) \<and>
     distinct (map ho_destination_step_run_id (step_handoffs d)) \<and>
     distinct (List.map_filter ho_source_step_run_id (step_handoffs d)) \<and>
     list_all (\<lambda>r.
         let keys = map (\<lambda>s. (sr_id s, sr_workflow_run_id s, sr_workflow_plan_id s)) (workflow_step_runs d)
         in List.member (map (\<lambda>w. (wr_id w, wr_workflow_plan_id w)) (workflow_runs d))
              (ho_workflow_run_id r, ho_workflow_plan_id r) \<and>
            List.member keys (ho_destination_step_run_id r, ho_workflow_run_id r, ho_workflow_plan_id r) \<and>
            opt_all (\<lambda>k. List.member keys (k, ho_workflow_run_id r, ho_workflow_plan_id r))
              (ho_source_step_run_id r))
       (step_handoffs d))"

definition tool_call_table_ok :: "db \<Rightarrow> bool" where
  "tool_call_table_ok d =
    (list_all tool_call_checks (tool_calls d) \<and> distinct (map tc_id (tool_calls d)) \<and>
     distinct (map (\<lambda>r. (tc_agent_run_id r, tc_call_key r)) (tool_calls d)) \<and>
     references (Some \<circ> tc_tenant_id) (tool_calls d) (tenant_ids d) \<and>
     references (Some \<circ> tc_workspace_id) (tool_calls d) (workspace_ids d) \<and>
     references tc_project_id (tool_calls d) (project_ids d) \<and>
     references tc_task_id (tool_calls d) (task_ids d) \<and>
     references (Some \<circ> tc_agent_run_id) (tool_calls d) (agent_run_ids d) \<and>
     references tc_proposal_model_run_id (tool_calls d) (map mr_id (model_runs d)) \<and>
     references tc_approval_request_id (tool_calls d) (map ap_id (approval_requests d)))"

definition memory_record_table_ok :: "db \<Rightarrow> bool" where
  "memory_record_table_ok d =
    (list_all memory_record_checks (memory_records d) \<and> distinct (map me_id (memory_records d)) \<and>
     references (Some \<circ> me_workspace_id) (memory_records d) (workspace_ids d) \<and>
     references me_project_id (memory_records d) (project_ids d) \<and>
     references me_task_id (memory_records d) (task_ids d) \<and>
     references me_workflow_run_id (memory_records d) (map wr_id (workflow_runs d)))"

definition memory_source_table_ok :: "db \<Rightarrow> bool" where
  "memory_source_table_ok d =
    (list_all memory_source_checks (memory_sources d) \<and> distinct (map mo_id (memory_sources d)) \<and>
     references (Some \<circ> mo_memory_id) (memory_sources d) (map me_id (memory_records d)))"

definition constraints :: "db \<Rightarrow> bool" where
  "constraints d =
    (tenant_table_ok d \<and> workspace_table_ok d \<and> project_table_ok d \<and> task_table_ok d \<and>
     policy_table_ok d \<and> approval_table_ok d \<and> audit_table_ok d \<and> event_table_ok d \<and>
     agent_definition_table_ok d \<and> agent_run_table_ok d \<and>
     model_definition_table_ok d \<and> model_run_table_ok d \<and> workflow_plan_table_ok d \<and>
     workflow_step_table_ok d \<and> step_dependency_table_ok d \<and> workflow_run_table_ok d \<and>
     workflow_step_run_table_ok d \<and> step_handoff_table_ok d \<and> tool_call_table_ok d \<and>
     memory_record_table_ok d \<and> memory_source_table_ok d)"

lemma constraints_empty: "constraints empty_db"
  by code_simp

lemma one_of_iff [simp]: "one_of vs v \<longleftrightarrow> v \<in> set vs"
  by (simp add: one_of_def)

end
