(* ===== verification/Utf8.thy ===== *)
theory Utf8
  imports Pyval
begin

text \<open>
  Text of arbitrary code points as files hold it: strict UTF-8 as \<open>bytes.decode("utf-8")\<close> and
  \<open>str.encode("utf-8")\<close> have it, and \<open>str.count\<close>, \<open>str.replace\<close>, \<open>str.splitlines\<close>. A byte is a
  \<open>char\<close>, a text is the list of its code points.
\<close>

type_synonym bytes = "char list"
type_synonym utext = "nat list"

definition codes :: "pystr \<Rightarrow> utext" where
  "codes t = map of_char t"

section \<open>UTF-8\<close>

definition scalar :: "nat \<Rightarrow> bool" where
  "scalar n = (n < 0x110000 \<and> \<not> (0xD800 \<le> n \<and> n < 0xE000))"

definition byte :: "nat \<Rightarrow> char" where
  "byte n = char_of n"

definition encode_char :: "nat \<Rightarrow> bytes" where
  "encode_char n =
    (if n < 0x80 then [byte n]
     else if n < 0x800 then [byte (0xC0 + n div 64), byte (0x80 + n mod 64)]
     else if n < 0x10000
     then [byte (0xE0 + n div 4096), byte (0x80 + n div 64 mod 64), byte (0x80 + n mod 64)]
     else [byte (0xF0 + n div 262144), byte (0x80 + n div 4096 mod 64), byte (0x80 + n div 64 mod 64),
       byte (0x80 + n mod 64)])"

definition utf8_encode :: "utext \<Rightarrow> bytes" where
  "utf8_encode t = concat (map encode_char t)"

text \<open>
  One character from the front: the lead byte says how many continuation bytes follow; overlong
  forms, surrogates and values above U+10FFFF are errors.
\<close>

definition continuation :: "nat \<Rightarrow> bool" where
  "continuation n = (0x80 \<le> n \<and> n < 0xC0)"

fun decode_char :: "bytes \<Rightarrow> (nat \<times> bytes) option" where
  "decode_char [] = None"
| "decode_char (a # rest) =
    (let n = of_char a in
     if n < 0x80 then Some (n, rest)
     else if 0xC0 \<le> n \<and> n < 0xE0 then
       (case rest of
          b # r \<Rightarrow> let c = (n - 0xC0) * 64 + (of_char b - 0x80) in
            if continuation (of_char b) \<and> 0x80 \<le> c then Some (c, r) else None
        | _ \<Rightarrow> None)
     else if 0xE0 \<le> n \<and> n < 0xF0 then
       (case rest of
          b # b' # r \<Rightarrow> let c = (n - 0xE0) * 4096 + (of_char b - 0x80) * 64 + (of_char b' - 0x80) in
            if continuation (of_char b) \<and> continuation (of_char b') \<and> 0x800 \<le> c \<and> scalar c
            then Some (c, r) else None
        | _ \<Rightarrow> None)
     else if 0xF0 \<le> n \<and> n < 0xF8 then
       (case rest of
          b # b' # b'' # r \<Rightarrow>
            let c = (n - 0xF0) * 262144 + (of_char b - 0x80) * 4096 + (of_char b' - 0x80) * 64 +
              (of_char b'' - 0x80) in
            if continuation (of_char b) \<and> continuation (of_char b') \<and> continuation (of_char b'') \<and>
               0x10000 \<le> c \<and> scalar c
            then Some (c, r) else None
        | _ \<Rightarrow> None)
     else None)"

lemma decode_char_shorter: "decode_char bs = Some (c, r) \<Longrightarrow> length r < length bs"
  by (cases bs) (auto simp: Let_def split: if_splits list.splits)

function utf8_decode :: "bytes \<Rightarrow> utext option" where
  "utf8_decode bs = (if bs = [] then Some [] else case decode_char bs of
     None \<Rightarrow> None | Some (c, r) \<Rightarrow> map_option ((#) c) (utf8_decode r))"
  by pat_completeness auto
termination
  by (relation "measure length") (auto dest: decode_char_shorter)

declare utf8_decode.simps [simp del]

lemma of_char_byte: "n < 256 \<Longrightarrow> of_char (byte n) = n"
  by (simp add: byte_def)

lemma byte_of_char [simp]: "byte (of_char c) = c"
  by (simp add: byte_def)

lemma of_char_less: "(of_char c :: nat) < 256"
  by simp

lemma three_digits: "n div 4096 * 4096 + n div 64 mod 64 * 64 + n mod 64 = (n :: nat)"
proof -
  have "n div 64 div 64 = n div 4096" by (simp add: div_mult2_eq [symmetric])
  then have "n div 64 = n div 4096 * 64 + n div 64 mod 64" using div_mult_mod_eq [of "n div 64" 64] by simp
  moreover have "n = n div 64 * 64 + n mod 64" by simp
  ultimately show ?thesis by linarith
qed

lemma four_digits: "n div 262144 * 262144 + n div 4096 mod 64 * 4096 + n div 64 mod 64 * 64 + n mod 64 = (n :: nat)"
proof -
  have "n div 4096 div 64 = n div 262144" by (simp add: div_mult2_eq [symmetric])
  then have "n div 4096 = n div 262144 * 64 + n div 4096 mod 64" using div_mult_mod_eq [of "n div 4096" 64] by simp
  then show ?thesis using three_digits [of n] by linarith
qed

lemma decode_four:
  assumes "h < 5" "x < 64" "y < 64" "z < 64"
    and "v = h * 262144 + x * 4096 + y * 64 + z" "0x10000 \<le> v" "scalar v"
  shows "decode_char (byte (0xF0 + h) # byte (0x80 + x) # byte (0x80 + y) # byte (0x80 + z) # r) = Some (v, r)"
proof -
  have "of_char (byte (0xF0 + h)) = 0xF0 + h" "of_char (byte (0x80 + x)) = 0x80 + x"
    "of_char (byte (0x80 + y)) = 0x80 + y" "of_char (byte (0x80 + z)) = 0x80 + z"
    using assms(1-4) by (simp_all only: of_char_byte)
  with assms show ?thesis by (simp add: continuation_def Let_def)
qed

lemma decode_encode_char: "scalar n \<Longrightarrow> decode_char (encode_char n @ r) = Some (n, r)"
proof -
  assume s: "scalar n"
  consider "n < 0x80" | "0x80 \<le> n" "n < 0x800" | "0x800 \<le> n" "n < 0x10000" | "0x10000 \<le> n" "n < 0x110000"
    using s unfolding scalar_def by linarith
  then show ?thesis
  proof cases
    case 2
    then have "n div 64 < 32" by auto
    with 2 show ?thesis by (simp add: encode_char_def of_char_byte continuation_def)
  next
    case 3
    then have "n div 4096 < 16" by auto
    moreover have "n div 64 div 64 = n div 4096" by (simp add: div_mult2_eq [symmetric])
    moreover have "n div 4096 * 4096 + n div 64 mod 64 * 64 + n mod 64 = n"
      by (rule three_digits)
    ultimately show ?thesis using 3 s by (simp add: encode_char_def of_char_byte continuation_def Let_def)
  next
    case 4
    then have "n div 262144 < 5" by auto
    from decode_four [OF this, of "n div 4096 mod 64" "n div 64 mod 64" "n mod 64" n r] four_digits [of n] 4 s
    show ?thesis by (simp add: encode_char_def)
  qed (simp add: encode_char_def of_char_byte)
qed

lemma base64: "x < (64::nat) \<Longrightarrow> (y * 64 + x) div 64 = y" "x < (64::nat) \<Longrightarrow> (y * 64 + x) mod 64 = x"
  by simp_all

lemma continuation_cases:
  assumes "continuation (of_char b)"
  shows "of_char b - 0x80 < (64::nat)" "byte (0x80 + (of_char b - 0x80)) = b"
  using assms by (auto simp: continuation_def byte_def)

lemma encode_decode_char: "decode_char bs = Some (n, r) \<Longrightarrow> bs = encode_char n @ r \<and> scalar n"
proof -
  assume d: "decode_char bs = Some (n, r)"
  then obtain a rest where bs: "bs = a # rest" by (cases bs) auto
  let ?a = "of_char a :: nat"
  have lead: "byte ?a = a" by simp
  consider (one) "?a < 0x80" | (two) "0xC0 \<le> ?a" "?a < 0xE0" | (three) "0xE0 \<le> ?a" "?a < 0xF0"
    | (four) "0xF0 \<le> ?a" "?a < 0xF8" using d by (auto simp: bs Let_def split: if_splits)
  then show ?thesis
  proof cases
    case one
    with d show ?thesis by (auto simp: bs Let_def encode_char_def scalar_def)
  next
    case two
    then obtain b where b: "rest = b # r" "continuation (of_char b)"
      "n = (?a - 0xC0) * 64 + (of_char b - 0x80)" "0x80 \<le> n"
      using d by (auto simp: bs Let_def split: list.splits if_splits)
    note c = continuation_cases [OF b(2)]
    have "n div 64 = ?a - 0xC0" "n mod 64 = of_char b - 0x80" "n < 0x800"
      using b(3) base64 [OF c(1)] two c(1) by simp_all
    with b(1,4) two c(2) show ?thesis by (simp add: bs encode_char_def scalar_def)
  next
    case three
    then obtain b b' where b: "rest = b # b' # r" "continuation (of_char b)" "continuation (of_char b')"
      "n = (?a - 0xE0) * 4096 + (of_char b - 0x80) * 64 + (of_char b' - 0x80)" "0x800 \<le> n" "scalar n"
      using d by (auto simp: bs Let_def split: list.splits if_splits)
    note c = continuation_cases [OF b(2)] continuation_cases [OF b(3)]
    have n: "n = ((?a - 0xE0) * 64 + (of_char b - 0x80)) * 64 + (of_char b' - 0x80)"
      using b(4) by simp
    have "n div 64 = (?a - 0xE0) * 64 + (of_char b - 0x80)" "n mod 64 = of_char b' - 0x80"
      unfolding n by (rule base64 [OF c(3)])+
    moreover have "n div 4096 = n div 64 div 64" by (simp add: div_mult2_eq [symmetric])
    moreover have "n < 0x10000" using three c(1,3) unfolding n by simp
    ultimately show ?thesis using b(1,5,6) three c base64 [OF c(1)] by (simp add: bs encode_char_def)
  next
    case four
    then obtain b b' b'' where b: "rest = b # b' # b'' # r" "continuation (of_char b)" "continuation (of_char b')"
      "continuation (of_char b'')" "n = (?a - 0xF0) * 262144 + (of_char b - 0x80) * 4096 +
        (of_char b' - 0x80) * 64 + (of_char b'' - 0x80)" "0x10000 \<le> n" "scalar n"
      using d by (auto simp: bs Let_def split: list.splits if_splits)
    note c = continuation_cases [OF b(2)] continuation_cases [OF b(3)] continuation_cases [OF b(4)]
    have n: "n = (((?a - 0xF0) * 64 + (of_char b - 0x80)) * 64 + (of_char b' - 0x80)) * 64 + (of_char b'' - 0x80)"
      using b(5) by simp
    have "n div 64 = ((?a - 0xF0) * 64 + (of_char b - 0x80)) * 64 + (of_char b' - 0x80)"
      "n mod 64 = of_char b'' - 0x80"
      unfolding n by (rule base64 [OF c(5)])+
    moreover have "n div 64 div 64 = (?a - 0xF0) * 64 + (of_char b - 0x80)" "n div 64 mod 64 = of_char b' - 0x80"
      unfolding calculation(1) by (rule base64 [OF c(3)])+
    moreover have "n div 64 div 64 div 64 = ?a - 0xF0" "n div 64 div 64 mod 64 = of_char b - 0x80"
      unfolding calculation(3) by (rule base64 [OF c(1)])+
    moreover have "n div 4096 = n div 64 div 64" "n div 262144 = n div 64 div 64 div 64"
      by (simp_all add: div_mult2_eq [symmetric])
    ultimately have "n div 262144 = ?a - 0xF0" "n div 4096 mod 64 = of_char b - 0x80"
      "n div 64 mod 64 = of_char b' - 0x80" "n mod 64 = of_char b'' - 0x80" by (simp_all only:)
    moreover have "byte (0xF0 + (?a - 0xF0)) = a" using four by simp
    moreover have "encode_char n = [byte (0xF0 + n div 262144), byte (0x80 + n div 4096 mod 64),
        byte (0x80 + n div 64 mod 64), byte (0x80 + n mod 64)]"
      using b(6) by (simp only: encode_char_def) simp
    ultimately show ?thesis using b(1,7) c by (simp only: bs) simp
  qed
qed

lemma utf8_roundtrip: "utf8_decode bs = Some t \<longleftrightarrow> list_all scalar t \<and> bs = utf8_encode t"
proof (intro iffI)
  assume "utf8_decode bs = Some t"
  then show "list_all scalar t \<and> bs = utf8_encode t"
  proof (induction bs arbitrary: t rule: utf8_decode.induct)
    case (1 bs)
    show ?case
    proof (cases "bs = []")
      case True
      with 1 show ?thesis by (simp add: utf8_decode.simps [of "[]"] utf8_encode_def)
    next
      case False
      with 1(2) obtain c r u where d: "decode_char bs = Some (c, r)" "utf8_decode r = Some u" "t = c # u"
        by (auto simp: utf8_decode.simps [of bs] split: option.splits)
      from 1(1) [OF False d(1) refl d(2)] encode_decode_char [OF d(1)] d(3) show ?thesis
        by (simp add: utf8_encode_def)
    qed
  qed
next
  have ne: "encode_char n \<noteq> []" for n by (simp add: encode_char_def)
  have "list_all scalar t \<Longrightarrow> utf8_decode (utf8_encode t) = Some t" for t
  proof (induction t)
    case Nil
    then show ?case by (simp add: utf8_decode.simps [of "[]"] utf8_encode_def)
  next
    case (Cons n t)
    then show ?case
      using decode_encode_char [of n "utf8_encode t"] ne [of n]
      by (simp add: utf8_decode.simps [of "encode_char n @ _"] utf8_encode_def)
  qed
  then show "list_all scalar t \<and> bs = utf8_encode t \<Longrightarrow> utf8_decode bs = Some t" by simp
qed

section \<open>Counting and replacing\<close>

text \<open>
  \<open>text.count(search)\<close> and \<open>text.replace(search, replacement)\<close>: occurrences are taken from the left and
  do not overlap; an empty \<open>search\<close> occurs before every character and at the end.
\<close>

definition occurs_at :: "'a list \<Rightarrow> 'a list \<Rightarrow> bool" where
  "occurs_at search t = (take (length search) t = search)"

function count_sub :: "'a list \<Rightarrow> 'a list \<Rightarrow> nat" where
  "count_sub search [] = (if search = [] then 1 else 0)"
| "count_sub search (c # cs) =
    (if search = [] then Suc (count_sub search cs)
     else if occurs_at search (c # cs) then Suc (count_sub search (drop (length search) (c # cs)))
     else count_sub search cs)"
  by pat_completeness auto
termination
  by (relation "measure (length \<circ> snd)") auto

function replace_sub :: "'a list \<Rightarrow> 'a list \<Rightarrow> 'a list \<Rightarrow> 'a list" where
  "replace_sub search replacement [] = (if search = [] then replacement else [])"
| "replace_sub search replacement (c # cs) =
    (if search = [] then replacement @ c # replace_sub search replacement cs
     else if occurs_at search (c # cs)
     then replacement @ replace_sub search replacement (drop (length search) (c # cs))
     else c # replace_sub search replacement cs)"
  by pat_completeness auto
termination
  by (relation "measure (\<lambda>(_, _, t). length t)") auto

text \<open>What a replacement does to the length, and that it may only write what it was given.\<close>

lemma length_replace_sub:
  "length (replace_sub search replacement t) + count_sub search t * length search =
   length t + count_sub search t * length replacement"
proof (induction search replacement t rule: replace_sub.induct)
  case (2 search replacement c cs)
  show ?case
  proof (cases "search \<noteq> [] \<and> occurs_at search (c # cs)")
    case True
    then have "length search \<le> length (c # cs)" by (metis occurs_at_def length_take min.cobounded1)
    with True 2 show ?thesis by (simp add: algebra_simps)
  qed (use 2 in auto)
qed simp

lemma set_replace_sub: "set (replace_sub search replacement t) \<subseteq> set t \<union> set replacement"
proof (induction search replacement t rule: replace_sub.induct)
  case (2 search replacement c cs)
  then show ?case using set_drop_subset [of "length search" "c # cs"] by (auto split: if_splits)
qed auto

lemma replace_sub_none: "count_sub search t = 0 \<Longrightarrow> replace_sub search replacement t = t"
  by (induction search replacement t rule: replace_sub.induct) (auto split: if_splits)

section \<open>Lines\<close>

definition line_boundary :: "nat \<Rightarrow> bool" where
  "line_boundary c = ((10 \<le> c \<and> c \<le> 13) \<or> (28 \<le> c \<and> c \<le> 30) \<or> c = 0x85 \<or> c = 0x2028 \<or> c = 0x2029)"

fun split_lines :: "utext \<Rightarrow> utext \<Rightarrow> utext list" where
  "split_lines line [] = (if line = [] then [] else [rev line])"
| "split_lines line (c # cs) =
    (if line_boundary c
     then rev line # (case cs of d # ds \<Rightarrow> if c = 13 \<and> d = 10 then split_lines [] ds else split_lines [] cs
                      | [] \<Rightarrow> [])
     else split_lines (c # line) cs)"

definition splitlines :: "utext \<Rightarrow> utext list" where
  "splitlines t = split_lines [] t"

fun contains_sub :: "'a list \<Rightarrow> 'a list \<Rightarrow> bool" where
  "contains_sub needle [] = (needle = [])"
| "contains_sub needle (c # cs) = (occurs_at needle (c # cs) \<or> contains_sub needle cs)"

end
