(* ===== verification/Workspace.thy ===== *)
theory Workspace
  imports Utf8 Schema
begin

text \<open>
  The executors of the workspace tools (\<open>modules/tools/executor.py\<close>) and the contracts of their
  inputs (\<open>modules/tools/contracts.py\<close>), over a file tree. The tree is what lies under the approved
  root; a path is the list of its parts below the root. Nobody else changes the tree while an
  executor runs.
\<close>

section \<open>The file tree\<close>

text \<open>
  A directory and a regular file carry whether they can be read.
\<close>

datatype node =
    Directory bool "(pystr \<times> node) list"
  | Regular bool bytes
  | Symlink pystr
  | Special

text \<open>
  What a file system keeps of the names of a directory. Names longer than the file system takes, for
  which the kernel answers \<open>ENAMETOOLONG\<close>, are not among the paths of the model.
\<close>

definition file_name :: "pystr \<Rightarrow> bool" where
  "file_name name = (name \<noteq> [] \<and> name \<noteq> ''.'' \<and> name \<noteq> ''..'' \<and> CHR ''/'' \<notin> set name)"

fun tree_ok :: "node \<Rightarrow> bool" where
  "tree_ok (Directory r es) =
     (distinct (map fst es) \<and> list_all (\<lambda>(name, n). file_name name \<and> tree_ok n) es)"
| "tree_ok n = True"

definition is_dir :: "node \<Rightarrow> bool" where
  "is_dir n = (case n of Directory _ _ \<Rightarrow> True | _ \<Rightarrow> False)"

definition is_file :: "node \<Rightarrow> bool" where
  "is_file n = (case n of Regular _ _ \<Rightarrow> True | _ \<Rightarrow> False)"

definition is_symlink :: "node \<Rightarrow> bool" where
  "is_symlink n = (case n of Symlink _ \<Rightarrow> True | _ \<Rightarrow> False)"

definition child :: "node \<Rightarrow> pystr \<Rightarrow> node option" where
  "child n name = (case n of Directory _ es \<Rightarrow> map_of es name | _ \<Rightarrow> None)"

text \<open>Following the parts of a path without following links.\<close>

fun node_at :: "node \<Rightarrow> pystr list \<Rightarrow> node option" where
  "node_at n [] = Some n"
| "node_at n (p # ps) = (case child n p of None \<Rightarrow> None | Some m \<Rightarrow> node_at m ps)"

text \<open>\<open>os.replace\<close> of a file by another of the given contents.\<close>

fun put_entry :: "pystr \<Rightarrow> node \<Rightarrow> (pystr \<times> node) list \<Rightarrow> (pystr \<times> node) list" where
  "put_entry name m [] = []"
| "put_entry name m ((k, n) # es) = (if k = name then (k, m) # es else (k, n) # put_entry name m es)"

fun put_file :: "node \<Rightarrow> pystr list \<Rightarrow> bytes \<Rightarrow> node" where
  "put_file n [] data = (case n of Regular _ _ \<Rightarrow> Regular True data | _ \<Rightarrow> n)"
| "put_file n (p # ps) data =
    (case n of
       Directory r es \<Rightarrow>
         (case map_of es p of None \<Rightarrow> n | Some m \<Rightarrow> Directory r (put_entry p (put_file m ps data) es))
     | _ \<Rightarrow> n)"

section \<open>Paths\<close>

fun split_slash :: "pystr \<Rightarrow> pystr \<Rightarrow> pystr list" where
  "split_slash part [] = [rev part]"
| "split_slash part (c # cs) =
    (if c = CHR ''/'' then rev part # split_slash [] cs else split_slash (c # part) cs)"

text \<open>\<open>PurePosixPath(value).parts\<close> and \<open>as_posix()\<close> of a relative path.\<close>

definition path_parts :: "pystr \<Rightarrow> pystr list" where
  "path_parts value = filter (\<lambda>p. p \<noteq> [] \<and> p \<noteq> ''.'') (split_slash [] value)"

definition as_posix :: "pystr list \<Rightarrow> pystr" where
  "as_posix parts = (if parts = [] then ''.'' else join_with ''/'' parts)"

definition DENIED_NAMES :: "pystr list" where
  "DENIED_NAMES = [''.git'', ''.ssh'', ''.aws'', ''.gnupg'', ''credentials'', ''credentials.json'', ''id_rsa'',
     ''id_ed25519'']"

definition DENIED_SUFFIXES :: "pystr list" where
  "DENIED_SUFFIXES = [''.key'', ''.pem'', ''.p12'', ''.pfx'']"

definition denied_part :: "pystr \<Rightarrow> bool" where
  "denied_part part = (let lowered = casefold part in
     List.member DENIED_NAMES lowered \<or> startswith lowered ''.env'' \<or>
     list_ex (endswith lowered) DENIED_SUFFIXES \<or> contains ''secret'' lowered)"

definition denied :: "pystr list \<Rightarrow> bool" where
  "denied parts = list_ex denied_part parts"

type_synonym 'a attempt = "pystr + 'a"

text \<open>\<open>current.is_symlink()\<close> for every part on the way down.\<close>

definition link_at :: "node \<Rightarrow> pystr list \<Rightarrow> bool" where
  "link_at root path = (case node_at root path of Some n \<Rightarrow> is_symlink n | None \<Rightarrow> False)"

definition crosses_symlink :: "node \<Rightarrow> pystr list \<Rightarrow> bool" where
  "crosses_symlink root parts = list_ex (\<lambda>k. link_at root (take k parts)) [1..<Suc (length parts)]"

definition resolve :: "node \<Rightarrow> pystr \<Rightarrow> bool \<Rightarrow> (pystr list) attempt" where
  "resolve root relative allow_directory =
    (if list_ex (\<lambda>c. of_char c = (92 :: nat)) relative \<or> startswith relative ''/''
     then Inl ''invalid_relative_path''
     else let parts = path_parts relative in
       if list_ex (\<lambda>p. p = ''..'') parts then Inl ''path_traversal_denied''
       else if denied parts then Inl ''sensitive_path_denied''
       else if crosses_symlink root parts then Inl ''symlink_path_denied''
       else (case node_at root parts of
           None \<Rightarrow> Inl ''outside_workspace_denied''
         | Some n \<Rightarrow>
             if allow_directory then (if is_dir n then Inr parts else Inl ''directory_required'')
             else if is_file n then Inr parts else Inl ''regular_file_required''))"

section \<open>Input contracts\<close>

text \<open>\<open>_relative_path\<close>: the check of a path in a request; the value itself is kept.\<close>

definition drive_prefix :: "pystr \<Rightarrow> bool" where
  "drive_prefix v = (case v of c # d # _ \<Rightarrow> (upper_az c \<or> lower_az c) \<and> d = CHR '':'' | _ \<Rightarrow> False)"

definition relative_path :: "pystr \<Rightarrow> bool" where
  "relative_path v =
    (\<not> list_ex (\<lambda>c. of_char c = (92 :: nat)) v \<and> \<not> startswith v ''/'' \<and> \<not> drive_prefix v \<and>
     \<not> list_ex (\<lambda>p. p = ''..'') (path_parts v) \<and> as_posix (path_parts v) = v)"

record list_input =
  li_path :: pystr
  li_max_depth :: nat
  li_max_results :: nat

definition list_input_valid :: "list_input \<Rightarrow> bool" where
  "list_input_valid d = (between 1 300 (li_path d) \<and> relative_path (li_path d) \<and> li_max_depth d \<le> 4 \<and>
     1 \<le> li_max_results d \<and> li_max_results d \<le> 200)"

record read_input =
  ri_path :: pystr
  ri_max_bytes :: nat

definition read_input_valid :: "read_input \<Rightarrow> bool" where
  "read_input_valid d = (between 1 300 (ri_path d) \<and> relative_path (ri_path d) \<and>
     1 \<le> ri_max_bytes d \<and> ri_max_bytes d \<le> 65536)"

record search_input =
  si_query :: pystr
  si_path :: pystr
  si_max_results :: nat

definition control_free :: "nat list \<Rightarrow> pystr \<Rightarrow> bool" where
  "control_free allowed t = list_all (\<lambda>c. 32 \<le> (of_char c :: nat) \<or> of_char c \<in> set allowed) t"

definition search_input_valid :: "search_input \<Rightarrow> bool" where
  "search_input_valid d = (between 1 128 (si_query d) \<and> strip (si_query d) \<noteq> [] \<and> control_free [] (si_query d) \<and>
     between 1 300 (si_path d) \<and> relative_path (si_path d) \<and> 1 \<le> si_max_results d \<and> si_max_results d \<le> 100)"

record replace_input =
  re_path :: pystr
  re_search :: pystr
  re_replacement :: pystr
  re_expected_matches :: nat

definition replace_input_valid :: "replace_input \<Rightarrow> bool" where
  "replace_input_valid d = (between 1 300 (re_path d) \<and> relative_path (re_path d) \<and>
     between 1 16384 (re_search d) \<and> length (re_replacement d) \<le> 16384 \<and>
     control_free [9, 10, 13] (re_search d) \<and> control_free [9, 10, 13] (re_replacement d) \<and>
     1 \<le> re_expected_matches d \<and> re_expected_matches d \<le> 8)"

section \<open>Listing\<close>

datatype item = Dir_item pystr | File_item pystr nat

definition by_name :: "(pystr \<times> node) list \<Rightarrow> (pystr \<times> node) list" where
  "by_name es = sort_key (\<lambda>(name, _). casefold name) es"

text \<open>
  \<open>visit\<close>: \<open>below\<close> is how many more levels may be entered, \<open>at\<close> the parts of the directory
  visited. The state is the items so far and whether the listing was cut off.
\<close>

function visit_children ::
  "nat \<Rightarrow> nat \<Rightarrow> pystr list \<Rightarrow> (pystr \<times> node) list \<Rightarrow> item list \<times> bool \<Rightarrow> (item list \<times> bool) attempt"
where
  "visit_children limit below at [] st = Inr st"
| "visit_children limit below at ((name, n) # rest) (found, truncated) =
    (let relative = at @ [name] in
     if denied relative \<or> is_symlink n then visit_children limit below at rest (found, truncated)
     else if limit \<le> length found then Inr (found, True)
     else case n of
         Directory readable es \<Rightarrow>
           let found' = found @ [Dir_item (as_posix relative)] in
           (case below of
              0 \<Rightarrow> visit_children limit below at rest (found', truncated)
            | Suc b \<Rightarrow>
                if truncated then visit_children limit below at rest (found', truncated)
                else if \<not> readable then Inl ''workspace_read_failed''
                else (case visit_children limit b relative (by_name es) (found', truncated) of
                        Inl e \<Rightarrow> Inl e
                      | Inr st \<Rightarrow> visit_children limit below at rest st))
       | Regular _ data \<Rightarrow>
           visit_children limit below at rest (found @ [File_item (as_posix relative) (length data)], truncated)
       | _ \<Rightarrow> visit_children limit below at rest (found, truncated))"
  by pat_completeness auto
termination
  by (relation "measures [\<lambda>(_, below, _, _, _). below, \<lambda>(_, _, _, es, _). length es]") auto

definition visit :: "nat \<Rightarrow> nat \<Rightarrow> pystr list \<Rightarrow> node \<Rightarrow> (item list \<times> bool) attempt" where
  "visit limit depth at n = (case n of
     Directory True es \<Rightarrow> visit_children limit depth at (by_name es) ([], False)
   | _ \<Rightarrow> Inl ''workspace_read_failed'')"

datatype evidence =
    Listing pystr "item list" bool
  | Content pystr utext nat bool
  | Matches pystr "(pystr \<times> nat \<times> utext \<times> bool) list" bool
  | Applied pystr bool

definition list_files :: "node \<Rightarrow> list_input \<Rightarrow> (evidence \<times> pyval) attempt" where
  "list_files root data =
    (case resolve root (li_path data) True of
       Inl e \<Rightarrow> Inl e
     | Inr dir \<Rightarrow>
        (case visit (li_max_results data) (li_max_depth data) dir (the (node_at root dir)) of
           Inl e \<Rightarrow> Inl e
         | Inr (found, truncated) \<Rightarrow>
             Inr (Listing (as_posix dir) found truncated,
               PDict [(PStr ''base_path'', PStr (as_posix dir)), (PStr ''result_count'', PInt (int (length found))),
                 (PStr ''truncated'', PBool truncated)])))"

section \<open>Reading\<close>

definition read_file :: "(bytes \<Rightarrow> pystr) \<Rightarrow> node \<Rightarrow> read_input \<Rightarrow> (evidence \<times> pyval) attempt" where
  "read_file sha256 root data =
    (case resolve root (ri_path data) False of
       Inl e \<Rightarrow> Inl e
     | Inr path \<Rightarrow>
        (case the (node_at root path) of
           Regular True contents \<Rightarrow>
             let raw = take (Suc (ri_max_bytes data)) contents;
                 truncated = (ri_max_bytes data < length raw);
                 bounded = take (ri_max_bytes data) raw in
             if List.member bounded (byte 0) then Inl ''binary_file_denied''
             else (case utf8_decode bounded of
                 None \<Rightarrow> Inl ''non_utf8_file_denied''
               | Some t \<Rightarrow> Inr (Content (as_posix path) t (length bounded) truncated,
                   PDict [(PStr ''path'', PStr (as_posix path)),
                     (PStr ''bytes_returned'', PInt (int (length bounded))),
                     (PStr ''content_sha256'', PStr (sha256 bounded)), (PStr ''truncated'', PBool truncated)]))
         | _ \<Rightarrow> Inl ''workspace_read_failed''))"

section \<open>Searching\<close>

definition MAX_SCANNED_FILES :: nat where "MAX_SCANNED_FILES = 1000"
definition MAX_SEARCH_FILE_BYTES :: nat where "MAX_SEARCH_FILE_BYTES = 65536"
definition MAX_SNIPPET_CHARACTERS :: nat where "MAX_SNIPPET_CHARACTERS = 300"
definition MAX_MUTATION_FILE_BYTES :: nat where "MAX_MUTATION_FILE_BYTES = 65536"
definition MAX_DIFF_BYTES :: nat where "MAX_DIFF_BYTES = 16384"

text \<open>\<open>rglob("*")\<close>: everything below, links not followed, directories that cannot be read skipped.\<close>

fun rglob :: "pystr list \<Rightarrow> node \<Rightarrow> (pystr list \<times> node) list" where
  "rglob at (Directory readable es) =
    (if readable then concat (map (\<lambda>(name, n). (at @ [name], n) # rglob (at @ [name]) n) es) else [])"
| "rglob at n = []"

definition searchable :: "pystr list \<times> node \<Rightarrow> bool" where
  "searchable = (\<lambda>(path, n). \<not> denied path \<and> is_file n)"

text \<open>The text of a file that is searched at all.\<close>

definition search_text :: "node \<Rightarrow> utext option" where
  "search_text n = (case n of
     Regular True data \<Rightarrow>
       if MAX_SEARCH_FILE_BYTES < length data \<or> List.member data (byte 0) then None else utf8_decode data
   | _ \<Rightarrow> None)"

fun search_lines ::
  "nat \<Rightarrow> utext \<Rightarrow> pystr \<Rightarrow> nat \<Rightarrow> utext list \<Rightarrow> (pystr \<times> nat \<times> utext \<times> bool) list \<Rightarrow>
     (pystr \<times> nat \<times> utext \<times> bool) list \<times> bool"
where
  "search_lines limit needle path k [] found = (found, False)"
| "search_lines limit needle path k (line # ls) found =
    (if \<not> contains_sub needle line then search_lines limit needle path (Suc k) ls found
     else let found' = found @ [(path, k, take MAX_SNIPPET_CHARACTERS line, MAX_SNIPPET_CHARACTERS < length line)] in
       if limit \<le> length found' then (found', True)
       else search_lines limit needle path (Suc k) ls found')"

fun search_files ::
  "nat \<Rightarrow> utext \<Rightarrow> (pystr list \<times> node) list \<Rightarrow> nat \<Rightarrow> (pystr \<times> nat \<times> utext \<times> bool) list \<Rightarrow>
     (pystr \<times> nat \<times> utext \<times> bool) list \<times> nat \<times> bool"
where
  "search_files limit needle [] scanned found = (found, scanned, False)"
| "search_files limit needle ((path, n) # rest) scanned found =
    (if MAX_SCANNED_FILES < Suc scanned then (found, Suc scanned, True)
     else case search_text n of
         None \<Rightarrow> search_files limit needle rest (Suc scanned) found
       | Some t \<Rightarrow>
          (case search_lines limit needle (as_posix path) 1 (splitlines t) found of
             (found', True) \<Rightarrow> (found', Suc scanned, True)
           | (found', False) \<Rightarrow> search_files limit needle rest (Suc scanned) found'))"

definition search_workspace :: "(bytes \<Rightarrow> pystr) \<Rightarrow> node \<Rightarrow> search_input \<Rightarrow> (evidence \<times> pyval) attempt" where
  "search_workspace sha256 root data =
    (case resolve root (si_path data) True of
       Inl e \<Rightarrow> Inl e
     | Inr base \<Rightarrow>
        (let files = filter searchable
               (sort_key (\<lambda>(path, _). casefold (as_posix path)) (rglob base (the (node_at root base))));
             (found, scanned, truncated) =
               search_files (si_max_results data) (codes (si_query data)) files 0 []
         in Inr (Matches (as_posix base) found truncated,
              PDict [(PStr ''base_path'', PStr (as_posix base)),
                (PStr ''query_sha256'', PStr (sha256 (utf8_encode (codes (si_query data))))),
                (PStr ''scanned_file_count'', PInt (int (min scanned MAX_SCANNED_FILES))),
                (PStr ''result_count'', PInt (int (length found))), (PStr ''truncated'', PBool truncated)])))"

section \<open>Replacing\<close>

text \<open>
  \<open>hashlib.sha256(...).hexdigest()\<close> is a parameter, and so is \<open>difflib.unified_diff\<close>: from the path,
  the old and the new text it gives the size of the difference in bytes and the preview as it is
  stored.
\<close>

record tool_lib =
  sha256 :: "bytes \<Rightarrow> pystr"
  unified_diff :: "pystr \<Rightarrow> utext \<Rightarrow> utext \<Rightarrow> nat \<times> pyval"

definition mutation_sha256 :: "tool_lib \<Rightarrow> pystr \<Rightarrow> pystr \<Rightarrow> pystr \<Rightarrow> pystr" where
  "mutation_sha256 lib path before_sha candidate_sha =
     sha256 lib (utf8_encode (codes (path @ [CHR 0x00] @ before_sha @ [CHR 0x00] @ candidate_sha)))"

definition line_count :: "utext \<Rightarrow> nat" where
  "line_count t = count_list t 10 + (if t = [] then 0 else 1)"

definition readable_contents :: "node \<Rightarrow> pystr list \<Rightarrow> bytes option" where
  "readable_contents root path = (case node_at root path of Some (Regular True data) \<Rightarrow> Some data | _ \<Rightarrow> None)"

definition prepare :: "tool_lib \<Rightarrow> node \<Rightarrow> replace_input \<Rightarrow> pyval attempt" where
  "prepare lib root data =
    (case resolve root (re_path data) False of
       Inl e \<Rightarrow> Inl e
     | Inr path \<Rightarrow>
        (case readable_contents root path of
           None \<Rightarrow> Inl ''workspace_read_failed''
         | Some before \<Rightarrow>
            if MAX_MUTATION_FILE_BYTES < length before then Inl ''oversized_file_denied''
            else if List.member before (byte 0) then Inl ''binary_file_denied''
            else (case utf8_decode before of
                None \<Rightarrow> Inl ''non_utf8_file_denied''
              | Some t \<Rightarrow>
                 if count_sub (codes (re_search data)) t \<noteq> re_expected_matches data
                 then Inl ''replace_match_count_mismatch''
                 else let candidate = replace_sub (codes (re_search data)) (codes (re_replacement data)) t;
                          candidate_bytes = utf8_encode candidate;
                          before_sha = sha256 lib before;
                          candidate_sha = sha256 lib candidate_bytes;
                          (diff_size, preview) = unified_diff lib (as_posix path) t candidate in
                   if MAX_MUTATION_FILE_BYTES < length candidate_bytes then Inl ''oversized_candidate_denied''
                   else if MAX_DIFF_BYTES < diff_size then Inl ''diff_preview_too_large''
                   else Inr (PDict
                     [(PStr ''path'', PStr (as_posix path)), (PStr ''preimage_sha256'', PStr before_sha),
                      (PStr ''candidate_sha256'', PStr candidate_sha),
                      (PStr ''mutation_fingerprint'', PStr (mutation_sha256 lib (as_posix path) before_sha candidate_sha)),
                      (PStr ''before_bytes'', PInt (int (length before))),
                      (PStr ''after_bytes'', PInt (int (length candidate_bytes))),
                      (PStr ''before_lines'', PInt (int (line_count t))),
                      (PStr ''after_lines'', PInt (int (line_count candidate))),
                      (PStr ''diff_preview'', preview), (PStr ''diff_truncated'', PBool False),
                      (PStr ''search'', PStr (re_search data)), (PStr ''replacement'', PStr (re_replacement data)),
                      (PStr ''expected_matches'', PInt (int (re_expected_matches data)))]))))"

text \<open>
  Reading the stored preparation back. \<open>prepared[...]\<close> of a missing key is a \<open>KeyError\<close>. The texts and
  the count are read back with the types \<open>prepare\<close> wrote them with; another type is an invalid
  preparation.
\<close>

definition entry :: "pyval \<Rightarrow> pystr \<Rightarrow> pyval option" where
  "entry v k = (case v of PDict kvs \<Rightarrow> map_of kvs (PStr k) | _ \<Rightarrow> None)"

definition text_entry :: "pyval \<Rightarrow> pystr \<Rightarrow> pystr option" where
  "text_entry v k = (case entry v k of Some (PStr t) \<Rightarrow> Some t | _ \<Rightarrow> None)"

definition count_entry :: "pyval \<Rightarrow> pystr \<Rightarrow> int option" where
  "count_entry v k = (case entry v k of Some (PInt n) \<Rightarrow> Some n | _ \<Rightarrow> None)"

definition mutation_target :: "pyval \<Rightarrow> bytes \<Rightarrow> (pystr \<times> pystr \<times> utext) attempt" where
  "mutation_target prepared contents =
    (case (utf8_decode contents, text_entry prepared ''search'', text_entry prepared ''replacement'',
           count_entry prepared ''expected_matches'') of
       (Some t, Some search, Some replacement, Some n) \<Rightarrow>
         if int (count_sub (codes search) t) \<noteq> n then Inl ''stale_preimage''
         else Inr (search, replacement, t)
     | _ \<Rightarrow> Inl ''prepared_mutation_invalid'')"

definition apply_mutation ::
  "tool_lib \<Rightarrow> node \<Rightarrow> replace_input \<Rightarrow> pyval \<Rightarrow> exn + (evidence \<times> node) attempt" where
  "apply_mutation lib root data prepared =
    (case resolve root (re_path data) False of
       Inl e \<Rightarrow> Inr (Inl e)
     | Inr path \<Rightarrow>
        (case readable_contents root path of
           None \<Rightarrow> Inr (Inl ''workspace_read_failed'')
         | Some contents \<Rightarrow>
            (case (entry prepared ''candidate_sha256'', entry prepared ''preimage_sha256'') of
               (Some wanted, preimage) \<Rightarrow>
                 let current = PStr (sha256 lib contents) in
                 if current = wanted then Inr (Inr (Applied (as_posix path) True, root))
                 else (case preimage of
                    None \<Rightarrow> Inl (PythonError ''KeyError'')
                  | Some original \<Rightarrow>
                     if current \<noteq> original then Inr (Inl ''stale_preimage'')
                     else (case mutation_target prepared contents of
                         Inl e \<Rightarrow> Inr (Inl e)
                       | Inr (search, replacement, t) \<Rightarrow>
                          let candidate = utf8_encode (replace_sub (codes search) (codes replacement) t);
                              candidate_sha = sha256 lib candidate in
                          if PStr candidate_sha \<noteq> wanted \<or>
                             entry prepared ''mutation_fingerprint'' \<noteq>
                               Some (PStr (mutation_sha256 lib (as_posix path) (sha256 lib contents) candidate_sha))
                          then Inr (Inl ''mutation_fingerprint_mismatch'')
                          else Inr (Inr (Applied (as_posix path) False, put_file root path candidate))))
             | _ \<Rightarrow> Inl (PythonError ''KeyError''))))"

section \<open>Lemmas on trees and paths\<close>

lemma node_at_append: "node_at n (p @ q) = (case node_at n p of None \<Rightarrow> None | Some m \<Rightarrow> node_at m q)"
  by (induction n p rule: node_at.induct) (auto split: option.splits)

lemma crosses_symlink_append:
  "crosses_symlink root (p @ [a]) = (crosses_symlink root p \<or> link_at root (p @ [a]))"
proof -
  have "[1..<Suc (length (p @ [a]))] = [1..<Suc (length p)] @ [Suc (length p)]" by simp
  moreover have "(\<exists>k \<in> set [1..<Suc (length p)]. link_at root (take k (p @ [a]))) =
      (\<exists>k \<in> set [1..<Suc (length p)]. link_at root (take k p))"
    by (intro bex_cong refl) auto
  ultimately show ?thesis by (auto simp: crosses_symlink_def list_ex_iff simp del: upt_Suc)
qed

lemma crosses_symlink_prefix: "\<not> crosses_symlink root (p @ q) \<Longrightarrow> \<not> crosses_symlink root p"
proof (induction q rule: rev_induct)
  case (snoc a q)
  then show ?case using crosses_symlink_append [of root "p @ q" a] by simp
qed simp

lemma denied_append [simp]: "denied (p @ q) = (denied p \<or> denied q)"
  by (simp add: denied_def)

lemma resolve_iff:
  "resolve root relative d = Inr parts \<longleftrightarrow>
    \<not> list_ex (\<lambda>c. of_char c = (92 :: nat)) relative \<and> \<not> startswith relative ''/'' \<and>
    parts = path_parts relative \<and> ''..'' \<notin> set parts \<and> \<not> denied parts \<and> \<not> crosses_symlink root parts \<and>
    (\<exists>n. node_at root parts = Some n \<and> (if d then is_dir n else is_file n))"
  by (auto simp: resolve_def Let_def list_ex_iff split: option.splits if_splits)

lemma put_entry_map_of: "map_of (put_entry k m es) j = (if j = k \<and> map_of es k \<noteq> None then Some m else map_of es j)"
  by (induction es) auto

lemma fst_put_entry [simp]: "map fst (put_entry k m es) = map fst es"
  by (induction es) auto

lemma node_at_put_file_same:
  "node_at n q = Some (Regular r b) \<Longrightarrow> node_at (put_file n q data) q = Some (Regular True data)"
proof (induction q arbitrary: n)
  case (Cons p q)
  then show ?case
    by (cases n) (auto simp: child_def put_entry_map_of split: option.splits)
qed simp

text \<open>Everything but the written file stays: the kind of every node, and the contents of other files.\<close>

definition same_kind :: "node option \<Rightarrow> node option \<Rightarrow> bool" where
  "same_kind a b = (rel_option (\<lambda>m n. is_dir m = is_dir n \<and> is_file m = is_file n \<and> is_symlink m = is_symlink n) a b)"

lemma same_kind_refl [simp]: "same_kind a a"
  by (cases a) (auto simp: same_kind_def)

lemma put_file_kind: "same_kind (node_at (put_file n q data) p) (node_at n p)"
proof (induction q arbitrary: n p)
  case Nil
  then show ?case
    by (cases n; cases p) (auto simp: same_kind_def is_dir_def is_file_def is_symlink_def child_def)
next
  case (Cons a q)
  show ?case
  proof (cases "\<exists>r es m. n = Directory r es \<and> map_of es a = Some m")
    case True
    then obtain r es m where n: "n = Directory r es" "map_of es a = Some m" by blast
    show ?thesis
    proof (cases p)
      case Nil
      with n show ?thesis by (simp add: same_kind_def is_dir_def is_file_def is_symlink_def)
    next
      case (Cons b ps)
      with n Cons.IH [of m ps] show ?thesis by (simp add: child_def put_entry_map_of)
    qed
  qed (cases n; auto split: option.splits)
qed

lemma put_file_other:
  "node_at n q = Some (Regular r b) \<Longrightarrow> p \<noteq> q \<Longrightarrow>
    readable_contents (put_file n q data) p = readable_contents n p"
proof (induction q arbitrary: n p)
  case Nil
  then show ?case by (cases p) (auto simp: readable_contents_def child_def)
next
  case (Cons a q)
  then obtain rd es m where n: "n = Directory rd es" "map_of es a = Some m" "node_at m q = Some (Regular r b)"
    by (cases n) (auto simp: child_def split: option.splits)
  show ?case
  proof (cases p)
    case Nil
    with n show ?thesis by (simp add: readable_contents_def)
  next
    case (Cons c ps)
    with n Cons.IH [OF n(3), of ps] Cons.prems show ?thesis
      by (auto simp: readable_contents_def child_def put_entry_map_of)
  qed
qed

lemma resolve_put_file: "resolve (put_file root q data) relative d = resolve root relative d"
proof -
  have k: "same_kind (node_at (put_file root q data) p) (node_at root p)" for p by (rule put_file_kind)
  have "link_at (put_file root q data) p = link_at root p" for p
    using k [of p] by (auto simp: link_at_def same_kind_def rel_option_iff split: option.splits)
  then have "crosses_symlink (put_file root q data) p = crosses_symlink root p" for p
    by (simp add: crosses_symlink_def)
  with k [of "path_parts relative"] show ?thesis
    by (auto simp: resolve_def Let_def same_kind_def rel_option_iff split: option.splits)
qed

text \<open>A small workspace and libraries to evaluate on.\<close>

definition sample_tree :: node where
  "sample_tree = Directory True
    [(''src'', Directory True [(''main.py'', Regular True ''x = 1''), (''link'', Symlink ''/etc'')]),
     (''.env'', Regular True ''TOKEN'')]"

definition sample_lib :: tool_lib where
  "sample_lib = \<lparr>sha256 = (\<lambda>b. b), unified_diff = (\<lambda>path a b. (0, PStr path))\<rparr>"

end
