(* ===== verification/Runtime.thy ===== *)
theory Runtime
  imports Schema Workspace
begin

text \<open>
  The request-scoped database session and the programs that run over it. A program takes the
  session and returns a value or an exception together with the session it leaves. The session
  holds the durable data (\<open>committed\<close>) and the data the open transaction sees (\<open>working\<close>);
  the outside world is a few readings, indexed by a tick that every statement, clock reading and
  fresh identifier advances: which statements fail, what \<open>uuid4\<close> returns, what the clock and the
  stop watch say, the correlation id of the request, the setting \<open>environment\<close>, the libraries
  and the files of the approved workspace. Nothing is assumed about them.
\<close>

section \<open>Sessions\<close>

text \<open>
  \<open>urlsplit\<close> and \<open>parse_qsl\<close> of \<open>urllib.parse\<close>: the first returns the scheme, user name,
  password, host name, query and fragment of a URL, or raises \<open>ValueError\<close> (\<open>None\<close>).
\<close>

record url_parts =
  url_scheme :: pystr
  url_username :: "pystr option"
  url_password :: "pystr option"
  url_hostname :: "pystr option"
  url_query :: pystr
  url_fragment :: pystr

record url_lib =
  urlsplit :: "pystr \<Rightarrow> url_parts option"
  parse_qsl :: "pystr \<Rightarrow> (pystr \<times> pystr) list"

record session =
  committed :: db
  working :: db
  txn_start :: "instant option"
  tick :: nat
  fault_at :: "nat \<Rightarrow> bool"
  uuid_at :: "nat \<Rightarrow> uuid"
  clock_at :: "nat \<Rightarrow> instant"
  correlation :: "pystr option"
  urls :: url_lib
  files :: node
  libs :: tool_lib
  environment :: pystr
  elapsed_at :: "nat \<Rightarrow> pystr"

type_synonym 'a prog = "session \<Rightarrow> (exn + 'a) \<times> session"

definition open_session ::
  "db \<Rightarrow> (nat \<Rightarrow> bool) \<Rightarrow> (nat \<Rightarrow> uuid) \<Rightarrow> (nat \<Rightarrow> instant) \<Rightarrow> pystr option \<Rightarrow> url_lib \<Rightarrow>
     node \<Rightarrow> tool_lib \<Rightarrow> pystr \<Rightarrow> (nat \<Rightarrow> pystr) \<Rightarrow> session"
where
  "open_session d faults uuids clock corr lib tree tools env watch =
     \<lparr>committed = d, working = d, txn_start = None, tick = 0, fault_at = faults,
      uuid_at = uuids, clock_at = clock, correlation = corr, urls = lib,
      files = tree, libs = tools, environment = env, elapsed_at = watch\<rparr>"

section \<open>Programs\<close>

definition ret :: "'a \<Rightarrow> 'a prog" where
  "ret a s = (Inr a, s)"

definition throw :: "exn \<Rightarrow> 'a prog" where
  "throw e s = (Inl e, s)"

definition bnd :: "'a prog \<Rightarrow> ('a \<Rightarrow> 'b prog) \<Rightarrow> 'b prog" where
  "bnd m k s = (case m s of (Inl e, s') \<Rightarrow> (Inl e, s') | (Inr a, s') \<Rightarrow> k a s')"

definition andthen :: "'a prog \<Rightarrow> 'b prog \<Rightarrow> 'b prog" where
  "andthen m n = bnd m (\<lambda>_. n)"

definition only_if :: "bool \<Rightarrow> unit prog \<Rightarrow> unit prog" where
  "only_if b m = (if b then m else ret ())"

definition catch :: "'a prog \<Rightarrow> (exn \<Rightarrow> 'a prog) \<Rightarrow> 'a prog" where
  "catch m h s = (case m s of (Inl e, s') \<Rightarrow> h e s' | (Inr a, s') \<Rightarrow> (Inr a, s'))"

text \<open>\<open>if value is None: raise e\<close>, and the value otherwise.\<close>

definition require :: "exn \<Rightarrow> 'a option \<Rightarrow> 'a prog" where
  "require e x = (case x of None \<Rightarrow> throw e | Some a \<Rightarrow> ret a)"

primrec for_each :: "'x list \<Rightarrow> ('x \<Rightarrow> unit prog) \<Rightarrow> unit prog" where
  "for_each [] f = ret ()"
| "for_each (x # xs) f = andthen (f x) (for_each xs f)"

primrec collect :: "'x list \<Rightarrow> ('x \<Rightarrow> 'a prog) \<Rightarrow> 'a list prog" where
  "collect [] f = ret []"
| "collect (x # xs) f = bnd (f x) (\<lambda>a. bnd (collect xs f) (\<lambda>as. ret (a # as)))"

section \<open>Statements and transactions\<close>

text \<open>
  The transaction begins at its first statement, and PostgreSQL's \<open>now()\<close> is the time it
  began. A statement may fail as a whole (\<open>SQLAlchemyError\<close>); a writing statement that would
  leave a constraint violated raises \<open>IntegrityError\<close> and has no effect.
\<close>

definition begin_stmt :: "session \<Rightarrow> session" where
  "begin_stmt s = s\<lparr>tick := Suc (tick s),
     txn_start := Some (case txn_start s of None \<Rightarrow> clock_at s (tick s) | Some t \<Rightarrow> t)\<rparr>"

definition db_now :: "session \<Rightarrow> instant" where
  "db_now s = (case txn_start s of None \<Rightarrow> clock_at s (tick s) | Some t \<Rightarrow> t)"

definition query :: "(db \<Rightarrow> 'a) \<Rightarrow> 'a prog" where
  "query q s = (if fault_at s (tick s) then (Inl SQLAlchemyError, begin_stmt s)
     else (Inr (q (working s)), begin_stmt s))"

definition exec_stmt :: "(instant \<Rightarrow> db \<Rightarrow> 'a \<times> db) \<Rightarrow> 'a prog" where
  "exec_stmt f s = (let s' = begin_stmt s; (a, d) = f (db_now s') (working s) in
     if fault_at s (tick s) then (Inl SQLAlchemyError, s')
     else if constraints d then (Inr a, s'\<lparr>working := d\<rparr>)
     else (Inl IntegrityError, s'))"

definition commit :: "unit prog" where
  "commit s = (if fault_at s (tick s) then (Inl SQLAlchemyError, s\<lparr>tick := Suc (tick s)\<rparr>)
     else (Inr (), s\<lparr>committed := working s, tick := Suc (tick s), txn_start := None\<rparr>))"

definition rollback :: "unit prog" where
  "rollback s = (Inr (), s\<lparr>working := committed s, txn_start := None\<rparr>)"

text \<open>\<open>session.refresh(row)\<close> selects the row again by its key.\<close>

definition refresh :: "(db \<Rightarrow> 'r list) \<Rightarrow> ('r \<Rightarrow> uuid) \<Rightarrow> 'r \<Rightarrow> 'r prog" where
  "refresh tab key r =
     bnd (query (\<lambda>d. first_row (filter (\<lambda>x. key x = key r) (tab d)))) (require SQLAlchemyError)"

text \<open>Readings of the outside world: \<open>uuid4()\<close>, \<open>datetime.now(UTC)\<close>, \<open>get_correlation_id()\<close>.\<close>

definition uuid4 :: "uuid prog" where
  "uuid4 s = (Inr (uuid_at s (tick s)), s\<lparr>tick := Suc (tick s)\<rparr>)"

definition now_utc :: "instant prog" where
  "now_utc s = (Inr (clock_at s (tick s)), s\<lparr>tick := Suc (tick s)\<rparr>)"

definition get_url_lib :: "url_lib prog" where
  "get_url_lib s = (Inr (urls s), s)"

definition get_correlation_id :: "pystr option prog" where
  "get_correlation_id s = (Inr (correlation s), s)"

text \<open>
  The services' transaction boundary: an \<open>ApplicationError\<close> of the body is rolled back and
  raised again, an \<open>SQLAlchemyError\<close> is rolled back and replaced; any other exception passes
  without a rollback.
\<close>

definition transaction :: "exn \<Rightarrow> 'a prog \<Rightarrow> 'a prog" where
  "transaction persistence_failed body = catch body (\<lambda>e.
     if is_application_error e then andthen rollback (throw e)
     else if is_sqlalchemy_error e then andthen rollback (throw persistence_failed)
     else throw e)"

text \<open>The variant that only handles \<open>IntegrityError\<close>.\<close>

definition on_integrity_error :: "exn \<Rightarrow> 'a prog \<Rightarrow> 'a prog" where
  "on_integrity_error conflict body = catch body (\<lambda>e.
     if e = IntegrityError then andthen rollback (throw conflict) else throw e)"

text \<open>The end of a request closes its session: what was not committed is lost.\<close>

definition request :: "'a prog \<Rightarrow> 'a prog" where
  "request m s = (let (r, s') = m s in (r, s'\<lparr>working := committed s', txn_start := None\<rparr>))"

section \<open>Evaluation\<close>

lemma bnd_simps [simp]:
  "bnd (ret a) k = k a"
  "bnd (throw e) k = throw e"
  by (simp_all add: bnd_def ret_def throw_def fun_eq_iff)

lemma andthen_simps [simp]:
  "andthen (ret a) n = n"
  "andthen (throw e) n = throw e"
  by (simp_all add: andthen_def)

lemma require_simps [simp]:
  "require e None = throw e"
  "require e (Some a) = ret a"
  by (simp_all add: require_def)

lemma only_if_simps [simp]: "only_if True m = m" "only_if False m = ret ()"
  by (simp_all add: only_if_def)

lemma bnd_assoc: "bnd (bnd m k) l = bnd m (\<lambda>a. bnd (k a) l)"
  by (auto simp: bnd_def fun_eq_iff split: prod.splits sum.splits)

lemmas run_simps [prog_simps] =
  ret_def throw_def bnd_def andthen_def only_if_def catch_def require_def query_def exec_stmt_def
  commit_def rollback_def refresh_def uuid4_def now_utc_def get_correlation_id_def get_url_lib_def
  transaction_def on_integrity_error_def request_def begin_stmt_def db_now_def

section \<open>Triples\<close>

text \<open>
  \<open>triple P m Q E\<close>: from a session satisfying \<open>P\<close> the program ends in one satisfying \<open>Q\<close>
  with its value, or \<open>E\<close> with its exception. Programs are total, so this is total
  correctness.
\<close>

definition triple ::
  "(session \<Rightarrow> bool) \<Rightarrow> 'a prog \<Rightarrow> ('a \<Rightarrow> session \<Rightarrow> bool) \<Rightarrow> (exn \<Rightarrow> session \<Rightarrow> bool) \<Rightarrow> bool" where
  "triple P m Q E \<longleftrightarrow>
     (\<forall>s. P s \<longrightarrow> (case m s of (Inr a, s') \<Rightarrow> Q a s' | (Inl e, s') \<Rightarrow> E e s'))"

lemma triple_ret: "(\<And>s. P s \<Longrightarrow> Q a s) \<Longrightarrow> triple P (ret a) Q E"
  by (simp add: triple_def ret_def)

lemma triple_throw: "(\<And>s. P s \<Longrightarrow> E e s) \<Longrightarrow> triple P (throw e) Q E"
  by (simp add: triple_def throw_def)

lemma triple_bnd:
  "triple P m R E \<Longrightarrow> (\<And>a. triple (R a) (k a) Q E) \<Longrightarrow> triple P (bnd m k) Q E"
  unfolding triple_def bnd_def by (fastforce split: prod.splits sum.splits)

lemma triple_conseq:
  "triple P' m Q' E' \<Longrightarrow> (\<And>s. P s \<Longrightarrow> P' s) \<Longrightarrow> (\<And>a s. Q' a s \<Longrightarrow> Q a s) \<Longrightarrow>
   (\<And>e s. E' e s \<Longrightarrow> E e s) \<Longrightarrow> triple P m Q E"
  unfolding triple_def by (fastforce split: prod.splits sum.splits)

lemma tripleD:
  "triple P m Q E \<Longrightarrow> P s \<Longrightarrow> m s = (Inr a, s') \<Longrightarrow> Q a s'"
  "triple P m Q E \<Longrightarrow> P s \<Longrightarrow> m s = (Inl e, s') \<Longrightarrow> E e s'"
  by (auto simp: triple_def)

section \<open>Relations every step of a program respects\<close>

text \<open>
  A reflexive and transitive relation between the session before and the session after. If the
  primitive steps respect it, so does every program built from them: each instance below gives
  one frame or monotonicity property of all the services at once.
\<close>

definition steps :: "(session \<Rightarrow> session \<Rightarrow> bool) \<Rightarrow> 'a prog \<Rightarrow> bool" where
  "steps R m \<longleftrightarrow> (\<forall>s. R s (snd (m s)))"

locale session_order =
  fixes R :: "session \<Rightarrow> session \<Rightarrow> bool"
  assumes R_refl: "R s s"
    and R_trans: "R s t \<Longrightarrow> R t u \<Longrightarrow> R s u"
begin

lemma steps_ret: "steps R (ret a)"
  by (simp add: steps_def ret_def R_refl)

lemma steps_throw: "steps R (throw e)"
  by (simp add: steps_def throw_def R_refl)

lemma steps_bnd:
  assumes m: "steps R m" and k: "\<And>a. steps R (k a)"
  shows "steps R (bnd m k)"
  unfolding steps_def
proof
  fix s
  show "R s (snd (bnd m k s))"
  proof (cases "m s")
    case (Pair r t)
    with m have st: "R s t" by (auto simp: steps_def dest: spec [of _ s])
    show ?thesis
    proof (cases r)
      case (Inr a)
      have "R t (snd (k a t))" using k by (simp add: steps_def)
      with st Pair Inr show ?thesis by (auto simp: bnd_def intro: R_trans)
    qed (use Pair st in \<open>simp add: bnd_def\<close>)
  qed
qed

lemma steps_andthen: "steps R m \<Longrightarrow> steps R n \<Longrightarrow> steps R (andthen m n)"
  by (simp add: andthen_def steps_bnd)

lemma steps_catch:
  assumes m: "steps R m" and h: "\<And>e. steps R (h e)"
  shows "steps R (catch m h)"
  unfolding steps_def
proof
  fix s
  show "R s (snd (catch m h s))"
  proof (cases "m s")
    case (Pair r t)
    with m have st: "R s t" by (auto simp: steps_def dest: spec [of _ s])
    show ?thesis
    proof (cases r)
      case (Inl e)
      have "R t (snd (h e t))" using h by (simp add: steps_def)
      with st Pair Inl show ?thesis by (auto simp: catch_def intro: R_trans)
    qed (use Pair st in \<open>simp add: catch_def\<close>)
  qed
qed

lemma steps_only_if: "steps R m \<Longrightarrow> steps R (only_if b m)"
  by (simp add: only_if_def steps_ret)

lemma steps_if: "(b \<Longrightarrow> steps R m) \<Longrightarrow> (\<not> b \<Longrightarrow> steps R n) \<Longrightarrow> steps R (if b then m else n)"
  by simp

lemma steps_option:
  "steps R m \<Longrightarrow> (\<And>a. steps R (f a)) \<Longrightarrow> steps R (case x of None \<Rightarrow> m | Some a \<Rightarrow> f a)"
  by (cases x) simp_all

lemma steps_require: "steps R (require e x)"
  by (simp add: require_def steps_option steps_ret steps_throw)

lemma steps_for_each: "(\<And>x. steps R (f x)) \<Longrightarrow> steps R (for_each xs f)"
  by (induction xs) (simp_all add: steps_ret steps_andthen)

lemma steps_collect: "(\<And>x. steps R (f x)) \<Longrightarrow> steps R (collect xs f)"
  by (induction xs) (simp_all add: steps_ret steps_bnd)

lemmas steps_rules =
  steps_ret steps_throw steps_bnd steps_andthen steps_catch steps_only_if steps_if steps_option
  steps_require steps_for_each steps_collect

end

text \<open>
  The steps of the session itself: bookkeeping of ticks and transaction start, a write that
  the database accepted (\<open>W\<close> says which writes the program makes), commit and rollback.
\<close>

locale stmt_order = session_order +
  fixes W :: "db \<Rightarrow> db \<Rightarrow> bool"
  assumes R_book: "R s (s\<lparr>tick := n, txn_start := t\<rparr>)"
    and R_write: "W (working s) d \<Longrightarrow> constraints d \<Longrightarrow> R s (s\<lparr>working := d\<rparr>)"
    and R_rollback: "R s (s\<lparr>working := committed s\<rparr>)"
begin

lemma R_begin: "R s (begin_stmt s)"
  unfolding begin_stmt_def by (rule R_book)

lemma R_tick: "R s (s\<lparr>tick := n\<rparr>)"
  using R_book [of s "txn_start s" n] by simp

lemma R_txn: "R s (s\<lparr>txn_start := t\<rparr>)"
  using R_book [of s t "tick s"] by simp

lemma steps_query: "steps R (query q)"
  by (simp add: steps_def query_def R_begin)

lemma steps_exec:
  assumes "\<And>t d. W d (snd (f t d))"
  shows "steps R (exec_stmt f)"
proof -
  have "R s ((begin_stmt s)\<lparr>working := d\<rparr>)" if "W (working s) d" "constraints d" for s d
    using R_trans [OF R_begin R_write] that by (simp add: begin_stmt_def)
  then show ?thesis
    using assms by (auto simp: steps_def exec_stmt_def Let_def R_begin split: prod.splits)
      (metis snd_conv)
qed

lemma steps_rollback: "steps R rollback"
  using R_trans [OF R_rollback R_txn] by (simp add: steps_def rollback_def)

lemma steps_uuid4: "steps R uuid4"
  by (simp add: steps_def uuid4_def R_tick)

lemma steps_now_utc: "steps R now_utc"
  by (simp add: steps_def now_utc_def R_tick)

lemma steps_get_correlation_id: "steps R get_correlation_id"
  by (simp add: steps_def get_correlation_id_def R_refl)

lemma steps_get_url_lib: "steps R get_url_lib"
  by (simp add: steps_def get_url_lib_def R_refl)

lemma steps_refresh: "steps R (refresh tab key r)"
  by (simp add: refresh_def steps_rules steps_query)

lemma steps_transaction: "steps R m \<Longrightarrow> steps R (transaction e m)"
  unfolding transaction_def by (intro steps_rules steps_rollback)

lemma steps_on_integrity_error: "steps R m \<Longrightarrow> steps R (on_integrity_error e m)"
  unfolding on_integrity_error_def by (intro steps_rules steps_rollback)

lemma steps_request: "steps R m \<Longrightarrow> steps R (request m)"
proof -
  assume m: "steps R m"
  have "R t (t\<lparr>working := committed t, txn_start := None\<rparr>)" for t
    using R_trans [OF R_rollback R_txn [of _ None]] by simp
  then show ?thesis using m
    unfolding steps_def request_def by (auto simp: Let_def split: prod.splits) (metis R_trans snd_conv)
qed

lemmas stmt_rules =
  steps_query steps_rollback steps_uuid4 steps_now_utc steps_get_correlation_id
  steps_get_url_lib steps_refresh steps_transaction steps_on_integrity_error steps_request

end

text \<open>Relations that a commit respects as well.\<close>

locale store_order = stmt_order +
  assumes R_commit: "R s (s\<lparr>committed := working s\<rparr>)"
begin

lemma steps_commit: "steps R commit"
proof -
  have "R s (s\<lparr>committed := working s, tick := n, txn_start := None\<rparr>)" for s n
    using R_trans [OF R_commit R_book [of _ None n]] by simp
  then show ?thesis by (simp add: steps_def commit_def R_tick)
qed

lemmas store_rules = stmt_rules steps_commit

end

text \<open>Every session keeps the constraints: PostgreSQL refuses what would break them.\<close>

definition data_ok :: "session \<Rightarrow> bool" where
  "data_ok s = (constraints (working s) \<and> constraints (committed s))"

definition keeps_data_ok :: "session \<Rightarrow> session \<Rightarrow> bool" where
  "keeps_data_ok s t = (data_ok s \<longrightarrow> data_ok t)"

interpretation data: store_order keeps_data_ok "\<lambda>_ _. True"
  by unfold_locales (auto simp: keeps_data_ok_def data_ok_def)

text \<open>
  A preorder on databases that every write respects holds between the durable data before and
  after, whatever was committed and rolled back in between.
\<close>

definition lift_order :: "(db \<Rightarrow> db \<Rightarrow> bool) \<Rightarrow> session \<Rightarrow> session \<Rightarrow> bool" where
  "lift_order P s t =
     (P (committed s) (working s) \<longrightarrow> P (committed t) (working t) \<and> P (committed s) (committed t))"

locale db_order =
  fixes P :: "db \<Rightarrow> db \<Rightarrow> bool"
  assumes P_refl: "P d d"
    and P_trans: "P d e \<Longrightarrow> P e f \<Longrightarrow> P d f"
begin

lemma lift_is_order: "store_order (lift_order P) P"
  by unfold_locales (auto simp: lift_order_def P_refl intro: P_trans)

lemma lift_result:
  "steps (lift_order P) m \<Longrightarrow> P (committed s) (working s) \<Longrightarrow> P (committed s) (committed (snd (m s)))"
  by (auto simp: steps_def lift_order_def)

end

sublocale db_order \<subseteq> lifted: store_order "lift_order P" P
  by (rule lift_is_order)

definition frozen :: "(db \<Rightarrow> 'a) \<Rightarrow> db \<Rightarrow> db \<Rightarrow> bool" where
  "frozen T d e = (T d = T e)"

definition grows :: "(db \<Rightarrow> 'a list) \<Rightarrow> db \<Rightarrow> db \<Rightarrow> bool" where
  "grows T d e = prefix (T d) (T e)"

text \<open>
  A table whose rows change only along a preorder and never disappear: the rows of the older
  database are related, position by position, to the first rows of the newer one.
\<close>

definition evolves :: "('r \<Rightarrow> 'r \<Rightarrow> bool) \<Rightarrow> (db \<Rightarrow> 'r list) \<Rightarrow> db \<Rightarrow> db \<Rightarrow> bool" where
  "evolves le T d e = (\<exists>kept new. T e = kept @ new \<and> list_all2 le (T d) kept)"

locale row_order =
  fixes le :: "'r \<Rightarrow> 'r \<Rightarrow> bool" and T :: "db \<Rightarrow> 'r list"
  assumes le_refl: "le r r"
    and le_trans: "le r s \<Longrightarrow> le s t \<Longrightarrow> le r t"
begin

lemma evolves_same: "T e = T d \<Longrightarrow> evolves le T d e"
  unfolding evolves_def by (rule exI [of _ "T d"]) (simp add: le_refl list_all2_refl)

lemma evolves_append: "T e = T d @ rs \<Longrightarrow> evolves le T d e"
  unfolding evolves_def by (rule exI [of _ "T d"]) (simp add: le_refl list_all2_refl)

lemma evolves_update:
  assumes "T e = update_where sel f (T d)" and "\<And>r. sel r \<Longrightarrow> le r (f r)"
  shows "evolves le T d e"
proof -
  have "list_all2 le rows (update_where sel f rows)" for rows
    by (induction rows) (simp_all add: assms(2) le_refl)
  then show ?thesis unfolding evolves_def using assms(1) by auto
qed

lemma evolves_order: "db_order (evolves le T)"
proof
  show "evolves le T d d" for d by (rule evolves_same) simp
next
  fix d e f assume "evolves le T d e" and "evolves le T e f"
  then obtain k1 n1 k2 n2 where e: "T e = k1 @ n1" "list_all2 le (T d) k1"
    and f: "T f = k2 @ n2" "list_all2 le (T e) k2"
    unfolding evolves_def by blast
  from f(2) e(1) obtain a b where k2: "k2 = a @ b" "list_all2 le k1 a"
    by (auto simp: list_all2_append1)
  have "list_all2 le (T d) a"
    by (rule list_all2_trans [OF _ e(2) k2(2)]) (rule le_trans)
  with f(1) k2(1) show "evolves le T d f" unfolding evolves_def by auto
qed

lemma evolves_row: "evolves le T d e \<Longrightarrow> r \<in> set (T d) \<Longrightarrow> \<exists>r' \<in> set (T e). le r r'"
  unfolding evolves_def by (auto simp: list_all2_conv_all_nth in_set_conv_nth) (metis UnI1 nth_mem)

end

sublocale row_order \<subseteq> db_order "evolves le T"
  by (rule evolves_order)

text \<open>
  A table of rows that move along \<open>step\<close> and that no step leaves once they are final.
\<close>

locale lifecycle =
  fixes step :: "'r \<Rightarrow> 'r \<Rightarrow> bool" and T :: "db \<Rightarrow> 'r list" and final :: "'r \<Rightarrow> bool"
  assumes final_stuck: "step r s \<Longrightarrow> \<not> final r"
begin

lemma steps_order: "row_order (step\<^sup>*\<^sup>*)"
  by unfold_locales auto

lemma final_same: "step\<^sup>*\<^sup>* r s \<Longrightarrow> final r \<Longrightarrow> s = r"
  by (induction rule: converse_rtranclp_induct) (auto dest: final_stuck)

end

sublocale lifecycle \<subseteq> row_order "step\<^sup>*\<^sup>*" T
  by (rule steps_order)

context lifecycle
begin

lemma final_kept: "evolves (step\<^sup>*\<^sup>*) T d e \<Longrightarrow> r \<in> set (T d) \<Longrightarrow> final r \<Longrightarrow> r \<in> set (T e)"
  by (metis evolves_row final_same)

lemma evolves_step:
  assumes "T e = update_where sel f (T d)" and "\<And>r. sel r \<Longrightarrow> step r (f r)"
  shows "evolves (step\<^sup>*\<^sup>*) T d e"
  by (rule evolves_update [OF assms(1)]) (simp add: assms(2) r_into_rtranclp)

end

interpretation read_only: db_order "frozen id"
  by unfold_locales (auto simp: frozen_def)

section \<open>Successful runs\<close>

text \<open>What a run that ends with a value did, step by step.\<close>

lemma Inr_runs [prog_simps]:
  "ret a s = (Inr b, t) \<longleftrightarrow> b = a \<and> t = s"
  "throw e s = (Inr b, t) \<longleftrightarrow> False"
  "bnd m k s = (Inr b, u) \<longleftrightarrow> (\<exists>a t. m s = (Inr a, t) \<and> k a t = (Inr b, u))"
  "andthen m' n s = (Inr b, u) \<longleftrightarrow> (\<exists>a t. m' s = (Inr a, t) \<and> n t = (Inr b, u))"
  "query q s = (Inr a', t) \<longleftrightarrow> \<not> fault_at s (tick s) \<and> a' = q (working s) \<and> t = begin_stmt s"
  "commit s = (Inr v, t) \<longleftrightarrow> \<not> fault_at s (tick s) \<and>
     t = s\<lparr>committed := working s, tick := Suc (tick s), txn_start := None\<rparr>"
  "uuid4 s = (Inr i, t) \<longleftrightarrow> i = uuid_at s (tick s) \<and> t = s\<lparr>tick := Suc (tick s)\<rparr>"
  "now_utc s = (Inr z, t) \<longleftrightarrow> z = clock_at s (tick s) \<and> t = s\<lparr>tick := Suc (tick s)\<rparr>"
  "get_correlation_id s = (Inr c, t) \<longleftrightarrow> c = correlation s \<and> t = s"
  "get_url_lib s = (Inr l, t) \<longleftrightarrow> l = urls s \<and> t = s"
  by (auto simp: ret_def throw_def andthen_def bnd_def query_def commit_def uuid4_def now_utc_def
      get_correlation_id_def get_url_lib_def split: prod.splits sum.splits)

lemma Inr_runs_option:
  "require e x s = (Inr b, t) \<longleftrightarrow> x = Some b \<and> t = s"
  by (cases x) (auto simp: Inr_runs)

lemma Inr_runs_only_if:
  "only_if c m s = (Inr v, t) \<longleftrightarrow> (if c then m s = (Inr v, t) else t = s)"
  by (auto simp: only_if_def Inr_runs)

lemma Inr_runs_handler:
  "transaction e m s = (Inr b, t) \<longleftrightarrow> m s = (Inr b, t)"
  "on_integrity_error e m s = (Inr b, t) \<longleftrightarrow> m s = (Inr b, t)"
  by (auto simp: transaction_def on_integrity_error_def catch_def Inr_runs throw_def andthen_def
      bnd_def rollback_def split: prod.splits sum.splits if_splits)

lemma Inr_runs_exec:
  "exec_stmt f s = (Inr a, t) \<longleftrightarrow>
     (\<exists>d. f (db_now (begin_stmt s)) (working s) = (a, d) \<and> \<not> fault_at s (tick s) \<and> constraints d \<and>
          t = (begin_stmt s)\<lparr>working := d\<rparr>)"
  by (auto simp: exec_stmt_def Let_def split: prod.splits if_splits)

lemma Inr_runs_refresh:
  "refresh tab key r s = (Inr b, t) \<longleftrightarrow> \<not> fault_at s (tick s) \<and> t = begin_stmt s \<and>
     first_row (filter (\<lambda>x. key x = key r) (tab (working s))) = Some b"
  by (auto simp: refresh_def Inr_runs Inr_runs_option)

lemmas runs = Inr_runs Inr_runs_option Inr_runs_only_if Inr_runs_handler Inr_runs_exec Inr_runs_refresh

lemma begin_stmt_fields [simp]:
  "working (begin_stmt s) = working s" "committed (begin_stmt s) = committed s"
  "correlation (begin_stmt s) = correlation s" "urls (begin_stmt s) = urls s"
  "files (begin_stmt s) = files s" "libs (begin_stmt s) = libs s"
  "environment (begin_stmt s) = environment s" "elapsed_at (begin_stmt s) = elapsed_at s"
  "clock_at (begin_stmt s) = clock_at s" "uuid_at (begin_stmt s) = uuid_at s"
  "fault_at (begin_stmt s) = fault_at s" "tick (begin_stmt s) = Suc (tick s)"
  by (simp_all add: begin_stmt_def)

section \<open>Guarded updates\<close>

lemma collect_map: "collect (map g xs) f = collect xs (\<lambda>x. f (g x))"
  by (induction xs) simp_all

text \<open>
  \<open>update(...).where(...).values(...).returning(...)\<close>: the guard of the update names the state
  the caller expects, and the updated row is returned, or nothing when no row was in that
  state. Requests that race for the same rows are \<open>ok\<close> together when they expect the same and
  each leaves the expected state.
\<close>

definition compare_set ::
  "(db \<Rightarrow> 'r list) \<Rightarrow> ('r list \<Rightarrow> db \<Rightarrow> db) \<Rightarrow> ('r \<Rightarrow> bool) \<Rightarrow> (instant \<Rightarrow> 'r \<Rightarrow> 'r) \<Rightarrow> 'r option prog" where
  "compare_set T put sel upd = exec_stmt (\<lambda>now d.
     (map_option (upd now) (first_row (filter sel (T d))), put (update_where sel (upd now) (T d)) d))"

definition winners :: "'r option list \<Rightarrow> 'r list" where
  "winners rs = List.map_filter id rs"

lemma compare_set_runs:
  "compare_set T put sel upd s = (Inr x, t) \<longleftrightarrow> \<not> fault_at s (tick s) \<and>
     x = map_option (upd (db_now (begin_stmt s))) (first_row (filter sel (T (working s)))) \<and>
     t = (begin_stmt s)\<lparr>working :=
       put (update_where sel (upd (db_now (begin_stmt s))) (T (working s))) (working s)\<rparr> \<and>
     constraints (working t)"
  by (auto simp: compare_set_def Inr_runs_exec)

context stmt_order
begin

lemma steps_compare_set:
  "(\<And>now d. W d (put (update_where sel (upd now) (T d)) d)) \<Longrightarrow> steps R (compare_set T put sel upd)"
  unfolding compare_set_def by (intro steps_exec) simp

end

locale guarded_update =
  fixes T :: "db \<Rightarrow> 'r list" and put :: "'r list \<Rightarrow> db \<Rightarrow> db"
    and sel :: "'q \<Rightarrow> 'r \<Rightarrow> bool" and upd :: "'q \<Rightarrow> instant \<Rightarrow> 'r \<Rightarrow> 'r" and ok :: "'q \<Rightarrow> bool"
  assumes T_put: "T (put rows d) = rows"
    and same_slot: "ok q \<Longrightarrow> ok q' \<Longrightarrow> sel q' r = sel q r"
    and leaves: "ok q \<Longrightarrow> sel q r \<Longrightarrow> \<not> sel q (upd q now r)"
begin

lemma none_left: "ok q \<Longrightarrow> \<forall>r \<in> set (update_where (sel q) (upd q now) rows). \<not> sel q r"
  by (induction rows) (auto simp: leaves)

lemma losers:
  "collect qs (\<lambda>q. compare_set T put (sel q) (upd q)) s = (Inr rs, t) \<Longrightarrow>
   ok p \<Longrightarrow> \<forall>q \<in> set qs. ok q \<Longrightarrow> \<forall>r \<in> set (T (working s)). \<not> sel p r \<Longrightarrow>
   winners rs = [] \<and> T (working t) = T (working s)"
proof (induction qs arbitrary: s rs)
  case Nil
  then show ?case by (auto simp: Inr_runs winners_def List.map_filter_simps)
next
  case (Cons q qs)
  obtain x s1 rest where x: "compare_set T put (sel q) (upd q) s = (Inr x, s1)"
    and rest: "collect qs (\<lambda>q. compare_set T put (sel q) (upd q)) s1 = (Inr rest, t)"
    and rs: "rs = x # rest"
    using Cons.prems(1) by (auto simp: Inr_runs)
  have none: "\<forall>r \<in> set (T (working s)). \<not> sel q r"
    using Cons.prems(2-4) same_slot [of p q] by auto
  then have "first_row (filter (sel q) (T (working s))) = None"
    by (simp add: first_row_filter_None_iff)
  then have x0: "x = None" and s1: "T (working s1) = T (working s)"
    using x none by (simp_all add: compare_set_runs T_put update_where_none)
  have "winners rest = [] \<and> T (working t) = T (working s1)"
    using Cons.IH [OF rest] Cons.prems(2-4) s1 by simp
  then show ?case using x0 s1 rs by (simp add: winners_def List.map_filter_simps)
qed

lemma single_winner:
  assumes run: "collect qs (\<lambda>q. compare_set T put (sel q) (upd q)) s = (Inr rs, t)"
    and ok: "\<forall>q \<in> set qs. ok q"
  shows "length (winners rs) = (if \<exists>q \<in> set qs. \<exists>r \<in> set (T (working s)). sel q r then 1 else 0)"
proof (cases qs)
  case Nil
  with run show ?thesis by (auto simp: Inr_runs winners_def List.map_filter_simps)
next
  case (Cons q qs')
  obtain x s1 rest where x: "compare_set T put (sel q) (upd q) s = (Inr x, s1)"
    and rest: "collect qs' (\<lambda>q. compare_set T put (sel q) (upd q)) s1 = (Inr rest, t)"
    and rs: "rs = x # rest"
    using run unfolding Cons by (auto simp: Inr_runs)
  have q: "ok q" and oks: "\<forall>q \<in> set qs'. ok q" using ok Cons by auto
  have "\<forall>r \<in> set (T (working s1)). \<not> sel q r"
    using none_left [OF q] x by (simp add: compare_set_runs T_put)
  from losers [OF rest q oks this] have "winners rs = winners [x]"
    using rs by (cases x) (simp_all add: winners_def List.map_filter_simps)
  moreover have "(\<exists>q \<in> set qs. \<exists>r \<in> set (T (working s)). sel q r) \<longleftrightarrow>
      (\<exists>r \<in> set (T (working s)). sel q r)"
    using same_slot [OF q] oks unfolding Cons by auto
  moreover have "x \<noteq> None \<longleftrightarrow> (\<exists>r \<in> set (T (working s)). sel q r)"
    using x first_row_filter_None_iff [of "sel q" "T (working s)"] by (auto simp: compare_set_runs)
  ultimately show ?thesis by (cases x) (simp_all add: winners_def List.map_filter_simps)
qed


end

text \<open>A program that, when it returns, has left all data as it was.\<close>

definition reads :: "'a prog \<Rightarrow> bool" where
  "reads m \<longleftrightarrow> (\<forall>s a t. m s = (Inr a, t) \<longrightarrow> working t = working s \<and> committed t = committed s)"

lemma readsD:
  "reads m \<Longrightarrow> m s = (Inr a, t) \<Longrightarrow> working t = working s"
  "reads m \<Longrightarrow> m s = (Inr a, t) \<Longrightarrow> committed t = committed s"
  by (auto simp: reads_def)

lemma reads_bnd: "reads m \<Longrightarrow> (\<And>a. reads (k a)) \<Longrightarrow> reads (bnd m k)"
  by (auto simp: reads_def Inr_runs)

lemma reads_basic:
  "reads (ret a)" "reads (throw e)" "reads (query q)" "reads uuid4" "reads now_utc"
  "reads get_correlation_id" "reads get_url_lib" "reads (require e x)" "reads (refresh tab key r)"
  by (auto simp: reads_def Inr_runs Inr_runs_option Inr_runs_refresh)

lemma reads_andthen: "reads m \<Longrightarrow> reads n \<Longrightarrow> reads (andthen m n)"
  unfolding andthen_def by (rule reads_bnd)

lemma reads_only_if: "reads m \<Longrightarrow> reads (only_if b m)"
  by (simp add: only_if_def reads_basic)

lemma reads_if: "reads m \<Longrightarrow> reads n \<Longrightarrow> reads (if b then m else n)"
  by simp

lemma reads_option:
  "reads m \<Longrightarrow> (\<And>a. reads (f a)) \<Longrightarrow> reads (case x of None \<Rightarrow> m | Some a \<Rightarrow> f a)"
  by (cases x) simp_all

lemmas reads_rules = reads_basic reads_bnd reads_andthen reads_only_if reads_if reads_option

text \<open>What a run that ends with an exception did.\<close>

lemma Inl_runs:
  "ret a s = (Inl e, t) \<longleftrightarrow> False"
  "throw x s = (Inl e, t) \<longleftrightarrow> e = x \<and> t = s"
  "bnd m k s = (Inl e, t) \<longleftrightarrow> m s = (Inl e, t) \<or> (\<exists>a u. m s = (Inr a, u) \<and> k a u = (Inl e, t))"
  "andthen m' n s = (Inl e, t) \<longleftrightarrow> m' s = (Inl e, t) \<or> (\<exists>a u. m' s = (Inr a, u) \<and> n u = (Inl e, t))"
  "require x v s = (Inl e, t) \<longleftrightarrow> v = None \<and> e = x \<and> t = s"
  "only_if b p s = (Inl e, t) \<longleftrightarrow> b \<and> p s = (Inl e, t)"
  "now_utc s = (Inl e, t) \<longleftrightarrow> False" "uuid4 s = (Inl e, t) \<longleftrightarrow> False"
  "get_correlation_id s = (Inl e, t) \<longleftrightarrow> False" "get_url_lib s = (Inl e, t) \<longleftrightarrow> False"
  "query q s = (Inl e, t) \<longleftrightarrow> fault_at s (tick s) \<and> e = SQLAlchemyError \<and> t = begin_stmt s"
  "commit s = (Inl e, t) \<longleftrightarrow>
     fault_at s (tick s) \<and> e = SQLAlchemyError \<and> t = s\<lparr>tick := Suc (tick s)\<rparr>"
  by (auto simp: ret_def throw_def andthen_def bnd_def query_def commit_def uuid4_def now_utc_def
      require_def only_if_def get_correlation_id_def get_url_lib_def
      split: prod.splits sum.splits option.splits)

text \<open>\<open>raises E m\<close>: whatever exception \<open>m\<close> ends with is one of \<open>E\<close>.\<close>

definition raises :: "(exn \<Rightarrow> bool) \<Rightarrow> 'a prog \<Rightarrow> bool" where
  "raises E m \<longleftrightarrow> (\<forall>s e t. m s = (Inl e, t) \<longrightarrow> E e)"

lemma raisesD: "raises E m \<Longrightarrow> m s = (Inl e, t) \<Longrightarrow> E e"
  by (auto simp: raises_def)

lemma raises_basic:
  "raises E (ret a)" "raises E uuid4" "raises E now_utc" "raises E get_correlation_id"
  "raises E get_url_lib" "raises E rollback" "E e \<Longrightarrow> raises E (throw e)"
  "E e \<Longrightarrow> raises E (require e x)" "E SQLAlchemyError \<Longrightarrow> raises E (query q)"
  "E SQLAlchemyError \<Longrightarrow> raises E commit"
  "E SQLAlchemyError \<Longrightarrow> E IntegrityError \<Longrightarrow> raises E (exec_stmt f)"
  by (auto simp: raises_def run_simps exec_stmt_def Let_def split: option.splits prod.splits if_splits)

lemma raises_bnd: "raises E m \<Longrightarrow> (\<And>a. raises E (k a)) \<Longrightarrow> raises E (bnd m k)"
  unfolding raises_def bnd_def by (auto split: prod.splits sum.splits)

lemma raises_andthen: "raises E m \<Longrightarrow> raises E n \<Longrightarrow> raises E (andthen m n)"
  unfolding andthen_def by (rule raises_bnd)

lemma raises_only_if: "raises E m \<Longrightarrow> raises E (only_if b m)"
  by (simp add: only_if_def raises_basic)

lemma raises_if: "raises E m \<Longrightarrow> raises E n \<Longrightarrow> raises E (if b then m else n)"
  by simp

lemma raises_option:
  "raises E m \<Longrightarrow> (\<And>a. raises E (f a)) \<Longrightarrow> raises E (case x of None \<Rightarrow> m | Some a \<Rightarrow> f a)"
  by (cases x) simp_all

lemma raises_refresh: "E SQLAlchemyError \<Longrightarrow> raises E (refresh tab key r)"
  unfolding refresh_def by (intro raises_bnd raises_basic)

lemma raises_compare_set:
  "E SQLAlchemyError \<Longrightarrow> E IntegrityError \<Longrightarrow> raises E (compare_set T put sel upd)"
  unfolding compare_set_def by (rule raises_basic)

lemma raises_weaken: "raises E m \<Longrightarrow> (\<And>e. E e \<Longrightarrow> F e) \<Longrightarrow> raises F m"
  by (auto simp: raises_def)

lemmas raises_rules =
  raises_basic raises_bnd raises_andthen raises_only_if raises_if raises_option raises_refresh
  raises_compare_set

section \<open>Failures and durability\<close>

text \<open>
  A program is quiet when it leaves the durable data alone. \<open>late E m\<close>: a failure of \<open>m\<close> either
  left the durable data alone or is one of the exceptions \<open>E\<close> (raised after the commit).
\<close>

definition same_committed :: "session \<Rightarrow> session \<Rightarrow> bool" where
  "same_committed s t = (committed t = committed s)"

interpretation quiet: stmt_order same_committed "\<lambda>_ _. True"
  by unfold_locales (auto simp: same_committed_def)

definition late :: "(exn \<Rightarrow> bool) \<Rightarrow> 'a prog \<Rightarrow> bool" where
  "late E m \<longleftrightarrow> (\<forall>s e t. m s = (Inl e, t) \<longrightarrow> committed t = committed s \<or> E e)"

lemma late_quiet: "steps same_committed m \<Longrightarrow> late E m"
  by (auto simp: steps_def late_def same_committed_def) (metis snd_conv)

lemma late_bnd: "steps same_committed m \<Longrightarrow> (\<And>a. late E (k a)) \<Longrightarrow> late E (bnd m k)"
  unfolding late_def steps_def same_committed_def bnd_def
  by (auto split: prod.splits sum.splits) (metis snd_conv)+

lemma late_andthen: "steps same_committed m \<Longrightarrow> late E n \<Longrightarrow> late E (andthen m n)"
  unfolding andthen_def by (rule late_bnd)

lemma late_if: "late E m \<Longrightarrow> late E n \<Longrightarrow> late E (if b then m else n)"
  by simp

lemma late_option: "late E m \<Longrightarrow> (\<And>a. late E (f a)) \<Longrightarrow> late E (case x of None \<Rightarrow> m | Some a \<Rightarrow> f a)"
  by (cases x) simp_all

lemma late_commit: "late E commit"
  by (auto simp: late_def commit_def)

lemma late_commit_ret: "late E (andthen commit (ret a))"
  by (auto simp: late_def andthen_def bnd_def commit_def ret_def)

lemma late_commit_refresh: "late is_sqlalchemy_error (andthen commit (refresh tab key r))"
  by (auto simp: late_def andthen_def bnd_def commit_def refresh_def query_def require_def
      throw_def ret_def split: option.splits if_splits)

lemma late_transaction:
  "late is_sqlalchemy_error m \<Longrightarrow> late (\<lambda>e. e = pf) (transaction pf m)"
  unfolding late_def transaction_def catch_def andthen_def bnd_def rollback_def throw_def
  by (auto split: prod.splits sum.splits if_splits) (metis exn_kinds(5) exn.exhaust
      is_application_error_def exn.case)+

lemma late_weaken: "late E m \<Longrightarrow> (\<And>e. E e \<Longrightarrow> F e) \<Longrightarrow> late F m"
  by (auto simp: late_def)

lemma late_commit_refresh_only:
  "late (\<lambda>e. e = SQLAlchemyError) (andthen commit (refresh tab key r))"
  by (auto simp: late_def andthen_def bnd_def commit_def refresh_def query_def require_def
      throw_def ret_def split: option.splits if_splits)

lemma late_on_integrity_error:
  "late (\<lambda>e. e = SQLAlchemyError) m \<Longrightarrow> late (\<lambda>e. e = SQLAlchemyError) (on_integrity_error x m)"
  unfolding late_def on_integrity_error_def catch_def andthen_def bnd_def rollback_def throw_def
  by (fastforce split: prod.splits sum.splits if_splits)

section \<open>What reaches the durable data\<close>

text \<open>
  Two judgements over the data alone. \<open>yields D m Q\<close>: when \<open>m\<close> starts on data satisfying \<open>D\<close> and
  returns a value, the data it leaves to the open transaction satisfy \<open>Q\<close>. \<open>lands D m F\<close>: when
  \<open>m\<close> starts on such data, then however it ends the durable data are as before or satisfy \<open>F\<close>.
\<close>

definition yields :: "(db \<Rightarrow> bool) \<Rightarrow> 'a prog \<Rightarrow> ('a \<Rightarrow> db \<Rightarrow> bool) \<Rightarrow> bool" where
  "yields D m Q \<longleftrightarrow> (\<forall>s a t. m s = (Inr a, t) \<longrightarrow> D (working s) \<longrightarrow> Q a (working t))"

definition lands :: "(db \<Rightarrow> bool) \<Rightarrow> 'a prog \<Rightarrow> (db \<Rightarrow> bool) \<Rightarrow> bool" where
  "lands D m F \<longleftrightarrow> (\<forall>s r t. m s = (r, t) \<longrightarrow> D (working s) \<longrightarrow>
     committed t = committed s \<or> F (committed t))"

lemma yieldsD: "yields D m Q \<Longrightarrow> m s = (Inr a, t) \<Longrightarrow> D (working s) \<Longrightarrow> Q a (working t)"
  by (simp add: yields_def)

lemma landsD:
  "lands D m F \<Longrightarrow> m s = (r, t) \<Longrightarrow> D (working s) \<Longrightarrow> committed t = committed s \<or> F (committed t)"
  by (simp add: lands_def)

lemma yields_reads: "reads m \<Longrightarrow> (\<And>a d. D d \<Longrightarrow> Q a d) \<Longrightarrow> yields D m Q"
  by (auto simp: yields_def reads_def)

lemma yields_query: "(\<And>d. D d \<Longrightarrow> Q (q d) d) \<Longrightarrow> yields D (query q) Q"
  by (auto simp: yields_def Inr_runs)

lemma yields_exec:
  "(\<And>now d a e. f now d = (a, e) \<Longrightarrow> D d \<Longrightarrow> constraints e \<Longrightarrow> Q a e) \<Longrightarrow> yields D (exec_stmt f) Q"
  by (auto simp: yields_def Inr_runs_exec)

lemma yields_compare_set:
  assumes "\<And>now d. D d \<Longrightarrow> constraints (put (update_where sel (upd now) (T d)) d) \<Longrightarrow>
    Q (map_option (upd now) (first_row (filter sel (T d)))) (put (update_where sel (upd now) (T d)) d)"
  shows "yields D (compare_set T put sel upd) Q"
  using assms by (auto simp: yields_def compare_set_runs)

lemma yields_bnd: "yields D m R \<Longrightarrow> (\<And>a. yields (R a) (k a) Q) \<Longrightarrow> yields D (bnd m k) Q"
  by (auto simp: yields_def Inr_runs)

lemma yields_andthen: "yields D m (\<lambda>_. R) \<Longrightarrow> yields R n Q \<Longrightarrow> yields D (andthen m n) Q"
  unfolding andthen_def by (rule yields_bnd)

lemma yields_ret: "(\<And>d. D d \<Longrightarrow> Q a d) \<Longrightarrow> yields D (ret a) Q"
  by (auto simp: yields_def Inr_runs)

lemma yields_require: "(\<And>a d. x = Some a \<Longrightarrow> D d \<Longrightarrow> Q a d) \<Longrightarrow> yields D (require e x) Q"
  by (auto simp: yields_def Inr_runs_option)

lemma yields_only_if:
  "(b \<Longrightarrow> yields D m Q) \<Longrightarrow> (\<not> b \<Longrightarrow> yields D (ret ()) Q) \<Longrightarrow> yields D (only_if b m) Q"
  by (simp add: only_if_def)

lemma yields_weaken:
  "yields D' m Q' \<Longrightarrow> (\<And>d. D d \<Longrightarrow> D' d) \<Longrightarrow> (\<And>a d. Q' a d \<Longrightarrow> Q a d) \<Longrightarrow> yields D m Q"
  by (simp add: yields_def)

lemma lands_quiet: "steps same_committed m \<Longrightarrow> lands D m F"
  by (auto simp: steps_def lands_def same_committed_def) (metis snd_conv)

lemma lands_bnd:
  assumes "steps same_committed m" and "yields D m R" and "\<And>a. lands (R a) (k a) F"
  shows "lands D (bnd m k) F"
  unfolding lands_def
proof (intro allI impI)
  fix s r t assume run: "bnd m k s = (r, t)" and D: "D (working s)"
  obtain x u where x: "m s = (x, u)" by (cases "m s")
  with assms(1) have c: "committed u = committed s"
    by (auto simp: steps_def same_committed_def dest: spec [of _ s])
  show "committed t = committed s \<or> F (committed t)"
  proof (cases x)
    case (Inr a)
    with run x have "k a u = (r, t)" by (simp add: bnd_def)
    with landsD [OF assms(3) this] yieldsD [OF assms(2)] x Inr D c show ?thesis by auto
  qed (use run x c in \<open>simp add: bnd_def\<close>)
qed

lemma lands_andthen:
  "steps same_committed m \<Longrightarrow> yields D m (\<lambda>_. R) \<Longrightarrow> lands R n F \<Longrightarrow> lands D (andthen m n) F"
  unfolding andthen_def by (rule lands_bnd)

lemma lands_reads:
  "steps same_committed m \<Longrightarrow> reads m \<Longrightarrow> (\<And>a. lands D (k a) F) \<Longrightarrow> lands D (bnd m k) F"
  by (rule lands_bnd [OF _ yields_reads])

lemma lands_reads_then:
  "steps same_committed m \<Longrightarrow> reads m \<Longrightarrow> lands D n F \<Longrightarrow> lands D (andthen m n) F"
  by (rule lands_andthen [OF _ yields_reads])

lemma lands_commit:
  assumes "steps same_committed n" and "\<And>d. D d \<Longrightarrow> F d"
  shows "lands D (andthen commit n) F"
  unfolding lands_def
proof (intro allI impI)
  fix s r t assume run: "andthen commit n s = (r, t)" and D: "D (working s)"
  show "committed t = committed s \<or> F (committed t)"
  proof (cases "fault_at s (tick s)")
    case False
    let ?u = "s\<lparr>committed := working s, tick := Suc (tick s), txn_start := None\<rparr>"
    from run False have "n ?u = (r, t)" by (simp add: andthen_def bnd_def commit_def)
    then have "committed t = committed ?u"
      using assms(1) by (auto simp: steps_def same_committed_def dest: spec [of _ ?u])
    with assms(2) D show ?thesis by simp
  qed (use run in \<open>auto simp: andthen_def bnd_def commit_def\<close>)
qed

lemma lands_on_integrity_error: "lands D m F \<Longrightarrow> lands D (on_integrity_error e m) F"
  unfolding lands_def on_integrity_error_def catch_def andthen_def bnd_def rollback_def throw_def
  by (fastforce split: prod.splits sum.splits if_splits)

lemma lands_transaction: "lands D m F \<Longrightarrow> lands D (transaction e m) F"
  unfolding lands_def transaction_def catch_def andthen_def bnd_def rollback_def throw_def
  by (fastforce split: prod.splits sum.splits if_splits)

lemma lands_weaken:
  "lands D' m F' \<Longrightarrow> (\<And>d. D d \<Longrightarrow> D' d) \<Longrightarrow> (\<And>d. F' d \<Longrightarrow> F d) \<Longrightarrow> lands D m F"
  unfolding lands_def by blast

text \<open>A property of the data that every operation keeps.\<close>

lemma lands_invariant:
  "lands D m F \<Longrightarrow> working s = committed s \<Longrightarrow> D (committed s) \<Longrightarrow> (\<And>d. F d \<Longrightarrow> D d) \<Longrightarrow>
   D (committed (snd (m s)))"
  by (cases "m s") (auto dest!: landsD)

section \<open>Guarded transitions\<close>

text \<open>
  The shape the services give a transition: look the row up, read the clock, update the row if it
  is in the expected state, refuse otherwise, commit.
\<close>

definition guarded_transition ::
  "'a prog \<Rightarrow> (db \<Rightarrow> 'r list) \<Rightarrow> ('r list \<Rightarrow> db \<Rightarrow> db) \<Rightarrow> ('r \<Rightarrow> bool) \<Rightarrow> (instant \<Rightarrow> 'r \<Rightarrow> 'r) \<Rightarrow> exn \<Rightarrow> 'r prog"
where
  "guarded_transition look T put sel f refused =
     bnd look (\<lambda>_. bnd now_utc (\<lambda>now. bnd (compare_set T put sel (\<lambda>_. f now)) (\<lambda>row.
     bnd (require refused row) (\<lambda>updated. andthen commit (ret updated)))))"

lemma guarded_transition_runs:
  assumes run: "guarded_transition look T put sel f refused s = (Inr r, u)" and look: "reads look"
  shows "\<exists>now. \<exists>old \<in> set (T (working s)). sel old \<and> r = f now old \<and>
    committed u = put (update_where sel (f now) (T (working s))) (working s) \<and> working u = committed u"
proof -
  from run obtain g s1 now s2 s3 where g: "look s = (Inr g, s1)" and s2: "s2 = s1\<lparr>tick := Suc (tick s1)\<rparr>"
    and tr: "compare_set T put sel (\<lambda>_. f now) s2 = (Inr (Some r), s3)" and c: "commit s3 = (Inr (), u)"
    by (auto simp: guarded_transition_def runs)
  have w2: "working s2 = working s" using readsD(1) [OF look g] s2 by simp
  from tr obtain old where old: "first_row (filter sel (T (working s2))) = Some old" and r: "r = f now old"
    and s3: "working s3 = put (update_where sel (f now) (T (working s2))) (working s2)"
    unfolding compare_set_runs by (auto simp: eq_commute [of "Some r"])
  from first_row_filter_Some [OF old] r s3 c w2 show ?thesis
    by (intro exI [of _ now] bexI [of _ old]) (auto simp: Inr_runs)
qed

lemma guarded_transition_refused:
  assumes run: "guarded_transition look T put sel f refused s = (Inl refused, u)" and look: "reads look"
    and E: "raises (\<lambda>e. e \<noteq> refused) look" "refused \<noteq> SQLAlchemyError" "refused \<noteq> IntegrityError"
  shows "\<not> (\<exists>old \<in> set (T (working s)). sel old)"
proof -
  have r: "raises (\<lambda>e. e \<noteq> refused) (compare_set T put sel g)"
    "raises (\<lambda>e. e \<noteq> refused) (andthen commit (ret x))" for g and x :: 'b
    using E by (auto intro!: raises_rules)
  from run obtain g s1 s2 now s3 where g: "look s = (Inr g, s1)" and n: "now_utc s1 = (Inr now, s2)"
    and tr: "compare_set T put sel (\<lambda>_. f now) s2 = (Inr None, s3)"
    using E unfolding guarded_transition_def Inl_runs
    by (auto simp: Inr_runs_option dest: raisesD [OF E(1)] raisesD [OF r(1)])
  have "working s2 = working s" using readsD(1) [OF look g] n by (simp add: Inr_runs)
  with tr show ?thesis by (auto simp: compare_set_runs first_row_filter_None_iff)
qed

lemma guarded_transition_late:
  assumes "steps same_committed look"
  shows "late (\<lambda>_. False) (guarded_transition look T put sel f refused)"
  unfolding guarded_transition_def
  by (intro late_bnd late_commit_ret quiet.stmt_rules quiet.steps_rules quiet.steps_compare_set assms TrueI)

text \<open>What its caller may rely on.\<close>

lemma guarded_transition_outcome:
  assumes "working s = committed s" and "reads look" and "steps same_committed look"
    and "raises (\<lambda>e. e \<noteq> refused) look" and "refused \<noteq> SQLAlchemyError" "refused \<noteq> IntegrityError"
  shows "case guarded_transition look T put sel f refused s of
      (Inl e, u) \<Rightarrow> committed u = committed s \<and>
        (e = refused \<longrightarrow> \<not> (\<exists>old \<in> set (T (committed s)). sel old))
    | (Inr r, u) \<Rightarrow> \<exists>now. \<exists>old \<in> set (T (committed s)). sel old \<and> r = f now old \<and>
        committed u = put (update_where sel (f now) (T (committed s))) (committed s)"
proof (cases "guarded_transition look T put sel f refused s")
  case (Pair r u)
  show ?thesis
  proof (cases r)
    case (Inl e)
    with Pair guarded_transition_late [OF assms(3)] guarded_transition_refused [OF _ assms(2,4-6)] assms(1)
    show ?thesis by (fastforce simp: late_def)
  next
    case (Inr a)
    with Pair guarded_transition_runs [OF _ assms(2), of T put sel f refused s a u] assms(1)
    show ?thesis by auto
  qed
qed


end
