(* ===== verification/Safe_Json.thy ===== *)
theory Safe_Json
  imports Runtime
begin

text \<open>
  The validators of free-form metadata: \<open>safe_payload\<close> of the runtime events and
  \<open>safe_metadata\<close> of the audit records (\<open>runtime_events/service.py\<close>, \<open>audit/service.py\<close>).
  The two copies in the code differ in their limits, their forbidden names, their messages and
  the audit copy's search for secrets; the model has one walk with these as a record.
\<close>

section \<open>Names and URLs that carry credentials\<close>

record limits =
  max_depth :: nat
  max_items :: nat
  max_string :: nat
  forbidden :: "pystr list"
  secret_value :: "pystr \<Rightarrow> bool"
  credential_text :: pystr
  rejects :: "pystr \<Rightarrow> exn"
  subject :: pystr

definition normalized_key :: "pystr \<Rightarrow> pystr" where
  "normalized_key value = filter isalnum (casefold value)"

definition forbidden_key :: "pystr list \<Rightarrow> pystr \<Rightarrow> bool" where
  "forbidden_key markers value =
     list_ex (\<lambda>marker. contains marker (normalized_key value)) markers"

definition credential_bearing_url :: "url_lib \<Rightarrow> pystr list \<Rightarrow> pystr \<Rightarrow> bool" where
  "credential_bearing_url lib markers value = (case urlsplit lib value of
     None \<Rightarrow> False
   | Some parsed \<Rightarrow>
       if url_scheme parsed \<notin> {''http'', ''https''} then False
       else if url_username parsed \<noteq> None \<or> url_password parsed \<noteq> None then True
       else list_ex (\<lambda>(key, _). forbidden_key markers key) (parse_qsl lib (url_query parsed)))"

section \<open>The walk over a value\<close>

text \<open>
  The counter of visited values is threaded through (\<open>item_count\<close> is a one-element list the
  recursion mutates); the result is the counter afterwards, or the exception.
\<close>

fun validate_value :: "limits \<Rightarrow> url_lib \<Rightarrow> pyval \<Rightarrow> nat \<Rightarrow> nat \<Rightarrow> exn + nat"
  and validate_list :: "limits \<Rightarrow> url_lib \<Rightarrow> pyval list \<Rightarrow> nat \<Rightarrow> nat \<Rightarrow> exn + nat"
  and validate_dict :: "limits \<Rightarrow> url_lib \<Rightarrow> (pyval \<times> pyval) list \<Rightarrow> nat \<Rightarrow> nat \<Rightarrow> exn + nat"
where
  "validate_value l lib value depth item_count =
    (if max_depth l < depth then Inl (rejects l (subject l @ '' is too deeply nested''))
     else let item_count = Suc item_count in
     if max_items l < item_count then Inl (rejects l (subject l @ '' contains too many values''))
     else case value of
       PNone \<Rightarrow> Inr item_count
     | PBool _ \<Rightarrow> Inr item_count
     | PInt _ \<Rightarrow> Inr item_count
     | PFloat x \<Rightarrow>
         if isfinite x then Inr item_count
         else Inl (rejects l (subject l @ '' contains a non-finite number''))
     | PStr t \<Rightarrow>
         if max_string l < length t then Inl (rejects l (subject l @ '' contains an oversized string''))
         else if credential_bearing_url lib (forbidden l) t \<or> secret_value l t
         then Inl (rejects l (subject l @ credential_text l))
         else Inr item_count
     | PList xs \<Rightarrow> validate_list l lib xs (Suc depth) item_count
     | PDict kvs \<Rightarrow> validate_dict l lib kvs (Suc depth) item_count
     | POther \<Rightarrow> Inl (rejects l (subject l @ '' contains a non-JSON value'')))"
| "validate_list l lib [] depth item_count = Inr item_count"
| "validate_list l lib (x # xs) depth item_count =
    (case validate_value l lib x depth item_count of
       Inl e \<Rightarrow> Inl e | Inr n \<Rightarrow> validate_list l lib xs depth n)"
| "validate_dict l lib [] depth item_count = Inr item_count"
| "validate_dict l lib ((key, item) # kvs) depth item_count =
    (case key of
       PStr k \<Rightarrow>
         if forbidden_key (forbidden l) k then Inl (rejects l (subject l @ '' contains a forbidden field''))
         else (case validate_value l lib item depth item_count of
                 Inl e \<Rightarrow> Inl e | Inr n \<Rightarrow> validate_dict l lib kvs depth n)
     | _ \<Rightarrow> Inl (rejects l (subject l @ '' keys must be strings'')))"

declare validate_value.simps [simp del]

section \<open>Serialisation\<close>

text \<open>
  \<open>json.dumps(ensure_ascii=False, allow_nan=False, separators=(",", ":"), sort_keys=True)\<close>;
  \<open>None\<close> where it raises (a non-finite float, a value JSON does not have, an integer of more
  digits than Python converts).
\<close>

definition digit_char :: "nat \<Rightarrow> char" where
  "digit_char n = char_of (48 + n)"

fun nat_str :: "nat \<Rightarrow> pystr" where
  "nat_str n = (if n < 10 then [digit_char n] else nat_str (n div 10) @ [digit_char (n mod 10)])"

declare nat_str.simps [simp del]

definition int_str :: "int \<Rightarrow> pystr" where
  "int_str i = (if i < 0 then CHR ''-'' # nat_str (nat (- i)) else nat_str (nat i))"

definition escape_char :: "char \<Rightarrow> pystr" where
  "escape_char c = (let n = of_char c :: nat in
     if n = 34 then [CHR 0x5C, c]
     else if n = 92 then [CHR 0x5C, CHR 0x5C]
     else if n = 10 then [CHR 0x5C, CHR ''n'']
     else if n = 13 then [CHR 0x5C, CHR ''r'']
     else if n = 9 then [CHR 0x5C, CHR ''t'']
     else if n = 12 then [CHR 0x5C, CHR ''f'']
     else if n = 8 then [CHR 0x5C, CHR ''b'']
     else if n < 32 then CHR 0x5C # ''u'' @ hex_fixed 4 n
     else [c])"

definition quote_str :: "pystr \<Rightarrow> pystr" where
  "quote_str t = CHR 0x22 # concat (map escape_char t) @ [CHR 0x22]"

definition key_of :: "pyval \<Rightarrow> pystr" where
  "key_of k = (case k of PStr t \<Rightarrow> t | _ \<Rightarrow> [])"

text \<open>The value with every dictionary in key order: what \<open>json.loads\<close> reads back.\<close>

fun canonical :: "pyval \<Rightarrow> pyval" where
  "canonical (PList xs) = PList (map canonical xs)"
| "canonical (PDict kvs) =
     PDict (sort_key (\<lambda>(k, _). key_of k) (map (\<lambda>(k, v). (k, canonical v)) kvs))"
| "canonical v = v"

fun render :: "pyval \<Rightarrow> pystr option"
  and render_list :: "pyval list \<Rightarrow> pystr list option"
  and render_dict :: "(pyval \<times> pyval) list \<Rightarrow> pystr list option"
where
  "render PNone = Some ''null''"
| "render (PBool b) = Some (if b then ''true'' else ''false'')"
| "render (PInt i) = (let t = int_str i in if 4300 < length (nat_str (nat \<bar>i\<bar>)) then None else Some t)"
| "render (PFloat x) = (case x of Finite t \<Rightarrow> Some t | _ \<Rightarrow> None)"
| "render (PStr t) = Some (quote_str t)"
| "render (PList xs) =
     map_option (\<lambda>ts. ''['' @ join_with '','' ts @ '']'') (render_list xs)"
| "render (PDict kvs) =
     map_option (\<lambda>ts. ''{'' @ join_with '','' ts @ ''}'') (render_dict kvs)"
| "render POther = None"
| "render_list [] = Some []"
| "render_list (x # xs) =
     Option.bind (render x) (\<lambda>t. map_option ((#) t) (render_list xs))"
| "render_dict [] = Some []"
| "render_dict ((k, v) # kvs) =
     Option.bind (render v) (\<lambda>t.
       map_option ((#) (quote_str (key_of k) @ '':'' @ t)) (render_dict kvs))"

definition utf8_size :: "pystr \<Rightarrow> nat" where
  "utf8_size t = sum_list (map (\<lambda>c. if of_char c < (128 :: nat) then 1 else 2) t)"

text \<open>\<open>safe_payload\<close> and \<open>safe_metadata\<close>.\<close>

definition safe_object :: "limits \<Rightarrow> nat \<Rightarrow> pystr \<Rightarrow> url_lib \<Rightarrow> pyval option \<Rightarrow> exn + pyval option" where
  "safe_object l max_bytes bytes_text lib value = (case value of
     None \<Rightarrow> Inr None
   | Some v \<Rightarrow>
       (case validate_value l lib v 0 0 of
          Inl e \<Rightarrow> Inl e
        | Inr _ \<Rightarrow>
            (case render (canonical v) of
               None \<Rightarrow> Inl (rejects l (subject l @ '' is not JSON serializable''))
             | Some encoded \<Rightarrow>
                 if max_bytes < utf8_size encoded
                 then Inl (rejects l (subject l @ '' exceeds '' @ bytes_text @ '' bytes''))
                 else Inr (Some (canonical v)))))"

section \<open>What an accepted value satisfies\<close>

text \<open>
  The declarative reading of the walk: the number of values, the nesting depth, and the
  condition on every leaf and every key.
\<close>

fun value_count :: "pyval \<Rightarrow> nat" where
  "value_count (PList xs) = Suc (sum_list (map value_count xs))"
| "value_count (PDict kvs) = Suc (sum_list (map (\<lambda>(k, v). value_count v) kvs))"
| "value_count v = 1"

fun nesting :: "pyval \<Rightarrow> nat" where
  "nesting (PList xs) = (if xs = [] then 0 else Suc (Max (set (map nesting xs))))"
| "nesting (PDict kvs) = (if kvs = [] then 0 else Suc (Max (set (map (\<lambda>(k, v). nesting v) kvs))))"
| "nesting v = 0"

fun acceptable :: "limits \<Rightarrow> url_lib \<Rightarrow> pyval \<Rightarrow> bool" where
  "acceptable l lib (PFloat x) = isfinite x"
| "acceptable l lib (PStr t) =
     (length t \<le> max_string l \<and> \<not> credential_bearing_url lib (forbidden l) t \<and> \<not> secret_value l t)"
| "acceptable l lib (PList xs) = list_all (acceptable l lib) xs"
| "acceptable l lib (PDict kvs) =
     list_all (\<lambda>(k, v). (case k of PStr t \<Rightarrow> \<not> forbidden_key (forbidden l) t | _ \<Rightarrow> False)
                        \<and> acceptable l lib v) kvs"
| "acceptable l lib POther = False"
| "acceptable l lib v = True"

lemma value_count_pos: "0 < value_count v"
  by (cases v) simp_all

lemma Max_bound_le:
  "xs \<noteq> [] \<Longrightarrow> Suc (d + (MAX x \<in> set xs. f x)) \<le> m \<longleftrightarrow> (\<forall>x \<in> set xs. Suc (d + f x) \<le> m)"
  for f :: "'x \<Rightarrow> nat"
proof -
  assume ne: "xs \<noteq> []"
  have "(MAX x \<in> set xs. f x) \<in> f ` set xs" using ne by (intro Max_in) auto
  moreover have "f x \<le> (MAX x \<in> set xs. f x)" if "x \<in> set xs" for x
    using that by (intro Max_ge) auto
  ultimately show ?thesis by (fastforce simp: image_iff)
qed

lemma validate_spec:
  "validate_value l lib v d c = Inr n \<longleftrightarrow>
     d + nesting v \<le> max_depth l \<and> n = c + value_count v \<and> n \<le> max_items l \<and> acceptable l lib v"
  "validate_list l lib xs d c = Inr n \<longleftrightarrow>
     (\<forall>x \<in> set xs. d + nesting x \<le> max_depth l \<and> acceptable l lib x) \<and>
     n = c + sum_list (map value_count xs) \<and> (xs = [] \<or> n \<le> max_items l)"
  "validate_dict l lib kvs d c = Inr n \<longleftrightarrow>
     (\<forall>(k, v) \<in> set kvs. (case k of PStr t \<Rightarrow> \<not> forbidden_key (forbidden l) t | _ \<Rightarrow> False) \<and>
        d + nesting v \<le> max_depth l \<and> acceptable l lib v) \<and>
     n = c + sum_list (map (\<lambda>(k, v). value_count v) kvs) \<and> (kvs = [] \<or> n \<le> max_items l)"
proof (induction l lib v d c and l lib xs d c and l lib kvs d c arbitrary: n and n and n
    rule: validate_value_validate_list_validate_dict.induct)
  case (1 l lib v depth item_count)
  then show ?case
    by (cases v) (auto simp: validate_value.simps Let_def Max_bound_le list_all_iff)
next
  case (3 l lib x xs depth item_count)
  note x = "3.IH"(1)
  show ?case
  proof (cases "validate_value l lib x depth item_count")
    case (Inl e)
    then show ?thesis using x [of "item_count + value_count x"] by auto
  next
    case (Inr m)
    then show ?thesis using x [of m] "3.IH"(2) [OF Inr, of n] by (auto simp: add.assoc)
  qed
next
  case (5 l lib key item kvs depth item_count)
  show ?case
  proof (cases key)
    case (PStr k)
    show ?thesis
    proof (cases "forbidden_key (forbidden l) k")
      case False
      note v = "5.IH"(1) [OF PStr False] and r = "5.IH"(2) [OF PStr False]
      show ?thesis
      proof (cases "validate_value l lib item depth item_count")
        case (Inl e)
        then show ?thesis using PStr False v [of "item_count + value_count item"] by auto
      next
        case (Inr m)
        then show ?thesis using PStr False v [of m] r [OF Inr, of n] by (auto simp: add.assoc)
      qed
    qed (simp add: PStr)
  qed auto
qed auto

section \<open>Evaluation\<close>

text \<open>
  As for the identifiers: a concrete run does not unfold the digits of an unknown number, and reads
  a character off its bits.
\<close>

lemma nat_str_code [code]: "nat_str n = (case n of 0 \<Rightarrow> [digit_char 0] | Suc m \<Rightarrow>
    if n < 10 then [digit_char n] else nat_str (n div 10) @ [digit_char (n mod 10)])"
  by (cases n) (simp_all add: nat_str.simps [of "Suc m" for m] nat_str.simps [of 0])

lemma of_char_is: "of_char d = n \<Longrightarrow> of_char c = n \<longleftrightarrow> c = d" for n :: nat
  by (metis of_char_eq_iff)

lemma escape_char_code [code]: "escape_char c =
    (if c = CHR 0x22 \<or> c = CHR 0x5C then [CHR 0x5C, c]
     else if c = CHR 0x0A then [CHR 0x5C, CHR ''n'']
     else if c = CHR 0x0D then [CHR 0x5C, CHR ''r'']
     else if c = CHR 0x09 then [CHR 0x5C, CHR ''t'']
     else if c = CHR 0x0C then [CHR 0x5C, CHR ''f'']
     else if c = CHR 0x08 then [CHR 0x5C, CHR ''b'']
     else if digit7 c \<or> digit6 c \<or> digit5 c then [c] else CHR 0x5C # ''u'' @ hex_fixed 4 (of_char c))"
proof -
  have "of_char c < (32 :: nat) \<longleftrightarrow> \<not> (digit7 c \<or> digit6 c \<or> digit5 c)" by (cases c) (auto simp: of_bool_def)
  moreover have "of_char c = (34 :: nat) \<longleftrightarrow> c = CHR 0x22" "of_char c = (92 :: nat) \<longleftrightarrow> c = CHR 0x5C"
    "of_char c = (10 :: nat) \<longleftrightarrow> c = CHR 0x0A" "of_char c = (13 :: nat) \<longleftrightarrow> c = CHR 0x0D"
    "of_char c = (9 :: nat) \<longleftrightarrow> c = CHR 0x09" "of_char c = (12 :: nat) \<longleftrightarrow> c = CHR 0x0C"
    "of_char c = (8 :: nat) \<longleftrightarrow> c = CHR 0x08"
    by (rule of_char_is; simp)+
  ultimately show ?thesis unfolding escape_char_def Let_def by presburger
qed

lemma utf8_size_code [code]: "utf8_size t = sum_list (map (\<lambda>c. if digit7 c then 2 else 1) t)"
proof -
  have "(if of_char c < (128 :: nat) then 1 else 2) = (if digit7 c then 2 else 1 :: nat)" for c
    by (cases c) (auto simp: of_bool_def)
  then show ?thesis by (simp only: utf8_size_def)
qed

end
