(* ===== verification/Scopes.thy ===== *)
theory Scopes
  imports Safe_Json "HOL-Library.Product_Lexorder"
begin

text \<open>
  The scoped lookups every service starts from (\<open>workspaces/queries.py\<close>, the \<open>get_\<close>
  queries of the project and task repositories) and the errors they lead to. A lookup names the
  owner and the key, so a row of another tenant, workspace or project is not found.
\<close>

definition not_found :: exn where
  "not_found = ApplicationError ''resource_not_found'' ''Resource not found'' 404"

definition select_one :: "(db \<Rightarrow> 'r list) \<Rightarrow> ('r \<Rightarrow> bool) \<Rightarrow> 'r option prog" where
  "select_one tab cond = query (\<lambda>d. first_row (filter cond (tab d)))"

definition get_workspace_by_tenant_and_id :: "uuid \<Rightarrow> uuid \<Rightarrow> workspace option prog" where
  "get_workspace_by_tenant_and_id tenant_id workspace_id =
     select_one workspaces (\<lambda>w. ws_tenant_id w = tenant_id \<and> ws_id w = workspace_id)"

definition get_project :: "uuid \<Rightarrow> uuid \<Rightarrow> project option prog" where
  "get_project workspace_id project_id =
     select_one projects (\<lambda>p. pj_workspace_id p = workspace_id \<and> pj_id p = project_id)"

text \<open>The project of a task lookup may be absent; no row then matches.\<close>

definition get_task :: "uuid option \<Rightarrow> uuid \<Rightarrow> task option prog" where
  "get_task project_id task_id =
     select_one tasks (\<lambda>t. Some (tk_project_id t) = project_id \<and> tk_id t = task_id)"

definition get_model_run :: "uuid \<Rightarrow> uuid \<Rightarrow> uuid \<Rightarrow> model_run option prog" where
  "get_model_run tenant_id workspace_id model_run_id =
     select_one model_runs (\<lambda>r. mr_id r = model_run_id \<and> mr_tenant_id r = tenant_id \<and>
       mr_workspace_id r = workspace_id)"

definition require_workspace :: "uuid \<Rightarrow> uuid \<Rightarrow> unit prog" where
  "require_workspace tenant_id workspace_id =
     bnd (get_workspace_by_tenant_and_id tenant_id workspace_id) (\<lambda>w.
     only_if (w = None) (throw not_found))"

definition require_project :: "uuid \<Rightarrow> uuid option \<Rightarrow> unit prog" where
  "require_project workspace_id project_id = (case project_id of
     None \<Rightarrow> ret ()
   | Some p \<Rightarrow> bnd (get_project workspace_id p) (\<lambda>row. only_if (row = None) (throw not_found)))"

definition require_task :: "uuid option \<Rightarrow> uuid option \<Rightarrow> unit prog" where
  "require_task project_id task_id = (case task_id of
     None \<Rightarrow> ret ()
   | Some t \<Rightarrow> bnd (get_task project_id t) (\<lambda>row. only_if (row = None) (throw not_found)))"

text \<open>What a scope means on the data.\<close>

definition has_workspace :: "db \<Rightarrow> uuid \<Rightarrow> uuid \<Rightarrow> bool" where
  "has_workspace d tenant_id workspace_id =
     list_ex (\<lambda>w. ws_tenant_id w = tenant_id \<and> ws_id w = workspace_id) (workspaces d)"

definition has_project :: "db \<Rightarrow> uuid \<Rightarrow> uuid \<Rightarrow> bool" where
  "has_project d workspace_id project_id =
     list_ex (\<lambda>p. pj_workspace_id p = workspace_id \<and> pj_id p = project_id) (projects d)"

definition has_task :: "db \<Rightarrow> uuid option \<Rightarrow> uuid \<Rightarrow> bool" where
  "has_task d project_id task_id =
     list_ex (\<lambda>t. Some (tk_project_id t) = project_id \<and> tk_id t = task_id) (tasks d)"

lemma first_row_list_ex: "first_row (filter P xs) = None \<longleftrightarrow> \<not> list_ex P xs"
  by (auto simp: first_row_filter_None_iff list_ex_iff)

text \<open>
  The checks leave the data as it was, and return only when the scope exists in what the
  transaction sees.
\<close>

definition scope_check :: "unit prog \<Rightarrow> (db \<Rightarrow> bool) \<Rightarrow> bool" where
  "scope_check m ok \<longleftrightarrow> (\<forall>s r s'. m s = (r, s') \<longrightarrow>
     working s' = working s \<and> committed s' = committed s \<and>
     (case r of Inr _ \<Rightarrow> ok (working s)
      | Inl e \<Rightarrow> e = SQLAlchemyError \<or> e = not_found \<and> \<not> ok (working s)))"

lemma scope_check_select:
  "scope_check (bnd (select_one tab cond) (\<lambda>r. only_if (r = None) (throw not_found)))
     (\<lambda>d. list_ex cond (tab d))"
proof -
  have "list_ex cond (tab d) \<longleftrightarrow> first_row (filter cond (tab d)) \<noteq> None" for d
    by (simp add: first_row_list_ex)
  then show ?thesis
    by (auto simp: scope_check_def bnd_def select_one_def query_def begin_stmt_def only_if_def
        throw_def ret_def split: if_splits)
qed

lemma scope_check_ret: "scope_check (ret ()) (\<lambda>_. True)"
  by (simp add: scope_check_def ret_def)

lemma require_workspace_check:
  "scope_check (require_workspace t w) (\<lambda>d. has_workspace d t w)"
  unfolding require_workspace_def get_workspace_by_tenant_and_id_def has_workspace_def
  by (rule scope_check_select)

lemma require_project_check:
  "scope_check (require_project w p) (\<lambda>d. opt_all (has_project d w) p)"
  by (cases p) (simp_all add: require_project_def get_project_def has_project_def
      scope_check_ret scope_check_select)

lemma require_task_check:
  "scope_check (require_task p t) (\<lambda>d. opt_all (has_task d p) t)"
  by (cases t) (simp_all add: require_task_def get_task_def has_task_def
      scope_check_ret scope_check_select)

lemma scope_check_andthen:
  assumes m: "scope_check m P" and n: "scope_check n Q"
  shows "scope_check (andthen m n) (\<lambda>d. P d \<and> Q d)"
  unfolding scope_check_def
proof (intro allI impI)
  fix s r s'
  assume run: "andthen m n s = (r, s')"
  obtain r1 t where t: "m s = (r1, t)" by (cases "m s")
  note mt = m [unfolded scope_check_def, rule_format, OF t]
  show "working s' = working s \<and> committed s' = committed s \<and>
     (case r of Inr _ \<Rightarrow> P (working s) \<and> Q (working s)
      | Inl e \<Rightarrow> e = SQLAlchemyError \<or> e = not_found \<and> \<not> (P (working s) \<and> Q (working s)))"
  proof (cases r1)
    case (Inl e)
    with run t mt show ?thesis by (auto simp: andthen_def bnd_def)
  next
    case (Inr u)
    with run t have "n t = (r, s')" by (simp add: andthen_def bnd_def)
    with n have "working s' = working t \<and> committed s' = committed t \<and>
       (case r of Inr _ \<Rightarrow> Q (working t)
        | Inl e \<Rightarrow> e = SQLAlchemyError \<or> e = not_found \<and> \<not> Q (working t))"
      by (simp add: scope_check_def)
    with Inr mt show ?thesis by (auto split: sum.splits)
  qed
qed

lemma reads_scopes:
  "reads (select_one tab cond)"
  "reads (require_workspace t w)"
  "reads (require_project w p)"
  "reads (require_task p tt)"
  "reads (get_workspace_by_tenant_and_id t w)"
  "reads (get_project w pp)"
  "reads (get_task p tid)"
  by (auto simp: select_one_def require_workspace_def require_project_def require_task_def
      get_workspace_by_tenant_and_id_def get_project_def get_task_def intro!: reads_rules)

lemma raises_select_one: "E SQLAlchemyError \<Longrightarrow> raises E (select_one tab cond)"
  unfolding select_one_def by (rule raises_basic)

lemma raises_scopes:
  assumes "E SQLAlchemyError" and "E not_found"
  shows "raises E (require_workspace t w)" "raises E (require_project w p)"
    "raises E (require_task p tt)"
  using assms unfolding require_workspace_def require_project_def require_task_def
    get_workspace_by_tenant_and_id_def get_project_def get_task_def
  by (intro raises_rules raises_select_one; simp)+

context stmt_order
begin

lemma steps_scopes:
  "steps R (select_one tab cond)"
  "steps R (require_workspace t w)"
  "steps R (require_project w p)"
  "steps R (require_task p tt)"
  "steps R (get_workspace_by_tenant_and_id t w)"
  "steps R (get_project w pp)"
  "steps R (get_task p tid)"
  by (auto simp: select_one_def require_workspace_def require_project_def require_task_def
      get_workspace_by_tenant_and_id_def get_project_def get_task_def
      intro!: steps_rules stmt_rules)

end

section \<open>A small concrete store\<close>

text \<open>
  One tenant with one workspace, project and task, for the concrete instances of the
  properties: nothing fails, identifiers count upwards, no URL parses.
\<close>

definition sample_db :: db where
  "sample_db = empty_db
     \<lparr>tenants := [\<lparr>tn_id = 1, tn_name = ''Acme'', tn_slug = ''acme''\<rparr>],
      workspaces := [\<lparr>ws_id = 2, ws_tenant_id = 1, ws_name = ''Main'', ws_slug = ''main''\<rparr>],
      projects := [\<lparr>pj_id = 3, pj_workspace_id = 2, pj_name = ''Site'', pj_slug = ''site'',
        pj_description = None, pj_status = ''ACTIVE'', pj_created_at = 0, pj_updated_at = 0\<rparr>],
      tasks := [\<lparr>tk_id = 4, tk_project_id = 3, tk_title = ''Fix it'', tk_description = None,
        tk_status = ''READY'', tk_created_at = 0, tk_updated_at = 0\<rparr>]\<rparr>"

definition sample_session :: "db \<Rightarrow> session" where
  "sample_session d = open_session d (\<lambda>_. False) (\<lambda>n. 100 + n) (\<lambda>n. 50 + int n) (Some ''req-1'')
     \<lparr>urlsplit = (\<lambda>_. None), parse_qsl = (\<lambda>_. [])\<rparr> sample_tree sample_lib ''test'' (\<lambda>_. ''1.5'')"

lemma sample_ok: "constraints sample_db"
  by code_simp

lemma sample_session_same [simp]:
  "working (sample_session d) = d" "committed (sample_session d) = d"
  by (simp_all add: sample_session_def open_session_def)

end
