(* ===== verification/Audit_Log.thy ===== *)
theory Audit_Log
  imports Scopes
begin

text \<open>
  The append-only audit log (\<open>modules/audit\<close>): the contract of a record, its validation, the
  append that may join the caller's transaction, and the bounded retrieval.
\<close>

section \<open>The contract of a record\<close>

record audit_create =
  ac_tenant_id :: uuid
  ac_workspace_id :: uuid
  ac_action :: pystr
  ac_actor_type :: pystr
  ac_actor_id :: "pystr option"
  ac_outcome :: pystr
  ac_resource_type :: "pystr option"
  ac_resource_id :: "uuid option"
  ac_project_id :: "uuid option"
  ac_task_id :: "uuid option"
  ac_correlation_id :: "pystr option"
  ac_metadata :: "pyval option"

text \<open>The defaults of the optional fields.\<close>

definition audit_fields :: "uuid \<Rightarrow> uuid \<Rightarrow> pystr \<Rightarrow> pystr \<Rightarrow> pystr \<Rightarrow> audit_create" where
  "audit_fields tenant_id workspace_id action actor_type outcome =
     \<lparr>ac_tenant_id = tenant_id, ac_workspace_id = workspace_id, ac_action = action,
      ac_actor_type = actor_type, ac_actor_id = None, ac_outcome = outcome,
      ac_resource_type = None, ac_resource_id = None, ac_project_id = None, ac_task_id = None,
      ac_correlation_id = None, ac_metadata = None\<rparr>"

definition audit_create_valid :: "audit_create \<Rightarrow> bool" where
  "audit_create_valid a =
    (between 3 100 (ac_action a) \<and> fullmatch ACTION (ac_action a) \<and>
     one_of [''system'', ''api'', ''local_user'', ''service''] (ac_actor_type a) \<and>
     opt_all (\<lambda>v. between 1 128 v \<and> fullmatch REFERENCE_PATTERN v) (ac_actor_id a) \<and>
     one_of [''success'', ''failure'', ''blocked'', ''cancelled''] (ac_outcome a) \<and>
     opt_all (one_of [''project'', ''task'']) (ac_resource_type a) \<and>
     opt_all (\<lambda>v. between 1 128 v \<and> fullmatch REFERENCE_PATTERN v) (ac_correlation_id a) \<and>
     opt_all (\<lambda>m. case m of PDict kvs \<Rightarrow> list_all (\<lambda>(k, _). case k of PStr _ \<Rightarrow> True | _ \<Rightarrow> False) kvs
                           | _ \<Rightarrow> False) (ac_metadata a))"

definition AuditRecordCreate :: "audit_create \<Rightarrow> audit_create prog" where
  "AuditRecordCreate a = (if audit_create_valid a then ret a else throw ValidationError)"

section \<open>Safe metadata\<close>

definition word_char :: "char \<Rightarrow> bool" where
  "word_char c = (isalnum c \<or> c = CHR ''_'')"

definition ascii_fold :: "char \<Rightarrow> char" where
  "ascii_fold c = (if upper_az c then lower_char c else c)"

text \<open>\<open>scheme\<close>, one or more spaces, and at least one character of the token's class.\<close>

definition scheme_token :: "pystr \<Rightarrow> (char \<Rightarrow> bool) \<Rightarrow> pystr \<Rightarrow> bool" where
  "scheme_token scheme cls t =
    (map ascii_fold (take (length scheme) t) = scheme \<and>
     (let rest = drop (length scheme) t; token = dropWhile isspace rest in
      token \<noteq> rest \<and> token \<noteq> [] \<and> cls (hd token)))"

definition sk_token :: "pystr \<Rightarrow> bool" where
  "sk_token t = (map ascii_fold (take 3 t) = ''sk-'' \<and>
     8 \<le> length (takeWhile (\<lambda>c. ascii_alnum c \<or> c = CHR ''_'' \<or> c = CHR ''-'') (drop 3 t)))"

definition secret_at :: "pystr \<Rightarrow> bool" where
  "secret_at t =
    (scheme_token ''bearer'' (\<lambda>c. ascii_alnum c \<or> c \<in> set ''._~+/-'') t \<or>
     scheme_token ''basic'' (\<lambda>c. ascii_alnum c \<or> c \<in> set ''+/'') t \<or> sk_token t)"

text \<open>
  \<open>_SECRET_VALUE_PATTERN.search\<close>: at every position whose predecessor is not a word character
  (the word boundary before a letter).
\<close>

fun secret_from :: "bool \<Rightarrow> pystr \<Rightarrow> bool" where
  "secret_from boundary [] = False"
| "secret_from boundary (c # cs) =
     ((boundary \<and> secret_at (c # cs)) \<or> secret_from (\<not> word_char c) cs)"

definition secret_value_search :: "pystr \<Rightarrow> bool" where
  "secret_value_search t = secret_from True t"

definition invalid_audit :: "pystr \<Rightarrow> exn" where
  "invalid_audit message = ApplicationError ''invalid_audit_record'' message 422"

definition audit_limits :: limits where
  "audit_limits = \<lparr>max_depth = 4, max_items = 64, max_string = 256,
     forbidden = [''accesstoken'', ''apikey'', ''authorization'', ''authorizationheader'', ''body'',
       ''clientsecret'', ''cookie'', ''credential'', ''email'', ''idtoken'', ''message'', ''password'',
       ''passwd'', ''refreshtoken'', ''requestbody'', ''secret'', ''setcookie'', ''token''],
     secret_value = secret_value_search,
     credential_text = '' contains credential material'',
     rejects = invalid_audit, subject = ''Audit metadata''\<rparr>"

definition safe_metadata :: "url_lib \<Rightarrow> pyval option \<Rightarrow> exn + pyval option" where
  "safe_metadata lib metadata = safe_object audit_limits 4096 ''4096'' lib metadata"

definition lift_sum :: "exn + 'a \<Rightarrow> 'a prog" where
  "lift_sum r = (case r of Inl e \<Rightarrow> throw e | Inr a \<Rightarrow> ret a)"

section \<open>Appending\<close>

definition audit_validate_scope :: "audit_create \<Rightarrow> unit prog" where
  "audit_validate_scope a =
     andthen (require_workspace (ac_tenant_id a) (ac_workspace_id a))
    (andthen (only_if ((ac_resource_type a = None) \<noteq> (ac_resource_id a = None))
       (throw (invalid_audit ''resource_type and resource_id must be supplied together'')))
    (andthen (only_if (ac_task_id a \<noteq> None \<and> ac_project_id a = None)
       (throw (invalid_audit ''task_id requires project_id'')))
    (andthen (require_project (ac_workspace_id a) (ac_project_id a))
    (andthen (require_task (ac_project_id a) (ac_task_id a))
    (andthen (only_if (ac_resource_type a = Some ''project'' \<and> ac_resource_id a \<noteq> ac_project_id a)
       (throw (invalid_audit ''project resource must match project_id'')))
     (only_if (ac_resource_type a = Some ''task'' \<and> ac_resource_id a \<noteq> ac_task_id a)
       (throw (invalid_audit ''task resource must match task_id''))))))))"

definition repository_append_record ::
  "audit_create \<Rightarrow> pystr option \<Rightarrow> instant option \<Rightarrow> pyval option \<Rightarrow> audit_record prog" where
  "repository_append_record a corr occurred_at metadata =
     bnd uuid4 (\<lambda>u. exec_stmt (\<lambda>now d.
       let r = \<lparr>au_id = u, au_tenant_id = ac_tenant_id a, au_workspace_id = ac_workspace_id a,
                au_action = ac_action a, au_actor_type = ac_actor_type a,
                au_actor_id = ac_actor_id a, au_outcome = ac_outcome a,
                au_resource_type = ac_resource_type a, au_resource_id = ac_resource_id a,
                au_project_id = ac_project_id a, au_task_id = ac_task_id a,
                au_correlation_id = corr,
                au_occurred_at = (case occurred_at of None \<Rightarrow> now | Some t \<Rightarrow> t),
                au_metadata_json = metadata\<rparr>
       in (r, d\<lparr>audit_records := audit_records d @ [r]\<rparr>)))"

definition audit_persistence_failed :: exn where
  "audit_persistence_failed =
     ApplicationError ''audit_persistence_failed'' ''Audit record could not be persisted'' 500"

definition append_record ::
  "audit_create \<Rightarrow> instant option \<Rightarrow> bool \<Rightarrow> audit_record prog" where
  "append_record data occurred_at do_commit = transaction audit_persistence_failed
     (bnd get_url_lib (\<lambda>lib.
      bnd (lift_sum (safe_metadata lib (ac_metadata data))) (\<lambda>metadata.
      andthen (audit_validate_scope data)
     (bnd get_correlation_id (\<lambda>ctx.
      bnd (repository_append_record data
             (case ac_correlation_id data of None \<Rightarrow> ctx | Some c \<Rightarrow> Some c) occurred_at metadata)
          (\<lambda>record.
      if do_commit then andthen commit (refresh audit_records au_id record) else ret record))))))"

text \<open>How the services call it: build the contract, then append without committing.\<close>

definition join_audit :: "audit_create \<Rightarrow> unit prog" where
  "join_audit a = bnd (AuditRecordCreate a) (\<lambda>data.
     bnd (append_record data None False) (\<lambda>_. ret ()))"

section \<open>Retrieval\<close>

definition repository_list_recent_records ::
  "uuid \<Rightarrow> uuid \<Rightarrow> nat \<Rightarrow> pystr option \<Rightarrow> pystr option \<Rightarrow> uuid option \<Rightarrow> audit_record list prog" where
  "repository_list_recent_records tenant_id workspace_id limit action resource_type resource_id =
     query (\<lambda>d. take limit (rev (sort_key (\<lambda>r. (au_occurred_at r, au_id r))
       (filter (\<lambda>r. au_tenant_id r = tenant_id \<and> au_workspace_id r = workspace_id \<and>
          opt_all (\<lambda>a. au_action r = a) action \<and>
          opt_all (\<lambda>t. au_resource_type r = Some t) resource_type \<and>
          opt_all (\<lambda>i. au_resource_id r = Some i) resource_id) (audit_records d)))))"

definition list_recent_records ::
  "uuid \<Rightarrow> uuid \<Rightarrow> int \<Rightarrow> pystr option \<Rightarrow> pystr option \<Rightarrow> uuid option \<Rightarrow> audit_record list prog" where
  "list_recent_records tenant_id workspace_id limit action resource_type resource_id =
    (if \<not> (1 \<le> limit \<and> limit \<le> 100)
     then throw (invalid_audit ''Audit retrieval limit must be between 1 and 100'')
     else if \<not> opt_all (fullmatch ACTION) action
     then throw (invalid_audit ''action must be lowercase dot-separated identifiers'')
     else if resource_type \<notin> {None, Some ''project'', Some ''task''}
     then throw (invalid_audit ''Unsupported resource_type'')
     else if resource_id \<noteq> None \<and> resource_type = None
     then throw (invalid_audit ''resource_id filter requires resource_type'')
     else andthen (require_workspace tenant_id workspace_id)
       (repository_list_recent_records tenant_id workspace_id (nat limit) action resource_type
          resource_id))"

section \<open>Lemmas\<close>

context stmt_order
begin

lemma steps_lift_sum: "steps R (lift_sum r)"
  by (cases r) (simp_all add: lift_sum_def steps_rules)

lemma steps_audit_validate_scope: "steps R (audit_validate_scope a)"
  unfolding audit_validate_scope_def by (intro steps_rules steps_scopes)

lemma steps_repository_append_record:
  assumes "\<And>d r. W d (d\<lparr>audit_records := audit_records d @ [r]\<rparr>)"
  shows "steps R (repository_append_record a corr at m)"
  unfolding repository_append_record_def Let_def
  by (intro steps_rules stmt_rules steps_exec) (simp add: assms)

lemma steps_join_audit:
  assumes "\<And>d r. W d (d\<lparr>audit_records := audit_records d @ [r]\<rparr>)"
  shows "steps R (join_audit a)"
  unfolding join_audit_def AuditRecordCreate_def append_record_def if_False
  by (intro steps_rules stmt_rules steps_lift_sum steps_audit_validate_scope
      steps_repository_append_record assms)

end

context store_order
begin

lemma steps_append_record:
  assumes "\<And>d r. W d (d\<lparr>audit_records := audit_records d @ [r]\<rparr>)"
  shows "steps R (append_record data at c)"
  unfolding append_record_def
  by (intro steps_rules store_rules steps_lift_sum steps_audit_validate_scope
      steps_repository_append_record assms)

end

lemma reads_lift_sum: "reads (lift_sum r)"
  by (cases r) (simp_all add: lift_sum_def reads_rules)

lemma reads_audit_validate_scope: "reads (audit_validate_scope a)"
  unfolding audit_validate_scope_def by (intro reads_rules reads_scopes)

text \<open>\<open>r\<close> is a row that stores the contract \<open>a\<close>.\<close>

definition stores_audit :: "audit_create \<Rightarrow> audit_record \<Rightarrow> bool" where
  "stores_audit a r \<longleftrightarrow> au_tenant_id r = ac_tenant_id a \<and> au_workspace_id r = ac_workspace_id a \<and>
     au_action r = ac_action a \<and> au_actor_type r = ac_actor_type a \<and> au_actor_id r = ac_actor_id a \<and>
     au_outcome r = ac_outcome a \<and> au_resource_type r = ac_resource_type a \<and>
     au_resource_id r = ac_resource_id a \<and> au_project_id r = ac_project_id a \<and>
     au_task_id r = ac_task_id a"

lemma join_audit_runs:
  assumes "join_audit a s = (Inr u, t)"
  shows "audit_create_valid a \<and> (\<exists>r. stores_audit a r \<and>
    working t = (working s)\<lparr>audit_records := audit_records (working s) @ [r]\<rparr>) \<and>
    committed t = committed s"
proof -
  from assms have valid: "audit_create_valid a"
    and "\<exists>v. append_record a None False s = (Inr v, t)"
    by (auto simp: join_audit_def AuditRecordCreate_def Inr_runs split: if_splits)
  then obtain lib m s1 s2 corr v where
    l: "lift_sum (safe_metadata lib (ac_metadata a)) s = (Inr m, s1)" and
    c: "audit_validate_scope a s1 = (Inr (), s2)" and
    r: "repository_append_record a corr None m s2 = (Inr v, t)"
    by (auto simp: append_record_def Inr_runs Inr_runs_handler)
  have "stores_audit a v \<and> working t = (working s2)\<lparr>audit_records := audit_records (working s2) @ [v]\<rparr> \<and>
    committed t = committed s2"
    using r by (auto simp: repository_append_record_def Inr_runs Inr_runs_exec Let_def stores_audit_def)
  then show ?thesis
    using valid readsD [OF reads_lift_sum l] readsD [OF reads_audit_validate_scope c] by auto
qed

text \<open>
  The accountability facts of a record: everything but the project and task references, which
  the deletion of a project or task sets to null.
\<close>

definition audit_facts ::
  "db \<Rightarrow> (uuid \<times> uuid \<times> uuid \<times> pystr \<times> pystr \<times> pystr \<times> instant \<times> pyval option) list" where
  "audit_facts d = map (\<lambda>r. (au_id r, au_tenant_id r, au_workspace_id r, au_action r,
     au_actor_type r, au_outcome r, au_occurred_at r, au_metadata_json r)) (audit_records d)"

interpretation audit_log: db_order "grows audit_facts"
  by unfold_locales (auto simp: grows_def)

end
