(* ===== verification/Policy.thy ===== *)
theory Policy
  imports Audit_Log "HOL-Library.Multiset"
begin

text \<open>
  The policy engine (\<open>modules/policy\<close>): the pure matching and restrictive combination of
  rules, rule persistence, the scoped evaluation with its audit record, and the read-only
  simulation.
\<close>

section \<open>Effects, contexts, requests\<close>

datatype policy_effect = ALLOW | ALLOW_WITH_LOG | REQUIRE_CONFIRMATION | BLOCK

definition effect_value :: "policy_effect \<Rightarrow> pystr" where
  "effect_value e = (case e of ALLOW \<Rightarrow> ''ALLOW'' | ALLOW_WITH_LOG \<Rightarrow> ''ALLOW_WITH_LOG''
     | REQUIRE_CONFIRMATION \<Rightarrow> ''REQUIRE_CONFIRMATION'' | BLOCK \<Rightarrow> ''BLOCK'')"

text \<open>\<open>PolicyEffect(value)\<close>; \<open>None\<close> where it raises \<open>ValueError\<close>.\<close>

definition PolicyEffect :: "pystr \<Rightarrow> policy_effect option" where
  "PolicyEffect v = List.find (\<lambda>e. effect_value e = v) [ALLOW, ALLOW_WITH_LOG, REQUIRE_CONFIRMATION, BLOCK]"

definition EFFECT_PRECEDENCE :: "policy_effect \<Rightarrow> nat" where
  "EFFECT_PRECEDENCE e = (case e of ALLOW \<Rightarrow> 0 | ALLOW_WITH_LOG \<Rightarrow> 1 | REQUIRE_CONFIRMATION \<Rightarrow> 2 | BLOCK \<Rightarrow> 3)"

definition NO_MATCH_EFFECT :: policy_effect where
  "NO_MATCH_EFFECT = REQUIRE_CONFIRMATION"

datatype risk_level = LOW | MEDIUM | HIGH | CRITICAL

definition risk_value :: "risk_level \<Rightarrow> pystr" where
  "risk_value r = (case r of LOW \<Rightarrow> ''LOW'' | MEDIUM \<Rightarrow> ''MEDIUM'' | HIGH \<Rightarrow> ''HIGH'' | CRITICAL \<Rightarrow> ''CRITICAL'')"

definition risk_values :: "pystr list" where
  "risk_values = map risk_value [LOW, MEDIUM, HIGH, CRITICAL]"

record evaluation_context =
  cx_risk_level :: "risk_level option"
  cx_environment :: "pystr option"
  cx_reversible :: "bool option"

definition context_valid :: "evaluation_context \<Rightarrow> bool" where
  "context_valid c = opt_all (\<lambda>v. between 1 32 v \<and> fullmatch ENVIRONMENT v) (cx_environment c)"

record evaluation_request =
  rq_tenant_id :: uuid
  rq_workspace_id :: uuid
  rq_action :: pystr
  rq_actor_type :: "pystr option"
  rq_actor_id :: "pystr option"
  rq_resource_type :: "pystr option"
  rq_resource_id :: "uuid option"
  rq_project_id :: "uuid option"
  rq_task_id :: "uuid option"
  rq_context :: evaluation_context

definition request_valid :: "evaluation_request \<Rightarrow> bool" where
  "request_valid r =
    (between 3 100 (rq_action r) \<and> opt_all (between 1 64) (rq_actor_type r) \<and>
     opt_all (between 1 128) (rq_actor_id r) \<and> opt_all (between 1 64) (rq_resource_type r) \<and>
     context_valid (rq_context r) \<and> fullmatch ACTION (rq_action r) \<and>
     opt_all (fullmatch TYPE_IDENTIFIER) (rq_actor_type r) \<and>
     opt_all (fullmatch TYPE_IDENTIFIER) (rq_resource_type r) \<and>
     (rq_resource_type r = None) = (rq_resource_id r = None) \<and>
     (rq_actor_id r = None \<or> rq_actor_type r \<noteq> None) \<and>
     (rq_task_id r = None \<or> rq_project_id r \<noteq> None) \<and>
     (rq_resource_type r = Some ''project'' \<longrightarrow> rq_resource_id r = rq_project_id r) \<and>
     (rq_resource_type r = Some ''task'' \<longrightarrow> rq_resource_id r = rq_task_id r))"

definition PolicyEvaluationRequest :: "evaluation_request \<Rightarrow> evaluation_request prog" where
  "PolicyEvaluationRequest r = (if request_valid r then ret r else throw ValidationError)"

section \<open>Conditions\<close>

text \<open>
  A condition of a rule. \<open>value\<close> is a string, a boolean or a list of strings;
  \<open>model_validate\<close> takes an arbitrary stored value apart (strictly, with no other field).
\<close>

datatype condition_field = RiskLevelField | EnvironmentField | ReversibleField
datatype condition_operator = Equals | In
datatype condition_value = VStr pystr | VBool bool | VList "pystr list"

record policy_condition =
  pc_field :: condition_field
  pc_operator :: condition_operator
  pc_value :: condition_value

definition parse_field :: "pyval \<Rightarrow> condition_field option" where
  "parse_field v = (if v = PStr ''risk_level'' then Some RiskLevelField
     else if v = PStr ''environment'' then Some EnvironmentField
     else if v = PStr ''reversible'' then Some ReversibleField else None)"

definition parse_operator :: "pyval \<Rightarrow> condition_operator option" where
  "parse_operator v = (if v = PStr ''equals'' then Some Equals
     else if v = PStr ''in'' then Some In else None)"

definition parse_str :: "pyval \<Rightarrow> pystr option" where
  "parse_str v = (case v of PStr t \<Rightarrow> Some t | _ \<Rightarrow> None)"

definition all_some :: "'a option list \<Rightarrow> 'a list option" where
  "all_some xs = (if list_all (\<lambda>x. x \<noteq> None) xs then Some (map the xs) else None)"

definition parse_value :: "pyval \<Rightarrow> condition_value option" where
  "parse_value v = (case v of PStr t \<Rightarrow> Some (VStr t) | PBool b \<Rightarrow> Some (VBool b)
     | PList xs \<Rightarrow> map_option VList (all_some (map parse_str xs)) | _ \<Rightarrow> None)"

definition validate_semantics :: "policy_condition \<Rightarrow> bool" where
  "validate_semantics c =
    ((case (pc_operator c, pc_value c) of
        (In, VList xs) \<Rightarrow> 1 \<le> length xs \<and> length xs \<le> 8
      | (In, _) \<Rightarrow> False
      | (Equals, VList _) \<Rightarrow> False
      | (Equals, _) \<Rightarrow> True) \<and>
     (case pc_field c of
        ReversibleField \<Rightarrow> pc_operator c = Equals \<and> (case pc_value c of VBool _ \<Rightarrow> True | _ \<Rightarrow> False)
      | RiskLevelField \<Rightarrow> (case pc_value c of VStr t \<Rightarrow> t \<in> set risk_values
            | VList ts \<Rightarrow> list_all (\<lambda>t. t \<in> set risk_values) ts | VBool _ \<Rightarrow> False)
      | EnvironmentField \<Rightarrow> (case pc_value c of VStr t \<Rightarrow> fullmatch ENVIRONMENT t
            | VList ts \<Rightarrow> list_all (fullmatch ENVIRONMENT) ts | VBool _ \<Rightarrow> False)))"

definition dict_get :: "(pyval \<times> pyval) list \<Rightarrow> pystr \<Rightarrow> pyval option" where
  "dict_get kvs k = map_of kvs (PStr k)"

definition validate_condition :: "pyval \<Rightarrow> policy_condition option" where
  "validate_condition item = (case item of
     PDict kvs \<Rightarrow>
       (if \<not> list_all (\<lambda>(k, _). k \<in> {PStr ''field'', PStr ''operator'', PStr ''value''}) kvs then None
        else case (Option.bind (dict_get kvs ''field'') parse_field,
                   Option.bind (dict_get kvs ''operator'') parse_operator,
                   Option.bind (dict_get kvs ''value'') parse_value) of
          (Some f, Some oper, Some v) \<Rightarrow>
            (let c = \<lparr>pc_field = f, pc_operator = oper, pc_value = v\<rparr>
             in if validate_semantics c then Some c else None)
        | _ \<Rightarrow> None)
   | _ \<Rightarrow> None)"

text \<open>
  Iterating the stored value: a list gives its items, a dictionary its keys, a string its
  characters; anything else is not iterable (\<open>TypeError\<close>).
\<close>

definition iterate :: "pyval \<Rightarrow> pyval list option" where
  "iterate v = (case v of PList xs \<Rightarrow> Some xs | PDict kvs \<Rightarrow> Some (map fst kvs)
     | PStr t \<Rightarrow> Some (map (\<lambda>c. PStr [c]) t) | _ \<Rightarrow> None)"

definition condition_matches :: "policy_condition \<Rightarrow> evaluation_request \<Rightarrow> bool" where
  "condition_matches c r =
    (let cx = rq_context r;
         actual = (case pc_field c of
             RiskLevelField \<Rightarrow> map_option (VStr \<circ> risk_value) (cx_risk_level cx)
           | EnvironmentField \<Rightarrow> map_option VStr (cx_environment cx)
           | ReversibleField \<Rightarrow> map_option VBool (cx_reversible cx))
     in case actual of None \<Rightarrow> False
        | Some a \<Rightarrow> (case pc_operator c of Equals \<Rightarrow> a = pc_value c
            | In \<Rightarrow> (case pc_value c of VList ts \<Rightarrow> list_ex (\<lambda>t. a = VStr t) ts | _ \<Rightarrow> False)))"

section \<open>Matching and combination\<close>

definition action_matches :: "pystr \<Rightarrow> pystr \<Rightarrow> bool" where
  "action_matches pattern action =
    (if pattern = ''*'' then True
     else if endswith pattern ''.*''
     then startswith action (take (length pattern - 2) pattern @ ''.'')
     else pattern = action)"

record evaluation_result =
  rs_effect :: policy_effect
  rs_matched_rule_ids :: "uuid list"
  rs_matched_rule_names :: "pystr list"
  rs_reasons :: "pystr list"
  rs_confirmation_required :: bool
  rs_audit_required :: bool

definition invalid_rule_result :: "policy_rule \<Rightarrow> evaluation_result" where
  "invalid_rule_result rule =
     \<lparr>rs_effect = BLOCK, rs_matched_rule_ids = [pr_id rule], rs_matched_rule_names = [],
      rs_reasons = [''rule:'' @ uuid_str (pr_id rule) @ '':invalid_fail_closed''],
      rs_confirmation_required = False, rs_audit_required = True\<rparr>"

datatype rule_verdict = Invalid | Skip | Match policy_effect

text \<open>The body of the loop for one rule, in the order of its checks.\<close>

definition judge_rule :: "evaluation_request \<Rightarrow> policy_rule \<Rightarrow> rule_verdict" where
  "judge_rule r rule =
    (if \<not> fullmatch ACTION_PATTERN (pr_action_pattern rule) then Invalid
     else if \<not> action_matches (pr_action_pattern rule) (rq_action r) then Skip
     else case PolicyEffect (pr_effect rule) of
       None \<Rightarrow> Invalid
     | Some effect \<Rightarrow>
         if \<not> opt_all (fullmatch TYPE_IDENTIFIER) (pr_actor_type rule) then Invalid
         else if \<not> opt_all (fullmatch TYPE_IDENTIFIER) (pr_resource_type rule) then Invalid
         else case Option.bind (iterate (pr_conditions_json rule))
                     (\<lambda>items. all_some (map validate_condition items)) of
           None \<Rightarrow> Invalid
         | Some conditions \<Rightarrow>
             if pr_actor_type rule \<noteq> None \<and> pr_actor_type rule \<noteq> rq_actor_type r then Skip
             else if pr_resource_type rule \<noteq> None \<and> pr_resource_type rule \<noteq> rq_resource_type r then Skip
             else if \<not> list_all (\<lambda>c. condition_matches c r) conditions then Skip
             else Match effect)"

fun collect_matches ::
  "evaluation_request \<Rightarrow> policy_rule list \<Rightarrow> policy_rule + (policy_rule \<times> policy_effect) list"
where
  "collect_matches r [] = Inr []"
| "collect_matches r (rule # rules) =
    (case judge_rule r rule of
       Invalid \<Rightarrow> Inl rule
     | Skip \<Rightarrow> collect_matches r rules
     | Match effect \<Rightarrow> map_sum id ((#) (rule, effect)) (collect_matches r rules))"

definition precedence_key :: "policy_rule \<times> policy_effect \<Rightarrow> nat \<times> pystr" where
  "precedence_key m = (EFFECT_PRECEDENCE (snd m), uuid_str (pr_id (fst m)))"

text \<open>\<open>matches.sort(key=..., reverse=True)\<close>: descending, equal keys in their old order.\<close>

definition by_precedence ::
  "(policy_rule \<times> policy_effect) list \<Rightarrow> (policy_rule \<times> policy_effect) list" where
  "by_precedence matches = rev (sort_key precedence_key (rev matches))"

definition evaluate_rules :: "evaluation_request \<Rightarrow> policy_rule list \<Rightarrow> evaluation_result" where
  "evaluate_rules r rules = (case collect_matches r rules of
     Inl rule \<Rightarrow> invalid_rule_result rule
   | Inr matches \<Rightarrow>
       (case by_precedence matches of
          [] \<Rightarrow> \<lparr>rs_effect = NO_MATCH_EFFECT, rs_matched_rule_ids = [], rs_matched_rule_names = [],
                 rs_reasons = [''no_matching_rule:confirmation_required''],
                 rs_confirmation_required = True, rs_audit_required = True\<rparr>
        | strongest # _ \<Rightarrow>
            (let final_effect = snd strongest;
                 ordered = sort_key (\<lambda>m. uuid_str (pr_id (fst m))) (by_precedence matches)
             in \<lparr>rs_effect = final_effect,
                 rs_matched_rule_ids = map (\<lambda>m. pr_id (fst m)) ordered,
                 rs_matched_rule_names = map (\<lambda>m. pr_name (fst m)) ordered,
                 rs_reasons = map (\<lambda>m. ''rule:'' @ uuid_str (pr_id (fst m)) @ '':matched:'' @
                   effect_value (snd m)) ordered,
                 rs_confirmation_required = (final_effect = REQUIRE_CONFIRMATION),
                 rs_audit_required = (final_effect \<noteq> ALLOW)\<rparr>)))"

section \<open>Rule persistence\<close>

record rule_create =
  rc_tenant_id :: uuid
  rc_workspace_id :: "uuid option"
  rc_name :: pystr
  rc_enabled :: bool
  rc_action_pattern :: pystr
  rc_effect :: policy_effect
  rc_actor_type :: "pystr option"
  rc_resource_type :: "pystr option"
  rc_conditions :: "policy_condition list"

definition rule_create_valid :: "rule_create \<Rightarrow> bool" where
  "rule_create_valid c =
    (trim (rc_name c) = rc_name c \<and> between 1 200 (rc_name c) \<and>
     between 1 100 (rc_action_pattern c) \<and> opt_all (between 1 64) (rc_actor_type c) \<and>
     opt_all (between 1 64) (rc_resource_type c) \<and> length (rc_conditions c) \<le> 8 \<and>
     list_all validate_semantics (rc_conditions c) \<and>
     fullmatch ACTION_PATTERN (rc_action_pattern c) \<and>
     opt_all (fullmatch TYPE_IDENTIFIER) (rc_actor_type c) \<and>
     opt_all (fullmatch TYPE_IDENTIFIER) (rc_resource_type c))"

definition field_name :: "condition_field \<Rightarrow> pystr" where
  "field_name f = (case f of RiskLevelField \<Rightarrow> ''risk_level'' | EnvironmentField \<Rightarrow> ''environment''
     | ReversibleField \<Rightarrow> ''reversible'')"

definition operator_name :: "condition_operator \<Rightarrow> pystr" where
  "operator_name oper = (case oper of Equals \<Rightarrow> ''equals'' | In \<Rightarrow> ''in'')"

definition dump_value :: "condition_value \<Rightarrow> pyval" where
  "dump_value v = (case v of VStr t \<Rightarrow> PStr t | VBool b \<Rightarrow> PBool b | VList ts \<Rightarrow> PList (map PStr ts))"

definition dump_condition :: "policy_condition \<Rightarrow> pyval" where
  "dump_condition c = PDict [(PStr ''field'', PStr (field_name (pc_field c))),
     (PStr ''operator'', PStr (operator_name (pc_operator c))), (PStr ''value'', dump_value (pc_value c))]"

definition tenant_exists :: "uuid \<Rightarrow> bool prog" where
  "tenant_exists tenant_id = query (\<lambda>d. list_ex (\<lambda>t. tn_id t = tenant_id) (tenants d))"

definition repository_create_rule :: "rule_create \<Rightarrow> policy_rule prog" where
  "repository_create_rule c =
     bnd uuid4 (\<lambda>u. exec_stmt (\<lambda>now d.
       let r = \<lparr>pr_id = u, pr_tenant_id = rc_tenant_id c, pr_workspace_id = rc_workspace_id c,
                pr_name = rc_name c, pr_enabled = rc_enabled c,
                pr_action_pattern = rc_action_pattern c, pr_effect = effect_value (rc_effect c),
                pr_actor_type = rc_actor_type c, pr_resource_type = rc_resource_type c,
                pr_conditions_json = PList (map dump_condition (rc_conditions c)),
                pr_created_at = now\<rparr>
       in (r, d\<lparr>policy_rules := policy_rules d @ [r]\<rparr>)))"

definition create_rule :: "rule_create \<Rightarrow> policy_rule prog" where
  "create_rule data = transaction
     (ApplicationError ''policy_persistence_failed'' ''Policy rule could not be persisted'' 500)
     (bnd (tenant_exists (rc_tenant_id data)) (\<lambda>exists.
      andthen (only_if (\<not> exists) (throw not_found))
     (andthen (case rc_workspace_id data of None \<Rightarrow> ret ()
               | Some w \<Rightarrow> require_workspace (rc_tenant_id data) w)
     (bnd (repository_create_rule data) (\<lambda>rule.
      andthen commit (refresh policy_rules pr_id rule))))))"

section \<open>Evaluation in a scope\<close>

definition applicable_rules :: "uuid \<Rightarrow> uuid \<Rightarrow> db \<Rightarrow> policy_rule list" where
  "applicable_rules tenant_id workspace_id d =
     sort_key (\<lambda>r. (pr_created_at r, pr_id r))
       (filter (\<lambda>r. pr_tenant_id r = tenant_id \<and> pr_enabled r \<and>
          (pr_workspace_id r = None \<or> pr_workspace_id r = Some workspace_id)) (policy_rules d))"

definition list_applicable_rules :: "uuid \<Rightarrow> uuid \<Rightarrow> policy_rule list prog" where
  "list_applicable_rules tenant_id workspace_id = query (applicable_rules tenant_id workspace_id)"

definition validate_evaluation_scope :: "evaluation_request \<Rightarrow> unit prog" where
  "validate_evaluation_scope r =
     andthen (require_workspace (rq_tenant_id r) (rq_workspace_id r))
    (andthen (require_project (rq_workspace_id r) (rq_project_id r))
     (require_task (rq_project_id r) (rq_task_id r)))"

definition evaluate_decision :: "evaluation_request \<Rightarrow> evaluation_result prog" where
  "evaluate_decision r =
     andthen (validate_evaluation_scope r)
     (bnd (list_applicable_rules (rq_tenant_id r) (rq_workspace_id r)) (\<lambda>rules.
      ret (evaluate_rules r rules)))"

definition evaluate :: "evaluation_request \<Rightarrow> evaluation_result prog" where
  "evaluate r = bnd (evaluate_decision r) (\<lambda>result.
     andthen (only_if (rs_audit_required result)
       (bnd (AuditRecordCreate
          ((audit_fields (rq_tenant_id r) (rq_workspace_id r) ''policy.evaluate'' ''service''
             (if rs_effect result = BLOCK then ''blocked'' else ''success''))
           \<lparr>ac_project_id := rq_project_id r, ac_task_id := rq_task_id r,
            ac_metadata := Some (PDict
              [(PStr ''action'', PStr (rq_action r)),
               (PStr ''final_effect'', PStr (effect_value (rs_effect result))),
               (PStr ''matched_rule_ids'', PList (map (PStr \<circ> uuid_str) (rs_matched_rule_ids result))),
               (PStr ''matched_rule_count'', PInt (int (length (rs_matched_rule_ids result))))])\<rparr>))
          (\<lambda>data. bnd (append_record data None True) (\<lambda>_. ret ()))))
     (ret result))"

record simulation_request =
  sm_action :: pystr
  sm_actor_type :: "pystr option"
  sm_actor_id :: "pystr option"
  sm_resource_type :: "pystr option"
  sm_resource_id :: "uuid option"
  sm_project_id :: "uuid option"
  sm_task_id :: "uuid option"
  sm_context :: evaluation_context

record simulation_result = evaluation_result +
  rs_simulated :: bool
  rs_executed :: bool

definition simulate :: "uuid \<Rightarrow> uuid \<Rightarrow> simulation_request \<Rightarrow> simulation_result prog" where
  "simulate tenant_id workspace_id data =
     bnd (PolicyEvaluationRequest
       \<lparr>rq_tenant_id = tenant_id, rq_workspace_id = workspace_id, rq_action = sm_action data,
        rq_actor_type = sm_actor_type data, rq_actor_id = sm_actor_id data,
        rq_resource_type = sm_resource_type data, rq_resource_id = sm_resource_id data,
        rq_project_id = sm_project_id data, rq_task_id = sm_task_id data,
        rq_context = sm_context data\<rparr>) (\<lambda>request.
     bnd (evaluate_decision request) (\<lambda>decision.
     ret (evaluation_result.extend decision \<lparr>rs_simulated = True, rs_executed = False\<rparr>)))"


section \<open>Lemmas on matching\<close>

lemma collect_matches_Inl:
  "collect_matches r rules = Inl rule \<Longrightarrow> rule \<in> set rules \<and> judge_rule r rule = Invalid"
  by (induction rules) (auto split: rule_verdict.splits sum.splits simp: map_sum_def)

lemma collect_matches_Inr:
  "collect_matches r rules = Inr ms \<Longrightarrow>
   (\<forall>rule \<in> set rules. judge_rule r rule \<noteq> Invalid) \<and>
   set ms = {(rule, e). rule \<in> set rules \<and> judge_rule r rule = Match e}"
  by (induction rules arbitrary: ms) (auto split: rule_verdict.splits sum.splits simp: map_sum_def)

lemma collect_matches_valid:
  "\<forall>rule \<in> set rules. judge_rule r rule \<noteq> Invalid \<Longrightarrow>
   collect_matches r rules =
     Inr (List.map_filter (\<lambda>rule. case judge_rule r rule of Match e \<Rightarrow> Some (rule, e) | _ \<Rightarrow> None) rules)"
  by (induction rules) (auto split: rule_verdict.splits simp: List.map_filter_simps map_sum_def)

lemma collect_matches_invalid:
  "\<exists>rule \<in> set rules. judge_rule r rule = Invalid \<Longrightarrow> \<exists>rule. collect_matches r rules = Inl rule"
  by (cases "collect_matches r rules") (auto dest: collect_matches_Inr)

lemma EFFECT_PRECEDENCE_inj: "EFFECT_PRECEDENCE a = EFFECT_PRECEDENCE b \<Longrightarrow> a = b"
  by (cases a; cases b) (simp_all add: EFFECT_PRECEDENCE_def)

lemma EFFECT_PRECEDENCE_BLOCK: "EFFECT_PRECEDENCE e \<le> EFFECT_PRECEDENCE BLOCK"
  by (cases e) (simp_all add: EFFECT_PRECEDENCE_def)

lemma EFFECT_PRECEDENCE_3: "3 \<le> EFFECT_PRECEDENCE e \<longleftrightarrow> e = BLOCK"
  by (cases e) (simp_all add: EFFECT_PRECEDENCE_def)

lemma set_by_precedence [simp]: "set (by_precedence ms) = set ms"
  by (simp add: by_precedence_def)

lemma by_precedence_Nil [simp]: "by_precedence ms = [] \<longleftrightarrow> ms = []"
  by (metis set_by_precedence set_empty)

lemma by_precedence_top:
  assumes "by_precedence ms = m # rest" and "x \<in> set ms"
  shows "EFFECT_PRECEDENCE (snd x) \<le> EFFECT_PRECEDENCE (snd m)"
proof -
  have "sorted (map precedence_key (rev (m # rest)))"
    using assms(1) unfolding by_precedence_def by (metis rev_rev_ident sorted_sort_key)
  moreover have "x \<in> set (m # rest)" using assms by (metis set_by_precedence)
  ultimately have "precedence_key x \<le> precedence_key m"
    by (auto simp: sorted_append)
  then show ?thesis by (auto simp: precedence_key_def less_eq_prod_def)
qed

lemma evaluate_rules_no_match:
  "collect_matches r rules = Inr [] \<Longrightarrow> rs_effect (evaluate_rules r rules) = REQUIRE_CONFIRMATION"
  by (simp add: evaluate_rules_def by_precedence_def NO_MATCH_EFFECT_def)

lemma evaluate_rules_match:
  assumes "collect_matches r rules = Inr ms" and "ms \<noteq> []"
  shows "rs_effect (evaluate_rules r rules) \<in> snd ` set ms \<and>
    (\<forall>m \<in> set ms. EFFECT_PRECEDENCE (snd m) \<le> EFFECT_PRECEDENCE (rs_effect (evaluate_rules r rules)))"
proof -
  obtain top rest where top: "by_precedence ms = top # rest"
    using assms(2) by (cases "by_precedence ms") auto
  then have "top \<in> set ms" by (metis list.set_intros(1) set_by_precedence)
  with assms top by_precedence_top [OF top] show ?thesis
    by (simp add: evaluate_rules_def Let_def)
qed

lemma evaluate_rules_invalid:
  "collect_matches r rules = Inl rule \<Longrightarrow> rs_effect (evaluate_rules r rules) = BLOCK"
  by (simp add: evaluate_rules_def invalid_rule_result_def)

lemma evaluate_block_iff:
  "rs_effect (evaluate_rules r rules) = BLOCK \<longleftrightarrow>
   (\<exists>rule \<in> set rules. judge_rule r rule \<in> {Invalid, Match BLOCK})"
proof (cases "collect_matches r rules")
  case (Inl rule)
  then show ?thesis using collect_matches_Inl [OF Inl] evaluate_rules_invalid [OF Inl] by auto
next
  case (Inr ms)
  note ms = collect_matches_Inr [OF Inr]
  show ?thesis
  proof (cases "ms = []")
    case True
    then show ?thesis using evaluate_rules_no_match Inr ms by fastforce
  next
    case False
    note m = evaluate_rules_match [OF Inr False]
    have "rs_effect (evaluate_rules r rules) = BLOCK \<longleftrightarrow> BLOCK \<in> snd ` set ms"
      using m EFFECT_PRECEDENCE_BLOCK by (metis (no_types) EFFECT_PRECEDENCE_inj antisym imageE)
    also have "\<dots> \<longleftrightarrow> (\<exists>rule \<in> set rules. judge_rule r rule \<in> {Invalid, Match BLOCK})"
      using ms by (force simp: image_iff)
    finally show ?thesis .
  qed
qed


section \<open>Order independence\<close>

lemma mset_map_filter: "mset xs = mset ys \<Longrightarrow> mset (List.map_filter f xs) = mset (List.map_filter f ys)"
  unfolding List.map_filter_def by (simp add: mset_filter)

lemma sort_key_perm:
  "mset xs = mset ys \<Longrightarrow> inj_on k (set xs) \<Longrightarrow> sort_key k xs = sort_key k ys"
  by (rule sort_key_inj_key_eq) auto

lemma by_precedence_perm:
  "mset xs = mset ys \<Longrightarrow> inj_on precedence_key (set xs) \<Longrightarrow> by_precedence xs = by_precedence ys"
  unfolding by_precedence_def by (subst sort_key_perm [of "rev xs" "rev ys"]) auto

definition rule_ids_ok :: "policy_rule list \<Rightarrow> bool" where
  "rule_ids_ok rules = (distinct (map pr_id rules) \<and> list_all (\<lambda>r. pr_id r < 2 ^ 128) rules)"

lemma rule_str_inj: "rule_ids_ok rules \<Longrightarrow> inj_on (\<lambda>r. uuid_str (pr_id r)) (set rules)"
  using uuid_str_inj by (auto simp: rule_ids_ok_def list_all_iff distinct_map intro!: inj_onI)
    (metis inj_onD uuid_str_inj)

lemma match_str_inj:
  assumes ok: "rule_ids_ok rules" and ms: "collect_matches r rules = Inr ms"
  shows "inj_on (\<lambda>m. uuid_str (pr_id (fst m))) (set ms)"
proof (rule inj_onI)
  fix x y assume xy: "x \<in> set ms" "y \<in> set ms" "uuid_str (pr_id (fst x)) = uuid_str (pr_id (fst y))"
  note s = conjunct2 [OF collect_matches_Inr [OF ms]]
  have "fst x \<in> set rules" "fst y \<in> set rules"
    and j: "judge_rule r (fst x) = Match (snd x)" "judge_rule r (fst y) = Match (snd y)"
    using xy(1,2) by (auto simp: s)
  then have "fst x = fst y" using rule_str_inj [OF ok] xy(3) by (auto dest: inj_onD)
  with j show "x = y" by (simp add: prod_eq_iff)
qed

lemma evaluate_rules_perm:
  assumes perm: "mset rules = mset rules'" and ok: "rule_ids_ok rules"
    and valid: "\<forall>rule \<in> set rules. judge_rule r rule \<noteq> Invalid"
  shows "evaluate_rules r rules = evaluate_rules r rules'"
proof -
  have valid': "\<forall>rule \<in> set rules'. judge_rule r rule \<noteq> Invalid"
    using valid mset_eq_setD [OF perm] by simp
  obtain ms ms' where ms: "collect_matches r rules = Inr ms" and ms': "collect_matches r rules' = Inr ms'"
    and mp: "mset ms = mset ms'"
    using collect_matches_valid [OF valid] collect_matches_valid [OF valid'] mset_map_filter [OF perm]
    by blast
  have inj: "inj_on (\<lambda>m. uuid_str (pr_id (fst m))) (set ms)" by (rule match_str_inj [OF ok ms])
  then have "inj_on precedence_key (set ms)"
    by (auto simp: inj_on_def precedence_key_def)
  then have bp: "by_precedence ms = by_precedence ms'" by (rule by_precedence_perm [OF mp])
  show ?thesis unfolding evaluate_rules_def ms ms' sum.case bp ..
qed

section \<open>Stored conditions\<close>

lemma parse_field_name: "parse_field (PStr (field_name f)) = Some f"
  by (cases f) (simp_all add: parse_field_def field_name_def)

lemma parse_operator_name: "parse_operator (PStr (operator_name oper)) = Some oper"
  by (cases oper) (simp_all add: parse_operator_def operator_name_def)

lemma all_some_map: "(\<And>x. x \<in> set xs \<Longrightarrow> f x = Some (g x)) \<Longrightarrow> all_some (map f xs) = Some (map g xs)"
  by (induction xs) (auto simp: all_some_def list_all_iff split: if_splits)

lemma parse_dump_value: "parse_value (dump_value v) = Some v"
proof (cases v)
  case (VList ts)
  have "all_some (map (parse_str \<circ> PStr) ts) = Some (map (\<lambda>t. t) ts)"
    by (rule all_some_map) (simp add: parse_str_def)
  then show ?thesis by (simp add: VList parse_value_def dump_value_def)
qed (simp_all add: parse_value_def dump_value_def)

lemma condition_roundtrip: "validate_semantics c \<Longrightarrow> validate_condition (dump_condition c) = Some c"
  by (cases c) (simp add: validate_condition_def dump_condition_def dict_get_def parse_field_name
      parse_operator_name parse_dump_value Let_def)

lemma conditions_roundtrip:
  "list_all validate_semantics cs \<Longrightarrow> all_some (map validate_condition (map dump_condition cs)) = Some cs"
  using all_some_map [of cs "validate_condition \<circ> dump_condition" "\<lambda>c. c"]
  by (simp add: list_all_iff condition_roundtrip)

lemma PolicyEffect_value: "PolicyEffect (effect_value e) = Some e"
  by (cases e) (simp_all add: PolicyEffect_def effect_value_def)

section \<open>Effects on the data\<close>

context stmt_order
begin

lemma steps_evaluate_decision: "steps R (evaluate_decision r)"
  unfolding evaluate_decision_def validate_evaluation_scope_def list_applicable_rules_def
  by (intro steps_rules steps_scopes stmt_rules)

lemma steps_simulate: "steps R (simulate t w data)"
  unfolding simulate_def PolicyEvaluationRequest_def
  by (intro steps_rules steps_evaluate_decision)

end

context store_order
begin

lemma steps_evaluate:
  assumes "\<And>d r. W d (d\<lparr>audit_records := audit_records d @ [r]\<rparr>)"
  shows "steps R (evaluate r)"
  unfolding evaluate_def AuditRecordCreate_def
  by (intro steps_rules steps_evaluate_decision steps_append_record assms)

end


lemma evaluate_decision_runs:
  assumes "evaluate_decision r s = (Inr res, t)"
  shows "res = evaluate_rules r (applicable_rules (rq_tenant_id r) (rq_workspace_id r) (working s)) \<and>
    working t = working s \<and> committed t = committed s"
proof -
  from assms obtain s1 where v: "validate_evaluation_scope r s = (Inr (), s1)"
    and t: "t = begin_stmt s1"
    and res: "res = evaluate_rules r (applicable_rules (rq_tenant_id r) (rq_workspace_id r) (working s1))"
    by (auto simp: evaluate_decision_def list_applicable_rules_def Inr_runs)
  have "reads (validate_evaluation_scope r)"
    unfolding validate_evaluation_scope_def by (intro reads_rules reads_scopes)
  from readsD [OF this v] t res show ?thesis by simp
qed

lemma evaluate_runs:
  assumes "evaluate r s = (Inr res, t)"
  shows "res = evaluate_rules r (applicable_rules (rq_tenant_id r) (rq_workspace_id r) (working s))"
  using assms by (auto simp: evaluate_def Inr_runs dest: evaluate_decision_runs)

lemma created_rule_not_invalid:
  assumes "rule_create_valid c"
    and "pr_action_pattern rule = rc_action_pattern c" "pr_effect rule = effect_value (rc_effect c)"
    and "pr_actor_type rule = rc_actor_type c" "pr_resource_type rule = rc_resource_type c"
    and "pr_conditions_json rule = PList (map dump_condition (rc_conditions c))"
  shows "judge_rule r rule \<noteq> Invalid"
proof -
  have "all_some (map validate_condition (map dump_condition (rc_conditions c))) = Some (rc_conditions c)"
    using assms(1) by (intro conditions_roundtrip) (simp add: rule_create_valid_def)
  then show ?thesis
    using assms by (simp add: judge_rule_def rule_create_valid_def PolicyEffect_value iterate_def)
qed

section \<open>Properties\<close>

text \<open>
  C5: the effect of a policy evaluation is BLOCK exactly when some applicable rule that the
  action reaches is invalid or matches with effect BLOCK. So invalid records fail closed, and
  no other rule, whatever its effect or position, lifts a block.
\<close>

theorem policy_block_exactly:
  "rs_effect (evaluate_rules r rules) = BLOCK \<longleftrightarrow>
   (\<exists>rule \<in> set rules. judge_rule r rule = Invalid \<or> judge_rule r rule = Match BLOCK)"
  using evaluate_block_iff by auto

text \<open>
  C19: without an invalid rule the decision is the most restrictive effect among the matching
  rules, and a required confirmation when none matches; the flags of the result follow the
  effect.
\<close>

theorem policy_most_restrictive:
  assumes "\<forall>rule \<in> set rules. judge_rule r rule \<noteq> Invalid"
  shows "(if \<exists>rule \<in> set rules. \<exists>e. judge_rule r rule = Match e
      then (\<exists>rule \<in> set rules. judge_rule r rule = Match (rs_effect (evaluate_rules r rules))) \<and>
           (\<forall>rule \<in> set rules. \<forall>e. judge_rule r rule = Match e \<longrightarrow>
              EFFECT_PRECEDENCE e \<le> EFFECT_PRECEDENCE (rs_effect (evaluate_rules r rules)))
      else rs_effect (evaluate_rules r rules) = REQUIRE_CONFIRMATION) \<and>
    rs_confirmation_required (evaluate_rules r rules) =
      (rs_effect (evaluate_rules r rules) = REQUIRE_CONFIRMATION) \<and>
    rs_audit_required (evaluate_rules r rules) = (rs_effect (evaluate_rules r rules) \<noteq> ALLOW)"
proof -
  obtain ms where ms: "collect_matches r rules = Inr ms"
    using collect_matches_valid [OF assms] by blast
  note s = conjunct2 [OF collect_matches_Inr [OF ms]]
  have flags: "rs_confirmation_required (evaluate_rules r rules) =
      (rs_effect (evaluate_rules r rules) = REQUIRE_CONFIRMATION) \<and>
    rs_audit_required (evaluate_rules r rules) = (rs_effect (evaluate_rules r rules) \<noteq> ALLOW)"
    by (simp add: evaluate_rules_def ms Let_def NO_MATCH_EFFECT_def split: list.splits)
  show ?thesis
  proof (cases "ms = []")
    case True
    then have "\<not> (\<exists>rule \<in> set rules. \<exists>e. judge_rule r rule = Match e)" using s by auto
    with flags evaluate_rules_no_match ms True show ?thesis by simp
  next
    case False
    then obtain x where "x \<in> set ms" by (cases ms) auto
    then have "\<exists>rule \<in> set rules. \<exists>e. judge_rule r rule = Match e" by (auto simp: s)
    note ex = this
    from evaluate_rules_match [OF ms False] s show ?thesis
      unfolding if_P [OF ex] using flags by (simp add: image_iff) blast
  qed
qed

text \<open>
  the whole result, with its ordered rule identifiers, names and reasons, does not depend on
  the order in which the database returns the rules, as long as they are valid and their
  identifiers are distinct 128-bit values.
\<close>

theorem policy_order_independent:
  assumes "mset rules = mset rules'" and "rule_ids_ok rules"
    and "\<forall>rule \<in> set rules. judge_rule r rule \<noteq> Invalid"
  shows "evaluate_rules r rules = evaluate_rules r rules'"
  using assms by (rule evaluate_rules_perm)

text \<open>
  a rule that was stored through \<open>create_rule\<close> from validated data is never the invalid rule
  that forces a block: its conditions, dumped to JSON and parsed back, are the ones it was
  created with.
\<close>

theorem policy_created_rule_sound:
  assumes "rule_create_valid c"
  shows "judge_rule r
      \<lparr>pr_id = u, pr_tenant_id = rc_tenant_id c, pr_workspace_id = rc_workspace_id c,
       pr_name = rc_name c, pr_enabled = rc_enabled c, pr_action_pattern = rc_action_pattern c,
       pr_effect = effect_value (rc_effect c), pr_actor_type = rc_actor_type c,
       pr_resource_type = rc_resource_type c,
       pr_conditions_json = PList (map dump_condition (rc_conditions c)),
       pr_created_at = now\<rparr> \<noteq> Invalid \<and>
    all_some (map validate_condition (map dump_condition (rc_conditions c))) = Some (rc_conditions c)"
  using assms created_rule_not_invalid [OF assms] conditions_roundtrip [of "rc_conditions c"]
  by (simp add: rule_create_valid_def)

text \<open>
  an action pattern matches as documented: the star matches every action, a pattern ending
  in a wildcard matches exactly the actions strictly below its namespace, and any other pattern
  matches only itself.
\<close>

theorem action_matches_semantics:
  "action_matches pattern action \<longleftrightarrow>
     pattern = ''*'' \<or>
     (\<exists>namespace rest. pattern = namespace @ ''.*'' \<and> action = namespace @ ''.'' @ rest) \<or>
     (\<not> (\<exists>namespace. pattern = namespace @ ''.*'') \<and> pattern = action)"
  by (auto simp: action_matches_def endswith_iff startswith_iff)

text \<open>
  simulating a policy decision changes no data at all, whatever fails on the way.
\<close>

theorem simulate_read_only:
  assumes "working s = committed s"
  shows "committed (snd (simulate tenant_id workspace_id data s)) = committed s \<and>
    working (snd (simulate tenant_id workspace_id data s)) = committed s"
  using read_only.lifted.steps_simulate [of tenant_id workspace_id data] assms
  unfolding steps_def lift_order_def frozen_def id_apply by metis

section \<open>Concrete instances\<close>

definition sample_rule :: "uuid \<Rightarrow> pystr \<Rightarrow> pystr \<Rightarrow> policy_rule" where
  "sample_rule i pattern effect = \<lparr>pr_id = i, pr_tenant_id = 1, pr_workspace_id = None,
     pr_name = ''rule'', pr_enabled = True, pr_action_pattern = pattern, pr_effect = effect,
     pr_actor_type = None, pr_resource_type = None, pr_conditions_json = PList [], pr_created_at = 0\<rparr>"

definition sample_rules :: "policy_rule list" where
  "sample_rules = [sample_rule 1 ''*'' ''ALLOW'', sample_rule 2 ''deploy.*'' ''REQUIRE_CONFIRMATION'']"

definition sample_request :: evaluation_request where
  "sample_request = \<lparr>rq_tenant_id = 1, rq_workspace_id = 2, rq_action = ''deploy.site'',
     rq_actor_type = Some ''agent'', rq_actor_id = None, rq_resource_type = None,
     rq_resource_id = None, rq_project_id = Some 3, rq_task_id = Some 4,
     rq_context = \<lparr>cx_risk_level = None, cx_environment = None, cx_reversible = None\<rparr>\<rparr>"

lemma sample_verdicts:
  "map (judge_rule sample_request) sample_rules = [Match ALLOW, Match REQUIRE_CONFIRMATION]"
  by code_simp

lemma sample_rules_valid: "\<forall>rule \<in> set sample_rules. judge_rule sample_request rule \<noteq> Invalid"
  using sample_verdicts by (auto simp: sample_rules_def)

lemma policy_most_restrictive_witness:
  "rs_effect (evaluate_rules sample_request sample_rules) = REQUIRE_CONFIRMATION \<and>
   rs_confirmation_required (evaluate_rules sample_request sample_rules)"
  using policy_most_restrictive [OF sample_rules_valid] sample_verdicts
  by (auto simp: sample_rules_def EFFECT_PRECEDENCE_def split: policy_effect.splits if_splits)

lemma policy_order_independent_witness:
  "evaluate_rules sample_request sample_rules = evaluate_rules sample_request (rev sample_rules)"
  by (rule policy_order_independent [OF _ _ sample_rules_valid])
    (simp_all add: rule_ids_ok_def sample_rules_def sample_rule_def)

definition sample_rule_create :: rule_create where
  "sample_rule_create = \<lparr>rc_tenant_id = 1, rc_workspace_id = Some 2, rc_name = ''prod only'',
     rc_enabled = True, rc_action_pattern = ''deploy.*'', rc_effect = BLOCK,
     rc_actor_type = Some ''agent'', rc_resource_type = None,
     rc_conditions = [\<lparr>pc_field = EnvironmentField, pc_operator = In, pc_value = VList [''prod'']\<rparr>,
       \<lparr>pc_field = ReversibleField, pc_operator = Equals, pc_value = VBool False\<rparr>]\<rparr>"

lemma sample_rule_create_valid: "rule_create_valid sample_rule_create"
  by code_simp

lemma policy_created_rule_sound_witness:
  "all_some (map validate_condition (map dump_condition (rc_conditions sample_rule_create))) =
     Some (rc_conditions sample_rule_create)"
  using policy_created_rule_sound [OF sample_rule_create_valid] by blast

definition sample_simulation :: simulation_request where
  "sample_simulation = \<lparr>sm_action = ''deploy.site'', sm_actor_type = None, sm_actor_id = None,
     sm_resource_type = None, sm_resource_id = None, sm_project_id = Some 3, sm_task_id = None,
     sm_context = \<lparr>cx_risk_level = None, cx_environment = None, cx_reversible = None\<rparr>\<rparr>"

lemma simulate_read_only_witness:
  "committed (snd (simulate 1 2 sample_simulation (sample_session sample_db))) = sample_db \<and>
   working (snd (simulate 1 2 sample_simulation (sample_session sample_db))) = sample_db"
  using simulate_read_only [of "sample_session sample_db" 1 2 sample_simulation] by simp

end
