(* ===== verification/Workflow_Graph.thy ===== *)
theory Workflow_Graph
  imports Policy "HOL-Library.AList"
begin

text \<open>
  The contracts of workflow plans (\<open>modules/workflows/schemas.py\<close>) and the validation of the
  dependency graph (\<open>validate_graph\<close> of \<open>modules/workflows/service.py\<close>): Kahn's algorithm with a
  sorted worklist, as the code runs it, its equivalence with a reference definition, and what
  the order it returns means.
\<close>

section \<open>Contracts\<close>

datatype workflow_step_type = AGENT_TASK | MANUAL_REVIEW | SYSTEM

definition workflow_step_type_value :: "workflow_step_type \<Rightarrow> pystr" where
  "workflow_step_type_value v = (case v of AGENT_TASK \<Rightarrow> ''AGENT_TASK''
     | MANUAL_REVIEW \<Rightarrow> ''MANUAL_REVIEW'' | SYSTEM \<Rightarrow> ''SYSTEM'')"

record step_create =
  sc_step_key :: pystr
  sc_title :: pystr
  sc_step_type :: workflow_step_type
  sc_assigned_capability :: "pystr option"
  sc_agent_definition_id :: "uuid option"
  sc_risk_level :: "risk_level option"
  sc_depends_on :: "pystr list"

record plan_create =
  pl_title :: pystr
  pl_summary :: "pystr option"
  pl_steps :: "step_create list"

definition MAX_PLAN_STEPS :: nat where "MAX_PLAN_STEPS = 100"
definition MAX_PLAN_EDGES :: nat where "MAX_PLAN_EDGES = 500"

definition stripped :: "nat \<Rightarrow> pystr \<Rightarrow> bool" where
  "stripped max_length t = (trim t = t \<and> between 1 max_length t)"

definition step_create_valid :: "step_create \<Rightarrow> bool" where
  "step_create_valid s =
    (fullmatch TYPE_IDENTIFIER (sc_step_key s) \<and> stripped 200 (sc_title s) \<and>
     opt_all (fullmatch TYPE_IDENTIFIER) (sc_assigned_capability s) \<and>
     length (sc_depends_on s) \<le> MAX_PLAN_STEPS \<and>
     list_all (fullmatch TYPE_IDENTIFIER) (sc_depends_on s) \<and> distinct (sc_depends_on s))"

definition plan_create_valid :: "plan_create \<Rightarrow> bool" where
  "plan_create_valid p =
    (stripped 200 (pl_title p) \<and> opt_all (stripped 2000) (pl_summary p) \<and>
     1 \<le> length (pl_steps p) \<and> length (pl_steps p) \<le> MAX_PLAN_STEPS \<and>
     list_all step_create_valid (pl_steps p) \<and> distinct (map sc_step_key (pl_steps p)) \<and>
     sum_list (map (\<lambda>s. length (sc_depends_on s)) (pl_steps p)) \<le> MAX_PLAN_EDGES)"

text \<open>
  The models are built from dictionaries: titles and summaries are trimmed, the enums are parsed
  from strings in any case (the only upper-case strings that matter are ASCII), and anything out
  of bounds raises \<open>ValidationError\<close> (\<open>None\<close>).
\<close>

record raw_step =
  rs_step_key :: pystr
  rs_title :: pystr
  rs_step_type :: pystr
  rs_assigned_capability :: "pystr option"
  rs_agent_definition_id :: "uuid option"
  rs_risk_level :: "pystr option"
  rs_depends_on :: "pystr list"

record raw_plan =
  rp_title :: pystr
  rp_summary :: "pystr option"
  rp_steps :: "raw_step list"

definition upper :: "pystr \<Rightarrow> pystr" where
  "upper t = map (\<lambda>c. if lower_az c then char_of (of_char c - 32 :: nat) else c) t"

definition parse_step_type :: "pystr \<Rightarrow> workflow_step_type option" where
  "parse_step_type v =
     find (\<lambda>t. workflow_step_type_value t = upper v) [AGENT_TASK, MANUAL_REVIEW, SYSTEM]"

definition parse_risk_level :: "pystr \<Rightarrow> risk_level option" where
  "parse_risk_level v = find (\<lambda>t. risk_value t = upper v) [LOW, MEDIUM, HIGH, CRITICAL]"

definition trimmed_field :: "nat \<Rightarrow> pystr \<Rightarrow> pystr option" where
  "trimmed_field max_length v =
     (if between 1 max_length (trim v) then Some (trim v) else None)"

definition WorkflowStepCreate :: "raw_step \<Rightarrow> step_create option" where
  "WorkflowStepCreate r =
    (case (trimmed_field 200 (rs_title r), parse_step_type (rs_step_type r),
           optional_field parse_risk_level (rs_risk_level r)) of
       (Some title, Some step_type, Some risk) \<Rightarrow>
         if fullmatch TYPE_IDENTIFIER (rs_step_key r) \<and>
            opt_all (fullmatch TYPE_IDENTIFIER) (rs_assigned_capability r) \<and>
            length (rs_depends_on r) \<le> MAX_PLAN_STEPS \<and>
            list_all (fullmatch TYPE_IDENTIFIER) (rs_depends_on r) \<and>
            length (rs_depends_on r) = length (remdups (rs_depends_on r))
         then Some \<lparr>sc_step_key = rs_step_key r, sc_title = title, sc_step_type = step_type,
           sc_assigned_capability = rs_assigned_capability r,
           sc_agent_definition_id = rs_agent_definition_id r, sc_risk_level = risk,
           sc_depends_on = rs_depends_on r\<rparr>
         else None
     | _ \<Rightarrow> None)"

definition WorkflowPlanCreate :: "raw_plan \<Rightarrow> plan_create option" where
  "WorkflowPlanCreate r =
    (case (trimmed_field 200 (rp_title r), optional_field (trimmed_field 2000) (rp_summary r),
           those (map WorkflowStepCreate (rp_steps r))) of
       (Some title, Some summary, Some steps') \<Rightarrow>
         if 1 \<le> length steps' \<and> length steps' \<le> MAX_PLAN_STEPS \<and>
            length (map sc_step_key steps') = length (remdups (map sc_step_key steps')) \<and>
            sum_list (map (\<lambda>s. length (sc_depends_on s)) steps') \<le> MAX_PLAN_EDGES
         then Some \<lparr>pl_title = title, pl_summary = summary, pl_steps = steps'\<rparr>
         else None
     | _ \<Rightarrow> None)"

text \<open>What was validated, written back as strings.\<close>

definition raw_of_step :: "step_create \<Rightarrow> raw_step" where
  "raw_of_step s = \<lparr>rs_step_key = sc_step_key s, rs_title = sc_title s,
     rs_step_type = workflow_step_type_value (sc_step_type s),
     rs_assigned_capability = sc_assigned_capability s,
     rs_agent_definition_id = sc_agent_definition_id s,
     rs_risk_level = map_option risk_value (sc_risk_level s), rs_depends_on = sc_depends_on s\<rparr>"

definition raw_of_plan :: "plan_create \<Rightarrow> raw_plan" where
  "raw_of_plan p = \<lparr>rp_title = pl_title p, rp_summary = pl_summary p,
     rp_steps = map raw_of_step (pl_steps p)\<rparr>"

lemma length_remdups_distinct:
  "length xs = length (remdups xs) \<longleftrightarrow> distinct xs"
  "length ys = length (remdups (map f ys)) \<longleftrightarrow> distinct (map f ys)"
  by (metis length_remdups_eq remdups_id_iff_distinct, metis length_map length_remdups_eq remdups_id_iff_distinct)

lemma parse_values:
  "parse_step_type (workflow_step_type_value t) = Some t"
  "parse_risk_level (risk_value k) = Some k"
  by (cases t; hypsubst; code_simp) (cases k; hypsubst; code_simp)

lemma trimmed_field_stable: "trimmed_field n v = Some w \<longleftrightarrow> w = trim v \<and> stripped n w"
  by (auto simp: trimmed_field_def stripped_def)

lemma WorkflowStepCreate_valid: "WorkflowStepCreate r = Some s \<Longrightarrow> step_create_valid s"
  by (auto simp: WorkflowStepCreate_def step_create_valid_def trimmed_field_stable
      length_remdups_distinct split: option.splits if_splits)

lemma WorkflowStepCreate_raw: "step_create_valid s \<Longrightarrow> WorkflowStepCreate (raw_of_step s) = Some s"
proof -
  assume v: "step_create_valid s"
  have "trimmed_field 200 (sc_title s) = Some (sc_title s)"
    using v by (simp add: trimmed_field_stable step_create_valid_def stripped_def)
  moreover have "optional_field parse_risk_level (map_option risk_value (sc_risk_level s)) =
      Some (sc_risk_level s)"
    by (cases "sc_risk_level s") (simp_all add: optional_field_def parse_values)
  ultimately show ?thesis
    using v by (simp add: WorkflowStepCreate_def raw_of_step_def parse_values step_create_valid_def
        length_remdups_distinct)
qed

lemma WorkflowPlanCreate_valid:
  assumes "WorkflowPlanCreate r = Some q"
  shows "plan_create_valid q"
proof -
  from assms obtain title summary ss where t: "trimmed_field 200 (rp_title r) = Some title"
    and su: "optional_field (trimmed_field 2000) (rp_summary r) = Some summary"
    and ss: "those (map WorkflowStepCreate (rp_steps r)) = Some ss"
    and b: "1 \<le> length ss" "length ss \<le> MAX_PLAN_STEPS" "distinct (map sc_step_key ss)"
      "sum_list (map (\<lambda>s. length (sc_depends_on s)) ss) \<le> MAX_PLAN_EDGES"
    and q: "q = \<lparr>pl_title = title, pl_summary = summary, pl_steps = ss\<rparr>"
    by (auto simp: WorkflowPlanCreate_def length_remdups_distinct split: option.splits if_splits)
  have "step_create_valid s" if "s \<in> set ss" for s
    using ss that WorkflowStepCreate_valid
    by (auto simp: those_map_Some list_all2_conv_all_nth in_set_conv_nth)
  moreover have "opt_all (stripped 2000) summary"
    using su by (cases "rp_summary r") (auto simp: optional_field_def trimmed_field_stable)
  ultimately show ?thesis
    using t b by (auto simp: q plan_create_valid_def trimmed_field_stable list_all_iff)
qed

lemma WorkflowPlanCreate_raw:
  assumes v: "plan_create_valid p"
  shows "WorkflowPlanCreate (raw_of_plan p) = Some p"
proof -
  have "trimmed_field 200 (pl_title p) = Some (pl_title p)"
    using v by (simp add: trimmed_field_stable plan_create_valid_def stripped_def)
  moreover have "optional_field (trimmed_field 2000) (pl_summary p) = Some (pl_summary p)"
    using v by (cases "pl_summary p")
      (simp_all add: optional_field_def trimmed_field_stable plan_create_valid_def stripped_def)
  moreover have "those (map WorkflowStepCreate (map raw_of_step (pl_steps p))) = Some (pl_steps p)"
    using v unfolding map_map those_map_Some
    by (auto simp: plan_create_valid_def list_all_iff list_all2_conv_all_nth those_map_Some
        list_all2_map1 WorkflowStepCreate_raw)
  ultimately show ?thesis
    using v by (simp add: WorkflowPlanCreate_def raw_of_plan_def plan_create_valid_def
        length_remdups_distinct)
qed

text \<open>
  Building a plan from a dictionary gives a plan that satisfies the contract, and a plan that
  satisfies the contract survives being written back as strings and built again: validation is
  idempotent.
\<close>
theorem plan_create_roundtrip:
  "(\<forall>r. opt_all plan_create_valid (WorkflowPlanCreate r)) \<and>
   (plan_create_valid p = (WorkflowPlanCreate (raw_of_plan p) = Some p))"
  using WorkflowPlanCreate_valid WorkflowPlanCreate_raw
  by (auto simp: opt_all_def split: option.splits)

section \<open>The validation as the code runs it\<close>

definition invalid_graph :: "pystr \<Rightarrow> exn" where
  "invalid_graph message = ApplicationError ''invalid_workflow_graph'' message 422"

text \<open>
  \<open>incoming\<close> is a dictionary from a key to the set of its open dependencies (a list without
  repetition), \<open>outgoing\<close> a \<open>defaultdict(set)\<close> (a function that gives the empty list where
  nothing was added).
\<close>

type_synonym incoming = "(pystr \<times> pystr list) list"
type_synonym outgoing = "pystr \<Rightarrow> pystr list"

fun scan_steps ::
  "pystr list \<Rightarrow> step_create list \<Rightarrow> incoming \<Rightarrow> outgoing \<Rightarrow> exn + incoming \<times> outgoing"
where
  "scan_steps keys [] inc out = Inr (inc, out)"
| "scan_steps keys (step # rest) inc out =
    (let key = sc_step_key step; deps = remdups (sc_depends_on step) in
     if key \<in> set deps then Inl (invalid_graph ''A workflow step cannot depend on itself'')
     else if \<not> set deps \<subseteq> set keys
     then Inl (invalid_graph ''Workflow dependencies must reference steps in the same plan'')
     else scan_steps keys rest (AList.update key deps inc)
       (fold (\<lambda>dep f. f(dep := List.insert key (f dep))) deps out))"

text \<open>
  The inner loop: the dependents of a key that was taken, in sorted order. Removing from a set
  that lacks the element, like looking up a key the dictionary lacks, raises \<open>KeyError\<close>.
\<close>

fun release :: "pystr \<Rightarrow> pystr list \<Rightarrow> pystr list \<Rightarrow> incoming \<Rightarrow> exn + pystr list \<times> incoming" where
  "release key [] ready inc = Inr (ready, inc)"
| "release key (dependent # dependents) ready inc =
    (case map_of inc dependent of
       None \<Rightarrow> Inl (PythonError ''KeyError'')
     | Some deps \<Rightarrow>
        if key \<notin> set deps then Inl (PythonError ''KeyError'')
        else let deps' = remove1 key deps in
          release key dependents (if deps' = [] then sort (ready @ [dependent]) else ready)
            (AList.update dependent deps' inc))"

definition open_edges :: "incoming \<Rightarrow> nat" where
  "open_edges inc = sum_list (map (length \<circ> snd) inc)"

lemma open_edges_update:
  "map_of inc k = Some deps \<Longrightarrow>
   open_edges (AList.update k deps' inc) + length deps = open_edges inc + length deps'"
  by (induction inc) (auto simp: open_edges_def split: if_splits)

lemma release_measure:
  "release key ds ready inc = Inr (ready', inc') \<Longrightarrow>
   length ready' + open_edges inc' \<le> length ready + open_edges inc"
proof (induction key ds ready inc rule: release.induct)
  case (2 key d ds ready inc)
  from "2.prems" obtain deps where deps: "map_of inc d = Some deps" "key \<in> set deps"
    by (auto split: option.splits if_splits)
  let ?deps' = "remove1 key deps"
  have "length ?deps' + 1 = length deps" using length_pos_if_in_set [OF deps(2)] deps(2) by (simp add: length_remove1)
  with open_edges_update [OF deps(1), of ?deps']
  have "open_edges (AList.update d ?deps' inc) + 1 = open_edges inc" by simp
  with "2.IH" [OF deps(1)] "2.prems" deps show ?case by (auto simp: Let_def split: if_splits)
qed auto

text \<open>The outer loop. It ends: every turn takes one key or closes at least one edge.\<close>

function topo_loop :: "outgoing \<Rightarrow> pystr list \<Rightarrow> pystr list \<Rightarrow> incoming \<Rightarrow> exn + pystr list" where
  "topo_loop out [] ordered inc = Inr ordered"
| "topo_loop out (key # ready) ordered inc =
    (case release key (sort (out key)) ready inc of
       Inl e \<Rightarrow> Inl e
     | Inr (ready', inc') \<Rightarrow> topo_loop out ready' (ordered @ [key]) inc')"
  by pat_completeness auto
termination
  by (relation "measure (\<lambda>(out, ready, ordered, inc). length ready + open_edges inc)")
    (auto dest!: release_measure)

definition validate_graph :: "plan_create \<Rightarrow> exn + pystr list" where
  "validate_graph data =
    (let keys = remdups (map sc_step_key (pl_steps data)) in
     case scan_steps keys (pl_steps data) [] (\<lambda>_. []) of
       Inl e \<Rightarrow> Inl e
     | Inr (inc, out) \<Rightarrow>
        (case topo_loop out (sort (map fst (filter (\<lambda>(k, deps). deps = []) inc))) [] inc of
           Inl e \<Rightarrow> Inl e
         | Inr ordered \<Rightarrow>
            if length ordered \<noteq> length keys
            then Inl (invalid_graph ''Workflow dependencies must form an acyclic graph'')
            else Inr ordered))"


section \<open>Reference definition\<close>

text \<open>
  The order the validation should return: as long as some step has all its dependencies done,
  take the least such step.
\<close>

definition available :: "pystr list \<Rightarrow> (pystr \<Rightarrow> pystr list) \<Rightarrow> pystr list \<Rightarrow> pystr list" where
  "available keys deps ordered =
     filter (\<lambda>k. k \<notin> set ordered \<and> set (deps k) \<subseteq> set ordered) keys"

primrec greedy :: "nat \<Rightarrow> pystr list \<Rightarrow> (pystr \<Rightarrow> pystr list) \<Rightarrow> pystr list \<Rightarrow> pystr list" where
  "greedy 0 keys deps ordered = ordered"
| "greedy (Suc n) keys deps ordered =
    (case sort (available keys deps ordered) of
       [] \<Rightarrow> ordered
     | key # _ \<Rightarrow> greedy n keys deps (ordered @ [key]))"

section \<open>The loops keep the books\<close>

lemma map_of_update_same [simp]: "map_of (AList.update k v al) = (map_of al)(k \<mapsto> v)"
  by (rule ext) (simp add: update_conv')

lemma set_release_ready:
  "release key ds ready inc = Inr (ready', inc') \<Longrightarrow> distinct ds \<Longrightarrow> sorted ready \<Longrightarrow>
   sorted ready' \<and>
   set ready' = set ready \<union> {d \<in> set ds. \<exists>l. map_of inc d = Some l \<and> remove1 key l = []} \<and>
   length ready' = length ready + length (filter (\<lambda>d. \<exists>l. map_of inc d = Some l \<and> remove1 key l = []) ds) \<and>
   (\<forall>k. map_of inc' k = (if k \<in> set ds then map_option (remove1 key) (map_of inc k) else map_of inc k))"
proof (induction key ds ready inc rule: release.induct)
  case (2 key d ds ready inc)
  from "2.prems"(1) obtain l where l: "map_of inc d = Some l" "key \<in> set l"
    by (auto split: option.splits if_splits)
  let ?ready = "if remove1 key l = [] then sort (ready @ [d]) else ready"
  let ?inc = "AList.update d (remove1 key l) inc"
  have rec: "release key ds ?ready ?inc = Inr (ready', inc')"
    using "2.prems"(1) l by (simp add: Let_def)
  have d: "d \<notin> set ds" "distinct ds" using "2.prems"(2) by auto
  have s: "sorted ?ready" using "2.prems"(3) by simp
  have same: "map_of ?inc x = map_of inc x" if "x \<in> set ds" for x
    using that d(1) by auto
  note IH = "2.IH" [OF l(1) _ refl rec d(2) s]
  have eq: "(\<exists>l. map_of ?inc x = Some l \<and> remove1 key l = []) =
      (\<exists>l. map_of inc x = Some l \<and> remove1 key l = [])" if "x \<in> set ds" for x
    by (simp only: same [OF that])
  have "{x \<in> set ds. \<exists>l. map_of ?inc x = Some l \<and> remove1 key l = []} =
      {x \<in> set ds. \<exists>l. map_of inc x = Some l \<and> remove1 key l = []}"
    "filter (\<lambda>x. \<exists>l. map_of ?inc x = Some l \<and> remove1 key l = []) ds =
      filter (\<lambda>x. \<exists>l. map_of inc x = Some l \<and> remove1 key l = []) ds"
    by (rule Collect_cong, use eq in blast) (rule filter_cong [OF refl eq])
  with IH l d show ?case by auto
qed auto

lemma release_total:
  assumes "distinct ds" and "\<forall>d \<in> set ds. \<exists>l. map_of inc d = Some l \<and> key \<in> set l"
  shows "\<exists>r. release key ds ready inc = Inr r"
  using assms
proof (induction key ds ready inc rule: release.induct)
  case (2 key d ds ready inc)
  then obtain l where l: "map_of inc d = Some l" "key \<in> set l" by auto
  have "\<forall>x \<in> set ds. \<exists>l'. map_of (AList.update d (remove1 key l) inc) x = Some l' \<and> key \<in> set l'"
    using "2.prems" by auto
  with "2.IH" [OF l(1) _ refl] "2.prems"(1) l show ?case by (simp add: Let_def)
qed simp

text \<open>
  The invariant of the loop: \<open>ready\<close> lists the available keys in order, and the dictionary holds
  the dependencies that are still open.
\<close>

definition books ::
  "pystr list \<Rightarrow> (pystr \<Rightarrow> pystr list) \<Rightarrow> outgoing \<Rightarrow> pystr list \<Rightarrow> pystr list \<Rightarrow> incoming \<Rightarrow> bool" where
  "books keys deps out ordered ready inc \<longleftrightarrow>
     (\<forall>k. distinct (out k) \<and> set (out k) = {d \<in> set keys. k \<in> set (deps d)}) \<and>
     (\<forall>k \<in> set keys. \<exists>l. map_of inc k = Some l \<and> distinct l \<and> set l = set (deps k) - set ordered) \<and>
     (\<forall>k \<in> set ordered. set (deps k) \<subseteq> set ordered) \<and>
     ready = sort (available keys deps ordered)"

lemma books_step:
  assumes b: "books keys deps out ordered (key # ready) inc" and dk: "distinct keys"
  shows "\<exists>ready' inc'. release key (sort (out key)) ready inc = Inr (ready', inc') \<and>
    books keys deps out (ordered @ [key]) ready' inc' \<and> key \<in> set (available keys deps ordered)"
proof -
  let ?av = "available keys deps ordered" and ?av' = "available keys deps (ordered @ [key])"
  let ?ds = "sort (out key)"
  have r: "key # ready = sort ?av" using b by (simp add: books_def)
  then have set_av: "set ?av = insert key (set ready)" and srt: "sorted ready"
    by (metis list.simps(15) set_sort, metis sorted_sort sorted_wrt.simps(2))
  have dav: "distinct (key # ready)" using dk unfolding r by (simp add: available_def)
  have key: "key \<in> set keys" "key \<notin> set ordered" "set (deps key) \<subseteq> set ordered"
    using set_av by (auto simp: available_def)
  have closed: "\<forall>k \<in> set ordered. set (deps k) \<subseteq> set ordered" using b by (simp add: books_def)
  have ds: "distinct ?ds" "set ?ds = {d \<in> set keys. key \<in> set (deps d)}"
    using b by (simp_all add: books_def)
  have inc: "\<exists>l. map_of inc k = Some l \<and> distinct l \<and> set l = set (deps k) - set ordered"
    if "k \<in> set keys" for k using b that by (simp add: books_def)
  have "\<forall>d \<in> set ?ds. \<exists>l. map_of inc d = Some l \<and> key \<in> set l"
    using inc ds(2) key(2) by fastforce
  from release_total [OF ds(1) this, of ready] obtain ready' inc' where
    rel: "release key ?ds ready inc = Inr (ready', inc')" by auto
  let ?P = "\<lambda>d. \<exists>l. map_of inc d = Some l \<and> remove1 key l = []"
  note post = set_release_ready [OF rel ds(1) srt]
  have P: "?P d \<longleftrightarrow> set (deps d) \<subseteq> set (ordered @ [key])" if "d \<in> set ?ds" for d
  proof -
    from that ds(2) inc obtain l where l: "map_of inc d = Some l" "distinct l"
      "set l = set (deps d) - set ordered" by blast
    have "remove1 key l = [] \<longleftrightarrow> set l - {key} = {}"
      using set_remove1_eq [OF l(2), of key] by (metis set_empty)
    with l show ?thesis by auto
  qed
  have av': "set ?av' = set ready \<union> {d \<in> set ?ds. ?P d}"
  proof (intro set_eqI iffI)
    fix x assume x: "x \<in> set ?av'"
    show "x \<in> set ready \<union> {d \<in> set ?ds. ?P d}"
    proof (cases "key \<in> set (deps x)")
      case True
      then have "x \<in> set ?ds" using x ds(2) by (simp add: available_def)
      with P x show ?thesis by (simp add: available_def)
    next
      case False
      then have "x \<in> set ?av" "x \<noteq> key" using x by (auto simp: available_def)
      with set_av show ?thesis by auto
    qed
  next
    fix x assume x: "x \<in> set ready \<union> {d \<in> set ?ds. ?P d}"
    show "x \<in> set ?av'"
    proof (cases "x \<in> set ready")
      case True
      then have "x \<in> set ?av" "x \<noteq> key" using set_av dav by auto
      then show ?thesis by (auto simp: available_def)
    next
      case False
      then have x': "x \<in> set ?ds" "?P x" using x by auto
      then have "x \<notin> set ordered" using closed ds(2) key(2) by auto
      with x' P [OF x'(1)] ds(2) key show ?thesis by (auto simp: available_def)
    qed
  qed
  have disj: "set ready \<inter> {d \<in> set ?ds. ?P d} = {}"
    using set_av ds(2) key(2) dav by (auto simp: available_def)
  have "card {d \<in> set ?ds. ?P d} = length (filter ?P ?ds)"
    using distinct_card [OF distinct_filter [OF ds(1), of ?P]] by (simp only: set_filter)
  moreover have "card (set ready') = card (set ready) + card {d \<in> set ?ds. ?P d}"
    using post disj card_Un_disjoint [of "set ready" "{d \<in> set ?ds. ?P d}"] by simp
  ultimately have "card (set ready') = length ready'"
    using post dav by (simp only: distinct_card distinct.simps)
  then have "ready' = sort ?av'"
    using post av' dk by (intro sorted_distinct_set_unique)
      (auto simp: card_distinct available_def)
  moreover have "\<exists>l. map_of inc' k = Some l \<and> distinct l \<and> set l = set (deps k) - set (ordered @ [key])"
    if "k \<in> set keys" for k
    using inc [OF that] post that ds(2) by (auto simp: distinct_remove1)
  ultimately have "books keys deps out (ordered @ [key]) ready' inc'"
    using b closed key by (auto simp: books_def)
  with rel set_av show ?thesis by auto
qed

lemma topo_loop_greedy:
  assumes "books keys deps out ordered ready inc" and "distinct keys"
    and "card (set keys - set ordered) \<le> n"
  shows "topo_loop out ready ordered inc = Inr (greedy n keys deps ordered)"
  using assms
proof (induction n arbitrary: ordered ready inc)
  case 0
  then have "set keys \<subseteq> set ordered" by simp
  then have "available keys deps ordered = []" by (auto simp: available_def filter_empty_conv)
  with 0 show ?case by (simp add: books_def)
next
  case (Suc n)
  show ?case
  proof (cases ready)
    case Nil
    with Suc.prems(1) have "sort (available keys deps ordered) = []" by (simp add: books_def)
    with Nil show ?thesis by simp
  next
    case (Cons key rest)
    from books_step [of keys deps out ordered key rest inc] Suc.prems Cons
    obtain ready' inc' where rel: "release key (sort (out key)) rest inc = Inr (ready', inc')"
      and b: "books keys deps out (ordered @ [key]) ready' inc'"
      and av: "key \<in> set (available keys deps ordered)" by auto
    have "set keys - set (ordered @ [key]) = (set keys - set ordered) - {key}" by auto
    moreover have "key \<in> set keys - set ordered" using av by (simp add: available_def)
    ultimately have "card (set keys - set (ordered @ [key])) \<le> n"
      using Suc.prems(3) by (simp add: card_Diff_singleton)
    from Suc.IH [OF b Suc.prems(2) this] rel Cons Suc.prems(1) show ?thesis
      by (auto simp: books_def dest: sym)
  qed
qed


section \<open>From the steps to the books\<close>

lemma update_new: "k \<notin> fst ` set al \<Longrightarrow> AList.update k v al = al @ [(k, v)]"
  by (induction al) auto

definition step_keys :: "plan_create \<Rightarrow> pystr list" where
  "step_keys data = map sc_step_key (pl_steps data)"

definition deps_of :: "plan_create \<Rightarrow> pystr \<Rightarrow> pystr list" where
  "deps_of data k =
    (case map_of (map (\<lambda>s. (sc_step_key s, sc_depends_on s)) (pl_steps data)) k of
       None \<Rightarrow> [] | Some ds \<Rightarrow> ds)"

definition good_refs :: "pystr list \<Rightarrow> step_create \<Rightarrow> bool" where
  "good_refs keys s \<longleftrightarrow> sc_step_key s \<notin> set (sc_depends_on s) \<and> set (sc_depends_on s) \<subseteq> set keys"

lemma fold_insert_out:
  "distinct (fold (\<lambda>dep f. f(dep := List.insert key (f dep))) deps out k) = distinct (out k) \<and>
   set (fold (\<lambda>dep f. f(dep := List.insert key (f dep))) deps out k) =
     (if k \<in> set deps then insert key (set (out k)) else set (out k))"
proof (induction deps arbitrary: out)
  case (Cons d deps)
  then show ?case by (cases "k = d") (auto simp: distinct_insert)
qed simp

lemma scan_steps_good:
  assumes "distinct (map fst inc @ map sc_step_key ss)" and "\<forall>s \<in> set ss. good_refs keys s"
  shows "\<exists>out'. scan_steps keys ss inc out =
      Inr (inc @ map (\<lambda>s. (sc_step_key s, remdups (sc_depends_on s))) ss, out') \<and>
    (\<forall>k. distinct (out' k) = distinct (out k) \<and>
      set (out' k) = set (out k) \<union> {sc_step_key s | s. s \<in> set ss \<and> k \<in> set (sc_depends_on s)})"
  using assms
proof (induction ss arbitrary: inc out)
  case (Cons s ss)
  let ?deps = "remdups (sc_depends_on s)"
  let ?inc = "inc @ [(sc_step_key s, ?deps)]"
  let ?out = "fold (\<lambda>dep f. f(dep := List.insert (sc_step_key s) (f dep))) ?deps out"
  have upd: "AList.update (sc_step_key s) ?deps inc = ?inc"
    using Cons.prems(1) by (intro update_new) auto
  have "distinct (map fst ?inc @ map sc_step_key ss)" using Cons.prems(1) by auto
  from Cons.IH [OF this, of ?out] Cons.prems(2) obtain out' where
    o: "scan_steps keys ss ?inc ?out =
      Inr (?inc @ map (\<lambda>s. (sc_step_key s, remdups (sc_depends_on s))) ss, out')"
    "\<forall>k. distinct (out' k) = distinct (?out k) \<and>
      set (out' k) = set (?out k) \<union> {sc_step_key s | s. s \<in> set ss \<and> k \<in> set (sc_depends_on s)}"
    by auto
  have "scan_steps keys (s # ss) inc out = scan_steps keys ss ?inc ?out"
    using Cons.prems(2) upd by (simp add: good_refs_def Let_def)
  with o show ?case by (auto simp: fold_insert_out split: if_splits)
qed simp

lemma scan_steps_bad:
  assumes "\<exists>s \<in> set ss. \<not> good_refs keys s"
  shows "\<exists>m. scan_steps keys ss inc out = Inl (invalid_graph m)"
  using assms
proof (induction ss arbitrary: inc out)
  case (Cons s ss)
  then show ?case by (cases "good_refs keys s") (auto simp: good_refs_def Let_def)
qed simp

lemma deps_of_step:
  assumes "distinct (step_keys data)" and "s \<in> set (pl_steps data)"
  shows "deps_of data (sc_step_key s) = sc_depends_on s"
proof -
  have "map_of (map (\<lambda>s. (sc_step_key s, sc_depends_on s)) (pl_steps data)) (sc_step_key s) =
      Some (sc_depends_on s)"
    using assms by (intro map_of_is_SomeI) (auto simp: step_keys_def comp_def)
  then show ?thesis by (simp add: deps_of_def)
qed

lemma initial_ready:
  assumes "distinct (step_keys data)"
  shows "map fst (filter (\<lambda>(k, deps). deps = [])
      (map (\<lambda>s. (sc_step_key s, remdups (sc_depends_on s))) (pl_steps data))) =
    available (step_keys data) (deps_of data) []"
proof -
  have "filter (\<lambda>s. sc_depends_on s = []) (pl_steps data) =
      filter (\<lambda>s. deps_of data (sc_step_key s) = []) (pl_steps data)"
    by (rule filter_cong) (simp_all add: deps_of_step [OF assms])
  then show ?thesis by (simp add: available_def step_keys_def filter_map comp_def)
qed

text \<open>The validation computes the reference order.\<close>

lemma scan_and_loop:
  assumes dk: "distinct (step_keys data)" and good: "\<forall>s \<in> set (pl_steps data). good_refs (step_keys data) s"
  obtains out where
    "scan_steps (step_keys data) (pl_steps data) [] (\<lambda>_. []) =
       Inr (map (\<lambda>s. (sc_step_key s, remdups (sc_depends_on s))) (pl_steps data), out)"
    and "\<forall>k. distinct (out k) \<and>
       set (out k) = {sc_step_key s | s. s \<in> set (pl_steps data) \<and> k \<in> set (sc_depends_on s)}"
    and "topo_loop out (sort (available (step_keys data) (deps_of data) [])) []
       (map (\<lambda>s. (sc_step_key s, remdups (sc_depends_on s))) (pl_steps data)) =
       Inr (greedy (length (step_keys data)) (step_keys data) (deps_of data) [])"
proof -
  let ?keys = "step_keys data" and ?deps = "deps_of data"
  let ?inc = "map (\<lambda>s. (sc_step_key s, remdups (sc_depends_on s))) (pl_steps data)"
  from scan_steps_good [of "[]" "pl_steps data" ?keys "\<lambda>_. []"] dk good obtain out where
    scan: "scan_steps ?keys (pl_steps data) [] (\<lambda>_. []) = Inr (?inc, out)" and
    out: "\<forall>k. distinct (out k) \<and>
      set (out k) = {sc_step_key s | s. s \<in> set (pl_steps data) \<and> k \<in> set (sc_depends_on s)}"
    by (auto simp: step_keys_def)
  have "set (out k) = {d \<in> set ?keys. k \<in> set (?deps d)}" for k
    using out deps_of_step [OF dk] by (auto simp: step_keys_def)
  moreover have "\<exists>l. map_of ?inc k = Some l \<and> distinct l \<and> set l = set (?deps k)" if "k \<in> set ?keys" for k
  proof -
    from that obtain s where s: "s \<in> set (pl_steps data)" "k = sc_step_key s"
      by (auto simp: step_keys_def)
    have "map_of ?inc k = Some (remdups (sc_depends_on s))"
      using dk s by (intro map_of_is_SomeI) (auto simp: step_keys_def comp_def)
    with deps_of_step [OF dk s(1)] s(2) show ?thesis by simp
  qed
  ultimately have b: "books ?keys ?deps out [] (sort (available ?keys ?deps [])) ?inc"
    using out by (simp add: books_def)
  have "topo_loop out (sort (available ?keys ?deps [])) [] ?inc = Inr (greedy (length ?keys) ?keys ?deps [])"
    by (rule topo_loop_greedy [OF b dk]) (simp add: card_length)
  then show thesis by (rule that [OF scan out])
qed

lemma validate_graph_good:
  assumes dk: "distinct (step_keys data)" and good: "\<forall>s \<in> set (pl_steps data). good_refs (step_keys data) s"
  shows "validate_graph data =
    (let ordered = greedy (length (step_keys data)) (step_keys data) (deps_of data) [] in
     if length ordered \<noteq> length (step_keys data)
     then Inl (invalid_graph ''Workflow dependencies must form an acyclic graph'') else Inr ordered)"
proof -
  obtain out where
    scan: "scan_steps (step_keys data) (pl_steps data) [] (\<lambda>_. []) =
       Inr (map (\<lambda>s. (sc_step_key s, remdups (sc_depends_on s))) (pl_steps data), out)"
    and "\<forall>k. distinct (out k) \<and>
       set (out k) = {sc_step_key s | s. s \<in> set (pl_steps data) \<and> k \<in> set (sc_depends_on s)}"
    and topo: "topo_loop out (sort (available (step_keys data) (deps_of data) [])) []
       (map (\<lambda>s. (sc_step_key s, remdups (sc_depends_on s))) (pl_steps data)) =
       Inr (greedy (length (step_keys data)) (step_keys data) (deps_of data) [])"
    by (rule scan_and_loop [OF assms])
  have keys: "remdups (map sc_step_key (pl_steps data)) = step_keys data"
    using dk by (simp add: step_keys_def distinct_remdups_id)
  show ?thesis
    unfolding validate_graph_def Let_def keys scan sum.case case_prod_conv initial_ready [OF dk] topo by simp
qed


section \<open>What the order means\<close>

definition dep_edges :: "plan_create \<Rightarrow> (pystr \<times> pystr) set" where
  "dep_edges data =
     set (concat (map (\<lambda>s. map (\<lambda>d. (d, sc_step_key s)) (sc_depends_on s)) (pl_steps data)))"

definition refs_in_plan :: "plan_create \<Rightarrow> bool" where
  "refs_in_plan data =
     list_all (\<lambda>s. list_all (\<lambda>d. d \<in> set (step_keys data)) (sc_depends_on s)) (pl_steps data)"

definition dependencies_first :: "(pystr \<Rightarrow> pystr list) \<Rightarrow> pystr list \<Rightarrow> bool" where
  "dependencies_first deps order \<longleftrightarrow>
     (\<forall>i < length order. set (deps (order ! i)) \<subseteq> set (take i order))"

lemma dependencies_first_Nil [simp]: "dependencies_first deps []"
  by (simp add: dependencies_first_def)

lemma dependencies_first_snoc [simp]:
  "dependencies_first deps (order @ [k]) \<longleftrightarrow>
     dependencies_first deps order \<and> set (deps k) \<subseteq> set order"
  by (auto simp: dependencies_first_def nth_append less_Suc_eq)

lemma sort_available_Cons:
  "sort (available keys deps ordered) = k # rest \<Longrightarrow>
   k \<in> set keys \<and> k \<notin> set ordered \<and> set (deps k) \<subseteq> set ordered"
  by (drule arg_cong [where f = set]) (auto simp: available_def)

lemma greedy_order:
  assumes "distinct ordered" and "set ordered \<subseteq> set keys" and "dependencies_first deps ordered"
  shows "distinct (greedy n keys deps ordered) \<and> set (greedy n keys deps ordered) \<subseteq> set keys \<and>
    dependencies_first deps (greedy n keys deps ordered)"
  using assms
proof (induction n arbitrary: ordered)
  case (Suc n)
  show ?case
  proof (cases "sort (available keys deps ordered)")
    case (Cons k rest)
    with Suc.IH [of "ordered @ [k]"] Suc.prems sort_available_Cons [OF Cons] show ?thesis by simp
  qed (use Suc.prems in simp)
qed simp

lemma greedy_stuck:
  assumes "card (set keys - set ordered) \<le> n"
  shows "available keys deps (greedy n keys deps ordered) = []"
  using assms
proof (induction n arbitrary: ordered)
  case 0
  then show ?case by (auto simp: available_def filter_empty_conv)
next
  case (Suc n)
  show ?case
  proof (cases "sort (available keys deps ordered)")
    case Nil
    then have "available keys deps ordered = []" by (metis set_empty set_sort)
    then show ?thesis by simp
  next
    case (Cons k rest)
    have "set keys - set (ordered @ [k]) = (set keys - set ordered) - {k}" by auto
    moreover have "k \<in> set keys - set ordered" using sort_available_Cons [OF Cons] by simp
    ultimately have "card (set keys - set (ordered @ [k])) \<le> n"
      using Suc.prems by (simp add: card_Diff_singleton)
    from Suc.IH [OF this] Cons show ?thesis by simp
  qed
qed

text \<open>A graph without cycles is never stuck before every key is taken.\<close>

lemma acyclic_not_stuck:
  assumes ac: "acyclic E" and E: "\<And>k d. k \<in> set keys \<Longrightarrow> d \<in> set (deps k) \<Longrightarrow> (d, k) \<in> E \<and> d \<in> set keys"
    and fin: "finite E" and stuck: "available keys deps ordered = []"
  shows "set keys \<subseteq> set ordered"
proof (rule ccontr)
  assume "\<not> set keys \<subseteq> set ordered"
  then obtain x where x: "x \<in> set keys - set ordered" by auto
  have "wf E" using ac fin by (simp add: finite_acyclic_wf)
  from wfE_min [OF this x] obtain z where
    z: "z \<in> set keys - set ordered" "\<And>y. (y, z) \<in> E \<Longrightarrow> y \<notin> set keys - set ordered" by metis
  then have "set (deps z) \<subseteq> set ordered" using E by blast
  with z(1) have "z \<in> set (available keys deps ordered)" by (simp add: available_def)
  with stuck show False by simp
qed

lemma dependencies_first_acyclic:
  assumes first: "dependencies_first deps order" and dist: "distinct order"
    and E: "\<And>d k. (d, k) \<in> E \<Longrightarrow> k \<in> set order \<and> d \<in> set (deps k)"
  shows "acyclic E"
proof -
  let ?i = "\<lambda>k. length (takeWhile (\<lambda>x. x \<noteq> k) order)"
  have pos: "?i (order ! i) = i" if "i < length order" for i
    using that dist
      takeWhile_eq_take_P_nth [of i order "\<lambda>x. x \<noteq> order ! i"]
    by (simp add: nth_eq_iff_index_eq)
  have "?i d < ?i k" if "(d, k) \<in> E" for d k
  proof -
    from E [OF that] obtain i where i: "i < length order" "k = order ! i" "d \<in> set (deps k)"
      by (auto simp: in_set_conv_nth)
    with first have "d \<in> set (take i order)" by (auto simp: dependencies_first_def)
    then obtain j where "j < i" "d = order ! j" by (auto simp: in_set_conv_nth)
    with i pos show ?thesis by simp
  qed
  then show ?thesis
    by (intro wf_acyclic wf_subset [OF wf_measure [of ?i]]) auto
qed

lemma greedy_same:
  assumes "distinct keys" "distinct keys'" "set keys = set keys'"
    and "\<And>k. k \<in> set keys \<Longrightarrow> set (deps k) = set (deps' k)"
  shows "greedy n keys deps ordered = greedy n keys' deps' ordered"
proof (induction n arbitrary: ordered)
  case (Suc n)
  have "sort (available keys deps ordered) = sort (available keys' deps' ordered)"
    using assms by (intro sorted_distinct_set_unique) (auto simp: available_def)
  with Suc show ?case by (simp split: list.splits)
qed simp


lemma dep_edges_iff:
  assumes "distinct (step_keys data)"
  shows "(d, k) \<in> dep_edges data \<longleftrightarrow> k \<in> set (step_keys data) \<and> d \<in> set (deps_of data k)"
  using deps_of_step [OF assms] by (fastforce simp: dep_edges_def step_keys_def)

lemma refs_in_plan_iff:
  assumes "distinct (step_keys data)"
  shows "refs_in_plan data \<longleftrightarrow>
    (\<forall>k \<in> set (step_keys data). set (deps_of data k) \<subseteq> set (step_keys data))"
  using deps_of_step [OF assms] by (auto simp: refs_in_plan_def step_keys_def list_all_iff)

lemma good_refs_acyclic:
  assumes "acyclic (dep_edges data)" and "refs_in_plan data"
  shows "\<forall>s \<in> set (pl_steps data). good_refs (step_keys data) s"
proof
  fix s assume s: "s \<in> set (pl_steps data)"
  have "(sc_step_key s, sc_step_key s) \<notin> dep_edges data"
    using assms(1) by (auto simp: acyclic_def)
  with s assms(2) show "good_refs (step_keys data) s"
    by (auto simp: good_refs_def refs_in_plan_def list_all_iff dep_edges_def)
qed

text \<open>The reference: the least order of the steps, if there is one.\<close>

definition reference_order :: "plan_create \<Rightarrow> pystr list option" where
  "reference_order data =
    (let keys = step_keys data; order = greedy (length keys) keys (deps_of data) [] in
     if list_all (good_refs keys) (pl_steps data) \<and> length order = length keys
     then Some order else None)"

lemma validate_graph_reference:
  assumes "distinct (step_keys data)"
  shows "case validate_graph data of
      Inr order \<Rightarrow> reference_order data = Some order
    | Inl e \<Rightarrow> (\<exists>m. e = invalid_graph m) \<and> reference_order data = None"
proof (cases "\<forall>s \<in> set (pl_steps data). good_refs (step_keys data) s")
  case True
  from validate_graph_good [OF assms True] True show ?thesis
    by (auto simp: reference_order_def Let_def list_all_iff)
next
  case False
  then have "reference_order data = None" by (auto simp: reference_order_def Let_def list_all_iff)
  moreover from False obtain m where
    "scan_steps (remdups (map sc_step_key (pl_steps data))) (pl_steps data) [] (\<lambda>_. []) =
       Inl (invalid_graph m)"
    using scan_steps_bad [of "pl_steps data" "step_keys data"] assms
    by (auto simp: step_keys_def distinct_remdups_id)
  ultimately show ?thesis by (auto simp: validate_graph_def Let_def)
qed

lemma reference_order_Some:
  assumes dk: "distinct (step_keys data)" and r: "reference_order data = Some order"
  shows "distinct order \<and> set order = set (step_keys data) \<and>
    dependencies_first (deps_of data) order \<and> refs_in_plan data \<and> acyclic (dep_edges data)"
proof -
  from r have o: "order = greedy (length (step_keys data)) (step_keys data) (deps_of data) []"
    "length order = length (step_keys data)" "list_all (good_refs (step_keys data)) (pl_steps data)"
    by (auto simp: reference_order_def Let_def split: if_splits)
  from greedy_order [of "[]" "step_keys data" "deps_of data" "length (step_keys data)"] o(1)
  have order: "distinct order" "set order \<subseteq> set (step_keys data)" "dependencies_first (deps_of data) order"
    by simp_all
  then have eq: "set order = set (step_keys data)"
    using o(2) dk by (intro card_subset_eq) (simp_all add: distinct_card)
  have "acyclic (dep_edges data)"
    using dependencies_first_acyclic [OF order(3,1)] eq dep_edges_iff [OF dk] by auto
  with order eq o(3) show ?thesis
    by (auto simp: refs_in_plan_def list_all_iff good_refs_def)
qed

lemma reference_order_exists:
  assumes dk: "distinct (step_keys data)" and ac: "acyclic (dep_edges data)" and refs: "refs_in_plan data"
  shows "reference_order data \<noteq> None"
proof -
  let ?keys = "step_keys data"
  let ?order = "greedy (length ?keys) ?keys (deps_of data) []"
  have "available ?keys (deps_of data) ?order = []"
    by (rule greedy_stuck) (simp add: card_length)
  from acyclic_not_stuck [OF ac _ _ this] dep_edges_iff [OF dk] refs_in_plan_iff [OF dk] refs
  have "set ?keys \<subseteq> set ?order" by (auto simp: dep_edges_def)
  with greedy_order [of "[]" ?keys "deps_of data" "length ?keys"]
  have "set ?order = set ?keys" "distinct ?order" by auto
  then have "length ?order = length ?keys" using dk by (metis distinct_card)
  with good_refs_acyclic [OF ac refs] show ?thesis
    by (simp add: reference_order_def Let_def list_all_iff)
qed

lemma reference_order_permutation:
  assumes dk: "distinct (step_keys a)" and p: "mset (pl_steps a) = mset (pl_steps b)"
  shows "reference_order a = reference_order b"
proof -
  have st: "set (pl_steps a) = set (pl_steps b)" using p by (rule mset_eq_setD)
  have "mset (step_keys a) = mset (step_keys b)" using p by (simp add: step_keys_def)
  with dk have db: "distinct (step_keys b)" and len: "length (step_keys a) = length (step_keys b)"
    and ks: "set (step_keys a) = set (step_keys b)"
    by (metis mset_eq_imp_distinct_iff, metis mset_eq_length, metis mset_eq_setD)
  have "deps_of a k = deps_of b k" if "k \<in> set (step_keys a)" for k
    using that deps_of_step [OF dk] deps_of_step [OF db] st by (auto simp: step_keys_def)
  with dk db ks have "greedy n (step_keys a) (deps_of a) [] = greedy n (step_keys b) (deps_of b) []" for n
    by (intro greedy_same) simp_all
  moreover have "good_refs (step_keys a) = good_refs (step_keys b)"
    by (rule ext) (simp add: good_refs_def ks)
  ultimately show ?thesis by (simp add: reference_order_def Let_def len st list_all_iff)
qed

section \<open>Properties\<close>

definition sample_step :: "pystr \<Rightarrow> pystr list \<Rightarrow> step_create" where
  "sample_step key deps = \<lparr>sc_step_key = key, sc_title = key, sc_step_type = SYSTEM,
     sc_assigned_capability = None, sc_agent_definition_id = None, sc_risk_level = None,
     sc_depends_on = deps\<rparr>"

definition sample_plan :: plan_create where
  "sample_plan = \<lparr>pl_title = ''Ship'', pl_summary = None,
     pl_steps = [sample_step ''review'' [''build'', ''docs''], sample_step ''docs'' [],
       sample_step ''build'' [''plan''], sample_step ''plan'' []]\<rparr>"

lemma sample_plan_keys: "distinct (step_keys sample_plan)"
  by code_simp

text \<open>
  C22: Kahn's algorithm with its dictionaries of open dependencies and its sorted worklist returns
  exactly the order of the reference definition (repeatedly the least step whose dependencies
  are all done), and raises the graph error, never a \<open>KeyError\<close>, exactly when there is none.
\<close>
theorem validate_graph_equivalent:
  assumes "distinct (step_keys data)"
  shows "(validate_graph data = Inr order) = (reference_order data = Some order) \<and>
    ((\<exists>m. validate_graph data = Inl (invalid_graph m)) = (reference_order data = None))"
  using validate_graph_reference [OF assms] by (cases "validate_graph data") auto

theorem validate_graph_equivalent_witness:
  "validate_graph sample_plan = Inr [''docs'', ''plan'', ''build'', ''review'']"
proof -
  have "reference_order sample_plan = Some [''docs'', ''plan'', ''build'', ''review'']" by code_simp
  with validate_graph_equivalent [OF sample_plan_keys] show ?thesis by simp
qed

text \<open>
  C7: A plan passes the validation exactly when every dependency names a step of the plan and the
  dependencies form no cycle; the order returned lists every step once, each after all the
  steps it depends on.
\<close>
theorem validate_graph_correct:
  assumes "distinct (step_keys data)"
  shows "case validate_graph data of
      Inr order \<Rightarrow> distinct order \<and> set order = set (step_keys data) \<and>
        dependencies_first (deps_of data) order \<and> refs_in_plan data \<and> acyclic (dep_edges data)
    | Inl e \<Rightarrow> (\<exists>m. e = invalid_graph m) \<and> \<not> (refs_in_plan data \<and> acyclic (dep_edges data))"
  using validate_graph_reference [OF assms] reference_order_Some [OF assms]
    reference_order_exists [OF assms] by (auto split: sum.splits)

theorem validate_graph_correct_witness:
  "case validate_graph sample_plan of
      Inr order \<Rightarrow> distinct order \<and> set order = set (step_keys sample_plan) \<and>
        dependencies_first (deps_of sample_plan) order \<and> refs_in_plan sample_plan \<and>
        acyclic (dep_edges sample_plan)
    | Inl e \<Rightarrow> (\<exists>m. e = invalid_graph m) \<and>
        \<not> (refs_in_plan sample_plan \<and> acyclic (dep_edges sample_plan))"
  by (rule validate_graph_correct [OF sample_plan_keys])

text \<open>
  The result does not depend on the order in which the request lists the steps: the same
  steps in another order pass with the same order, or fail as well.
\<close>
theorem validate_graph_order_independent:
  assumes "distinct (step_keys a)" and "mset (pl_steps a) = mset (pl_steps b)"
  shows "(validate_graph a = Inr order) = (validate_graph b = Inr order)"
proof -
  have "distinct (step_keys b)"
    using assms by (simp add: step_keys_def) (metis mset_eq_imp_distinct_iff mset_map)
  with assms show ?thesis
    using validate_graph_reference [of a] validate_graph_reference [of b]
      reference_order_permutation [OF assms] by (auto split: sum.splits)
qed

theorem validate_graph_order_independent_witness:
  "(validate_graph sample_plan = Inr [''docs'', ''plan'', ''build'', ''review'']) =
   (validate_graph (sample_plan\<lparr>pl_steps := rev (pl_steps sample_plan)\<rparr>) =
      Inr [''docs'', ''plan'', ''build'', ''review''])"
  by (rule validate_graph_order_independent [OF sample_plan_keys]) simp

end
