(* ===== verification/Approvals.thy ===== *)
theory Approvals
  imports Policy
begin

text \<open>
  Approval requests (\<open>modules/approvals\<close>): the creation of a request after a fresh policy
  evaluation, the single human decision, and the check that an approval still authorises one
  exact action. The decision is a compare-and-set on the pending row.
\<close>

section \<open>Contracts\<close>

datatype approval_status = PENDING | APPROVED | REJECTED

definition approval_status_value :: "approval_status \<Rightarrow> pystr" where
  "approval_status_value t = (case t of PENDING \<Rightarrow> ''PENDING'' | APPROVED \<Rightarrow> ''APPROVED'' | REJECTED \<Rightarrow> ''REJECTED'')"

record approval_create =
  aq_action :: pystr
  aq_requester_actor_type :: pystr
  aq_requester_actor_id :: "pystr option"
  aq_resource_type :: "pystr option"
  aq_resource_id :: "uuid option"
  aq_project_id :: "uuid option"
  aq_task_id :: "uuid option"
  aq_context :: evaluation_context
  aq_mutation_fingerprint :: "pystr option"

definition hex64 :: "pystr \<Rightarrow> bool" where
  "hex64 t = (length t = 64 \<and> list_all (\<lambda>c. digit09 c \<or> (CHR ''a'' \<le> c \<and> c \<le> CHR ''f'')) t)"

text \<open>
  \<open>_SECRET_REFERENCE.search\<close>: both alternatives are anchored at the start, the second at the
  end as well (where Python's dollar also accepts a final newline).
\<close>

definition secret_reference :: "pystr \<Rightarrow> bool" where
  "secret_reference v =
    (let f = map ascii_fold v; tok = (\<lambda>c. ascii_alnum c \<or> c = CHR ''_'' \<or> c = CHR ''-'');
         body = drop 3 v;
         body' = (if body \<noteq> [] \<and> last body = CHR 0x0A then butlast body else body)
     in (startswith f ''bearer'' \<and> drop 6 f \<noteq> [] \<and> hd (drop 6 f) \<in> set ''._:-'') \<or>
        (startswith f ''basic'' \<and> drop 5 f \<noteq> [] \<and> hd (drop 5 f) \<in> set ''._:-'') \<or>
        (startswith f ''sk-'' \<and> 8 \<le> length body' \<and> list_all tok body'))"

definition approval_create_valid :: "approval_create \<Rightarrow> bool" where
  "approval_create_valid a =
    (between 3 100 (aq_action a) \<and>
     one_of [''api'', ''agent'', ''model'', ''service'', ''tool''] (aq_requester_actor_type a) \<and>
     opt_all (\<lambda>v. between 1 128 v \<and> fullmatch REFERENCE_PATTERN v) (aq_requester_actor_id a) \<and>
     opt_all (between 1 64) (aq_resource_type a) \<and> context_valid (aq_context a) \<and>
     opt_all hex64 (aq_mutation_fingerprint a) \<and>
     fullmatch ACTION (aq_action a) \<and>
     opt_all (\<lambda>v. \<not> secret_reference v) (aq_requester_actor_id a) \<and>
     opt_all (fullmatch TYPE_IDENTIFIER) (aq_resource_type a) \<and>
     (aq_resource_type a = None) = (aq_resource_id a = None) \<and>
     (aq_task_id a = None \<or> aq_project_id a \<noteq> None) \<and>
     (aq_resource_type a = Some ''project'' \<longrightarrow> aq_resource_id a = aq_project_id a) \<and>
     (aq_resource_type a = Some ''task'' \<longrightarrow> aq_resource_id a = aq_task_id a))"

definition invalid_approval :: "pystr \<Rightarrow> exn" where
  "invalid_approval message = ApplicationError ''invalid_approval'' message 422"

definition approval_conflict :: "pystr \<Rightarrow> exn" where
  "approval_conflict message = ApplicationError ''approval_conflict'' message 409"

definition approval_evaluation_request :: "uuid \<Rightarrow> uuid \<Rightarrow> approval_create \<Rightarrow> evaluation_request" where
  "approval_evaluation_request tenant_id workspace_id data =
     \<lparr>rq_tenant_id = tenant_id, rq_workspace_id = workspace_id, rq_action = aq_action data,
      rq_actor_type = Some (aq_requester_actor_type data), rq_actor_id = aq_requester_actor_id data,
      rq_resource_type = aq_resource_type data, rq_resource_id = aq_resource_id data,
      rq_project_id = aq_project_id data, rq_task_id = aq_task_id data,
      rq_context = aq_context data\<rparr>"

definition audit_resource :: "approval_request \<Rightarrow> pystr option \<times> uuid option" where
  "audit_resource a = (if ap_resource_type a \<in> {Some ''project'', Some ''task''}
     then (ap_resource_type a, ap_resource_id a) else (None, None))"

definition approval_audit_data :: "approval_request \<Rightarrow> pystr \<Rightarrow> audit_create" where
  "approval_audit_data a action =
     \<lparr>ac_tenant_id = ap_tenant_id a, ac_workspace_id = ap_workspace_id a, ac_action = action,
      ac_actor_type = (if action \<noteq> ''approval.request'' then ''local_user'' else ''service''),
      ac_actor_id = None, ac_outcome = ''success'',
      ac_resource_type = fst (audit_resource a), ac_resource_id = snd (audit_resource a),
      ac_project_id = ap_project_id a, ac_task_id = ap_task_id a,
      ac_correlation_id = ap_correlation_id a,
      ac_metadata = Some (PDict
        [(PStr ''approval_id'', PStr (uuid_str (ap_id a))), (PStr ''action'', PStr (ap_action a)),
         (PStr ''scope_type'', PStr (ap_scope_type a)), (PStr ''status'', PStr (ap_status a)),
         (PStr ''matched_rule_count'', PInt (int (case ap_matched_rule_ids a of PList xs \<Rightarrow> length xs | _ \<Rightarrow> 0))),
         (PStr ''matched_rule_ids'', ap_matched_rule_ids a)])\<rparr>"

section \<open>The repository\<close>

definition repository_create_approval ::
  "uuid \<Rightarrow> uuid \<Rightarrow> approval_create \<Rightarrow> evaluation_result \<Rightarrow> pystr option \<Rightarrow> approval_request prog" where
  "repository_create_approval tenant_id workspace_id data result corr =
     bnd uuid4 (\<lambda>u. exec_stmt (\<lambda>now d.
       let r = \<lparr>ap_id = u, ap_tenant_id = tenant_id, ap_workspace_id = workspace_id,
          ap_action = aq_action data, ap_requester_actor_type = aq_requester_actor_type data,
          ap_requester_actor_id = aq_requester_actor_id data,
          ap_resource_type = aq_resource_type data, ap_resource_id = aq_resource_id data,
          ap_project_id = aq_project_id data, ap_task_id = aq_task_id data,
          ap_status = approval_status_value PENDING, ap_scope_type = ''ONE_ACTION'',
          ap_policy_effect = effect_value (rs_effect result),
          ap_matched_rule_ids = PList (map (PStr \<circ> uuid_str) (rs_matched_rule_ids result)),
          ap_policy_reasons = PList (map PStr (rs_reasons result)),
          ap_decision_actor_type = None, ap_decision_actor_id = None, ap_requested_at = now,
          ap_decided_at = None, ap_correlation_id = corr,
          ap_mutation_fingerprint = aq_mutation_fingerprint data\<rparr>
       in (r, d\<lparr>approval_requests := approval_requests d @ [r]\<rparr>)))"

definition scoped_approval :: "uuid \<Rightarrow> uuid \<Rightarrow> uuid \<Rightarrow> approval_request \<Rightarrow> bool" where
  "scoped_approval tenant_id workspace_id approval_id a =
     (ap_tenant_id a = tenant_id \<and> ap_workspace_id a = workspace_id \<and> ap_id a = approval_id)"

definition get_scoped_approval :: "uuid \<Rightarrow> uuid \<Rightarrow> uuid \<Rightarrow> approval_request option prog" where
  "get_scoped_approval tenant_id workspace_id approval_id =
     select_one approval_requests (scoped_approval tenant_id workspace_id approval_id)"

definition list_scoped_approvals ::
  "uuid \<Rightarrow> uuid \<Rightarrow> nat \<Rightarrow> nat \<Rightarrow> pystr option \<Rightarrow> approval_request list prog" where
  "list_scoped_approvals tenant_id workspace_id limit offset status =
     query (\<lambda>d. window limit offset (rev (sort_key (\<lambda>a. (ap_requested_at a, ap_id a))
       (filter (\<lambda>a. ap_tenant_id a = tenant_id \<and> ap_workspace_id a = workspace_id \<and>
          opt_all (\<lambda>v. ap_status a = v) status) (approval_requests d)))))"

definition pending_approval :: "uuid \<Rightarrow> approval_request \<Rightarrow> bool" where
  "pending_approval approval_id a = (ap_id a = approval_id \<and> ap_status a = ''PENDING'')"

definition decided_row :: "pystr \<Rightarrow> instant \<Rightarrow> approval_request \<Rightarrow> approval_request" where
  "decided_row status decided_at a = a\<lparr>ap_status := status, ap_decision_actor_type := Some ''local_user'',
     ap_decision_actor_id := None, ap_decided_at := Some decided_at\<rparr>"

definition decide_pending :: "uuid \<Rightarrow> pystr \<Rightarrow> instant \<Rightarrow> approval_request option prog" where
  "decide_pending approval_id status decided_at =
     compare_set approval_requests (\<lambda>rows d. d\<lparr>approval_requests := rows\<rparr>)
       (pending_approval approval_id) (\<lambda>_. decided_row status decided_at)"

section \<open>The service\<close>

definition approval_persistence_failed :: "pystr \<Rightarrow> exn" where
  "approval_persistence_failed message = ApplicationError ''approval_persistence_failed'' message 500"

definition create_approval :: "uuid \<Rightarrow> uuid \<Rightarrow> approval_create \<Rightarrow> bool \<Rightarrow> approval_request prog" where
  "create_approval tenant_id workspace_id data do_commit =
     bnd (PolicyEvaluationRequest (approval_evaluation_request tenant_id workspace_id data)) (\<lambda>request.
     bnd (evaluate request) (\<lambda>result.
     if rs_effect result = BLOCK
     then throw (invalid_approval ''Blocked actions cannot request approval'')
     else if rs_effect result \<noteq> REQUIRE_CONFIRMATION
     then throw (invalid_approval ''Approval requires a confirmation-required policy decision'')
     else transaction (approval_persistence_failed ''Approval request could not be persisted'')
      (bnd get_correlation_id (\<lambda>corr.
       bnd (repository_create_approval tenant_id workspace_id data result corr) (\<lambda>approval.
       andthen (join_audit (approval_audit_data approval ''approval.request''))
         (if do_commit then andthen commit (refresh approval_requests ap_id approval)
          else ret approval))))))"

definition get_approval :: "uuid \<Rightarrow> uuid \<Rightarrow> uuid \<Rightarrow> approval_request prog" where
  "get_approval tenant_id workspace_id approval_id =
     andthen (require_workspace tenant_id workspace_id)
       (bnd (get_scoped_approval tenant_id workspace_id approval_id) (require not_found))"

definition list_approvals ::
  "uuid \<Rightarrow> uuid \<Rightarrow> int \<Rightarrow> int \<Rightarrow> approval_status option \<Rightarrow> approval_request list prog" where
  "list_approvals tenant_id workspace_id limit offset status =
     andthen (require_workspace tenant_id workspace_id)
       (if \<not> (1 \<le> limit \<and> limit \<le> 100) \<or> offset < 0
        then throw (invalid_approval ''Approval retrieval bounds are invalid'')
        else list_scoped_approvals tenant_id workspace_id (nat limit) (nat offset)
          (map_option approval_status_value status))"

definition decision_audit_action :: "approval_status \<Rightarrow> pystr" where
  "decision_audit_action target =
     (if target = APPROVED then ''approval.approve'' else ''approval.reject'')"

definition decide :: "uuid \<Rightarrow> uuid \<Rightarrow> uuid \<Rightarrow> approval_status \<Rightarrow> approval_request prog" where
  "decide tenant_id workspace_id approval_id target =
     andthen (require_workspace tenant_id workspace_id)
     (transaction (approval_persistence_failed ''Approval decision could not be persisted'')
       (bnd (get_scoped_approval tenant_id workspace_id approval_id) (\<lambda>row.
        bnd (require not_found row) (\<lambda>approval.
        if ap_status approval = approval_status_value target then ret approval
        else if ap_status approval \<noteq> approval_status_value PENDING
        then throw (approval_conflict ''Approval has already reached a terminal decision'')
        else bnd now_utc (\<lambda>now.
             bnd (decide_pending (ap_id approval) (approval_status_value target) now) (\<lambda>row'.
             bnd (require (approval_conflict ''Approval decision conflicted with another decision'') row')
               (\<lambda>decided.
             andthen (join_audit (approval_audit_data decided (decision_audit_action target)))
            (andthen commit (refresh approval_requests ap_id decided)))))))))"

definition approve :: "uuid \<Rightarrow> uuid \<Rightarrow> uuid \<Rightarrow> approval_request prog" where
  "approve tenant_id workspace_id approval_id = decide tenant_id workspace_id approval_id APPROVED"

definition reject :: "uuid \<Rightarrow> uuid \<Rightarrow> uuid \<Rightarrow> approval_request prog" where
  "reject tenant_id workspace_id approval_id = decide tenant_id workspace_id approval_id REJECTED"

definition exact_scope_matches ::
  "approval_request \<Rightarrow> evaluation_request \<Rightarrow> pystr option \<Rightarrow> bool" where
  "exact_scope_matches a r fingerprint =
    (ap_tenant_id a = rq_tenant_id r \<and> ap_workspace_id a = rq_workspace_id r \<and>
     ap_action a = rq_action r \<and> Some (ap_requester_actor_type a) = rq_actor_type r \<and>
     ap_requester_actor_id a = rq_actor_id r \<and> ap_resource_type a = rq_resource_type r \<and>
     ap_resource_id a = rq_resource_id r \<and> ap_project_id a = rq_project_id r \<and>
     ap_task_id a = rq_task_id r \<and> ap_scope_type a = ''ONE_ACTION'' \<and>
     ap_mutation_fingerprint a = fingerprint)"

definition is_list :: "pyval \<Rightarrow> bool" where
  "is_list v = (case v of PList _ \<Rightarrow> True | _ \<Rightarrow> False)"

definition is_approval_satisfied :: "uuid \<Rightarrow> evaluation_request \<Rightarrow> pystr option \<Rightarrow> bool prog" where
  "is_approval_satisfied approval_id req fingerprint =
     bnd (get_scoped_approval (rq_tenant_id req) (rq_workspace_id req) approval_id) (\<lambda>row.
     case row of
       None \<Rightarrow> ret False
     | Some approval \<Rightarrow>
         if ap_status approval \<noteq> approval_status_value APPROVED then ret False
         else if \<not> exact_scope_matches approval req fingerprint then ret False
         else if \<not> is_list (ap_matched_rule_ids approval) \<or> \<not> is_list (ap_policy_reasons approval)
         then ret False
         else bnd (evaluate req) (\<lambda>current. ret (rs_effect current \<noteq> BLOCK)))"

section \<open>Lemmas\<close>

context store_order
begin

lemma steps_decide:
  assumes "\<And>d r. W d (d\<lparr>audit_records := audit_records d @ [r]\<rparr>)"
    and "\<And>d i t. W d (d\<lparr>approval_requests := update_where (pending_approval i)
           (decided_row (approval_status_value target) t) (approval_requests d)\<rparr>)"
  shows "steps R (decide t w a target)"
  unfolding decide_def get_scoped_approval_def decide_pending_def
  by (intro steps_rules store_rules steps_scopes steps_join_audit steps_compare_set assms)

lemma steps_create_approval:
  assumes "\<And>d r. W d (d\<lparr>audit_records := audit_records d @ [r]\<rparr>)"
    and "\<And>d r. W d (d\<lparr>approval_requests := approval_requests d @ [r]\<rparr>)"
  shows "steps R (create_approval t w data c)"
  unfolding create_approval_def repository_create_approval_def PolicyEvaluationRequest_def Let_def
  by (intro steps_rules store_rules steps_scopes steps_join_audit steps_exec steps_evaluate)
    (simp_all add: assms)

lemma steps_is_approval_satisfied:
  assumes "\<And>d r. W d (d\<lparr>audit_records := audit_records d @ [r]\<rparr>)"
  shows "steps R (is_approval_satisfied i r f)"
  unfolding is_approval_satisfied_def get_scoped_approval_def
  by (intro steps_rules steps_scopes steps_evaluate assms)

end

text \<open>How a row of the table may change: a pending request is decided.\<close>

definition approval_step :: "approval_request \<Rightarrow> approval_request \<Rightarrow> bool" where
  "approval_step a b \<longleftrightarrow> ap_status a = ''PENDING'' \<and>
     (\<exists>st t. st \<in> {APPROVED, REJECTED} \<and> b = decided_row (approval_status_value st) t a)"

lemma decided_row_fields [simp]:
  "ap_status (decided_row st t a) = st" "ap_id (decided_row st t a) = ap_id a"
  "ap_tenant_id (decided_row st t a) = ap_tenant_id a"
  "ap_workspace_id (decided_row st t a) = ap_workspace_id a"
  "ap_decided_at (decided_row st t a) = Some t"
  by (simp_all add: decided_row_def)

lemma approval_status_value_simps [simp]:
  "approval_status_value PENDING = ''PENDING''"
  "approval_status_value APPROVED = ''APPROVED''"
  "approval_status_value REJECTED = ''REJECTED''"
  by (simp_all add: approval_status_value_def)

interpretation approvals: lifecycle approval_step approval_requests "\<lambda>a. ap_status a \<noteq> ''PENDING''"
  by unfold_locales (auto simp: approval_step_def)

text \<open>The decisions on one request race for its pending state.\<close>

interpretation decisions: guarded_update approval_requests
  "\<lambda>rows d. d\<lparr>approval_requests := rows\<rparr>" "\<lambda>_. pending_approval i"
  "\<lambda>q _. decided_row (fst q) (snd q)" "\<lambda>q. fst q \<noteq> ''PENDING''" for i
  by unfold_locales (auto simp: pending_approval_def)

lemma approval_unique:
  assumes "constraints d" and "a \<in> set (approval_requests d)"
  shows "filter (\<lambda>x. ap_id x = ap_id a) (approval_requests d) = [a]"
  using assms by (intro filter_distinct_key) (simp_all add: constraints_def approval_table_ok_def)

lemma approval_checks_row:
  "constraints d \<Longrightarrow> a \<in> set (approval_requests d) \<Longrightarrow> approval_checks a"
  by (simp add: constraints_def approval_table_ok_def list_all_iff)

lemma get_scoped_approval_runs:
  "get_scoped_approval t w i s = (Inr x, u) \<longleftrightarrow> \<not> fault_at s (tick s) \<and> u = begin_stmt s \<and>
     x = first_row (filter (scoped_approval t w i) (approval_requests (working s)))"
  by (auto simp: get_scoped_approval_def select_one_def Inr_runs)

lemma decide_pending_runs:
  assumes "decide_pending (ap_id a) st now s = (Inr (Some b), t)" and "constraints (working s)"
    and "a \<in> set (approval_requests (working s))" and "ap_status a = ''PENDING''"
  shows "b = decided_row st now a \<and> committed t = committed s \<and>
    working t = (working s)\<lparr>approval_requests :=
      update_where (pending_approval (ap_id a)) (decided_row st now) (approval_requests (working s))\<rparr>"
proof -
  have "filter (pending_approval (ap_id a)) (approval_requests (working s)) = [a]"
    using filter_same_id [OF approval_unique [OF assms(2,3)], of "\<lambda>x. ap_status x = ''PENDING''"] assms(4)
    by (simp add: pending_approval_def [abs_def])
  with assms(1) show ?thesis by (simp add: decide_pending_def compare_set_runs)
qed

lemma first_row_pending:
  assumes "constraints d" and "a \<in> set (approval_requests d)" and "ap_status a = ''PENDING''"
  shows "first_row (filter (\<lambda>x. ap_id x = ap_id a)
    (update_where (pending_approval (ap_id a)) (decided_row st now) (approval_requests d))) =
    Some (decided_row st now a)"
proof -
  have "filter (\<lambda>x. ap_id x = ap_id a)
      (update_where (pending_approval (ap_id a)) f rows) =
    update_where (pending_approval (ap_id a)) f (filter (\<lambda>x. ap_id x = ap_id a) rows)"
    if "\<And>x. ap_id (f x) = ap_id x" for f rows
    by (induction rows) (auto simp: that)
  then show ?thesis
    using approval_unique [OF assms(1,2)] assms(3) by (simp add: pending_approval_def)
qed

lemma decide_runs:
  assumes run: "decide tenant_id workspace_id approval_id target s = (Inr a, t)"
    and ok: "constraints (working s)" and same: "working s = committed s"
  shows "\<exists>old \<in> set (approval_requests (working s)).
    scoped_approval tenant_id workspace_id approval_id old \<and>
    (if ap_status old = approval_status_value target then a = old \<and> committed t = committed s
     else ap_status old = ''PENDING'' \<and> (\<exists>now r.
       a = decided_row (approval_status_value target) now old \<and>
       stores_audit (approval_audit_data a (decision_audit_action target)) r \<and>
       committed t = (committed s)\<lparr>approval_requests :=
           update_where (pending_approval approval_id)
             (decided_row (approval_status_value target) now) (approval_requests (committed s)),
         audit_records := audit_records (committed s) @ [r]\<rparr>))"
proof -
  from run obtain s1 s2 old where
    w: "require_workspace tenant_id workspace_id s = (Inr (), s1)" and
    s2: "s2 = begin_stmt s1" and
    old: "first_row (filter (scoped_approval tenant_id workspace_id approval_id)
            (approval_requests (working s1))) = Some old" and
    body: "(if ap_status old = approval_status_value target then ret old
        else if ap_status old \<noteq> approval_status_value PENDING
        then throw (approval_conflict ''Approval has already reached a terminal decision'')
        else bnd now_utc (\<lambda>now.
             bnd (decide_pending (ap_id old) (approval_status_value target) now) (\<lambda>row'.
             bnd (require (approval_conflict ''Approval decision conflicted with another decision'') row')
               (\<lambda>decided.
             andthen (join_audit (approval_audit_data decided (decision_audit_action target)))
            (andthen commit (refresh approval_requests ap_id decided)))))) s2 = (Inr a, t)"
    by (auto simp: decide_def runs get_scoped_approval_runs decision_audit_action_def)
  have s1: "working s1 = working s" "committed s1 = committed s"
    using readsD [OF reads_scopes(2) w] by auto
  have mem: "old \<in> set (approval_requests (working s))"
    and sc: "scoped_approval tenant_id workspace_id approval_id old"
    using first_row_filter_Some [OF old] s1 by auto
  then have id: "ap_id old = approval_id" by (simp add: scoped_approval_def)
  show ?thesis
  proof (cases "ap_status old = approval_status_value target")
    case True
    with body s1 s2 mem sc show ?thesis by (intro bexI [of _ old]) (auto simp: runs)
  next
    case False
    with body have pend: "ap_status old = ''PENDING''" by (auto simp: runs split: if_splits)
    from False body pend obtain now s3 b s4 s5 s6 where
      s3: "s3 = s2\<lparr>tick := Suc (tick s2)\<rparr>" and
      dp: "decide_pending (ap_id old) (approval_status_value target) now s3 = (Inr (Some b), s4)" and
      ja: "join_audit (approval_audit_data b (decision_audit_action target)) s4 = (Inr (), s5)" and
      cm: "commit s5 = (Inr (), s6)" and
      rf: "refresh approval_requests ap_id b s6 = (Inr a, t)"
      by (auto simp: runs)
    have s3w: "working s3 = working s" "committed s3 = committed s" using s1 s2 s3 by auto
    note d = decide_pending_runs [OF dp, unfolded s3w, OF ok mem pend]
    from join_audit_runs [OF ja] obtain r where
      r: "stores_audit (approval_audit_data b (decision_audit_action target)) r"
      "working s5 = (working s4)\<lparr>audit_records := audit_records (working s4) @ [r]\<rparr>" by blast
    have c6: "working s6 = working s5" "committed s6 = working s5" using cm by (auto simp: runs)
    have t: "committed t = working s5" and
      a: "first_row (filter (\<lambda>x. ap_id x = ap_id b) (approval_requests (working s5))) = Some a"
      using rf c6 by (auto simp: Inr_runs_refresh)
    have "a = b" using a d r(2) first_row_pending [OF ok mem pend] by simp
    with d r t same id pend sc mem False show ?thesis
      by (intro bexI [of _ old]) auto
  qed
qed


lemma decide_late:
  "late (\<lambda>e. e = approval_persistence_failed ''Approval decision could not be persisted'')
     (decide tenant_id workspace_id approval_id target)"
proof -
  have quiet: "steps same_committed (decide_pending i st now)" for i st now
    unfolding decide_pending_def by (intro quiet.steps_compare_set) simp
  have audit: "steps same_committed (join_audit a)" for a
    by (rule quiet.steps_join_audit) simp
  show ?thesis
    unfolding decide_def get_scoped_approval_def
    by (intro late_andthen late_transaction late_bnd late_if quiet audit late_commit_refresh
        quiet.stmt_rules quiet.steps_scopes quiet.steps_rules late_quiet [OF quiet.steps_ret]
        late_quiet [OF quiet.steps_throw])
qed

text \<open>What a decision that took place has written: the decided row and the audit record of the decision.\<close>

definition decision_stored ::
  "uuid \<Rightarrow> uuid \<Rightarrow> uuid \<Rightarrow> approval_status \<Rightarrow> approval_request \<Rightarrow> db \<Rightarrow> db \<Rightarrow> bool" where
  "decision_stored t w i target a d e \<longleftrightarrow>
    (\<exists>old \<in> set (approval_requests d). scoped_approval t w i old \<and> ap_status old = ''PENDING'' \<and>
       ap_status old \<noteq> approval_status_value target \<and>
       (\<exists>now r. a = decided_row (approval_status_value target) now old \<and>
          stores_audit (approval_audit_data a (decision_audit_action target)) r \<and>
          e = d\<lparr>approval_requests := update_where (pending_approval i)
                  (decided_row (approval_status_value target) now) (approval_requests d),
                audit_records := audit_records d @ [r]\<rparr>))"

lemma yields_decide_pending:
  assumes "constraints d" and "a \<in> set (approval_requests d)" and "ap_status a = ''PENDING''"
  shows "yields (\<lambda>x. x = d) (decide_pending (ap_id a) st now)
    (\<lambda>row x. \<forall>b. row = Some b \<longrightarrow> b = decided_row st now a \<and> x = d\<lparr>approval_requests :=
       update_where (pending_approval (ap_id a)) (decided_row st now) (approval_requests d)\<rparr>)"
  unfolding yields_def using decide_pending_runs [of a st now] assms by blast

lemma yields_audited:
  "yields (\<lambda>x. x = d) (join_audit a)
     (\<lambda>_ x. \<exists>r. stores_audit a r \<and> x = d\<lparr>audit_records := audit_records d @ [r]\<rparr>)"
  using join_audit_runs [of a] by (fastforce simp: yields_def)

text \<open>However a decision ends, it has left the durable data alone or written both rows.\<close>

lemma decide_lands:
  assumes ok: "constraints d"
  shows "lands (\<lambda>x. x = d) (decide t w i target) (\<lambda>e. \<exists>a. decision_stored t w i target a d e)"
proof -
  have audit: "steps same_committed (join_audit a)" for a
    by (rule quiet.steps_join_audit) simp
  have pending: "steps same_committed (decide_pending j st now)" for j st now
    unfolding decide_pending_def by (intro quiet.steps_compare_set) simp
  have written: "lands (\<lambda>x. x = d) (bnd (decide_pending (ap_id old) (approval_status_value target) now) (\<lambda>row.
      bnd (require e row) (\<lambda>decided.
      andthen (join_audit (approval_audit_data decided (decision_audit_action target)))
        (andthen commit (refresh approval_requests ap_id decided)))))
      (\<lambda>e. \<exists>a. decision_stored t w i target a d e)"
    if old: "old \<in> set (approval_requests d)" "scoped_approval t w i old" "ap_status old = ''PENDING''"
      "ap_status old \<noteq> approval_status_value target" for old now e
  proof (rule lands_bnd [OF pending yields_decide_pending [OF ok old(1,3)]])
    fix row
    let ?d = "d\<lparr>approval_requests := update_where (pending_approval (ap_id old))
      (decided_row (approval_status_value target) now) (approval_requests d)\<rparr>"
    let ?Q = "\<lambda>b x. b = decided_row (approval_status_value target) now old \<and> x = ?d"
    show "lands (\<lambda>x. \<forall>b. row = Some b \<longrightarrow> ?Q b x) (bnd (require e row) (\<lambda>decided.
      andthen (join_audit (approval_audit_data decided (decision_audit_action target)))
        (andthen commit (refresh approval_requests ap_id decided)))) (\<lambda>e. \<exists>a. decision_stored t w i target a d e)"
    proof (rule lands_bnd [OF quiet.steps_require yields_require [where Q = ?Q]])
      fix b
      show "lands (?Q b) (andthen (join_audit (approval_audit_data b (decision_audit_action target)))
        (andthen commit (refresh approval_requests ap_id b))) (\<lambda>e. \<exists>a. decision_stored t w i target a d e)"
      proof (rule lands_andthen [OF audit _ lands_commit [OF quiet.steps_refresh]])
        show "yields (?Q b) (join_audit (approval_audit_data b (decision_audit_action target)))
          (\<lambda>_ x. b = decided_row (approval_status_value target) now old \<and>
             (\<exists>r. stores_audit (approval_audit_data b (decision_audit_action target)) r \<and>
              x = ?d\<lparr>audit_records := audit_records ?d @ [r]\<rparr>))"
          using yields_audited [of ?d] by (auto simp: yields_def)
        show "\<exists>a. decision_stored t w i target a d x" if "b = decided_row (approval_status_value target) now old \<and>
             (\<exists>r. stores_audit (approval_audit_data b (decision_audit_action target)) r \<and>
              x = ?d\<lparr>audit_records := audit_records ?d @ [r]\<rparr>)" for x
        proof (rule exI [of _ b])
          have "ap_id old = i" using old(2) by (simp add: scoped_approval_def)
          with that old show "decision_stored t w i target b d x" by (fastforce simp: decision_stored_def)
        qed
      qed
    qed simp
  qed
  have found: "yields (\<lambda>x. x = d) (bnd (get_scoped_approval t w i) (require e))
      (\<lambda>old x. x = d \<and> old \<in> set (approval_requests d) \<and> scoped_approval t w i old)" for e
    unfolding yields_def
    by (auto simp: runs get_scoped_approval_runs dest!: first_row_filter_Some)
  show ?thesis
    unfolding decide_def bnd_assoc [symmetric, of "get_scoped_approval t w i"]
  proof (intro lands_reads_then lands_transaction quiet.steps_scopes reads_scopes)
    show "lands (\<lambda>x. x = d) (bnd (bnd (get_scoped_approval t w i) (require not_found)) (\<lambda>approval.
        if ap_status approval = approval_status_value target then ret approval
        else if ap_status approval \<noteq> approval_status_value PENDING
        then throw (approval_conflict ''Approval has already reached a terminal decision'')
        else bnd now_utc (\<lambda>now.
             bnd (decide_pending (ap_id approval) (approval_status_value target) now) (\<lambda>row'.
             bnd (require (approval_conflict ''Approval decision conflicted with another decision'') row')
               (\<lambda>decided.
             andthen (join_audit (approval_audit_data decided (decision_audit_action target)))
            (andthen commit (refresh approval_requests ap_id decided)))))))
      (\<lambda>e. \<exists>a. decision_stored t w i target a d e)"
    proof (rule lands_bnd [OF _ found])
      fix old
      show "lands (\<lambda>x. x = d \<and> old \<in> set (approval_requests d) \<and> scoped_approval t w i old)
       (if ap_status old = approval_status_value target then ret old
        else if ap_status old \<noteq> approval_status_value PENDING
        then throw (approval_conflict ''Approval has already reached a terminal decision'')
        else bnd now_utc (\<lambda>now.
             bnd (decide_pending (ap_id old) (approval_status_value target) now) (\<lambda>row'.
             bnd (require (approval_conflict ''Approval decision conflicted with another decision'') row')
               (\<lambda>decided.
             andthen (join_audit (approval_audit_data decided (decision_audit_action target)))
            (andthen commit (refresh approval_requests ap_id decided))))))
       (\<lambda>e. \<exists>a. decision_stored t w i target a d e)" (is "lands ?D ?m ?F")
      proof (cases "old \<in> set (approval_requests d) \<and> scoped_approval t w i old \<and>
          ap_status old = ''PENDING'' \<and> ap_status old \<noteq> approval_status_value target")
        case True
        then have "lands (\<lambda>x. x = d) ?m ?F"
          using lands_reads [OF quiet.steps_now_utc reads_basic(5) written [of old]] by auto
        then show ?thesis by (rule lands_weaken) simp_all
      next
        case False
        then show ?thesis
          by (cases "ap_status old = approval_status_value target")
            (auto simp: lands_def ret_def throw_def)
      qed
    qed (unfold get_scoped_approval_def, intro quiet.steps_rules quiet.steps_scopes)
  qed
qed

text \<open>Which exception a decision ends with.\<close>

lemma Inl_runs_transaction:
  "transaction pf m s = (Inl e, t) \<Longrightarrow>
   \<exists>x u. m s = (Inl x, u) \<and> (e = x \<and> \<not> is_sqlalchemy_error x \<or> is_sqlalchemy_error x \<and> e = pf)"
  unfolding transaction_def catch_def andthen_def bnd_def rollback_def throw_def
  by (auto split: prod.splits sum.splits if_splits simp: is_application_error_def is_sqlalchemy_error_def split: exn.splits)

lemma bnd_Inr: "m s = (Inr a, u) \<Longrightarrow> bnd m k s = k a u"
  by (simp add: bnd_def)

lemma decide_pending_raises:
  assumes run: "bnd (decide_pending (ap_id a) st now) (\<lambda>row.
      bnd (require c row) (\<lambda>b. andthen (join_audit (f b)) (andthen commit (refresh approval_requests ap_id b)))) s = (Inl x, v)"
    and ok: "constraints (working s)" and a: "a \<in> set (approval_requests (working s))" "ap_status a = ''PENDING''"
  shows "is_sqlalchemy_error x \<or> (\<exists>u z. join_audit (f (decided_row st now a)) u = (Inl x, z))"
proof -
  have sql: "raises is_sqlalchemy_error (decide_pending (ap_id a) st now)"
    "raises is_sqlalchemy_error (andthen commit (refresh approval_requests ap_id b))" for b
    unfolding decide_pending_def by (intro raises_rules; simp)+
  obtain r t where p: "decide_pending (ap_id a) st now s = (r, t)" by (cases "decide_pending (ap_id a) st now s")
  show ?thesis
  proof (cases r)
    case (Inl y)
    with run p have "x = y" by (simp add: bnd_def)
    with raisesD [OF sql(1)] p Inl show ?thesis by blast
  next
    case (Inr row)
    have "row \<noteq> None"
    proof
      assume "row = None"
      with p Inr have "first_row (filter (pending_approval (ap_id a)) (approval_requests (working s))) = None"
        by (simp add: decide_pending_def compare_set_runs)
      with a show False by (auto simp: first_row_filter_None_iff pending_approval_def)
    qed
    then obtain b where b: "row = Some b" by blast
    with decide_pending_runs [of a st now s b t] p Inr ok a have "b = decided_row st now a" by simp
    with run p Inr b have "andthen (join_audit (f (decided_row st now a)))
        (andthen commit (refresh approval_requests ap_id (decided_row st now a))) t = (Inl x, v)"
      by (simp add: bnd_def require_def ret_def)
    then show ?thesis using raisesD [OF sql(2)] by (auto simp: Inl_runs(4) [of "join_audit _"])
  qed
qed

definition decision_refused ::
  "uuid \<Rightarrow> uuid \<Rightarrow> uuid \<Rightarrow> approval_status \<Rightarrow> exn \<Rightarrow> db \<Rightarrow> bool" where
  "decision_refused t w i target e d \<longleftrightarrow>
    e = not_found \<and> \<not> (has_workspace d t w \<and> (\<exists>old \<in> set (approval_requests d). scoped_approval t w i old)) \<or>
    e = approval_conflict ''Approval has already reached a terminal decision'' \<and>
      (\<exists>old \<in> set (approval_requests d). scoped_approval t w i old \<and>
         ap_status old \<notin> {''PENDING'', approval_status_value target}) \<or>
    (\<exists>old \<in> set (approval_requests d). \<exists>now u v. scoped_approval t w i old \<and> ap_status old = ''PENDING'' \<and>
       join_audit (approval_audit_data (decided_row (approval_status_value target) now old)
         (decision_audit_action target)) u = (Inl e, v))"

lemma decide_raises:
  assumes run: "decide t w i target s = (Inl e, u)" and ok: "constraints (working s)"
  shows "e = SQLAlchemyError \<or> e = approval_persistence_failed ''Approval decision could not be persisted'' \<or>
    decision_refused t w i target e (working s)"
proof -
  let ?pf = "approval_persistence_failed ''Approval decision could not be persisted''"
  from run [unfolded decide_def Inl_runs]
  consider (scope) "require_workspace t w s = (Inl e, u)"
    | (body) a s1 where "require_workspace t w s = (Inr a, s1)" "transaction ?pf
       (bnd (get_scoped_approval t w i) (\<lambda>row.
        bnd (require not_found row) (\<lambda>approval.
        if ap_status approval = approval_status_value target then ret approval
        else if ap_status approval \<noteq> approval_status_value PENDING
        then throw (approval_conflict ''Approval has already reached a terminal decision'')
        else bnd now_utc (\<lambda>now.
             bnd (decide_pending (ap_id approval) (approval_status_value target) now) (\<lambda>row'.
             bnd (require (approval_conflict ''Approval decision conflicted with another decision'') row')
               (\<lambda>decided.
             andthen (join_audit (approval_audit_data decided (decision_audit_action target)))
            (andthen commit (refresh approval_requests ap_id decided)))))))) s1 = (Inl e, u)"
    by blast
  then show ?thesis
  proof cases
    case scope
    with require_workspace_check [of t w] show ?thesis
      by (fastforce simp: scope_check_def decision_refused_def)
  next
    case (body a s1)
    have w1: "working s1 = working s" using readsD [OF reads_scopes(2) body(1)] by simp
    have hw: "has_workspace (working s) t w"
      using require_workspace_check [of t w] body(1) by (fastforce simp: scope_check_def)
    from Inl_runs_transaction [OF body(2)] obtain x v where
      m: "bnd (get_scoped_approval t w i) (\<lambda>row.
        bnd (require not_found row) (\<lambda>approval.
        if ap_status approval = approval_status_value target then ret approval
        else if ap_status approval \<noteq> approval_status_value PENDING
        then throw (approval_conflict ''Approval has already reached a terminal decision'')
        else bnd now_utc (\<lambda>now.
             bnd (decide_pending (ap_id approval) (approval_status_value target) now) (\<lambda>row'.
             bnd (require (approval_conflict ''Approval decision conflicted with another decision'') row')
               (\<lambda>decided.
             andthen (join_audit (approval_audit_data decided (decision_audit_action target)))
            (andthen commit (refresh approval_requests ap_id decided))))))) s1 = (Inl x, v)"
      and e: "e = x \<or> e = ?pf" "is_sqlalchemy_error x \<Longrightarrow> e = ?pf" by blast
    have sql: "is_sqlalchemy_error y" if "get_scoped_approval t w i s1 = (Inl y, z)" for y z
      using that by (auto simp: get_scoped_approval_def select_one_def Inl_runs)
    show ?thesis
    proof (cases "get_scoped_approval t w i s1")
      case (Pair r s2)
      show ?thesis
      proof (cases r)
        case (Inl y)
        with Pair m sql [of y s2] e show ?thesis by (auto simp: bnd_def)
      next
        case (Inr row)
        with Pair have row: "row = first_row (filter (scoped_approval t w i) (approval_requests (working s)))"
          and s2: "working s2 = working s"
          by (simp_all add: get_scoped_approval_runs w1)
        show ?thesis
        proof (cases row)
          case None
          with row have "\<not> (\<exists>old \<in> set (approval_requests (working s)). scoped_approval t w i old)"
            by (auto simp: eq_commute [of None] first_row_filter_None_iff)
          moreover have "x = not_found" using m Pair Inr None by (simp add: bnd_def require_def throw_def)
          ultimately show ?thesis using e(1) by (auto simp: decision_refused_def)
        next
          case (Some old)
          from first_row_filter_Some [of "scoped_approval t w i" "approval_requests (working s)" old] row Some
          have old: "old \<in> set (approval_requests (working s))" "scoped_approval t w i old" by simp_all
          have found: "get_scoped_approval t w i s1 = (Inr (Some old), s2)" using Pair Inr Some by simp
          have given: "require not_found (Some old) s2 = (Inr old, s2)" by (simp add: require_def ret_def)
          obtain s3 where now: "now_utc s2 = (Inr (clock_at s2 (tick s2)), s3)" "working s3 = working s2"
            by (simp add: now_utc_def)
          from m [unfolded bnd_Inr [of "get_scoped_approval t w i", OF found] bnd_Inr [of "require not_found (Some old)", OF given]] consider
            (decided) "x = approval_conflict ''Approval has already reached a terminal decision''"
                "ap_status old \<notin> {''PENDING'', approval_status_value target}"
            | (pending) "ap_status old = ''PENDING''" "working s3 = working s2"
              "bnd (decide_pending (ap_id old) (approval_status_value target) (clock_at s2 (tick s2))) (\<lambda>row'.
                bnd (require (approval_conflict ''Approval decision conflicted with another decision'') row') (\<lambda>decided.
                andthen (join_audit (approval_audit_data decided (decision_audit_action target)))
                 (andthen commit (refresh approval_requests ap_id decided)))) s3 = (Inl x, v)"
            using now by (auto simp: bnd_Inr [of now_utc, OF now(1)] ret_def throw_def split: if_splits)
          then show ?thesis
          proof cases
            case decided
            with old e(1) show ?thesis by (auto simp: decision_refused_def)
          next
            case pending
            from decide_pending_raises [OF pending(3)] ok old(1) pending(1,2) s2
            have "is_sqlalchemy_error x \<or> (\<exists>u z. join_audit (approval_audit_data
                (decided_row (approval_status_value target) (clock_at s2 (tick s2)) old)
                (decision_audit_action target)) u = (Inl x, z))"
              by simp
            then show ?thesis using e old pending(1) by (auto simp: decision_refused_def)
          qed
        qed
      qed
    qed
  qed
qed

text \<open>
  C17: the outcome of a decision on an approval. If it returns, the approval either already had the
  requested decision and nothing changed, or it was pending and is decided, with exactly one audit
  record of that decision and nothing else written. If it fails, nothing has changed, unless the failure
  is the persistence error of a connection lost after the commit, and then the decision and its audit
  record both are stored. And it fails only for a database error, for a scope or an approval that does
  not exist, for an approval that already has the other decision, or because the audit log refuses the
  record of a pending one.
\<close>

theorem decide_outcome:
  assumes "constraints (committed s)" and "working s = committed s"
  shows "case decide tenant_id workspace_id approval_id target s of
      (Inl e, t) \<Rightarrow>
        (committed t = committed s \<or>
         e = approval_persistence_failed ''Approval decision could not be persisted'' \<and>
           (\<exists>a. decision_stored tenant_id workspace_id approval_id target a (committed s) (committed t))) \<and>
        (e \<in> {SQLAlchemyError, approval_persistence_failed ''Approval decision could not be persisted''} \<or>
         decision_refused tenant_id workspace_id approval_id target e (committed s))
    | (Inr a, t) \<Rightarrow>
        a \<in> set (approval_requests (committed s)) \<and> scoped_approval tenant_id workspace_id approval_id a \<and>
          ap_status a = approval_status_value target \<and> committed t = committed s \<or>
        decision_stored tenant_id workspace_id approval_id target a (committed s) (committed t)"
proof (cases "decide tenant_id workspace_id approval_id target s")
  case (Pair r t)
  show ?thesis
  proof (cases r)
    case (Inl e)
    have "committed t = committed s \<or> e = approval_persistence_failed ''Approval decision could not be persisted''"
      using Pair Inl decide_late by (fastforce simp: late_def)
    moreover have "committed t = committed s \<or>
        (\<exists>a. decision_stored tenant_id workspace_id approval_id target a (committed s) (committed t))"
      using landsD [OF decide_lands [OF assms(1)] Pair] assms(2) by simp
    ultimately show ?thesis
      using decide_raises [of tenant_id workspace_id approval_id target s e t] Pair Inl assms by auto
  next
    case (Inr a)
    from decide_runs [of tenant_id workspace_id approval_id target s a t] Pair Inr assms
    obtain old where old: "old \<in> set (approval_requests (committed s))" "scoped_approval tenant_id workspace_id approval_id old"
      and d: "if ap_status old = approval_status_value target then a = old \<and> committed t = committed s
         else ap_status old = ''PENDING'' \<and> (\<exists>now r.
           a = decided_row (approval_status_value target) now old \<and>
           stores_audit (approval_audit_data a (decision_audit_action target)) r \<and>
           committed t = (committed s)\<lparr>approval_requests := update_where (pending_approval approval_id)
                 (decided_row (approval_status_value target) now) (approval_requests (committed s)),
             audit_records := audit_records (committed s) @ [r]\<rparr>)" by auto
    show ?thesis
    proof (cases "ap_status old = approval_status_value target")
      case True
      with Pair Inr old d show ?thesis by simp
    next
      case False
      with d obtain now r where "ap_status old = ''PENDING''" "a = decided_row (approval_status_value target) now old"
        "stores_audit (approval_audit_data a (decision_audit_action target)) r"
        "committed t = (committed s)\<lparr>approval_requests := update_where (pending_approval approval_id)
           (decided_row (approval_status_value target) now) (approval_requests (committed s)),
         audit_records := audit_records (committed s) @ [r]\<rparr>" by auto
      with old False have "decision_stored tenant_id workspace_id approval_id target a (committed s) (committed t)"
        unfolding decision_stored_def by (intro bexI [of _ old] conjI exI [of _ now] exI [of _ r]) simp_all
      with Pair Inr show ?thesis by simp
    qed
  qed
qed

text \<open>
  C18: of any number of approvals and rejections that race on one request, in whatever order
  their updates reach the database, exactly one is granted if the request was pending and none
  otherwise.
\<close>

theorem decision_single_winner:
  "case collect attempts (\<lambda>x. decide_pending approval_id
      (approval_status_value (if fst x then APPROVED else REJECTED)) (snd x)) s of
     (Inl e, t) \<Rightarrow> True
   | (Inr rs, t) \<Rightarrow> length (winners rs) =
       (if attempts \<noteq> [] \<and> (\<exists>a \<in> set (approval_requests (working s)). pending_approval approval_id a)
        then 1 else 0)"
proof (cases "collect attempts (\<lambda>x. decide_pending approval_id
      (approval_status_value (if fst x then APPROVED else REJECTED)) (snd x)) s")
  case (Pair r t)
  show ?thesis
  proof (cases r)
    case (Inr rs)
    let ?g = "\<lambda>x. (approval_status_value (if fst x then APPROVED else REJECTED), snd x)"
    have "collect (map ?g attempts) (\<lambda>q. compare_set approval_requests
        (\<lambda>rows d. d\<lparr>approval_requests := rows\<rparr>) (pending_approval approval_id)
        (\<lambda>_. decided_row (fst q) (snd q))) s = (Inr rs, t)"
      using Pair Inr by (simp add: collect_map decide_pending_def)
    from decisions.single_winner [OF this] show ?thesis
      using Pair Inr by (cases attempts) (auto split: if_splits)
  qed (use Pair in simp)
qed

lemma scoped_filter:
  assumes "constraints d" and "a \<in> set (approval_requests d)" and "scoped_approval t w i a"
  shows "first_row (filter (scoped_approval t w i) (approval_requests d)) = Some a"
proof -
  have "filter (\<lambda>x. ap_id x = i \<and> (ap_tenant_id x = t \<and> ap_workspace_id x = w)) (approval_requests d) = [a]"
    using filter_same_id [of ap_id i "approval_requests d" a] approval_unique [OF assms(1,2)] assms(3)
    by (simp add: scoped_approval_def)
  then show ?thesis by (simp add: scoped_approval_def [abs_def] conj_ac)
qed

lemma stored_lists:
  assumes "constraints d" and "a \<in> set (approval_requests d)"
  shows "is_list (ap_matched_rule_ids a) \<and> is_list (ap_policy_reasons a)"
  using approval_checks_row [OF assms]
  by (auto simp: approval_checks_def is_list_def json_array_upto_def split: pyval.splits)

lemma is_approval_satisfied_runs:
  assumes run: "is_approval_satisfied i req fp s = (Inr b, t)" and ok: "constraints (working s)"
  shows "b \<longleftrightarrow> (\<exists>a \<in> set (approval_requests (working s)).
      scoped_approval (rq_tenant_id req) (rq_workspace_id req) i a \<and> ap_status a = ''APPROVED'' \<and>
      exact_scope_matches a req fp) \<and>
    rs_effect (evaluate_rules req (applicable_rules (rq_tenant_id req) (rq_workspace_id req) (working s)))
      \<noteq> BLOCK"
proof (cases "first_row (filter (scoped_approval (rq_tenant_id req) (rq_workspace_id req) i)
    (approval_requests (working s)))")
  case None
  then show ?thesis using run
    by (auto simp: is_approval_satisfied_def runs get_scoped_approval_runs first_row_filter_None_iff)
next
  case (Some a)
  then have a: "a \<in> set (approval_requests (working s))"
    "scoped_approval (rq_tenant_id req) (rq_workspace_id req) i a"
    using first_row_filter_Some [OF Some] by simp_all
  have uniq: "x = a" if "x \<in> set (approval_requests (working s))"
    "scoped_approval (rq_tenant_id req) (rq_workspace_id req) i x" for x
    by (rule option.inject [THEN iffD1, OF trans [OF sym [OF scoped_filter [OF ok that]] Some]])
  show ?thesis
  proof (cases "ap_status a = ''APPROVED'' \<and> exact_scope_matches a req fp")
    case True
    with run Some stored_lists [OF ok a(1)] obtain res where
      e: "evaluate req (begin_stmt s) = (Inr res, t)" and b: "b = (rs_effect res \<noteq> BLOCK)"
      by (auto simp: is_approval_satisfied_def runs get_scoped_approval_runs)
    have "rs_effect res = rs_effect (evaluate_rules req
        (applicable_rules (rq_tenant_id req) (rq_workspace_id req) (working s)))"
      using evaluate_runs [OF e] by simp
    moreover have "\<exists>a \<in> set (approval_requests (working s)).
        scoped_approval (rq_tenant_id req) (rq_workspace_id req) i a \<and> ap_status a = ''APPROVED'' \<and>
        exact_scope_matches a req fp"
      using True a by blast
    ultimately show ?thesis using b by simp
  next
    case False
    with run Some have "\<not> b"
      by (auto simp: is_approval_satisfied_def runs get_scoped_approval_runs split: if_splits)
    with False uniq show ?thesis by blast
  qed
qed

text \<open>
  C4: an approval authorises an action exactly when a stored request of the same tenant and
  workspace has been approved for exactly this action, actor, resource, project, task and
  mutation fingerprint, and no rule that applies now is invalid or blocks: a block that was
  added after the approval always wins.
\<close>

theorem approval_satisfied_iff:
  assumes "constraints (working s)"
  shows "case is_approval_satisfied approval_id req fingerprint s of
      (Inl e, t) \<Rightarrow> True
    | (Inr b, t) \<Rightarrow> b \<longleftrightarrow>
        (\<exists>a \<in> set (approval_requests (working s)).
          scoped_approval (rq_tenant_id req) (rq_workspace_id req) approval_id a \<and>
          ap_status a = ''APPROVED'' \<and> exact_scope_matches a req fingerprint) \<and>
        \<not> (\<exists>rule \<in> set (applicable_rules (rq_tenant_id req) (rq_workspace_id req) (working s)).
          judge_rule req rule = Invalid \<or> judge_rule req rule = Match BLOCK)"
  using is_approval_satisfied_runs [OF _ assms, of approval_id req fingerprint] evaluate_block_iff
  by (auto split: prod.splits sum.splits)

interpretation same_approvals: db_order "frozen approval_requests"
  by unfold_locales (auto simp: frozen_def)

lemma evaluate_keeps_approvals:
  assumes "evaluate r s = (Inr res, t)" and "working s = committed s"
  shows "approval_requests (working t) = approval_requests (committed s)"
  using same_approvals.lifted.steps_evaluate [of r] assms
  by (auto simp: frozen_def steps_def lift_order_def dest!: spec [of _ s])

definition approval_row ::
  "uuid \<Rightarrow> uuid \<Rightarrow> approval_create \<Rightarrow> evaluation_result \<Rightarrow> approval_request \<Rightarrow> bool" where
  "approval_row tenant_id workspace_id data res a \<longleftrightarrow>
     ap_status a = ''PENDING'' \<and> ap_policy_effect a = ''REQUIRE_CONFIRMATION'' \<and>
     exact_scope_matches a (approval_evaluation_request tenant_id workspace_id data)
       (aq_mutation_fingerprint data) \<and>
     ap_matched_rule_ids a = PList (map (PStr \<circ> uuid_str) (rs_matched_rule_ids res)) \<and>
     ap_policy_reasons a = PList (map PStr (rs_reasons res))"

lemma create_approval_runs:
  assumes run: "create_approval tenant_id workspace_id data True s = (Inr a, t)"
    and same: "working s = committed s"
  defines "res \<equiv> evaluate_rules (approval_evaluation_request tenant_id workspace_id data)
      (applicable_rules tenant_id workspace_id (committed s))"
  shows "rs_effect res = REQUIRE_CONFIRMATION \<and> approval_row tenant_id workspace_id data res a \<and>
    approval_requests (committed t) = approval_requests (committed s) @ [a]"
proof -
  let ?r = "approval_evaluation_request tenant_id workspace_id data"
  from run obtain v s1 corr b s2 s3 s4 where
    e: "evaluate ?r s = (Inr v, s1)" and eff: "rs_effect v = REQUIRE_CONFIRMATION" and
    c: "repository_create_approval tenant_id workspace_id data v corr s1 = (Inr b, s2)" and
    j: "join_audit (approval_audit_data b ''approval.request'') s2 = (Inr (), s3)" and
    m: "commit s3 = (Inr (), s4)" and f: "refresh approval_requests ap_id b s4 = (Inr a, t)"
    by (auto simp: create_approval_def PolicyEvaluationRequest_def runs split: if_splits)
  have v: "v = res" using evaluate_runs [OF e] same
    by (simp add: res_def approval_evaluation_request_def)
  have b: "approval_row tenant_id workspace_id data v b" and ok: "constraints (working s2)"
    and w2: "approval_requests (working s2) = approval_requests (committed s) @ [b]"
    using c eff evaluate_keeps_approvals [OF e same]
    by (auto simp: repository_create_approval_def runs Let_def approval_row_def effect_value_def
        exact_scope_matches_def approval_evaluation_request_def)
  have w4: "approval_requests (working s4) = approval_requests (working s2)"
    "committed s4 = working s4"
    using join_audit_runs [OF j] m by (auto simp: runs)
  have "first_row (filter (\<lambda>x. ap_id x = ap_id b) (approval_requests (working s2))) = Some b"
    using approval_unique [OF ok, of b] w2 by simp
  with f w4 have "a = b" "approval_requests (committed t) = approval_requests (working s2)"
    by (auto simp: Inr_runs_refresh)
  with b w2 eff v show ?thesis by simp
qed

text \<open>Data that differ in appended audit records only.\<close>

definition only_audited :: "db \<Rightarrow> db \<Rightarrow> bool" where
  "only_audited d e \<longleftrightarrow> (\<exists>rs. e = d\<lparr>audit_records := audit_records d @ rs\<rparr>)"

interpretation only_audited: db_order only_audited
proof
  show "only_audited d d" for d unfolding only_audited_def by (rule exI [of _ "[]"]) simp
  show "only_audited d f" if de: "only_audited d e" and ef: "only_audited e f" for d e f
    using that unfolding only_audited_def by auto
qed

text \<open>
  What a created request has written: the request, and after the audit record of the policy evaluation
  that of the request.
\<close>

definition approval_stored ::
  "uuid \<Rightarrow> uuid \<Rightarrow> approval_create \<Rightarrow> approval_request \<Rightarrow> db \<Rightarrow> db \<Rightarrow> bool" where
  "approval_stored t w data a d e \<longleftrightarrow>
    (let res = evaluate_rules (approval_evaluation_request t w data) (applicable_rules t w d)
     in rs_effect res = REQUIRE_CONFIRMATION \<and> approval_row t w data res a \<and>
        (\<exists>rs r. stores_audit (approval_audit_data a ''approval.request'') r \<and>
           e = d\<lparr>approval_requests := approval_requests d @ [a],
                 audit_records := audit_records d @ rs @ [r]\<rparr>))"

lemma evaluate_only_audits:
  assumes "evaluate r s = (x, t)" and "working s = committed s"
  shows "only_audited (committed s) (committed t) \<and> only_audited (committed t) (working t)"
proof -
  have "steps (lift_order only_audited) (evaluate r)"
    by (rule only_audited.lifted.steps_evaluate) (auto simp: only_audited_def)
  with assms show ?thesis
    by (auto simp: steps_def lift_order_def only_audited.P_refl dest!: spec [of _ s])
qed

definition store_approval ::
  "uuid \<Rightarrow> uuid \<Rightarrow> approval_create \<Rightarrow> evaluation_result \<Rightarrow> approval_request prog" where
  "store_approval t w data res = bnd get_correlation_id (\<lambda>corr.
     bnd (repository_create_approval t w data res corr) (\<lambda>a.
     andthen (join_audit (approval_audit_data a ''approval.request''))
       (andthen commit (refresh approval_requests ap_id a))))"

lemma store_approval_quiet:
  "steps same_committed (repository_create_approval t w data res corr)" "steps same_committed (join_audit a)"
  unfolding repository_create_approval_def Let_def
  by (intro quiet.steps_rules quiet.stmt_rules quiet.steps_exec quiet.steps_join_audit TrueI)+

lemma store_approval_lands:
  assumes "rs_effect res = REQUIRE_CONFIRMATION"
  shows "lands (\<lambda>x. x = d) (store_approval t w data res) (\<lambda>e. \<exists>a r. approval_row t w data res a \<and>
     stores_audit (approval_audit_data a ''approval.request'') r \<and>
     e = d\<lparr>approval_requests := approval_requests d @ [a], audit_records := audit_records d @ [r]\<rparr>)"
proof -
  have row: "yields (\<lambda>x. x = d) (repository_create_approval t w data res corr)
      (\<lambda>a x. approval_row t w data res a \<and> x = d\<lparr>approval_requests := approval_requests d @ [a]\<rparr>)" for corr
    using assms
    by (auto simp: yields_def repository_create_approval_def runs Let_def approval_row_def effect_value_def
        exact_scope_matches_def approval_evaluation_request_def)
  have audited: "yields (\<lambda>x. approval_row t w data res a \<and> x = d\<lparr>approval_requests := approval_requests d @ [a]\<rparr>)
      (join_audit (approval_audit_data a ''approval.request''))
      (\<lambda>_ x. approval_row t w data res a \<and> (\<exists>r. stores_audit (approval_audit_data a ''approval.request'') r \<and>
         x = d\<lparr>approval_requests := approval_requests d @ [a], audit_records := audit_records d @ [r]\<rparr>))" for a
    using yields_audited [of "d\<lparr>approval_requests := approval_requests d @ [a]\<rparr>" "approval_audit_data a ''approval.request''"]
    by (auto simp: yields_def)
  show ?thesis
    unfolding store_approval_def
    by (rule lands_reads [OF quiet.steps_get_correlation_id reads_basic(6)],
        rule lands_bnd [OF store_approval_quiet(1) row],
        rule lands_andthen [OF store_approval_quiet(2) audited], rule lands_commit [OF quiet.steps_refresh]) blast
qed

lemma create_approval_cases:
  assumes "create_approval t w data True s = (x, u)"
  obtains "x = Inl ValidationError" "committed u = committed s"
  | e where "evaluate (approval_evaluation_request t w data) s = (Inl e, u)" "x = Inl e"
  | res e where "evaluate (approval_evaluation_request t w data) s = (Inr res, u)" "x = Inl e"
  | res s1 where "evaluate (approval_evaluation_request t w data) s = (Inr res, s1)"
      "rs_effect res = REQUIRE_CONFIRMATION"
      "transaction (approval_persistence_failed ''Approval request could not be persisted'')
         (store_approval t w data res) s1 = (x, u)"
proof -
  let ?q = "approval_evaluation_request t w data"
  have eq: "create_approval t w data True = bnd (PolicyEvaluationRequest ?q) (\<lambda>q. bnd (evaluate q) (\<lambda>res.
     if rs_effect res = BLOCK then throw (invalid_approval ''Blocked actions cannot request approval'')
     else if rs_effect res \<noteq> REQUIRE_CONFIRMATION
     then throw (invalid_approval ''Approval requires a confirmation-required policy decision'')
     else transaction (approval_persistence_failed ''Approval request could not be persisted'')
       (store_approval t w data res)))"
    unfolding create_approval_def store_approval_def if_True ..
  show thesis
  proof (cases "evaluate ?q s")
    case (Pair r s1)
    show thesis
    proof (cases r)
      case (Inl e)
      with Pair assms show thesis
        by (auto simp: eq PolicyEvaluationRequest_def bnd_def throw_def ret_def split: if_splits intro: that)
    next
      case (Inr res)
      with Pair assms show thesis
        by (auto simp: eq PolicyEvaluationRequest_def bnd_def throw_def ret_def split: if_splits intro: that)
    qed
  qed
qed

text \<open>
  C20: an approval request is stored only when the policy demands a confirmation for exactly the
  requested action; it is then pending, carries the scope of the request and the policy's
  reasons, and but for the audit records of the evaluation and of the request nothing else is written.
  If the creation fails, nothing but audit records of the evaluation has been written, unless the failure
  is the persistence error of a connection lost after the commit, and then such a request is stored.
\<close>

theorem create_approval_requires_confirmation:
  assumes "working s = committed s"
  shows "case create_approval tenant_id workspace_id data True s of
      (Inl e, t) \<Rightarrow> only_audited (committed s) (committed t) \<or>
        e = approval_persistence_failed ''Approval request could not be persisted'' \<and>
          (\<exists>a. approval_stored tenant_id workspace_id data a (committed s) (committed t))
    | (Inr a, t) \<Rightarrow> approval_stored tenant_id workspace_id data a (committed s) (committed t)"
proof -
  let ?pf = "approval_persistence_failed ''Approval request could not be persisted''"
  obtain x t where run: "create_approval tenant_id workspace_id data True s = (x, t)"
    by (cases "create_approval tenant_id workspace_id data True s")
  from run show ?thesis
  proof (cases rule: create_approval_cases)
    case (4 res s1)
    note e = evaluate_only_audits [OF 4(1) assms]
    then obtain rs where w1: "working s1 = (committed s)\<lparr>audit_records := audit_records (committed s) @ rs\<rparr>"
      using only_audited.P_trans unfolding only_audited_def by blast
    have res: "res = evaluate_rules (approval_evaluation_request tenant_id workspace_id data)
        (applicable_rules tenant_id workspace_id (committed s))"
      using evaluate_runs [OF 4(1)] assms by (simp add: approval_evaluation_request_def)
    have stored: "committed t = committed s1 \<or> (\<exists>a. approval_stored tenant_id workspace_id data a (committed s) (committed t))"
      using landsD [OF lands_transaction [OF store_approval_lands [OF 4(2)]] 4(3)] 4(2) res w1
      by (fastforce simp: approval_stored_def Let_def)
    have late: "late (\<lambda>e. e = ?pf) (transaction ?pf (store_approval tenant_id workspace_id data res))"
      unfolding store_approval_def
      by (intro late_transaction late_bnd late_andthen late_commit_refresh quiet.stmt_rules store_approval_quiet)
    show ?thesis
    proof (cases x)
      case (Inl f)
      have "committed t = committed s1 \<or> f = ?pf" using late 4(3) Inl by (auto simp: late_def)
      with stored e run Inl show ?thesis by auto
    next
      case (Inr a)
      from create_approval_runs [OF run [unfolded Inr] assms]
      have last: "approval_requests (committed t) = approval_requests (committed s) @ [a]" by simp
      have "committed t \<noteq> committed s1" using last e by (auto simp: only_audited_def)
      with stored obtain b where b: "approval_stored tenant_id workspace_id data b (committed s) (committed t)" by blast
      moreover from b last have "b = a" by (auto simp: approval_stored_def Let_def)
      ultimately have "approval_stored tenant_id workspace_id data a (committed s) (committed t)" by simp
      with run Inr show ?thesis by simp
    qed
  qed (use run assms evaluate_only_audits in \<open>auto simp: only_audited.P_refl\<close>)
qed

text \<open>A pending approval in the small store.\<close>

definition sample_approval :: approval_request where
  "sample_approval = \<lparr>ap_id = 5, ap_tenant_id = 1, ap_workspace_id = 2, ap_action = ''deploy.site'',
     ap_requester_actor_type = ''agent'', ap_requester_actor_id = None, ap_resource_type = None,
     ap_resource_id = None, ap_project_id = Some 3, ap_task_id = Some 4, ap_status = ''PENDING'',
     ap_scope_type = ''ONE_ACTION'', ap_policy_effect = ''REQUIRE_CONFIRMATION'',
     ap_matched_rule_ids = PList [], ap_policy_reasons = PList [], ap_decision_actor_type = None,
     ap_decision_actor_id = None, ap_requested_at = 7, ap_decided_at = None,
     ap_correlation_id = None, ap_mutation_fingerprint = None\<rparr>"

definition sample_approval_db :: db where
  "sample_approval_db = sample_db\<lparr>approval_requests := [sample_approval]\<rparr>"

lemma sample_approval_ok: "constraints sample_approval_db"
  by code_simp

lemma sample_approval_tables:
  "approval_requests sample_approval_db = [sample_approval]" "audit_records sample_approval_db = []"
  "ap_status sample_approval = ''PENDING''"
  by (simp_all add: sample_approval_db_def sample_db_def empty_db_def sample_approval_def)

lemma approval_satisfied_witness:
  "case is_approval_satisfied 5 sample_request None (sample_session sample_approval_db) of
     (Inl e, t) \<Rightarrow> True | (Inr b, t) \<Rightarrow> \<not> b"
proof -
  have "\<not> (\<exists>a \<in> set (approval_requests (working (sample_session sample_approval_db))). ap_status a = ''APPROVED'')"
    by (simp add: sample_approval_db_def sample_approval_def)
  with approval_satisfied_iff [where s = "sample_session sample_approval_db" and approval_id = 5
      and req = sample_request and fingerprint = None]
    sample_approval_ok show ?thesis by (auto split: prod.splits sum.splits)
qed

lemma decide_outcome_witness:
  "case decide 1 2 5 APPROVED (sample_session sample_approval_db) of
     (Inl e, t) \<Rightarrow> False
   | (Inr a, t) \<Rightarrow> ap_status a = ''APPROVED'' \<and> length (audit_records (committed t)) = 1"
proof -
  have "\<not> isl (fst (decide 1 2 5 APPROVED (sample_session sample_approval_db)))" by code_simp
  with decide_outcome [of "sample_session sample_approval_db" 1 2 5 APPROVED] sample_approval_ok show ?thesis
    by (auto simp: sample_approval_tables decision_stored_def decided_row_def split: prod.splits sum.splits)
qed

definition sample_approval_create :: approval_create where
  "sample_approval_create = \<lparr>aq_action = ''deploy.site'', aq_requester_actor_type = ''agent'', aq_requester_actor_id = None,
     aq_resource_type = None, aq_resource_id = None, aq_project_id = Some 3, aq_task_id = Some 4,
     aq_context = \<lparr>cx_risk_level = None, cx_environment = None, cx_reversible = None\<rparr>,
     aq_mutation_fingerprint = None\<rparr>"

lemma create_approval_requires_confirmation_witness:
  "case create_approval 1 2 sample_approval_create True (sample_session sample_approval_db) of
     (Inl e, t) \<Rightarrow> False
   | (Inr a, t) \<Rightarrow> approval_requests (committed t) = [sample_approval, a] \<and> ap_status a = ''PENDING''"
proof -
  have "\<not> isl (fst (create_approval 1 2 sample_approval_create True (sample_session sample_approval_db)))" by code_simp
  with create_approval_requires_confirmation [of "sample_session sample_approval_db" 1 2 sample_approval_create] show ?thesis
    by (auto simp: sample_approval_tables approval_stored_def approval_row_def Let_def split: prod.splits sum.splits)
qed

end
