(* ===== verification/Events.thy ===== *)
theory Events
  imports Audit_Log
begin

text \<open>
  Runtime events (\<open>modules/runtime_events\<close>): the contract of an event, the append that may
  join the caller's transaction, the bounded retrieval and the cursor-driven stream batches.
\<close>

section \<open>The contract of an event\<close>

record event_create =
  ec_tenant_id :: uuid
  ec_workspace_id :: uuid
  ec_event_type :: pystr
  ec_source :: pystr
  ec_correlation_id :: "pystr option"
  ec_project_id :: "uuid option"
  ec_task_id :: "uuid option"
  ec_payload :: "pyval option"

definition event_create_valid :: "event_create \<Rightarrow> bool" where
  "event_create_valid e =
    (between 3 100 (ec_event_type e) \<and> fullmatch ACTION (ec_event_type e) \<and>
     between 1 64 (ec_source e) \<and> fullmatch SOURCE_PATTERN (ec_source e) \<and>
     opt_all (\<lambda>v. between 1 128 v \<and> fullmatch REFERENCE_PATTERN v) (ec_correlation_id e) \<and>
     opt_all (\<lambda>m. case m of PDict kvs \<Rightarrow> list_all (\<lambda>(k, _). case k of PStr _ \<Rightarrow> True | _ \<Rightarrow> False) kvs
                           | _ \<Rightarrow> False) (ec_payload e))"

definition RuntimeEventCreate :: "event_create \<Rightarrow> event_create prog" where
  "RuntimeEventCreate e = (if event_create_valid e then ret e else throw ValidationError)"

definition invalid_event :: "pystr \<Rightarrow> exn" where
  "invalid_event message = ApplicationError ''invalid_runtime_event'' message 422"

definition event_limits :: limits where
  "event_limits = \<lparr>max_depth = 8, max_items = 256, max_string = 2048,
     forbidden = [''accesstoken'', ''apikey'', ''authorization'', ''authorizationheader'',
       ''bearertoken'', ''clientsecret'', ''cookie'', ''credential'', ''idtoken'', ''password'',
       ''passwd'', ''refreshtoken'', ''secret'', ''setcookie'', ''token''],
     secret_value = (\<lambda>_. False),
     credential_text = '' contains a credential-bearing URL'',
     rejects = invalid_event, subject = ''Runtime event payload''\<rparr>"

definition safe_payload :: "url_lib \<Rightarrow> pyval option \<Rightarrow> exn + pyval option" where
  "safe_payload lib payload = safe_object event_limits 8192 ''8192'' lib payload"

section \<open>Appending\<close>

definition event_validate_scope :: "event_create \<Rightarrow> unit prog" where
  "event_validate_scope e =
     andthen (require_workspace (ec_tenant_id e) (ec_workspace_id e))
    (andthen (only_if (ec_task_id e \<noteq> None \<and> ec_project_id e = None)
       (throw (invalid_event ''task_id requires project_id'')))
    (andthen (require_project (ec_workspace_id e) (ec_project_id e))
     (require_task (ec_project_id e) (ec_task_id e))))"

definition repository_append_event ::
  "event_create \<Rightarrow> instant option \<Rightarrow> pystr option \<Rightarrow> pyval option \<Rightarrow> runtime_event prog" where
  "repository_append_event e occurred_at corr payload =
     bnd uuid4 (\<lambda>u. exec_stmt (\<lambda>now d.
       let r = \<lparr>ev_id = u, ev_tenant_id = ec_tenant_id e, ev_workspace_id = ec_workspace_id e,
                ev_project_id = ec_project_id e, ev_task_id = ec_task_id e,
                ev_event_type = ec_event_type e, ev_source = ec_source e,
                ev_occurred_at = (case occurred_at of None \<Rightarrow> now | Some t \<Rightarrow> t),
                ev_correlation_id = corr, ev_payload = payload\<rparr>
       in (r, d\<lparr>runtime_events := runtime_events d @ [r]\<rparr>)))"

definition append_event ::
  "event_create \<Rightarrow> instant option \<Rightarrow> bool \<Rightarrow> runtime_event prog" where
  "append_event data occurred_at do_commit = transaction
     (ApplicationError ''runtime_event_persistence_failed'' ''Runtime event could not be persisted'' 500)
     (bnd get_url_lib (\<lambda>lib.
      bnd (lift_sum (safe_payload lib (ec_payload data))) (\<lambda>payload.
      andthen (event_validate_scope data)
     (bnd get_correlation_id (\<lambda>ctx.
      bnd (repository_append_event data occurred_at
             (case ec_correlation_id data of None \<Rightarrow> ctx | Some c \<Rightarrow> Some c) payload)
          (\<lambda>event.
      if do_commit then andthen commit (refresh runtime_events ev_id event) else ret event))))))"

definition join_event :: "event_create \<Rightarrow> unit prog" where
  "join_event e = bnd (RuntimeEventCreate e) (\<lambda>data.
     bnd (append_event data None False) (\<lambda>_. ret ()))"

section \<open>Retrieval and streaming\<close>

text \<open>Events are ordered by time and then by identifier.\<close>

definition event_key :: "runtime_event \<Rightarrow> instant \<times> uuid" where
  "event_key r = (ev_occurred_at r, ev_id r)"

definition in_scope :: "uuid \<Rightarrow> uuid \<Rightarrow> runtime_event \<Rightarrow> bool" where
  "in_scope tenant_id workspace_id r = (ev_tenant_id r = tenant_id \<and> ev_workspace_id r = workspace_id)"

definition recent_events :: "uuid \<Rightarrow> uuid \<Rightarrow> nat \<Rightarrow> db \<Rightarrow> runtime_event list" where
  "recent_events tenant_id workspace_id limit d =
     take limit (rev (sort_key event_key (filter (in_scope tenant_id workspace_id) (runtime_events d))))"

definition events_after :: "uuid \<Rightarrow> uuid \<Rightarrow> instant \<Rightarrow> uuid \<Rightarrow> nat \<Rightarrow> db \<Rightarrow> runtime_event list" where
  "events_after tenant_id workspace_id occurred_at event_id limit d =
     take limit (sort_key event_key (filter (\<lambda>r. in_scope tenant_id workspace_id r \<and>
       (occurred_at < ev_occurred_at r \<or> ev_occurred_at r = occurred_at \<and> event_id < ev_id r))
       (runtime_events d)))"

definition list_recent_events :: "uuid \<Rightarrow> uuid \<Rightarrow> int \<Rightarrow> runtime_event list prog" where
  "list_recent_events tenant_id workspace_id limit =
    (if \<not> (1 \<le> limit \<and> limit \<le> 100)
     then throw (invalid_event ''Runtime event retrieval limit must be between 1 and 100'')
     else andthen (require_workspace tenant_id workspace_id)
       (query (recent_events tenant_id workspace_id (nat limit))))"

definition validate_stream_scope :: "uuid \<Rightarrow> uuid \<Rightarrow> uuid option \<Rightarrow> runtime_event option prog" where
  "validate_stream_scope tenant_id workspace_id cursor_id =
     andthen (require_workspace tenant_id workspace_id)
     (case cursor_id of
        None \<Rightarrow> ret None
      | Some c \<Rightarrow> bnd (select_one runtime_events (\<lambda>r. in_scope tenant_id workspace_id r \<and> ev_id r = c))
          (\<lambda>r. bnd (require not_found r) (\<lambda>cursor. ret (Some cursor))))"

definition stream_batch :: "uuid \<Rightarrow> uuid \<Rightarrow> runtime_event option \<Rightarrow> nat \<Rightarrow> db \<Rightarrow> runtime_event list" where
  "stream_batch tenant_id workspace_id cursor limit d = (case cursor of
     None \<Rightarrow> rev (recent_events tenant_id workspace_id limit d)
   | Some c \<Rightarrow> events_after tenant_id workspace_id (ev_occurred_at c) (ev_id c) limit d)"

definition list_stream_batch ::
  "uuid \<Rightarrow> uuid \<Rightarrow> runtime_event option \<Rightarrow> int \<Rightarrow> runtime_event list prog" where
  "list_stream_batch tenant_id workspace_id cursor limit =
    (if \<not> (1 \<le> limit \<and> limit \<le> 100)
     then throw (invalid_event ''Runtime event retrieval limit must be between 1 and 100'')
     else query (stream_batch tenant_id workspace_id cursor (nat limit)))"

text \<open>
  \<open>stream_events\<close> as a step function on the generator's local state. One turn polls a batch;
  a non-empty batch is yielded event by event, asking before each whether the client has
  disconnected and moving the cursor after each; an empty one may yield a heartbeat and sleeps.
  \<open>gone\<close> answers the successive \<open>is_disconnected\<close> calls of the turn.
\<close>

definition STREAM_BATCH_SIZE :: nat where
  "STREAM_BATCH_SIZE = 50"

datatype frame = EventFrame runtime_event | Heartbeat

record stream_state =
  current :: "runtime_event option"
  last_heartbeat :: instant

fun deliver :: "bool list \<Rightarrow> runtime_event list \<Rightarrow> stream_state \<Rightarrow> frame list \<times> stream_state \<times> bool" where
  "deliver gone [] st = ([], st, True)"
| "deliver gone (event # rest) st =
    (if gone \<noteq> [] \<and> hd gone then ([], st, False)
     else (let (frames, st', alive) = deliver (tl gone) rest (st\<lparr>current := Some event\<rparr>)
           in (EventFrame event # frames, st', alive)))"

definition stream_turn ::
  "uuid \<Rightarrow> uuid \<Rightarrow> instant \<Rightarrow> db \<Rightarrow> bool list \<Rightarrow> instant \<Rightarrow> stream_state \<Rightarrow> frame list \<times> stream_state \<times> bool"
where
  "stream_turn tenant_id workspace_id heartbeat_interval d gone now st =
    (if gone \<noteq> [] \<and> hd gone then ([], st, False)
     else let batch = stream_batch tenant_id workspace_id (current st) STREAM_BATCH_SIZE d in
     if batch \<noteq> [] then deliver (tl gone) batch st
     else if heartbeat_interval \<le> now - last_heartbeat st
     then ([Heartbeat], st\<lparr>last_heartbeat := now\<rparr>, True)
     else ([], st, True))"

section \<open>Lemmas\<close>

context stmt_order
begin

lemma steps_repository_append_event:
  assumes "\<And>d r. W d (d\<lparr>runtime_events := runtime_events d @ [r]\<rparr>)"
  shows "steps R (repository_append_event a at corr p)"
  unfolding repository_append_event_def Let_def
  by (intro steps_rules stmt_rules steps_exec) (simp add: assms)

lemma steps_join_event:
  assumes "\<And>d r. W d (d\<lparr>runtime_events := runtime_events d @ [r]\<rparr>)"
  shows "steps R (join_event a)"
  unfolding join_event_def RuntimeEventCreate_def append_event_def if_False event_validate_scope_def
  by (intro steps_rules stmt_rules steps_lift_sum steps_scopes steps_repository_append_event assms)

end

context store_order
begin

lemma steps_append_event:
  assumes "\<And>d r. W d (d\<lparr>runtime_events := runtime_events d @ [r]\<rparr>)"
  shows "steps R (append_event data at c)"
  unfolding append_event_def event_validate_scope_def
  by (intro steps_rules store_rules steps_scopes steps_lift_sum steps_repository_append_event assms)

end

lemma reads_event_validate_scope: "reads (event_validate_scope e)"
  unfolding event_validate_scope_def by (intro reads_rules reads_scopes)

definition stores_event :: "event_create \<Rightarrow> runtime_event \<Rightarrow> bool" where
  "stores_event e r \<longleftrightarrow> ev_tenant_id r = ec_tenant_id e \<and> ev_workspace_id r = ec_workspace_id e \<and>
     ev_event_type r = ec_event_type e \<and> ev_source r = ec_source e \<and>
     ev_project_id r = ec_project_id e \<and> ev_task_id r = ec_task_id e"

lemma join_event_runs:
  assumes "join_event e s = (Inr u, t)"
  shows "event_create_valid e \<and> (\<exists>r. stores_event e r \<and>
    working t = (working s)\<lparr>runtime_events := runtime_events (working s) @ [r]\<rparr>) \<and>
    committed t = committed s"
proof -
  from assms have valid: "event_create_valid e"
    and "\<exists>v. append_event e None False s = (Inr v, t)"
    by (auto simp: join_event_def RuntimeEventCreate_def Inr_runs split: if_splits)
  then obtain lib m s1 s2 corr v where
    l: "lift_sum (safe_payload lib (ec_payload e)) s = (Inr m, s1)" and
    c: "event_validate_scope e s1 = (Inr (), s2)" and
    r: "repository_append_event e None corr m s2 = (Inr v, t)"
    by (auto simp: append_event_def Inr_runs Inr_runs_handler)
  have "stores_event e v \<and> working t = (working s2)\<lparr>runtime_events := runtime_events (working s2) @ [v]\<rparr> \<and>
    committed t = committed s2"
    using r by (auto simp: repository_append_event_def Inr_runs Inr_runs_exec Let_def stores_event_def)
  then show ?thesis
    using valid readsD [OF reads_lift_sum l] readsD [OF reads_event_validate_scope c] by auto
qed

definition event_facts :: "db \<Rightarrow> (uuid \<times> uuid \<times> uuid \<times> pystr \<times> pystr \<times> instant \<times> pyval option) list" where
  "event_facts d = map (\<lambda>r. (ev_id r, ev_tenant_id r, ev_workspace_id r, ev_event_type r,
     ev_source r, ev_occurred_at r, ev_payload r)) (runtime_events d)"

interpretation event_log: db_order "grows event_facts"
  by unfold_locales (auto simp: grows_def)

end
