(* ===== verification/Agents.thy ===== *)
theory Agents
  imports Events
begin

text \<open>
  Versioned agent definitions and the lifecycle of agent runs (\<open>modules/agents\<close>: schemas,
  repository, service).
\<close>

section \<open>Contracts\<close>

datatype agent_definition_status = ENABLED | DISABLED | ARCHIVED

definition agent_definition_status_value :: "agent_definition_status \<Rightarrow> pystr" where
  "agent_definition_status_value v = (case v of ENABLED \<Rightarrow> ''ENABLED'' | DISABLED \<Rightarrow> ''DISABLED''
     | ARCHIVED \<Rightarrow> ''ARCHIVED'')"

datatype agent_run_status = CREATED | RUNNING | WAITING_FOR_APPROVAL | SUCCEEDED | FAILED | CANCELLED

definition agent_run_status_value :: "agent_run_status \<Rightarrow> pystr" where
  "agent_run_status_value v = (case v of CREATED \<Rightarrow> ''CREATED'' | RUNNING \<Rightarrow> ''RUNNING''
     | WAITING_FOR_APPROVAL \<Rightarrow> ''WAITING_FOR_APPROVAL'' | SUCCEEDED \<Rightarrow> ''SUCCEEDED''
     | FAILED \<Rightarrow> ''FAILED'' | CANCELLED \<Rightarrow> ''CANCELLED'')"

record definition_fields =
  df_name :: pystr
  df_status :: agent_definition_status
  df_category :: "pystr option"
  df_mission :: pystr
  df_capabilities :: "pystr list"
  df_permissions :: "pystr list"

text \<open>
  \<open>sorted({value.strip().lower() for value in values})\<close> and its validators. The item type
  trims before it counts the characters; the length of the list is that of the input.
\<close>

definition normalize_items :: "pystr list \<Rightarrow> pystr list" where
  "normalize_items values = sort (remdups (map (\<lambda>v. lower (strip v)) values))"

definition items_field :: "nat \<Rightarrow> rx \<Rightarrow> pystr list \<Rightarrow> pystr list option" where
  "items_field max_length pattern values =
    (if length values \<le> 32 \<and> list_all (\<lambda>v. between 1 max_length (trim v)) values \<and>
        list_all (fullmatch pattern) (normalize_items (map trim values))
     then Some (normalize_items (map trim values)) else None)"

definition definition_text :: "nat \<Rightarrow> pystr \<Rightarrow> pystr option" where
  "definition_text max_length v =
    (if between 1 max_length v \<and> strip v \<noteq> [] then Some (strip v) else None)"

definition definition_category :: "pystr \<Rightarrow> pystr option" where
  "definition_category v =
    (if between 1 64 (trim v) \<and> fullmatch TYPE_IDENTIFIER (trim v) then Some (trim v) else None)"

definition DefinitionFields :: "definition_fields \<Rightarrow> definition_fields option" where
  "DefinitionFields d =
    (case (definition_text 120 (df_name d), optional_field definition_category (df_category d),
           definition_text 2000 (df_mission d), items_field 64 TYPE_IDENTIFIER (df_capabilities d),
           items_field 100 SOURCE_PATTERN (df_permissions d)) of
       (Some name, Some category, Some mission, Some capabilities, Some permissions) \<Rightarrow>
         Some \<lparr>df_name = name, df_status = df_status d, df_category = category,
           df_mission = mission, df_capabilities = capabilities, df_permissions = permissions\<rparr>
     | _ \<Rightarrow> None)"

record agent_run_create =
  rn_agent_definition_id :: uuid
  rn_project_id :: "uuid option"
  rn_task_id :: "uuid option"
  rn_parent_agent_run_id :: "uuid option"
  rn_model_run_id :: "uuid option"

definition agent_run_create_valid :: "agent_run_create \<Rightarrow> bool" where
  "agent_run_create_valid d = (rn_task_id d = None \<or> rn_project_id d \<noteq> None)"

section \<open>The repository\<close>

definition agent_repository_create_definition ::
  "uuid \<Rightarrow> uuid \<Rightarrow> pystr \<Rightarrow> int \<Rightarrow> definition_fields \<Rightarrow> agent_definition prog" where
  "agent_repository_create_definition tenant_id workspace_id slug version data =
     bnd uuid4 (\<lambda>u. exec_stmt (\<lambda>now d.
       let r = \<lparr>ad_id = u, ad_tenant_id = tenant_id, ad_workspace_id = workspace_id,
          ad_name = df_name data, ad_slug = slug, ad_version = version,
          ad_status = agent_definition_status_value (df_status data),
          ad_category = df_category data, ad_mission = df_mission data,
          ad_capabilities = df_capabilities data, ad_permissions = df_permissions data,
          ad_created_at = now\<rparr>
       in (r, d\<lparr>agent_definitions := agent_definitions d @ [r]\<rparr>)))"

definition repository_get_definition :: "uuid \<Rightarrow> uuid \<Rightarrow> uuid \<Rightarrow> agent_definition option prog" where
  "repository_get_definition tenant_id workspace_id definition_id =
     select_one agent_definitions (\<lambda>r. ad_id r = definition_id \<and> ad_tenant_id r = tenant_id \<and>
       ad_workspace_id r = workspace_id)"

definition same_role :: "uuid \<Rightarrow> uuid \<Rightarrow> pystr \<Rightarrow> agent_definition \<Rightarrow> bool" where
  "same_role tenant_id workspace_id slug r =
     (ad_tenant_id r = tenant_id \<and> ad_workspace_id r = workspace_id \<and> ad_slug r = slug)"

definition latest_of :: "uuid \<Rightarrow> uuid \<Rightarrow> pystr \<Rightarrow> bool \<Rightarrow> db \<Rightarrow> agent_definition option" where
  "latest_of tenant_id workspace_id slug exclude_archived d =
     first_row (sort_key (\<lambda>r. - ad_version r)
       (filter (\<lambda>r. same_role tenant_id workspace_id slug r \<and>
          (exclude_archived \<longrightarrow> ad_status r \<noteq> ''ARCHIVED'')) (agent_definitions d)))"

definition latest_definition :: "uuid \<Rightarrow> uuid \<Rightarrow> pystr \<Rightarrow> bool \<Rightarrow> agent_definition option prog" where
  "latest_definition tenant_id workspace_id slug exclude_archived =
     query (latest_of tenant_id workspace_id slug exclude_archived)"

definition current_version :: "uuid \<Rightarrow> uuid \<Rightarrow> db \<Rightarrow> agent_definition \<Rightarrow> bool" where
  "current_version tenant_id workspace_id d r =
    (ad_status r \<noteq> ''ARCHIVED'' \<and>
     ad_version r = Max (set (map ad_version
       (filter (\<lambda>c. same_role tenant_id workspace_id (ad_slug r) c \<and> ad_status c \<noteq> ''ARCHIVED'')
         (agent_definitions d)))))"

definition agent_repository_list_definitions ::
  "uuid \<Rightarrow> uuid \<Rightarrow> nat \<Rightarrow> nat \<Rightarrow> bool \<Rightarrow> agent_definition list prog" where
  "agent_repository_list_definitions tenant_id workspace_id limit offset all_versions =
     query (\<lambda>d. window limit offset (sort_key (\<lambda>r. (ad_slug r, - ad_version r))
       (filter (\<lambda>r. ad_tenant_id r = tenant_id \<and> ad_workspace_id r = workspace_id \<and>
          (all_versions \<or> current_version tenant_id workspace_id d r)) (agent_definitions d))))"

definition scoped_agent_run :: "uuid \<Rightarrow> uuid \<Rightarrow> uuid \<Rightarrow> agent_run \<Rightarrow> bool" where
  "scoped_agent_run tenant_id workspace_id run_id r =
     (ar_id r = run_id \<and> ar_tenant_id r = tenant_id \<and> ar_workspace_id r = workspace_id)"

definition agent_repository_get_run :: "uuid \<Rightarrow> uuid \<Rightarrow> uuid \<Rightarrow> agent_run option prog" where
  "agent_repository_get_run tenant_id workspace_id run_id =
     select_one agent_runs (scoped_agent_run tenant_id workspace_id run_id)"

definition agent_repository_list_runs ::
  "uuid \<Rightarrow> uuid \<Rightarrow> nat \<Rightarrow> nat \<Rightarrow> pystr option \<Rightarrow> agent_run list prog" where
  "agent_repository_list_runs tenant_id workspace_id limit offset status =
     query (\<lambda>d. window limit offset (sort_key (\<lambda>r. (- ar_created_at r, ar_id r))
       (filter (\<lambda>r. ar_tenant_id r = tenant_id \<and> ar_workspace_id r = workspace_id \<and>
          opt_all (\<lambda>v. ar_status r = v) status) (agent_runs d))))"

text \<open>
  The values a transition writes. \<open>values\<close> is the dictionary of the code: only the columns it
  names change.
\<close>

record run_values =
  rv_status :: agent_run_status
  rv_updated_at :: instant
  rv_started_at :: "instant option"
  rv_completion :: "(instant \<times> pystr option) option"

definition transition_values ::
  "agent_run_status \<Rightarrow> agent_run_status \<Rightarrow> pystr option \<Rightarrow> instant \<Rightarrow> run_values" where
  "transition_values expected target failure_code now =
    (let values = \<lparr>rv_status = target, rv_updated_at = now, rv_started_at = None,
           rv_completion = None\<rparr> in
     if target = RUNNING \<and> expected = CREATED then values\<lparr>rv_started_at := Some now\<rparr>
     else if target \<in> {SUCCEEDED, FAILED, CANCELLED}
     then values\<lparr>rv_completion := Some (now, failure_code)\<rparr>
     else values)"

definition apply_run_values :: "run_values \<Rightarrow> agent_run \<Rightarrow> agent_run" where
  "apply_run_values v r = r\<lparr>ar_status := agent_run_status_value (rv_status v),
     ar_started_at := (case rv_started_at v of None \<Rightarrow> ar_started_at r | Some t \<Rightarrow> Some t),
     ar_completed_at := (case rv_completion v of None \<Rightarrow> ar_completed_at r | Some (t, _) \<Rightarrow> Some t),
     ar_failure_code := (case rv_completion v of None \<Rightarrow> ar_failure_code r | Some (_, c) \<Rightarrow> c),
     ar_updated_at := rv_updated_at v\<rparr>"

definition put_agent_runs :: "agent_run list \<Rightarrow> db \<Rightarrow> db" where
  "put_agent_runs rows d = d\<lparr>agent_runs := rows\<rparr>"

definition run_in_state :: "uuid \<Rightarrow> uuid \<Rightarrow> uuid \<Rightarrow> agent_run_status \<Rightarrow> agent_run \<Rightarrow> bool" where
  "run_in_state tenant_id workspace_id run_id expected r =
     (scoped_agent_run tenant_id workspace_id run_id r \<and> ar_status r = agent_run_status_value expected)"

definition agent_transition_run ::
  "uuid \<Rightarrow> uuid \<Rightarrow> uuid \<Rightarrow> agent_run_status \<Rightarrow> run_values \<Rightarrow> agent_run option prog" where
  "agent_transition_run tenant_id workspace_id run_id expected values =
     compare_set agent_runs put_agent_runs (run_in_state tenant_id workspace_id run_id expected)
       (\<lambda>_. apply_run_values values)"

definition link_model_run :: "uuid \<Rightarrow> uuid \<Rightarrow> uuid \<Rightarrow> uuid \<Rightarrow> agent_run option prog" where
  "link_model_run tenant_id workspace_id run_id model_run_id =
     compare_set agent_runs put_agent_runs
       (\<lambda>r. run_in_state tenant_id workspace_id run_id RUNNING r \<and> ar_model_run_id r = None)
       (\<lambda>now r. r\<lparr>ar_model_run_id := Some model_run_id, ar_updated_at := now\<rparr>)"

section \<open>The service\<close>

definition agent_scope :: "uuid \<Rightarrow> uuid \<Rightarrow> uuid option \<Rightarrow> uuid option \<Rightarrow> unit prog" where
  "agent_scope tenant_id workspace_id project_id task_id =
     andthen (require_workspace tenant_id workspace_id)
    (andthen (require_project workspace_id project_id)
     (if task_id \<noteq> None \<and> project_id = None then throw not_found
      else require_task project_id task_id))"

definition agent_slug_exists :: exn where
  "agent_slug_exists = ApplicationError ''agent_slug_exists'' ''Agent slug already exists'' 409"

definition definition_audit ::
  "uuid \<Rightarrow> uuid \<Rightarrow> pystr \<Rightarrow> agent_definition \<Rightarrow> (pyval \<times> pyval) list \<Rightarrow> audit_create" where
  "definition_audit tenant_id workspace_id action d extras =
     (audit_fields tenant_id workspace_id action ''service'' ''success'')
     \<lparr>ac_metadata := Some (PDict ([(PStr ''agent_definition_id'', PStr (uuid_str (ad_id d))),
        (PStr ''agent_slug'', PStr (ad_slug d)), (PStr ''agent_version'', PInt (ad_version d))] @ extras))\<rparr>"

definition agent_create_definition ::
  "uuid \<Rightarrow> uuid \<Rightarrow> pystr \<Rightarrow> definition_fields \<Rightarrow> agent_definition prog" where
  "agent_create_definition tenant_id workspace_id slug data =
     andthen (agent_scope tenant_id workspace_id None None)
     (bnd (latest_definition tenant_id workspace_id slug False) (\<lambda>latest.
      andthen (only_if (latest \<noteq> None) (throw agent_slug_exists))
      (on_integrity_error agent_slug_exists
        (bnd (agent_repository_create_definition tenant_id workspace_id slug 1 data) (\<lambda>row.
         andthen (join_audit (definition_audit tenant_id workspace_id ''agent.definition.created'' row []))
        (andthen commit (refresh agent_definitions ad_id row)))))))"

definition agent_create_version ::
  "uuid \<Rightarrow> uuid \<Rightarrow> uuid \<Rightarrow> definition_fields \<Rightarrow> agent_definition prog" where
  "agent_create_version tenant_id workspace_id definition_id data =
     andthen (agent_scope tenant_id workspace_id None None)
     (bnd (repository_get_definition tenant_id workspace_id definition_id) (\<lambda>found.
      bnd (require not_found found) (\<lambda>source.
      bnd (latest_definition tenant_id workspace_id (ad_slug source) False) (\<lambda>found'.
      bnd (require not_found found') (\<lambda>latest.
      on_integrity_error
        (ApplicationError ''agent_version_conflict'' ''Agent version creation conflicted'' 409)
        (bnd (agent_repository_create_definition tenant_id workspace_id (ad_slug source)
                (ad_version latest + 1) data) (\<lambda>row.
         andthen (join_audit (definition_audit tenant_id workspace_id ''agent.definition.versioned'' row
                    [(PStr ''previous_version'', PInt (ad_version latest))]))
        (andthen commit (refresh agent_definitions ad_id row)))))))))"

definition agent_get_definition :: "uuid \<Rightarrow> uuid \<Rightarrow> uuid \<Rightarrow> agent_definition prog" where
  "agent_get_definition tenant_id workspace_id definition_id =
     andthen (agent_scope tenant_id workspace_id None None)
     (bnd (repository_get_definition tenant_id workspace_id definition_id) (require not_found))"

definition agent_list_definitions ::
  "uuid \<Rightarrow> uuid \<Rightarrow> nat \<Rightarrow> nat \<Rightarrow> bool \<Rightarrow> agent_definition list prog" where
  "agent_list_definitions tenant_id workspace_id limit offset all_versions =
     andthen (agent_scope tenant_id workspace_id None None)
     (agent_repository_list_definitions tenant_id workspace_id limit offset all_versions)"

definition agent_repository_create_run ::
  "uuid \<Rightarrow> uuid \<Rightarrow> agent_run_create \<Rightarrow> agent_definition \<Rightarrow> pystr option \<Rightarrow> agent_run prog" where
  "agent_repository_create_run tenant_id workspace_id data ddef corr =
     bnd uuid4 (\<lambda>u. exec_stmt (\<lambda>now d.
       let r = \<lparr>ar_id = u, ar_tenant_id = tenant_id, ar_workspace_id = workspace_id,
          ar_project_id = rn_project_id data, ar_task_id = rn_task_id data,
          ar_agent_definition_id = ad_id ddef, ar_agent_version = ad_version ddef,
          ar_agent_name = ad_name ddef, ar_agent_slug = ad_slug ddef,
          ar_model_run_id = rn_model_run_id data,
          ar_parent_agent_run_id = rn_parent_agent_run_id data,
          ar_status = agent_run_status_value CREATED, ar_correlation_id = corr,
          ar_failure_code = None, ar_started_at = None, ar_completed_at = None,
          ar_created_at = now, ar_updated_at = now\<rparr>
       in (r, put_agent_runs (agent_runs d @ [r]) d)))"

definition agent_create_run :: "uuid \<Rightarrow> uuid \<Rightarrow> agent_run_create \<Rightarrow> agent_run prog" where
  "agent_create_run tenant_id workspace_id data =
     andthen (agent_scope tenant_id workspace_id (rn_project_id data) (rn_task_id data))
     (bnd (repository_get_definition tenant_id workspace_id (rn_agent_definition_id data)) (\<lambda>found.
      bnd (require not_found found) (\<lambda>ddef.
      andthen (case rn_parent_agent_run_id data of
          None \<Rightarrow> ret ()
        | Some p \<Rightarrow> bnd (agent_repository_get_run tenant_id workspace_id p) (\<lambda>row. case row of
              None \<Rightarrow> throw not_found
            | Some parent \<Rightarrow> only_if ((ar_project_id parent, ar_task_id parent) \<noteq>
                (rn_project_id data, rn_task_id data)) (throw not_found)))
     (andthen (case rn_model_run_id data of
          None \<Rightarrow> ret ()
        | Some k \<Rightarrow> bnd (get_model_run tenant_id workspace_id k) (\<lambda>row. case row of
              None \<Rightarrow> throw not_found
            | Some run \<Rightarrow> only_if (mr_project_id run \<noteq> rn_project_id data) (throw not_found)))
     (bnd get_correlation_id (\<lambda>corr.
      bnd (agent_repository_create_run tenant_id workspace_id data ddef corr) (\<lambda>run.
      andthen commit (refresh agent_runs ar_id run))))))))"

definition agent_get_run :: "uuid \<Rightarrow> uuid \<Rightarrow> uuid \<Rightarrow> agent_run prog" where
  "agent_get_run tenant_id workspace_id run_id =
     andthen (agent_scope tenant_id workspace_id None None)
     (bnd (agent_repository_get_run tenant_id workspace_id run_id) (require not_found))"

definition agent_list_runs ::
  "uuid \<Rightarrow> uuid \<Rightarrow> nat \<Rightarrow> nat \<Rightarrow> agent_run_status option \<Rightarrow> agent_run list prog" where
  "agent_list_runs tenant_id workspace_id limit offset status =
     andthen (agent_scope tenant_id workspace_id None None)
     (agent_repository_list_runs tenant_id workspace_id limit offset
       (map_option agent_run_status_value status))"

definition agent_run_invalid_transition :: exn where
  "agent_run_invalid_transition =
     ApplicationError ''agent_run_invalid_transition'' ''Agent run state transition is invalid'' 409"

definition agent_transition ::
  "uuid \<Rightarrow> uuid \<Rightarrow> uuid \<Rightarrow> agent_run_status \<Rightarrow> agent_run_status \<Rightarrow> pystr option \<Rightarrow> agent_run prog" where
  "agent_transition tenant_id workspace_id run_id expected target failure_code =
     bnd (agent_get_run tenant_id workspace_id run_id) (\<lambda>_.
     bnd now_utc (\<lambda>now.
     bnd (agent_transition_run tenant_id workspace_id run_id expected
            (transition_values expected target failure_code now)) (\<lambda>row.
     bnd (require agent_run_invalid_transition row) (\<lambda>updated.
     andthen commit (ret updated)))))"

definition agent_start_run :: "uuid \<Rightarrow> uuid \<Rightarrow> uuid \<Rightarrow> agent_run prog" where
  "agent_start_run t w i = agent_transition t w i CREATED RUNNING None"

definition agent_succeed_run :: "uuid \<Rightarrow> uuid \<Rightarrow> uuid \<Rightarrow> agent_run prog" where
  "agent_succeed_run t w i = agent_transition t w i RUNNING SUCCEEDED None"

definition agent_suspend_run :: "uuid \<Rightarrow> uuid \<Rightarrow> uuid \<Rightarrow> agent_run prog" where
  "agent_suspend_run t w i = agent_transition t w i RUNNING WAITING_FOR_APPROVAL None"

definition agent_resume_run :: "uuid \<Rightarrow> uuid \<Rightarrow> uuid \<Rightarrow> agent_run prog" where
  "agent_resume_run t w i = agent_transition t w i WAITING_FOR_APPROVAL RUNNING None"

definition agent_run_invalid_failure :: exn where
  "agent_run_invalid_failure =
     ApplicationError ''agent_run_invalid_failure'' ''Failure code is invalid'' 400"

definition agent_fail_run :: "uuid \<Rightarrow> uuid \<Rightarrow> uuid \<Rightarrow> pystr \<Rightarrow> agent_run prog" where
  "agent_fail_run t w i failure_code =
    (if \<not> fullmatch TYPE_IDENTIFIER failure_code then throw agent_run_invalid_failure
     else agent_transition t w i RUNNING FAILED (Some failure_code))"

definition agent_fail_waiting_run :: "uuid \<Rightarrow> uuid \<Rightarrow> uuid \<Rightarrow> pystr \<Rightarrow> agent_run prog" where
  "agent_fail_waiting_run t w i failure_code =
    (if \<not> fullmatch TYPE_IDENTIFIER failure_code then throw agent_run_invalid_failure
     else agent_transition t w i WAITING_FOR_APPROVAL FAILED (Some failure_code))"

definition agent_cancel_run :: "uuid \<Rightarrow> uuid \<Rightarrow> uuid \<Rightarrow> agent_run prog" where
  "agent_cancel_run t w i = bnd (agent_get_run t w i) (\<lambda>run.
     if ar_status run = agent_run_status_value CREATED
     then agent_transition t w i CREATED CANCELLED None
     else agent_transition t w i RUNNING CANCELLED None)"

section \<open>Effects on the data\<close>

text \<open>The moves the services ask for.\<close>

definition agent_edges :: "(agent_run_status \<times> agent_run_status) set" where
  "agent_edges = {(CREATED, RUNNING), (RUNNING, SUCCEEDED), (RUNNING, WAITING_FOR_APPROVAL),
     (WAITING_FOR_APPROVAL, RUNNING), (RUNNING, FAILED), (WAITING_FOR_APPROVAL, FAILED),
     (CREATED, CANCELLED), (RUNNING, CANCELLED)}"

definition add_definition :: "agent_definition \<Rightarrow> db \<Rightarrow> db" where
  "add_definition r d = d\<lparr>agent_definitions := agent_definitions d @ [r]\<rparr>"

definition move_agent_run ::
  "uuid \<Rightarrow> uuid \<Rightarrow> uuid \<Rightarrow> agent_run_status \<Rightarrow> agent_run_status \<Rightarrow> pystr option \<Rightarrow> instant \<Rightarrow> db \<Rightarrow> db"
where
  "move_agent_run t w i expected target fc now d =
     put_agent_runs (update_where (run_in_state t w i expected)
       (apply_run_values (transition_values expected target fc now)) (agent_runs d)) d"

lemma reads_agent_scope: "reads (agent_scope t w p k)"
  unfolding agent_scope_def by (intro reads_rules reads_scopes)

lemma reads_agent_get_run: "reads (agent_get_run t w i)"
  unfolding agent_get_run_def agent_repository_get_run_def
  by (intro reads_rules reads_scopes reads_agent_scope)

lemma raises_agent_get_run:
  assumes "E SQLAlchemyError" and "E not_found"
  shows "raises E (agent_get_run t w i)"
  using assms unfolding agent_get_run_def agent_scope_def agent_repository_get_run_def
  by (intro raises_rules raises_scopes raises_select_one; simp)

context stmt_order
begin

lemma steps_agent_scope: "steps R (agent_scope t w p k)"
  unfolding agent_scope_def by (intro steps_rules steps_scopes)

lemma steps_agent_reads:
  "steps R (agent_get_definition t w i)" "steps R (agent_list_definitions t w l k a)"
  "steps R (agent_get_run t w i)" "steps R (agent_list_runs t w l k st)"
  unfolding agent_get_definition_def repository_get_definition_def agent_list_definitions_def
    agent_repository_list_definitions_def agent_get_run_def agent_repository_get_run_def
    agent_list_runs_def agent_repository_list_runs_def
  by (intro steps_rules stmt_rules steps_scopes steps_agent_scope)+

lemma steps_agent_repository_create_definition:
  "(\<And>d r. W d (add_definition r d)) \<Longrightarrow>
   steps R (agent_repository_create_definition t w slug v data)"
  unfolding agent_repository_create_definition_def add_definition_def Let_def
  by (intro steps_rules stmt_rules steps_exec) simp

lemma steps_agent_repository_create_run:
  "(\<And>d r. W d (put_agent_runs (agent_runs d @ [r]) d)) \<Longrightarrow>
   steps R (agent_repository_create_run t w data ddef corr)"
  unfolding agent_repository_create_run_def Let_def
  by (intro steps_rules stmt_rules steps_exec) simp

lemma steps_agent_transition_run:
  "(\<And>d. W d (move_agent_run t w i expected target fc now d)) \<Longrightarrow>
   steps R (agent_transition_run t w i expected (transition_values expected target fc now))"
  unfolding agent_transition_run_def move_agent_run_def by (rule steps_compare_set)

end

context store_order
begin

lemma steps_agent_definitions:
  assumes "\<And>d r. W d (d\<lparr>audit_records := audit_records d @ [r]\<rparr>)"
    and "\<And>d r. W d (add_definition r d)"
  shows "steps R (agent_create_definition t w slug data)"
    and "steps R (agent_create_version t w i data)"
  unfolding agent_create_definition_def agent_create_version_def latest_definition_def
    repository_get_definition_def
  by (intro steps_rules store_rules steps_scopes steps_join_audit steps_agent_scope
      steps_agent_repository_create_definition assms)+

lemma steps_agent_create_run:
  assumes "\<And>d r. W d (put_agent_runs (agent_runs d @ [r]) d)"
  shows "steps R (agent_create_run t w data)"
  unfolding agent_create_run_def repository_get_definition_def agent_repository_get_run_def
    get_model_run_def
  by (intro steps_rules store_rules steps_scopes steps_agent_scope
      steps_agent_repository_create_run assms)

lemma steps_agent_transition:
  assumes "\<And>now d. W d (move_agent_run t w i expected target fc now d)"
  shows "steps R (agent_transition t w i expected target fc)"
  unfolding agent_transition_def
  by (intro steps_rules store_rules steps_agent_reads steps_agent_transition_run assms)

lemma steps_agent_moves:
  assumes "\<And>expected target fc now d. (expected, target) \<in> agent_edges \<Longrightarrow>
      W d (move_agent_run t w i expected target fc now d)"
  shows "steps R (agent_start_run t w i)" "steps R (agent_succeed_run t w i)"
    "steps R (agent_suspend_run t w i)" "steps R (agent_resume_run t w i)"
    "steps R (agent_fail_run t w i code)" "steps R (agent_fail_waiting_run t w i code)"
    "steps R (agent_cancel_run t w i)"
  unfolding agent_start_run_def agent_succeed_run_def agent_suspend_run_def agent_resume_run_def
    agent_fail_run_def agent_fail_waiting_run_def agent_cancel_run_def
  by (intro steps_rules steps_agent_reads steps_agent_transition assms;
      simp add: agent_edges_def)+

end

section \<open>The lifecycle of a run\<close>

inductive agent_step :: "agent_run \<Rightarrow> agent_run \<Rightarrow> bool" where
  move: "(expected, target) \<in> agent_edges \<Longrightarrow> ar_status r = agent_run_status_value expected \<Longrightarrow>
    agent_step r (apply_run_values (transition_values expected target fc now) r)"
| link: "ar_status r = ''RUNNING'' \<Longrightarrow> ar_model_run_id r = None \<Longrightarrow>
    agent_step r (r\<lparr>ar_model_run_id := Some m, ar_updated_at := now\<rparr>)"

inductive_cases agent_stepE: "agent_step r s"

lemma agent_run_status_values [simp]:
  "agent_run_status_value CREATED = ''CREATED''" "agent_run_status_value RUNNING = ''RUNNING''"
  "agent_run_status_value WAITING_FOR_APPROVAL = ''WAITING_FOR_APPROVAL''"
  "agent_run_status_value SUCCEEDED = ''SUCCEEDED''" "agent_run_status_value FAILED = ''FAILED''"
  "agent_run_status_value CANCELLED = ''CANCELLED''"
  by (simp_all add: agent_run_status_value_def)

lemma agent_run_status_value_inj: "agent_run_status_value a = agent_run_status_value b \<longleftrightarrow> a = b"
  by (cases a; cases b) simp_all

definition agent_final :: "agent_run \<Rightarrow> bool" where
  "agent_final r = (ar_status r \<in> {''SUCCEEDED'', ''FAILED'', ''CANCELLED''})"

interpretation agent_lifecycle: lifecycle agent_step agent_runs agent_final
  by unfold_locales (auto simp: agent_final_def agent_edges_def elim!: agent_stepE)

lemma apply_run_values_fields [simp]:
  "ar_status (apply_run_values v r) = agent_run_status_value (rv_status v)"
  "ar_id (apply_run_values v r) = ar_id r" "ar_tenant_id (apply_run_values v r) = ar_tenant_id r"
  "ar_workspace_id (apply_run_values v r) = ar_workspace_id r"
  by (simp_all add: apply_run_values_def)

lemma rv_status_values [simp]: "rv_status (transition_values expected target fc now) = target"
  by (simp add: transition_values_def Let_def)

text \<open>Transitions that expect the same state of one run race for it.\<close>

interpretation run_moves: guarded_update agent_runs put_agent_runs
  "\<lambda>_. run_in_state t w i expected" "\<lambda>v _. apply_run_values v" "\<lambda>v. rv_status v \<noteq> expected"
  for t w i expected
  by unfold_locales
    (auto simp: put_agent_runs_def run_in_state_def agent_run_status_value_inj)

section \<open>What a transition does\<close>

lemma agent_transition_guarded:
  "agent_transition t w i expected target fc = guarded_transition (agent_get_run t w i) agent_runs
     put_agent_runs (run_in_state t w i expected)
     (\<lambda>now. apply_run_values (transition_values expected target fc now)) agent_run_invalid_transition"
  by (simp add: agent_transition_def guarded_transition_def agent_transition_run_def)

lemma agent_transition_look:
  "raises (\<lambda>e. e \<noteq> agent_run_invalid_transition) (agent_get_run t w i)"
  "agent_run_invalid_transition \<noteq> SQLAlchemyError" "agent_run_invalid_transition \<noteq> IntegrityError"
  by (auto intro!: raises_agent_get_run simp: agent_run_invalid_transition_def not_found_def)

lemma agent_shape:
  "lifecycle_shape [''CREATED''] [''RUNNING'', ''WAITING_FOR_APPROVAL''] ''SUCCEEDED''
     (agent_run_status_value v) st cp f \<longleftrightarrow>
   (case v of CREATED \<Rightarrow> st = None \<and> cp = None \<and> f = None
    | RUNNING \<Rightarrow> st \<noteq> None \<and> cp = None \<and> f = None
    | WAITING_FOR_APPROVAL \<Rightarrow> st \<noteq> None \<and> cp = None \<and> f = None
    | SUCCEEDED \<Rightarrow> st \<noteq> None \<and> cp \<noteq> None \<and> f = None
    | FAILED \<Rightarrow> st \<noteq> None \<and> cp \<noteq> None \<and> f \<noteq> None
    | CANCELLED \<Rightarrow> cp \<noteq> None \<and> f = None)"
  by (cases v) (simp_all add: lifecycle_shape_def)

lemma agent_status_known:
  "one_of [''CREATED'', ''RUNNING'', ''WAITING_FOR_APPROVAL'', ''SUCCEEDED'', ''FAILED'', ''CANCELLED'']
     (agent_run_status_value v)"
  by (cases v) simp_all

text \<open>
  C25: a transition of a run returns only if the run was in the expected state: then exactly that
  run moves, and the durable data change in nothing else. Every failure leaves the durable data
  as they were, and a refused transition means that no such run was in the expected state.
\<close>

theorem agent_transition_outcome:
  assumes "working s = committed s"
  shows "case agent_transition tenant_id workspace_id run_id expected target failure_code s of
      (Inl e, u) \<Rightarrow> committed u = committed s \<and>
        (e = agent_run_invalid_transition \<longrightarrow>
          \<not> (\<exists>old \<in> set (agent_runs (committed s)).
              run_in_state tenant_id workspace_id run_id expected old))
    | (Inr r, u) \<Rightarrow> \<exists>now. \<exists>old \<in> set (agent_runs (committed s)).
        run_in_state tenant_id workspace_id run_id expected old \<and>
        r = apply_run_values (transition_values expected target failure_code now) old \<and>
        committed u =
          move_agent_run tenant_id workspace_id run_id expected target failure_code now (committed s)"
  unfolding agent_transition_guarded move_agent_run_def
  by (rule guarded_transition_outcome [OF assms reads_agent_get_run quiet.steps_agent_reads(3)
        agent_transition_look])

text \<open>
  C26: a move along the lifecycle keeps every check of the table: a run that satisfies them
  before satisfies them after, if the failure code is given exactly for a failure and the clock
  has not gone back behind the start of the run.
\<close>

theorem agent_move_keeps_checks:
  assumes "agent_run_checks r" and "(expected, target) \<in> agent_edges"
    and "ar_status r = agent_run_status_value expected"
    and "if target = FAILED then \<exists>c. failure_code = Some c \<and> fullmatch TYPE_IDENTIFIER c
         else failure_code = None"
    and "opt_all (\<lambda>t. t \<le> now) (ar_started_at r)"
  shows "agent_run_checks (apply_run_values (transition_values expected target failure_code now) r)"
proof -
  obtain st where st: "ar_status r = agent_run_status_value st" using assms(3) by blast
  have shape: "case expected of CREATED \<Rightarrow> ar_started_at r = None \<and> ar_completed_at r = None \<and> ar_failure_code r = None
    | RUNNING \<Rightarrow> ar_started_at r \<noteq> None \<and> ar_completed_at r = None \<and> ar_failure_code r = None
    | WAITING_FOR_APPROVAL \<Rightarrow> ar_started_at r \<noteq> None \<and> ar_completed_at r = None \<and> ar_failure_code r = None
    | _ \<Rightarrow> True"
    using assms(1,3) agent_shape [of expected "ar_started_at r" "ar_completed_at r" "ar_failure_code r"]
    by (simp add: agent_run_checks_def del: agent_run_status_values split: agent_run_status.splits)
  let ?r = "apply_run_values (transition_values expected target failure_code now) r"
  have "lifecycle_shape [''CREATED''] [''RUNNING'', ''WAITING_FOR_APPROVAL''] ''SUCCEEDED''
      (ar_status ?r) (ar_started_at ?r) (ar_completed_at ?r) (ar_failure_code ?r)"
    using shape assms(2,4) unfolding agent_edges_def
    by (auto simp: agent_shape apply_run_values_def transition_values_def Let_def
        simp del: agent_run_status_values)
  moreover have "timestamp_order (ar_started_at ?r) (ar_completed_at ?r)"
    using shape assms(2,5) unfolding agent_edges_def
    by (auto simp: timestamp_order_def apply_run_values_def transition_values_def Let_def)
  moreover have "opt_all (fullmatch TYPE_IDENTIFIER) (ar_failure_code ?r)"
    using shape assms(2,4) unfolding agent_edges_def
    by (auto simp: apply_run_values_def transition_values_def Let_def)
  ultimately show ?thesis
    using assms(1) agent_status_known [of target]
    by (simp add: agent_run_checks_def apply_run_values_def del: agent_run_status_values)
qed

text \<open>
  of the transitions that race for one state of a run, whatever they move it to and in
  whatever order their updates reach the database, exactly one succeeds if the run was in that
  state.
\<close>

theorem agent_transition_single_winner:
  assumes "\<forall>v \<in> set attempts. rv_status v \<noteq> expected"
  shows "case collect attempts (agent_transition_run tenant_id workspace_id run_id expected) s of
     (Inl e, u) \<Rightarrow> True
   | (Inr rs, u) \<Rightarrow> length (winners rs) =
       (if attempts \<noteq> [] \<and>
           (\<exists>r \<in> set (agent_runs (working s)). run_in_state tenant_id workspace_id run_id expected r)
        then 1 else 0)"
proof (cases "collect attempts (agent_transition_run tenant_id workspace_id run_id expected) s")
  case (Pair r u)
  show ?thesis
  proof (cases r)
    case (Inr rs)
    have "collect attempts (\<lambda>v. compare_set agent_runs put_agent_runs
        (run_in_state tenant_id workspace_id run_id expected) (\<lambda>_. apply_run_values v)) s = (Inr rs, u)"
      using Pair Inr by (simp add: agent_transition_run_def [abs_def])
    from run_moves.single_winner [OF this assms] show ?thesis
      using Pair Inr by (cases attempts) auto
  qed (use Pair in simp)
qed

section \<open>Versions of a definition\<close>

definition stores_definition ::
  "uuid \<Rightarrow> uuid \<Rightarrow> pystr \<Rightarrow> int \<Rightarrow> definition_fields \<Rightarrow> agent_definition \<Rightarrow> bool" where
  "stores_definition t w slug version data r \<longleftrightarrow> ad_tenant_id r = t \<and> ad_workspace_id r = w \<and>
     ad_slug r = slug \<and> ad_version r = version \<and> ad_name r = df_name data \<and>
     ad_status r = agent_definition_status_value (df_status data) \<and>
     ad_category r = df_category data \<and> ad_mission r = df_mission data \<and>
     ad_capabilities r = df_capabilities data \<and> ad_permissions r = df_permissions data"

lemma definition_unique:
  assumes "constraints d" and "r \<in> set (agent_definitions d)"
  shows "filter (\<lambda>x. ad_id x = ad_id r) (agent_definitions d) = [r]"
  using assms by (intro filter_distinct_key)
    (simp_all add: constraints_def agent_definition_table_ok_def definition_ids_def)

text \<open>What storing a definition and committing it leaves behind.\<close>

lemma stored_definition_runs:
  assumes c: "agent_repository_create_definition t w slug v data s = (Inr b, s2)"
    and j: "join_audit a s2 = (Inr (), s3)" and m: "commit s3 = (Inr (), s4)"
    and f: "refresh agent_definitions ad_id b s4 = (Inr r, u)"
  shows "stores_definition t w slug v data r \<and>
    agent_definitions (committed u) = agent_definitions (working s) @ [r]"
proof -
  have ok: "constraints (working s2)" and b: "stores_definition t w slug v data b"
    and w2: "agent_definitions (working s2) = agent_definitions (working s) @ [b]"
    using c by (auto simp: agent_repository_create_definition_def runs Let_def stores_definition_def)
  have w4: "agent_definitions (working s4) = agent_definitions (working s2)" "committed s4 = working s4"
    using join_audit_runs [OF j] m by (auto simp: Inr_runs)
  have "first_row (filter (\<lambda>x. ad_id x = ad_id b) (agent_definitions (working s2))) = Some b"
    using definition_unique [OF ok, of b] w2 by simp
  with f w4 have "r = b" "agent_definitions (committed u) = agent_definitions (working s2)"
    by (auto simp: Inr_runs_refresh)
  with b w2 show ?thesis by simp
qed

lemma latest_of_greatest:
  assumes "latest_of t w slug False d = Some l" and "r \<in> set (agent_definitions d)"
    and "same_role t w slug r"
  shows "same_role t w slug l \<and> l \<in> set (agent_definitions d) \<and> ad_version r \<le> ad_version l"
proof -
  let ?rows = "filter (same_role t w slug) (agent_definitions d)"
  let ?s = "sort_key (\<lambda>r. - ad_version r) ?rows"
  from assms(1) obtain rest where s: "?s = l # rest"
    by (auto simp: latest_of_def first_row_def split: list.splits)
  have l: "l \<in> set ?rows" using s by (metis list.set_intros(1) set_sort)
  have "r \<in> set ?s" using assms(2,3) by simp
  moreover have "sorted (map (\<lambda>r. - ad_version r) (l # rest))" using s by (metis sorted_sort_key)
  ultimately have "ad_version r \<le> ad_version l" using s by auto
  with l show ?thesis by simp
qed

lemma agent_create_version_runs:
  assumes run: "agent_create_version t w did data s = (Inr r, u)"
  shows "\<exists>source latest. source \<in> set (agent_definitions (working s)) \<and> ad_id source = did \<and>
    same_role t w (ad_slug source) source \<and>
    latest_of t w (ad_slug source) False (working s) = Some latest \<and>
    stores_definition t w (ad_slug source) (ad_version latest + 1) data r \<and>
    agent_definitions (committed u) = agent_definitions (working s) @ [r]"
proof -
  from run obtain s1 s2 source s3 latest a b s4 s5 s6 where
    sc: "agent_scope t w None None s = (Inr (), s1)" and
    src: "repository_get_definition t w did s1 = (Inr (Some source), s2)" and
    lat: "latest_definition t w (ad_slug source) False s2 = (Inr (Some latest), s3)" and
    c: "agent_repository_create_definition t w (ad_slug source) (ad_version latest + 1) data s3 = (Inr b, s4)" and
    j: "join_audit a s4 = (Inr (), s5)" and m: "commit s5 = (Inr (), s6)" and
    f: "refresh agent_definitions ad_id b s6 = (Inr r, u)"
    unfolding agent_create_version_def Inr_runs Inr_runs_option Inr_runs_handler by auto
  have w1: "working s1 = working s" using readsD(1) [OF reads_agent_scope sc] .
  have s2: "s2 = begin_stmt s1" and s3: "s3 = begin_stmt s2"
    and l: "latest_of t w (ad_slug source) False (working s2) = Some latest"
    and fs: "first_row (filter (\<lambda>r. ad_id r = did \<and> ad_tenant_id r = t \<and> ad_workspace_id r = w)
        (agent_definitions (working s1))) = Some source"
    using src lat by (auto simp: repository_get_definition_def select_one_def latest_definition_def Inr_runs)
  from first_row_filter_Some [OF fs] stored_definition_runs [OF c j m f] l w1 s2 s3
  show ?thesis by (intro exI [of _ source] exI [of _ latest]) (auto simp: same_role_def)
qed

lemma agent_create_version_late:
  "late (\<lambda>e. e = SQLAlchemyError) (agent_create_version t w did data)"
proof -
  have q: "steps same_committed (agent_repository_create_definition t w slug v data)" for slug v
    by (rule quiet.steps_agent_repository_create_definition) simp
  have a: "steps same_committed (join_audit x)" for x
    by (rule quiet.steps_join_audit) simp
  show ?thesis
    unfolding agent_create_version_def repository_get_definition_def latest_definition_def
    by (intro late_andthen late_bnd late_on_integrity_error late_commit_refresh_only q a
        quiet.stmt_rules quiet.steps_scopes quiet.steps_agent_scope quiet.steps_rules)
qed

text \<open>
  C27: a new version of a definition is numbered one above every stored version of the same role,
  stores the submitted fields, and is appended: no stored version changes.
\<close>

theorem agent_create_version_outcome:
  assumes "working s = committed s"
  shows "case agent_create_version tenant_id workspace_id definition_id data s of
      (Inl e, u) \<Rightarrow> committed u = committed s \<or> e = SQLAlchemyError
    | (Inr r, u) \<Rightarrow> \<exists>source latest. source \<in> set (agent_definitions (committed s)) \<and>
        ad_id source = definition_id \<and> same_role tenant_id workspace_id (ad_slug source) source \<and>
        latest \<in> set (agent_definitions (committed s)) \<and>
        stores_definition tenant_id workspace_id (ad_slug source) (ad_version latest + 1) data r \<and>
        (\<forall>d \<in> set (agent_definitions (committed s)).
          same_role tenant_id workspace_id (ad_slug source) d \<longrightarrow> ad_version d < ad_version r) \<and>
        agent_definitions (committed u) = agent_definitions (committed s) @ [r]"
proof (cases "agent_create_version tenant_id workspace_id definition_id data s")
  case (Pair x u)
  show ?thesis
  proof (cases x)
    case (Inl e)
    with Pair agent_create_version_late show ?thesis by (fastforce simp: late_def)
  next
    case (Inr r)
    then obtain source latest where *: "source \<in> set (agent_definitions (committed s))"
      "ad_id source = definition_id" "same_role tenant_id workspace_id (ad_slug source) source"
      and l: "latest_of tenant_id workspace_id (ad_slug source) False (committed s) = Some latest"
      and r: "stores_definition tenant_id workspace_id (ad_slug source) (ad_version latest + 1) data r"
      "agent_definitions (committed u) = agent_definitions (committed s) @ [r]"
      using Pair agent_create_version_runs [of tenant_id workspace_id definition_id data s r u] assms
      by auto
    have "ad_version d < ad_version r" if "d \<in> set (agent_definitions (committed s))"
      "same_role tenant_id workspace_id (ad_slug source) d" for d
      using latest_of_greatest [OF l that] r(1) by (simp add: stores_definition_def)
    with * r latest_of_greatest [OF l *(1,3)] Pair Inr show ?thesis by auto
  qed
qed

section \<open>Normal forms of the definition fields\<close>

lemma normalize_items_id:
  assumes "sorted vs" "distinct vs" and "\<And>v. v \<in> set vs \<Longrightarrow> strip v = v \<and> lower v = v \<and> trim v = v"
  shows "normalize_items (map trim vs) = vs"
proof -
  have "map (\<lambda>v. lower (strip v)) (map trim vs) = map (\<lambda>v. v) vs"
    unfolding map_map by (rule map_cong) (use assms in auto)
  with assms show ?thesis by (simp add: normalize_items_def remdups_id_iff_distinct sorted_sort_id)
qed

lemma length_normalize_items: "length (normalize_items vs) \<le> length vs"
  unfolding normalize_items_def using length_remdups_leq [of "map (\<lambda>v. lower (strip v)) vs"] by simp

lemma items_field_stable:
  assumes some: "items_field n pat vs = Some ws"
    and plain: "\<And>w c. fullmatch pat w \<Longrightarrow> c \<in> set w \<Longrightarrow> ident_char c \<or> c = CHR ''.''"
    and nonempty: "\<not> fullmatch pat []"
  shows "items_field n pat ws = Some ws \<and> sorted ws \<and> distinct ws"
proof -
  have ws: "ws = normalize_items (map trim vs)" and len: "length vs \<le> 32"
    and b: "\<forall>v \<in> set vs. between 1 n (trim v)" and f: "\<forall>v \<in> set ws. fullmatch pat v"
    using some by (auto simp: items_field_def list_all_iff split: if_splits)
  have id: "strip v = v \<and> lower v = v \<and> trim v = v" if "v \<in> set ws" for v
    by (rule plain_word) (use plain f that in blast)
  have sd: "sorted ws" "distinct ws" by (simp_all add: ws normalize_items_def)
  have "between 1 n (trim v)" if v: "v \<in> set ws" for v
  proof -
    obtain x where x: "x \<in> set vs" "v = lower (strip (trim x))"
      using v unfolding ws normalize_items_def by auto
    have "length v \<le> n"
      using b x length_strip(1) [of "trim x"] by (auto simp: between_def lower_def)
    moreover have "v \<noteq> []" using f v nonempty by auto
    ultimately show ?thesis using id [OF v] by (cases v) (simp_all add: between_def)
  qed
  then show ?thesis
    using sd len f length_normalize_items [of "map trim vs"] normalize_items_id [OF sd id]
    by (auto simp: items_field_def list_all_iff ws [symmetric])
qed

lemma no_empty_identifier: "\<not> fullmatch TYPE_IDENTIFIER []" "\<not> fullmatch SOURCE_PATTERN []"
  by code_simp+

lemma definition_text_stable: "definition_text n v = Some w \<Longrightarrow> definition_text n w = Some w"
  using length_strip(1) [of v]
  by (auto simp: definition_text_def between_def split: if_splits) (cases "strip v"; simp)

lemma definition_category_stable: "definition_category v = Some w \<Longrightarrow> definition_category w = Some w"
  by (auto simp: definition_category_def split: if_splits)

text \<open>
  validating the fields of a definition brings them into a normal form: validating the result
  again accepts it and changes nothing, and its capabilities and permissions are strictly sorted
  identifiers.
\<close>

theorem definition_fields_normal:
  "case DefinitionFields d of None \<Rightarrow> True
   | Some v \<Rightarrow> DefinitionFields v = Some v \<and>
       sorted (df_capabilities v) \<and> distinct (df_capabilities v) \<and>
       sorted (df_permissions v) \<and> distinct (df_permissions v)"
proof (cases "DefinitionFields d")
  case (Some v)
  from Some obtain
    n: "definition_text 120 (df_name d) = Some (df_name v)" and
    c: "optional_field definition_category (df_category d) = Some (df_category v)" and
    m: "definition_text 2000 (df_mission d) = Some (df_mission v)" and
    k: "items_field 64 TYPE_IDENTIFIER (df_capabilities d) = Some (df_capabilities v)" and
    p: "items_field 100 SOURCE_PATTERN (df_permissions d) = Some (df_permissions v)"
    by (auto simp: DefinitionFields_def split: option.splits)
  have "optional_field definition_category (df_category v) = Some (df_category v)"
    using c by (auto simp: optional_field_def definition_category_stable split: option.splits)
  with definition_text_stable [OF n] definition_text_stable [OF m]
    items_field_stable [OF k TYPE_IDENTIFIER_chars no_empty_identifier(1)]
    items_field_stable [OF p SOURCE_PATTERN_chars no_empty_identifier(2)]
  show ?thesis using Some by (simp add: DefinitionFields_def)
qed simp

section \<open>Concrete instances\<close>

definition sample_definition :: agent_definition where
  "sample_definition = \<lparr>ad_id = 20, ad_tenant_id = 1, ad_workspace_id = 2, ad_name = ''Dev'',
     ad_slug = ''dev'', ad_version = 1, ad_status = ''ENABLED'', ad_category = None,
     ad_mission = ''Build'', ad_capabilities = [], ad_permissions = [], ad_created_at = 0\<rparr>"

definition sample_agent_run :: agent_run where
  "sample_agent_run = \<lparr>ar_id = 21, ar_tenant_id = 1, ar_workspace_id = 2, ar_project_id = Some 3,
     ar_task_id = Some 4, ar_agent_definition_id = 20, ar_agent_version = 1, ar_agent_name = ''Dev'',
     ar_agent_slug = ''dev'', ar_model_run_id = None, ar_parent_agent_run_id = None,
     ar_status = ''RUNNING'', ar_correlation_id = None, ar_failure_code = None,
     ar_started_at = Some 5, ar_completed_at = None, ar_created_at = 0, ar_updated_at = 5\<rparr>"

definition sample_agent_db :: db where
  "sample_agent_db = sample_db
     \<lparr>agent_definitions := [sample_definition], agent_runs := [sample_agent_run]\<rparr>"

lemma sample_agent_ok: "constraints sample_agent_db"
  by code_simp

lemma sample_agent_tables:
  "agent_definitions sample_agent_db = [sample_definition]"
  "agent_runs sample_agent_db = [sample_agent_run]"
  "run_in_state (Suc 0) 2 21 RUNNING sample_agent_run" "ad_version sample_definition = 1"
  by (simp_all add: sample_agent_db_def sample_definition_def sample_agent_run_def
      run_in_state_def scoped_agent_run_def)

lemma agent_transition_outcome_witness:
  "case agent_transition 1 2 21 RUNNING SUCCEEDED None (sample_session sample_agent_db) of
     (Inl e, u) \<Rightarrow> committed u = sample_agent_db
   | (Inr r, u) \<Rightarrow> ar_status r = ''SUCCEEDED''"
  using agent_transition_outcome [of "sample_session sample_agent_db" 1 2 21 RUNNING SUCCEEDED None]
  by (auto split: prod.splits sum.splits)

lemma agent_move_keeps_checks_witness:
  "agent_run_checks (apply_run_values
     (transition_values RUNNING FAILED (Some ''provider_timeout'') 9) sample_agent_run)"
proof (rule agent_move_keeps_checks)
  show "agent_run_checks sample_agent_run" by code_simp
  show "(RUNNING, FAILED) \<in> agent_edges" by (simp add: agent_edges_def)
  show "ar_status sample_agent_run = agent_run_status_value RUNNING" by (simp add: sample_agent_run_def)
  have "fullmatch TYPE_IDENTIFIER ''provider_timeout''" by code_simp
  then show "if FAILED = FAILED then \<exists>c. Some ''provider_timeout'' = Some c \<and> fullmatch TYPE_IDENTIFIER c
      else Some ''provider_timeout'' = None" by simp
  show "opt_all (\<lambda>t. t \<le> 9) (ar_started_at sample_agent_run)" by (simp add: sample_agent_run_def)
qed

lemma agent_transition_single_winner_witness:
  "case collect [transition_values RUNNING SUCCEEDED None 9, transition_values RUNNING CANCELLED None 9]
      (agent_transition_run 1 2 21 RUNNING) (sample_session sample_agent_db) of
     (Inl e, u) \<Rightarrow> True | (Inr rs, u) \<Rightarrow> length (winners rs) = 1"
  using agent_transition_single_winner [where s = "sample_session sample_agent_db" and expected = RUNNING
      and attempts = "[transition_values RUNNING SUCCEEDED None 9, transition_values RUNNING CANCELLED None 9]"
      and tenant_id = 1 and workspace_id = 2 and run_id = 21]
  by (auto simp: sample_agent_tables split: prod.splits sum.splits)

definition sample_fields :: definition_fields where
  "sample_fields = \<lparr>df_name = ''Dev'', df_status = ENABLED, df_category = None,
     df_mission = ''Build more'', df_capabilities = [], df_permissions = []\<rparr>"

lemma agent_create_version_outcome_witness:
  "case agent_create_version 1 2 20 sample_fields (sample_session sample_agent_db) of
     (Inl e, u) \<Rightarrow> committed u = sample_agent_db \<or> e = SQLAlchemyError
   | (Inr r, u) \<Rightarrow> ad_version r = 2 \<and> agent_definitions (committed u) = [sample_definition, r]"
proof (cases "agent_create_version 1 2 20 sample_fields (sample_session sample_agent_db)")
  case (Pair x u)
  show ?thesis
    using agent_create_version_outcome [where s = "sample_session sample_agent_db" and tenant_id = 1
        and workspace_id = 2 and definition_id = 20 and data = sample_fields]
    unfolding Pair by (cases x) (auto simp: sample_agent_tables stores_definition_def)
qed

end
