(* ===== verification/Tools.thy ===== *)
theory Tools
  imports Approvals Agents
begin

text \<open>
  The gateway to the workspace tools: the closed contracts of proposals (\<open>modules/tools/contracts.py\<close>),
  the registry of trusted tools (\<open>modules/tools/executor.py\<close>), the scoped persistence of tool calls
  (\<open>modules/tools/repository.py\<close>) and the execution of proposals and of approved mutations
  (\<open>modules/tools/service.py\<close>). The executors work on the files of the session; writing a file may
  fail like a statement, and then leaves the file as it was. Row locks are left out.
\<close>

section \<open>Proposals\<close>

definition keys_within :: "pystr list \<Rightarrow> (pyval \<times> pyval) list \<Rightarrow> bool" where
  "keys_within ks kvs = list_all (\<lambda>(k, _). List.member (map PStr ks) k) kvs"

definition parse_count :: "pyval \<Rightarrow> nat option" where
  "parse_count v = (case v of PInt n \<Rightarrow> if 0 \<le> n then Some (nat n) else None | _ \<Rightarrow> None)"

text \<open>A field of a contract: absent, it takes its default, if it has one.\<close>

definition field_of :: "(pyval \<times> pyval) list \<Rightarrow> pystr \<Rightarrow> 'a option \<Rightarrow> (pyval \<Rightarrow> 'a option) \<Rightarrow> 'a option" where
  "field_of kvs k absent parse = (case dict_get kvs k of None \<Rightarrow> absent | Some v \<Rightarrow> parse v)"

definition WorkspaceListFilesInput :: "pyval \<Rightarrow> list_input option" where
  "WorkspaceListFilesInput v = (case v of
     PDict kvs \<Rightarrow>
       if \<not> keys_within [''path'', ''max_depth'', ''max_results''] kvs then None
       else (case (field_of kvs ''path'' (Some ''.'') parse_str, field_of kvs ''max_depth'' (Some 2) parse_count,
                   field_of kvs ''max_results'' (Some 100) parse_count) of
           (Some p, Some d, Some r) \<Rightarrow>
             let x = \<lparr>li_path = p, li_max_depth = d, li_max_results = r\<rparr>
             in if list_input_valid x then Some x else None
         | _ \<Rightarrow> None)
   | _ \<Rightarrow> None)"

definition WorkspaceReadFileInput :: "pyval \<Rightarrow> read_input option" where
  "WorkspaceReadFileInput v = (case v of
     PDict kvs \<Rightarrow>
       if \<not> keys_within [''path'', ''max_bytes''] kvs then None
       else (case (field_of kvs ''path'' None parse_str, field_of kvs ''max_bytes'' (Some 32768) parse_count) of
           (Some p, Some n) \<Rightarrow>
             let x = \<lparr>ri_path = p, ri_max_bytes = n\<rparr> in if read_input_valid x then Some x else None
         | _ \<Rightarrow> None)
   | _ \<Rightarrow> None)"

definition WorkspaceSearchTextInput :: "pyval \<Rightarrow> search_input option" where
  "WorkspaceSearchTextInput v = (case v of
     PDict kvs \<Rightarrow>
       if \<not> keys_within [''query'', ''path'', ''max_results''] kvs then None
       else (case (field_of kvs ''query'' None parse_str, field_of kvs ''path'' (Some ''.'') parse_str,
                   field_of kvs ''max_results'' (Some 50) parse_count) of
           (Some q, Some p, Some r) \<Rightarrow>
             let x = \<lparr>si_query = q, si_path = p, si_max_results = r\<rparr>
             in if search_input_valid x then Some x else None
         | _ \<Rightarrow> None)
   | _ \<Rightarrow> None)"

definition WorkspaceReplaceTextInput :: "pyval \<Rightarrow> replace_input option" where
  "WorkspaceReplaceTextInput v = (case v of
     PDict kvs \<Rightarrow>
       if \<not> keys_within [''path'', ''search'', ''replacement'', ''expected_matches''] kvs then None
       else (case (field_of kvs ''path'' None parse_str, field_of kvs ''search'' None parse_str,
                   field_of kvs ''replacement'' None parse_str,
                   field_of kvs ''expected_matches'' (Some 1) parse_count) of
           (Some p, Some s, Some r, Some n) \<Rightarrow>
             let x = \<lparr>re_path = p, re_search = s, re_replacement = r, re_expected_matches = n\<rparr>
             in if replace_input_valid x then Some x else None
         | _ \<Rightarrow> None)
   | _ \<Rightarrow> None)"

datatype executor = ListFilesExecutor | ReadFileExecutor | SearchTextExecutor | ReplaceTextExecutor

datatype tool_input =
    List_input list_input
  | Read_input read_input
  | Search_input search_input
  | Replace_input replace_input

text \<open>\<open>executor.input_model.model_validate(value, strict=True)\<close>; \<open>None\<close> is a \<open>ValidationError\<close>.\<close>

definition parse_input :: "executor \<Rightarrow> pyval \<Rightarrow> tool_input option" where
  "parse_input ex v = (case ex of
     ListFilesExecutor \<Rightarrow> map_option List_input (WorkspaceListFilesInput v)
   | ReadFileExecutor \<Rightarrow> map_option Read_input (WorkspaceReadFileInput v)
   | SearchTextExecutor \<Rightarrow> map_option Search_input (WorkspaceSearchTextInput v)
   | ReplaceTextExecutor \<Rightarrow> map_option Replace_input (WorkspaceReplaceTextInput v))"

text \<open>\<open>model_dump(mode="json")\<close>.\<close>

definition dump_input :: "tool_input \<Rightarrow> (pyval \<times> pyval) list" where
  "dump_input i = (case i of
     List_input x \<Rightarrow> [(PStr ''path'', PStr (li_path x)), (PStr ''max_depth'', PInt (int (li_max_depth x))),
       (PStr ''max_results'', PInt (int (li_max_results x)))]
   | Read_input x \<Rightarrow> [(PStr ''path'', PStr (ri_path x)), (PStr ''max_bytes'', PInt (int (ri_max_bytes x)))]
   | Search_input x \<Rightarrow> [(PStr ''query'', PStr (si_query x)), (PStr ''path'', PStr (si_path x)),
       (PStr ''max_results'', PInt (int (si_max_results x)))]
   | Replace_input x \<Rightarrow> [(PStr ''path'', PStr (re_path x)), (PStr ''search'', PStr (re_search x)),
       (PStr ''replacement'', PStr (re_replacement x)),
       (PStr ''expected_matches'', PInt (int (re_expected_matches x)))])"

record tool_proposal =
  pp_call_key :: pystr
  pp_tool_name :: pystr
  pp_arguments :: tool_input

definition CALL_KEY :: rx where
  "CALL_KEY = Seq (Cls lower_az) (Seq (Star (Cls ident_char))
     (Star (Seq (Cls (\<lambda>c. c = CHR ''.'' \<or> c = CHR ''-'')) (Seq (Cls ident_char) (Star (Cls ident_char))))))"

definition call_key_of :: "pystr \<Rightarrow> pystr option" where
  "call_key_of v = (let w = lower (strip v) in
     if 100 < length w \<or> \<not> fullmatch CALL_KEY w then None else Some w)"

definition argument_models :: "(pystr \<times> executor) list" where
  "argument_models = [(''workspace.list_files'', ListFilesExecutor), (''workspace.read_file'', ReadFileExecutor),
     (''workspace.search_text'', SearchTextExecutor), (''workspace.replace_text'', ReplaceTextExecutor)]"

definition ToolProposal :: "pyval \<Rightarrow> tool_proposal option" where
  "ToolProposal v = (case v of
     PDict kvs \<Rightarrow>
       if \<not> keys_within [''call_key'', ''tool_name'', ''arguments''] kvs then None
       else (case (Option.bind (field_of kvs ''call_key'' None parse_str) call_key_of,
                   field_of kvs ''tool_name'' None parse_str) of
           (Some k, Some name) \<Rightarrow>
             (case map_of argument_models name of
                None \<Rightarrow> None
              | Some ex \<Rightarrow> map_option (\<lambda>a. \<lparr>pp_call_key = k, pp_tool_name = name, pp_arguments = a\<rparr>)
                  (parse_input ex (case dict_get kvs ''arguments'' of None \<Rightarrow> PNone | Some a \<Rightarrow> a)))
         | _ \<Rightarrow> None)
   | _ \<Rightarrow> None)"

section \<open>The registry\<close>

datatype side_effect_class = READ_ONLY | MUTATION

definition side_effect_value :: "side_effect_class \<Rightarrow> pystr" where
  "side_effect_value c = (case c of READ_ONLY \<Rightarrow> ''READ_ONLY'' | MUTATION \<Rightarrow> ''MUTATION'')"

record registered_tool =
  rt_tool_id :: pystr
  rt_executor :: executor
  rt_risk_class :: risk_level
  rt_required_permission :: pystr
  rt_policy_action :: pystr
  rt_side_effect_class :: side_effect_class

definition registered :: "pystr \<Rightarrow> executor \<Rightarrow> side_effect_class \<Rightarrow> risk_level \<Rightarrow> registered_tool" where
  "registered tool_id executor side_effect risk =
     \<lparr>rt_tool_id = tool_id, rt_executor = executor, rt_risk_class = risk, rt_required_permission = tool_id,
      rt_policy_action = ''tool.'' @ tool_id, rt_side_effect_class = side_effect\<rparr>"

definition TRUSTED_TOOL_REGISTRY :: "registered_tool list" where
  "TRUSTED_TOOL_REGISTRY =
    [registered ''workspace.list_files'' ListFilesExecutor READ_ONLY LOW,
     registered ''workspace.read_file'' ReadFileExecutor READ_ONLY LOW,
     registered ''workspace.search_text'' SearchTextExecutor READ_ONLY LOW,
     registered ''workspace.replace_text'' ReplaceTextExecutor MUTATION MEDIUM]"

definition registry_get :: "pystr \<Rightarrow> registered_tool option" where
  "registry_get tool_id = List.find (\<lambda>t. rt_tool_id t = tool_id) TRUSTED_TOOL_REGISTRY"

section \<open>Tool calls\<close>

definition get_by_key :: "uuid \<Rightarrow> uuid \<Rightarrow> uuid \<Rightarrow> pystr \<Rightarrow> tool_call option prog" where
  "get_by_key tenant_id workspace_id agent_run_id call_key =
     select_one tool_calls (\<lambda>c. tc_tenant_id c = tenant_id \<and> tc_workspace_id c = workspace_id \<and>
       tc_agent_run_id c = agent_run_id \<and> tc_call_key c = call_key)"

definition get_for_approval :: "uuid \<Rightarrow> uuid \<Rightarrow> uuid \<Rightarrow> tool_call option prog" where
  "get_for_approval tenant_id workspace_id approval_request_id =
     select_one tool_calls (\<lambda>c. tc_tenant_id c = tenant_id \<and> tc_workspace_id c = workspace_id \<and>
       tc_approval_request_id c = Some approval_request_id)"

definition list_for_agent_runs :: "uuid list \<Rightarrow> tool_call list prog" where
  "list_for_agent_runs run_ids =
    (if run_ids = [] then ret []
     else query (\<lambda>d. sort_key (\<lambda>c. (tc_created_at c, tc_id c))
       (filter (\<lambda>c. List.member run_ids (tc_agent_run_id c)) (tool_calls d))))"

definition create_tool_call :: "(uuid \<Rightarrow> instant \<Rightarrow> tool_call) \<Rightarrow> tool_call prog" where
  "create_tool_call row =
     bnd uuid4 (\<lambda>u. exec_stmt (\<lambda>now d. (row u now, d\<lparr>tool_calls := tool_calls d @ [row u now]\<rparr>)))"

record call_state =
  cs_status :: pystr
  cs_policy_effect :: "pystr option"
  cs_matched_rule_ids :: "pystr list option"
  cs_approval_request_id :: "uuid option"
  cs_result_metadata :: "pyval option"
  cs_failure_code :: "pystr option"
  cs_started_at :: "instant option"
  cs_completed_at :: "instant option"

definition call_state :: "pystr \<Rightarrow> call_state" where
  "call_state status = \<lparr>cs_status = status, cs_policy_effect = None, cs_matched_rule_ids = None,
     cs_approval_request_id = None, cs_result_metadata = None, cs_failure_code = None,
     cs_started_at = None, cs_completed_at = None\<rparr>"

definition or_else :: "'a option \<Rightarrow> 'a option \<Rightarrow> 'a option" where
  "or_else x y = (case x of None \<Rightarrow> y | Some _ \<Rightarrow> x)"

text \<open>The status and the failure code are always written, the other columns when they are given.\<close>

definition apply_call_state :: "call_state \<Rightarrow> tool_call \<Rightarrow> tool_call" where
  "apply_call_state v c =
     c\<lparr>tc_status := cs_status v, tc_failure_code := cs_failure_code v,
       tc_policy_effect := or_else (cs_policy_effect v) (tc_policy_effect c),
       tc_matched_rule_ids := (case cs_matched_rule_ids v of None \<Rightarrow> tc_matched_rule_ids c | Some ids \<Rightarrow> ids),
       tc_approval_request_id := or_else (cs_approval_request_id v) (tc_approval_request_id c),
       tc_result_metadata := or_else (cs_result_metadata v) (tc_result_metadata c),
       tc_started_at := or_else (cs_started_at v) (tc_started_at c),
       tc_completed_at := or_else (cs_completed_at v) (tc_completed_at c)\<rparr>"

definition put_tool_calls :: "tool_call list \<Rightarrow> db \<Rightarrow> db" where
  "put_tool_calls rows d = d\<lparr>tool_calls := rows\<rparr>"

definition set_state :: "uuid \<Rightarrow> call_state \<Rightarrow> tool_call prog" where
  "set_state tool_call_id v =
     bnd (compare_set tool_calls put_tool_calls (\<lambda>c. tc_id c = tool_call_id) (\<lambda>_. apply_call_state v))
       (require (PythonError ''AssertionError''))"

section \<open>The host\<close>

definition get_files :: "node prog" where
  "get_files s = (Inr (files s), s)"

definition get_libs :: "tool_lib prog" where
  "get_libs s = (Inr (libs s), s)"

definition get_environment :: "pystr prog" where
  "get_environment s = (Inr (environment s), s)"

text \<open>\<open>round((perf_counter() - timer) * 1000, 3)\<close>\<close>

definition elapsed_ms :: "pyval prog" where
  "elapsed_ms s = (Inr (PFloat (Finite (elapsed_at s (tick s)))), s\<lparr>tick := Suc (tick s)\<rparr>)"

text \<open>
  \<open>ReplaceTextExecutor.apply\<close> on the files of the session. Where it comes to writing, the write may
  fail (\<open>OSError\<close>), and the file stays.
\<close>

definition apply_tool :: "replace_input \<Rightarrow> pyval \<Rightarrow> evidence attempt prog" where
  "apply_tool data prepared s =
    (case apply_mutation (libs s) (files s) data prepared of
       Inl e \<Rightarrow> (Inl e, s)
     | Inr (Inl code) \<Rightarrow> (Inr (Inl code), s)
     | Inr (Inr (Applied path True, _)) \<Rightarrow> (Inr (Inr (Applied path True)), s)
     | Inr (Inr (ev, tree)) \<Rightarrow>
         if fault_at s (tick s) then (Inl (PythonError ''OSError''), s\<lparr>tick := Suc (tick s)\<rparr>)
         else (Inr (Inr ev), s\<lparr>files := tree, tick := Suc (tick s)\<rparr>))"

section \<open>Results and safe metadata\<close>

record tool_evidence =
  te_tool_name :: pystr
  te_call_key :: pystr
  te_data :: evidence

record gateway_result =
  gr_tool_call_id :: pystr
  gr_status :: pystr
  gr_policy_effect :: "pystr option"
  gr_approval_id :: "pystr option"
  gr_evidence :: "tool_evidence option"
  gr_failure_code :: "pystr option"

definition gateway_result_of :: "tool_call \<Rightarrow> tool_evidence option \<Rightarrow> pystr option \<Rightarrow> gateway_result" where
  "gateway_result_of c ev failure_code =
     \<lparr>gr_tool_call_id = uuid_str (tc_id c), gr_status = tc_status c, gr_policy_effect = tc_policy_effect c,
      gr_approval_id = map_option uuid_str (tc_approval_request_id c), gr_evidence = ev,
      gr_failure_code = or_else failure_code (tc_failure_code c)\<rparr>"

definition digest_of :: "tool_lib \<Rightarrow> pystr \<Rightarrow> pystr \<Rightarrow> (pyval \<times> pyval) list" where
  "digest_of lib name t = [(PStr (name @ ''_sha256''), PStr (sha256 lib (utf8_encode (codes t)))),
     (PStr (name @ ''_length''), PInt (int (length t)))]"

definition safe_input_metadata :: "tool_lib \<Rightarrow> tool_input \<Rightarrow> pyval" where
  "safe_input_metadata lib i = (case i of
     Search_input x \<Rightarrow> PDict (filter (\<lambda>(k, _). k \<noteq> PStr ''query'') (dump_input i) @ digest_of lib ''query'' (si_query x))
   | Replace_input x \<Rightarrow>
       PDict (filter (\<lambda>(k, _). k \<noteq> PStr ''search'' \<and> k \<noteq> PStr ''replacement'') (dump_input i) @
         digest_of lib ''search'' (re_search x) @ digest_of lib ''replacement'' (re_replacement x))
   | _ \<Rightarrow> PDict (dump_input i))"

text \<open>Equality of dictionaries does not depend on the order of their keys.\<close>

definition same_json :: "pyval \<Rightarrow> pyval \<Rightarrow> bool" where
  "same_json v w = (case (v, w) of (PDict a, PDict b) \<Rightarrow> set a = set b | _ \<Rightarrow> v = w)"

section \<open>Authority and policy\<close>

definition policy_resource :: "agent_run \<Rightarrow> pystr option \<times> uuid option" where
  "policy_resource run =
    (if ar_task_id run \<noteq> None then (Some ''task'', ar_task_id run)
     else if ar_project_id run \<noteq> None then (Some ''project'', ar_project_id run)
     else (None, None))"

definition policy_request :: "agent_run \<Rightarrow> registered_tool \<Rightarrow> uuid \<Rightarrow> pystr \<Rightarrow> evaluation_request" where
  "policy_request run tool tool_call_id env =
     \<lparr>rq_tenant_id = ar_tenant_id run, rq_workspace_id = ar_workspace_id run,
      rq_action = rt_policy_action tool, rq_actor_type = Some ''agent'',
      rq_actor_id = Some (''toolcall:'' @ uuid_str tool_call_id),
      rq_resource_type = fst (policy_resource run), rq_resource_id = snd (policy_resource run),
      rq_project_id = ar_project_id run, rq_task_id = ar_task_id run,
      rq_context = \<lparr>cx_risk_level = Some (rt_risk_class tool), cx_environment = Some env,
        cx_reversible = Some True\<rparr>\<rparr>"

definition scoped_definition :: "uuid \<Rightarrow> uuid \<Rightarrow> uuid \<Rightarrow> agent_definition \<Rightarrow> bool" where
  "scoped_definition tenant_id workspace_id definition_id r =
     (ad_id r = definition_id \<and> ad_tenant_id r = tenant_id \<and> ad_workspace_id r = workspace_id)"

definition load_authority ::
  "uuid \<Rightarrow> uuid \<Rightarrow> uuid \<Rightarrow> uuid option \<Rightarrow> (agent_run \<times> agent_definition) prog" where
  "load_authority tenant_id workspace_id agent_run_id proposal_model_run_id =
     bnd (select_one agent_runs (scoped_agent_run tenant_id workspace_id agent_run_id)) (\<lambda>row.
     bnd (require not_found row) (\<lambda>run.
     if ar_status run \<noteq> ''RUNNING''
     then throw (ApplicationError ''tool_agent_run_inactive'' ''Agent run is not active'' 409)
     else bnd (select_one agent_definitions (scoped_definition tenant_id workspace_id (ar_agent_definition_id run)))
       (\<lambda>row'.
     let invalid = ApplicationError ''tool_agent_authority_invalid'' ''Agent authority is invalid'' 409 in
     bnd (require invalid row') (\<lambda>definition.
     if ad_version definition \<noteq> ar_agent_version run then throw invalid
     else (case proposal_model_run_id of
         None \<Rightarrow> ret (run, definition)
       | Some m \<Rightarrow>
           bnd (select_one model_runs (\<lambda>r. mr_id r = m \<and> mr_tenant_id r = tenant_id \<and>
               mr_workspace_id r = workspace_id \<and> mr_agent_run_id r = Some (ar_id run))) (\<lambda>row''.
           bnd (require (ApplicationError ''tool_model_linkage_invalid'' ''Tool proposal linkage is invalid'' 409) row'')
             (\<lambda>_. ret (run, definition))))))))"

section \<open>Events and audit\<close>

definition workflow_link :: "uuid \<Rightarrow> (uuid \<times> uuid) option prog" where
  "workflow_link agent_run_id = query (\<lambda>d. first_row (concat (map (\<lambda>w.
     map (\<lambda>r. (wr_id w, sr_id r)) (filter (\<lambda>r. sr_workflow_run_id r = wr_id w \<and> sr_agent_run_id r = Some agent_run_id)
       (workflow_step_runs d))) (workflow_runs d))))"

definition optional_item :: "pystr \<Rightarrow> pystr option \<Rightarrow> (pyval \<times> pyval) list" where
  "optional_item k v = (case v of None \<Rightarrow> [] | Some t \<Rightarrow> [(PStr k, PStr t)])"

definition null_or :: "pystr option \<Rightarrow> pyval" where
  "null_or v = (case v of None \<Rightarrow> PNone | Some t \<Rightarrow> PStr t)"

definition observed_payload :: "tool_call \<Rightarrow> (uuid \<times> uuid) option \<Rightarrow> pyval" where
  "observed_payload c link = PDict
    ([(PStr ''tool_call_id'', PStr (uuid_str (tc_id c))), (PStr ''agent_run_id'', PStr (uuid_str (tc_agent_run_id c))),
      (PStr ''tool_name'', PStr (tc_tool_id c)), (PStr ''status'', PStr (tc_status c)),
      (PStr ''execution_target_class'', PStr (tc_execution_target_class c))] @
     (case link of None \<Rightarrow> [] | Some (w, r) \<Rightarrow>
        [(PStr ''workflow_run_id'', PStr (uuid_str w)), (PStr ''workflow_step_run_id'', PStr (uuid_str r))]) @
     optional_item ''policy_effect'' (tc_policy_effect c) @ optional_item ''failure_code'' (tc_failure_code c) @
     (case tc_result_metadata c of None \<Rightarrow> [] | Some m \<Rightarrow>
        List.map_filter (\<lambda>k. map_option (Pair (PStr k)) (entry m k))
          [''result_count'', ''bytes_returned'', ''truncated'', ''duration_ms'']))"

definition observable :: "tool_call \<Rightarrow> pystr \<Rightarrow> pystr \<Rightarrow> unit prog" where
  "observable c event_type outcome =
     bnd (workflow_link (tc_agent_run_id c)) (\<lambda>link.
     andthen (join_event \<lparr>ec_tenant_id = tc_tenant_id c, ec_workspace_id = tc_workspace_id c,
        ec_event_type = event_type, ec_source = ''tool_gateway'', ec_correlation_id = None,
        ec_project_id = tc_project_id c, ec_task_id = tc_task_id c, ec_payload = Some (observed_payload c link)\<rparr>)
      (join_audit ((audit_fields (tc_tenant_id c) (tc_workspace_id c) ''tool.execute'' ''service'' outcome)
        \<lparr>ac_project_id := tc_project_id c, ac_task_id := tc_task_id c,
         ac_resource_type := (if tc_task_id c \<noteq> None then Some ''task''
           else if tc_project_id c \<noteq> None then Some ''project'' else None),
         ac_resource_id := (if tc_task_id c \<noteq> None then tc_task_id c else tc_project_id c),
         ac_metadata := Some (PDict
           [(PStr ''tool_call_id'', PStr (uuid_str (tc_id c))),
            (PStr ''agent_run_id'', PStr (uuid_str (tc_agent_run_id c))),
            (PStr ''tool_name'', PStr (tc_tool_id c)), (PStr ''status'', PStr (tc_status c)),
            (PStr ''policy_effect'', null_or (tc_policy_effect c)),
            (PStr ''failure_code'', null_or (tc_failure_code c))])\<rparr>)))"

definition deny :: "tool_call \<Rightarrow> pystr \<Rightarrow> evaluation_result option \<Rightarrow> gateway_result prog" where
  "deny c code decision =
     bnd now_utc (\<lambda>now.
     bnd (set_state (tc_id c) ((call_state ''BLOCKED'')
       \<lparr>cs_policy_effect := map_option (effect_value \<circ> rs_effect) decision,
        cs_matched_rule_ids := map_option (map uuid_str \<circ> rs_matched_rule_ids) decision,
        cs_failure_code := Some code, cs_completed_at := Some now\<rparr>)) (\<lambda>c'.
     andthen (observable c' ''tool.call.blocked'' ''blocked'')
     (andthen commit (ret (gateway_result_of c' None None)))))"

section \<open>Executing a proposal\<close>

definition applied_metadata :: "tool_call \<Rightarrow> evidence \<Rightarrow> (pyval \<times> pyval) list" where
  "applied_metadata c ev = (case ev of
     Applied path already \<Rightarrow>
       [(PStr ''path'', PStr path), (PStr ''already_applied'', PBool already),
        (PStr ''mutation_fingerprint'', null_or (tc_mutation_fingerprint c))]
   | _ \<Rightarrow> [])"

text \<open>
  The call of the executor and the metadata it leaves. \<open>value.prepared_mutation or {}\<close> of a stored
  preparation is the preparation.
\<close>

definition perform :: "tool_call \<Rightarrow> tool_input \<Rightarrow> (evidence \<times> (pyval \<times> pyval) list) attempt prog" where
  "perform c i =
     bnd get_files (\<lambda>root. bnd get_libs (\<lambda>lib.
     let reading = (\<lambda>r. ret (map_sum id (\<lambda>(ev, m). (ev, case m of PDict kvs \<Rightarrow> kvs | _ \<Rightarrow> [])) r)) in
     case i of
       List_input x \<Rightarrow> reading (list_files root x)
     | Read_input x \<Rightarrow> reading (read_file (sha256 lib) root x)
     | Search_input x \<Rightarrow> reading (search_workspace (sha256 lib) root x)
     | Replace_input x \<Rightarrow>
         bnd (apply_tool x (case tc_prepared_mutation c of None \<Rightarrow> PDict [] | Some v \<Rightarrow> v))
           (\<lambda>r. ret (map_sum id (\<lambda>ev. (ev, applied_metadata c ev)) r))))"

text \<open>The end of a call: the failure or the success is stored, observed and committed.\<close>

definition finish_call ::
  "tool_call \<Rightarrow> (evidence \<times> (pyval \<times> pyval) list) attempt \<Rightarrow> gateway_result prog" where
  "finish_call c r = (case r of
     Inl code \<Rightarrow>
       bnd now_utc (\<lambda>now. bnd elapsed_ms (\<lambda>ms.
       bnd (set_state (tc_id c) ((call_state ''FAILED'')
         \<lparr>cs_failure_code := Some code, cs_completed_at := Some now,
          cs_result_metadata := Some (PDict [(PStr ''duration_ms'', ms)])\<rparr>)) (\<lambda>c'.
       andthen (observable c' ''tool.call.failed'' ''failure'')
       (andthen commit (ret (gateway_result_of c' None None))))))
   | Inr (ev, metadata) \<Rightarrow>
       bnd elapsed_ms (\<lambda>ms. bnd now_utc (\<lambda>now.
       bnd (set_state (tc_id c) ((call_state ''SUCCEEDED'')
         \<lparr>cs_result_metadata := Some (PDict (metadata @ [(PStr ''duration_ms'', ms)])),
          cs_completed_at := Some now\<rparr>)) (\<lambda>c'.
       andthen (observable c' ''tool.call.completed'' ''success'')
       (andthen commit (ret (gateway_result_of c'
         (Some \<lparr>te_tool_name = tc_tool_id c, te_call_key = tc_call_key c, te_data = ev\<rparr>) None)))))))"

definition start_call :: "tool_call \<Rightarrow> evaluation_result \<Rightarrow> tool_call prog" where
  "start_call c decision =
     bnd now_utc (\<lambda>started.
     set_state (tc_id c) ((call_state ''RUNNING'')
       \<lparr>cs_policy_effect := Some (effect_value (rs_effect decision)),
        cs_matched_rule_ids := Some (map uuid_str (rs_matched_rule_ids decision)),
        cs_started_at := Some started\<rparr>))"

definition run_call :: "tool_call \<Rightarrow> tool_input \<Rightarrow> evaluation_result \<Rightarrow> gateway_result prog" where
  "run_call c i decision =
     bnd (start_call c decision) (\<lambda>c'.
     andthen commit
     (bnd (perform c' i) (finish_call c')))"

text \<open>The two refusals the decision leads to in either state of the call.\<close>

definition is_mutation :: "tool_input \<Rightarrow> bool" where
  "is_mutation i = (case i of Replace_input _ \<Rightarrow> True | _ \<Rightarrow> False)"

definition refusal :: "tool_input \<Rightarrow> evaluation_result \<Rightarrow> pystr option" where
  "refusal i decision =
    (if rs_effect decision = BLOCK then Some ''tool_policy_blocked''
     else if is_mutation i \<and> rs_effect decision \<noteq> REQUIRE_CONFIRMATION then Some ''mutation_confirmation_required''
     else None)"

definition ApprovalCreate :: "approval_create \<Rightarrow> approval_create prog" where
  "ApprovalCreate a = (if approval_create_valid a then ret a else throw ValidationError)"

definition ask_approval :: "tool_call \<Rightarrow> evaluation_request \<Rightarrow> evaluation_result \<Rightarrow> gateway_result prog" where
  "ask_approval c req decision =
     bnd (ApprovalCreate
       \<lparr>aq_action = rq_action req, aq_requester_actor_type = ''agent'', aq_requester_actor_id = rq_actor_id req,
        aq_resource_type = rq_resource_type req, aq_resource_id = rq_resource_id req,
        aq_project_id = rq_project_id req, aq_task_id = rq_task_id req, aq_context = rq_context req,
        aq_mutation_fingerprint = tc_mutation_fingerprint c\<rparr>) (\<lambda>data.
     bnd (create_approval (rq_tenant_id req) (rq_workspace_id req) data True) (\<lambda>approval.
     bnd (set_state (tc_id c) ((call_state ''PENDING_APPROVAL'')
       \<lparr>cs_policy_effect := Some (effect_value (rs_effect decision)),
        cs_matched_rule_ids := Some (map uuid_str (rs_matched_rule_ids decision)),
        cs_approval_request_id := Some (ap_id approval)\<rparr>)) (\<lambda>c'.
     andthen (observable c' ''tool.call.approval_required'' ''success'')
     (andthen commit (ret (gateway_result_of c' None None))))))"

definition decide_call ::
  "tool_call \<Rightarrow> tool_input \<Rightarrow> evaluation_request \<Rightarrow> uuid option \<Rightarrow> gateway_result prog" where
  "decide_call c i req approval_id =
    (if tc_status c = ''PENDING_APPROVAL'' then
       (case approval_id of
          None \<Rightarrow> ret (gateway_result_of c None (Some ''approval_not_satisfied''))
        | Some a \<Rightarrow>
            if tc_approval_request_id c \<noteq> Some a
            then ret (gateway_result_of c None (Some ''approval_not_satisfied''))
            else bnd (evaluate req) (\<lambda>decision.
              case refusal i decision of
                Some code \<Rightarrow> deny c code (Some decision)
              | None \<Rightarrow> bnd (is_approval_satisfied a req (tc_mutation_fingerprint c)) (\<lambda>satisfied.
                  if \<not> satisfied then ret (gateway_result_of c None (Some ''approval_not_satisfied''))
                  else run_call c i decision)))
     else bnd (evaluate req) (\<lambda>decision.
       case refusal i decision of
         Some code \<Rightarrow> deny c code (Some decision)
       | None \<Rightarrow>
           if rs_effect decision = REQUIRE_CONFIRMATION then ask_approval c req decision
           else run_call c i decision))"

definition preparation_failure :: "pyval option \<Rightarrow> pystr option" where
  "preparation_failure prepared = Option.bind prepared (\<lambda>p. text_entry p ''failure_code'')"

definition judge_call ::
  "agent_run \<Rightarrow> agent_definition \<Rightarrow> tool_proposal \<Rightarrow> pystr list \<Rightarrow> uuid option \<Rightarrow> registered_tool option \<Rightarrow>
     tool_input option \<Rightarrow> pyval option \<Rightarrow> tool_call \<Rightarrow> gateway_result prog" where
  "judge_call run definition proposal permitted_tools approval_id tool parsed prepared c =
    (case (tool, parsed, preparation_failure prepared) of
       (None, _, _) \<Rightarrow> deny c ''unknown_tool_denied'' None
     | (Some _, None, _) \<Rightarrow> deny c ''invalid_tool_input'' None
     | (Some _, Some _, Some code) \<Rightarrow> deny c code None
     | (Some t, Some i, None) \<Rightarrow>
         if \<not> List.member permitted_tools (pp_tool_name proposal) \<or>
            \<not> List.member (ad_permissions definition) (rt_required_permission t)
         then deny c ''tool_permission_denied'' None
         else bnd get_environment (\<lambda>env.
           bnd (PolicyEvaluationRequest (policy_request run t (tc_id c) env)) (\<lambda>req.
           decide_call c i req approval_id)))"

definition prepare_mutation :: "tool_call option \<Rightarrow> tool_input option \<Rightarrow> pyval option prog" where
  "prepare_mutation existing parsed = (case (existing, parsed) of
     (None, Some (Replace_input x)) \<Rightarrow>
       bnd get_libs (\<lambda>lib. bnd get_files (\<lambda>root. ret (Some (case prepare lib root x of
         Inl code \<Rightarrow> PDict [(PStr ''failure_code'', PStr code)] | Inr v \<Rightarrow> v))))
   | _ \<Rightarrow> ret None)"

text \<open>The scope of the row is the scope of the run, which was looked up in the scope of the request.\<close>

definition proposed_call ::
  "agent_run \<Rightarrow> uuid option \<Rightarrow> tool_proposal \<Rightarrow> registered_tool option \<Rightarrow> pyval \<Rightarrow> pyval option \<Rightarrow>
     uuid \<Rightarrow> instant \<Rightarrow> tool_call" where
  "proposed_call run proposal_model_run_id proposal tool safe_input prepared u now =
     \<lparr>tc_id = u, tc_tenant_id = ar_tenant_id run, tc_workspace_id = ar_workspace_id run,
      tc_project_id = ar_project_id run, tc_task_id = ar_task_id run, tc_agent_run_id = ar_id run,
      tc_proposal_model_run_id = proposal_model_run_id, tc_approval_request_id = None,
      tc_call_key = pp_call_key proposal, tc_tool_id = pp_tool_name proposal,
      tc_safe_input_metadata = safe_input, tc_status = ''PROPOSED'', tc_policy_effect = None,
      tc_matched_rule_ids = [], tc_execution_target_class = ''LOCAL'',
      tc_side_effect_class = (case tool of Some t \<Rightarrow> side_effect_value (rt_side_effect_class t) | None \<Rightarrow> ''READ_ONLY''),
      tc_result_metadata = None, tc_failure_code = None, tc_started_at = None, tc_completed_at = None,
      tc_mutation_fingerprint = Option.bind prepared (\<lambda>p. text_entry p ''mutation_fingerprint''),
      tc_preimage_sha256 = Option.bind prepared (\<lambda>p. text_entry p ''preimage_sha256''),
      tc_candidate_sha256 = Option.bind prepared (\<lambda>p. text_entry p ''candidate_sha256''),
      tc_prepared_mutation = prepared, tc_created_at = now\<rparr>"

definition parsed_input :: "tool_proposal \<Rightarrow> tool_input option" where
  "parsed_input proposal = Option.bind (registry_get (pp_tool_name proposal))
     (\<lambda>t. parse_input (rt_executor t) (PDict (dump_input (pp_arguments proposal))))"

definition safe_input :: "tool_lib \<Rightarrow> tool_proposal \<Rightarrow> pyval" where
  "safe_input lib proposal = (case parsed_input proposal of
     None \<Rightarrow> PDict [(PStr ''argument_count'', PInt (int (length (dump_input (pp_arguments proposal)))))]
   | Some i \<Rightarrow> safe_input_metadata lib i)"

definition continue_call ::
  "agent_run \<Rightarrow> agent_definition \<Rightarrow> tool_proposal \<Rightarrow> pystr list \<Rightarrow> uuid option \<Rightarrow> uuid option \<Rightarrow> tool_lib \<Rightarrow>
     tool_call option \<Rightarrow> pyval option \<Rightarrow> gateway_result prog" where
  "continue_call run definition proposal permitted_tools proposal_model_run_id approval_id lib existing prepared =
    (let tool = registry_get (pp_tool_name proposal); metadata = safe_input lib proposal;
         go = judge_call run definition proposal permitted_tools approval_id tool (parsed_input proposal) prepared in
     case existing of
       Some c \<Rightarrow>
         if tc_tool_id c \<noteq> pp_tool_name proposal \<or> \<not> same_json (tc_safe_input_metadata c) metadata
         then ret (gateway_result_of c None (Some ''tool_call_replay_mismatch''))
         else if tc_status c \<noteq> ''PENDING_APPROVAL'' then ret (gateway_result_of c None None)
         else go c
     | None \<Rightarrow>
         bnd (create_tool_call (proposed_call run proposal_model_run_id proposal tool metadata prepared)) (\<lambda>c.
         andthen commit (go c)))"

definition execute_proposal ::
  "uuid \<Rightarrow> uuid \<Rightarrow> uuid \<Rightarrow> tool_proposal \<Rightarrow> pystr list \<Rightarrow> uuid option \<Rightarrow> uuid option \<Rightarrow> gateway_result prog" where
  "execute_proposal tenant_id workspace_id agent_run_id proposal permitted_tools proposal_model_run_id approval_id =
     bnd (load_authority tenant_id workspace_id agent_run_id proposal_model_run_id) (\<lambda>(run, definition).
     bnd (get_by_key tenant_id workspace_id agent_run_id (pp_call_key proposal)) (\<lambda>existing.
     bnd (prepare_mutation existing (parsed_input proposal)) (\<lambda>prepared.
     bnd get_libs (\<lambda>lib.
     continue_call run definition proposal permitted_tools proposal_model_run_id approval_id lib existing prepared))))"

section \<open>Resuming and rejecting a prepared mutation\<close>

definition locked_call :: "uuid \<Rightarrow> uuid \<Rightarrow> uuid \<Rightarrow> (tool_call \<times> agent_run) prog" where
  "locked_call tenant_id workspace_id approval_id =
     bnd (get_for_approval tenant_id workspace_id approval_id) (\<lambda>row.
     bnd (require not_found row) (\<lambda>c.
     bnd (select_one agent_runs (scoped_agent_run tenant_id workspace_id (tc_agent_run_id c))) (\<lambda>row'.
     bnd (require not_found row') (\<lambda>run. ret (c, run)))))"

text \<open>\<open>prepared.get(key) != column\<close>, where an absent key counts as \<open>None\<close>.\<close>

definition entry_is :: "pyval \<Rightarrow> pystr \<Rightarrow> pystr option \<Rightarrow> bool" where
  "entry_is p k column = ((case entry p k of None \<Rightarrow> PNone | Some v \<Rightarrow> v) = null_or column)"

definition stored_input :: "pyval \<Rightarrow> replace_input option" where
  "stored_input p = (case (entry p ''path'', entry p ''search'', entry p ''replacement'', entry p ''expected_matches'') of
     (Some a, Some b, Some c, Some d) \<Rightarrow> WorkspaceReplaceTextInput (PDict
       [(PStr ''path'', a), (PStr ''search'', b), (PStr ''replacement'', c), (PStr ''expected_matches'', d)])
   | _ \<Rightarrow> None)"

definition resumed_evidence :: "tool_call \<Rightarrow> tool_evidence" where
  "resumed_evidence c = \<lparr>te_tool_name = tc_tool_id c, te_call_key = tc_call_key c,
     te_data = Applied (case Option.bind (tc_result_metadata c) (\<lambda>m. text_entry m ''path'') of
       None \<Rightarrow> [] | Some p \<Rightarrow> p) True\<rparr>"

text \<open>
  What is checked of the stored call before policy is asked: the tool, the permission, the
  fingerprints, the input and its safe metadata. The result is the denial code or the tool and
  the input.
\<close>

definition check_prepared ::
  "tool_lib \<Rightarrow> tool_call \<Rightarrow> agent_definition option \<Rightarrow> pystr + registered_tool \<times> replace_input" where
  "check_prepared lib c definition =
    (let prepared = (case tc_prepared_mutation c of None \<Rightarrow> PDict [] | Some v \<Rightarrow> v) in
     case registry_get (tc_tool_id c) of
       None \<Rightarrow> Inl ''unknown_tool_denied''
     | Some t \<Rightarrow>
         if rt_executor t \<noteq> ReplaceTextExecutor then Inl ''unknown_tool_denied''
         else if (case definition of None \<Rightarrow> True | Some a \<Rightarrow> \<not> List.member (ad_permissions a) (rt_required_permission t))
         then Inl ''tool_permission_denied''
         else if \<not> entry_is prepared ''mutation_fingerprint'' (tc_mutation_fingerprint c) \<or>
                 \<not> entry_is prepared ''preimage_sha256'' (tc_preimage_sha256 c) \<or>
                 \<not> entry_is prepared ''candidate_sha256'' (tc_candidate_sha256 c)
         then Inl ''mutation_fingerprint_mismatch''
         else (case stored_input prepared of
             None \<Rightarrow> Inl ''prepared_mutation_invalid''
           | Some i \<Rightarrow>
               if \<not> same_json (safe_input_metadata lib (Replace_input i)) (tc_safe_input_metadata c)
               then Inl ''mutation_fingerprint_mismatch''
               else Inr (t, i)))"

definition authorized_mutation :: "evaluation_request \<Rightarrow> uuid \<Rightarrow> pystr option \<Rightarrow> evaluation_result \<Rightarrow> bool prog" where
  "authorized_mutation req approval_id fingerprint decision =
    (if rs_effect decision \<noteq> REQUIRE_CONFIRMATION then ret False
     else is_approval_satisfied approval_id req fingerprint)"

definition current_definition :: "uuid \<Rightarrow> uuid \<Rightarrow> tool_call \<Rightarrow> agent_run \<Rightarrow> agent_definition option prog" where
  "current_definition tenant_id workspace_id c run =
    (case registry_get (tc_tool_id c) of
       None \<Rightarrow> ret None
     | Some t \<Rightarrow>
         if rt_executor t \<noteq> ReplaceTextExecutor then ret None
         else select_one agent_definitions (\<lambda>a. scoped_definition tenant_id workspace_id (ar_agent_definition_id run) a \<and>
           ad_version a = ar_agent_version run))"

definition apply_approved ::
  "uuid \<Rightarrow> tool_call \<Rightarrow> agent_run \<Rightarrow> registered_tool \<Rightarrow> replace_input \<Rightarrow> gateway_result prog" where
  "apply_approved approval_id c run t i =
     bnd get_environment (\<lambda>env.
     bnd (PolicyEvaluationRequest (policy_request run t (tc_id c) env)) (\<lambda>req.
     bnd (evaluate req) (\<lambda>decision.
     if rs_effect decision = BLOCK then deny c ''tool_policy_blocked'' (Some decision)
     else bnd (authorized_mutation req approval_id (tc_mutation_fingerprint c) decision) (\<lambda>granted.
       if \<not> granted then deny c ''approval_not_satisfied'' None
       else bnd (start_call c decision) (\<lambda>c'. bnd (perform c' (Replace_input i)) (finish_call c'))))))"

definition resume_call :: "uuid \<Rightarrow> uuid \<Rightarrow> uuid \<Rightarrow> tool_call \<Rightarrow> agent_run \<Rightarrow> gateway_result prog" where
  "resume_call tenant_id workspace_id approval_id c run =
    (if tc_status c = ''SUCCEEDED'' then ret (gateway_result_of c (Some (resumed_evidence c)) None)
     else if tc_status c \<noteq> ''PENDING_APPROVAL'' \<or> ar_status run \<noteq> ''WAITING_FOR_APPROVAL''
     then ret (gateway_result_of c None (Some ''approval_resume_invalid_state''))
     else
       bnd (current_definition tenant_id workspace_id c run) (\<lambda>definition.
       bnd get_libs (\<lambda>lib.
       case check_prepared lib c definition of
         Inl code \<Rightarrow> deny c code None
       | Inr (t, i) \<Rightarrow> apply_approved approval_id c run t i)))"

definition resume_prepared_mutation :: "uuid \<Rightarrow> uuid \<Rightarrow> uuid \<Rightarrow> (gateway_result \<times> agent_run) prog" where
  "resume_prepared_mutation tenant_id workspace_id approval_id =
     bnd (locked_call tenant_id workspace_id approval_id) (\<lambda>(c, run).
     bnd (resume_call tenant_id workspace_id approval_id c run) (\<lambda>result. ret (result, run)))"

definition reject_prepared_mutation :: "uuid \<Rightarrow> uuid \<Rightarrow> uuid \<Rightarrow> agent_run prog" where
  "reject_prepared_mutation tenant_id workspace_id approval_id =
     bnd (locked_call tenant_id workspace_id approval_id) (\<lambda>(c, run).
     if tc_status c = ''PENDING_APPROVAL'' then andthen (deny c ''approval_rejected'' None) (ret run)
     else if tc_status c \<noteq> ''BLOCKED'' \<or> tc_failure_code c \<noteq> Some ''approval_rejected''
     then throw (ApplicationError ''approval_resume_invalid_state'' ''Approval-linked action is not rejectable'' 409)
     else ret run)"

end
