(* ===== verification/Money.thy ===== *)
theory Money
  imports Main
begin

text \<open>
  Amounts of money as the code computes them with \<open>decimal\<close>: every operation is exact and then
  rounded, half to even, to the 28 significant digits of the default context; \<open>quantize\<close> rounds to
  a fixed number of decimals and fails when the result needs more digits than the context has.
  A non-negative \<open>Decimal\<close> is the integer that counts some power of ten: rounding to significant
  digits does not depend on which.
\<close>

section \<open>Rounding\<close>

definition div_half_even :: "int \<Rightarrow> int \<Rightarrow> int" where
  "div_half_even n d =
    (let q = n div d; r = n mod d in
     if 2 * r < d then q else if d < 2 * r then q + 1 else if even q then q else q + 1)"

definition PRECISION :: int where
  "PRECISION = 10000000000000000000000000000"

text \<open>How many digits are more than the context has.\<close>

function excess :: "int \<Rightarrow> nat" where
  "excess n = (if n < PRECISION then 0 else Suc (excess (n div 10)))"
  by pat_completeness auto

termination
  by (relation "measure nat") (auto simp: PRECISION_def)

declare excess.simps [simp del]

definition context_round :: "int \<Rightarrow> int" where
  "context_round n = div_half_even n (10 ^ excess n) * 10 ^ excess n"

definition decimal_mult :: "int \<Rightarrow> int \<Rightarrow> int" where
  "decimal_mult a b = context_round (a * b)"

definition decimal_add :: "int \<Rightarrow> int \<Rightarrow> int" where
  "decimal_add a b = context_round (a + b)"

section \<open>What rounding does\<close>

lemma div_half_even_bounds:
  assumes "0 < d"
  shows "2 * (div_half_even n d * d - n) \<le> d" and "2 * (n - div_half_even n d * d) \<le> d"
proof -
  have n: "n = n div d * d + n mod d" and r: "0 \<le> n mod d" "n mod d < d" using assms by simp_all
  have "div_half_even n d * d - n = - (n mod d) \<or>
      (div_half_even n d * d - n = d - n mod d \<and> d \<le> 2 * (n mod d))"
    and "div_half_even n d * d - n = - (n mod d) \<longrightarrow> 2 * (n mod d) \<le> d"
    using n r by (auto simp: div_half_even_def Let_def algebra_simps)
  then show "2 * (div_half_even n d * d - n) \<le> d" "2 * (n - div_half_even n d * d) \<le> d"
    using r by auto
qed

lemma div_half_even_mono:
  assumes "0 < d" and "m \<le> n"
  shows "div_half_even m d \<le> div_half_even n d"
proof (cases "m div d = n div d")
  case True
  have "m mod d \<le> n mod d"
    using assms True minus_mult_div_eq_mod [of m d] minus_mult_div_eq_mod [of n d] by simp
  with True show ?thesis by (auto simp: div_half_even_def Let_def)
next
  case False
  with assms zdiv_mono1 [of m n d] have "m div d + 1 \<le> n div d" by simp
  then show ?thesis by (auto simp: div_half_even_def Let_def)
qed

lemma div_half_even_mult [simp]: "0 < d \<Longrightarrow> div_half_even (k * d) d = k"
  by (simp add: div_half_even_def Let_def)

lemma div_half_even_nonneg: "0 < d \<Longrightarrow> 0 \<le> n \<Longrightarrow> 0 \<le> div_half_even n d"
  using div_half_even_mono [of d 0 n] by (simp add: div_half_even_def)

lemma excess_less: "n < PRECISION \<Longrightarrow> excess n = 0"
  by (simp add: excess.simps)

lemma context_round_exact [simp]: "n < PRECISION \<Longrightarrow> context_round n = n"
  using div_half_even_mult [of 1 n] by (simp add: context_round_def excess_less)

lemma excess_le: "PRECISION \<le> n \<Longrightarrow> PRECISION div 10 * 10 ^ excess n \<le> n"
proof (induction n rule: excess.induct)
  case (1 n)
  show ?case
  proof (cases "n div 10 < PRECISION")
    case True
    with 1 show ?thesis by (simp add: excess.simps [of n] excess_less PRECISION_def)
  next
    case False
    with 1 have "PRECISION div 10 * 10 ^ excess (n div 10) \<le> n div 10" by simp
    then have "10 * (PRECISION div 10 * 10 ^ excess (n div 10)) \<le> n" by linarith
    then show ?thesis using 1 by (simp add: excess.simps [of n] mult.left_commute)
  qed
qed

text \<open>A number with too many digits stays that big.\<close>

lemma context_round_big:
  assumes "PRECISION \<le> n"
  shows "PRECISION \<le> context_round n"
proof -
  let ?k = "10 ^ excess n :: int"
  from assms have pos: "excess n = Suc (excess (n div 10))" by (simp add: excess.simps [of n])
  have "PRECISION div 10 \<le> div_half_even n ?k"
    using div_half_even_mono [of ?k, OF _ excess_le [OF assms]] by simp
  then have "PRECISION div 10 * 10 \<le> div_half_even n ?k * ?k"
    using mult_mono [of "PRECISION div 10" "div_half_even n ?k" 10 ?k] pos
    by (simp add: PRECISION_def)
  then show ?thesis by (simp add: context_round_def PRECISION_def)
qed

lemma context_round_nonneg: "0 \<le> n \<Longrightarrow> 0 \<le> context_round n"
  by (simp add: context_round_def div_half_even_nonneg)

text \<open>
  The relative error of one rounding is at most half a unit in the last of the 28 digits; what is
  needed later is that it never doubles.
\<close>

lemma context_round_upper:
  assumes "0 \<le> n"
  shows "context_round n \<le> 2 * n"
proof (cases "n < PRECISION")
  case False
  let ?k = "10 ^ excess n :: int"
  have "?k \<le> PRECISION div 10 * ?k" by (simp add: PRECISION_def)
  also have "\<dots> \<le> n" using False by (intro excess_le) simp
  finally have "?k \<le> n" .
  moreover have "2 * (div_half_even n ?k * ?k - n) \<le> ?k" by (rule div_half_even_bounds) simp
  moreover have "a \<le> 2 * n" if "k \<le> n" "2 * (a - n) \<le> k" for a k using that assms by simp
  ultimately show ?thesis unfolding context_round_def by blast
qed (use assms in simp)

end
