(* ===== verification/Model_Catalog.thy ===== *)
theory Model_Catalog
  imports Scopes Money
begin

text \<open>
  The provider-neutral contracts of \<open>infrastructure/providers\<close> (enforcement grades, catalog
  entries, governed qualifications, routes a provider manages itself, failures) and the catalog of
  models (\<open>modules/model_catalog\<close>: repository and service). What a catalog source answers comes
  from the network: it is an argument of the refresh.
\<close>

section \<open>Provider contracts\<close>

datatype contract_enforcement_grade = UNSUPPORTED | BEST_EFFORT | PROVIDER_ENFORCED | STRICT_SCHEMA_GUARANTEED

definition grade_value :: "contract_enforcement_grade \<Rightarrow> pystr" where
  "grade_value g = (case g of UNSUPPORTED \<Rightarrow> ''UNSUPPORTED'' | BEST_EFFORT \<Rightarrow> ''BEST_EFFORT''
     | PROVIDER_ENFORCED \<Rightarrow> ''PROVIDER_ENFORCED''
     | STRICT_SCHEMA_GUARANTEED \<Rightarrow> ''STRICT_SCHEMA_GUARANTEED'')"

text \<open>\<open>ContractEnforcementGrade(value)\<close>; any other string is a \<open>ValueError\<close>.\<close>

definition grade_of :: "pystr \<Rightarrow> contract_enforcement_grade option" where
  "grade_of v = (if v = ''UNSUPPORTED'' then Some UNSUPPORTED
     else if v = ''BEST_EFFORT'' then Some BEST_EFFORT
     else if v = ''PROVIDER_ENFORCED'' then Some PROVIDER_ENFORCED
     else if v = ''STRICT_SCHEMA_GUARANTEED'' then Some STRICT_SCHEMA_GUARANTEED else None)"

definition grade_rank :: "contract_enforcement_grade \<Rightarrow> nat" where
  "grade_rank g = (case g of UNSUPPORTED \<Rightarrow> 0 | BEST_EFFORT \<Rightarrow> 1 | PROVIDER_ENFORCED \<Rightarrow> 2
     | STRICT_SCHEMA_GUARANTEED \<Rightarrow> 3)"

definition satisfies :: "contract_enforcement_grade \<Rightarrow> contract_enforcement_grade \<Rightarrow> bool" where
  "satisfies g minimum = (grade_rank minimum \<le> grade_rank g)"

instantiation contract_enforcement_grade :: linorder
begin

definition less_eq_contract_enforcement_grade ::
  "contract_enforcement_grade \<Rightarrow> contract_enforcement_grade \<Rightarrow> bool" where
  "less_eq_contract_enforcement_grade a b = satisfies b a"

definition less_contract_enforcement_grade ::
  "contract_enforcement_grade \<Rightarrow> contract_enforcement_grade \<Rightarrow> bool" where
  "less_contract_enforcement_grade a b = (\<not> satisfies a b)"

instance
proof
  fix a b :: contract_enforcement_grade
  show "a \<le> b \<Longrightarrow> b \<le> a \<Longrightarrow> a = b"
    by (cases a; cases b; simp add: less_eq_contract_enforcement_grade_def satisfies_def grade_rank_def)
qed (auto simp: less_eq_contract_enforcement_grade_def less_contract_enforcement_grade_def satisfies_def)

end

datatype execution_target_class = LOCAL | REMOTE

definition target_class_value :: "execution_target_class \<Rightarrow> pystr" where
  "target_class_value v = (case v of LOCAL \<Rightarrow> ''LOCAL'' | REMOTE \<Rightarrow> ''REMOTE'')"

datatype qualification_source = PROVIDER_DOCUMENTATION | OPERATOR_CONFIGURATION | CURATED_REGISTRY

definition qualification_source_value :: "qualification_source \<Rightarrow> pystr" where
  "qualification_source_value v = (case v of PROVIDER_DOCUMENTATION \<Rightarrow> ''PROVIDER_DOCUMENTATION''
     | OPERATOR_CONFIGURATION \<Rightarrow> ''OPERATOR_CONFIGURATION'' | CURATED_REGISTRY \<Rightarrow> ''CURATED_REGISTRY'')"

datatype provider_failure = AUTHENTICATION | RATE_LIMIT | TIMEOUT | TRANSIENT | INVALID_REQUEST
  | MALFORMED_RESPONSE | REFUSAL | CANCELLATION | UNKNOWN

definition provider_failure_value :: "provider_failure \<Rightarrow> pystr" where
  "provider_failure_value v = (case v of AUTHENTICATION \<Rightarrow> ''authentication_configuration''
     | RATE_LIMIT \<Rightarrow> ''rate_limit'' | TIMEOUT \<Rightarrow> ''timeout'' | TRANSIENT \<Rightarrow> ''transient_service_unavailable''
     | INVALID_REQUEST \<Rightarrow> ''invalid_request'' | MALFORMED_RESPONSE \<Rightarrow> ''malformed_response''
     | REFUSAL \<Rightarrow> ''refusal_safety'' | CANCELLATION \<Rightarrow> ''cancellation''
     | UNKNOWN \<Rightarrow> ''unknown_provider_error'')"

text \<open>The patterns of the identifiers.\<close>

definition model_char :: "char \<Rightarrow> bool" where
  "model_char c = (ascii_alnum c \<or> c \<in> set ''._:/+-'')"

definition MODEL_ID_PATTERN :: rx where
  "MODEL_ID_PATTERN =
     Alt (Seq (Cls ascii_alnum) (upto_times 255 (Cls model_char)))
         (Seq (lit CHR ''~'') (Seq (Cls ascii_alnum) (upto_times 254 (Cls model_char))))"

definition PROVIDER_ID_PATTERN :: rx where
  "PROVIDER_ID_PATTERN = Seq (Cls ascii_alnum) (upto_times 255 (Cls model_char))"

definition upstream_char :: "char \<Rightarrow> bool" where
  "upstream_char c = (ascii_alnum c \<or> c = CHR ''_'' \<or> c = CHR ''-'')"

definition UPSTREAM_PROVIDER_PATTERN :: rx where
  "UPSTREAM_PROVIDER_PATTERN =
     Seq (Cls (\<lambda>c. lower_az c \<or> upper_az c)) (Seq (upto_times 63 (Cls upstream_char))
       (opt (Seq (lit CHR ''/'') (Seq (Cls ascii_alnum) (upto_times 63 (Cls upstream_char))))))"

text \<open>\<open>^[a-z][a-z0-9_-]{0,63}$\<close>\<close>

definition PROVIDER_IDENTIFIER :: rx where
  "PROVIDER_IDENTIFIER = Seq (Cls lower_az) (upto_times 63 (Cls (\<lambda>c. ident_char c \<or> c = CHR ''-'')))"

record qualification =
  ql_provider_id :: pystr
  ql_provider_model_id :: pystr
  ql_upstream_provider :: "pystr option"
  ql_grade :: contract_enforcement_grade
  ql_source :: qualification_source
  ql_enabled :: bool

definition GovernedProviderQualification :: "qualification \<Rightarrow> qualification option" where
  "GovernedProviderQualification q =
    (let p = trim (ql_provider_id q); m = trim (ql_provider_model_id q);
         u = map_option trim (ql_upstream_provider q) in
     if between 1 64 p \<and> fullmatch PROVIDER_IDENTIFIER p \<and> between 1 256 m \<and>
        opt_all (between 1 128) u \<and> fullmatch MODEL_ID_PATTERN m \<and>
        opt_all (fullmatch UPSTREAM_PROVIDER_PATTERN) u \<and> satisfies (ql_grade q) PROVIDER_ENFORCED
     then Some (q\<lparr>ql_provider_id := p, ql_provider_model_id := m, ql_upstream_provider := u\<rparr>)
     else None)"

record catalog_model =
  cm_provider_model_id :: pystr
  cm_execution_target_class :: execution_target_class
  cm_display_name :: pystr
  cm_context_window :: "int option"
  cm_max_output_tokens :: "int option"
  cm_reasoning :: "bool option"
  cm_coding :: "bool option"
  cm_tool_calling :: "bool option"
  cm_structured_output :: "bool option"
  cm_contract_enforcement_grade :: "contract_enforcement_grade option"
  cm_enforcement_metadata_source :: "pystr option"
  cm_vision :: "bool option"
  cm_input_price_per_million :: "money option"
  cm_output_price_per_million :: "money option"
  cm_currency :: "pystr option"
  cm_family :: "pystr option"
  cm_revision :: "pystr option"

text \<open>\<open>c.upper() == c\<close> on the code points below 256.\<close>

definition upper_fixed :: "char \<Rightarrow> bool" where
  "upper_fixed c = (let n = of_char c :: nat in
     \<not> lower_az c \<and> n \<noteq> 181 \<and> (n < 223 \<or> n = 247))"

definition MAX_MONEY :: money where
  "MAX_MONEY = 99999999999999999999"

definition price_field :: "money option \<Rightarrow> bool" where
  "price_field = opt_all (\<lambda>p. 0 \<le> p \<and> p \<le> MAX_MONEY)"

definition CatalogModel :: "catalog_model \<Rightarrow> catalog_model option" where
  "CatalogModel c =
    (let m = trim (cm_provider_model_id c); n = trim (cm_display_name c);
         e = map_option trim (cm_enforcement_metadata_source c) in
     if between 1 256 m \<and> between 1 200 n \<and>
        opt_all (\<lambda>k. 1 \<le> k \<and> k \<le> 10000000) (cm_context_window c) \<and>
        opt_all (\<lambda>k. 1 \<le> k \<and> k \<le> 10000000) (cm_max_output_tokens c) \<and>
        opt_all (between 1 64) e \<and>
        price_field (cm_input_price_per_million c) \<and> price_field (cm_output_price_per_million c) \<and>
        opt_all (between 3 3) (cm_currency c) \<and>
        opt_all (between 1 128) (cm_family c) \<and> opt_all (between 1 128) (cm_revision c) \<and>
        fullmatch MODEL_ID_PATTERN m \<and> opt_all (list_all upper_fixed) (cm_currency c) \<and>
        (cm_currency c \<noteq> None \<longleftrightarrow>
           cm_input_price_per_million c \<noteq> None \<or> cm_output_price_per_million c \<noteq> None) \<and>
        opt_all (\<lambda>g. g = UNSUPPORTED \<or> cm_structured_output c = Some True) (cm_contract_enforcement_grade c)
     then Some (c\<lparr>cm_provider_model_id := m, cm_display_name := n, cm_enforcement_metadata_source := e\<rparr>)
     else None)"

record managed_route =
  rt_provider_id :: pystr
  rt_provider_model_id :: pystr
  rt_display_name :: pystr
  rt_execution_target_class :: execution_target_class
  rt_enabled :: bool
  rt_capabilities :: "pystr list"
  rt_capability_policy :: pystr
  rt_contract_enforcement_grade :: contract_enforcement_grade
  rt_enforcement_metadata_source :: pystr
  rt_context_window :: "int option"
  rt_max_output_tokens :: "int option"
  rt_pricing_policy :: "pystr option"
  rt_free_allowlisted :: bool
  rt_dynamic_resolution :: bool
  rt_source :: pystr
  rt_capability_source :: pystr

definition registered_openrouter_routes :: "pystr \<Rightarrow> managed_route list" where
  "registered_openrouter_routes provider_id =
    (if provider_id \<noteq> ''openrouter'' then []
     else [\<lparr>rt_provider_id = provider_id, rt_provider_model_id = ''openrouter/free'',
       rt_display_name = ''OpenRouter Free Models Router'', rt_execution_target_class = REMOTE,
       rt_enabled = True, rt_capabilities = [''tool_calling'', ''structured_output''],
       rt_capability_policy = ''DECLARED_GUARANTEE'', rt_contract_enforcement_grade = BEST_EFFORT,
       rt_enforcement_metadata_source = ''openrouter_dynamic_route_policy'',
       rt_context_window = Some 200000, rt_max_output_tokens = None, rt_pricing_policy = Some ''FREE'',
       rt_free_allowlisted = True, rt_dynamic_resolution = True, rt_source = ''provider_adapter'',
       rt_capability_source = ''openrouter_dynamic_router''\<rparr>])"

text \<open>
  What the providers of a registry declare, in the order they were registered; a registry with two
  providers of one name is refused when it is built, two routes of one identity when they are read
  (\<open>ValueError\<close>).
\<close>

record model_provider =
  mp_provider_id :: pystr
  mp_managed_routes :: "managed_route list"

definition ProviderRegistry :: "model_provider list \<Rightarrow> model_provider list option" where
  "ProviderRegistry ps = (if distinct (map mp_provider_id ps) then Some ps else None)"

definition provider_get :: "model_provider list \<Rightarrow> pystr \<Rightarrow> model_provider option" where
  "provider_get ps provider_id = first_row (filter (\<lambda>p. mp_provider_id p = provider_id) ps)"

definition provider_managed_routes :: "model_provider list \<Rightarrow> managed_route list option" where
  "provider_managed_routes ps =
    (let routes = concat (map mp_managed_routes ps) in
     if distinct (map (\<lambda>r. (rt_provider_id r, rt_provider_model_id r)) routes) then Some routes else None)"

text \<open>
  A source of catalog entries and what it answers: entries, a provider error, or an exception of
  the kinds a malformed answer raises (\<open>ValidationError\<close>, \<open>ValueError\<close>, \<open>TypeError\<close>). The entries
  were built through \<open>CatalogModel\<close>; validating an instance again returns it as it is.
\<close>

datatype catalog_reply = Listed "catalog_model list" | Provider_error provider_failure | Malformed_reply

record catalog_source =
  cs_provider_id :: pystr
  cs_list_models :: catalog_reply

definition CatalogSourceRegistry :: "catalog_source list \<Rightarrow> catalog_source list option" where
  "CatalogSourceRegistry ss = (if distinct (map cs_provider_id ss) then Some ss else None)"

definition source_reply :: "catalog_source list \<Rightarrow> pystr \<Rightarrow> catalog_reply" where
  "source_reply ss provider_id =
    (case first_row (filter (\<lambda>s. cs_provider_id s = provider_id) ss) of
       None \<Rightarrow> Provider_error INVALID_REQUEST | Some s \<Rightarrow> cs_list_models s)"

section \<open>The repository\<close>

definition by_identity :: "model_definition list \<Rightarrow> model_definition list" where
  "by_identity = sort_key (\<lambda>r. (md_provider_id r, md_provider_model_id r, md_id r))"

definition catalog_list :: "nat \<Rightarrow> nat \<Rightarrow> pystr option \<Rightarrow> pystr option \<Rightarrow> model_definition list prog" where
  "catalog_list limit offset provider_id status =
     query (\<lambda>d. window limit offset (by_identity (filter (\<lambda>r.
        opt_all (\<lambda>p. md_provider_id r = p) provider_id \<and> opt_all (\<lambda>v. md_status r = v) status)
        (model_definitions d))))"

definition catalog_get_model :: "uuid \<Rightarrow> model_definition option prog" where
  "catalog_get_model model_id = select_one model_definitions (\<lambda>r. md_id r = model_id)"

definition list_routing_candidates :: "model_definition list prog" where
  "list_routing_candidates = query (\<lambda>d. by_identity (model_definitions d))"

definition put_models :: "model_definition list \<Rightarrow> db \<Rightarrow> db" where
  "put_models rows d = d\<lparr>model_definitions := rows\<rparr>"

definition same_model :: "pystr \<Rightarrow> pystr \<Rightarrow> model_definition \<Rightarrow> bool" where
  "same_model provider_id provider_model_id r =
     (md_provider_id r = provider_id \<and> md_provider_model_id r = provider_model_id)"

text \<open>
  \<open>INSERT ... ON CONFLICT (provider_id, provider_model_id) DO UPDATE\<close>: the values are those of a
  whole row, of which an existing row keeps its key and its identity.
\<close>

definition upserted :: "model_definition \<Rightarrow> model_definition list \<Rightarrow> model_definition list" where
  "upserted r rows =
    (if list_ex (same_model (md_provider_id r) (md_provider_model_id r)) rows
     then update_where (same_model (md_provider_id r) (md_provider_model_id r)) (\<lambda>old. r\<lparr>md_id := md_id old\<rparr>) rows
     else rows @ [r])"

definition upsert_model :: "(uuid \<Rightarrow> model_definition) \<Rightarrow> unit prog" where
  "upsert_model new =
     bnd uuid4 (\<lambda>u. exec_stmt (\<lambda>now d. ((), put_models (upserted (new u) (model_definitions d)) d)))"

definition missing_model :: "pystr \<Rightarrow> pystr list \<Rightarrow> model_definition \<Rightarrow> bool" where
  "missing_model provider_id returned r =
     (md_provider_id r = provider_id \<and> md_status r = ''AVAILABLE'' \<and> md_provider_model_id r \<notin> set returned)"

definition mark_missing_stale :: "pystr \<Rightarrow> pystr list \<Rightarrow> nat prog" where
  "mark_missing_stale provider_id returned = exec_stmt (\<lambda>now d.
     (length (filter (missing_model provider_id returned) (model_definitions d)),
      put_models (update_where (missing_model provider_id returned) (\<lambda>r. r\<lparr>md_status := ''STALE''\<rparr>)
        (model_definitions d)) d))"

section \<open>The service\<close>

datatype model_status = AVAILABLE | UNAVAILABLE | STALE | UNKNOWN_STATUS

definition model_status_value :: "model_status \<Rightarrow> pystr" where
  "model_status_value v = (case v of AVAILABLE \<Rightarrow> ''AVAILABLE'' | UNAVAILABLE \<Rightarrow> ''UNAVAILABLE''
     | STALE \<Rightarrow> ''STALE'' | UNKNOWN_STATUS \<Rightarrow> ''UNKNOWN'')"

definition catalog_list_models ::
  "uuid \<Rightarrow> uuid \<Rightarrow> nat \<Rightarrow> nat \<Rightarrow> pystr option \<Rightarrow> model_status option \<Rightarrow> model_definition list prog" where
  "catalog_list_models tenant_id workspace_id limit offset provider_id status =
     andthen (require_workspace tenant_id workspace_id)
       (catalog_list limit offset provider_id (map_option model_status_value status))"

definition catalog_service_get_model :: "uuid \<Rightarrow> uuid \<Rightarrow> uuid \<Rightarrow> model_definition prog" where
  "catalog_service_get_model tenant_id workspace_id model_id =
     andthen (require_workspace tenant_id workspace_id)
       (bnd (catalog_get_model model_id) (require not_found))"

record qualification_diagnostic =
  qd_provider_id :: pystr
  qd_provider_model_id :: pystr
  qd_enabled :: bool
  qd_qualification_source :: qualification_source
  qd_contract_enforcement_grade :: contract_enforcement_grade
  qd_upstream_provider_constraint :: "pystr option"
  qd_catalog_target_present :: bool
  qd_catalog_status :: "pystr option"
  qd_structured_output_capability :: "bool option"
  qd_context_window :: "int option"
  qd_max_output_tokens :: "int option"
  qd_free_allowlisted :: "bool option"

text \<open>The dictionary keeps the last row of an identity; the table has one of each.\<close>

definition diagnostic_of :: "model_definition list \<Rightarrow> qualification \<Rightarrow> qualification_diagnostic" where
  "diagnostic_of rows q =
    (let model = first_row (rev (filter (same_model (ql_provider_id q) (ql_provider_model_id q)) rows)) in
     \<lparr>qd_provider_id = ql_provider_id q, qd_provider_model_id = ql_provider_model_id q,
      qd_enabled = ql_enabled q, qd_qualification_source = ql_source q,
      qd_contract_enforcement_grade = ql_grade q,
      qd_upstream_provider_constraint = ql_upstream_provider q,
      qd_catalog_target_present = (model \<noteq> None),
      qd_catalog_status = map_option md_status model,
      qd_structured_output_capability = Option.bind model md_structured_output,
      qd_context_window = Option.bind model md_context_window,
      qd_max_output_tokens = Option.bind model md_max_output_tokens,
      qd_free_allowlisted = map_option md_free_allowlisted model\<rparr>)"

definition list_governed_qualification_diagnostics ::
  "uuid \<Rightarrow> uuid \<Rightarrow> qualification list \<Rightarrow> qualification_diagnostic list prog" where
  "list_governed_qualification_diagnostics tenant_id workspace_id qualifications =
     andthen (require_workspace tenant_id workspace_id)
     (bnd list_routing_candidates (\<lambda>rows. ret (map (diagnostic_of rows) qualifications)))"

definition truthy :: "pystr option \<Rightarrow> pystr option" where
  "truthy v = (if v = Some [] then None else v)"

definition catalog_row ::
  "pystr \<Rightarrow> (pystr \<times> pystr) set \<Rightarrow> instant \<Rightarrow> catalog_model \<Rightarrow> uuid \<Rightarrow> model_definition" where
  "catalog_row provider_id free_allowlist verified_at m u =
     \<lparr>md_id = u, md_provider_id = provider_id, md_provider_model_id = cm_provider_model_id m,
      md_display_name = cm_display_name m, md_status = ''AVAILABLE'',
      md_execution_target_class = target_class_value (cm_execution_target_class m),
      md_context_window = cm_context_window m, md_max_output_tokens = cm_max_output_tokens m,
      md_reasoning = cm_reasoning m, md_coding = cm_coding m, md_tool_calling = cm_tool_calling m,
      md_structured_output = cm_structured_output m,
      md_contract_enforcement_grade = grade_value (case cm_contract_enforcement_grade m of
          None \<Rightarrow> if cm_structured_output m = Some True then BEST_EFFORT else UNSUPPORTED
        | Some g \<Rightarrow> g),
      md_enforcement_metadata_source = (case truthy (cm_enforcement_metadata_source m) of
          None \<Rightarrow> if cm_structured_output m = Some True then ''catalog_structured_output_capability''
            else ''catalog_unknown''
        | Some e \<Rightarrow> e),
      md_vision = cm_vision m, md_input_price_per_million = cm_input_price_per_million m,
      md_output_price_per_million = cm_output_price_per_million m, md_currency = cm_currency m,
      md_free_allowlisted = ((provider_id, cm_provider_model_id m) \<in> free_allowlist),
      md_family = cm_family m, md_revision = cm_revision m, md_last_verified_at = Some verified_at\<rparr>"

definition refresh_failed :: exn where
  "refresh_failed = ApplicationError ''model_catalog_refresh_failed'' ''Model catalog refresh failed'' 502"

definition catalog_persistence_failed :: exn where
  "catalog_persistence_failed =
     ApplicationError ''model_catalog_persistence_failed'' ''Model catalog could not be persisted'' 500"

record refresh_response =
  rr_provider_id :: pystr
  rr_verified_count :: nat
  rr_stale_count :: nat
  rr_verified_at :: instant

text \<open>
  The body of the \<open>try\<close>: the exceptions of a bad answer are rolled back and replaced by one error,
  those of the database by another.
\<close>

definition refresh_listed ::
  "pystr \<Rightarrow> (pystr \<times> pystr) set \<Rightarrow> catalog_model list \<Rightarrow> refresh_response prog" where
  "refresh_listed provider_id free_allowlist models =
     bnd now_utc (\<lambda>verified_at.
     andthen (for_each models (\<lambda>m. upsert_model (catalog_row provider_id free_allowlist verified_at m)))
     (bnd (mark_missing_stale provider_id (map cm_provider_model_id models)) (\<lambda>stale_count.
     andthen commit (ret \<lparr>rr_provider_id = provider_id, rr_verified_count = length models,
       rr_stale_count = stale_count, rr_verified_at = verified_at\<rparr>))))"

definition refresh_provider ::
  "uuid \<Rightarrow> uuid \<Rightarrow> pystr \<Rightarrow> catalog_source list \<Rightarrow> (pystr \<times> pystr) set \<Rightarrow> refresh_response prog" where
  "refresh_provider tenant_id workspace_id provider_id sources free_allowlist =
     andthen (require_workspace tenant_id workspace_id)
     (case source_reply sources provider_id of
        Listed models \<Rightarrow>
          if distinct (map cm_provider_model_id models)
          then transaction catalog_persistence_failed (refresh_listed provider_id free_allowlist models)
          else andthen rollback (throw refresh_failed)
      | Provider_error _ \<Rightarrow> andthen rollback (throw refresh_failed)
      | Malformed_reply \<Rightarrow> andthen rollback (throw refresh_failed))"

section \<open>Effects on the data\<close>

text \<open>A row of the catalog keeps its key and its identity for ever.\<close>

definition model_kept :: "model_definition \<Rightarrow> model_definition \<Rightarrow> bool" where
  "model_kept r r' \<longleftrightarrow> md_id r' = md_id r \<and> md_provider_id r' = md_provider_id r \<and>
     md_provider_model_id r' = md_provider_model_id r"

interpretation model_rows: row_order model_kept model_definitions
  by unfold_locales (auto simp: model_kept_def)

definition catalog_edit :: "db \<Rightarrow> db \<Rightarrow> bool" where
  "catalog_edit d e \<longleftrightarrow> e = put_models (model_definitions e) d \<and> evolves model_kept model_definitions d e"

lemma put_models_simps [simp]:
  "model_definitions (put_models rows d) = rows" "put_models rows (put_models rows' d) = put_models rows d"
  "put_models (model_definitions d) d = d"
  by (simp_all add: put_models_def)

lemma upsert_edit: "catalog_edit d (put_models (upserted r (model_definitions d)) d)"
proof (cases "list_ex (same_model (md_provider_id r) (md_provider_model_id r)) (model_definitions d)")
  case True
  then show ?thesis
    by (auto simp: catalog_edit_def model_kept_def same_model_def upserted_def intro!: model_rows.evolves_update
        [where sel = "same_model (md_provider_id r) (md_provider_model_id r)" and f = "\<lambda>old. r\<lparr>md_id := md_id old\<rparr>"])
next
  case False
  then show ?thesis
    by (auto simp: catalog_edit_def upserted_def intro!: model_rows.evolves_append [where rs = "[r]"])
qed

lemma stale_edit:
  "catalog_edit d (put_models (update_where sel (\<lambda>r. r\<lparr>md_status := v\<rparr>) (model_definitions d)) d)"
  by (auto simp: catalog_edit_def model_kept_def
      intro!: model_rows.evolves_update [where sel = sel and f = "\<lambda>r. r\<lparr>md_status := v\<rparr>"])

context stmt_order
begin

lemma steps_catalog_reads:
  "steps R (catalog_list_models t w l k p st)" "steps R (catalog_service_get_model t w i)"
  "steps R (list_governed_qualification_diagnostics t w qs)" "steps R list_routing_candidates"
  "steps R (catalog_get_model i)"
  unfolding catalog_list_models_def catalog_list_def catalog_service_get_model_def catalog_get_model_def
    list_governed_qualification_diagnostics_def list_routing_candidates_def
  by (intro steps_rules stmt_rules steps_scopes)+

lemma steps_catalog_writes:
  assumes "\<And>d e. catalog_edit d e \<Longrightarrow> W d e"
  shows "steps R (upsert_model new)" "steps R (mark_missing_stale p ids)"
  unfolding upsert_model_def mark_missing_stale_def Let_def
  by (intro steps_rules stmt_rules steps_exec; simp add: assms upsert_edit stale_edit)+

end

context store_order
begin

lemma steps_refresh_provider:
  assumes "\<And>d e. catalog_edit d e \<Longrightarrow> W d e"
  shows "steps R (refresh_provider t w p sources allow)"
proof -
  have "steps R (refresh_listed p allow models)" for models
    unfolding refresh_listed_def
    by (intro steps_rules store_rules steps_catalog_writes assms)
  then show ?thesis
    unfolding refresh_provider_def
    by (auto intro!: steps_rules store_rules steps_scopes split: catalog_reply.splits)
qed

end

section \<open>A refresh is one snapshot\<close>

text \<open>
  The catalog as its users see it: a map from identities to facts, without the keys of the rows.
\<close>

definition facts :: "model_definition \<Rightarrow> model_definition" where
  "facts r = r\<lparr>md_id := 0\<rparr>"

definition catalog_view :: "db \<Rightarrow> pystr \<times> pystr \<Rightarrow> model_definition option" where
  "catalog_view d = (\<lambda>(p, m). map_option facts (first_row (filter (same_model p m) (model_definitions d))))"

text \<open>
  The abstract refresh: the entries of the answer replace what was known of their identities, and
  every other entry of the provider that was available is stale.
\<close>

definition snapshot_of :: "pystr \<Rightarrow> (pystr \<times> pystr) set \<Rightarrow> instant \<Rightarrow> catalog_model list \<Rightarrow>
    pystr \<times> pystr \<Rightarrow> model_definition option" where
  "snapshot_of p allow at models = map_of (map (\<lambda>m. ((p, cm_provider_model_id m), catalog_row p allow at m 0)) models)"

definition staled :: "pystr \<Rightarrow> pystr list \<Rightarrow> (pystr \<times> pystr \<Rightarrow> model_definition option) \<Rightarrow>
    pystr \<times> pystr \<Rightarrow> model_definition option" where
  "staled p ids v = (\<lambda>k. map_option (\<lambda>r. if missing_model p ids r then r\<lparr>md_status := ''STALE''\<rparr> else r) (v k))"

lemma first_row_moved:
  assumes "\<And>r. sel r \<Longrightarrow> P (f r) \<longleftrightarrow> P r"
  shows "first_row (filter P (update_where sel f rows)) =
    map_option (\<lambda>r. if sel r then f r else r) (first_row (filter P rows))"
  by (induction rows) (auto simp: assms)

lemma catalog_row_fields [simp]:
  "md_provider_id (catalog_row p allow at m u) = p"
  "md_provider_model_id (catalog_row p allow at m u) = cm_provider_model_id m"
  "md_status (catalog_row p allow at m u) = ''AVAILABLE''"
  "md_id (catalog_row p allow at m u) = u"
  "facts (catalog_row p allow at m u) = catalog_row p allow at m 0"
  "(catalog_row p allow at m u)\<lparr>md_id := v\<rparr> = catalog_row p allow at m v"
  by (simp_all add: catalog_row_def facts_def)

lemma first_row_append: "first_row (xs @ ys) = (case first_row xs of None \<Rightarrow> first_row ys | Some r \<Rightarrow> Some r)"
  by (cases xs) simp_all

lemma upserted_first:
  "first_row (filter (same_model p m) (upserted r rows)) =
    (if same_model p m r
     then Some (r\<lparr>md_id := case first_row (filter (same_model p m) rows) of None \<Rightarrow> md_id r | Some old \<Rightarrow> md_id old\<rparr>)
     else first_row (filter (same_model p m) rows))"
proof -
  let ?sel = "same_model (md_provider_id r) (md_provider_model_id r)" and ?first = "first_row (filter (same_model p m) rows)"
  have upd: "first_row (filter (same_model p m) (update_where ?sel (\<lambda>old. r\<lparr>md_id := md_id old\<rparr>) rows)) =
      map_option (\<lambda>a. if ?sel a then r\<lparr>md_id := md_id a\<rparr> else a) ?first"
    by (rule first_row_moved) (auto simp: same_model_def)
  have sel: "?sel a \<longleftrightarrow> same_model p m r" if "?first = Some a" for a
    using first_row_filter_Some [OF that] by (auto simp: same_model_def)
  have ex: "list_ex ?sel rows \<longleftrightarrow> ?first \<noteq> None" if "same_model p m r"
  proof -
    have "?sel = same_model p m" using that by (auto simp: same_model_def fun_eq_iff)
    then show ?thesis by (simp add: first_row_list_ex)
  qed
  show ?thesis
  proof (cases "list_ex ?sel rows")
    case True
    then have "first_row (filter (same_model p m) (upserted r rows)) =
        map_option (\<lambda>a. if ?sel a then r\<lparr>md_id := md_id a\<rparr> else a) ?first"
      unfolding upserted_def by (simp only: if_True upd)
    then show ?thesis using True ex sel by (cases ?first) auto
  next
    case False
    then have "upserted r rows = rows @ [r]" by (simp only: upserted_def if_False)
    then show ?thesis using False ex by (cases ?first) (auto simp: first_row_append)
  qed
qed

lemma upserted_missing:
  assumes "md_provider_model_id r \<in> set ids"
  shows "filter (missing_model p ids) (upserted r rows) = filter (missing_model p ids) rows"
proof -
  have "filter (missing_model p ids) (update_where (same_model q (md_provider_model_id r)) (\<lambda>old. r\<lparr>md_id := md_id old\<rparr>) xs) =
      filter (missing_model p ids) xs" for q xs
    using assms by (induction xs) (auto simp: missing_model_def same_model_def)
  then show ?thesis using assms by (simp add: upserted_def missing_model_def)
qed

lemma upsert_view:
  assumes "upsert_model (catalog_row p allow at m) s = (Inr (), t)"
  shows "committed t = committed s" and "working t = put_models (model_definitions (working t)) (working s)"
    and "catalog_view (working t) = (catalog_view (working s))((p, cm_provider_model_id m) \<mapsto> catalog_row p allow at m 0)"
    and "cm_provider_model_id m \<in> set ids \<Longrightarrow> filter (missing_model p ids) (model_definitions (working t)) =
      filter (missing_model p ids) (model_definitions (working s))"
proof -
  obtain u where t: "committed t = committed s"
      "working t = put_models (upserted (catalog_row p allow at m u) (model_definitions (working s))) (working s)"
    using assms by (auto simp: upsert_model_def runs)
  then show "committed t = committed s" "working t = put_models (model_definitions (working t)) (working s)" by simp_all
  show "catalog_view (working t) = (catalog_view (working s))((p, cm_provider_model_id m) \<mapsto> catalog_row p allow at m 0)"
    using t(2) by (auto simp: catalog_view_def upserted_first same_model_def fun_eq_iff)
  show "cm_provider_model_id m \<in> set ids \<Longrightarrow> filter (missing_model p ids) (model_definitions (working t)) =
      filter (missing_model p ids) (model_definitions (working s))"
    using t(2) by (simp add: upserted_missing)
qed

lemma listed_simps [simp]:
  "snapshot_of p allow at [] = Map.empty"
  "snapshot_of p allow at (m # models) =
     (snapshot_of p allow at models)((p, cm_provider_model_id m) \<mapsto> catalog_row p allow at m 0)"
  by (simp_all add: snapshot_of_def)

lemma upserts_view:
  assumes "for_each models (\<lambda>m. upsert_model (catalog_row p allow at m)) s = (Inr (), t)"
    and "distinct (map cm_provider_model_id models)" and "set (map cm_provider_model_id models) \<subseteq> set ids"
  shows "committed t = committed s \<and> working t = put_models (model_definitions (working t)) (working s) \<and>
    catalog_view (working t) = catalog_view (working s) ++ snapshot_of p allow at models \<and>
    filter (missing_model p ids) (model_definitions (working t)) = filter (missing_model p ids) (model_definitions (working s))"
  using assms
proof (induction models arbitrary: s)
  case Nil
  then show ?case by (simp add: runs snapshot_of_def)
next
  case (Cons m models)
  from Cons.prems(1) obtain u where u: "upsert_model (catalog_row p allow at m) s = (Inr (), u)"
    and rest: "for_each models (\<lambda>m. upsert_model (catalog_row p allow at m)) u = (Inr (), t)" by (auto simp: Inr_runs)
  have new: "(p, cm_provider_model_id m) \<notin> dom (snapshot_of p allow at models)"
    using Cons.prems(2) by (auto simp: snapshot_of_def dom_map_of_conv_image_fst)
  from Cons.IH [OF rest] Cons.prems(2,3) have IH: "committed t = committed u"
      "working t = put_models (model_definitions (working t)) (working u)"
      "catalog_view (working t) = catalog_view (working u) ++ snapshot_of p allow at models"
      "filter (missing_model p ids) (model_definitions (working t)) = filter (missing_model p ids) (model_definitions (working u))"
    by simp_all
  have "working t = put_models (model_definitions (working t)) (working s)"
    by (subst IH(2)) (subst upsert_view(2) [OF u], simp)
  with IH upsert_view(1,3) [OF u] upsert_view(4) [OF u, of ids] Cons.prems(3)
  show ?case by (simp add: map_add_upd_left [OF new] del: fun_upd_apply)
qed

lemma stale_view:
  assumes "mark_missing_stale p ids s = (Inr n, t)"
  shows "committed t = committed s" and "working t = put_models (model_definitions (working t)) (working s)"
    and "catalog_view (working t) = staled p ids (catalog_view (working s))"
    and "n = length (filter (missing_model p ids) (model_definitions (working s)))"
proof -
  have t: "committed t = committed s" "n = length (filter (missing_model p ids) (model_definitions (working s)))"
      "working t = put_models (update_where (missing_model p ids) (\<lambda>r. r\<lparr>md_status := ''STALE''\<rparr>)
        (model_definitions (working s))) (working s)"
    using assms by (auto simp: mark_missing_stale_def runs)
  have first: "first_row (filter (same_model p' m') (update_where (missing_model p ids) (\<lambda>r. r\<lparr>md_status := ''STALE''\<rparr>) rows)) =
      map_option (\<lambda>r. if missing_model p ids r then r\<lparr>md_status := ''STALE''\<rparr> else r) (first_row (filter (same_model p' m') rows))"
    for p' m' rows by (rule first_row_moved) (simp add: same_model_def)
  have "facts (if missing_model p ids r then r\<lparr>md_status := ''STALE''\<rparr> else r) =
      (if missing_model p ids (facts r) then (facts r)\<lparr>md_status := ''STALE''\<rparr> else facts r)" for r
    by (simp add: missing_model_def facts_def)
  then show "catalog_view (working t) = staled p ids (catalog_view (working s))"
    unfolding t(3) by (simp add: catalog_view_def staled_def first fun_eq_iff option.map_comp o_def del: if_split)
  show "working t = put_models (model_definitions (working t)) (working s)" unfolding t(3) by simp
qed (use assms in \<open>auto simp: mark_missing_stale_def runs\<close>)

lemma staled_listed:
  "staled p (map cm_provider_model_id models) (v ++ snapshot_of p allow at models) =
   staled p (map cm_provider_model_id models) v ++ snapshot_of p allow at models"
proof
  fix k
  have "\<not> missing_model p (map cm_provider_model_id models) r" if k: "snapshot_of p allow at models k = Some r" for r
  proof -
    from k obtain m where "m \<in> set models" "r = catalog_row p allow at m 0"
      by (auto simp: snapshot_of_def dest!: map_of_SomeD)
    then show ?thesis by (simp add: missing_model_def)
  qed
  then show "staled p (map cm_provider_model_id models) (v ++ snapshot_of p allow at models) k =
      (staled p (map cm_provider_model_id models) v ++ snapshot_of p allow at models) k"
    by (auto simp: staled_def map_add_def split: option.splits)
qed

lemma refresh_listed_runs:
  assumes "refresh_listed p allow models s = (Inr resp, t)" and "distinct (map cm_provider_model_id models)"
  shows "committed t = put_models (model_definitions (committed t)) (working s)"
    and "catalog_view (committed t) = staled p (map cm_provider_model_id models) (catalog_view (working s)) ++
      snapshot_of p allow (rr_verified_at resp) models"
    and "rr_provider_id resp = p" "rr_verified_count resp = length models"
    and "rr_stale_count resp = length (filter (missing_model p (map cm_provider_model_id models)) (model_definitions (working s)))"
proof -
  let ?ids = "map cm_provider_model_id models"
  let ?at = "clock_at s (tick s)" and ?s1 = "s\<lparr>tick := Suc (tick s)\<rparr>"
  obtain s2 n s3 where ups: "for_each models (\<lambda>m. upsert_model (catalog_row p allow ?at m)) ?s1 = (Inr (), s2)"
    and st: "mark_missing_stale p ?ids s2 = (Inr n, s3)" and t: "committed t = working s3"
    and resp: "resp = \<lparr>rr_provider_id = p, rr_verified_count = length models, rr_stale_count = n, rr_verified_at = ?at\<rparr>"
    using assms(1) by (auto simp: refresh_listed_def runs)
  note u = upserts_view [OF ups assms(2) subset_refl] and v = stale_view [OF st]
  have "working s3 = put_models (model_definitions (working s3)) (working s)"
    by (subst v(2), subst conjunct1 [OF conjunct2 [OF u]]) simp
  then show "committed t = put_models (model_definitions (committed t)) (working s)" by (simp add: t)
  show "catalog_view (committed t) = staled p ?ids (catalog_view (working s)) ++ snapshot_of p allow (rr_verified_at resp) models"
    using u v by (simp add: t resp staled_listed del: map_map)
  show "rr_stale_count resp = length (filter (missing_model p ?ids) (model_definitions (working s)))"
    using u v by (simp add: resp)
qed (use assms(1) in \<open>auto simp: refresh_listed_def runs\<close>)

lemma refresh_provider_late:
  "late (\<lambda>_. False) (refresh_provider t w p sources allow)"
proof -
  have "late is_sqlalchemy_error (refresh_listed p allow models)" for models
    unfolding refresh_listed_def
    by (intro late_bnd late_andthen late_commit_ret quiet.steps_rules quiet.stmt_rules quiet.steps_catalog_writes TrueI)
  have "late (\<lambda>_. False) (refresh_listed p allow models)" for models
    unfolding refresh_listed_def
    by (intro late_bnd late_andthen late_commit_ret quiet.steps_rules quiet.stmt_rules quiet.steps_catalog_writes TrueI)
  then have "late (\<lambda>_. False) (transaction e (refresh_listed p allow models))" for e models
    unfolding late_def transaction_def catch_def andthen_def bnd_def rollback_def throw_def
    by (fastforce split: prod.splits sum.splits if_splits)
  moreover have "late (\<lambda>_. False) (andthen rollback (throw e) :: refresh_response prog)" for e
    by (intro late_quiet quiet.steps_rules quiet.stmt_rules)
  ultimately have "late (\<lambda>_. False) (case source_reply sources p of
      Listed models \<Rightarrow> if distinct (map cm_provider_model_id models)
        then transaction catalog_persistence_failed (refresh_listed p allow models)
        else andthen rollback (throw refresh_failed)
    | Provider_error _ \<Rightarrow> andthen rollback (throw refresh_failed)
    | Malformed_reply \<Rightarrow> andthen rollback (throw refresh_failed))"
    by (simp split: catalog_reply.splits)
  then show ?thesis unfolding refresh_provider_def by (intro late_andthen quiet.steps_scopes)
qed

text \<open>
  C10: A refresh of a provider's catalog is one atomic update of the map from identities to catalog
  facts: when it returns, the answer of the source, whose entries have distinct names, replaces what
  was known of those entries, every other entry of the provider that was available is stale, and
  nothing else changed, in this table or any other; the counts returned are those of the answer and
  of the entries that went stale. Every failure leaves the durable data as they were.
\<close>
theorem refresh_refines_snapshot:
  assumes "working s = committed s"
  shows "case refresh_provider t w p sources allow s of
      (Inl e, u) \<Rightarrow> committed u = committed s
    | (Inr resp, u) \<Rightarrow> \<exists>models ids. source_reply sources p = Listed models \<and>
        ids = map cm_provider_model_id models \<and> distinct ids \<and>
        catalog_view (committed u) =
          staled p ids (catalog_view (committed s)) ++ snapshot_of p allow (rr_verified_at resp) models \<and>
        committed u = put_models (model_definitions (committed u)) (committed s) \<and>
        rr_verified_count resp = length models \<and>
        rr_stale_count resp = length (filter (missing_model p ids) (model_definitions (committed s)))"
proof (cases "refresh_provider t w p sources allow s")
  case (Pair r u)
  show ?thesis
  proof (cases r)
    case (Inl e)
    with Pair refresh_provider_late [of t w p sources allow] show ?thesis by (auto simp: late_def)
  next
    case (Inr resp)
    with Pair obtain s1 models where s1: "require_workspace t w s = (Inr (), s1)"
      and models: "source_reply sources p = Listed models" "distinct (map cm_provider_model_id models)"
        "refresh_listed p allow models s1 = (Inr resp, u)"
      unfolding refresh_provider_def by (auto simp: runs split: catalog_reply.splits if_splits)
    have "working s1 = committed s" using readsD(1) [OF reads_scopes(2) s1] assms by simp
    with refresh_listed_runs [OF models(3,2)] models(1,2) Pair Inr show ?thesis by auto
  qed
qed

definition sample_entry :: catalog_model where
  "sample_entry = \<lparr>cm_provider_model_id = ''m1'', cm_execution_target_class = REMOTE, cm_display_name = ''M1'',
     cm_context_window = Some 8000, cm_max_output_tokens = None, cm_reasoning = None, cm_coding = Some True,
     cm_tool_calling = None, cm_structured_output = Some True, cm_contract_enforcement_grade = None,
     cm_enforcement_metadata_source = None, cm_vision = None, cm_input_price_per_million = Some 20000000000,
     cm_output_price_per_million = Some 40000000000, cm_currency = Some ''USD'', cm_family = None, cm_revision = None\<rparr>"

definition sample_sources :: "catalog_source list" where
  "sample_sources = [\<lparr>cs_provider_id = ''acme'', cs_list_models = Listed [sample_entry]\<rparr>]"

lemma sample_entry_ok: "CatalogModel sample_entry = Some sample_entry"
  by code_simp

lemma sample_refresh:
  "map_sum id rr_verified_count (fst (refresh_provider 1 2 ''acme'' sample_sources {} (sample_session sample_db))) = Inr 1"
  by code_simp

theorem refresh_refines_snapshot_witness:
  "catalog_view (committed (snd (refresh_provider 1 2 ''acme'' sample_sources {} (sample_session sample_db)))) (''acme'', ''m1'') \<noteq> None"
  using refresh_refines_snapshot [where s = "sample_session sample_db" and t = 1 and w = 2 and
    p = "''acme''" and sources = sample_sources and allow = "{}"] sample_refresh
  by (auto simp: sample_sources_def source_reply_def sample_entry_def split: prod.splits sum.splits)

end
