(* ===== verification/Agent_Contracts.thy ===== *)
theory Agent_Contracts
  imports Tools Model_Catalog
begin

text \<open>
  The contracts of agent inputs and results (\<open>modules/agents/contracts.py\<close>): what an untrusted
  result may hold, and the normal form that validation brings it into. A validator takes the record
  as parsed from JSON and returns the validated record, or \<open>None\<close> for a \<open>ValidationError\<close>.
\<close>

section \<open>Texts\<close>

text \<open>A literal at the start of a text, ignoring the case of ASCII letters.\<close>

definition starts_ci :: "pystr \<Rightarrow> pystr \<Rightarrow> bool" where
  "starts_ci literal t = (map ascii_fold (take (length literal) t) = literal)"

text \<open>
  \<open>search\<close>: a pattern somewhere in a text, given what it matches at a position and whether a word
  boundary lies before it.
\<close>

fun search_from :: "(bool \<Rightarrow> pystr \<Rightarrow> bool) \<Rightarrow> bool \<Rightarrow> pystr \<Rightarrow> bool" where
  "search_from matches boundary [] = matches boundary []"
| "search_from matches boundary (c # cs) =
    (matches boundary (c # cs) \<or> search_from matches (\<not> word_char c) cs)"

definition searches :: "(bool \<Rightarrow> pystr \<Rightarrow> bool) \<Rightarrow> pystr \<Rightarrow> bool" where
  "searches matches t = search_from matches True t"

definition after_spaces :: "(char \<Rightarrow> bool) \<Rightarrow> pystr \<Rightarrow> bool" where
  "after_spaces ok t = (case dropWhile isspace t of [] \<Rightarrow> False | c # _ \<Rightarrow> ok c)"

definition api_key :: "pystr \<Rightarrow> bool" where
  "api_key t = (starts_ci ''api'' t \<and>
    (let rest = drop 3 t; name = (if rest \<noteq> [] \<and> hd rest \<in> set ''-_ '' then tl rest else rest) in
     starts_ci ''key'' name \<and> after_spaces (\<lambda>c. c = CHR '':'' \<or> c = CHR ''='') (drop 3 name)))"

definition token_char :: "char \<Rightarrow> bool" where
  "token_char c = (ascii_alnum c \<or> c \<in> set ''._~+/=-'')"

definition CREDENTIAL :: "bool \<Rightarrow> pystr \<Rightarrow> bool" where
  "CREDENTIAL boundary t =
    (starts_ci ''authorization'' t \<and> after_spaces (\<lambda>c. c = CHR '':'') (drop 13 t) \<or> api_key t \<or>
     scheme_token ''bearer'' token_char t \<or> scheme_token ''basic'' token_char t \<or> boundary \<and> sk_token t)"

definition PRIVATE_KEY :: "pystr \<Rightarrow> bool" where
  "PRIVATE_KEY t = list_ex (\<lambda>algorithm. starts_ci (''begin '' @ algorithm @ ''private key'') t)
     [[], ''rsa '', ''ec '', ''openssh '']"

definition EMBEDDED_DATA :: "pystr \<Rightarrow> bool" where
  "EMBEDDED_DATA t = (starts_ci ''data:'' t \<or> searches (\<lambda>_ u. starts_ci '';base64,'' u \<or> PRIVATE_KEY u) t)"

definition safe_text :: "pystr \<Rightarrow> pystr option" where
  "safe_text v =
    (let t = strip v in
     if t = [] \<or> list_ex (\<lambda>c. (of_char c :: nat) < 32 \<and> c \<noteq> CHR 0x0A \<and> c \<noteq> CHR 0x09) t \<or>
        searches CREDENTIAL t
     then None else Some t)"

definition IDENTIFIER :: rx where
  "IDENTIFIER = CALL_KEY"

definition REFERENCE :: rx where
  "REFERENCE = Seq (Cls ascii_alnum) (upto_times 127 (Cls (\<lambda>c. ascii_alnum c \<or> c \<in> set ''._:/-'')))"

definition media_char :: "char \<Rightarrow> bool" where
  "media_char c = (lower_az c \<or> digit09 c \<or> c \<in> set ''!#$&^_.+-'')"

definition CONTENT_TYPE :: rx where
  "CONTENT_TYPE = (let half = Seq (Cls (\<lambda>c. lower_az c \<or> digit09 c)) (upto_times 63 (Cls media_char)) in
     Seq half (Seq (lit (CHR ''/'')) half))"

definition normal_identifier :: "pystr \<Rightarrow> pystr option" where
  "normal_identifier v = (let w = lower (strip v) in if fullmatch IDENTIFIER w then Some w else None)"

definition normal_reference :: "pystr \<Rightarrow> pystr option" where
  "normal_reference v = (case safe_text v of
     None \<Rightarrow> None
   | Some t \<Rightarrow> if contains ''://'' t \<or> \<not> fullmatch REFERENCE t then None else Some t)"

text \<open>
  The types of the fields: what pydantic checks of the text (for \<open>Identifier\<close>, \<open>ReferenceId\<close> and
  \<open>ShortText\<close> after stripping it), then the validator of the field.
\<close>

definition Identifier :: "pystr \<Rightarrow> pystr option" where
  "Identifier v = (let t = trim v in if between 1 100 t \<and> fullmatch IDENTIFIER t then Some t else None)"

definition ReferenceId :: "pystr \<Rightarrow> pystr option" where
  "ReferenceId v = (let t = trim v in if between 1 128 t \<and> fullmatch REFERENCE t then Some t else None)"

definition ShortText :: "pystr \<Rightarrow> pystr option" where
  "ShortText v = (let t = trim v in if between 1 500 t then Some t else None)"

definition identifier_field :: "pystr \<Rightarrow> pystr option" where
  "identifier_field v = Option.bind (Identifier v) normal_identifier"

definition reference_field :: "pystr \<Rightarrow> pystr option" where
  "reference_field v = Option.bind (ReferenceId v) normal_reference"

definition short_text :: "pystr \<Rightarrow> pystr option" where
  "short_text v = Option.bind (ShortText v) safe_text"

definition text_field :: "nat \<Rightarrow> pystr \<Rightarrow> pystr option" where
  "text_field limit v = (if between 1 limit v then safe_text v else None)"

definition list_field :: "nat \<Rightarrow> ('a \<Rightarrow> 'a option) \<Rightarrow> 'a list \<Rightarrow> 'a list option" where
  "list_field limit f vs = (if length vs \<le> limit then those (map f vs) else None)"

definition unique_sorted :: "pystr list \<Rightarrow> pystr list" where
  "unique_sorted vs = sort (remdups vs)"

text \<open>A list whose entries are normalised, made unique and sorted.\<close>

definition name_set :: "nat \<Rightarrow> (pystr \<Rightarrow> pystr option) \<Rightarrow> pystr list \<Rightarrow> pystr list option" where
  "name_set limit f vs = map_option unique_sorted (list_field limit f vs)"

text \<open>A list whose entries are normalised and sorted, and may not repeat.\<close>

definition name_list :: "nat \<Rightarrow> (pystr \<Rightarrow> pystr option) \<Rightarrow> pystr list \<Rightarrow> pystr list option" where
  "name_list limit f vs = Option.bind (list_field limit f vs) (\<lambda>ws. if distinct ws then Some (sort ws) else None)"

definition maybe :: "('a \<Rightarrow> 'a option) \<Rightarrow> 'a option \<Rightarrow> 'a option option" where
  "maybe f v = (case v of None \<Rightarrow> Some None | Some x \<Rightarrow> map_option Some (f x))"

definition accept :: "bool \<Rightarrow> 'a \<Rightarrow> 'a option" where
  "accept ok v = (if ok then Some v else None)"

section \<open>Inputs\<close>

record context_reference =
  cxr_reference_id :: pystr
  cxr_label :: "pystr option"

definition ContextReference :: "context_reference \<Rightarrow> context_reference option" where
  "ContextReference v =
     Option.bind (reference_field (cxr_reference_id v)) (\<lambda>i.
     Option.bind (maybe short_text (cxr_label v)) (\<lambda>l.
     Some \<lparr>cxr_reference_id = i, cxr_label = l\<rparr>))"

record model_requirement_hints =
  hnt_required_capabilities :: "pystr list"
  hnt_minimum_context_tokens :: "int option"
  hnt_structured_output_required :: bool
  hnt_minimum_grade :: contract_enforcement_grade
  hnt_tool_calling_required :: bool

definition ModelRequirementHints :: "model_requirement_hints \<Rightarrow> model_requirement_hints option" where
  "ModelRequirementHints v =
     Option.bind (name_set 16 identifier_field (hnt_required_capabilities v)) (\<lambda>cs.
     accept (opt_all (\<lambda>n. 1 \<le> n \<and> n \<le> 2000000) (hnt_minimum_context_tokens v)) (v\<lparr>hnt_required_capabilities := cs\<rparr>))"

record agent_input =
  ain_objective :: pystr
  ain_constraints :: "pystr list"
  ain_project_id :: "pystr option"
  ain_task_id :: "pystr option"
  ain_context_references :: "context_reference list"
  ain_source_references :: "pystr list"
  ain_prior_result_references :: "pystr list"
  ain_expected_output_type :: pystr
  ain_permitted_tools :: "pystr list"
  ain_model_requirements :: "model_requirement_hints option"

definition AgentInput :: "agent_input \<Rightarrow> agent_input option" where
  "AgentInput v =
     Option.bind (text_field 4000 (ain_objective v)) (\<lambda>obj.
     Option.bind (name_set 32 short_text (ain_constraints v)) (\<lambda>cons.
     Option.bind (maybe reference_field (ain_project_id v)) (\<lambda>p.
     Option.bind (maybe reference_field (ain_task_id v)) (\<lambda>k.
     Option.bind (list_field 32 ContextReference (ain_context_references v)) (\<lambda>ctx.
     Option.bind (name_set 32 reference_field (ain_source_references v)) (\<lambda>srcs.
     Option.bind (name_set 16 reference_field (ain_prior_result_references v)) (\<lambda>prior.
     Option.bind (identifier_field (ain_expected_output_type v)) (\<lambda>out.
     Option.bind (name_set 32 identifier_field (ain_permitted_tools v)) (\<lambda>tools.
     Option.bind (maybe ModelRequirementHints (ain_model_requirements v)) (\<lambda>req.
     accept (k = None \<or> p \<noteq> None)
       \<lparr>ain_objective = obj, ain_constraints = cons, ain_project_id = p, ain_task_id = k,
        ain_context_references = ctx, ain_source_references = srcs, ain_prior_result_references = prior,
        ain_expected_output_type = out, ain_permitted_tools = tools, ain_model_requirements = req\<rparr>))))))))))"

section \<open>Results\<close>

datatype agent_result_status = COMPLETED | PARTIAL | BLOCKED | NEEDS_INPUT | FAILED | CANCELLED

definition agent_result_status_value :: "agent_result_status \<Rightarrow> pystr" where
  "agent_result_status_value v = (case v of COMPLETED \<Rightarrow> ''COMPLETED'' | PARTIAL \<Rightarrow> ''PARTIAL'' | BLOCKED \<Rightarrow> ''BLOCKED''
     | NEEDS_INPUT \<Rightarrow> ''NEEDS_INPUT'' | FAILED \<Rightarrow> ''FAILED'' | CANCELLED \<Rightarrow> ''CANCELLED'')"

datatype finding_severity = INFO | WARNING | HIGH | CRITICAL

definition finding_severity_value :: "finding_severity \<Rightarrow> pystr" where
  "finding_severity_value v =
    (case v of INFO \<Rightarrow> ''INFO'' | WARNING \<Rightarrow> ''WARNING'' | HIGH \<Rightarrow> ''HIGH'' | CRITICAL \<Rightarrow> ''CRITICAL'')"

record finding =
  fnd_category :: pystr
  fnd_title :: pystr
  fnd_detail :: pystr
  fnd_severity :: "finding_severity option"
  fnd_source_references :: "pystr list"

definition Finding :: "finding \<Rightarrow> finding option" where
  "Finding v =
     Option.bind (identifier_field (fnd_category v)) (\<lambda>c.
     Option.bind (text_field 300 (fnd_title v)) (\<lambda>t.
     Option.bind (text_field 4000 (fnd_detail v)) (\<lambda>d.
     Option.bind (name_set 16 reference_field (fnd_source_references v)) (\<lambda>rs.
     Some \<lparr>fnd_category = c, fnd_title = t, fnd_detail = d, fnd_severity = fnd_severity v,
       fnd_source_references = rs\<rparr>))))"

record source_reference =
  srf_source_id :: pystr
  srf_label :: pystr
  srf_source_type :: "pystr option"
  srf_provenance_uri :: "pystr option"

definition provenance_uri :: "url_lib \<Rightarrow> pystr \<Rightarrow> pystr option" where
  "provenance_uri lib v =
    (if \<not> between 1 512 v then None
     else case safe_text v of
       None \<Rightarrow> None
     | Some t \<Rightarrow> (case urlsplit lib t of
         None \<Rightarrow> None
       | Some parsed \<Rightarrow>
           let truthy = (\<lambda>x. case x of Some (c # cs) \<Rightarrow> True | _ \<Rightarrow> False) in
           if url_scheme parsed \<notin> {''http'', ''https''} \<or> \<not> truthy (url_hostname parsed) then None
           else if truthy (url_username parsed) \<or> truthy (url_password parsed) \<or> url_query parsed \<noteq> [] \<or>
             url_fragment parsed \<noteq> []
           then None else Some t))"

definition SourceReference :: "url_lib \<Rightarrow> source_reference \<Rightarrow> source_reference option" where
  "SourceReference lib v =
     Option.bind (reference_field (srf_source_id v)) (\<lambda>i.
     Option.bind (text_field 300 (srf_label v)) (\<lambda>l.
     Option.bind (maybe identifier_field (srf_source_type v)) (\<lambda>t.
     Option.bind (maybe (provenance_uri lib) (srf_provenance_uri v)) (\<lambda>u.
     Some \<lparr>srf_source_id = i, srf_label = l, srf_source_type = t, srf_provenance_uri = u\<rparr>))))"

record artifact_reference =
  art_artifact_id :: pystr
  art_artifact_type :: pystr
  art_label :: pystr
  art_path :: "pystr option"
  art_external_reference :: "pystr option"
  art_content_type :: "pystr option"

definition looks_like_base64 :: "pystr \<Rightarrow> bool" where
  "looks_like_base64 t =
    (80 \<le> length t \<and>
     fullmatch (let body = Cls (\<lambda>c. ascii_alnum c \<or> c = CHR ''+'' \<or> c = CHR ''/'') in
       Seq body (Seq (Star body) (upto_times 2 (lit (CHR ''=''))))) t)"

definition artifact_path :: "pystr \<Rightarrow> pystr option" where
  "artifact_path v =
    (if \<not> between 1 512 v then None
     else case safe_text v of
       None \<Rightarrow> None
     | Some t \<Rightarrow>
         let compact = filter (\<lambda>c. c \<noteq> CHR 0x0A \<and> c \<noteq> CHR 0x0D) t in
         if EMBEDDED_DATA t \<or> looks_like_base64 compact then None else Some t)"

definition content_type :: "pystr \<Rightarrow> pystr option" where
  "content_type v = (if between 3 129 v \<and> fullmatch CONTENT_TYPE v then Some v else None)"

definition ArtifactReference :: "artifact_reference \<Rightarrow> artifact_reference option" where
  "ArtifactReference v =
     Option.bind (reference_field (art_artifact_id v)) (\<lambda>i.
     Option.bind (identifier_field (art_artifact_type v)) (\<lambda>t.
     Option.bind (text_field 300 (art_label v)) (\<lambda>l.
     Option.bind (maybe artifact_path (art_path v)) (\<lambda>p.
     Option.bind (maybe reference_field (art_external_reference v)) (\<lambda>e.
     Option.bind (maybe content_type (art_content_type v)) (\<lambda>c.
     Some \<lparr>art_artifact_id = i, art_artifact_type = t, art_label = l, art_path = p,
       art_external_reference = e, art_content_type = c\<rparr>))))))"

text \<open>
  \<open>Assumption\<close> and its subclasses \<open>Uncertainty\<close> and \<open>BlockingIssue\<close> have the same fields; a \<open>Risk\<close>
  has a severity besides.
\<close>

record assumption =
  asm_statement :: pystr
  asm_source_references :: "pystr list"

definition Assumption :: "assumption \<Rightarrow> assumption option" where
  "Assumption v =
     Option.bind (text_field 1000 (asm_statement v)) (\<lambda>t.
     Option.bind (name_set 8 reference_field (asm_source_references v)) (\<lambda>rs.
     Some \<lparr>asm_statement = t, asm_source_references = rs\<rparr>))"

record risk =
  rsk_assumption :: assumption
  rsk_severity :: risk_level

definition Risk :: "risk \<Rightarrow> risk option" where
  "Risk v = map_option (\<lambda>a. v\<lparr>rsk_assumption := a\<rparr>) (Assumption (rsk_assumption v))"

datatype challenge_level = NONE | WARNING | HUMAN_REVIEW_RECOMMENDED | BLOCK_RECOMMENDED

definition challenge_level_value :: "challenge_level \<Rightarrow> pystr" where
  "challenge_level_value v = (case v of NONE \<Rightarrow> ''NONE'' | WARNING \<Rightarrow> ''WARNING''
     | HUMAN_REVIEW_RECOMMENDED \<Rightarrow> ''HUMAN_REVIEW_RECOMMENDED'' | BLOCK_RECOMMENDED \<Rightarrow> ''BLOCK_RECOMMENDED'')"

record challenge =
  chl_level :: challenge_level
  chl_reason :: "pystr option"
  chl_evidence_source_references :: "pystr list"
  chl_suggested_action :: "pystr option"

definition Challenge :: "challenge \<Rightarrow> challenge option" where
  "Challenge v =
     Option.bind (maybe (text_field 2000) (chl_reason v)) (\<lambda>r.
     Option.bind (name_set 16 reference_field (chl_evidence_source_references v)) (\<lambda>rs.
     Option.bind (maybe (text_field 500) (chl_suggested_action v)) (\<lambda>a.
     accept (if chl_level v = NONE then r = None \<and> rs = [] \<and> a = None else r \<noteq> None)
       \<lparr>chl_level = chl_level v, chl_reason = r, chl_evidence_source_references = rs, chl_suggested_action = a\<rparr>)))"

record requested_action =
  rqa_action_type :: pystr
  rqa_target_reference :: pystr
  rqa_reason :: pystr
  rqa_risk_hint :: "risk_level option"

definition RequestedAction :: "requested_action \<Rightarrow> requested_action option" where
  "RequestedAction v =
     Option.bind (identifier_field (rqa_action_type v)) (\<lambda>t.
     Option.bind (reference_field (rqa_target_reference v)) (\<lambda>r.
     Option.bind (text_field 1000 (rqa_reason v)) (\<lambda>w.
     accept (CHR ''.'' \<in> set t)
       \<lparr>rqa_action_type = t, rqa_target_reference = r, rqa_reason = w, rqa_risk_hint = rqa_risk_hint v\<rparr>)))"

record agent_result =
  arz_status :: agent_result_status
  arz_summary :: pystr
  arz_findings :: "finding list"
  arz_artifacts :: "artifact_reference list"
  arz_sources :: "source_reference list"
  arz_assumptions :: "assumption list"
  arz_risks :: "risk list"
  arz_uncertainties :: "assumption list"
  arz_blocking_issues :: "assumption list"
  arz_challenge :: challenge
  arz_recommended_next_steps :: "pystr list"
  arz_requested_actions :: "requested_action list"

definition AgentResult :: "url_lib \<Rightarrow> agent_result \<Rightarrow> agent_result option" where
  "AgentResult lib v =
     Option.bind (text_field 4000 (arz_summary v)) (\<lambda>summary.
     Option.bind (list_field 64 Finding (arz_findings v)) (\<lambda>findings.
     Option.bind (list_field 32 ArtifactReference (arz_artifacts v)) (\<lambda>artifacts.
     Option.bind (list_field 64 (SourceReference lib) (arz_sources v)) (\<lambda>sources.
     Option.bind (list_field 32 Assumption (arz_assumptions v)) (\<lambda>assumptions.
     Option.bind (list_field 32 Risk (arz_risks v)) (\<lambda>risks.
     Option.bind (list_field 32 Assumption (arz_uncertainties v)) (\<lambda>uncertainties.
     Option.bind (list_field 32 Assumption (arz_blocking_issues v)) (\<lambda>blocking.
     Option.bind (Challenge (arz_challenge v)) (\<lambda>chl.
     Option.bind (list_field 32 (text_field 1000) (arz_recommended_next_steps v)) (\<lambda>nexts.
     Option.bind (list_field 32 RequestedAction (arz_requested_actions v)) (\<lambda>actions.
     Some \<lparr>arz_status = arz_status v, arz_summary = summary, arz_findings = findings, arz_artifacts = artifacts,
       arz_sources = sources, arz_assumptions = assumptions, arz_risks = risks,
       arz_uncertainties = uncertainties, arz_blocking_issues = blocking, arz_challenge = chl,
       arz_recommended_next_steps = nexts, arz_requested_actions = actions\<rparr>)))))))))))"

section \<open>Validated records are fixed points\<close>

text \<open>
  A validator is stable when what it returns validates to itself. The result of a stable validator is
  remembered as \<open>kept f w\<close>, which the rewriting below uses as \<open>f w = Some w\<close>.
\<close>

definition kept :: "('a \<Rightarrow> 'a option) \<Rightarrow> 'a \<Rightarrow> bool" where
  "kept f w \<longleftrightarrow> f w = Some w"

definition stable :: "('a \<Rightarrow> 'a option) \<Rightarrow> bool" where
  "stable f \<longleftrightarrow> (\<forall>v w. f v = Some w \<longrightarrow> kept f w)"

named_theorems stable_intros

lemma stableD: "stable f \<Longrightarrow> f v = Some w \<Longrightarrow> f w = Some w"
  by (simp add: stable_def kept_def)

lemma stableI: "(\<And>v w. f v = Some w \<Longrightarrow> f w = Some w) \<Longrightarrow> stable f"
  by (simp add: stable_def kept_def)

lemma trim_strip [simp]: "trim (strip t) = strip t"
proof -
  have "dropWhile white_space xs = xs" if "dropWhile isspace xs = xs" for xs
    using that white_space_isspace by (cases xs) (auto split: if_splits, metis dropWhile_eq_Cons_conv)
  moreover have "dropWhile isspace (strip t) = strip t" "dropWhile isspace (rev (strip t)) = rev (strip t)"
    by (simp_all add: strip_def strip_by_def dropWhile_idem dropWhile_rev_idem)
  ultimately show ?thesis unfolding trim_def by (simp add: strip_by_def)
qed

lemma safe_text_Some: "safe_text v = Some t \<Longrightarrow> t = strip v \<and> t \<noteq> [] \<and> length t \<le> length v \<and> safe_text t = Some t"
  using length_strip(1) [of v] by (auto simp: safe_text_def Let_def split: if_splits)

lemma stable_safe_text [stable_intros]: "stable safe_text"
  by (rule stableI) (auto dest: safe_text_Some)

lemma CALL_KEY_chars: "fullmatch CALL_KEY w \<Longrightarrow> c \<in> set w \<Longrightarrow> ident_char c \<or> c = CHR ''.'' \<or> c = CHR ''-''"
  unfolding fullmatch_iff_lang
  by (drule lang_rx_chars) (auto simp: CALL_KEY_def ident_char_def)

lemma identifier_chars: "ident_char c \<or> c = CHR ''.'' \<or> c = CHR ''-'' \<Longrightarrow> \<not> isspace c \<and> lower_char c = c"
  using plain_char [of c] by (auto simp: isspace_def lower_char_def upper_az_def)

lemma no_spaces: "(\<And>c. c \<in> set w \<Longrightarrow> \<not> isspace c) \<Longrightarrow> strip w = w"
proof -
  assume *: "\<And>c. c \<in> set w \<Longrightarrow> \<not> isspace c"
  have "dropWhile isspace v = v" if "set v \<subseteq> set w" for v using that * by (cases v) auto
  from this [of w] this [of "rev w"] show ?thesis by (simp add: strip_def strip_by_def)
qed

lemma normal_identifier_word: "fullmatch IDENTIFIER w \<Longrightarrow> normal_identifier w = Some w"
proof -
  assume w: "fullmatch IDENTIFIER w"
  have c: "\<not> isspace c \<and> lower_char c = c" if "c \<in> set w" for c
    using CALL_KEY_chars [OF w [unfolded IDENTIFIER_def] that] by (rule identifier_chars)
  have "lower w = map (\<lambda>c. c) w" unfolding lower_def by (rule map_cong) (use c in auto)
  moreover have "strip w = w" by (rule no_spaces) (simp add: c)
  ultimately show ?thesis using w by (simp add: normal_identifier_def)
qed

lemma identifier_field_Some:
  "identifier_field v = Some w \<Longrightarrow> w = trim v \<and> fullmatch IDENTIFIER w \<and> length w \<le> 100"
  by (auto simp: identifier_field_def Identifier_def Let_def normal_identifier_word between_def split: if_splits)

lemma stable_identifier_field [stable_intros]: "stable identifier_field"
  by (rule stableI)
    (auto simp: identifier_field_def Identifier_def Let_def normal_identifier_word split: if_splits)

lemma REFERENCE_chars: "fullmatch REFERENCE w \<Longrightarrow> c \<in> set w \<Longrightarrow> \<not> isspace c"
proof -
  assume "fullmatch REFERENCE w" "c \<in> set w"
  then have "ascii_alnum c \<or> c \<in> set ''._:/-''"
    unfolding fullmatch_iff_lang
    by (auto simp: REFERENCE_def dest!: lang_rx_chars dest: rx_chars_upto_times)
  then show ?thesis
    by (auto simp: ascii_alnum_def lower_az_def upper_az_def digit09_def isspace_def less_eq_char_def)
qed

lemma reference_field_Some: "reference_field v = Some w \<Longrightarrow> w = trim v \<and> fullmatch REFERENCE w \<and> reference_field w = Some w"
proof -
  assume v: "reference_field v = Some w"
  then have t: "between 1 128 (trim v)" "fullmatch REFERENCE (trim v)" and n: "normal_reference (trim v) = Some w"
    by (auto simp: reference_field_def ReferenceId_def Let_def split: if_splits)
  have "strip (trim v) = trim v" by (rule no_spaces) (rule REFERENCE_chars [OF t(2)])
  with n have "w = trim v" by (auto simp: normal_reference_def dest: safe_text_Some split: option.splits if_splits)
  with t n show ?thesis by (simp add: reference_field_def ReferenceId_def)
qed

lemma stable_reference_field [stable_intros]: "stable reference_field"
  by (rule stableI) (simp add: reference_field_Some)

lemma stable_short_text [stable_intros]: "stable short_text"
proof (rule stableI)
  fix v w assume "short_text v = Some w"
  then have t: "between 1 500 (trim v)" "safe_text (trim v) = Some w"
    by (auto simp: short_text_def ShortText_def Let_def split: if_splits)
  from safe_text_Some [OF t(2)] t(1) have "between 1 500 w" "trim w = w" "safe_text w = Some w"
    by (auto simp: between_def Suc_le_eq)
  then show "short_text w = Some w" by (simp add: short_text_def ShortText_def)
qed

lemma stable_text_field [stable_intros]: "stable (text_field n)"
proof (rule stableI)
  fix v w assume "text_field n v = Some w"
  then have t: "between 1 n v" "safe_text v = Some w" by (auto simp: text_field_def split: if_splits)
  from safe_text_Some [OF t(2)] t(1) show "text_field n w = Some w"
    by (auto simp: text_field_def between_def Suc_le_eq)
qed

lemma list_field_Some:
  "list_field n f vs = Some ws \<longleftrightarrow> length vs \<le> n \<and> list_all2 (\<lambda>v w. f v = Some w) vs ws"
  by (simp add: list_field_def those_map_Some)

lemma list_field_kept: "list_field n f ws = Some ws \<longleftrightarrow> length ws \<le> n \<and> list_all (kept f) ws"
  by (simp add: list_field_Some list_all2_same list_all_iff kept_def)

lemma list_field_result:
  "stable f \<Longrightarrow> list_field n f vs = Some ws \<Longrightarrow> length ws \<le> n \<and> list_all (kept f) ws"
  by (auto simp: list_field_Some list_all2_conv_all_nth list_all_length stable_def)

lemma stable_list_field [stable_intros]: "stable f \<Longrightarrow> stable (list_field n f)"
  by (rule stableI) (simp add: list_field_kept list_field_result)

lemma stable_name_set [stable_intros]:
  assumes "stable f" shows "stable (name_set n f)"
proof (rule stableI)
  fix v w assume "name_set n f v = Some w"
  then obtain u where u: "list_field n f v = Some u" "w = unique_sorted u" by (auto simp: name_set_def)
  from list_field_result [OF assms u(1)] have "list_field n f w = Some w"
    using le_trans [OF length_remdups_leq [of u]] by (auto simp: list_field_kept u(2) unique_sorted_def list_all_iff)
  moreover have "unique_sorted w = w" by (simp add: u(2) unique_sorted_def distinct_remdups_id sorted_sort_id)
  ultimately show "name_set n f w = Some w" by (simp add: name_set_def)
qed

lemma stable_name_list [stable_intros]:
  assumes "stable f" shows "stable (name_list n f)"
proof (rule stableI)
  fix v w assume "name_list n f v = Some w"
  then obtain u where u: "list_field n f v = Some u" "distinct u" "w = sort u"
    by (auto simp: name_list_def bind_eq_Some_conv split: if_splits)
  from list_field_result [OF assms u(1)] have "list_field n f w = Some w"
    by (auto simp: list_field_kept u(3) list_all_iff)
  with u show "name_list n f w = Some w" by (simp add: name_list_def sorted_sort_id)
qed

lemma stable_maybe [stable_intros]: "stable f \<Longrightarrow> stable (maybe f)"
  by (auto simp: stable_def kept_def maybe_def split: option.splits)

lemma accept_Some [simp]: "accept ok v = Some w \<longleftrightarrow> ok \<and> w = v"
  by (auto simp: accept_def)

text \<open>
  A record validator binds the validated fields one after the other: it is stable when each of the
  fields' validators is.
\<close>

lemmas text_fixed = stable_text_field [THEN stableD] stable_identifier_field [THEN stableD]
  stable_reference_field [THEN stableD] stable_short_text [THEN stableD]
  stable_maybe [OF stable_text_field, THEN stableD] stable_maybe [OF stable_identifier_field, THEN stableD]
  stable_maybe [OF stable_reference_field, THEN stableD] stable_maybe [OF stable_short_text, THEN stableD]
  stable_name_set [OF stable_reference_field, THEN stableD] stable_name_set [OF stable_identifier_field, THEN stableD]
  stable_name_set [OF stable_short_text, THEN stableD]

lemma stable_ContextReference [stable_intros]: "stable ContextReference"
  by (rule stableI) (auto simp: ContextReference_def bind_eq_Some_conv text_fixed)

lemma stable_ModelRequirementHints [stable_intros]: "stable ModelRequirementHints"
  by (rule stableI) (auto simp: ModelRequirementHints_def bind_eq_Some_conv text_fixed)

lemma stable_Finding [stable_intros]: "stable Finding"
  by (rule stableI) (auto simp: Finding_def bind_eq_Some_conv text_fixed)

lemma stable_Assumption [stable_intros]: "stable Assumption"
  by (rule stableI) (auto simp: Assumption_def bind_eq_Some_conv text_fixed)

lemma stable_Risk [stable_intros]: "stable Risk"
  by (rule stableI) (auto simp: Risk_def stableD [OF stable_Assumption])

lemma stable_Challenge [stable_intros]: "stable Challenge"
  by (rule stableI) (auto simp: Challenge_def bind_eq_Some_conv text_fixed split: if_splits)

lemma stable_RequestedAction [stable_intros]: "stable RequestedAction"
  by (rule stableI) (auto simp: RequestedAction_def bind_eq_Some_conv text_fixed)

lemma stable_provenance_uri [stable_intros]: "stable (provenance_uri lib)"
proof (rule stableI)
  fix v w assume v: "provenance_uri lib v = Some w"
  then have t: "between 1 512 v" "safe_text v = Some w"
    by (auto simp: provenance_uri_def Let_def split: if_splits option.splits)
  then have "between 1 512 w" using safe_text_Some [OF t(2)] by (auto simp: between_def Suc_le_eq)
  moreover have "safe_text w = Some w" using safe_text_Some [OF t(2)] by blast
  ultimately show "provenance_uri lib w = Some w" using v t by (simp add: provenance_uri_def)
qed

lemma stable_artifact_path [stable_intros]: "stable artifact_path"
proof (rule stableI)
  fix v w assume v: "artifact_path v = Some w"
  then have t: "between 1 512 v" "safe_text v = Some w"
    by (auto simp: artifact_path_def Let_def split: if_splits option.splits)
  then have "between 1 512 w" using safe_text_Some [OF t(2)] by (auto simp: between_def Suc_le_eq)
  moreover have "safe_text w = Some w" using safe_text_Some [OF t(2)] by blast
  ultimately show "artifact_path w = Some w" using v t by (simp add: artifact_path_def)
qed

lemma stable_content_type [stable_intros]: "stable content_type"
  by (rule stableI) (auto simp: content_type_def split: if_splits)

lemmas reference_fixed = text_fixed stable_maybe [OF stable_provenance_uri, THEN stableD]
  stable_maybe [OF stable_artifact_path, THEN stableD] stable_maybe [OF stable_content_type, THEN stableD]
  stable_maybe [OF stable_ModelRequirementHints, THEN stableD]

lemma stable_SourceReference [stable_intros]: "stable (SourceReference lib)"
  by (rule stableI) (auto simp: SourceReference_def bind_eq_Some_conv reference_fixed)

lemma stable_ArtifactReference [stable_intros]: "stable ArtifactReference"
  by (rule stableI) (auto simp: ArtifactReference_def bind_eq_Some_conv reference_fixed)

lemmas list_fixed = reference_fixed stable_Challenge [THEN stableD]
  stable_list_field [OF stable_ContextReference, THEN stableD] stable_list_field [OF stable_Finding, THEN stableD]
  stable_list_field [OF stable_ArtifactReference, THEN stableD] stable_list_field [OF stable_SourceReference, THEN stableD]
  stable_list_field [OF stable_Assumption, THEN stableD] stable_list_field [OF stable_Risk, THEN stableD]
  stable_list_field [OF stable_text_field, THEN stableD] stable_list_field [OF stable_RequestedAction, THEN stableD]

lemma stable_AgentInput [stable_intros]: "stable AgentInput"
  by (rule stableI) (auto simp: AgentInput_def bind_eq_Some_conv list_fixed)

lemma stable_AgentResult [stable_intros]: "stable (AgentResult lib)"
  by (rule stableI) (auto simp: AgentResult_def bind_eq_Some_conv list_fixed)

section \<open>Ordinary names pass\<close>

text \<open>A text of letters, digits and underscores carries nothing the validators look for.\<close>

definition name_char :: "char \<Rightarrow> bool" where
  "name_char c = (ascii_alnum c \<or> c = CHR ''_'')"

lemma name_char_fold: "name_char c \<Longrightarrow> name_char (ascii_fold c) \<and> \<not> isspace c"
  by (cases "of_char c :: nat")
    (auto simp: name_char_def ascii_alnum_def ascii_fold_def lower_az_def upper_az_def digit09_def lower_char_def isspace_def Let_def
      less_eq_char_def)

lemma starts_ci_chars: "starts_ci literal t \<Longrightarrow> list_all name_char t \<Longrightarrow> list_all name_char literal"
  unfolding starts_ci_def by (erule subst) (auto simp: list_all_iff name_char_fold dest: in_set_takeD)

lemma names_no_space: "list_all name_char t \<Longrightarrow> dropWhile isspace t = t"
  by (cases t) (auto simp: name_char_fold)

lemma credential_marks: "\<not> name_char (CHR '':'')" "\<not> name_char (CHR ''='')" "\<not> name_char (CHR ''-'')"
  by (simp_all add: name_char_def ascii_alnum_def lower_az_def upper_az_def digit09_def less_eq_char_def)

lemma list_all_drop: "list_all P t \<Longrightarrow> list_all P (drop n t)"
  by (auto simp: list_all_iff dest: in_set_dropD)

lemma after_spaces_not: "list_all name_char t \<Longrightarrow> (\<And>c. ok c \<Longrightarrow> \<not> name_char c) \<Longrightarrow> \<not> after_spaces ok t"
  by (auto simp: after_spaces_def names_no_space split: list.splits)

lemma names_no_credential: "list_all name_char t \<Longrightarrow> \<not> CREDENTIAL boundary t"
proof -
  assume t: "list_all name_char t"
  have d: "list_all name_char (drop n t)" "dropWhile isspace (drop n t) = drop n t" for n
    using t list_all_drop names_no_space by blast+
  have m: "c = CHR '':'' \<Longrightarrow> \<not> name_char c" "c = CHR '':'' \<or> c = CHR ''='' \<Longrightarrow> \<not> name_char c" for c
    using credential_marks by auto
  have "\<not> after_spaces (\<lambda>c. c = CHR '':'') (drop 13 t)"
    by (rule after_spaces_not [OF d(1) m(1)])
  moreover have "\<not> api_key t"
  proof -
    have "\<not> after_spaces (\<lambda>c. c = CHR '':'' \<or> c = CHR ''='') (drop 3 u)" if "list_all name_char u" for u
      by (rule after_spaces_not [OF list_all_drop [OF that] m(2)])
    moreover have "tl (drop 3 t) = drop (Suc 3) t" by (simp only: drop_Suc tl_drop)
    with d(1) [of "Suc 3"] have "list_all name_char (tl (drop 3 t))" by simp
    ultimately show ?thesis using d(1) by (simp only: api_key_def Let_def split: if_split) blast
  qed
  moreover have "\<not> scheme_token s f t" for s f by (simp add: scheme_token_def Let_def d(2))
  moreover have "\<not> sk_token t"
    using starts_ci_chars [OF _ t, of "''sk-''"] credential_marks(3)
    by (auto simp: sk_token_def starts_ci_def numeral_3_eq_3)
  ultimately show ?thesis by (simp add: CREDENTIAL_def)
qed

lemma names_safe_text:
  assumes "list_all name_char t" "t \<noteq> []"
  shows "safe_text t = Some t"
proof -
  have "\<not> search_from CREDENTIAL b u" if "list_all name_char u" for b u
    using that by (induction u arbitrary: b) (simp_all add: names_no_credential)
  moreover have "strip t = t"
    using assms names_no_space [of t] names_no_space [of "rev t"] by (simp add: strip_def strip_by_def)
  moreover have "\<not> of_char c < (32 :: nat)" if "name_char c" for c
    using that by (auto simp: name_char_def ascii_alnum_def lower_az_def upper_az_def digit09_def less_eq_char_def)
  ultimately show ?thesis using assms by (auto simp: safe_text_def Let_def searches_def list_ex_iff list_all_iff)
qed

lemma names_text_field: "list_all name_char t \<Longrightarrow> between 1 n t \<Longrightarrow> text_field n t = Some t"
  using names_safe_text [of t] by (cases t) (auto simp: text_field_def between_def)

lemmas name_chars = name_char_def ascii_alnum_def lower_az_def upper_az_def digit09_def less_eq_char_def

lemma text_field_short:
  assumes "text_field 500 t = Some t"
  shows "short_text t = Some t"
proof -
  from assms have t: "between 1 500 t" "safe_text t = Some t" by (auto simp: text_field_def split: if_splits)
  have "trim t = t" by (metis trim_strip safe_text_Some [OF t(2), THEN conjunct1])
  with t show ?thesis by (simp add: short_text_def ShortText_def)
qed

lemmas names_short_text = text_field_short [OF names_text_field]

lemma empty_lists: "list_field n f [] = Some []" "name_set n g [] = Some []" "name_list n g [] = Some []"
  by (simp_all add: list_field_def name_set_def name_list_def unique_sorted_def)

definition sample_result :: agent_result where
  "sample_result = \<lparr>arz_status = COMPLETED, arz_summary = ''ok'', arz_findings = [], arz_artifacts = [], arz_sources = [],
     arz_assumptions = [], arz_risks = [], arz_uncertainties = [], arz_blocking_issues = [],
     arz_challenge = \<lparr>chl_level = HUMAN_REVIEW_RECOMMENDED, chl_reason = Some ''risky'', chl_evidence_source_references = [],
       chl_suggested_action = None\<rparr>,
     arz_recommended_next_steps = [], arz_requested_actions = []\<rparr>"

lemma sample_texts:
  "2 \<le> n \<Longrightarrow> text_field n ''ok'' = Some ''ok''" "5 \<le> n \<Longrightarrow> text_field n ''risky'' = Some ''risky''"
  "short_text ''ok'' = Some ''ok''" "short_text ''risky'' = Some ''risky''"
  by (rule names_text_field names_short_text; simp add: name_chars between_def)+

lemma sample_result_valid: "AgentResult lib sample_result = Some sample_result"
  by (simp add: AgentResult_def sample_result_def sample_texts empty_lists Challenge_def maybe_def accept_def)

definition sample_input :: "pystr list \<Rightarrow> agent_input" where
  "sample_input cs = \<lparr>ain_objective = ''ok'', ain_constraints = cs, ain_project_id = None, ain_task_id = None,
     ain_context_references = [], ain_source_references = [], ain_prior_result_references = [],
     ain_expected_output_type = ''c'', ain_permitted_tools = [], ain_model_requirements = None\<rparr>"

lemma sample_input_valid: "AgentInput (sample_input [''risky'', ''ok'', ''risky'']) = Some (sample_input [''ok'', ''risky''])"
proof -
  have "identifier_field ''c'' = Some ''c''" by code_simp
  moreover have "name_set 32 short_text [''risky'', ''ok'', ''risky''] = Some [''ok'', ''risky'']"
    by (simp add: name_set_def list_field_def sample_texts unique_sorted_def less_list_code less_char_def)
  ultimately show ?thesis by (simp add: AgentInput_def sample_input_def sample_texts empty_lists maybe_def accept_def)
qed

end
