(* ===== verification/Worker_Contracts.thy ===== *)
theory Worker_Contracts
  imports Workflow_Graph Agent_Contracts
begin

text \<open>
  The contracts of the Developer Manager and the Developer Worker (\<open>developer_manager/contracts.py\<close>,
  \<open>developer_worker/contracts.py\<close>): what the base contract of an agent input or result is extended
  with, and the order a plan proposal is brought into, which is that of the workflow engine.
\<close>

definition nonempty :: "('a list \<Rightarrow> 'b option) \<Rightarrow> 'a list \<Rightarrow> 'b option" where
  "nonempty f vs = (if vs = [] then None else f vs)"

definition plain_tools :: "agent_input \<Rightarrow> bool" where
  "plain_tools v = opt_all (\<lambda>h. \<not> hnt_tool_calling_required h) (ain_model_requirements v)"

section \<open>Developer Manager\<close>

definition DEVELOPMENT_PLAN_OUTPUT :: pystr where "DEVELOPMENT_PLAN_OUTPUT = ''development.plan_proposal''"
definition MAX_PROPOSED_TASKS :: nat where "MAX_PROPOSED_TASKS = 16"

definition DevelopmentPlanningInput :: "agent_input \<Rightarrow> agent_input option" where
  "DevelopmentPlanningInput v = Option.bind (AgentInput v) (\<lambda>w.
     accept (ain_permitted_tools v = [] \<and> ain_expected_output_type w = DEVELOPMENT_PLAN_OUTPUT \<and> plain_tools w) w)"

datatype review_recommendation = NOT_NEEDED | RECOMMENDED | REQUIRED

record worker_task =
  wtk_task_key :: pystr
  wtk_title :: pystr
  wtk_objective :: pystr
  wtk_required_capabilities :: "pystr list"
  wtk_depends_on :: "pystr list"
  wtk_expected_output :: pystr
  wtk_acceptance_criteria :: "pystr list"
  wtk_risk_level :: risk_level

definition task_key_field :: "pystr \<Rightarrow> pystr option" where
  "task_key_field v =
    (let t = trim v in
     if between 1 64 t \<and> fullmatch TYPE_IDENTIFIER t
     then (let w = lower (strip t) in if fullmatch TYPE_IDENTIFIER w then Some w else None) else None)"

definition ProposedWorkerTask :: "worker_task \<Rightarrow> worker_task option" where
  "ProposedWorkerTask v =
     Option.bind (task_key_field (wtk_task_key v)) (\<lambda>k.
     Option.bind (text_field 200 (wtk_title v)) (\<lambda>t.
     Option.bind (text_field 1500 (wtk_objective v)) (\<lambda>obj.
     Option.bind (nonempty (name_set 12 identifier_field) (wtk_required_capabilities v)) (\<lambda>cs.
     Option.bind (name_list 15 task_key_field (wtk_depends_on v)) (\<lambda>ds.
     Option.bind (identifier_field (wtk_expected_output v)) (\<lambda>out.
     Option.bind (nonempty (name_list 12 short_text) (wtk_acceptance_criteria v)) (\<lambda>acs.
     Some \<lparr>wtk_task_key = k, wtk_title = t, wtk_objective = obj, wtk_required_capabilities = cs,
       wtk_depends_on = ds, wtk_expected_output = out, wtk_acceptance_criteria = acs,
       wtk_risk_level = wtk_risk_level v\<rparr>)))))))"

text \<open>
  The dependencies of the proposed tasks, counted, and the order they allow: \<open>indegree\<close> is a
  dictionary over all keys, \<open>dependents\<close> one with a list for every key; the heap always gives its
  least entry, so it is kept here as a sorted list.
\<close>

type_synonym counts = "(pystr \<times> int) list"

definition bump :: "pystr \<Rightarrow> int \<Rightarrow> counts \<Rightarrow> counts" where
  "bump key n indegree = map (\<lambda>(k, c). (k, if k = key then c + n else c)) indegree"

fun add_edges :: "pystr list \<Rightarrow> pystr \<Rightarrow> pystr list \<Rightarrow> counts \<Rightarrow> outgoing \<Rightarrow> (counts \<times> outgoing) option" where
  "add_edges keys key [] indegree dependents = Some (indegree, dependents)"
| "add_edges keys key (dependency # rest) indegree dependents =
    (if dependency = key \<or> dependency \<notin> set keys then None
     else add_edges keys key rest (bump key 1 indegree) (dependents(dependency := dependents dependency @ [key])))"

fun read_tasks :: "pystr list \<Rightarrow> worker_task list \<Rightarrow> counts \<Rightarrow> outgoing \<Rightarrow> (counts \<times> outgoing) option" where
  "read_tasks keys [] indegree dependents = Some (indegree, dependents)"
| "read_tasks keys (task # rest) indegree dependents =
    Option.bind (add_edges keys (wtk_task_key task) (wtk_depends_on task) indegree dependents)
      (\<lambda>(indegree', dependents'). read_tasks keys rest indegree' dependents')"

fun lower_counts :: "pystr list \<Rightarrow> pystr list \<Rightarrow> counts \<Rightarrow> pystr list \<times> counts" where
  "lower_counts [] ready indegree = (ready, indegree)"
| "lower_counts (dependent # rest) ready indegree =
    (let indegree' = bump dependent (-1) indegree in
     lower_counts rest (if map_of indegree' dependent = Some 0 then sort (ready @ [dependent]) else ready) indegree')"

definition open_count :: "counts \<Rightarrow> nat" where
  "open_count indegree = sum_list (map (\<lambda>(k, c). nat c) indegree)"

lemma open_count_bump:
  "open_count (bump key (-1) indegree) \<le> open_count indegree \<and>
   (map_of (bump key (-1) indegree) key = Some 0 \<longrightarrow> open_count (bump key (-1) indegree) < open_count indegree)"
  by (induction indegree) (auto simp: open_count_def bump_def)

lemma lower_counts_measure:
  "lower_counts ds ready indegree = (ready', indegree') \<Longrightarrow>
     length ready' + open_count indegree' \<le> length ready + open_count indegree"
proof (induction ds ready indegree rule: lower_counts.induct)
  case (2 d rest ready indegree)
  from "2.IH" [OF refl] "2.prems" open_count_bump [of d indegree] show ?case
    by (force simp: Let_def split: if_splits)
qed simp

function order_loop :: "outgoing \<Rightarrow> pystr list \<Rightarrow> pystr list \<Rightarrow> counts \<Rightarrow> pystr list" where
  "order_loop dependents [] ordered indegree = ordered"
| "order_loop dependents (key # ready) ordered indegree =
    (case lower_counts (sort (dependents key)) ready indegree of
       (ready', indegree') \<Rightarrow> order_loop dependents ready' (ordered @ [key]) indegree')"
  by pat_completeness auto
termination
  by (relation "measure (\<lambda>(out, ready, ordered, indegree). length ready + open_count indegree)")
    (auto dest!: lower_counts_measure [OF sym])

definition ordered_keys :: "worker_task list \<Rightarrow> pystr list option" where
  "ordered_keys proposed =
    (let keys = remdups (map wtk_task_key proposed) in
     if length keys \<noteq> length proposed then None
     else Option.bind (read_tasks keys proposed (map (\<lambda>k. (k, 0)) keys) (\<lambda>_. [])) (\<lambda>(indegree, dependents).
       let ordered = order_loop dependents (sort (map fst (filter (\<lambda>(k, c). c = 0) indegree))) [] indegree in
       if length ordered \<noteq> length keys then None else Some ordered))"

record plan_proposal =
  dpp_objective_interpretation :: pystr
  dpp_architecture_workstreams :: "pystr list"
  dpp_proposed_tasks :: "worker_task list"
  dpp_qa_review :: review_recommendation
  dpp_security_review :: review_recommendation
  dpp_manual_review :: review_recommendation

definition task_of :: "worker_task list \<Rightarrow> pystr \<Rightarrow> worker_task list" where
  "task_of proposed key = (case map_of (rev (map (\<lambda>t. (wtk_task_key t, t)) proposed)) key of None \<Rightarrow> [] | Some t \<Rightarrow> [t])"

definition DevelopmentPlanProposal :: "plan_proposal \<Rightarrow> plan_proposal option" where
  "DevelopmentPlanProposal v =
     Option.bind (text_field 2000 (dpp_objective_interpretation v)) (\<lambda>obj.
     Option.bind (nonempty (name_list 12 short_text) (dpp_architecture_workstreams v)) (\<lambda>ws.
     Option.bind (nonempty (list_field MAX_PROPOSED_TASKS ProposedWorkerTask) (dpp_proposed_tasks v)) (\<lambda>proposed.
     Option.bind (ordered_keys proposed) (\<lambda>ordered.
     Some (v\<lparr>dpp_objective_interpretation := obj, dpp_architecture_workstreams := ws,
       dpp_proposed_tasks := concat (map (task_of proposed) ordered)\<rparr>)))))"

record manager_result =
  dmr_result :: agent_result
  dmr_development_plan :: plan_proposal

definition DeveloperManagerResult :: "url_lib \<Rightarrow> manager_result \<Rightarrow> manager_result option" where
  "DeveloperManagerResult lib v =
     Option.bind (AgentResult lib (dmr_result v)) (\<lambda>r.
     Option.bind (DevelopmentPlanProposal (dmr_development_plan v)) (\<lambda>p.
     accept (arz_requested_actions r = []) \<lparr>dmr_result = r, dmr_development_plan = p\<rparr>))"

section \<open>Developer Worker\<close>

definition DEVELOPER_WORKER_OUTPUT :: pystr where "DEVELOPER_WORKER_OUTPUT = ''development.implementation_result''"

definition DEVELOPER_WORKER_TOOLS :: "pystr list" where
  "DEVELOPER_WORKER_TOOLS = [''workspace.list_files'', ''workspace.read_file'', ''workspace.search_text'',
     ''workspace.replace_text'']"

definition DevelopmentAssignmentInput :: "agent_input \<Rightarrow> agent_input option" where
  "DevelopmentAssignmentInput v = Option.bind (AgentInput v) (\<lambda>w.
     accept (length (ain_permitted_tools v) \<le> 4 \<and> ain_expected_output_type w = DEVELOPER_WORKER_OUTPUT \<and>
       list_all (List.member DEVELOPER_WORKER_TOOLS) (ain_permitted_tools w) \<and> plain_tools w) w)"

datatype change_kind = CREATE | MODIFY | DELETE | CONFIG | TEST

definition change_kind_value :: "change_kind \<Rightarrow> pystr" where
  "change_kind_value v = (case v of CREATE \<Rightarrow> ''CREATE'' | MODIFY \<Rightarrow> ''MODIFY'' | DELETE \<Rightarrow> ''DELETE''
     | CONFIG \<Rightarrow> ''CONFIG'' | TEST \<Rightarrow> ''TEST'')"

datatype acceptance_status = SATISFIED | NOT_SATISFIED | NOT_VERIFIED | NOT_APPLICABLE

definition acceptance_status_value :: "acceptance_status \<Rightarrow> pystr" where
  "acceptance_status_value v = (case v of SATISFIED \<Rightarrow> ''SATISFIED'' | NOT_SATISFIED \<Rightarrow> ''NOT_SATISFIED''
     | NOT_VERIFIED \<Rightarrow> ''NOT_VERIFIED'' | NOT_APPLICABLE \<Rightarrow> ''NOT_APPLICABLE'')"

definition forward_slashes :: "pystr \<Rightarrow> pystr" where
  "forward_slashes v = map (\<lambda>c. if (of_char c :: nat) = 92 then CHR ''/'' else c) v"

text \<open>The common part of the two \<open>_relative_path\<close> functions, on the text already found safe.\<close>

definition normal_path :: "pystr \<Rightarrow> pystr option" where
  "normal_path t =
    (let v = forward_slashes t in
     if startswith v ''/'' \<or> drive_prefix v \<or> list_ex (\<lambda>p. p \<in> {[], ''.'', ''..''}) (split_slash [] v) then None
     else let normalized = as_posix (path_parts v) in
       if normalized \<noteq> v \<or> 300 < length normalized then None else Some normalized)"

definition worker_path :: "pystr \<Rightarrow> pystr option" where
  "worker_path v =
    (if \<not> between 1 300 v then None
     else Option.bind (safe_text v) (\<lambda>t. if contains ''://'' (forward_slashes t) then None else normal_path t))"

record proposed_change =
  pch_path :: pystr
  pch_kind :: change_kind
  pch_rationale :: pystr
  pch_expected_effect :: pystr
  pch_acceptance_criteria :: "pystr list"

definition ProposedChange :: "proposed_change \<Rightarrow> proposed_change option" where
  "ProposedChange v =
     Option.bind (worker_path (pch_path v)) (\<lambda>p.
     Option.bind (text_field 1000 (pch_rationale v)) (\<lambda>r.
     Option.bind (text_field 1000 (pch_expected_effect v)) (\<lambda>e.
     Option.bind (name_list 12 identifier_field (pch_acceptance_criteria v)) (\<lambda>cs.
     Some \<lparr>pch_path = p, pch_kind = pch_kind v, pch_rationale = r, pch_expected_effect = e,
       pch_acceptance_criteria = cs\<rparr>))))"

record acceptance_check =
  ack_criterion_id :: pystr
  ack_status :: acceptance_status
  ack_detail :: pystr

definition AcceptanceCheck :: "acceptance_check \<Rightarrow> acceptance_check option" where
  "AcceptanceCheck v =
     Option.bind (identifier_field (ack_criterion_id v)) (\<lambda>i.
     Option.bind (short_text (ack_detail v)) (\<lambda>d.
     Some \<lparr>ack_criterion_id = i, ack_status = ack_status v, ack_detail = d\<rparr>))"

record worker_result =
  dwr_result :: agent_result
  dwr_task_interpretation :: pystr
  dwr_implementation_summary :: pystr
  dwr_changes :: "proposed_change list"
  dwr_acceptance_checks :: "acceptance_check list"
  dwr_test_recommendations :: "pystr list"
  dwr_blockers :: "pystr list"

definition change_key :: "proposed_change \<Rightarrow> pystr \<times> pystr" where
  "change_key c = (pch_path c, change_kind_value (pch_kind c))"

definition DeveloperWorkerTerminalResult :: "url_lib \<Rightarrow> worker_result \<Rightarrow> worker_result option" where
  "DeveloperWorkerTerminalResult lib v =
     Option.bind (AgentResult lib (dwr_result v)) (\<lambda>r.
     Option.bind (text_field 2000 (dwr_task_interpretation v)) (\<lambda>ti.
     Option.bind (text_field 3000 (dwr_implementation_summary v)) (\<lambda>impl.
     Option.bind (list_field 32 ProposedChange (dwr_changes v)) (\<lambda>changes.
     Option.bind (list_field 24 AcceptanceCheck (dwr_acceptance_checks v)) (\<lambda>checks.
     Option.bind (name_list 24 short_text (dwr_test_recommendations v)) (\<lambda>tests.
     Option.bind (name_list 16 short_text (dwr_blockers v)) (\<lambda>blockers.
     accept (arz_artifacts r = [] \<and> arz_requested_actions r = [] \<and> distinct (map change_key changes) \<and>
         distinct (map ack_criterion_id checks))
       \<lparr>dwr_result = r, dwr_task_interpretation = ti, dwr_implementation_summary = impl,
        dwr_changes = sort_key change_key changes, dwr_acceptance_checks = sort_key ack_criterion_id checks,
        dwr_test_recommendations = tests, dwr_blockers = blockers\<rparr>)))))))"

text \<open>The first result may carry one tool proposal, and then claims no completed work.\<close>

definition DeveloperWorkerResult ::
  "url_lib \<Rightarrow> worker_result \<times> tool_proposal list \<Rightarrow> (worker_result \<times> tool_proposal list) option" where
  "DeveloperWorkerResult lib v = (case v of (r, proposals) \<Rightarrow>
     Option.bind (DeveloperWorkerTerminalResult lib r) (\<lambda>w.
     accept (length proposals \<le> 1 \<and> (proposals = [] \<or> arz_status (dwr_result w) = PARTIAL)) (w, proposals)))"

section \<open>The plan's order is the workflow engine's\<close>

definition plan_of :: "worker_task list \<Rightarrow> plan_create" where
  "plan_of proposed = \<lparr>pl_title = ''Plan'', pl_summary = None, pl_steps = map (\<lambda>t.
     \<lparr>sc_step_key = wtk_task_key t, sc_title = wtk_title t, sc_step_type = AGENT_TASK, sc_assigned_capability = None,
      sc_agent_definition_id = None, sc_risk_level = Some (wtk_risk_level t), sc_depends_on = wtk_depends_on t\<rparr>) proposed\<rparr>"

lemma plan_of_steps [simp]:
  "step_keys (plan_of proposed) = map wtk_task_key proposed"
  "map sc_step_key (pl_steps (plan_of proposed)) = map wtk_task_key proposed"
  by (simp_all add: plan_of_def step_keys_def o_def)

text \<open>The engine keeps the open dependencies of a key, the proposal only counts them.\<close>

definition counted :: "incoming \<Rightarrow> counts" where
  "counted inc = map (\<lambda>(k, ds). (k, int (length ds))) inc"

lemma fst_counted [simp]: "map fst (counted inc) = map fst inc"
  by (simp add: counted_def case_prod_beta o_def)

lemma counted_update:
  assumes "distinct (map fst inc)" and "map_of inc d = Some ds" and "key \<in> set ds"
  shows "counted (AList.update d (remove1 key ds) inc) = bump d (-1) (counted inc)"
  using assms
proof (induction inc)
  case (Cons p inc)
  obtain k es where p: "p = (k, es)" by (cases p)
  have one: "int (length (remove1 key ds)) = int (length ds) - 1"
    using Cons.prems(3) length_pos_if_in_set [OF Cons.prems(3)] by (simp add: length_remove1 of_nat_diff Suc_le_eq)
  show ?case
  proof (cases "k = d")
    case True
    have "bump d (-1) (counted inc) = counted inc"
      using Cons.prems(1) unfolding p True bump_def counted_def
      by (intro map_idI) (force simp: image_iff split: prod.splits)
    with Cons.prems one show ?thesis by (simp add: p True counted_def bump_def)
  next
    case False
    with Cons show ?thesis by (simp add: p counted_def bump_def)
  qed
qed simp

lemma map_of_counted: "map_of (counted inc) k = map_option (\<lambda>ds. int (length ds)) (map_of inc k)"
  by (induction inc) (auto simp: counted_def)

lemma lower_counts_release:
  "release key ds ready inc = Inr (ready', inc') \<Longrightarrow> distinct (map fst inc) \<Longrightarrow>
     lower_counts ds ready (counted inc) = (ready', counted inc') \<and> distinct (map fst inc')"
proof (induction key ds ready inc rule: release.induct)
  case (2 key d rest ready inc)
  from "2.prems"(1) obtain deps where deps: "map_of inc d = Some deps" "key \<in> set deps"
    by (auto split: option.splits if_splits)
  let ?inc = "AList.update d (remove1 key deps) inc"
  have len: "length (remove1 key deps) = 0 \<longleftrightarrow> remove1 key deps = []" by simp
  have cnt: "bump d (-1) (counted inc) = counted ?inc" by (rule counted_update [OF "2.prems"(2) deps, symmetric])
  have "map_of (counted ?inc) d = Some (int (length (remove1 key deps)))" by (simp add: map_of_counted)
  then have zero: "map_of (counted ?inc) d = Some 0 \<longleftrightarrow> remove1 key deps = []" by simp
  have "release key rest (if remove1 key deps = [] then sort (ready @ [d]) else ready) ?inc = Inr (ready', inc')"
    using "2.prems"(1) deps by (simp add: Let_def)
  from "2.IH" [OF deps(1) _ refl this] deps(2) distinct_update [OF "2.prems"(2)]
  show ?case by (simp add: Let_def cnt zero)
qed simp

lemma order_loop_topo:
  "topo_loop out ready ordered inc = Inr r \<Longrightarrow> distinct (map fst inc) \<Longrightarrow>
     (\<And>k. sort (out k) = sort (dependents k)) \<Longrightarrow> order_loop dependents ready ordered (counted inc) = r"
proof (induction out ready ordered inc rule: topo_loop.induct)
  case (2 out key ready ordered inc)
  from "2.prems"(1) obtain ready' inc' where rel: "release key (sort (out key)) ready inc = Inr (ready', inc')"
    and rest: "topo_loop out ready' (ordered @ [key]) inc' = Inr r" by (auto split: sum.splits)
  from lower_counts_release [OF rel "2.prems"(2)] have low: "lower_counts (sort (out key)) ready (counted inc) = (ready', counted inc')"
    "distinct (map fst inc')" by simp_all
  from "2.IH" [OF rel refl rest low(2) "2.prems"(3)] low(1) "2.prems"(3) show ?case by simp
qed simp

text \<open>Reading the dependencies.\<close>

definition sound_task :: "pystr list \<Rightarrow> worker_task \<Rightarrow> bool" where
  "sound_task keys t \<longleftrightarrow> wtk_task_key t \<notin> set (wtk_depends_on t) \<and> set (wtk_depends_on t) \<subseteq> set keys"

lemma bump_bump: "bump key m (bump key n indegree) = bump key (n + m) indegree"
  by (auto simp: bump_def)

lemma bump_zero [simp]: "bump key 0 indegree = indegree"
  unfolding bump_def by (rule map_idI) auto

lemma add_edges_good:
  "distinct ds \<Longrightarrow> key \<notin> set ds \<Longrightarrow> set ds \<subseteq> set keys \<Longrightarrow>
     add_edges keys key ds indegree out =
       Some (bump key (int (length ds)) indegree, \<lambda>k. if k \<in> set ds then out k @ [key] else out k)"
  by (induction ds arbitrary: indegree out) (auto simp: bump_bump fun_eq_iff add.commute)

lemma add_edges_bad: "key \<in> set ds \<or> \<not> set ds \<subseteq> set keys \<Longrightarrow> add_edges keys key ds indegree out = None"
proof (induction ds arbitrary: indegree out)
  case (Cons d ds)
  show ?case
  proof (cases "key \<in> set ds \<or> \<not> set ds \<subseteq> set keys")
    case True
    then show ?thesis by (simp add: Cons.IH [OF True])
  next
    case False
    with Cons.prems have "d = key \<or> d \<notin> set keys" by auto
    then show ?thesis by simp
  qed
qed simp

lemma read_tasks_good:
  "list_all (\<lambda>t. distinct (wtk_depends_on t) \<and> sound_task keys t) ts \<Longrightarrow>
     read_tasks keys ts indegree out =
       Some (fold (\<lambda>t. bump (wtk_task_key t) (int (length (wtk_depends_on t)))) ts indegree,
             \<lambda>k. out k @ map wtk_task_key (filter (\<lambda>t. k \<in> set (wtk_depends_on t)) ts))"
  by (induction ts arbitrary: indegree out) (auto simp: add_edges_good sound_task_def fun_eq_iff)

lemma read_tasks_bad: "\<not> list_all (sound_task keys) ts \<Longrightarrow> read_tasks keys ts indegree out = None"
proof (induction ts arbitrary: indegree out)
  case (Cons t ts)
  then show ?case
    by (cases "sound_task keys t") (auto simp: add_edges_bad sound_task_def split: bind_splits)
qed simp

lemma fold_bump:
  "fold (\<lambda>t. bump (key t) (c t)) ts (map (\<lambda>x. (g x, f x)) xs) =
     map (\<lambda>x. (g x, f x + sum_list (map (\<lambda>t. if key t = g x then c t else 0) ts))) xs"
proof (induction ts arbitrary: f)
  case (Cons t ts)
  have "bump (key t) (c t) (map (\<lambda>x. (g x, f x)) xs) = map (\<lambda>x. (g x, f x + (if key t = g x then c t else 0))) xs"
    by (auto simp: bump_def)
  with Cons [of "\<lambda>x. f x + (if key t = g x then c t else 0)"] show ?case by (simp add: add.assoc)
qed simp

lemma sum_at_key:
  "distinct (map key ts) \<Longrightarrow> x \<in> set ts \<Longrightarrow> sum_list (map (\<lambda>t. if key t = key x then c t else 0) ts) = (c x :: int)"
proof (induction ts)
  case (Cons t ts)
  have "sum_list (map (\<lambda>t. if key t = key x then c t else 0) ts) = 0" if "key x \<notin> key ` set ts"
    using that by (induction ts) auto
  with Cons show ?case by (cases "t = x") (auto simp: image_iff)
qed simp

lemma sound_task_good_refs:
  "list_all (sound_task keys) ts \<longleftrightarrow> (\<forall>s \<in> set (pl_steps (plan_of ts)). good_refs keys s)"
  by (auto simp: plan_of_def good_refs_def sound_task_def list_all_iff)

text \<open>
  Ordering the proposed tasks by counting their dependencies gives the order in which the workflow
  engine validates the same steps, and fails when that validation does.
\<close>

lemma ordered_keys_engine:
  assumes dd: "list_all (\<lambda>t. distinct (wtk_depends_on t)) ts"
  shows "ordered_keys ts = (if distinct (map wtk_task_key ts)
    then (case validate_graph (plan_of ts) of Inl _ \<Rightarrow> None | Inr order \<Rightarrow> Some order) else None)"
proof (cases "distinct (map wtk_task_key ts)")
  case False
  then have "length (remdups (map wtk_task_key ts)) \<noteq> length ts"
    by (metis length_map length_remdups_eq distinct_remdups)
  with False show ?thesis by (simp add: ordered_keys_def)
next
  case True
  let ?keys = "map wtk_task_key ts" and ?p = "plan_of ts"
  have dk: "distinct (step_keys ?p)" using True by simp
  have keys: "remdups ?keys = ?keys" using True by (simp add: distinct_remdups_id)
  show ?thesis
  proof (cases "list_all (sound_task ?keys) ts")
    case False
    then have "ordered_keys ts = None" by (simp add: ordered_keys_def keys read_tasks_bad)
    moreover from False have "\<not> (\<forall>s \<in> set (pl_steps ?p). good_refs (step_keys ?p) s)"
      by (simp add: sound_task_good_refs)
    then have "reference_order ?p = None" by (auto simp: reference_order_def Let_def list_all_iff)
    then have "\<exists>e. validate_graph ?p = Inl e" using validate_graph_reference [OF dk] by (cases "validate_graph ?p") auto
    ultimately show ?thesis using True by auto
  next
    case good: True
    let ?inc = "map (\<lambda>s. (sc_step_key s, remdups (sc_depends_on s))) (pl_steps ?p)"
    let ?out = "\<lambda>k. map wtk_task_key (filter (\<lambda>t. k \<in> set (wtk_depends_on t)) ts)"
    have good': "\<forall>s \<in> set (pl_steps ?p). good_refs (step_keys ?p) s" using good by (simp add: sound_task_good_refs)
    obtain out where
      "scan_steps (step_keys ?p) (pl_steps ?p) [] (\<lambda>_. []) = Inr (?inc, out)" and out: "\<forall>k. distinct (out k) \<and>
        set (out k) = {sc_step_key s | s. s \<in> set (pl_steps ?p) \<and> k \<in> set (sc_depends_on s)}"
      and topo: "topo_loop out (sort (available (step_keys ?p) (deps_of ?p) [])) [] ?inc =
        Inr (greedy (length (step_keys ?p)) (step_keys ?p) (deps_of ?p) [])"
      by (rule scan_and_loop [OF dk good'])
    have edges: "{sc_step_key s | s. s \<in> set (pl_steps ?p) \<and> k \<in> set (sc_depends_on s)} = set (?out k)" for k
      by (force simp: plan_of_def)
    have same: "sort (out k) = sort (?out k)" for k
    proof (rule sorted_distinct_set_unique)
      show "distinct (sort (?out k))" using True by (simp add: distinct_map_filter)
      show "set (sort (out k)) = set (sort (?out k))" using out edges by simp
    qed (use out in simp_all)
    have cnt: "fold (\<lambda>t. bump (wtk_task_key t) (int (length (wtk_depends_on t)))) ts (map (\<lambda>k. (k, 0)) ?keys) =
        counted ?inc"
    proof -
      have "map (\<lambda>x. (wtk_task_key x, 0 + sum_list (map (\<lambda>t. if wtk_task_key t = wtk_task_key x
            then int (length (wtk_depends_on t)) else 0) ts))) ts = counted ?inc"
        using dd by (auto simp: counted_def plan_of_def sum_at_key [OF True] list_all_iff distinct_remdups_id)
      then show ?thesis using fold_bump [of wtk_task_key _ ts wtk_task_key "\<lambda>_. 0" ts] by (simp add: o_def)
    qed
    have inc: "distinct (map fst ?inc)" using True by (simp add: plan_of_def o_def)
    have ready: "map fst (filter (\<lambda>(k, c). c = 0) (counted ?inc)) = available (step_keys ?p) (deps_of ?p) []"
      unfolding initial_ready [OF dk, symmetric]
      by (simp add: counted_def filter_map o_def case_prod_beta)
    have "order_loop ?out (sort (available (step_keys ?p) (deps_of ?p) [])) [] (counted ?inc) =
        greedy (length (step_keys ?p)) (step_keys ?p) (deps_of ?p) []"
      by (rule order_loop_topo [OF topo inc same])
    moreover have "read_tasks ?keys ts (map (\<lambda>k. (k, 0)) ?keys) (\<lambda>_. []) = Some (counted ?inc, ?out)"
      using dd good read_tasks_good [of ?keys ts "map (\<lambda>k. (k, 0)) ?keys" "\<lambda>_. []"]
      unfolding cnt by (simp add: list_all_iff)
    ultimately show ?thesis
      using True by (simp add: ordered_keys_def keys ready validate_graph_good [OF dk good'] Let_def)
  qed
qed

section \<open>Validated plans and results are fixed points\<close>

lemma stable_nonempty [stable_intros]: "stable f \<Longrightarrow> (\<And>v. f v = Some [] \<Longrightarrow> v = []) \<Longrightarrow> stable (nonempty f)"
  by (rule stableI) (auto simp: nonempty_def dest: stableD split: if_splits)

lemma list_field_empty: "list_field n f v = Some [] \<Longrightarrow> v = []"
  by (auto simp: list_field_Some)

lemma name_list_empty: "name_list n f v = Some [] \<Longrightarrow> v = []" "name_set n f v = Some [] \<Longrightarrow> v = []"
  by (auto simp: name_list_def name_set_def unique_sorted_def bind_eq_Some_conv list_field_Some split: if_splits
      dest: arg_cong [where f = set])

lemma task_key_field_Some: "task_key_field v = Some w \<Longrightarrow> task_key_field w = Some w"
proof -
  assume "task_key_field v = Some w"
  then have t: "between 1 64 (trim v)" "fullmatch TYPE_IDENTIFIER (trim v)" "w = lower (strip (trim v))"
    by (auto simp: task_key_field_def Let_def split: if_splits)
  have "strip (trim v) = trim v \<and> lower (trim v) = trim v"
    using plain_word [of "trim v"] TYPE_IDENTIFIER_chars [OF t(2)] by blast
  with t show ?thesis by (simp add: task_key_field_def)
qed

lemma stable_task_key_field [stable_intros]: "stable task_key_field"
  by (rule stableI) (rule task_key_field_Some)

lemmas plan_fixed = list_fixed task_key_field_Some
  stable_nonempty [OF stable_name_set [OF stable_identifier_field] name_list_empty(2), THEN stableD]
  stable_nonempty [OF stable_name_list [OF stable_short_text] name_list_empty(1), THEN stableD]
  stable_name_list [OF stable_task_key_field, THEN stableD] stable_name_list [OF stable_short_text, THEN stableD]
  stable_name_list [OF stable_identifier_field, THEN stableD]

lemma stable_ProposedWorkerTask [stable_intros]: "stable ProposedWorkerTask"
  by (rule stableI) (auto simp: ProposedWorkerTask_def bind_eq_Some_conv plan_fixed)

lemma name_list_distinct: "name_list n f v = Some w \<Longrightarrow> distinct w"
  by (auto simp: name_list_def bind_eq_Some_conv split: if_splits)

lemma ProposedWorkerTask_distinct: "kept ProposedWorkerTask t \<Longrightarrow> distinct (wtk_depends_on t)"
  by (auto simp: kept_def ProposedWorkerTask_def bind_eq_Some_conv dest: name_list_distinct
      dest!: arg_cong [where f = wtk_depends_on])

lemma task_of_key:
  assumes "distinct (map wtk_task_key ts)" and "t \<in> set ts"
  shows "task_of ts (wtk_task_key t) = [t]"
proof -
  have "map_of (rev (map (\<lambda>t. (wtk_task_key t, t)) ts)) (wtk_task_key t) = Some t"
    using assms by (intro map_of_is_SomeI) (auto simp: rev_map [symmetric] o_def)
  then show ?thesis by (simp add: task_of_def)
qed

lemma reordered_tasks:
  assumes dk: "distinct (map wtk_task_key ts)" and order: "distinct order" "set order = wtk_task_key ` set ts"
  defines "ts' \<equiv> concat (map (task_of ts) order)"
  shows "map wtk_task_key ts' = order" and "mset ts' = mset ts"
proof -
  have one: "\<exists>t \<in> set ts. wtk_task_key t = k \<and> task_of ts k = [t]" if "k \<in> set order" for k
    using that order(2) task_of_key [OF dk] by auto
  have keys: "map wtk_task_key (concat (map (task_of ts) ks)) = ks" if "set ks \<subseteq> set order" for ks
    using that by (induction ks) (use one in force)+
  from keys [of order] show map: "map wtk_task_key ts' = order" by (simp add: ts'_def)
  have "set ts' = set ts"
  proof
    show "set ts' \<subseteq> set ts" unfolding ts'_def using one by fastforce
    show "set ts \<subseteq> set ts'" unfolding ts'_def using order(2) task_of_key [OF dk] by fastforce
  qed
  moreover have "distinct ts'" using map order(1) by (metis distinct_map)
  moreover have "distinct ts" using dk by (simp add: distinct_map)
  ultimately show "mset ts' = mset ts" by (simp add: set_eq_iff_mset_eq_distinct)
qed

lemma task_of_self:
  assumes "distinct (map wtk_task_key ts)"
  shows "concat (map (task_of ts) (map wtk_task_key ts)) = ts"
proof -
  have "concat (map (task_of ts) (map wtk_task_key us)) = us" if "set us \<subseteq> set ts" for us
    using that by (induction us) (auto simp: task_of_key [OF assms])
  then show ?thesis by blast
qed

lemma plan_of_mset: "mset ts' = mset ts \<Longrightarrow> mset (pl_steps (plan_of ts')) = mset (pl_steps (plan_of ts))"
  by (simp add: plan_of_def)

lemma DevelopmentPlanProposal_order:
  assumes "DevelopmentPlanProposal v = Some p"
  shows "validate_graph (plan_of (dpp_proposed_tasks p)) = Inr (map wtk_task_key (dpp_proposed_tasks p))"
    and "distinct (map wtk_task_key (dpp_proposed_tasks p))" and "DevelopmentPlanProposal p = Some p"
proof -
  from assms obtain obj ws ts order where f: "text_field 2000 (dpp_objective_interpretation v) = Some obj"
      "nonempty (name_list 12 short_text) (dpp_architecture_workstreams v) = Some ws"
      "nonempty (list_field MAX_PROPOSED_TASKS ProposedWorkerTask) (dpp_proposed_tasks v) = Some ts"
    and ord: "ordered_keys ts = Some order"
    and p: "p = v\<lparr>dpp_objective_interpretation := obj, dpp_architecture_workstreams := ws,
       dpp_proposed_tasks := concat (map (task_of ts) order)\<rparr>"
    by (auto simp: DevelopmentPlanProposal_def bind_eq_Some_conv)
  let ?ts = "concat (map (task_of ts) order)"
  from f(3) have l: "list_field MAX_PROPOSED_TASKS ProposedWorkerTask (dpp_proposed_tasks v) = Some ts" "dpp_proposed_tasks v \<noteq> []"
    by (auto simp: nonempty_def split: if_splits)
  from list_field_result [OF stable_ProposedWorkerTask l(1)] have ok: "length ts \<le> MAX_PROPOSED_TASKS"
    "list_all (kept ProposedWorkerTask) ts" by simp_all
  then have dd: "list_all (\<lambda>t. distinct (wtk_depends_on t)) ts" by (auto simp: list_all_iff ProposedWorkerTask_distinct)
  with ord ordered_keys_engine [OF dd] have dk: "distinct (map wtk_task_key ts)"
    and v: "validate_graph (plan_of ts) = Inr order" by (auto split: if_splits sum.splits)
  have dk': "distinct (step_keys (plan_of ts))" using dk by simp
  from validate_graph_reference [OF dk'] v have "reference_order (plan_of ts) = Some order" by simp
  from reference_order_Some [OF dk' this] have order: "distinct order" "set order = wtk_task_key ` set ts" by simp_all
  note re = reordered_tasks [OF dk order]
  have eng: "validate_graph (plan_of ?ts) = Inr order"
    using validate_graph_order_independent [OF dk' plan_of_mset [OF re(2), symmetric], of order] v by simp
  then show "validate_graph (plan_of (dpp_proposed_tasks p)) = Inr (map wtk_task_key (dpp_proposed_tasks p))"
    by (simp add: p re(1))
  show dk2: "distinct (map wtk_task_key (dpp_proposed_tasks p))" by (simp add: p re(1) order)
  have "set ?ts = set ts" "length ?ts = length ts" using mset_eq_setD [OF re(2)] mset_eq_length [OF re(2)] by simp_all
  then have "list_field MAX_PROPOSED_TASKS ProposedWorkerTask ?ts = Some ?ts" and dd': "list_all (\<lambda>t. distinct (wtk_depends_on t)) ?ts"
    using ok dd by (simp_all add: list_field_kept list_all_iff)
  moreover have "ts \<noteq> []" using l by (auto dest: list_field_empty)
  then have "?ts \<noteq> []" using \<open>length ?ts = length ts\<close> by (metis length_0_conv)
  ultimately have "nonempty (list_field MAX_PROPOSED_TASKS ProposedWorkerTask) ?ts = Some ?ts" by (simp add: nonempty_def)
  moreover have "ordered_keys ?ts = Some order" using ordered_keys_engine [OF dd'] eng dk2 by (simp add: p re(1))
  moreover have "distinct (map wtk_task_key ?ts)" unfolding re(1) by (rule order(1))
  note task_of_self [OF this, unfolded re(1)]
  ultimately show "DevelopmentPlanProposal p = Some p"
    using f by (simp add: DevelopmentPlanProposal_def p plan_fixed)
qed

lemma stable_DeveloperManagerResult [stable_intros]: "stable (DeveloperManagerResult lib)"
proof (rule stableI)
  fix v w assume "DeveloperManagerResult lib v = Some w"
  then obtain r p where "AgentResult lib (dmr_result v) = Some r" "DevelopmentPlanProposal (dmr_development_plan v) = Some p"
    "arz_requested_actions r = []" "w = \<lparr>dmr_result = r, dmr_development_plan = p\<rparr>"
    by (auto simp: DeveloperManagerResult_def bind_eq_Some_conv)
  then show "DeveloperManagerResult lib w = Some w"
    using stableD [OF stable_AgentResult] DevelopmentPlanProposal_order(3)
    by (simp add: DeveloperManagerResult_def)
qed

section \<open>Properties\<close>

text \<open>
  C38: A plan proposal of valid texts and tasks is accepted exactly when its task keys are distinct and the workflow
  engine accepts the same tasks as the steps of a plan. The accepted proposal holds the same tasks in the order in
  which the engine would run them, and validating it again changes nothing.
\<close>
theorem plan_proposal_order:
  assumes "list_field MAX_PROPOSED_TASKS ProposedWorkerTask (dpp_proposed_tasks v) = Some ts" and "ts \<noteq> []"
    and "text_field 2000 (dpp_objective_interpretation v) = Some obj"
    and "nonempty (name_list 12 short_text) (dpp_architecture_workstreams v) = Some ws"
  shows "case DevelopmentPlanProposal v of
      None \<Rightarrow> \<not> distinct (map wtk_task_key ts) \<or> (\<exists>e. validate_graph (plan_of ts) = Inl e)
    | Some p \<Rightarrow> distinct (map wtk_task_key ts) \<and> mset (dpp_proposed_tasks p) = mset ts \<and>
        validate_graph (plan_of ts) = Inr (map wtk_task_key (dpp_proposed_tasks p)) \<and>
        validate_graph (plan_of (dpp_proposed_tasks p)) = Inr (map wtk_task_key (dpp_proposed_tasks p)) \<and>
        DevelopmentPlanProposal p = Some p"
proof -
  have l: "nonempty (list_field MAX_PROPOSED_TASKS ProposedWorkerTask) (dpp_proposed_tasks v) = Some ts"
    using assms(1,2) by (auto simp: nonempty_def list_field_Some)
  have dd: "list_all (\<lambda>t. distinct (wtk_depends_on t)) ts"
    using list_field_result [OF stable_ProposedWorkerTask assms(1)] by (auto simp: list_all_iff ProposedWorkerTask_distinct)
  show ?thesis
  proof (cases "ordered_keys ts")
    case None
    with l assms(3,4) have "DevelopmentPlanProposal v = None" by (simp add: DevelopmentPlanProposal_def)
    with None ordered_keys_engine [OF dd] show ?thesis by (auto split: if_splits sum.splits)
  next
    case (Some order)
    with ordered_keys_engine [OF dd] have dk: "distinct (map wtk_task_key ts)"
      and eng: "validate_graph (plan_of ts) = Inr order" by (auto split: if_splits sum.splits)
    have dk': "distinct (step_keys (plan_of ts))" using dk by simp
    from validate_graph_reference [OF dk'] eng have "reference_order (plan_of ts) = Some order" by simp
    from reference_order_Some [OF dk' this] have "distinct order" "set order = wtk_task_key ` set ts" by simp_all
    note re = reordered_tasks [OF dk this]
    from l assms(3,4) Some obtain p where p: "DevelopmentPlanProposal v = Some p"
      "dpp_proposed_tasks p = concat (map (task_of ts) order)"
      by (auto simp: DevelopmentPlanProposal_def)
    with DevelopmentPlanProposal_order [OF p(1)] dk eng re show ?thesis by simp
  qed
qed

definition sample_task :: "pystr \<Rightarrow> pystr list \<Rightarrow> worker_task" where
  "sample_task key needs = \<lparr>wtk_task_key = key, wtk_title = ''ok'', wtk_objective = ''ok'', wtk_required_capabilities = [''c''],
     wtk_depends_on = needs, wtk_expected_output = ''c'', wtk_acceptance_criteria = [''ok''], wtk_risk_level = LOW\<rparr>"

definition sample_proposal :: plan_proposal where
  "sample_proposal = \<lparr>dpp_objective_interpretation = ''ok'', dpp_architecture_workstreams = [''risky'', ''ok''],
     dpp_proposed_tasks = [sample_task ''a'' [''b''], sample_task ''b'' []], dpp_qa_review = REQUIRED,
     dpp_security_review = NOT_NEEDED, dpp_manual_review = RECOMMENDED\<rparr>"

lemma sample_task_valid:
  assumes "task_key_field key = Some key" and "name_list 15 task_key_field needs = Some needs"
  shows "ProposedWorkerTask (sample_task key needs) = Some (sample_task key needs)"
proof -
  have c: "identifier_field ''c'' = Some ''c''" by code_simp
  have "nonempty (name_set 12 identifier_field) [''c''] = Some [''c'']"
    by (simp add: nonempty_def name_set_def list_field_def c unique_sorted_def)
  moreover have "nonempty (name_list 12 short_text) [''ok''] = Some [''ok'']"
    by (simp add: nonempty_def name_list_def list_field_def sample_texts)
  ultimately show ?thesis using assms by (simp add: ProposedWorkerTask_def sample_task_def sample_texts c)
qed

lemma sample_proposal_fields:
  "list_field MAX_PROPOSED_TASKS ProposedWorkerTask (dpp_proposed_tasks sample_proposal) =
     Some [sample_task ''a'' [''b''], sample_task ''b'' []]"
  "text_field 2000 (dpp_objective_interpretation sample_proposal) = Some ''ok''"
  "nonempty (name_list 12 short_text) (dpp_architecture_workstreams sample_proposal) = Some [''ok'', ''risky'']"
proof -
  have k: "task_key_field ''a'' = Some ''a''" "task_key_field ''b'' = Some ''b''" by code_simp+
  have "ProposedWorkerTask (sample_task ''a'' [''b'']) = Some (sample_task ''a'' [''b''])"
    "ProposedWorkerTask (sample_task ''b'' []) = Some (sample_task ''b'' [])"
    by (rule sample_task_valid; simp add: k name_list_def list_field_def)+
  then show "list_field MAX_PROPOSED_TASKS ProposedWorkerTask (dpp_proposed_tasks sample_proposal) =
     Some [sample_task ''a'' [''b''], sample_task ''b'' []]"
    by (simp add: list_field_def MAX_PROPOSED_TASKS_def sample_proposal_def)
qed (simp_all add: sample_proposal_def sample_texts nonempty_def name_list_def list_field_def less_list_code less_char_def)

theorem plan_proposal_order_witness:
  "case DevelopmentPlanProposal sample_proposal of
     None \<Rightarrow> False
   | Some p \<Rightarrow> map wtk_task_key (dpp_proposed_tasks p) = [''b'', ''a''] \<and> DevelopmentPlanProposal p = Some p"
proof -
  have "validate_graph (plan_of [sample_task ''a'' [''b''], sample_task ''b'' []]) = Inr [''b'', ''a'']" by code_simp
  with plan_proposal_order [OF sample_proposal_fields(1) _ sample_proposal_fields(2,3)] show ?thesis
    by (auto simp: sample_task_def split: option.splits)
qed

text \<open>
  C39: Validation normalises once: what the contracts of an agent's input, of an agent's result and of the Developer
  Manager's result return validates again to itself, so a stored or transmitted contract reads back unchanged.
\<close>
theorem validated_contracts_normal:
  "(AgentInput v = Some w \<longrightarrow> AgentInput w = Some w) \<and> (AgentResult lib r = Some q \<longrightarrow> AgentResult lib q = Some q) \<and>
   (DeveloperManagerResult lib m = Some k \<longrightarrow> DeveloperManagerResult lib k = Some k)"
  by (intro conjI impI) (erule stable_AgentInput [THEN stableD] stable_AgentResult [THEN stableD]
    stable_DeveloperManagerResult [THEN stableD])+

theorem validated_contracts_normal_witness:
  "AgentInput (sample_input [''ok'', ''risky'']) = Some (sample_input [''ok'', ''risky''])"
  using validated_contracts_normal [THEN conjunct1, THEN mp, OF sample_input_valid] .

end
