(* ===== verification/QA_Contracts.thy ===== *)
theory QA_Contracts
  imports Worker_Contracts
begin

text \<open>
  The contract of the QA Worker (\<open>qa_worker/contracts.py\<close>): the assessment with its verdict, and the
  summary of a challenged assessment that is stored for a human decision.
\<close>

section \<open>Texts\<close>

definition UNSAFE_TEXT :: "bool \<Rightarrow> pystr \<Rightarrow> bool" where
  "UNSAFE_TEXT boundary t =
    (list_ex (\<lambda>literal. starts_ci literal t)
       [''http://'', ''https://'', ''data:'', '';base64,'', ''```'', ''$('', ''&&'', ''||''] \<or>
     boundary \<and> list_ex (\<lambda>command. starts_ci command t \<and>
       (case drop (length command) t of [] \<Rightarrow> False | c # _ \<Rightarrow> isspace c)) [''sudo'', ''curl'', ''wget''])"

definition unsafe :: "pystr \<Rightarrow> bool" where
  "unsafe v = searches UNSAFE_TEXT v"

definition bounded_qa_text :: "pystr \<Rightarrow> pystr option" where
  "bounded_qa_text v = Option.bind (safe_text v) (\<lambda>t. accept (\<not> unsafe t) t)"

definition qa_text :: "nat \<Rightarrow> pystr \<Rightarrow> pystr option" where
  "qa_text limit v = (if between 1 limit v then bounded_qa_text v else None)"

definition qa_short :: "pystr \<Rightarrow> pystr option" where
  "qa_short v = Option.bind (ShortText v) bounded_qa_text"

definition qa_path :: "pystr \<Rightarrow> pystr option" where
  "qa_path v = (if between 1 300 v then Option.bind (bounded_qa_text v) normal_path else None)"

text \<open>\<open>_reject_unsafe_content\<close>: the strings of a value, those in the keys of dictionaries apart.\<close>

fun unsafe_content :: "pyval \<Rightarrow> bool" where
  "unsafe_content (PStr t) = unsafe t"
| "unsafe_content (PDict kvs) = list_ex (\<lambda>(k, v). unsafe_content v) kvs"
| "unsafe_content (PList vs) = list_ex unsafe_content vs"
| "unsafe_content v = False"

section \<open>Input\<close>

record validation_criterion =
  vcr_criterion_id :: pystr
  vcr_description :: pystr
  vcr_evidence_references :: "pystr list"

definition ValidationCriterion :: "validation_criterion \<Rightarrow> validation_criterion option" where
  "ValidationCriterion v =
     Option.bind (identifier_field (vcr_criterion_id v)) (\<lambda>i.
     Option.bind (qa_text 1000 (vcr_description v)) (\<lambda>d.
     Option.bind (name_list 16 normal_reference (vcr_evidence_references v)) (\<lambda>rs.
     Some \<lparr>vcr_criterion_id = i, vcr_description = d, vcr_evidence_references = rs\<rparr>)))"

record qa_input =
  qin_input :: agent_input
  qin_acceptance_criteria :: "validation_criterion list"

definition QA_ASSESSMENT_OUTPUT :: pystr where "QA_ASSESSMENT_OUTPUT = ''quality.qa_assessment''"

definition QAValidationInput :: "qa_input \<Rightarrow> qa_input option" where
  "QAValidationInput v =
     Option.bind (AgentInput (qin_input v)) (\<lambda>w.
     Option.bind (nonempty (list_field 24 ValidationCriterion) (qin_acceptance_criteria v)) (\<lambda>cs.
     accept (ain_permitted_tools (qin_input v) = [] \<and> distinct (map vcr_criterion_id cs) \<and>
         ain_expected_output_type w = QA_ASSESSMENT_OUTPUT \<and> plain_tools w)
       \<lparr>qin_input = w, qin_acceptance_criteria = sort_key vcr_criterion_id cs\<rparr>))"

section \<open>Assessment\<close>

datatype qa_verdict = PASS | PASS_WITH_WARNINGS | FAIL | INCONCLUSIVE

definition qa_verdict_value :: "qa_verdict \<Rightarrow> pystr" where
  "qa_verdict_value v = (case v of PASS \<Rightarrow> ''PASS'' | PASS_WITH_WARNINGS \<Rightarrow> ''PASS_WITH_WARNINGS'' | FAIL \<Rightarrow> ''FAIL''
     | INCONCLUSIVE \<Rightarrow> ''INCONCLUSIVE'')"

datatype acceptance_result_status = PASS | FAIL | NOT_VERIFIED

definition acceptance_result_status_value :: "acceptance_result_status \<Rightarrow> pystr" where
  "acceptance_result_status_value v = (case v of PASS \<Rightarrow> ''PASS'' | FAIL \<Rightarrow> ''FAIL'' | NOT_VERIFIED \<Rightarrow> ''NOT_VERIFIED'')"

text \<open>The defect severities are the four levels of \<open>risk_level\<close> by name.\<close>

record acceptance_result =
  acr_criterion_id :: pystr
  acr_status :: acceptance_result_status
  acr_rationale :: pystr
  acr_evidence_references :: "pystr list"

definition AcceptanceResult :: "acceptance_result \<Rightarrow> acceptance_result option" where
  "AcceptanceResult v =
     Option.bind (identifier_field (acr_criterion_id v)) (\<lambda>i.
     Option.bind (qa_text 1000 (acr_rationale v)) (\<lambda>r.
     Option.bind (name_list 16 normal_reference (acr_evidence_references v)) (\<lambda>rs.
     Some \<lparr>acr_criterion_id = i, acr_status = acr_status v, acr_rationale = r, acr_evidence_references = rs\<rparr>)))"

record defect =
  dfd_defect_key :: pystr
  dfd_title :: pystr
  dfd_severity :: risk_level
  dfd_component_path :: "pystr option"
  dfd_description :: pystr
  dfd_affected_criteria :: "pystr list"
  dfd_remediation_summary :: pystr

definition DefectDescriptor :: "defect \<Rightarrow> defect option" where
  "DefectDescriptor v =
     Option.bind (identifier_field (dfd_defect_key v)) (\<lambda>k.
     Option.bind (qa_text 300 (dfd_title v)) (\<lambda>t.
     Option.bind (maybe qa_path (dfd_component_path v)) (\<lambda>p.
     Option.bind (qa_text 2000 (dfd_description v)) (\<lambda>d.
     Option.bind (name_list 12 identifier_field (dfd_affected_criteria v)) (\<lambda>cs.
     Option.bind (qa_text 1000 (dfd_remediation_summary v)) (\<lambda>rem.
     Some \<lparr>dfd_defect_key = k, dfd_title = t, dfd_severity = dfd_severity v, dfd_component_path = p,
       dfd_description = d, dfd_affected_criteria = cs, dfd_remediation_summary = rem\<rparr>))))))"

record qa_result =
  qar_result :: agent_result
  qar_validation_summary :: pystr
  qar_verdict :: qa_verdict
  qar_acceptance_results :: "acceptance_result list"
  qar_defects :: "defect list"
  qar_test_recommendations :: "pystr list"
  qar_regression_risks :: "pystr list"
  qar_security_review_recommendations :: "pystr list"
  qar_manual_review_recommendations :: "pystr list"
  qar_blockers :: "pystr list"

section \<open>Dumps\<close>

text \<open>\<open>model_dump(mode="json")\<close> of the contracts.\<close>

definition dict_of :: "(string \<times> pyval) list \<Rightarrow> pyval" where
  "dict_of entries = PDict (map (\<lambda>(k, v). (PStr k, v)) entries)"

definition maybe_str :: "pystr option \<Rightarrow> pyval" where
  "maybe_str v = (case v of None \<Rightarrow> PNone | Some t \<Rightarrow> PStr t)"

definition str_list :: "pystr list \<Rightarrow> pyval" where
  "str_list vs = PList (map PStr vs)"

definition dump_finding :: "finding \<Rightarrow> pyval" where
  "dump_finding v = dict_of [(''category'', PStr (fnd_category v)), (''title'', PStr (fnd_title v)),
     (''detail'', PStr (fnd_detail v)), (''severity'', maybe_str (map_option finding_severity_value (fnd_severity v))),
     (''source_references'', str_list (fnd_source_references v))]"

definition dump_source :: "source_reference \<Rightarrow> pyval" where
  "dump_source v = dict_of [(''source_id'', PStr (srf_source_id v)), (''label'', PStr (srf_label v)),
     (''source_type'', maybe_str (srf_source_type v)), (''provenance_uri'', maybe_str (srf_provenance_uri v))]"

definition dump_artifact :: "artifact_reference \<Rightarrow> pyval" where
  "dump_artifact v = dict_of [(''artifact_id'', PStr (art_artifact_id v)), (''artifact_type'', PStr (art_artifact_type v)),
     (''label'', PStr (art_label v)), (''path'', maybe_str (art_path v)),
     (''external_reference'', maybe_str (art_external_reference v)), (''content_type'', maybe_str (art_content_type v))]"

definition assumption_entries :: "assumption \<Rightarrow> (string \<times> pyval) list" where
  "assumption_entries v = [(''statement'', PStr (asm_statement v)), (''source_references'', str_list (asm_source_references v))]"

definition dump_assumption :: "assumption \<Rightarrow> pyval" where
  "dump_assumption v = dict_of (assumption_entries v)"

definition dump_risk :: "risk \<Rightarrow> pyval" where
  "dump_risk v = dict_of (assumption_entries (rsk_assumption v) @ [(''severity'', PStr (risk_value (rsk_severity v)))])"

definition dump_challenge :: "challenge \<Rightarrow> pyval" where
  "dump_challenge v = dict_of [(''level'', PStr (challenge_level_value (chl_level v))), (''reason'', maybe_str (chl_reason v)),
     (''evidence_source_references'', str_list (chl_evidence_source_references v)),
     (''suggested_action'', maybe_str (chl_suggested_action v))]"

definition dump_action :: "requested_action \<Rightarrow> pyval" where
  "dump_action v = dict_of [(''action_type'', PStr (rqa_action_type v)), (''target_reference'', PStr (rqa_target_reference v)),
     (''reason'', PStr (rqa_reason v)), (''risk_hint'', maybe_str (map_option risk_value (rqa_risk_hint v)))]"

definition result_entries :: "agent_result \<Rightarrow> (string \<times> pyval) list" where
  "result_entries v =
    [(''status'', PStr (agent_result_status_value (arz_status v))), (''summary'', PStr (arz_summary v)),
     (''findings'', PList (map dump_finding (arz_findings v))), (''artifacts'', PList (map dump_artifact (arz_artifacts v))),
     (''sources'', PList (map dump_source (arz_sources v))), (''assumptions'', PList (map dump_assumption (arz_assumptions v))),
     (''risks'', PList (map dump_risk (arz_risks v))), (''uncertainties'', PList (map dump_assumption (arz_uncertainties v))),
     (''blocking_issues'', PList (map dump_assumption (arz_blocking_issues v))),
     (''challenge'', dump_challenge (arz_challenge v)),
     (''recommended_next_steps'', PList (map (\<lambda>t. dict_of [(''recommendation'', PStr t)]) (arz_recommended_next_steps v))),
     (''requested_actions'', PList (map dump_action (arz_requested_actions v)))]"

definition dump_acceptance :: "acceptance_result \<Rightarrow> pyval" where
  "dump_acceptance v = dict_of [(''criterion_id'', PStr (acr_criterion_id v)),
     (''status'', PStr (acceptance_result_status_value (acr_status v))), (''rationale'', PStr (acr_rationale v)),
     (''evidence_references'', str_list (acr_evidence_references v))]"

definition dump_defect :: "defect \<Rightarrow> pyval" where
  "dump_defect v = dict_of [(''defect_key'', PStr (dfd_defect_key v)), (''title'', PStr (dfd_title v)),
     (''severity'', PStr (risk_value (dfd_severity v))), (''component_path'', maybe_str (dfd_component_path v)),
     (''description'', PStr (dfd_description v)), (''affected_criteria'', str_list (dfd_affected_criteria v)),
     (''remediation_summary'', PStr (dfd_remediation_summary v))]"

definition dump_qa_result :: "qa_result \<Rightarrow> pyval" where
  "dump_qa_result v = dict_of (result_entries (qar_result v) @
    [(''validation_summary'', PStr (qar_validation_summary v)), (''verdict'', PStr (qa_verdict_value (qar_verdict v))),
     (''acceptance_results'', PList (map dump_acceptance (qar_acceptance_results v))),
     (''defects'', PList (map dump_defect (qar_defects v))),
     (''test_recommendations'', str_list (qar_test_recommendations v)),
     (''regression_risks'', str_list (qar_regression_risks v)),
     (''security_review_recommendations'', str_list (qar_security_review_recommendations v)),
     (''manual_review_recommendations'', str_list (qar_manual_review_recommendations v)),
     (''blockers'', str_list (qar_blockers v))])"

section \<open>The result of the QA Worker\<close>

definition verdict_allowed :: "qa_result \<Rightarrow> bool" where
  "verdict_allowed v =
    (let statuses = map acr_status (qar_acceptance_results v) in
     case qar_verdict v of
       qa_verdict.PASS \<Rightarrow> arz_status (qar_result v) = COMPLETED \<and> list_all (\<lambda>s. s = PASS) statuses \<and>
         qar_defects v = [] \<and> qar_blockers v = [] \<and> chl_level (arz_challenge (qar_result v)) = NONE
     | PASS_WITH_WARNINGS \<Rightarrow> True
     | qa_verdict.FAIL \<Rightarrow> List.member statuses FAIL
     | INCONCLUSIVE \<Rightarrow> List.member statuses NOT_VERIFIED \<or> qar_blockers v \<noteq> [] \<or>
         chl_level (arz_challenge (qar_result v)) \<noteq> NONE)"

definition normalized_qa_result :: "qa_result \<Rightarrow> qa_result option" where
  "normalized_qa_result v =
    (let ids = map acr_criterion_id (qar_acceptance_results v) in
     accept (\<not> unsafe_content (dump_qa_result v) \<and> distinct ids \<and> distinct (map dfd_defect_key (qar_defects v)) \<and>
         list_all (\<lambda>d. list_all (List.member ids) (dfd_affected_criteria d)) (qar_defects v) \<and> verdict_allowed v)
       (v\<lparr>qar_acceptance_results := sort_key acr_criterion_id (qar_acceptance_results v),
          qar_defects := sort_key dfd_defect_key (qar_defects v)\<rparr>))"

definition QAWorkerResult :: "url_lib \<Rightarrow> qa_result \<Rightarrow> qa_result option" where
  "QAWorkerResult lib v =
     Option.bind (AgentResult lib (qar_result v)) (\<lambda>r.
     Option.bind (qa_text 3000 (qar_validation_summary v)) (\<lambda>t.
     Option.bind (nonempty (list_field 24 AcceptanceResult) (qar_acceptance_results v)) (\<lambda>acs.
     Option.bind (list_field 32 DefectDescriptor (qar_defects v)) (\<lambda>ds.
     Option.bind (name_list 24 qa_short (qar_test_recommendations v)) (\<lambda>trs.
     Option.bind (name_list 24 qa_short (qar_regression_risks v)) (\<lambda>rrs.
     Option.bind (name_list 24 qa_short (qar_security_review_recommendations v)) (\<lambda>srs.
     Option.bind (name_list 24 qa_short (qar_manual_review_recommendations v)) (\<lambda>mrs.
     Option.bind (name_list 16 qa_short (qar_blockers v)) (\<lambda>bs.
     if arz_artifacts r = [] \<and> arz_requested_actions r = []
     then normalized_qa_result
       \<lparr>qar_result = r, qar_validation_summary = t, qar_verdict = qar_verdict v, qar_acceptance_results = acs,
        qar_defects = ds, qar_test_recommendations = trs, qar_regression_risks = rrs,
        qar_security_review_recommendations = srs, qar_manual_review_recommendations = mrs, qar_blockers = bs\<rparr>
     else None)))))))))"

section \<open>The summary for a human\<close>

record qa_review_note =
  qrn_category :: pystr
  qrn_message :: pystr

definition review_note :: "pystr list \<Rightarrow> pystr \<Rightarrow> pystr \<Rightarrow> qa_review_note option" where
  "review_note categories category message =
    (if List.member categories category
     then map_option (\<lambda>t. \<lparr>qrn_category = category, qrn_message = t\<rparr>) (qa_short message) else None)"

definition QAHumanReviewWarning :: "pystr \<Rightarrow> pystr \<Rightarrow> qa_review_note option" where
  "QAHumanReviewWarning = review_note [''REGRESSION_RISK'', ''BLOCKER'']"

definition QAHumanReviewRecommendation :: "pystr \<Rightarrow> pystr \<Rightarrow> qa_review_note option" where
  "QAHumanReviewRecommendation = review_note [''TEST'', ''SECURITY_REVIEW'', ''MANUAL_REVIEW'']"

record qa_summary =
  qhs_verdict :: qa_verdict
  qhs_challenge_level :: challenge_level
  qhs_challenge_reason :: pystr
  qhs_challenge_evidence_references :: "pystr list"
  qhs_suggested_action :: "pystr option"
  qhs_validation_summary :: pystr
  qhs_warnings :: "qa_review_note list"
  qhs_recommendations :: "qa_review_note list"
  qhs_acceptance_results :: "acceptance_result list"
  qhs_concerns :: "defect list"

definition dump_note :: "qa_review_note \<Rightarrow> pyval" where
  "dump_note v = dict_of [(''category'', PStr (qrn_category v)), (''message'', PStr (qrn_message v))]"

definition dump_qa_summary :: "qa_summary \<Rightarrow> pyval" where
  "dump_qa_summary v = dict_of
    [(''schema_version'', PInt 1), (''verdict'', PStr (qa_verdict_value (qhs_verdict v))),
     (''challenge_level'', PStr (challenge_level_value (qhs_challenge_level v))),
     (''challenge_reason'', PStr (qhs_challenge_reason v)),
     (''challenge_evidence_references'', str_list (qhs_challenge_evidence_references v)),
     (''suggested_action'', maybe_str (qhs_suggested_action v)),
     (''validation_summary'', PStr (qhs_validation_summary v)),
     (''warnings'', PList (map dump_note (qhs_warnings v))),
     (''recommendations'', PList (map dump_note (qhs_recommendations v))),
     (''acceptance_results'', PList (map dump_acceptance (qhs_acceptance_results v))),
     (''concerns'', PList (map dump_defect (qhs_concerns v)))]"

text \<open>The notes, acceptance results and concerns are instances already, and are only counted.\<close>

definition QAHumanReviewSummary :: "qa_summary \<Rightarrow> qa_summary option" where
  "QAHumanReviewSummary v =
     Option.bind (qa_text 2000 (qhs_challenge_reason v)) (\<lambda>reason.
     Option.bind (name_list 16 normal_reference (qhs_challenge_evidence_references v)) (\<lambda>rs.
     Option.bind (maybe qa_short (qhs_suggested_action v)) (\<lambda>act.
     Option.bind (qa_text 3000 (qhs_validation_summary v)) (\<lambda>t.
     let w = v\<lparr>qhs_challenge_reason := reason, qhs_challenge_evidence_references := rs, qhs_suggested_action := act,
       qhs_validation_summary := t\<rparr> in
     accept (List.member [HUMAN_REVIEW_RECOMMENDED, BLOCK_RECOMMENDED] (qhs_challenge_level w) \<and>
       length (qhs_warnings w) \<le> 40 \<and> length (qhs_recommendations w) \<le> 72 \<and>
       1 \<le> length (qhs_acceptance_results w) \<and> length (qhs_acceptance_results w) \<le> 24 \<and>
       length (qhs_concerns w) \<le> 32 \<and> \<not> unsafe_content (dump_qa_summary w)) w))))"

definition human_review_summary :: "qa_result \<Rightarrow> exn + qa_summary" where
  "human_review_summary result =
    (let c = arz_challenge (qar_result result) in
     if \<not> List.member [HUMAN_REVIEW_RECOMMENDED, BLOCK_RECOMMENDED] (chl_level c) then Inl (PythonError ''ValueError'')
     else case chl_reason c of
       None \<Rightarrow> Inl (PythonError ''AssertionError'')
     | Some reason \<Rightarrow>
        (case (those (map (QAHumanReviewWarning ''REGRESSION_RISK'') (qar_regression_risks result) @
                 map (QAHumanReviewWarning ''BLOCKER'') (qar_blockers result)),
               those (map (QAHumanReviewRecommendation ''TEST'') (qar_test_recommendations result) @
                 map (QAHumanReviewRecommendation ''SECURITY_REVIEW'') (qar_security_review_recommendations result) @
                 map (QAHumanReviewRecommendation ''MANUAL_REVIEW'') (qar_manual_review_recommendations result))) of
           (Some warnings, Some recommendations) \<Rightarrow>
             (case QAHumanReviewSummary
                 \<lparr>qhs_verdict = qar_verdict result, qhs_challenge_level = chl_level c, qhs_challenge_reason = reason,
                  qhs_challenge_evidence_references = chl_evidence_source_references c,
                  qhs_suggested_action = chl_suggested_action c,
                  qhs_validation_summary = qar_validation_summary result, qhs_warnings = warnings,
                  qhs_recommendations = recommendations, qhs_acceptance_results = qar_acceptance_results result,
                  qhs_concerns = qar_defects result\<rparr> of
                None \<Rightarrow> Inl ValidationError | Some s \<Rightarrow> Inr s)
         | _ \<Rightarrow> Inl ValidationError))"

section \<open>A challenged assessment can always be summarised\<close>

lemma unsafe_dict_of: "unsafe_content (dict_of es) \<longleftrightarrow> (\<exists>e \<in> set es. unsafe_content (snd e))"
  by (force simp: dict_of_def list_ex_iff case_prod_beta)

lemma unsafe_str_list: "unsafe_content (str_list vs) \<longleftrightarrow> (\<exists>v \<in> set vs. unsafe v)"
  by (auto simp: str_list_def list_ex_iff)

lemma unsafe_maybe_str: "unsafe_content (maybe_str v) \<longleftrightarrow> (\<exists>t. v = Some t \<and> unsafe t)"
  by (cases v) (simp_all add: maybe_str_def)

lemma unsafe_list: "unsafe_content (PList (map f vs)) \<longleftrightarrow> (\<exists>v \<in> set vs. unsafe_content (f v))"
  by (auto simp: list_ex_iff)

lemmas unsafe_simps = unsafe_dict_of unsafe_str_list unsafe_maybe_str unsafe_list

lemma stable_qa_short [stable_intros]: "stable qa_short"
proof (rule stableI)
  fix v w assume "qa_short v = Some w"
  then have t: "between 1 500 (trim v)" "safe_text (trim v) = Some w" "\<not> unsafe w"
    by (auto simp: qa_short_def ShortText_def bounded_qa_text_def Let_def bind_eq_Some_conv split: if_splits)
  from safe_text_Some [OF t(2)] t(1) have "between 1 500 w" "trim w = w" "safe_text w = Some w"
    by (auto simp: between_def Suc_le_eq)
  with t(3) show "qa_short w = Some w" by (simp add: qa_short_def ShortText_def bounded_qa_text_def)
qed

lemma qa_text_Some: "qa_text n v = Some w \<Longrightarrow> qa_text n w = Some w"
  using safe_text_Some [of v w]
  by (auto simp: qa_text_def bounded_qa_text_def bind_eq_Some_conv between_def Suc_le_eq split: if_splits)

lemma text_field_qa: "text_field n t = Some t \<Longrightarrow> \<not> unsafe t \<Longrightarrow> qa_text n t = Some t"
  by (auto simp: text_field_def qa_text_def bounded_qa_text_def split: if_splits)

lemma text_field_qa_short: "text_field 500 t = Some t \<Longrightarrow> \<not> unsafe t \<Longrightarrow> qa_short t = Some t"
  using text_field_short [of t]
  by (auto simp: qa_short_def bounded_qa_text_def short_text_def bind_eq_Some_conv)

lemma reference_normal:
  assumes "reference_field w = Some w"
  shows "normal_reference w = Some w"
proof -
  have "trim w = w" by (rule reference_field_Some [OF assms, THEN conjunct1, symmetric])
  with assms show ?thesis by (auto simp: reference_field_def ReferenceId_def bind_eq_Some_conv split: if_splits)
qed

lemma name_set_references:
  assumes "name_set n reference_field rs = Some rs"
  shows "name_list n normal_reference rs = Some rs"
proof -
  from assms obtain us where us: "list_field n reference_field rs = Some us" "rs = unique_sorted us"
    by (auto simp: name_set_def)
  from list_field_result [OF stable_reference_field us(1)] have "\<forall>u \<in> set rs. normal_reference u = Some u"
    by (auto simp: us(2) unique_sorted_def list_all_iff kept_def reference_normal)
  moreover have "length rs \<le> n" using us(1) by (simp add: list_field_Some)
  moreover have "distinct rs" "sorted rs" by (simp_all add: us(2) unique_sorted_def)
  moreover from calculation(1,2) have "list_field n normal_reference rs = Some rs"
    by (simp add: list_field_kept list_all_iff kept_def)
  ultimately show ?thesis by (simp add: name_list_def sorted_sort_id)
qed

lemma AgentResult_challenge:
  assumes "AgentResult lib v = Some w"
  shows "Challenge (arz_challenge w) = Some (arz_challenge w)"
  using assms stableD [OF stable_Challenge] by (auto simp: AgentResult_def bind_eq_Some_conv)

lemma Challenge_fields:
  assumes "Challenge c = Some c"
  shows "maybe (text_field 2000) (chl_reason c) = Some (chl_reason c)"
    and "name_set 16 reference_field (chl_evidence_source_references c) = Some (chl_evidence_source_references c)"
    and "maybe (text_field 500) (chl_suggested_action c) = Some (chl_suggested_action c)"
    and "chl_level c \<noteq> NONE \<Longrightarrow> chl_reason c \<noteq> None"
proof -
  from assms obtain r rs a where f: "maybe (text_field 2000) (chl_reason c) = Some r"
      "name_set 16 reference_field (chl_evidence_source_references c) = Some rs"
      "maybe (text_field 500) (chl_suggested_action c) = Some a"
    and ok: "if chl_level c = NONE then r = None \<and> rs = [] \<and> a = None else r \<noteq> None"
    and c: "c = \<lparr>chl_level = chl_level c, chl_reason = r, chl_evidence_source_references = rs, chl_suggested_action = a\<rparr>"
    by (auto simp: Challenge_def bind_eq_Some_conv)
  have "chl_reason c = r" "chl_evidence_source_references c = rs" "chl_suggested_action c = a"
    by (subst c, simp)+
  with f ok show "maybe (text_field 2000) (chl_reason c) = Some (chl_reason c)"
    "name_set 16 reference_field (chl_evidence_source_references c) = Some (chl_evidence_source_references c)"
    "maybe (text_field 500) (chl_suggested_action c) = Some (chl_suggested_action c)"
    "chl_level c \<noteq> NONE \<Longrightarrow> chl_reason c \<noteq> None" by simp_all
qed

lemma name_list_kept:
  assumes "name_list n qa_short vs = Some ws"
  shows "length ws \<le> n" and "\<forall>w \<in> set ws. qa_short w = Some w"
proof -
  from assms obtain us where us: "list_field n qa_short vs = Some us" "ws = sort us"
    by (auto simp: name_list_def bind_eq_Some_conv split: if_splits)
  with list_field_result [OF stable_qa_short us(1)] show "length ws \<le> n" "\<forall>w \<in> set ws. qa_short w = Some w"
    by (auto simp: list_all_iff kept_def)
qed

text \<open>What a validated result keeps, as the summary needs it.\<close>

lemma QAWorkerResult_facts:
  assumes "QAWorkerResult lib v = Some r"
  shows "Challenge (arz_challenge (qar_result r)) = Some (arz_challenge (qar_result r))"
    and "qa_text 3000 (qar_validation_summary r) = Some (qar_validation_summary r)"
    and "1 \<le> length (qar_acceptance_results r)" and "length (qar_acceptance_results r) \<le> 24"
    and "length (qar_defects r) \<le> 32" and "\<not> unsafe_content (dump_qa_result r)"
    and "name_list 24 qa_short (qar_test_recommendations v) = Some (qar_test_recommendations r)"
    and "name_list 24 qa_short (qar_regression_risks v) = Some (qar_regression_risks r)"
    and "name_list 24 qa_short (qar_security_review_recommendations v) = Some (qar_security_review_recommendations r)"
    and "name_list 24 qa_short (qar_manual_review_recommendations v) = Some (qar_manual_review_recommendations r)"
    and "name_list 16 qa_short (qar_blockers v) = Some (qar_blockers r)"
proof -
  from assms obtain ar t acs ds trs rrs srs mrs bs where
    f: "AgentResult lib (qar_result v) = Some ar" "qa_text 3000 (qar_validation_summary v) = Some t"
      "nonempty (list_field 24 AcceptanceResult) (qar_acceptance_results v) = Some acs"
      "list_field 32 DefectDescriptor (qar_defects v) = Some ds"
    and g: "name_list 24 qa_short (qar_test_recommendations v) = Some trs"
      "name_list 24 qa_short (qar_regression_risks v) = Some rrs"
      "name_list 24 qa_short (qar_security_review_recommendations v) = Some srs"
      "name_list 24 qa_short (qar_manual_review_recommendations v) = Some mrs"
      "name_list 16 qa_short (qar_blockers v) = Some bs"
    and n: "normalized_qa_result
       \<lparr>qar_result = ar, qar_validation_summary = t, qar_verdict = qar_verdict v, qar_acceptance_results = acs,
        qar_defects = ds, qar_test_recommendations = trs, qar_regression_risks = rrs,
        qar_security_review_recommendations = srs, qar_manual_review_recommendations = mrs, qar_blockers = bs\<rparr> = Some r"
    by (auto simp: QAWorkerResult_def bind_eq_Some_conv split: if_splits)
  from n have r: "r = \<lparr>qar_result = ar, qar_validation_summary = t, qar_verdict = qar_verdict v,
        qar_acceptance_results = sort_key acr_criterion_id acs, qar_defects = sort_key dfd_defect_key ds,
        qar_test_recommendations = trs, qar_regression_risks = rrs, qar_security_review_recommendations = srs,
        qar_manual_review_recommendations = mrs, qar_blockers = bs\<rparr>"
    and clean: "\<not> unsafe_content (dump_qa_result \<lparr>qar_result = ar, qar_validation_summary = t, qar_verdict = qar_verdict v,
        qar_acceptance_results = acs, qar_defects = ds, qar_test_recommendations = trs, qar_regression_risks = rrs,
        qar_security_review_recommendations = srs, qar_manual_review_recommendations = mrs, qar_blockers = bs\<rparr>)"
    by (simp_all add: normalized_qa_result_def Let_def)
  show "Challenge (arz_challenge (qar_result r)) = Some (arz_challenge (qar_result r))"
    using AgentResult_challenge [OF f(1)] by (simp add: r)
  show "qa_text 3000 (qar_validation_summary r) = Some (qar_validation_summary r)" using qa_text_Some [OF f(2)] by (simp add: r)
  from f(3) have acs: "list_field 24 AcceptanceResult (qar_acceptance_results v) = Some acs" "acs \<noteq> []"
    by (auto simp: nonempty_def dest: list_field_empty split: if_splits)
  then show "1 \<le> length (qar_acceptance_results r)" by (cases acs) (simp_all add: r)
  show "length (qar_acceptance_results r) \<le> 24" using acs(1) by (auto simp: r list_field_Some dest: list_all2_lengthD)
  show "length (qar_defects r) \<le> 32" using f(4) by (auto simp: r list_field_Some dest: list_all2_lengthD)
  show "\<not> unsafe_content (dump_qa_result r)" using clean by (simp add: r dump_qa_result_def unsafe_simps list_ex_iff)
qed (use assms in \<open>auto simp: QAWorkerResult_def normalized_qa_result_def bind_eq_Some_conv Let_def split: if_splits\<close>)

lemma review_notes:
  assumes "\<forall>v \<in> set vs. qa_short v = Some v" and "category \<in> set categories"
  shows "those (map (review_note categories category) vs) =
    Some (map (\<lambda>v. \<lparr>qrn_category = category, qrn_message = v\<rparr>) vs)"
  using assms(1) by (induction vs) (simp_all add: review_note_def assms(2))

lemma those_append: "those xs = Some us \<Longrightarrow> those ys = Some vs \<Longrightarrow> those (xs @ ys) = Some (us @ vs)"
  by (induction xs arbitrary: us) (auto split: option.splits)

text \<open>The strings a summary repeats are those of the assessment, which was scanned as a whole.\<close>

lemma dumped_challenge_safe:
  assumes "\<not> unsafe_content (dump_qa_result r)"
  shows "\<And>t. chl_reason (arz_challenge (qar_result r)) = Some t \<Longrightarrow> \<not> unsafe t"
    and "\<forall>t \<in> set (chl_evidence_source_references (arz_challenge (qar_result r))). \<not> unsafe t"
    and "\<And>t. chl_suggested_action (arz_challenge (qar_result r)) = Some t \<Longrightarrow> \<not> unsafe t"
    and "\<not> unsafe (challenge_level_value (chl_level (arz_challenge (qar_result r))))"
  using assms by (auto simp: dump_qa_result_def result_entries_def dump_challenge_def unsafe_simps)

lemma dumped_assessment_safe:
  assumes "\<not> unsafe_content (dump_qa_result r)"
  shows "\<not> unsafe (qar_validation_summary r)" and "\<not> unsafe (qa_verdict_value (qar_verdict r))"
    and "\<forall>a \<in> set (qar_acceptance_results r). \<not> unsafe_content (dump_acceptance a)"
    and "\<forall>d \<in> set (qar_defects r). \<not> unsafe_content (dump_defect d)"
    and "\<forall>t \<in> set (qar_test_recommendations r). \<not> unsafe t" and "\<forall>t \<in> set (qar_regression_risks r). \<not> unsafe t"
    and "\<forall>t \<in> set (qar_security_review_recommendations r). \<not> unsafe t"
    and "\<forall>t \<in> set (qar_manual_review_recommendations r). \<not> unsafe t" and "\<forall>t \<in> set (qar_blockers r). \<not> unsafe t"
  using assms by (auto simp: dump_qa_result_def unsafe_simps list_ex_iff)

definition remarks :: "pystr \<Rightarrow> pystr list \<Rightarrow> qa_review_note list" where
  "remarks category vs = map (\<lambda>v. \<lparr>qrn_category = category, qrn_message = v\<rparr>) vs"

lemma unsafe_marks: "\<not> name_char (CHR '':'')" "\<not> name_char (CHR '';'')" "\<not> name_char (CHR ''`'')" "\<not> name_char (CHR ''$'')"
  "\<not> name_char (CHR ''&'')" "\<not> name_char (CHR ''|'')"
  by (simp_all add: name_char_def ascii_alnum_def lower_az_def upper_az_def digit09_def less_eq_char_def)

lemma names_match_not: "list_all name_char t \<Longrightarrow> \<not> UNSAFE_TEXT boundary t"
  using starts_ci_chars [of _ t] unsafe_marks name_char_fold
  by (auto simp: UNSAFE_TEXT_def list_all_iff split: list.splits)
    (metis in_set_dropD list.set_intros(1))+

lemma names_safe: "list_all name_char t \<Longrightarrow> \<not> unsafe t"
proof -
  have "list_all name_char t \<Longrightarrow> \<not> search_from UNSAFE_TEXT boundary t" for boundary
    by (induction t arbitrary: boundary) (simp_all add: names_match_not)
  then show "list_all name_char t \<Longrightarrow> \<not> unsafe t" by (simp add: unsafe_def searches_def)
qed

lemma note_categories_safe:
  "\<not> unsafe ''REGRESSION_RISK''" "\<not> unsafe ''BLOCKER''" "\<not> unsafe ''TEST''" "\<not> unsafe ''SECURITY_REVIEW''"
  "\<not> unsafe ''MANUAL_REVIEW''"
  by (rule names_safe, simp add: name_char_def ascii_alnum_def lower_az_def upper_az_def digit09_def less_eq_char_def)+

lemma unsafe_remarks: "unsafe_content (PList (map dump_note (remarks category vs))) \<longleftrightarrow>
    vs \<noteq> [] \<and> unsafe category \<or> (\<exists>v \<in> set vs. unsafe v)"
  by (cases vs) (auto simp: remarks_def dump_note_def unsafe_simps list_ex_iff)

lemma qa_warnings:
  assumes "\<forall>v \<in> set rs. qa_short v = Some v" and "\<forall>v \<in> set bs. qa_short v = Some v"
  shows "those (map (QAHumanReviewWarning ''REGRESSION_RISK'') rs @ map (QAHumanReviewWarning ''BLOCKER'') bs) =
    Some (remarks ''REGRESSION_RISK'' rs @ remarks ''BLOCKER'' bs)"
  unfolding QAHumanReviewWarning_def remarks_def by (intro those_append review_notes assms) simp_all

lemma qa_recommendations:
  assumes "\<forall>v \<in> set ts. qa_short v = Some v" and "\<forall>v \<in> set ss. qa_short v = Some v"
    and "\<forall>v \<in> set ms. qa_short v = Some v"
  shows "those (map (QAHumanReviewRecommendation ''TEST'') ts @ map (QAHumanReviewRecommendation ''SECURITY_REVIEW'') ss @
      map (QAHumanReviewRecommendation ''MANUAL_REVIEW'') ms) =
    Some (remarks ''TEST'' ts @ remarks ''SECURITY_REVIEW'' ss @ remarks ''MANUAL_REVIEW'' ms)"
  unfolding QAHumanReviewRecommendation_def remarks_def by (intro those_append review_notes assms) simp_all

definition summary_of :: "qa_result \<Rightarrow> pystr \<Rightarrow> qa_summary" where
  "summary_of r reason = (let c = arz_challenge (qar_result r) in
    \<lparr>qhs_verdict = qar_verdict r, qhs_challenge_level = chl_level c, qhs_challenge_reason = reason,
     qhs_challenge_evidence_references = chl_evidence_source_references c,
     qhs_suggested_action = chl_suggested_action c, qhs_validation_summary = qar_validation_summary r,
     qhs_warnings = remarks ''REGRESSION_RISK'' (qar_regression_risks r) @ remarks ''BLOCKER'' (qar_blockers r),
     qhs_recommendations = remarks ''TEST'' (qar_test_recommendations r) @
       remarks ''SECURITY_REVIEW'' (qar_security_review_recommendations r) @
       remarks ''MANUAL_REVIEW'' (qar_manual_review_recommendations r),
     qhs_acceptance_results = qar_acceptance_results r, qhs_concerns = qar_defects r\<rparr>)"

lemma summary_of_safe:
  assumes "\<not> unsafe_content (dump_qa_result r)" and "chl_reason (arz_challenge (qar_result r)) = Some reason"
  shows "\<not> unsafe_content (dump_qa_summary (summary_of r reason))"
  using dumped_challenge_safe [OF assms(1)] dumped_assessment_safe [OF assms(1)] note_categories_safe assms(2)
  by (auto simp: dump_qa_summary_def summary_of_def Let_def unsafe_simps unsafe_remarks remarks_def dump_note_def list_ex_iff)

lemma summary_of_validated:
  assumes v: "QAWorkerResult lib v = Some r" and reason: "chl_reason (arz_challenge (qar_result r)) = Some reason"
    and level: "List.member [HUMAN_REVIEW_RECOMMENDED, BLOCK_RECOMMENDED] (chl_level (arz_challenge (qar_result r)))"
  shows "QAHumanReviewSummary (summary_of r reason) = Some (summary_of r reason)"
proof -
  note f = QAWorkerResult_facts [OF v]
  note c = Challenge_fields [OF f(1)]
  note d = dumped_challenge_safe [OF f(6)]
  have "qa_text 2000 reason = Some reason"
    using c(1) d(1) [OF reason] reason by (auto simp: maybe_def intro: text_field_qa)
  moreover have "name_list 16 normal_reference (chl_evidence_source_references (arz_challenge (qar_result r))) =
      Some (chl_evidence_source_references (arz_challenge (qar_result r)))"
    by (rule name_set_references [OF c(2)])
  moreover have "maybe qa_short (chl_suggested_action (arz_challenge (qar_result r))) =
      Some (chl_suggested_action (arz_challenge (qar_result r)))"
    using c(3) d(3) by (cases "chl_suggested_action (arz_challenge (qar_result r))")
      (auto simp: maybe_def intro: text_field_qa_short)
  ultimately show ?thesis
    using f(2-5) level summary_of_safe [OF f(6) reason] f(7-11) [THEN name_list_kept(1)]
    by (simp add: QAHumanReviewSummary_def summary_of_def Let_def accept_def remarks_def)
qed

text \<open>
  C40: The summary stored for a human decision can be built from every validated QA assessment whose challenge asks
  for one: it never fails validation, and carries the assessment's verdict, reason, risks, blockers and
  recommendations unchanged. An assessment without such a challenge is refused with ValueError.
\<close>

theorem human_review_summary_total:
  assumes "QAWorkerResult lib v = Some r"
  shows "if chl_level (arz_challenge (qar_result r)) \<in> {HUMAN_REVIEW_RECOMMENDED, BLOCK_RECOMMENDED}
    then \<exists>reason. chl_reason (arz_challenge (qar_result r)) = Some reason \<and>
      human_review_summary r = Inr (summary_of r reason)
    else human_review_summary r = Inl (PythonError ''ValueError'')"
proof (cases "List.member [HUMAN_REVIEW_RECOMMENDED, BLOCK_RECOMMENDED] (chl_level (arz_challenge (qar_result r)))")
  case True
  note f = QAWorkerResult_facts [OF assms]
  note k = f(7-11) [THEN name_list_kept(2)]
  from True have "chl_level (arz_challenge (qar_result r)) \<noteq> NONE" by auto
  with Challenge_fields(4) [OF f(1)] obtain reason where reason: "chl_reason (arz_challenge (qar_result r)) = Some reason"
    by auto
  have "human_review_summary r = Inr (summary_of r reason)"
    using True summary_of_validated [OF assms reason True]
    unfolding human_review_summary_def Let_def qa_warnings [OF k(2,5)] qa_recommendations [OF k(1,3,4)] reason
    by (simp add: summary_of_def Let_def reason)
  with True reason show ?thesis by auto
next
  case False
  then show ?thesis by (simp add: human_review_summary_def Let_def)
qed

definition sample_assessment :: qa_result where
  "sample_assessment = \<lparr>qar_result = sample_result, qar_validation_summary = ''ok'', qar_verdict = INCONCLUSIVE,
     qar_acceptance_results = [\<lparr>acr_criterion_id = ''c'', acr_status = PASS, acr_rationale = ''ok'', acr_evidence_references = []\<rparr>],
     qar_defects = [], qar_test_recommendations = [''risky''], qar_regression_risks = [],
     qar_security_review_recommendations = [], qar_manual_review_recommendations = [], qar_blockers = []\<rparr>"

lemma sample_names_safe:
  "\<not> unsafe ''ok''" "\<not> unsafe ''risky''" "\<not> unsafe ''c''" "\<not> unsafe ''COMPLETED''" "\<not> unsafe ''INCONCLUSIVE''"
  "\<not> unsafe ''PASS''" "\<not> unsafe ''HUMAN_REVIEW_RECOMMENDED''"
  by (rule names_safe, simp add: name_chars)+

lemma sample_assessment_valid: "QAWorkerResult lib sample_assessment = Some sample_assessment"
proof -
  have c: "identifier_field ''c'' = Some ''c''" by code_simp
  have t: "qa_text 1000 ''ok'' = Some ''ok''" "qa_text 3000 ''ok'' = Some ''ok''" "qa_short ''risky'' = Some ''risky''"
    by (auto intro!: text_field_qa text_field_qa_short simp: sample_texts sample_names_safe)
  have "\<not> unsafe_content (dump_qa_result sample_assessment)"
    by (simp add: dump_qa_result_def result_entries_def dump_challenge_def dump_acceptance_def unsafe_simps list_ex_iff
        sample_assessment_def sample_result_def sample_names_safe agent_result_status_value_def qa_verdict_value_def
        acceptance_result_status_value_def challenge_level_value_def)
  then show ?thesis using sample_result_valid [of lib]
    by (simp add: QAWorkerResult_def sample_assessment_def normalized_qa_result_def verdict_allowed_def Let_def nonempty_def
        list_field_def name_list_def AcceptanceResult_def c t accept_def) (simp add: sample_result_def)
qed

theorem human_review_summary_total_witness:
  "human_review_summary sample_assessment = Inr (summary_of sample_assessment ''risky'')"
  using human_review_summary_total [OF sample_assessment_valid [of "\<lparr>urlsplit = \<lambda>_. None, parse_qsl = \<lambda>_. []\<rparr>"]]
  by (simp add: sample_assessment_def sample_result_def)

end
