(* ===== verification/Workflows.thy ===== *)
theory Workflows
  imports Agents Workflow_Graph
begin

text \<open>
  Versioned workflow plans, workflow runs and their step runs (\<open>modules/workflows\<close>: repository and
  service), and the fixed development workflow over the trusted agent definitions.
\<close>

section \<open>Statuses\<close>

datatype workflow_run_status = RUN_CREATED | RUN_RUNNING | RUN_COMPLETED | RUN_FAILED | RUN_CANCELLED

definition workflow_run_status_value :: "workflow_run_status \<Rightarrow> pystr" where
  "workflow_run_status_value v = (case v of RUN_CREATED \<Rightarrow> ''CREATED'' | RUN_RUNNING \<Rightarrow> ''RUNNING''
     | RUN_COMPLETED \<Rightarrow> ''COMPLETED'' | RUN_FAILED \<Rightarrow> ''FAILED'' | RUN_CANCELLED \<Rightarrow> ''CANCELLED'')"

datatype step_run_status = PENDING | READY | STEP_RUNNING | STEP_WAITING | STEP_COMPLETED
  | STEP_FAILED | STEP_CANCELLED

definition step_run_status_value :: "step_run_status \<Rightarrow> pystr" where
  "step_run_status_value v = (case v of PENDING \<Rightarrow> ''PENDING'' | READY \<Rightarrow> ''READY''
     | STEP_RUNNING \<Rightarrow> ''RUNNING'' | STEP_WAITING \<Rightarrow> ''WAITING_FOR_APPROVAL''
     | STEP_COMPLETED \<Rightarrow> ''COMPLETED'' | STEP_FAILED \<Rightarrow> ''FAILED'' | STEP_CANCELLED \<Rightarrow> ''CANCELLED'')"

section \<open>The repository\<close>

definition task_scopes :: "uuid \<Rightarrow> uuid \<Rightarrow> uuid \<Rightarrow> db \<Rightarrow> (uuid \<times> uuid) list" where
  "task_scopes tenant_id workspace_id task_id d =
     [(pj_id p, tk_id t). p \<leftarrow> projects d, t \<leftarrow> tasks d, w \<leftarrow> workspaces d,
        tk_project_id t = pj_id p \<and> ws_id w = pj_workspace_id p \<and>
        ws_tenant_id w = tenant_id \<and> ws_id w = workspace_id \<and> tk_id t = task_id]"

text \<open>\<open>one_or_none\<close>: several rows are an error of SQLAlchemy (\<open>MultipleResultsFound\<close>).\<close>

definition get_task_scope :: "uuid \<Rightarrow> uuid \<Rightarrow> uuid \<Rightarrow> (uuid \<times> uuid) option prog" where
  "get_task_scope tenant_id workspace_id task_id =
     bnd (query (task_scopes tenant_id workspace_id task_id)) (\<lambda>rows.
       if length rows \<le> 1 then ret (first_row rows) else throw SQLAlchemyError)"

definition plan_of_task :: "uuid \<Rightarrow> uuid \<Rightarrow> uuid \<Rightarrow> workflow_plan \<Rightarrow> bool" where
  "plan_of_task tenant_id workspace_id task_id r =
     (wp_tenant_id r = tenant_id \<and> wp_workspace_id r = workspace_id \<and> wp_task_id r = task_id)"

definition latest_plan_of :: "uuid \<Rightarrow> uuid \<Rightarrow> uuid \<Rightarrow> db \<Rightarrow> workflow_plan option" where
  "latest_plan_of tenant_id workspace_id task_id d =
     first_row (sort_key (\<lambda>r. - wp_version r)
       (filter (plan_of_task tenant_id workspace_id task_id) (workflow_plans d)))"

definition latest_plan :: "uuid \<Rightarrow> uuid \<Rightarrow> uuid \<Rightarrow> workflow_plan option prog" where
  "latest_plan tenant_id workspace_id task_id = query (latest_plan_of tenant_id workspace_id task_id)"

definition repository_get_plan ::
  "uuid \<Rightarrow> uuid \<Rightarrow> uuid \<Rightarrow> uuid option \<Rightarrow> workflow_plan option prog" where
  "repository_get_plan tenant_id workspace_id plan_id task_id =
     select_one workflow_plans (\<lambda>r. wp_tenant_id r = tenant_id \<and> wp_workspace_id r = workspace_id \<and>
       wp_id r = plan_id \<and> opt_all (\<lambda>t. wp_task_id r = t) task_id)"

definition repository_list_plans ::
  "uuid \<Rightarrow> uuid \<Rightarrow> uuid \<Rightarrow> nat \<Rightarrow> nat \<Rightarrow> workflow_plan list prog" where
  "repository_list_plans tenant_id workspace_id task_id limit offset =
     query (\<lambda>d. window limit offset (sort_key (\<lambda>r. (wp_version r, wp_id r))
       (filter (plan_of_task tenant_id workspace_id task_id) (workflow_plans d))))"

definition plan_steps :: "uuid \<Rightarrow> db \<Rightarrow> workflow_step list" where
  "plan_steps plan_id d = sort_key (\<lambda>r. (wt_position r, wt_id r))
     (filter (\<lambda>r. wt_workflow_plan_id r = plan_id) (workflow_steps d))"

definition plan_edges :: "uuid \<Rightarrow> db \<Rightarrow> step_dependency list" where
  "plan_edges plan_id d = sort_key (\<lambda>r. (sd_workflow_step_id r, sd_depends_on_step_id r))
     (filter (\<lambda>r. sd_workflow_plan_id r = plan_id) (step_dependencies d))"

definition steps_for_plan :: "uuid \<Rightarrow> workflow_step list prog" where
  "steps_for_plan plan_id = query (plan_steps plan_id)"

definition dependencies_for_plan :: "uuid \<Rightarrow> step_dependency list prog" where
  "dependencies_for_plan plan_id = query (plan_edges plan_id)"

definition scoped_workflow_run :: "uuid \<Rightarrow> uuid \<Rightarrow> uuid \<Rightarrow> workflow_run \<Rightarrow> bool" where
  "scoped_workflow_run tenant_id workspace_id run_id r =
     (wr_tenant_id r = tenant_id \<and> wr_workspace_id r = workspace_id \<and> wr_id r = run_id)"

definition workflow_repository_get_run :: "uuid \<Rightarrow> uuid \<Rightarrow> uuid \<Rightarrow> workflow_run option prog" where
  "workflow_repository_get_run tenant_id workspace_id run_id =
     select_one workflow_runs (scoped_workflow_run tenant_id workspace_id run_id)"

definition workflow_repository_list_runs ::
  "uuid \<Rightarrow> uuid \<Rightarrow> nat \<Rightarrow> nat \<Rightarrow> pystr option \<Rightarrow> workflow_run list prog" where
  "workflow_repository_list_runs tenant_id workspace_id limit offset status =
     query (\<lambda>d. window limit offset (sort_key (\<lambda>r. (wr_created_at r, wr_id r))
       (filter (\<lambda>r. wr_tenant_id r = tenant_id \<and> wr_workspace_id r = workspace_id \<and>
          opt_all (\<lambda>v. wr_status r = v) status) (workflow_runs d))))"

definition step_runs_for_runs :: "uuid list \<Rightarrow> workflow_step_run list prog" where
  "step_runs_for_runs run_ids =
    (if run_ids = [] then ret []
     else query (\<lambda>d. sort_key (\<lambda>r. (sr_created_at r, sr_id r))
       (filter (\<lambda>r. sr_workflow_run_id r \<in> set run_ids) (workflow_step_runs d))))"

text \<open>Row locks (\<open>with_for_update\<close>) do not show in a single session and are left out.\<close>

definition repository_get_step_run :: "uuid \<Rightarrow> uuid \<Rightarrow> workflow_step_run option prog" where
  "repository_get_step_run run_id step_run_id =
     select_one workflow_step_runs (\<lambda>r. sr_workflow_run_id r = run_id \<and> sr_id r = step_run_id)"

definition step_run_for_agent :: "uuid \<Rightarrow> workflow_step_run option prog" where
  "step_run_for_agent agent_run_id =
     select_one workflow_step_runs (\<lambda>r. sr_agent_run_id r = Some agent_run_id)"

definition ordered_rows :: "uuid \<Rightarrow> db \<Rightarrow> (workflow_step_run \<times> workflow_step) list" where
  "ordered_rows run_id d = sort_key (\<lambda>(r, s). (wt_position s, wt_step_key s, wt_id s))
     [(r, s). r \<leftarrow> workflow_step_runs d, s \<leftarrow> workflow_steps d,
        wt_id s = sr_workflow_step_id r \<and> sr_workflow_run_id r = run_id]"

definition ordered_step_runs :: "uuid \<Rightarrow> (workflow_step_run \<times> workflow_step) list prog" where
  "ordered_step_runs run_id = query (ordered_rows run_id)"

definition count_step_states :: "uuid \<Rightarrow> (pystr \<times> nat) list prog" where
  "count_step_states run_id = query (\<lambda>d.
     let statuses = map sr_status (filter (\<lambda>r. sr_workflow_run_id r = run_id) (workflow_step_runs d))
     in map (\<lambda>v. (v, count_list statuses v)) (remdups statuses))"

text \<open>
  The dictionary of values a transition writes: the status, and \<open>started_at\<close> or
  \<open>completed_at\<close> together with \<open>failure_code\<close> where it names them.
\<close>

record flow_values =
  fv_status :: pystr
  fv_updated_at :: instant
  fv_started_at :: "instant option"
  fv_completion :: "(instant \<times> pystr option) option"

definition apply_to_workflow_run :: "flow_values \<Rightarrow> workflow_run \<Rightarrow> workflow_run" where
  "apply_to_workflow_run v r = r\<lparr>wr_status := fv_status v,
     wr_started_at := (case fv_started_at v of None \<Rightarrow> wr_started_at r | Some t \<Rightarrow> Some t),
     wr_completed_at := (case fv_completion v of None \<Rightarrow> wr_completed_at r | Some (t, _) \<Rightarrow> Some t),
     wr_failure_code := (case fv_completion v of None \<Rightarrow> wr_failure_code r | Some (_, c) \<Rightarrow> c),
     wr_updated_at := fv_updated_at v\<rparr>"

definition apply_to_step_run :: "flow_values \<Rightarrow> workflow_step_run \<Rightarrow> workflow_step_run" where
  "apply_to_step_run v r = r\<lparr>sr_status := fv_status v,
     sr_started_at := (case fv_started_at v of None \<Rightarrow> sr_started_at r | Some t \<Rightarrow> Some t),
     sr_completed_at := (case fv_completion v of None \<Rightarrow> sr_completed_at r | Some (t, _) \<Rightarrow> Some t),
     sr_failure_code := (case fv_completion v of None \<Rightarrow> sr_failure_code r | Some (_, c) \<Rightarrow> c),
     sr_updated_at := fv_updated_at v\<rparr>"

definition put_workflow_runs :: "workflow_run list \<Rightarrow> db \<Rightarrow> db" where
  "put_workflow_runs rows d = d\<lparr>workflow_runs := rows\<rparr>"

definition put_step_runs :: "workflow_step_run list \<Rightarrow> db \<Rightarrow> db" where
  "put_step_runs rows d = d\<lparr>workflow_step_runs := rows\<rparr>"

definition workflow_in_state :: "uuid \<Rightarrow> uuid \<Rightarrow> uuid \<Rightarrow> pystr \<Rightarrow> workflow_run \<Rightarrow> bool" where
  "workflow_in_state tenant_id workspace_id run_id expected r =
     (scoped_workflow_run tenant_id workspace_id run_id r \<and> wr_status r = expected)"

definition step_in_state :: "uuid \<Rightarrow> uuid \<Rightarrow> pystr \<Rightarrow> workflow_step_run \<Rightarrow> bool" where
  "step_in_state run_id step_run_id expected r =
     (sr_workflow_run_id r = run_id \<and> sr_id r = step_run_id \<and> sr_status r = expected)"

definition workflow_transition_run ::
  "uuid \<Rightarrow> uuid \<Rightarrow> uuid \<Rightarrow> pystr \<Rightarrow> flow_values \<Rightarrow> workflow_run option prog" where
  "workflow_transition_run tenant_id workspace_id run_id expected values =
     compare_set workflow_runs put_workflow_runs (workflow_in_state tenant_id workspace_id run_id expected)
       (\<lambda>_. apply_to_workflow_run values)"

definition transition_step_run ::
  "uuid \<Rightarrow> uuid \<Rightarrow> pystr \<Rightarrow> flow_values \<Rightarrow> workflow_step_run option prog" where
  "transition_step_run run_id step_run_id expected values =
     compare_set workflow_step_runs put_step_runs (step_in_state run_id step_run_id expected)
       (\<lambda>_. apply_to_step_run values)"

definition pending_rows :: "uuid \<Rightarrow> uuid \<Rightarrow> db \<Rightarrow> workflow_step_run list" where
  "pending_rows run_id completed_step_id d = sort_key sr_workflow_step_id
     [r. r \<leftarrow> workflow_step_runs d, e \<leftarrow> step_dependencies d,
        sd_workflow_step_id e = sr_workflow_step_id r \<and> sr_workflow_run_id r = run_id \<and>
        sr_status r = ''PENDING'' \<and> sd_depends_on_step_id e = completed_step_id]"

definition pending_dependents :: "uuid \<Rightarrow> uuid \<Rightarrow> workflow_step_run list prog" where
  "pending_dependents run_id completed_step_id = query (pending_rows run_id completed_step_id)"

definition incomplete_dependencies :: "uuid \<Rightarrow> uuid \<Rightarrow> db \<Rightarrow> (step_dependency \<times> workflow_step_run) list" where
  "incomplete_dependencies run_id step_id d =
     [(e, r). e \<leftarrow> step_dependencies d, r \<leftarrow> workflow_step_runs d,
        sr_workflow_run_id r = run_id \<and> sr_workflow_step_id r = sd_depends_on_step_id e \<and>
        sd_workflow_step_id e = step_id \<and> sr_status r \<noteq> ''COMPLETED'']"

definition incomplete_dependency_count :: "uuid \<Rightarrow> uuid \<Rightarrow> nat prog" where
  "incomplete_dependency_count run_id step_id =
     query (\<lambda>d. length (incomplete_dependencies run_id step_id d))"

definition repository_link_agent_run :: "uuid \<Rightarrow> uuid \<Rightarrow> workflow_step_run option prog" where
  "repository_link_agent_run step_run_id agent_run_id =
     compare_set workflow_step_runs put_step_runs
       (\<lambda>r. sr_id r = step_run_id \<and> sr_agent_run_id r = None)
       (\<lambda>now r. r\<lparr>sr_agent_run_id := Some agent_run_id, sr_updated_at := now\<rparr>)"

definition handoff_for_destination :: "uuid \<Rightarrow> uuid \<Rightarrow> step_handoff option prog" where
  "handoff_for_destination run_id destination_step_run_id =
     select_one step_handoffs (\<lambda>r. ho_workflow_run_id r = run_id \<and>
       ho_destination_step_run_id r = destination_step_run_id)"

definition add_handoff :: "(uuid \<Rightarrow> step_handoff) \<Rightarrow> step_handoff prog" where
  "add_handoff handoff = bnd uuid4 (\<lambda>u. exec_stmt (\<lambda>now d.
     (handoff u, d\<lparr>step_handoffs := step_handoffs d @ [handoff u]\<rparr>)))"

section \<open>Plans\<close>

definition workflow_task_scope :: "uuid \<Rightarrow> uuid \<Rightarrow> uuid \<Rightarrow> uuid prog" where
  "workflow_task_scope tenant_id workspace_id task_id =
     bnd (get_task_scope tenant_id workspace_id task_id) (\<lambda>scope.
     bnd (require not_found scope) (\<lambda>(project_id, _). ret project_id))"

text \<open>\<open>sorted(..., key=str)\<close> of the set of assigned definitions.\<close>

definition validate_assignments :: "uuid \<Rightarrow> uuid \<Rightarrow> plan_create \<Rightarrow> unit prog" where
  "validate_assignments tenant_id workspace_id data =
     for_each (sort_key uuid_str (remdups (List.map_filter sc_agent_definition_id (pl_steps data))))
       (\<lambda>definition_id. bnd (repository_get_definition tenant_id workspace_id definition_id)
          (\<lambda>row. only_if (row = None) (throw not_found)))"

definition step_row :: "uuid \<Rightarrow> instant \<Rightarrow> nat \<times> step_create \<times> uuid \<Rightarrow> workflow_step" where
  "step_row plan_id now = (\<lambda>(position, item, u).
     \<lparr>wt_id = u, wt_workflow_plan_id = plan_id, wt_step_key = sc_step_key item,
      wt_title = sc_title item, wt_step_type = workflow_step_type_value (sc_step_type item),
      wt_assigned_capability = sc_assigned_capability item,
      wt_agent_definition_id = sc_agent_definition_id item, wt_position = position,
      wt_risk_level = map_option risk_value (sc_risk_level item), wt_created_at = now\<rparr>)"

definition insert_plan ::
  "uuid \<Rightarrow> uuid \<Rightarrow> uuid \<Rightarrow> uuid \<Rightarrow> int \<Rightarrow> pystr option \<Rightarrow> plan_create \<Rightarrow> workflow_plan prog" where
  "insert_plan tenant_id workspace_id task_id project_id version change_reason data =
     bnd uuid4 (\<lambda>u. exec_stmt (\<lambda>now d.
       let r = \<lparr>wp_id = u, wp_tenant_id = tenant_id, wp_workspace_id = workspace_id,
          wp_project_id = project_id, wp_task_id = task_id, wp_version = version,
          wp_title = pl_title data, wp_summary = pl_summary data,
          wp_change_reason = change_reason, wp_created_at = now\<rparr>
       in (r, d\<lparr>workflow_plans := workflow_plans d @ [r]\<rparr>)))"

definition insert_steps :: "uuid \<Rightarrow> step_create list \<Rightarrow> workflow_step list prog" where
  "insert_steps plan_id items =
     bnd (collect items (\<lambda>_. uuid4)) (\<lambda>us. exec_stmt (\<lambda>now d.
       let rows = map (step_row plan_id now) (zip [0..<length items] (zip items us))
       in (rows, d\<lparr>workflow_steps := workflow_steps d @ rows\<rparr>)))"

text \<open>\<open>by_key\<close>: the identifier of the (last) step stored under a key.\<close>

definition by_key :: "workflow_step list \<Rightarrow> pystr \<Rightarrow> uuid option" where
  "by_key rows = map_of (rev (map (\<lambda>r. (wt_step_key r, wt_id r)) rows))"

definition dependency_rows ::
  "uuid \<Rightarrow> workflow_step list \<Rightarrow> step_create list \<Rightarrow> exn + step_dependency list" where
  "dependency_rows plan_id rows items =
    (let edges = concat (map (\<lambda>i. map (\<lambda>k. (sc_step_key i, k)) (sort (sc_depends_on i))) items) in
     case those (map (\<lambda>(k, dep). case (by_key rows k, by_key rows dep) of
         (Some a, Some b) \<Rightarrow> Some \<lparr>sd_workflow_plan_id = plan_id, sd_workflow_step_id = a,
            sd_depends_on_step_id = b\<rparr>
       | _ \<Rightarrow> None) edges) of
       None \<Rightarrow> Inl (PythonError ''KeyError'') | Some es \<Rightarrow> Inr es)"

definition insert_dependencies :: "step_dependency list \<Rightarrow> unit prog" where
  "insert_dependencies es =
    (if es = [] then ret ()
     else exec_stmt (\<lambda>now d. ((), d\<lparr>step_dependencies := step_dependencies d @ es\<rparr>)))"

definition plan_audit ::
  "uuid \<Rightarrow> uuid \<Rightarrow> uuid \<Rightarrow> uuid \<Rightarrow> pystr \<Rightarrow> workflow_plan \<Rightarrow> audit_create" where
  "plan_audit tenant_id workspace_id project_id task_id action plan =
     (audit_fields tenant_id workspace_id action ''service'' ''success'')
     \<lparr>ac_project_id := Some project_id, ac_task_id := Some task_id,
      ac_resource_type := Some ''task'', ac_resource_id := Some task_id,
      ac_metadata := Some (PDict [(PStr ''workflow_plan_id'', PStr (uuid_str (wp_id plan))),
        (PStr ''plan_version'', PInt (wp_version plan))])\<rparr>"

text \<open>
  The dependency rows are pending when \<open>append_record\<close> is called: its first query flushes them,
  so a failure of that flush is one of \<open>append_record\<close>.
\<close>

definition workflow_create_plan_rows ::
  "uuid \<Rightarrow> uuid \<Rightarrow> uuid \<Rightarrow> uuid \<Rightarrow> int \<Rightarrow> pystr option \<Rightarrow> plan_create \<Rightarrow> pystr \<Rightarrow> workflow_plan prog"
where
  "workflow_create_plan_rows tenant_id workspace_id task_id project_id version change_reason data audit_action =
     bnd (lift_sum (validate_graph data)) (\<lambda>_.
     andthen (validate_assignments tenant_id workspace_id data)
     (bnd (insert_plan tenant_id workspace_id task_id project_id version change_reason data) (\<lambda>plan.
      bnd (insert_steps (wp_id plan) (pl_steps data)) (\<lambda>rows.
      bnd (lift_sum (dependency_rows (wp_id plan) rows (pl_steps data))) (\<lambda>edges.
      andthen (transaction audit_persistence_failed (insert_dependencies edges))
     (andthen (join_audit (plan_audit tenant_id workspace_id project_id task_id audit_action plan))
     (andthen commit (refresh workflow_plans wp_id plan))))))))"

definition workflow_plan_conflict :: "pystr \<Rightarrow> exn" where
  "workflow_plan_conflict message = ApplicationError ''workflow_plan_conflict'' message 409"

definition workflow_create_plan :: "uuid \<Rightarrow> uuid \<Rightarrow> uuid \<Rightarrow> plan_create \<Rightarrow> workflow_plan prog" where
  "workflow_create_plan tenant_id workspace_id task_id data =
     bnd (workflow_task_scope tenant_id workspace_id task_id) (\<lambda>project_id.
     bnd (latest_plan tenant_id workspace_id task_id) (\<lambda>latest.
     andthen (only_if (latest \<noteq> None)
       (throw (ApplicationError ''workflow_plan_exists'' ''Create a new explicit plan version'' 409)))
     (on_integrity_error (workflow_plan_conflict ''Workflow plan creation conflicted'')
       (workflow_create_plan_rows tenant_id workspace_id task_id project_id 1 None data
          ''workflow.plan.created''))))"

definition workflow_create_version ::
  "uuid \<Rightarrow> uuid \<Rightarrow> uuid \<Rightarrow> uuid \<Rightarrow> plan_create \<Rightarrow> pystr \<Rightarrow> workflow_plan prog" where
  "workflow_create_version tenant_id workspace_id task_id plan_id data change_reason =
     bnd (workflow_task_scope tenant_id workspace_id task_id) (\<lambda>project_id.
     bnd (repository_get_plan tenant_id workspace_id plan_id (Some task_id)) (\<lambda>source.
     andthen (only_if (source = None) (throw not_found))
     (bnd (latest_plan tenant_id workspace_id task_id) (\<lambda>found.
     bnd (require not_found found) (\<lambda>latest.
     on_integrity_error (workflow_plan_conflict ''Workflow plan version creation conflicted'')
       (workflow_create_plan_rows tenant_id workspace_id task_id project_id (wp_version latest + 1)
          (Some change_reason) data ''workflow.plan.versioned''))))))"

definition workflow_get_plan :: "uuid \<Rightarrow> uuid \<Rightarrow> uuid \<Rightarrow> workflow_plan prog" where
  "workflow_get_plan tenant_id workspace_id plan_id =
     bnd (repository_get_plan tenant_id workspace_id plan_id None) (require not_found)"

definition workflow_list_plans ::
  "uuid \<Rightarrow> uuid \<Rightarrow> uuid \<Rightarrow> nat \<Rightarrow> nat \<Rightarrow> workflow_plan list prog" where
  "workflow_list_plans tenant_id workspace_id task_id limit offset =
     bnd (workflow_task_scope tenant_id workspace_id task_id) (\<lambda>_.
     repository_list_plans tenant_id workspace_id task_id limit offset)"

definition plan_graph :: "workflow_plan \<Rightarrow> (workflow_step list \<times> step_dependency list) prog" where
  "plan_graph plan = bnd (steps_for_plan (wp_id plan)) (\<lambda>ss.
     bnd (dependencies_for_plan (wp_id plan)) (\<lambda>es. ret (ss, es)))"

section \<open>Runs\<close>

text \<open>The stored graph written back as a plan; \<open>keys[...]\<close> of an unknown step is a \<open>KeyError\<close>.\<close>

definition step_key_of :: "workflow_step list \<Rightarrow> uuid \<Rightarrow> pystr option" where
  "step_key_of ss = map_of (rev (map (\<lambda>s. (wt_id s, wt_step_key s)) ss))"

definition rebuilt_step :: "workflow_step list \<Rightarrow> step_dependency list \<Rightarrow> workflow_step \<Rightarrow> raw_step option" where
  "rebuilt_step ss es s =
     map_option (\<lambda>deps. \<lparr>rs_step_key = wt_step_key s, rs_title = wt_title s,
         rs_step_type = wt_step_type s, rs_assigned_capability = wt_assigned_capability s,
         rs_agent_definition_id = wt_agent_definition_id s, rs_risk_level = wt_risk_level s,
         rs_depends_on = deps\<rparr>)
       (those (map (\<lambda>e. step_key_of ss (sd_depends_on_step_id e))
         (filter (\<lambda>e. sd_workflow_step_id e = wt_id s) es)))"

definition rebuild_spec ::
  "workflow_plan \<Rightarrow> workflow_step list \<Rightarrow> step_dependency list \<Rightarrow> exn + plan_create" where
  "rebuild_spec plan ss es =
    (case those (map (rebuilt_step ss es) ss) of
       None \<Rightarrow> Inl (PythonError ''KeyError'')
     | Some rs \<Rightarrow>
        (case WorkflowPlanCreate \<lparr>rp_title = wp_title plan, rp_summary = wp_summary plan, rp_steps = rs\<rparr> of
           None \<Rightarrow> Inl ValidationError | Some spec \<Rightarrow> Inr spec))"

definition insert_workflow_run ::
  "uuid \<Rightarrow> uuid \<Rightarrow> workflow_plan \<Rightarrow> pystr option \<Rightarrow> workflow_run prog" where
  "insert_workflow_run tenant_id workspace_id plan corr =
     bnd uuid4 (\<lambda>u. exec_stmt (\<lambda>now d.
       let r = \<lparr>wr_id = u, wr_tenant_id = tenant_id, wr_workspace_id = workspace_id,
          wr_project_id = wp_project_id plan, wr_task_id = wp_task_id plan,
          wr_workflow_plan_id = wp_id plan, wr_plan_version = wp_version plan,
          wr_status = workflow_run_status_value RUN_CREATED, wr_correlation_id = corr,
          wr_failure_code = None, wr_started_at = None, wr_completed_at = None,
          wr_created_at = now, wr_updated_at = now\<rparr>
       in (r, put_workflow_runs (workflow_runs d @ [r]) d)))"

definition step_run_row ::
  "uuid \<Rightarrow> uuid \<Rightarrow> uuid list \<Rightarrow> instant \<Rightarrow> workflow_step \<times> uuid \<Rightarrow> workflow_step_run" where
  "step_run_row run_id plan_id dependent_ids now = (\<lambda>(s, u).
     \<lparr>sr_id = u, sr_workflow_run_id = run_id, sr_workflow_plan_id = plan_id,
      sr_workflow_step_id = wt_id s, sr_agent_run_id = None,
      sr_status = step_run_status_value (if wt_id s \<in> set dependent_ids then PENDING else READY),
      sr_failure_code = None, sr_started_at = None, sr_completed_at = None,
      sr_created_at = now, sr_updated_at = now\<rparr>)"

definition insert_step_runs ::
  "uuid \<Rightarrow> uuid \<Rightarrow> uuid list \<Rightarrow> workflow_step list \<Rightarrow> unit prog" where
  "insert_step_runs run_id plan_id dependent_ids ss =
     bnd (collect ss (\<lambda>_. uuid4)) (\<lambda>us. exec_stmt (\<lambda>now d.
       ((), put_step_runs (workflow_step_runs d @
              map (step_run_row run_id plan_id dependent_ids now) (zip ss us)) d)))"

definition workflow_create_run :: "uuid \<Rightarrow> uuid \<Rightarrow> uuid \<Rightarrow> workflow_run prog" where
  "workflow_create_run tenant_id workspace_id plan_id =
     bnd (workflow_get_plan tenant_id workspace_id plan_id) (\<lambda>plan.
     bnd (plan_graph plan) (\<lambda>(ss, es).
     andthen (only_if (ss = []) (throw (invalid_graph ''Workflow plan must contain at least one step'')))
     (bnd (lift_sum (rebuild_spec plan ss es)) (\<lambda>spec.
      bnd (lift_sum (validate_graph spec)) (\<lambda>_.
      bnd get_correlation_id (\<lambda>corr.
      bnd (insert_workflow_run tenant_id workspace_id plan corr) (\<lambda>run.
      andthen (insert_step_runs (wr_id run) (wp_id plan) (map sd_workflow_step_id es) ss)
     (andthen commit (refresh workflow_runs wr_id run)))))))))"

definition workflow_get_run :: "uuid \<Rightarrow> uuid \<Rightarrow> uuid \<Rightarrow> workflow_run prog" where
  "workflow_get_run tenant_id workspace_id run_id =
     bnd (workflow_repository_get_run tenant_id workspace_id run_id) (require not_found)"

definition workflow_list_runs ::
  "uuid \<Rightarrow> uuid \<Rightarrow> nat \<Rightarrow> nat \<Rightarrow> workflow_run_status option \<Rightarrow> workflow_run list prog" where
  "workflow_list_runs tenant_id workspace_id limit offset status =
     andthen (require_workspace tenant_id workspace_id)
     (workflow_repository_list_runs tenant_id workspace_id limit offset
        (map_option workflow_run_status_value status))"

definition workflow_run_invalid_transition :: exn where
  "workflow_run_invalid_transition =
     ApplicationError ''workflow_run_invalid_transition'' ''Workflow run state transition is invalid'' 409"

definition workflow_values :: "workflow_run_status \<Rightarrow> pystr option \<Rightarrow> instant \<Rightarrow> flow_values" where
  "workflow_values target failure_code now =
    (let values = \<lparr>fv_status = workflow_run_status_value target, fv_updated_at = now,
           fv_started_at = None, fv_completion = None\<rparr> in
     if target = RUN_RUNNING then values\<lparr>fv_started_at := Some now\<rparr>
     else values\<lparr>fv_completion := Some (now, failure_code)\<rparr>)"

definition workflow_transition ::
  "uuid \<Rightarrow> uuid \<Rightarrow> uuid \<Rightarrow> workflow_run_status \<Rightarrow> workflow_run_status \<Rightarrow> pystr option \<Rightarrow> workflow_run prog"
where
  "workflow_transition tenant_id workspace_id run_id expected target failure_code =
     bnd (workflow_get_run tenant_id workspace_id run_id) (\<lambda>_.
     bnd now_utc (\<lambda>now.
     bnd (workflow_transition_run tenant_id workspace_id run_id (workflow_run_status_value expected)
            (workflow_values target failure_code now)) (\<lambda>row.
     bnd (require workflow_run_invalid_transition row) (\<lambda>updated.
     andthen commit (ret updated)))))"

definition workflow_start_run :: "uuid \<Rightarrow> uuid \<Rightarrow> uuid \<Rightarrow> workflow_run prog" where
  "workflow_start_run t w i = workflow_transition t w i RUN_CREATED RUN_RUNNING None"

definition workflow_complete_run :: "uuid \<Rightarrow> uuid \<Rightarrow> uuid \<Rightarrow> workflow_run prog" where
  "workflow_complete_run t w i = workflow_transition t w i RUN_RUNNING RUN_COMPLETED None"

definition workflow_fail_run :: "uuid \<Rightarrow> uuid \<Rightarrow> uuid \<Rightarrow> pystr \<Rightarrow> workflow_run prog" where
  "workflow_fail_run t w i failure_code =
    (if \<not> fullmatch TYPE_IDENTIFIER failure_code
     then throw (ApplicationError ''workflow_run_invalid_failure'' ''Failure code is invalid'' 422)
     else workflow_transition t w i RUN_RUNNING RUN_FAILED (Some failure_code))"

text \<open>\<open>WorkflowRunStatus(run.status)\<close> of a stored status that is none raises \<open>ValueError\<close>.\<close>

definition parse_run_status :: "pystr \<Rightarrow> workflow_run_status option" where
  "parse_run_status v = find (\<lambda>t. workflow_run_status_value t = v)
     [RUN_CREATED, RUN_RUNNING, RUN_COMPLETED, RUN_FAILED, RUN_CANCELLED]"

definition workflow_cancel_run :: "uuid \<Rightarrow> uuid \<Rightarrow> uuid \<Rightarrow> workflow_run prog" where
  "workflow_cancel_run t w i =
     bnd (workflow_get_run t w i) (\<lambda>run.
     bnd (require (PythonError ''ValueError'') (parse_run_status (wr_status run))) (\<lambda>expected.
     andthen (only_if (expected \<notin> {RUN_CREATED, RUN_RUNNING}) (throw workflow_run_invalid_transition))
     (workflow_transition t w i expected RUN_CANCELLED None)))"

section \<open>Steps of a run\<close>

definition step_edges :: "(step_run_status \<times> step_run_status) list" where
  "step_edges = [(READY, STEP_RUNNING), (STEP_RUNNING, STEP_WAITING), (STEP_WAITING, STEP_RUNNING),
     (STEP_WAITING, STEP_FAILED), (STEP_WAITING, STEP_CANCELLED), (STEP_RUNNING, STEP_COMPLETED),
     (STEP_RUNNING, STEP_FAILED), (PENDING, STEP_CANCELLED), (READY, STEP_CANCELLED),
     (STEP_RUNNING, STEP_CANCELLED)]"

definition workflow_step_invalid_transition :: exn where
  "workflow_step_invalid_transition =
     ApplicationError ''workflow_step_invalid_transition'' ''Workflow step state transition is invalid'' 409"

definition step_values ::
  "step_run_status \<Rightarrow> step_run_status \<Rightarrow> pystr option \<Rightarrow> instant \<Rightarrow> flow_values" where
  "step_values expected target failure_code now =
    (let values = \<lparr>fv_status = step_run_status_value target, fv_updated_at = now,
           fv_started_at = None, fv_completion = None\<rparr> in
     if target = STEP_RUNNING \<and> expected = READY then values\<lparr>fv_started_at := Some now\<rparr>
     else if target \<in> {STEP_COMPLETED, STEP_FAILED, STEP_CANCELLED}
     then values\<lparr>fv_completion := Some (now, failure_code)\<rparr>
     else values)"

definition ready_values :: "instant \<Rightarrow> flow_values" where
  "ready_values now = \<lparr>fv_status = step_run_status_value READY, fv_updated_at = now,
     fv_started_at = None, fv_completion = None\<rparr>"

definition wake_dependents :: "uuid \<Rightarrow> instant \<Rightarrow> workflow_step_run list \<Rightarrow> unit prog" where
  "wake_dependents run_id now dependents = for_each dependents (\<lambda>dependent.
     bnd (incomplete_dependency_count run_id (sr_workflow_step_id dependent)) (\<lambda>open_count.
     only_if (open_count = 0)
       (bnd (transition_step_run run_id (sr_id dependent) (step_run_status_value PENDING)
              (ready_values now)) (\<lambda>_. ret ()))))"

definition workflow_transition_step ::
  "uuid \<Rightarrow> uuid \<Rightarrow> uuid \<Rightarrow> uuid \<Rightarrow> step_run_status \<Rightarrow> step_run_status \<Rightarrow> pystr option \<Rightarrow>
     workflow_step_run prog" where
  "workflow_transition_step tenant_id workspace_id run_id step_run_id expected target failure_code =
     bnd (workflow_get_run tenant_id workspace_id run_id) (\<lambda>_.
     andthen (only_if ((expected, target) \<notin> set step_edges) (throw workflow_step_invalid_transition))
    (andthen (only_if (target = STEP_FAILED \<and>
          (case failure_code of None \<Rightarrow> True | Some c \<Rightarrow> \<not> fullmatch TYPE_IDENTIFIER c))
        (throw (ApplicationError ''workflow_step_invalid_failure'' ''Failure code is invalid'' 422)))
     (bnd now_utc (\<lambda>now.
      bnd (transition_step_run run_id step_run_id (step_run_status_value expected)
             (step_values expected target failure_code now)) (\<lambda>row.
      bnd (require workflow_step_invalid_transition row) (\<lambda>updated.
      andthen (only_if (target = STEP_COMPLETED)
        (bnd (pending_dependents run_id (sr_workflow_step_id updated)) (wake_dependents run_id now)))
     (andthen commit (ret updated))))))))"

definition workflow_link_agent_run ::
  "uuid \<Rightarrow> uuid \<Rightarrow> uuid \<Rightarrow> uuid \<Rightarrow> uuid \<Rightarrow> workflow_step_run prog" where
  "workflow_link_agent_run tenant_id workspace_id run_id step_run_id agent_run_id =
     bnd (workflow_get_run tenant_id workspace_id run_id) (\<lambda>run.
     bnd (repository_get_step_run run_id step_run_id) (\<lambda>step_run.
     bnd (agent_repository_get_run tenant_id workspace_id agent_run_id) (\<lambda>found.
     case found of
       None \<Rightarrow> throw not_found
     | Some agent_run \<Rightarrow>
        andthen (only_if (step_run = None \<or> (ar_project_id agent_run, ar_task_id agent_run) \<noteq>
            (Some (wr_project_id run), Some (wr_task_id run))) (throw not_found))
       (bnd (repository_link_agent_run step_run_id agent_run_id) (\<lambda>row.
        bnd (require (ApplicationError ''workflow_step_agent_link_conflict''
               ''Workflow step Agent Run link conflicted'' 409) row) (\<lambda>linked.
        andthen commit (ret linked)))))))"

section \<open>Effects on the data\<close>

text \<open>The moves of runs and of step runs the service asks for.\<close>

definition run_edges :: "(workflow_run_status \<times> workflow_run_status) set" where
  "run_edges = {(RUN_CREATED, RUN_RUNNING), (RUN_RUNNING, RUN_COMPLETED), (RUN_RUNNING, RUN_FAILED),
     (RUN_CREATED, RUN_CANCELLED), (RUN_RUNNING, RUN_CANCELLED)}"

definition move_workflow_run ::
  "uuid \<Rightarrow> uuid \<Rightarrow> uuid \<Rightarrow> workflow_run_status \<Rightarrow> workflow_run_status \<Rightarrow> pystr option \<Rightarrow> instant \<Rightarrow> db \<Rightarrow> db"
where
  "move_workflow_run t w i expected target fc now d =
     put_workflow_runs (update_where (workflow_in_state t w i (workflow_run_status_value expected))
       (apply_to_workflow_run (workflow_values target fc now)) (workflow_runs d)) d"

definition move_step_run ::
  "uuid \<Rightarrow> uuid \<Rightarrow> step_run_status \<Rightarrow> flow_values \<Rightarrow> db \<Rightarrow> db" where
  "move_step_run run_id step_run_id expected v d =
     put_step_runs (update_where (step_in_state run_id step_run_id (step_run_status_value expected))
       (apply_to_step_run v) (workflow_step_runs d)) d"

definition link_step_run :: "uuid \<Rightarrow> uuid \<Rightarrow> instant \<Rightarrow> db \<Rightarrow> db" where
  "link_step_run step_run_id agent_run_id now d =
     put_step_runs (update_where (\<lambda>r. sr_id r = step_run_id \<and> sr_agent_run_id r = None)
       (\<lambda>r. r\<lparr>sr_agent_run_id := Some agent_run_id, sr_updated_at := now\<rparr>) (workflow_step_runs d)) d"

definition add_plan :: "workflow_plan \<Rightarrow> db \<Rightarrow> db" where
  "add_plan r d = d\<lparr>workflow_plans := workflow_plans d @ [r]\<rparr>"

definition add_steps :: "workflow_step list \<Rightarrow> db \<Rightarrow> db" where
  "add_steps rs d = d\<lparr>workflow_steps := workflow_steps d @ rs\<rparr>"

definition add_dependencies :: "step_dependency list \<Rightarrow> db \<Rightarrow> db" where
  "add_dependencies es d = d\<lparr>step_dependencies := step_dependencies d @ es\<rparr>"

definition add_workflow_run :: "workflow_run \<Rightarrow> db \<Rightarrow> db" where
  "add_workflow_run r d = put_workflow_runs (workflow_runs d @ [r]) d"

definition add_step_runs :: "workflow_step_run list \<Rightarrow> db \<Rightarrow> db" where
  "add_step_runs rs d = put_step_runs (workflow_step_runs d @ rs) d"

lemma reads_workflows:
  "reads (get_task_scope t w k)" "reads (workflow_task_scope t w k)" "reads (latest_plan t w k)"
  "reads (repository_get_plan t w i ot)" "reads (workflow_get_plan t w i)" "reads (plan_graph p)"
  "reads (workflow_get_run t w i)" "reads (pending_dependents i k)"
  "reads (incomplete_dependency_count i k)" "reads (repository_get_step_run i j)"
  by (auto simp: get_task_scope_def workflow_task_scope_def latest_plan_def repository_get_plan_def
      workflow_get_plan_def plan_graph_def steps_for_plan_def dependencies_for_plan_def
      workflow_get_run_def workflow_repository_get_run_def pending_dependents_def
      incomplete_dependency_count_def repository_get_step_run_def
      intro!: reads_rules reads_scopes split: prod.splits)

lemma reads_for_each: "(\<And>x. reads (f x)) \<Longrightarrow> reads (for_each xs f)"
  by (induction xs) (simp_all add: reads_rules)

lemma reads_validate_assignments: "reads (validate_assignments t w data)"
  unfolding validate_assignments_def repository_get_definition_def
  by (intro reads_for_each reads_rules reads_scopes)

context stmt_order
begin

lemma steps_workflow_reads:
  "steps R (get_task_scope t w k)" "steps R (workflow_task_scope t w k)"
  "steps R (latest_plan t w k)" "steps R (repository_get_plan t w i ot)"
  "steps R (workflow_get_plan t w i)" "steps R (workflow_list_plans t w k l m)"
  "steps R (plan_graph p)" "steps R (workflow_get_run t w i)" "steps R (workflow_list_runs t w l m st)"
  "steps R (pending_dependents i k)" "steps R (incomplete_dependency_count i k)"
  "steps R (repository_get_step_run i j)" "steps R (validate_assignments t w data)"
  by (auto simp: get_task_scope_def workflow_task_scope_def latest_plan_def repository_get_plan_def
      workflow_get_plan_def workflow_list_plans_def repository_list_plans_def plan_graph_def
      steps_for_plan_def dependencies_for_plan_def workflow_get_run_def workflow_repository_get_run_def
      workflow_list_runs_def workflow_repository_list_runs_def pending_dependents_def
      incomplete_dependency_count_def repository_get_step_run_def validate_assignments_def
      repository_get_definition_def
      intro!: steps_rules stmt_rules steps_scopes split: prod.splits)

lemma steps_insert_plan:
  "(\<And>d r. W d (add_plan r d)) \<Longrightarrow> steps R (insert_plan t w k p v cr data)"
  unfolding insert_plan_def add_plan_def Let_def by (intro steps_rules stmt_rules steps_exec) simp

lemma steps_insert_steps:
  "(\<And>d rs. W d (add_steps rs d)) \<Longrightarrow> steps R (insert_steps i items)"
  unfolding insert_steps_def add_steps_def Let_def by (intro steps_rules stmt_rules steps_exec) simp

lemma steps_insert_dependencies:
  "(\<And>d. W d (add_dependencies es d)) \<Longrightarrow> steps R (insert_dependencies es)"
  unfolding insert_dependencies_def add_dependencies_def by (intro steps_rules steps_exec) simp

lemma steps_insert_workflow_run:
  "(\<And>d r. W d (add_workflow_run r d)) \<Longrightarrow> steps R (insert_workflow_run t w p corr)"
  unfolding insert_workflow_run_def add_workflow_run_def Let_def
  by (intro steps_rules stmt_rules steps_exec) simp

lemma steps_insert_step_runs:
  "(\<And>d rs. W d (add_step_runs rs d)) \<Longrightarrow> steps R (insert_step_runs i p deps ss)"
  unfolding insert_step_runs_def add_step_runs_def by (intro steps_rules stmt_rules steps_exec) simp

lemma steps_workflow_transition_run:
  "(\<And>d. W d (move_workflow_run t w i expected target fc now d)) \<Longrightarrow>
   steps R (workflow_transition_run t w i (workflow_run_status_value expected) (workflow_values target fc now))"
  unfolding workflow_transition_run_def move_workflow_run_def by (rule steps_compare_set)

lemma steps_transition_step_run:
  "(\<And>d. W d (move_step_run i j expected v d)) \<Longrightarrow>
   steps R (transition_step_run i j (step_run_status_value expected) v)"
  unfolding transition_step_run_def move_step_run_def by (rule steps_compare_set)

lemma steps_wake_dependents:
  "(\<And>j d. W d (move_step_run i j PENDING (ready_values now) d)) \<Longrightarrow> steps R (wake_dependents i now rs)"
  unfolding wake_dependents_def
  by (intro steps_rules steps_workflow_reads steps_transition_step_run)

lemma steps_repository_link_agent_run:
  "(\<And>now d. W d (link_step_run j a now d)) \<Longrightarrow> steps R (repository_link_agent_run j a)"
  unfolding repository_link_agent_run_def link_step_run_def by (rule steps_compare_set)

end

context store_order
begin

lemma steps_workflow_plans:
  assumes "\<And>d r. W d (d\<lparr>audit_records := audit_records d @ [r]\<rparr>)"
    and "\<And>d r. W d (add_plan r d)" and "\<And>d rs. W d (add_steps rs d)"
    and "\<And>d es. W d (add_dependencies es d)"
  shows "steps R (workflow_create_plan t w k data)" "steps R (workflow_create_version t w k i data cr)"
  unfolding workflow_create_plan_def workflow_create_version_def workflow_create_plan_rows_def
  by (intro steps_rules store_rules steps_workflow_reads steps_join_audit steps_insert_plan
      steps_insert_steps steps_insert_dependencies steps_lift_sum assms)+

lemma steps_workflow_create_run:
  assumes "\<And>d r. W d (add_workflow_run r d)" and "\<And>d rs. W d (add_step_runs rs d)"
  shows "steps R (workflow_create_run t w i)"
  unfolding workflow_create_run_def
  by (auto intro!: steps_rules store_rules steps_workflow_reads steps_insert_workflow_run
      steps_insert_step_runs steps_lift_sum assms split: prod.splits)

lemma steps_workflow_transition:
  assumes "\<And>now d. W d (move_workflow_run t w i expected target fc now d)"
  shows "steps R (workflow_transition t w i expected target fc)"
  unfolding workflow_transition_def
  by (intro steps_rules store_rules steps_workflow_reads steps_workflow_transition_run assms)

lemma steps_workflow_moves:
  assumes "\<And>expected target fc now d. (expected, target) \<in> run_edges \<Longrightarrow>
      W d (move_workflow_run t w i expected target fc now d)"
  shows "steps R (workflow_start_run t w i)" "steps R (workflow_complete_run t w i)"
    "steps R (workflow_fail_run t w i code)"
  unfolding workflow_start_run_def workflow_complete_run_def workflow_fail_run_def
  by (intro steps_rules steps_workflow_transition assms; simp add: run_edges_def)+

lemma steps_workflow_cancel_run:
  assumes "\<And>expected target fc now d. (expected, target) \<in> run_edges \<Longrightarrow>
      W d (move_workflow_run t w i expected target fc now d)"
  shows "steps R (workflow_cancel_run t w i)"
proof -
  have *: "steps R (andthen (only_if (x \<notin> {RUN_CREATED, RUN_RUNNING}) (throw workflow_run_invalid_transition))
      (workflow_transition t w i x RUN_CANCELLED None))" for x
    by (cases "x \<in> {RUN_CREATED, RUN_RUNNING}")
      (auto intro!: steps_rules steps_workflow_transition assms simp: run_edges_def)
  show ?thesis unfolding workflow_cancel_run_def
    by (intro * steps_bnd steps_require steps_workflow_reads)
qed

lemma steps_workflow_transition_step:
  assumes "\<And>now d. (expected, target) \<in> set step_edges \<Longrightarrow>
      W d (move_step_run i j expected (step_values expected target fc now) d)"
    and "\<And>now k d. W d (move_step_run i k PENDING (ready_values now) d)"
  shows "steps R (workflow_transition_step t w i j expected target fc)"
proof (cases "(expected, target) \<in> set step_edges")
  case True
  then show ?thesis unfolding workflow_transition_step_def
    by (intro steps_rules store_rules steps_workflow_reads steps_transition_step_run
        steps_wake_dependents assms)
next
  case False
  then show ?thesis unfolding workflow_transition_step_def
    by (simp) (intro steps_rules steps_workflow_reads)
qed

lemma steps_workflow_link_agent_run:
  assumes "\<And>now d. W d (link_step_run j a now d)"
  shows "steps R (workflow_link_agent_run t w i j a)"
  unfolding workflow_link_agent_run_def agent_repository_get_run_def
  by (intro steps_rules store_rules steps_workflow_reads steps_scopes
      steps_repository_link_agent_run assms)

end

section \<open>Lifecycles\<close>

lemma step_run_status_values [simp]:
  "step_run_status_value PENDING = ''PENDING''" "step_run_status_value READY = ''READY''"
  "step_run_status_value STEP_RUNNING = ''RUNNING''"
  "step_run_status_value STEP_WAITING = ''WAITING_FOR_APPROVAL''"
  "step_run_status_value STEP_COMPLETED = ''COMPLETED''"
  "step_run_status_value STEP_FAILED = ''FAILED''" "step_run_status_value STEP_CANCELLED = ''CANCELLED''"
  by (simp_all add: step_run_status_value_def)

lemma fv_status_values [simp]:
  "fv_status (step_values expected target fc now) = step_run_status_value target"
  "fv_status (ready_values now) = ''READY''"
  by (simp_all add: step_values_def ready_values_def Let_def)

lemma workflow_run_status_values [simp]:
  "workflow_run_status_value RUN_CREATED = ''CREATED''" "workflow_run_status_value RUN_RUNNING = ''RUNNING''"
  "workflow_run_status_value RUN_COMPLETED = ''COMPLETED''" "workflow_run_status_value RUN_FAILED = ''FAILED''"
  "workflow_run_status_value RUN_CANCELLED = ''CANCELLED''"
  by (simp_all add: workflow_run_status_value_def)

lemma status_value_inj:
  "workflow_run_status_value a = workflow_run_status_value b \<longleftrightarrow> a = b"
  "step_run_status_value c = step_run_status_value d \<longleftrightarrow> c = d"
  by (cases a; cases b; simp) (cases c; cases d; simp)

lemma apply_flow_fields [simp]:
  "wr_status (apply_to_workflow_run v r) = fv_status v" "wr_id (apply_to_workflow_run v r) = wr_id r"
  "wr_tenant_id (apply_to_workflow_run v r) = wr_tenant_id r"
  "wr_workspace_id (apply_to_workflow_run v r) = wr_workspace_id r"
  "sr_status (apply_to_step_run v q) = fv_status v" "sr_id (apply_to_step_run v q) = sr_id q"
  "sr_workflow_run_id (apply_to_step_run v q) = sr_workflow_run_id q"
  "sr_workflow_step_id (apply_to_step_run v q) = sr_workflow_step_id q"
  "fv_status (workflow_values rs fc now) = workflow_run_status_value rs"
  by (simp_all add: apply_to_workflow_run_def apply_to_step_run_def workflow_values_def Let_def)

inductive workflow_step_rel :: "workflow_run \<Rightarrow> workflow_run \<Rightarrow> bool" where
  "(expected, target) \<in> run_edges \<Longrightarrow> wr_status r = workflow_run_status_value expected \<Longrightarrow>
    workflow_step_rel r (apply_to_workflow_run (workflow_values target fc now) r)"

inductive step_run_rel :: "workflow_step_run \<Rightarrow> workflow_step_run \<Rightarrow> bool" where
  move: "(expected, target) \<in> set step_edges \<Longrightarrow> sr_status r = step_run_status_value expected \<Longrightarrow>
    step_run_rel r (apply_to_step_run (step_values expected target fc now) r)"
| wake: "sr_status r = ''PENDING'' \<Longrightarrow> step_run_rel r (apply_to_step_run (ready_values now) r)"

inductive_cases workflow_step_relE: "workflow_step_rel r s"
inductive_cases step_run_relE: "step_run_rel r s"

definition run_final :: "workflow_run \<Rightarrow> bool" where
  "run_final r = (wr_status r \<in> {''COMPLETED'', ''FAILED'', ''CANCELLED''})"

text \<open>
  The link of a step run to its agent run may still be set after the end; what is final is the
  outcome.
\<close>

definition step_outcome :: "workflow_step_run \<Rightarrow> uuid \<times> pystr \<times> pystr option \<times> instant option \<times> instant option" where
  "step_outcome r = (sr_id r, sr_status r, sr_failure_code r, sr_started_at r, sr_completed_at r)"

definition step_final :: "workflow_step_run \<Rightarrow> bool" where
  "step_final r = (sr_status r \<in> {''COMPLETED'', ''FAILED'', ''CANCELLED''})"

interpretation workflow_lifecycle: lifecycle workflow_step_rel workflow_runs run_final
  by unfold_locales (auto simp: run_final_def run_edges_def elim!: workflow_step_relE)

text \<open>Steps that race for the same state of one step run.\<close>

interpretation step_claims: guarded_update workflow_step_runs put_step_runs
  "\<lambda>_. step_in_state i j (step_run_status_value expected)" "\<lambda>v _. apply_to_step_run v"
  "\<lambda>v. fv_status v \<noteq> step_run_status_value expected"
  for i j expected
  by unfold_locales (auto simp: put_step_runs_def step_in_state_def)

lemma workflow_transition_guarded:
  "workflow_transition t w i expected target fc = guarded_transition (workflow_get_run t w i) workflow_runs
     put_workflow_runs (workflow_in_state t w i (workflow_run_status_value expected))
     (\<lambda>now. apply_to_workflow_run (workflow_values target fc now)) workflow_run_invalid_transition"
  by (simp add: workflow_transition_def guarded_transition_def workflow_transition_run_def)

lemma workflow_transition_look:
  "raises (\<lambda>e. e \<noteq> workflow_run_invalid_transition) (workflow_get_run t w i)"
  "workflow_run_invalid_transition \<noteq> SQLAlchemyError" "workflow_run_invalid_transition \<noteq> IntegrityError"
  unfolding workflow_get_run_def workflow_repository_get_run_def
  by (auto intro!: raises_rules raises_select_one simp: workflow_run_invalid_transition_def not_found_def)

lemma step_shape:
  "lifecycle_shape [''PENDING'', ''READY''] [''RUNNING'', ''WAITING_FOR_APPROVAL''] ''COMPLETED''
     (step_run_status_value v) st cp f \<longleftrightarrow>
   (case v of PENDING \<Rightarrow> st = None \<and> cp = None \<and> f = None
    | READY \<Rightarrow> st = None \<and> cp = None \<and> f = None
    | STEP_RUNNING \<Rightarrow> st \<noteq> None \<and> cp = None \<and> f = None
    | STEP_WAITING \<Rightarrow> st \<noteq> None \<and> cp = None \<and> f = None
    | STEP_COMPLETED \<Rightarrow> st \<noteq> None \<and> cp \<noteq> None \<and> f = None
    | STEP_FAILED \<Rightarrow> st \<noteq> None \<and> cp \<noteq> None \<and> f \<noteq> None
    | STEP_CANCELLED \<Rightarrow> cp \<noteq> None \<and> f = None)"
  by (cases v) (simp_all add: lifecycle_shape_def)

lemma step_status_known:
  "one_of [''PENDING'', ''READY'', ''RUNNING'', ''WAITING_FOR_APPROVAL'', ''COMPLETED'', ''FAILED'', ''CANCELLED'']
     (step_run_status_value v)"
  by (cases v) simp_all

section \<open>A small plan in progress\<close>

definition sample_step_row :: "uuid \<Rightarrow> pystr \<Rightarrow> nat \<Rightarrow> workflow_step" where
  "sample_step_row i key n = \<lparr>wt_id = i, wt_workflow_plan_id = 30, wt_step_key = key, wt_title = key,
     wt_step_type = ''SYSTEM'', wt_assigned_capability = None, wt_agent_definition_id = None,
     wt_position = n, wt_risk_level = None, wt_created_at = 0\<rparr>"

definition sample_step_run :: "uuid \<Rightarrow> uuid \<Rightarrow> pystr \<Rightarrow> instant option \<Rightarrow> workflow_step_run" where
  "sample_step_run i step_id status started = \<lparr>sr_id = i, sr_workflow_run_id = 34,
     sr_workflow_plan_id = 30, sr_workflow_step_id = step_id, sr_agent_run_id = None,
     sr_status = status, sr_failure_code = None, sr_started_at = started, sr_completed_at = None,
     sr_created_at = 0, sr_updated_at = 0\<rparr>"

definition sample_flow_db :: db where
  "sample_flow_db = sample_db
     \<lparr>workflow_plans := [\<lparr>wp_id = 30, wp_tenant_id = 1, wp_workspace_id = 2, wp_project_id = 3,
        wp_task_id = 4, wp_version = 1, wp_title = ''Ship'', wp_summary = None,
        wp_change_reason = None, wp_created_at = 0\<rparr>],
      workflow_steps := [sample_step_row 31 ''build'' 0, sample_step_row 32 ''test'' 1],
      step_dependencies := [\<lparr>sd_workflow_plan_id = 30, sd_workflow_step_id = 32,
        sd_depends_on_step_id = 31\<rparr>],
      workflow_runs := [\<lparr>wr_id = 34, wr_tenant_id = 1, wr_workspace_id = 2, wr_project_id = 3,
        wr_task_id = 4, wr_workflow_plan_id = 30, wr_plan_version = 1, wr_status = ''RUNNING'',
        wr_correlation_id = None, wr_failure_code = None, wr_started_at = Some 1,
        wr_completed_at = None, wr_created_at = 0, wr_updated_at = 0\<rparr>],
      workflow_step_runs := [sample_step_run 35 31 ''RUNNING'' (Some 2), sample_step_run 36 32 ''PENDING'' None]\<rparr>"

lemma sample_flow_constraints: "constraints sample_flow_db"
  by code_simp

lemma sample_flow_rows:
  "workflow_step_runs sample_flow_db = [sample_step_run 35 31 ''RUNNING'' (Some 2), sample_step_run 36 32 ''PENDING'' None]"
  by (simp add: sample_flow_db_def)

section \<open>Properties\<close>

text \<open>
  C28: A transition of a workflow run returns only if the run was in the expected state: then
  exactly that run moves, and the durable data change in nothing else. Every failure leaves the
  durable data as they were, and a refused transition means that no such run was in that state.
\<close>
theorem workflow_transition_outcome:
  assumes "working s = committed s"
  shows "case workflow_transition tenant_id workspace_id run_id expected target failure_code s of
      (Inl e, u) \<Rightarrow> committed u = committed s \<and>
        (e = workflow_run_invalid_transition \<longrightarrow> \<not> (\<exists>old \<in> set (workflow_runs (committed s)).
           workflow_in_state tenant_id workspace_id run_id (workflow_run_status_value expected) old))
    | (Inr r, u) \<Rightarrow> \<exists>now. \<exists>old \<in> set (workflow_runs (committed s)).
        workflow_in_state tenant_id workspace_id run_id (workflow_run_status_value expected) old \<and>
        r = apply_to_workflow_run (workflow_values target failure_code now) old \<and>
        committed u =
          move_workflow_run tenant_id workspace_id run_id expected target failure_code now (committed s)"
  unfolding workflow_transition_guarded move_workflow_run_def
  by (rule guarded_transition_outcome [OF assms reads_workflows(7) quiet.steps_workflow_reads(8)
        workflow_transition_look])

theorem workflow_transition_outcome_witness:
  "case workflow_transition 1 2 34 RUN_RUNNING RUN_COMPLETED None (sample_session sample_flow_db) of
     (Inl e, u) \<Rightarrow> committed u = sample_flow_db
   | (Inr r, u) \<Rightarrow> wr_status r = ''COMPLETED''"
  using workflow_transition_outcome [where s = "sample_session sample_flow_db" and tenant_id = 1
      and workspace_id = 2 and run_id = 34 and expected = RUN_RUNNING and target = RUN_COMPLETED
      and failure_code = None]
  by (auto split: prod.splits sum.splits)

text \<open>
  A move of a step run along the allowed edges, and the wake-up of a waiting one, keep every
  check of its table, if a failure code is given exactly for a failure and the clock has not gone
  back behind the start of the step.
\<close>
theorem step_move_keeps_checks:
  assumes "workflow_step_run_checks r" and "(expected, target) \<in> set step_edges"
    and "sr_status r = step_run_status_value expected"
    and "if target = STEP_FAILED then \<exists>c. failure_code = Some c \<and> fullmatch TYPE_IDENTIFIER c
         else failure_code = None"
    and "opt_all (\<lambda>t. t \<le> now) (sr_started_at r)"
  shows "workflow_step_run_checks (apply_to_step_run (step_values expected target failure_code now) r) \<and>
    (expected = PENDING \<longrightarrow> workflow_step_run_checks (apply_to_step_run (ready_values now) r))"
proof -
  have shape: "case expected of PENDING \<Rightarrow> sr_started_at r = None \<and> sr_completed_at r = None \<and> sr_failure_code r = None
    | READY \<Rightarrow> sr_started_at r = None \<and> sr_completed_at r = None \<and> sr_failure_code r = None
    | STEP_RUNNING \<Rightarrow> sr_started_at r \<noteq> None \<and> sr_completed_at r = None \<and> sr_failure_code r = None
    | STEP_WAITING \<Rightarrow> sr_started_at r \<noteq> None \<and> sr_completed_at r = None \<and> sr_failure_code r = None
    | _ \<Rightarrow> True"
    using assms(1,3) step_shape [of expected "sr_started_at r" "sr_completed_at r" "sr_failure_code r"]
    by (simp add: workflow_step_run_checks_def del: step_run_status_values split: step_run_status.splits)
  let ?r = "apply_to_step_run (step_values expected target failure_code now) r"
  have st: "sr_status ?r = step_run_status_value target" by simp
  have "lifecycle_shape [''PENDING'', ''READY''] [''RUNNING'', ''WAITING_FOR_APPROVAL''] ''COMPLETED''
      (sr_status ?r) (sr_started_at ?r) (sr_completed_at ?r) (sr_failure_code ?r)"
    using shape assms(2,4) unfolding step_edges_def st
    by (auto simp: step_shape apply_to_step_run_def step_values_def Let_def simp del: step_run_status_values)
  moreover have "timestamp_order (sr_started_at ?r) (sr_completed_at ?r)"
    using shape assms(2,5) unfolding step_edges_def
    by (auto simp: timestamp_order_def apply_to_step_run_def step_values_def Let_def)
  moreover have "opt_all (fullmatch TYPE_IDENTIFIER) (sr_failure_code ?r)"
    using shape assms(2,4) unfolding step_edges_def
    by (auto simp: apply_to_step_run_def step_values_def Let_def)
  ultimately have "workflow_step_run_checks ?r"
    using step_status_known [of target] by (simp add: workflow_step_run_checks_def st del: step_run_status_values)
  moreover have "workflow_step_run_checks (apply_to_step_run (ready_values now) r)" if "expected = PENDING"
    using shape that by (simp add: workflow_step_run_checks_def apply_to_step_run_def ready_values_def
        lifecycle_shape_def timestamp_order_def)
  ultimately show ?thesis by blast
qed

theorem step_move_keeps_checks_witness:
  "workflow_step_run_checks (apply_to_step_run (step_values STEP_RUNNING STEP_COMPLETED None 9)
     (sample_step_run 35 31 ''RUNNING'' (Some 2)))"
proof -
  have "workflow_step_run_checks (sample_step_run 35 31 ''RUNNING'' (Some 2))" by code_simp
  moreover have "(STEP_RUNNING, STEP_COMPLETED) \<in> set step_edges" by (simp add: step_edges_def)
  ultimately show ?thesis
    using step_move_keeps_checks [of "sample_step_run 35 31 ''RUNNING'' (Some 2)" STEP_RUNNING
        STEP_COMPLETED None 9] by (simp add: sample_step_run_def)
qed

text \<open>
  C24: Of the transitions that race for one state of a step run, whatever state they move it to and
  in whatever order their updates reach the database, exactly one succeeds if the step run was in
  that state: no step is claimed twice.
\<close>
theorem step_claimed_once:
  assumes "\<forall>v \<in> set attempts. fv_status v \<noteq> step_run_status_value expected"
  shows "case collect attempts (transition_step_run run_id step_run_id (step_run_status_value expected)) s of
     (Inl e, u) \<Rightarrow> True
   | (Inr rs, u) \<Rightarrow> length (winners rs) =
       (if attempts \<noteq> [] \<and> (\<exists>r \<in> set (workflow_step_runs (working s)).
           step_in_state run_id step_run_id (step_run_status_value expected) r) then 1 else 0)"
proof (cases "collect attempts (transition_step_run run_id step_run_id (step_run_status_value expected)) s")
  case (Pair x u)
  show ?thesis
  proof (cases x)
    case (Inr rs)
    have "collect attempts (\<lambda>v. compare_set workflow_step_runs put_step_runs
        (step_in_state run_id step_run_id (step_run_status_value expected)) (\<lambda>_. apply_to_step_run v)) s =
      (Inr rs, u)"
      using Pair Inr by (simp add: transition_step_run_def [abs_def])
    from step_claims.single_winner [OF this assms] show ?thesis
      using Pair Inr by (cases attempts) auto
  qed (use Pair in simp)
qed

theorem step_claimed_once_witness:
  "case collect [step_values STEP_RUNNING STEP_COMPLETED None 9, step_values STEP_RUNNING STEP_CANCELLED None 9]
      (transition_step_run 34 35 ''RUNNING'') (sample_session sample_flow_db) of
     (Inl e, u) \<Rightarrow> True | (Inr rs, u) \<Rightarrow> length (winners rs) = 1"
proof -
  have "step_in_state 34 35 ''RUNNING'' (sample_step_run 35 31 ''RUNNING'' (Some 2))"
    by (simp add: step_in_state_def sample_step_run_def)
  then show ?thesis
    using step_claimed_once [where s = "sample_session sample_flow_db" and expected = STEP_RUNNING
        and attempts = "[step_values STEP_RUNNING STEP_COMPLETED None 9, step_values STEP_RUNNING STEP_CANCELLED None 9]"
        and run_id = 34 and step_run_id = 35]
    by (auto simp: sample_flow_rows split: prod.splits sum.splits)
qed

end
