(* ===== verification/Memories.thy ===== *)
theory Memories
  imports Model_Catalog Workflows Complex_Main
begin

text \<open>
  Structured memory (\<open>modules/memories\<close>: schemas, repository, service, disclosure): scoped,
  dated statements with their sources, and their retrieval for a point in time. The text search of
  PostgreSQL (\<open>websearch_to_tsquery\<close>, \<open>@@\<close>, \<open>ts_rank\<close> with the simple configuration) is an argument;
  a confidence is given as the column keeps it, in hundredths.
\<close>

section \<open>Contracts\<close>

datatype memory_kind = FACT | DECISION | PREFERENCE | CONSTRAINT | EVENT | NOTE

definition memory_kind_value :: "memory_kind \<Rightarrow> pystr" where
  "memory_kind_value v = (case v of FACT \<Rightarrow> ''FACT'' | DECISION \<Rightarrow> ''DECISION'' | PREFERENCE \<Rightarrow> ''PREFERENCE''
     | CONSTRAINT \<Rightarrow> ''CONSTRAINT'' | EVENT \<Rightarrow> ''EVENT'' | NOTE \<Rightarrow> ''NOTE'')"

datatype knowledge_state = CONFIRMED_FACT | OBSERVED_FACT | INFERENCE | HYPOTHESIS | DISPUTED | OBSOLETE

definition knowledge_state_value :: "knowledge_state \<Rightarrow> pystr" where
  "knowledge_state_value v = (case v of CONFIRMED_FACT \<Rightarrow> ''CONFIRMED_FACT'' | OBSERVED_FACT \<Rightarrow> ''OBSERVED_FACT''
     | INFERENCE \<Rightarrow> ''INFERENCE'' | HYPOTHESIS \<Rightarrow> ''HYPOTHESIS'' | DISPUTED \<Rightarrow> ''DISPUTED'' | OBSOLETE \<Rightarrow> ''OBSOLETE'')"

datatype memory_lifecycle = ACTIVE | ARCHIVED

definition memory_lifecycle_value :: "memory_lifecycle \<Rightarrow> pystr" where
  "memory_lifecycle_value v = (case v of ACTIVE \<Rightarrow> ''ACTIVE'' | ARCHIVED \<Rightarrow> ''ARCHIVED'')"

datatype memory_sensitivity = PUBLIC | INTERNAL | SENSITIVE | RESTRICTED

definition memory_sensitivity_value :: "memory_sensitivity \<Rightarrow> pystr" where
  "memory_sensitivity_value v = (case v of PUBLIC \<Rightarrow> ''PUBLIC'' | INTERNAL \<Rightarrow> ''INTERNAL''
     | SENSITIVE \<Rightarrow> ''SENSITIVE'' | RESTRICTED \<Rightarrow> ''RESTRICTED'')"

datatype memory_model_access = LOCAL_ONLY | LOCAL_AND_REMOTE

definition memory_model_access_value :: "memory_model_access \<Rightarrow> pystr" where
  "memory_model_access_value v = (case v of LOCAL_ONLY \<Rightarrow> ''LOCAL_ONLY'' | LOCAL_AND_REMOTE \<Rightarrow> ''LOCAL_AND_REMOTE'')"

datatype provenance_source_type = USER_STATEMENT | TOOL_OBSERVATION | DOCUMENT | AGENT_RESULT | SYSTEM_EVENT
  | DERIVED_FROM_MEMORY | MANUAL_EDIT

definition provenance_source_value :: "provenance_source_type \<Rightarrow> pystr" where
  "provenance_source_value v = (case v of USER_STATEMENT \<Rightarrow> ''USER_STATEMENT'' | TOOL_OBSERVATION \<Rightarrow> ''TOOL_OBSERVATION''
     | DOCUMENT \<Rightarrow> ''DOCUMENT'' | AGENT_RESULT \<Rightarrow> ''AGENT_RESULT'' | SYSTEM_EVENT \<Rightarrow> ''SYSTEM_EVENT''
     | DERIVED_FROM_MEMORY \<Rightarrow> ''DERIVED_FROM_MEMORY'' | MANUAL_EDIT \<Rightarrow> ''MANUAL_EDIT'')"

record memory_create =
  mc_project_id :: "uuid option"
  mc_task_id :: "uuid option"
  mc_workflow_run_id :: "uuid option"
  mc_kind :: memory_kind
  mc_knowledge_state :: knowledge_state
  mc_statement :: pystr
  mc_confidence :: int
  mc_importance :: int
  mc_valid_from :: instant
  mc_valid_to :: "instant option"
  mc_lifecycle :: memory_lifecycle
  mc_sensitivity :: memory_sensitivity
  mc_model_access :: memory_model_access
  mc_provenance :: "(provenance_source_type \<times> pystr option) list"

definition MemoryCreate :: "memory_create \<Rightarrow> memory_create option" where
  "MemoryCreate d =
    (let text = trim (mc_statement d); sources = map (\<lambda>(k, r). (k, map_option trim r)) (mc_provenance d) in
     if between 1 2000 text \<and> 0 \<le> mc_confidence d \<and> mc_confidence d \<le> 100 \<and>
        1 \<le> mc_importance d \<and> mc_importance d \<le> 5 \<and>
        1 \<le> length sources \<and> length sources \<le> 16 \<and> list_all (\<lambda>(k, r). opt_all (between 1 256) r) sources \<and>
        opt_all (\<lambda>t. mc_valid_from d < t) (mc_valid_to d) \<and>
        (mc_task_id d = None \<or> mc_project_id d \<noteq> None) \<and>
        (mc_sensitivity d \<noteq> RESTRICTED \<or> mc_model_access d = LOCAL_ONLY)
     then Some (d\<lparr>mc_statement := text, mc_provenance := sources\<rparr>) else None)"

record retrieval_request =
  rr_query :: "pystr option"
  rr_project_id :: "uuid option"
  rr_task_id :: "uuid option"
  rr_workflow_run_id :: "uuid option"
  rr_kinds :: "memory_kind list option"
  rr_knowledge_states :: "knowledge_state list option"
  rr_lifecycle :: "memory_lifecycle list option"
  rr_as_of :: "instant option"
  rr_min_confidence :: "rat option"
  rr_min_importance :: "int option"
  rr_limit :: nat

definition MemoryRetrievalRequest :: "retrieval_request \<Rightarrow> retrieval_request option" where
  "MemoryRetrievalRequest d =
    (let q = map_option trim (rr_query d) in
     if opt_all (between 1 500) q \<and> opt_all (\<lambda>v. length v \<le> 6) (rr_kinds d) \<and>
        opt_all (\<lambda>v. length v \<le> 6) (rr_knowledge_states d) \<and> opt_all (\<lambda>v. length v \<le> 2) (rr_lifecycle d) \<and>
        opt_all (\<lambda>c. 0 \<le> c \<and> c \<le> 1) (rr_min_confidence d) \<and>
        opt_all (\<lambda>i. 1 \<le> i \<and> i \<le> 5) (rr_min_importance d) \<and> 1 \<le> rr_limit d \<and> rr_limit d \<le> 50
     then Some (d\<lparr>rr_query := q\<rparr>) else None)"

text \<open>A retrieved memory with its sources and, under a query, its rank.\<close>

record memory_result =
  mv_record :: memory_record
  mv_sources :: "memory_source list"
  mv_relevance :: "int option"

text \<open>Whether a query matches a statement, and how well.\<close>

record text_search =
  ts_matches :: "pystr \<Rightarrow> pystr \<Rightarrow> bool"
  ts_rank :: "pystr \<Rightarrow> pystr \<Rightarrow> int"

section \<open>The repository\<close>

definition insert_memory :: "(uuid \<Rightarrow> instant \<Rightarrow> memory_record) \<Rightarrow> memory_record prog" where
  "insert_memory new = bnd uuid4 (\<lambda>u. exec_stmt (\<lambda>now d.
     let r = new u now in (r, d\<lparr>memory_records := memory_records d @ [r]\<rparr>)))"

definition insert_sources :: "uuid \<Rightarrow> (provenance_source_type \<times> pystr option) list \<Rightarrow> unit prog" where
  "insert_sources memory_id items =
     bnd (collect items (\<lambda>item. bnd uuid4 (\<lambda>u. ret (u, item)))) (\<lambda>keyed. exec_stmt (\<lambda>now d.
       ((), d\<lparr>memory_sources := memory_sources d @ map (\<lambda>(u, k, r).
          \<lparr>mo_id = u, mo_memory_id = memory_id, mo_source_type = provenance_source_value k,
           mo_source_reference_id = r, mo_created_at = now\<rparr>) keyed\<rparr>)))"

definition sources_of :: "uuid \<Rightarrow> db \<Rightarrow> memory_source list" where
  "sources_of memory_id d = filter (\<lambda>p. mo_memory_id p = memory_id) (memory_sources d)"

text \<open>\<open>selectinload\<close>: a second statement loads the sources of the selected rows, if there are any.\<close>

definition with_sources :: "(memory_record \<times> int option) list \<Rightarrow> memory_result list prog" where
  "with_sources rows = (if rows = [] then ret [] else query (\<lambda>d. map (\<lambda>(r, rank).
     \<lparr>mv_record = r, mv_sources = sources_of (me_id r) d, mv_relevance = rank\<rparr>) rows))"

definition repository_get_memory :: "uuid \<Rightarrow> uuid \<Rightarrow> memory_result option prog" where
  "repository_get_memory workspace_id memory_id =
     bnd (select_one memory_records (\<lambda>r. me_workspace_id r = workspace_id \<and> me_id r = memory_id)) (\<lambda>row.
     bnd (with_sources (case row of None \<Rightarrow> [] | Some r \<Rightarrow> [(r, None)])) (\<lambda>found. ret (first_row found)))"

definition repository_list_memories ::
  "uuid \<Rightarrow> nat \<Rightarrow> nat \<Rightarrow> uuid option \<Rightarrow> uuid option \<Rightarrow> uuid option \<Rightarrow> pystr option \<Rightarrow> pystr option \<Rightarrow>
     pystr option \<Rightarrow> memory_result list prog" where
  "repository_list_memories workspace_id limit offset project_id task_id workflow_run_id kind knowledge phase =
     bnd (query (\<lambda>d. window limit offset (sort_key (\<lambda>r. (me_created_at r, me_id r)) (filter (\<lambda>r.
        me_workspace_id r = workspace_id \<and> opt_all (\<lambda>v. me_project_id r = Some v) project_id \<and>
        opt_all (\<lambda>v. me_task_id r = Some v) task_id \<and>
        opt_all (\<lambda>v. me_workflow_run_id r = Some v) workflow_run_id \<and> opt_all (\<lambda>v. me_kind r = v) kind \<and>
        opt_all (\<lambda>v. me_knowledge_state r = v) knowledge \<and> opt_all (\<lambda>v. me_lifecycle r = v) phase)
        (memory_records d))))) (\<lambda>rows. with_sources (map (\<lambda>r. (r, None)) rows))"

definition DEFAULT_KNOWLEDGE_STATES :: "pystr list" where
  "DEFAULT_KNOWLEDGE_STATES = [''CONFIRMED_FACT'', ''OBSERVED_FACT'', ''INFERENCE'', ''HYPOTHESIS'', ''DISPUTED'']"

text \<open>\<open>values or default\<close>: an empty tuple counts as absent.\<close>

definition given_or :: "'a list option \<Rightarrow> 'a list \<Rightarrow> 'a list" where
  "given_or values default_values = (case values of Some (v # vs) \<Rightarrow> v # vs | _ \<Rightarrow> default_values)"

definition admissible :: "uuid \<Rightarrow> instant \<Rightarrow> retrieval_request \<Rightarrow> memory_record \<Rightarrow> bool" where
  "admissible workspace_id as_of q r =
    (me_workspace_id r = workspace_id \<and> me_valid_from r \<le> as_of \<and> opt_all (\<lambda>t. as_of < t) (me_valid_to r) \<and>
     opt_all (\<lambda>v. me_project_id r = Some v) (rr_project_id q) \<and> opt_all (\<lambda>v. me_task_id r = Some v) (rr_task_id q) \<and>
     opt_all (\<lambda>v. me_workflow_run_id r = Some v) (rr_workflow_run_id q) \<and>
     opt_all (\<lambda>ks. one_of (map memory_kind_value ks) (me_kind r)) (rr_kinds q) \<and>
     one_of (given_or (map_option (map knowledge_state_value) (rr_knowledge_states q)) DEFAULT_KNOWLEDGE_STATES)
       (me_knowledge_state r) \<and>
     one_of (given_or (map_option (map memory_lifecycle_value) (rr_lifecycle q)) [''ACTIVE'']) (me_lifecycle r) \<and>
     opt_all (\<lambda>c. c \<le> of_int (me_confidence r) / 100) (rr_min_confidence q) \<and>
     opt_all (\<lambda>i. i \<le> me_importance r) (rr_min_importance q))"

definition ranked_memories :: "text_search \<Rightarrow> uuid \<Rightarrow> instant \<Rightarrow> retrieval_request \<Rightarrow> db \<Rightarrow>
    (memory_record \<times> int option) list" where
  "ranked_memories lib workspace_id as_of q d =
    (let rows = filter (admissible workspace_id as_of q) (memory_records d) in
     case rr_query q of
       None \<Rightarrow> map (\<lambda>r. (r, None)) (take (rr_limit q)
         (sort_key (\<lambda>r. (- me_importance r, - me_valid_from r, - me_created_at r, me_id r)) rows))
     | Some v \<Rightarrow> map (\<lambda>r. (r, Some (ts_rank lib v (me_statement r)))) (take (rr_limit q)
         (sort_key (\<lambda>r. (- ts_rank lib v (me_statement r), - me_importance r, - me_valid_from r, me_id r))
           (filter (\<lambda>r. ts_matches lib v (me_statement r)) rows))))"

definition repository_retrieve_memories ::
  "text_search \<Rightarrow> uuid \<Rightarrow> instant \<Rightarrow> retrieval_request \<Rightarrow> memory_result list prog" where
  "repository_retrieve_memories lib workspace_id as_of q =
     bnd (query (ranked_memories lib workspace_id as_of q)) with_sources"

section \<open>The service\<close>

definition invalid_memory :: "pystr \<Rightarrow> exn" where
  "invalid_memory message = ApplicationError ''invalid_memory'' message 422"

definition validate_links :: "uuid \<Rightarrow> uuid \<Rightarrow> memory_create \<Rightarrow> unit prog" where
  "validate_links tenant_id workspace_id data =
     andthen (require_project workspace_id (mc_project_id data))
    (andthen (require_task (mc_project_id data) (mc_task_id data))
     (case mc_workflow_run_id data of
        None \<Rightarrow> ret ()
      | Some i \<Rightarrow> bnd (workflow_repository_get_run tenant_id workspace_id i) (\<lambda>row. bnd (require not_found row) (\<lambda>run.
          andthen (only_if (\<not> opt_all (\<lambda>p. wr_project_id run = p) (mc_project_id data))
            (throw (invalid_memory ''workflow_run_id does not belong to project_id'')))
          (only_if (\<not> opt_all (\<lambda>k. wr_task_id run = k) (mc_task_id data))
            (throw (invalid_memory ''workflow_run_id does not belong to task_id'')))))))"

definition memory_row :: "uuid \<Rightarrow> memory_create \<Rightarrow> uuid \<Rightarrow> instant \<Rightarrow> memory_record" where
  "memory_row workspace_id data u now =
     \<lparr>me_id = u, me_workspace_id = workspace_id, me_project_id = mc_project_id data, me_task_id = mc_task_id data,
      me_workflow_run_id = mc_workflow_run_id data, me_kind = memory_kind_value (mc_kind data),
      me_knowledge_state = knowledge_state_value (mc_knowledge_state data), me_statement = mc_statement data,
      me_confidence = mc_confidence data, me_importance = mc_importance data, me_valid_from = mc_valid_from data,
      me_valid_to = mc_valid_to data, me_lifecycle = memory_lifecycle_value (mc_lifecycle data),
      me_sensitivity = memory_sensitivity_value (mc_sensitivity data),
      me_model_access = memory_model_access_value (mc_model_access data), me_created_at = now, me_updated_at = now\<rparr>"

definition create_memory :: "uuid \<Rightarrow> uuid \<Rightarrow> memory_create \<Rightarrow> memory_result prog" where
  "create_memory tenant_id workspace_id data =
     andthen (require_workspace tenant_id workspace_id)
    (andthen (validate_links tenant_id workspace_id data)
    (bnd (on_integrity_error (invalid_memory ''Memory could not be persisted'')
       (bnd (insert_memory (memory_row workspace_id data)) (\<lambda>r.
        andthen (insert_sources (me_id r) (mc_provenance data)) (andthen commit (ret r))))) (\<lambda>r.
     query (\<lambda>d. \<lparr>mv_record = r, mv_sources = sources_of (me_id r) d, mv_relevance = None\<rparr>))))"

definition get_memory :: "uuid \<Rightarrow> uuid \<Rightarrow> uuid \<Rightarrow> memory_result prog" where
  "get_memory tenant_id workspace_id memory_id =
     andthen (require_workspace tenant_id workspace_id)
     (bnd (repository_get_memory workspace_id memory_id) (require not_found))"

definition list_memories ::
  "uuid \<Rightarrow> uuid \<Rightarrow> nat \<Rightarrow> nat \<Rightarrow> uuid option \<Rightarrow> uuid option \<Rightarrow> uuid option \<Rightarrow> memory_kind option \<Rightarrow>
     knowledge_state option \<Rightarrow> memory_lifecycle option \<Rightarrow> memory_result list prog" where
  "list_memories tenant_id workspace_id limit offset project_id task_id workflow_run_id kind knowledge phase =
     andthen (require_workspace tenant_id workspace_id)
     (repository_list_memories workspace_id limit offset project_id task_id workflow_run_id
       (map_option memory_kind_value kind) (map_option knowledge_state_value knowledge)
       (map_option memory_lifecycle_value phase))"

definition retrieve_memories ::
  "text_search \<Rightarrow> uuid \<Rightarrow> uuid \<Rightarrow> retrieval_request \<Rightarrow> (memory_result list \<times> instant) prog" where
  "retrieve_memories lib tenant_id workspace_id q =
     andthen (require_workspace tenant_id workspace_id)
     (bnd (case rr_as_of q of Some t \<Rightarrow> ret t | None \<Rightarrow> now_utc) (\<lambda>as_of.
      bnd (repository_retrieve_memories lib workspace_id as_of q) (\<lambda>found. ret (found, as_of))))"

section \<open>Disclosure\<close>

text \<open>\<open>evaluate_memory_disclosure\<close>: the reason a memory is withheld, if it is.\<close>

definition evaluate_memory_disclosure :: "memory_model_access \<Rightarrow> execution_target_class \<Rightarrow> pystr option" where
  "evaluate_memory_disclosure access target =
    (if target = LOCAL then None else if access = LOCAL_AND_REMOTE then None else Some ''local_only'')"

section \<open>Effects on the data\<close>

lemma reads_with_sources: "reads (with_sources rows)"
  by (simp add: with_sources_def reads_basic)

lemma reads_memories:
  "reads (retrieve_memories lib t w q)" "reads (get_memory t w i)" "reads (list_memories t w l k p tk wr kd st lc)"
  "reads (validate_links t w data)"
  unfolding retrieve_memories_def repository_retrieve_memories_def get_memory_def repository_get_memory_def
    list_memories_def repository_list_memories_def validate_links_def workflow_repository_get_run_def
  by (intro reads_rules reads_scopes reads_with_sources)+

context stmt_order
begin

lemma steps_with_sources: "steps R (with_sources rows)"
  by (simp add: with_sources_def steps_ret steps_query)

lemma steps_memory_reads:
  "steps R (retrieve_memories lib t w q)" "steps R (get_memory t w i)"
  "steps R (list_memories t w l k p tk wr kd st lc)" "steps R (validate_links t w data)"
  unfolding retrieve_memories_def repository_retrieve_memories_def get_memory_def repository_get_memory_def
    list_memories_def repository_list_memories_def validate_links_def workflow_repository_get_run_def
  by (intro steps_rules stmt_rules steps_scopes steps_with_sources)+

lemma steps_memory_writes:
  assumes "\<And>d r. W d (d\<lparr>memory_records := memory_records d @ [r]\<rparr>)"
    and "\<And>d rs. W d (d\<lparr>memory_sources := memory_sources d @ rs\<rparr>)"
  shows "steps R (insert_memory new)" "steps R (insert_sources i items)"
  unfolding insert_memory_def insert_sources_def Let_def
  by (intro steps_rules stmt_rules steps_exec; simp add: assms)+

end

context store_order
begin

lemma steps_create_memory:
  assumes "\<And>d r. W d (d\<lparr>memory_records := memory_records d @ [r]\<rparr>)"
    and "\<And>d rs. W d (d\<lparr>memory_sources := memory_sources d @ rs\<rparr>)"
  shows "steps R (create_memory t w data)"
  unfolding create_memory_def
  by (intro steps_rules store_rules steps_scopes steps_memory_reads steps_memory_writes assms)

end

section \<open>What is retrieved\<close>

lemma ranked_admissible:
  "(r, rank) \<in> set (ranked_memories lib w t q d) \<Longrightarrow> r \<in> set (memory_records d) \<and> admissible w t q r"
  by (auto simp: ranked_memories_def Let_def split: option.splits dest!: in_set_takeD)

lemma length_ranked: "length (ranked_memories lib w t q d) \<le> rr_limit q"
  by (simp add: ranked_memories_def Let_def split: option.splits)

lemma with_sources_runs:
  "with_sources rows s = (Inr found, u) \<Longrightarrow> map mv_record found = map fst rows"
  by (cases rows) (auto simp: with_sources_def runs split: prod.splits)

lemma retrieve_runs:
  assumes "retrieve_memories lib t w q s = (Inr (found, as_of), u)"
  shows "length found \<le> rr_limit q" and "has_workspace (working s) t w"
    and "\<forall>m \<in> set found. mv_record m \<in> set (memory_records (working s)) \<and> admissible w as_of q (mv_record m)"
proof -
  obtain s1 s2 s3 rows where s1: "require_workspace t w s = (Inr (), s1)"
    and s2: "(case rr_as_of q of Some t \<Rightarrow> ret t | None \<Rightarrow> now_utc) s1 = (Inr as_of, s2)"
    and rows: "rows = ranked_memories lib w as_of q (working s2)"
    and found: "with_sources rows s3 = (Inr found, u)"
    using assms unfolding retrieve_memories_def repository_retrieve_memories_def
    by (fastforce simp: Inr_runs)
  have w: "working s1 = working s" "has_workspace (working s) t w"
    using spec [OF spec [OF spec [OF require_workspace_check [of t w, unfolded scope_check_def], of s], of "Inr ()"], of s1] s1
    by simp_all
  have "working s2 = working s1" using s2 by (auto simp: Inr_runs split: option.splits)
  note eq = with_sources_runs [OF found]
  show "has_workspace (working s) t w" by (fact w(2))
  have "length found = length rows" using arg_cong [OF eq, of length] by simp
  then show "length found \<le> rr_limit q" using length_ranked [of lib w as_of q "working s2"] by (simp add: rows)
  show "\<forall>m \<in> set found. mv_record m \<in> set (memory_records (working s)) \<and> admissible w as_of q (mv_record m)"
  proof
    fix m assume "m \<in> set found"
    then have "mv_record m \<in> set (map fst rows)" unfolding eq [symmetric] by simp
    then show "mv_record m \<in> set (memory_records (working s)) \<and> admissible w as_of q (mv_record m)"
      using ranked_admissible [of _ _ lib w as_of q "working s2"] w \<open>working s2 = working s1\<close> rows by auto
  qed
qed

end
