(* ===== verification/Context_Packages.thy ===== *)
theory Context_Packages
  imports Memories "HOL-Library.Sublist"
begin

text \<open>
  Context packages (\<open>modules/memories/context_packages.py\<close>): the bounded, ephemeral working context
  assembled from retrieved memories, and its restriction to an execution target. The number of bytes
  of the JSON that pydantic writes for a package (\<open>len(model_dump_json().encode("utf-8"))\<close>) is the
  argument \<open>json\<close>.
\<close>

section \<open>Contracts\<close>

text \<open>Reading a stored text back as a member of its enumeration; \<open>None\<close> is a \<open>ValidationError\<close>.\<close>

definition member_of :: "('a \<Rightarrow> pystr) \<Rightarrow> 'a list \<Rightarrow> pystr \<Rightarrow> 'a option" where
  "member_of name members v = List.find (\<lambda>m. name m = v) members"

lemma member_of_Some: "member_of name members v = Some m \<Longrightarrow> name m = v"
  by (auto simp: member_of_def find_Some_iff)

record provenance_response =
  pv_id :: uuid
  pv_source_type :: provenance_source_type
  pv_source_reference_id :: "pystr option"
  pv_created_at :: instant

definition MemoryProvenanceResponse :: "memory_source \<Rightarrow> provenance_response option" where
  "MemoryProvenanceResponse r = map_option (\<lambda>k. \<lparr>pv_id = mo_id r, pv_source_type = k,
       pv_source_reference_id = mo_source_reference_id r, pv_created_at = mo_created_at r\<rparr>)
     (member_of provenance_source_value [USER_STATEMENT, TOOL_OBSERVATION, DOCUMENT, AGENT_RESULT, SYSTEM_EVENT,
        DERIVED_FROM_MEMORY, MANUAL_EDIT] (mo_source_type r))"

record retrieval_result =
  rv_id :: uuid
  rv_workspace_id :: uuid
  rv_project_id :: "uuid option"
  rv_task_id :: "uuid option"
  rv_workflow_run_id :: "uuid option"
  rv_kind :: memory_kind
  rv_knowledge_state :: knowledge_state
  rv_statement :: pystr
  rv_confidence :: int
  rv_importance :: int
  rv_valid_from :: instant
  rv_valid_to :: "instant option"
  rv_lifecycle :: memory_lifecycle
  rv_sensitivity :: memory_sensitivity
  rv_model_access :: memory_model_access
  rv_created_at :: instant
  rv_updated_at :: instant
  rv_provenance :: "provenance_response list"
  rv_lexical_relevance :: "int option"

definition MemoryRetrievalResult :: "memory_result \<Rightarrow> retrieval_result option" where
  "MemoryRetrievalResult m =
    (let r = mv_record m in
     case (member_of memory_kind_value [FACT, DECISION, PREFERENCE, CONSTRAINT, EVENT, NOTE] (me_kind r),
           member_of knowledge_state_value
             [CONFIRMED_FACT, OBSERVED_FACT, INFERENCE, HYPOTHESIS, DISPUTED, OBSOLETE] (me_knowledge_state r),
           member_of memory_lifecycle_value [ACTIVE, ARCHIVED] (me_lifecycle r),
           member_of memory_sensitivity_value [PUBLIC, INTERNAL, SENSITIVE, RESTRICTED] (me_sensitivity r),
           member_of memory_model_access_value [LOCAL_ONLY, LOCAL_AND_REMOTE] (me_model_access r),
           all_some (map MemoryProvenanceResponse (mv_sources m))) of
       (Some knd, Some knowledge, Some phase, Some sensitivity, Some access, Some sources) \<Rightarrow>
         Some \<lparr>rv_id = me_id r, rv_workspace_id = me_workspace_id r, rv_project_id = me_project_id r,
           rv_task_id = me_task_id r, rv_workflow_run_id = me_workflow_run_id r, rv_kind = knd,
           rv_knowledge_state = knowledge, rv_statement = me_statement r, rv_confidence = me_confidence r,
           rv_importance = me_importance r, rv_valid_from = me_valid_from r, rv_valid_to = me_valid_to r,
           rv_lifecycle = phase, rv_sensitivity = sensitivity, rv_model_access = access,
           rv_created_at = me_created_at r, rv_updated_at = me_updated_at r, rv_provenance = sources,
           rv_lexical_relevance = mv_relevance m\<rparr>
     | _ \<Rightarrow> None)"

record package_bounds =
  pb_max_items :: nat
  pb_max_serialized_bytes :: nat
  pb_max_provenance_per_item :: nat
  pb_max_provenance_references :: nat

definition ContextPackageBounds :: "package_bounds \<Rightarrow> package_bounds option" where
  "ContextPackageBounds b =
    (if 1 \<le> pb_max_items b \<and> pb_max_items b \<le> 50 \<and>
        1024 \<le> pb_max_serialized_bytes b \<and> pb_max_serialized_bytes b \<le> 262144 \<and>
        1 \<le> pb_max_provenance_per_item b \<and> pb_max_provenance_per_item b \<le> 16 \<and>
        1 \<le> pb_max_provenance_references b \<and> pb_max_provenance_references b \<le> 800
     then Some b else None)"

definition DEFAULT_CONTEXT_PACKAGE_BOUNDS :: package_bounds where
  "DEFAULT_CONTEXT_PACKAGE_BOUNDS = \<lparr>pb_max_items = 12, pb_max_serialized_bytes = 16384,
     pb_max_provenance_per_item = 4, pb_max_provenance_references = 32\<rparr>"

record package_source =
  ps_id :: uuid
  ps_source_type :: pystr
  ps_source_reference_id :: "pystr option"
  ps_created_at :: instant

record package_item =
  pi_memory_id :: uuid
  pi_statement :: pystr
  pi_kind :: memory_kind
  pi_knowledge_state :: knowledge_state
  pi_lifecycle :: memory_lifecycle
  pi_confidence :: int
  pi_importance :: int
  pi_valid_from :: instant
  pi_valid_to :: "instant option"
  pi_provenance :: "package_source list"
  pi_provenance_omitted_count :: nat
  pi_lexical_relevance :: "int option"
  pi_model_access :: memory_model_access

text \<open>The seven lists of items of a package, by the name of their field.\<close>

datatype package_group = FACTS | DECISIONS | PREFERENCES | CONSTRAINTS | RELEVANT_EVENTS | RELEVANT_NOTES | DISPUTED_ITEMS

definition GROUP_NAMES :: "package_group list" where
  "GROUP_NAMES = [FACTS, DECISIONS, PREFERENCES, CONSTRAINTS, RELEVANT_EVENTS, RELEVANT_NOTES, DISPUTED_ITEMS]"

definition GROUP_BY_KIND :: "memory_kind \<Rightarrow> package_group" where
  "GROUP_BY_KIND v = (case v of FACT \<Rightarrow> FACTS | DECISION \<Rightarrow> DECISIONS | PREFERENCE \<Rightarrow> PREFERENCES
     | CONSTRAINT \<Rightarrow> CONSTRAINTS | EVENT \<Rightarrow> RELEVANT_EVENTS | NOTE \<Rightarrow> RELEVANT_NOTES)"

type_synonym groups = "package_group \<Rightarrow> package_item list"

record context_package =
  cp_workspace_id :: uuid
  cp_project_id :: "uuid option"
  cp_task_id :: "uuid option"
  cp_workflow_run_id :: "uuid option"
  cp_assembled_at :: instant
  cp_as_of :: instant
  cp_groups :: groups
  cp_included_count :: nat
  cp_omitted_count :: nat
  cp_provenance_omitted_count :: nat
  cp_policy_omitted_count :: nat
  cp_serialized_bytes :: nat
  cp_bounds :: package_bounds

definition items_of :: "groups \<Rightarrow> package_item list" where
  "items_of g = concat (map g GROUP_NAMES)"

definition group_total :: "groups \<Rightarrow> nat" where
  "group_total g = sum_list (map (\<lambda>name. length (g name)) GROUP_NAMES)"

section \<open>The size of a package\<close>

text \<open>
  The size is part of what is measured: it is set and measured again until it stays the same, at
  most four times; \<open>None\<close> is the \<open>RuntimeError\<close> of a size that did not converge.
\<close>

primrec settle_size :: "nat \<Rightarrow> (nat \<Rightarrow> nat) \<Rightarrow> nat \<Rightarrow> nat option" where
  "settle_size 0 measured bytes = None"
| "settle_size (Suc n) measured bytes =
    (let next_size = measured bytes in if next_size = bytes then Some bytes else settle_size n measured next_size)"

definition serialized_size :: "(context_package \<Rightarrow> nat) \<Rightarrow> context_package \<Rightarrow> nat option" where
  "serialized_size json p = settle_size 4 (\<lambda>n. json (p\<lparr>cp_serialized_bytes := n\<rparr>)) (cp_serialized_bytes p)"

section \<open>Assembly\<close>

definition make_package ::
  "uuid \<Rightarrow> retrieval_request \<Rightarrow> instant \<Rightarrow> instant \<Rightarrow> groups \<Rightarrow> nat \<Rightarrow> nat \<Rightarrow> package_bounds \<Rightarrow> exn + context_package" where
  "make_package workspace_id q as_of assembled_at g total_results provenance_omitted bounds =
    (let included = group_total g in
     if rr_task_id q \<noteq> None \<and> rr_project_id q = None \<or> total_results < included then Inl ValidationError
     else Inr \<lparr>cp_workspace_id = workspace_id, cp_project_id = rr_project_id q, cp_task_id = rr_task_id q,
       cp_workflow_run_id = rr_workflow_run_id q, cp_assembled_at = assembled_at, cp_as_of = as_of, cp_groups = g,
       cp_included_count = included, cp_omitted_count = total_results - included,
       cp_provenance_omitted_count = provenance_omitted, cp_policy_omitted_count = 0, cp_serialized_bytes = 0,
       cp_bounds = bounds\<rparr>)"

definition make_item :: "retrieval_result \<Rightarrow> nat \<Rightarrow> package_bounds \<Rightarrow> package_item" where
  "make_item r remaining bounds =
    (let limit = min (pb_max_provenance_per_item bounds) remaining;
         retained = map (\<lambda>v. \<lparr>ps_id = pv_id v, ps_source_type = provenance_source_value (pv_source_type v),
           ps_source_reference_id = pv_source_reference_id v, ps_created_at = pv_created_at v\<rparr>)
           (take limit (rv_provenance r)) in
     \<lparr>pi_memory_id = rv_id r, pi_statement = rv_statement r, pi_kind = rv_kind r,
      pi_knowledge_state = rv_knowledge_state r, pi_lifecycle = rv_lifecycle r, pi_confidence = rv_confidence r,
      pi_importance = rv_importance r, pi_valid_from = rv_valid_from r, pi_valid_to = rv_valid_to r,
      pi_provenance = retained, pi_provenance_omitted_count = length (rv_provenance r) - length retained,
      pi_lexical_relevance = rv_lexical_relevance r, pi_model_access = rv_model_access r\<rparr>)"

definition result_in_scope :: "uuid \<Rightarrow> retrieval_request \<Rightarrow> retrieval_result \<Rightarrow> bool" where
  "result_in_scope workspace_id q r =
    (rv_workspace_id r = workspace_id \<and> opt_all (\<lambda>v. rv_project_id r = Some v) (rr_project_id q) \<and>
     opt_all (\<lambda>v. rv_task_id r = Some v) (rr_task_id q) \<and>
     opt_all (\<lambda>v. rv_workflow_run_id r = Some v) (rr_workflow_run_id q))"

definition group_of :: "retrieval_result \<Rightarrow> package_group" where
  "group_of r = (if rv_knowledge_state r = DISPUTED then DISPUTED_ITEMS else GROUP_BY_KIND (rv_kind r))"

text \<open>The groups filled so far, and the sources kept and left out.\<close>

type_synonym assembly = "groups \<times> nat \<times> nat"

definition assemble_step ::
  "(context_package \<Rightarrow> nat) \<Rightarrow> uuid \<Rightarrow> retrieval_request \<Rightarrow> instant \<Rightarrow> instant \<Rightarrow> nat \<Rightarrow> package_bounds \<Rightarrow>
     retrieval_result \<Rightarrow> assembly \<Rightarrow> exn + assembly" where
  "assemble_step json workspace_id q as_of assembled_at total_results bounds r a =
    (case a of (g, retained, omitted) \<Rightarrow>
     if pb_max_items bounds \<le> group_total g then Inr a
     else let item = make_item r (pb_max_provenance_references bounds - retained) bounds;
              name = group_of r; g' = g(name := g name @ [item]) in
     case make_package workspace_id q as_of assembled_at g' total_results
         (omitted + pi_provenance_omitted_count item) bounds of
       Inl e \<Rightarrow> Inl e
     | Inr candidate \<Rightarrow> (case serialized_size json candidate of
         None \<Rightarrow> Inl (PythonError ''RuntimeError'')
       | Some n \<Rightarrow> if pb_max_serialized_bytes bounds < n then Inr a
           else Inr (g', retained + length (pi_provenance item), omitted + pi_provenance_omitted_count item)))"

primrec assemble_all :: "(retrieval_result \<Rightarrow> assembly \<Rightarrow> exn + assembly) \<Rightarrow> retrieval_result list \<Rightarrow> assembly \<Rightarrow>
    exn + assembly" where
  "assemble_all f [] a = Inr a"
| "assemble_all f (r # rs) a = (case f r a of Inl e \<Rightarrow> Inl e | Inr a' \<Rightarrow> assemble_all f rs a')"

definition sized_package :: "(context_package \<Rightarrow> nat) \<Rightarrow> context_package \<Rightarrow> exn + context_package" where
  "sized_package json p =
    (case serialized_size json p of
       None \<Rightarrow> Inl (PythonError ''RuntimeError'')
     | Some n \<Rightarrow> if pb_max_serialized_bytes (cp_bounds p) < n then Inl (PythonError ''RuntimeError'')
                 else Inr (p\<lparr>cp_serialized_bytes := n\<rparr>))"

definition assemble_context_package ::
  "(context_package \<Rightarrow> nat) \<Rightarrow> retrieval_result list \<Rightarrow> uuid \<Rightarrow> retrieval_request \<Rightarrow> instant \<Rightarrow> instant \<Rightarrow>
     package_bounds \<Rightarrow> exn + context_package" where
  "assemble_context_package json results workspace_id q as_of assembled_at bounds =
    (if \<not> list_all (result_in_scope workspace_id q) results then Inl (PythonError ''ValueError'')
     else case assemble_all (assemble_step json workspace_id q as_of assembled_at (length results) bounds) results
         (\<lambda>_. [], 0, 0) of
       Inl e \<Rightarrow> Inl e
     | Inr (g, retained, omitted) \<Rightarrow>
         (case make_package workspace_id q as_of assembled_at g (length results) omitted bounds of
            Inl e \<Rightarrow> Inl e
          | Inr p \<Rightarrow> sized_package json p))"

section \<open>Restriction to an execution target\<close>

definition eligible_for :: "execution_target_class \<Rightarrow> package_item \<Rightarrow> bool" where
  "eligible_for target item = (evaluate_memory_disclosure (pi_model_access item) target = None)"

text \<open>A count below zero cannot arise: the items withheld are among the included ones.\<close>

definition restricted_package :: "context_package \<Rightarrow> execution_target_class \<Rightarrow> context_package" where
  "restricted_package p target =
    (let withheld = length (filter (\<lambda>item. \<not> eligible_for target item) (items_of (cp_groups p))) in
     p\<lparr>cp_groups := \<lambda>name. filter (eligible_for target) (cp_groups p name),
       cp_included_count := cp_included_count p - withheld, cp_omitted_count := cp_omitted_count p + withheld,
       cp_policy_omitted_count := cp_policy_omitted_count p + withheld, cp_serialized_bytes := 0\<rparr>)"

definition filter_context_package_for_target ::
  "(context_package \<Rightarrow> nat) \<Rightarrow> context_package \<Rightarrow> execution_target_class \<Rightarrow> exn + context_package" where
  "filter_context_package_for_target json p target = sized_package json (restricted_package p target)"

section \<open>Retrieval of a package\<close>

definition retrieve_context_package ::
  "(context_package \<Rightarrow> nat) \<Rightarrow> text_search \<Rightarrow> uuid \<Rightarrow> uuid \<Rightarrow> retrieval_request \<Rightarrow> instant option \<Rightarrow>
     package_bounds \<Rightarrow> context_package prog" where
  "retrieve_context_package json lib tenant_id workspace_id q assembled_at bounds =
     bnd (case assembled_at of Some t \<Rightarrow> ret t | None \<Rightarrow> now_utc) (\<lambda>captured.
     bnd (retrieve_memories lib tenant_id workspace_id q) (\<lambda>(found, as_of).
     bnd (require ValidationError (all_some (map MemoryRetrievalResult found))) (\<lambda>results.
     case assemble_context_package json results workspace_id q as_of captured bounds of
       Inl e \<Rightarrow> throw e
     | Inr p \<Rightarrow> ret p)))"

section \<open>Sizes converge\<close>

lemma nat_str_le: "0 < k \<Longrightarrow> length (nat_str n) \<le> k \<longleftrightarrow> n < 10 ^ k"
proof (induction n arbitrary: k rule: nat_str.induct)
  case (1 n)
  show ?case
  proof (cases "n < 10")
    case True
    have "10 ^ 1 \<le> (10::nat) ^ k" using 1(2) by (intro power_increasing) simp_all
    with True show ?thesis using 1(2) by (simp add: nat_str.simps [of n])
  next
    case False
    obtain j where j: "k = Suc j" using 1(2) by (cases k) simp_all
    show ?thesis
    proof (cases "j = 0")
      case True
      then show ?thesis using False j by (simp add: nat_str.simps [of n] nat_str.simps [of "n div 10"])
    next
      case nonzero: False
      then show ?thesis using 1(1) [OF False, of j] False j
        by (simp add: nat_str.simps [of n] div_less_iff_less_mult mult.commute)
    qed
  qed
qed

lemma nat_str_pos: "0 < length (nat_str n)"
  by (simp add: nat_str.simps [of n])

lemma nat_str_mono: "m \<le> n \<Longrightarrow> length (nat_str m) \<le> length (nat_str n)"
  using nat_str_le [OF nat_str_pos [of n], of m] nat_str_le [OF nat_str_pos [of n], of n] by simp

text \<open>
  A length that counts its own digits, from zero digits known: after the second measurement the
  number of digits no longer changes.
\<close>

lemma digits_settle:
  fixes b :: nat
  defines "n1 \<equiv> b + length (nat_str 0)" and "n2 \<equiv> b + length (nat_str (b + length (nat_str 0)))"
  shows "b + length (nat_str (b + length (nat_str n2))) = b + length (nat_str n2)"
proof -
  let ?k = "length (nat_str n1)"
  have k: "0 < ?k" "n1 < 10 ^ ?k" using nat_str_pos nat_str_le [OF nat_str_pos [of n1], of n1] by simp_all
  have "?k < 2 ^ ?k" by (rule less_exp)
  also have "(2::nat) ^ ?k \<le> 10 ^ ?k" by (rule power_mono) simp_all
  finally have small: "?k < 10 ^ ?k" .
  have le: "Suc n2 = n1 + ?k" by (simp add: n1_def n2_def nat_str.simps [of 0])
  with k small have bound: "Suc n2 < 10 ^ Suc ?k" by simp
  have low: "?k \<le> length (nat_str n2)" using nat_str_mono [of n1 n2] le k by simp
  have n2: "n2 = b + ?k" by (simp add: n1_def n2_def)
  show ?thesis
  proof (cases "length (nat_str n2) = ?k")
    case True
    then show ?thesis using n2 by simp
  next
    case False
    have "length (nat_str n2) \<le> Suc ?k" using bound nat_str_le [of "Suc ?k" n2] by simp
    with False low have d: "length (nat_str n2) = Suc ?k" by simp
    have "length (nat_str (Suc n2)) \<le> Suc ?k" using bound nat_str_le [of "Suc ?k" "Suc n2"] by simp
    with nat_str_mono [of n2 "Suc n2"] d have "length (nat_str (Suc n2)) = Suc ?k" by simp
    then show ?thesis using d n2 by simp
  qed
qed

text \<open>
  What pydantic writes: the field is a decimal number and nothing else of the text depends on it.
\<close>

definition size_law :: "(context_package \<Rightarrow> nat) \<Rightarrow> bool" where
  "size_law json \<longleftrightarrow> (\<forall>p n. json (p\<lparr>cp_serialized_bytes := n\<rparr>) =
     json (p\<lparr>cp_serialized_bytes := 0\<rparr>) - 1 + length (nat_str n))"

lemma settle_measured: "settle_size k f n = Some m \<Longrightarrow> f m = m"
  by (induction k arbitrary: n) (auto simp: Let_def split: if_splits)

lemma serialized_size_measured:
  "serialized_size json p = Some n \<Longrightarrow> json (p\<lparr>cp_serialized_bytes := n\<rparr>) = n"
  unfolding serialized_size_def by (rule settle_measured)

lemma serialized_size_Some:
  assumes "size_law json" and "cp_serialized_bytes p = 0"
  obtains n where "serialized_size json p = Some n"
proof -
  let ?f = "\<lambda>n. json (p\<lparr>cp_serialized_bytes := n\<rparr>)"
  define b where "b = ?f 0 - 1"
  have f: "?f n = b + length (nat_str n)" for n
    using assms(1) unfolding size_law_def b_def by blast
  have "\<exists>n. settle_size (Suc (Suc (Suc (Suc 0)))) (\<lambda>n. b + length (nat_str n)) 0 = Some n"
    using digits_settle [of b] by (simp add: Let_def)
  then show thesis using that assms(2) by (auto simp: serialized_size_def f numeral_eq_Suc)
qed

section \<open>What an assembly keeps\<close>

lemma set_groups: "item \<in> set (g name) \<Longrightarrow> item \<in> set (items_of g)"
  by (cases name) (auto simp: items_of_def GROUP_NAMES_def)

lemma groups_add:
  "sum_list (map h (items_of (g(name := g name @ [x])))) = sum_list (map h (items_of g)) + (h x :: nat)"
  "set (items_of (g(name := g name @ [x]))) = insert x (set (items_of g))"
  "group_total (g(name := g name @ [x])) = Suc (group_total g)"
  by (cases name; auto simp: items_of_def group_total_def GROUP_NAMES_def)+

lemma group_total_items: "group_total g = length (items_of g)"
  by (simp add: group_total_def items_of_def length_concat o_def)

text \<open>An item carries the fields of a result, with the first of its sources.\<close>

definition represents :: "retrieval_result \<Rightarrow> package_item \<Rightarrow> bool" where
  "represents r item \<longleftrightarrow> (\<exists>remaining bounds. item = make_item r remaining bounds)"

definition in_order :: "retrieval_result list \<Rightarrow> groups \<Rightarrow> bool" where
  "in_order results g \<longleftrightarrow> (\<forall>name. \<exists>kept. subseq kept (filter (\<lambda>r. group_of r = name) results) \<and>
     list_all2 represents kept (g name))"

lemma in_orderD:
  assumes "in_order results g" and "item \<in> set (g name)"
  shows "\<exists>r \<in> set results. represents r item"
proof -
  from assms(1) obtain kept where kept: "subseq kept (filter (\<lambda>r. group_of r = name) results)"
    "list_all2 represents kept (g name)" unfolding in_order_def by blast
  from assms(2) obtain k where k: "k < length (g name)" "g name ! k = item" by (auto simp: in_set_conv_nth)
  with kept(2) have rep: "kept ! k \<in> set kept" "represents (kept ! k) item"
    by (auto simp: list_all2_conv_all_nth)
  show ?thesis by (rule list_emb_set [OF kept(1) rep(1)]) (use rep(2) in auto)
qed

lemma in_order_skip: "in_order rs g \<Longrightarrow> in_order (rs @ [r]) g"
  unfolding in_order_def filter_append by (blast intro: list_emb_append2 subseq_rev_drop_many)

lemma in_order_add:
  assumes "in_order rs g" and "represents r item"
  shows "in_order (rs @ [r]) (g(group_of r := g (group_of r) @ [item]))"
  unfolding in_order_def
proof
  fix name
  from assms(1) obtain kept where kept: "subseq kept (filter (\<lambda>r. group_of r = name) rs)"
    "list_all2 represents kept (g name)" unfolding in_order_def by blast
  show "\<exists>kept. subseq kept (filter (\<lambda>r. group_of r = name) (rs @ [r])) \<and>
      list_all2 represents kept ((g(group_of r := g (group_of r) @ [item])) name)"
  proof (cases "name = group_of r")
    case True
    with kept assms(2) show ?thesis by (intro exI [of _ "kept @ [r]"]) (simp add: list_all2_appendI)
  next
    case False
    with kept show ?thesis by auto
  qed
qed

text \<open>What the assembly has after the results \<open>seen\<close>.\<close>

definition assembled :: "package_bounds \<Rightarrow> retrieval_result list \<Rightarrow> assembly \<Rightarrow> bool" where
  "assembled bounds seen a \<longleftrightarrow> (case a of (g, retained, omitted) \<Rightarrow>
     group_total g \<le> pb_max_items bounds \<and> group_total g \<le> length seen \<and>
     retained = sum_list (map (\<lambda>i. length (pi_provenance i)) (items_of g)) \<and>
     retained \<le> pb_max_provenance_references bounds \<and>
     omitted = sum_list (map pi_provenance_omitted_count (items_of g)) \<and>
     (\<forall>i \<in> set (items_of g). length (pi_provenance i) \<le> pb_max_provenance_per_item bounds) \<and> in_order seen g)"

lemma assembled_nothing: "assembled bounds [] (\<lambda>_. [], 0, 0)"
  by (simp add: assembled_def items_of_def group_total_def GROUP_NAMES_def in_order_def)

lemma assembled_step:
  assumes "assembled bounds seen a" and "assemble_step json w q t t' total_results bounds r a = Inr a'"
  shows "assembled bounds (seen @ [r]) a'"
proof -
  obtain g retained omitted where a: "a = (g, retained, omitted)" by (cases a)
  define item where "item = make_item r (pb_max_provenance_references bounds - retained) bounds"
  have item: "length (pi_provenance item) \<le> pb_max_provenance_per_item bounds"
      "length (pi_provenance item) \<le> pb_max_provenance_references bounds - retained"
    by (simp_all add: item_def make_item_def Let_def)
  have rep: "represents r item" by (auto simp: represents_def item_def)
  have "a' = a \<or> group_total g < pb_max_items bounds \<and> a' = (g(group_of r := g (group_of r) @ [item]),
      retained + length (pi_provenance item), omitted + pi_provenance_omitted_count item)"
    using assms(2) by (auto simp: assemble_step_def a item_def Let_def split: if_splits sum.splits option.splits)
  then show ?thesis
  proof
    assume "a' = a"
    with assms(1) show ?thesis by (auto simp: assembled_def a in_order_skip)
  next
    assume "group_total g < pb_max_items bounds \<and> a' = (g(group_of r := g (group_of r) @ [item]),
      retained + length (pi_provenance item), omitted + pi_provenance_omitted_count item)"
    with assms(1) item in_order_add [OF _ rep] show ?thesis by (auto simp: assembled_def a groups_add)
  qed
qed

lemma assembled_all:
  "assembled bounds seen a \<Longrightarrow> assemble_all (assemble_step json w q t t' total_results bounds) rs a = Inr a' \<Longrightarrow>
     assembled bounds (seen @ rs) a'"
proof (induction rs arbitrary: seen a)
  case (Cons r rs)
  then show ?case using assembled_step [OF Cons.prems(1)]
    by (fastforce split: sum.splits)
qed simp

lemma assembled_package:
  assumes "assemble_context_package json results w q t t' bounds = Inr p"
  obtains retained omitted where "assembled bounds results (cp_groups p, retained, omitted)"
    and "make_package w q t t' (cp_groups p) (length results) omitted bounds = Inr (p\<lparr>cp_serialized_bytes := 0\<rparr>)"
    and "json p = cp_serialized_bytes p" and "cp_serialized_bytes p \<le> pb_max_serialized_bytes bounds"
    and "list_all (result_in_scope w q) results"
proof -
  from assms obtain g retained omitted e n where
    all: "assemble_all (assemble_step json w q t t' (length results) bounds) results (\<lambda>_. [], 0, 0) =
        Inr (g, retained, omitted)"
    and e: "make_package w q t t' g (length results) omitted bounds = Inr e"
    and n: "serialized_size json e = Some n" and p: "n \<le> pb_max_serialized_bytes (cp_bounds e)"
      "p = e\<lparr>cp_serialized_bytes := n\<rparr>" and scope: "list_all (result_in_scope w q) results"
    by (auto simp: assemble_context_package_def sized_package_def split: sum.splits prod.splits option.splits if_splits)
  have e': "cp_groups e = g" "cp_bounds e = bounds" "cp_serialized_bytes e = 0"
    using e by (auto simp: make_package_def Let_def split: if_splits)
  have "assembled bounds ([] @ results) (g, retained, omitted)" by (rule assembled_all [OF assembled_nothing all])
  moreover have "p\<lparr>cp_serialized_bytes := 0\<rparr> = e" using p e' by simp
  ultimately show thesis
    using that [of retained omitted] e e' p scope serialized_size_measured [OF n] by simp
qed

text \<open>What has been taken so far makes a package whose size is within the bound.\<close>

definition fits :: "(context_package \<Rightarrow> nat) \<Rightarrow> uuid \<Rightarrow> retrieval_request \<Rightarrow> instant \<Rightarrow> instant \<Rightarrow> nat \<Rightarrow> package_bounds \<Rightarrow>
    assembly \<Rightarrow> bool" where
  "fits json w q t t' total_results bounds a \<longleftrightarrow> (case a of (g, retained, omitted) \<Rightarrow>
     \<exists>p n. make_package w q t t' g total_results omitted bounds = Inr p \<and> serialized_size json p = Some n \<and>
       n \<le> pb_max_serialized_bytes bounds)"

lemma make_package_sized:
  assumes "size_law json" and "rr_task_id q = None \<or> rr_project_id q \<noteq> None" and "group_total g \<le> total_results"
  obtains p n where "make_package w q t t' g total_results omitted bounds = Inr p" and "serialized_size json p = Some n"
proof -
  from assms(2,3) obtain p where p: "make_package w q t t' g total_results omitted bounds = Inr p"
    "cp_serialized_bytes p = 0" by (auto simp: make_package_def Let_def)
  from serialized_size_Some [OF assms(1) p(2)] p(1) that show thesis by blast
qed

lemma assemble_step_returns:
  assumes law: "size_law json" and q: "rr_task_id q = None \<or> rr_project_id q \<noteq> None"
    and a: "assembled bounds seen a" and room: "length seen < total_results"
    and fits: "fits json w q t t' total_results bounds a"
  obtains a' where "assemble_step json w q t t' total_results bounds r a = Inr a'"
    and "fits json w q t t' total_results bounds a'"
proof -
  obtain g retained omitted where eq: "a = (g, retained, omitted)" by (cases a)
  define item where "item = make_item r (pb_max_provenance_references bounds - retained) bounds"
  define g' where "g' = g(group_of r := g (group_of r) @ [item])"
  have "group_total g' \<le> total_results" using a room by (auto simp: g'_def groups_add assembled_def eq)
  from make_package_sized [OF law q this] obtain p n
    where p: "make_package w q t t' g' total_results (omitted + pi_provenance_omitted_count item) bounds = Inr p"
      "serialized_size json p = Some n" by blast
  show thesis
  proof (cases "pb_max_items bounds \<le> group_total g \<or> pb_max_serialized_bytes bounds < n")
    case True
    with p have "assemble_step json w q t t' total_results bounds r a = Inr a"
      by (auto simp: assemble_step_def eq item_def g'_def Let_def)
    with fits that show thesis by blast
  next
    case False
    with p have "assemble_step json w q t t' total_results bounds r a =
        Inr (g', retained + length (pi_provenance item), omitted + pi_provenance_omitted_count item)"
      by (simp add: assemble_step_def eq item_def g'_def Let_def)
    moreover have "fits json w q t t' total_results bounds
        (g', retained + length (pi_provenance item), omitted + pi_provenance_omitted_count item)"
      using p False by (simp add: fits_def)
    ultimately show thesis by (rule that)
  qed
qed

lemma assemble_all_returns:
  assumes "size_law json" and "rr_task_id q = None \<or> rr_project_id q \<noteq> None"
  shows "assembled bounds seen a \<Longrightarrow> length seen + length rs \<le> total_results \<Longrightarrow>
    fits json w q t t' total_results bounds a \<Longrightarrow>
    \<exists>a'. assemble_all (assemble_step json w q t t' total_results bounds) rs a = Inr a' \<and>
      fits json w q t t' total_results bounds a'"
proof (induction rs arbitrary: seen a)
  case (Cons r rs)
  from Cons.prems(2) have "length seen < total_results" by simp
  from assemble_step_returns [OF assms Cons.prems(1) this Cons.prems(3)] obtain a'
    where a': "assemble_step json w q t t' total_results bounds r a = Inr a'"
      "fits json w q t t' total_results bounds a'" by blast
  from Cons.IH [OF assembled_step [OF Cons.prems(1) a'(1)] _ a'(2)] Cons.prems(2) a'(1) show ?case by simp
qed simp

section \<open>Properties\<close>

text \<open>
  C37: Assembling a context package returns. With the size pydantic gives (the field
  \<open>serialized_bytes\<close> is written in decimal and counts its own digits) the measured size always
  settles within the four measurements; so for results in the requested scope, a task asked for
  with its project, and bounds that the package without items satisfies, a package is returned and
  none of the \<open>RuntimeError\<close>s is raised.
\<close>
theorem assemble_returns:
  assumes "size_law json" and "list_all (result_in_scope w q) results"
    and "rr_task_id q = None \<or> rr_project_id q \<noteq> None"
    and "make_package w q t t' (\<lambda>_. []) (length results) 0 bounds = Inr bare"
    and "sized_package json bare \<noteq> Inl (PythonError ''RuntimeError'')"
  shows "\<exists>p. assemble_context_package json results w q t t' bounds = Inr p"
proof -
  have bare: "cp_serialized_bytes bare = 0" "cp_bounds bare = bounds"
    using assms(4) by (auto simp: make_package_def Let_def split: if_splits)
  from serialized_size_Some [OF assms(1) bare(1)] obtain n where "serialized_size json bare = Some n" by blast
  with assms(4,5) bare(2) have "fits json w q t t' (length results) bounds (\<lambda>_. [], 0, 0)"
    by (auto simp: fits_def sized_package_def not_less split: if_splits)
  from assemble_all_returns [OF assms(1,3) assembled_nothing _ this, of results] obtain g retained omitted
    where all: "assemble_all (assemble_step json w q t t' (length results) bounds) results (\<lambda>_. [], 0, 0) =
        Inr (g, retained, omitted)"
      and fits: "fits json w q t t' (length results) bounds (g, retained, omitted)" by auto
  from fits obtain p m where p: "make_package w q t t' g (length results) omitted bounds = Inr p"
    "serialized_size json p = Some m" "m \<le> pb_max_serialized_bytes bounds" by (auto simp: fits_def)
  then have "cp_bounds p = bounds" by (auto simp: make_package_def Let_def split: if_splits)
  with p all assms(2) show ?thesis by (simp add: assemble_context_package_def sized_package_def)
qed

text \<open>
  C36: Every package that is assembled is within its bounds and accounts for what it leaves out: at
  most the allowed items, sources per item and sources in all; its recorded size is the size of its
  own JSON and within the limit; included and omitted items add up to the results, kept and omitted
  sources to those of the included items; and each group holds results of that group in retrieval
  order.
\<close>
theorem package_within_bounds:
  assumes "assemble_context_package json results w q t t' bounds = Inr p"
  shows "length (items_of (cp_groups p)) = cp_included_count p \<and> cp_included_count p \<le> pb_max_items bounds \<and>
    cp_included_count p + cp_omitted_count p = length results \<and>
    (\<forall>i \<in> set (items_of (cp_groups p)). length (pi_provenance i) \<le> pb_max_provenance_per_item bounds) \<and>
    sum_list (map (\<lambda>i. length (pi_provenance i)) (items_of (cp_groups p))) \<le> pb_max_provenance_references bounds \<and>
    cp_provenance_omitted_count p = sum_list (map pi_provenance_omitted_count (items_of (cp_groups p))) \<and>
    json p = cp_serialized_bytes p \<and> cp_serialized_bytes p \<le> pb_max_serialized_bytes bounds \<and>
    in_order results (cp_groups p)"
proof -
  from assembled_package [OF assms] obtain retained omitted
    where a: "assembled bounds results (cp_groups p, retained, omitted)"
      and m: "make_package w q t t' (cp_groups p) (length results) omitted bounds = Inr (p\<lparr>cp_serialized_bytes := 0\<rparr>)"
      and n: "json p = cp_serialized_bytes p" "cp_serialized_bytes p \<le> pb_max_serialized_bytes bounds" by blast
  from m have "cp_included_count p = group_total (cp_groups p)" "cp_provenance_omitted_count p = omitted"
    "cp_omitted_count p = length results - group_total (cp_groups p)"
    by (auto simp: make_package_def Let_def split: if_splits
        dest: arg_cong [where f = cp_included_count] arg_cong [where f = cp_provenance_omitted_count]
          arg_cong [where f = cp_omitted_count])
  with a n show ?thesis by (simp add: assembled_def group_total_items)
qed

text \<open>
  A retrieved package stands for stored rows: every item carries the statement and the access of a
  row that the request admits.
\<close>

definition backed :: "db \<Rightarrow> uuid \<Rightarrow> instant \<Rightarrow> retrieval_request \<Rightarrow> package_item \<Rightarrow> memory_record \<Rightarrow> bool" where
  "backed d w t q item r \<longleftrightarrow> r \<in> set (memory_records d) \<and> admissible w t q r \<and> me_id r = pi_memory_id item \<and>
     me_statement r = pi_statement item \<and> me_model_access r = memory_model_access_value (pi_model_access item)"

lemma all_some_eq: "all_some xs = Some ys \<longleftrightarrow> xs = map Some ys"
proof
  assume "all_some xs = Some ys"
  then have "\<forall>x \<in> set xs. x \<noteq> None" "ys = map the xs"
    by (auto simp: all_some_def list_all_iff split: if_splits)
  then show "xs = map Some ys" by (auto intro!: nth_equalityI)
qed (simp add: all_some_def list_all_iff o_def)

lemma MemoryRetrievalResult_fields:
  "MemoryRetrievalResult m = Some r \<Longrightarrow> rv_id r = me_id (mv_record m) \<and> rv_statement r = me_statement (mv_record m) \<and>
     memory_model_access_value (rv_model_access r) = me_model_access (mv_record m)"
  by (auto simp: MemoryRetrievalResult_def Let_def split: option.splits dest: member_of_Some)

lemma Inr_runs_pure:
  "(case x of Inl e \<Rightarrow> throw e | Inr a \<Rightarrow> ret a) s = (Inr b, t) \<longleftrightarrow> x = Inr b \<and> t = s"
  by (auto simp: Inr_runs split: sum.splits)

lemma retrieve_context_package_runs:
  assumes "retrieve_context_package json lib t w q t' bounds s = (Inr p, u)"
  shows "has_workspace (working s) t w"
    and "item \<in> set (items_of (cp_groups p)) \<Longrightarrow> \<exists>r. backed (working s) w (cp_as_of p) q item r"
    and "cp_bounds p = bounds"
proof -
  obtain captured s1 where s1: "(case t' of Some t \<Rightarrow> ret t | None \<Rightarrow> now_utc) s = (Inr captured, s1)"
    and rest: "bnd (retrieve_memories lib t w q) (\<lambda>(found, as_of).
      bnd (require ValidationError (all_some (map MemoryRetrievalResult found))) (\<lambda>results.
      case assemble_context_package json results w q as_of captured bounds of
        Inl e \<Rightarrow> throw e | Inr p \<Rightarrow> ret p)) s1 = (Inr p, u)"
    using iffD1 [OF Inr_runs(3) assms [unfolded retrieve_context_package_def]] by blast
  obtain x s2 where "retrieve_memories lib t w q s1 = (Inr x, s2)"
    and rest: "(case x of (found, as_of) \<Rightarrow>
      bnd (require ValidationError (all_some (map MemoryRetrievalResult found))) (\<lambda>results.
      case assemble_context_package json results w q as_of captured bounds of
        Inl e \<Rightarrow> throw e | Inr p \<Rightarrow> ret p)) s2 = (Inr p, u)"
    using iffD1 [OF Inr_runs(3) rest] by blast
  moreover obtain found as_of where x: "x = (found, as_of)" by (cases x)
  ultimately have found: "retrieve_memories lib t w q s1 = (Inr (found, as_of), s2)" by simp
  obtain results where results: "map MemoryRetrievalResult found = map Some results"
    and p: "assemble_context_package json results w q as_of captured bounds = Inr p"
    using rest unfolding x prod.case Inr_runs(3) Inr_runs_option Inr_runs_pure all_some_eq by blast
  have w: "working s1 = working s" using s1 by (auto simp: Inr_runs split: option.splits)
  note runs = retrieve_runs [OF found, unfolded w]
  show "has_workspace (working s) t w" by (fact runs(2))
  from assembled_package [OF p] obtain omitted where order: "in_order results (cp_groups p)"
    and m: "make_package w q as_of captured (cp_groups p) (length results) omitted bounds =
      Inr (p\<lparr>cp_serialized_bytes := 0\<rparr>)" by (auto simp: assembled_def)
  show "cp_bounds p = bounds"
    using m by (auto simp: make_package_def Let_def split: if_splits dest: arg_cong [where f = cp_bounds])
  have as_of: "cp_as_of p = as_of"
    using m by (auto simp: make_package_def Let_def split: if_splits dest: arg_cong [where f = cp_as_of])
  assume "item \<in> set (items_of (cp_groups p))"
  then obtain name where "item \<in> set (cp_groups p name)" by (auto simp: items_of_def)
  with order obtain r where r: "r \<in> set results" "represents r item" by (blast dest: in_orderD)
  from r(1) results obtain k where "k < length found" "MemoryRetrievalResult (found ! k) = Some r"
    by (metis in_set_conv_nth length_map nth_map)
  with MemoryRetrievalResult_fields runs(3) r(2) show "\<exists>r. backed (working s) w (cp_as_of p) q item r"
    by (intro exI [of _ "mv_record (found ! k)"]) (auto simp: backed_def as_of represents_def make_item_def Let_def)
qed

lemma sized_packageE:
  assumes "sized_package json p = Inr f"
  obtains n where "serialized_size json p = Some n" and "n \<le> pb_max_serialized_bytes (cp_bounds p)"
    and "f = p\<lparr>cp_serialized_bytes := n\<rparr>"
  using assms by (auto simp: sized_package_def split: option.splits if_splits)

lemma backed_remote:
  assumes "backed d w t q item r" and "memory_record_checks r" and "pi_model_access item = LOCAL_AND_REMOTE"
  shows "me_workspace_id r = w" and "me_valid_from r \<le> t" and "opt_all (\<lambda>e. t < e) (me_valid_to r)"
    and "me_model_access r = ''LOCAL_AND_REMOTE''" and "me_sensitivity r \<noteq> ''RESTRICTED''"
proof -
  from assms(1) have a: "admissible w t q r" and m: "me_model_access r = memory_model_access_value (pi_model_access item)"
    by (simp_all add: backed_def)
  from a show "me_workspace_id r = w" "me_valid_from r \<le> t" "opt_all (\<lambda>e. t < e) (me_valid_to r)"
    by (simp_all add: admissible_def)
  from m show access: "me_model_access r = ''LOCAL_AND_REMOTE''"
    by (simp add: assms(3) memory_model_access_value_def)
  from assms(2) have "me_sensitivity r \<noteq> ''RESTRICTED'' \<or> me_model_access r = ''LOCAL_ONLY''"
    by (simp only: memory_record_checks_def simp_thms)
  then show "me_sensitivity r \<noteq> ''RESTRICTED''" by (simp add: access)
qed

lemma filtered_groups:
  assumes "filter_context_package_for_target json p target = Inr f"
  shows "items_of (cp_groups f) = filter (eligible_for target) (items_of (cp_groups p))"
    and "cp_as_of f = cp_as_of p" and "json f = cp_serialized_bytes f"
    and "cp_serialized_bytes f \<le> pb_max_serialized_bytes (cp_bounds p)"
proof -
  have p: "cp_groups (restricted_package p target) = (\<lambda>name. filter (eligible_for target) (cp_groups p name))"
    "cp_as_of (restricted_package p target) = cp_as_of p" "cp_bounds (restricted_package p target) = cp_bounds p"
    by (simp_all add: restricted_package_def Let_def)
  from sized_packageE [OF assms [unfolded filter_context_package_for_target_def]] obtain n
    where n: "serialized_size json (restricted_package p target) = Some n" "n \<le> pb_max_serialized_bytes (cp_bounds p)"
      "f = (restricted_package p target)\<lparr>cp_serialized_bytes := n\<rparr>" unfolding p(3) by blast
  show "items_of (cp_groups f) = filter (eligible_for target) (items_of (cp_groups p))"
    by (simp add: n(3) p(1) items_of_def GROUP_NAMES_def)
  show "cp_as_of f = cp_as_of p" "json f = cp_serialized_bytes f"
    "cp_serialized_bytes f \<le> pb_max_serialized_bytes (cp_bounds p)"
    using p n serialized_size_measured [OF n(1)] by simp_all
qed

text \<open>
  C8: What a model outside the deployment is shown. A package that is retrieved in a workspace of the
  tenant and restricted to a remote target holds exactly those of its items whose memory allows
  remote models; each is the statement of a stored memory of that workspace that is valid at the
  package's time, satisfies the request and is not RESTRICTED; and the restricted package is again
  within the size limit.
\<close>
theorem remote_package_discloses:
  assumes "retrieve_context_package json lib t w q t' bounds s = (Inr p, u)" and "constraints (working s)"
    and "filter_context_package_for_target json p REMOTE = Inr f"
  shows "has_workspace (working s) t w \<and> json f \<le> pb_max_serialized_bytes bounds \<and>
    items_of (cp_groups f) = filter (\<lambda>i. pi_model_access i = LOCAL_AND_REMOTE) (items_of (cp_groups p)) \<and>
    list_all (\<lambda>item. \<exists>r. backed (working s) w (cp_as_of f) q item r \<and> me_workspace_id r = w \<and>
      me_valid_from r \<le> cp_as_of f \<and> opt_all (\<lambda>e. cp_as_of f < e) (me_valid_to r) \<and>
      me_model_access r = ''LOCAL_AND_REMOTE'' \<and> me_sensitivity r \<noteq> ''RESTRICTED'') (items_of (cp_groups f))"
proof -
  note runs = retrieve_context_package_runs [OF assms(1)] and filtered = filtered_groups [OF assms(3)]
  have remote: "eligible_for REMOTE = (\<lambda>i. pi_model_access i = LOCAL_AND_REMOTE)"
    by (auto simp: fun_eq_iff eligible_for_def evaluate_memory_disclosure_def)
  have checks: "memory_record_checks r" if "r \<in> set (memory_records (working s))" for r
    using assms(2) that by (simp add: constraints_def memory_record_table_ok_def list_all_iff)
  have "\<exists>r. backed (working s) w (cp_as_of f) q item r \<and> me_workspace_id r = w \<and>
      me_valid_from r \<le> cp_as_of f \<and> opt_all (\<lambda>e. cp_as_of f < e) (me_valid_to r) \<and>
      me_model_access r = ''LOCAL_AND_REMOTE'' \<and> me_sensitivity r \<noteq> ''RESTRICTED''"
    if item: "item \<in> set (items_of (cp_groups f))" for item
  proof -
    from item have "item \<in> set (items_of (cp_groups p))" "pi_model_access item = LOCAL_AND_REMOTE"
      by (simp_all add: filtered(1) remote)
    with runs(2) obtain r where r: "backed (working s) w (cp_as_of f) q item r" by (auto simp: filtered(2))
    then have "memory_record_checks r" by (simp add: backed_def checks)
    from r backed_remote [OF r this \<open>pi_model_access item = LOCAL_AND_REMOTE\<close>] show ?thesis by blast
  qed
  with runs(1,3) filtered show ?thesis by (simp add: remote list_all_iff)
qed

section \<open>Witnesses\<close>

definition sample_memory :: "uuid \<Rightarrow> pystr \<Rightarrow> memory_record" where
  "sample_memory u access = \<lparr>me_id = u, me_workspace_id = 2, me_project_id = Some 3, me_task_id = None,
     me_workflow_run_id = None, me_kind = ''FACT'', me_knowledge_state = ''CONFIRMED_FACT'',
     me_statement = ''Tests pass'', me_confidence = 90, me_importance = 3, me_valid_from = 0, me_valid_to = None,
     me_lifecycle = ''ACTIVE'', me_sensitivity = ''INTERNAL'', me_model_access = access,
     me_created_at = 0, me_updated_at = 0\<rparr>"

definition sample_memory_db :: db where
  "sample_memory_db = sample_db\<lparr>memory_records := [sample_memory 50 ''LOCAL_ONLY'', sample_memory 51 ''LOCAL_AND_REMOTE''],
     memory_sources := [\<lparr>mo_id = 60, mo_memory_id = 51, mo_source_type = ''DOCUMENT'',
       mo_source_reference_id = Some ''README'', mo_created_at = 0\<rparr>]\<rparr>"

definition sample_retrieval :: retrieval_request where
  "sample_retrieval = \<lparr>rr_query = None, rr_project_id = Some 3, rr_task_id = None, rr_workflow_run_id = None,
     rr_kinds = None, rr_knowledge_states = None, rr_lifecycle = None, rr_as_of = Some 5,
     rr_min_confidence = None, rr_min_importance = None, rr_limit = 10\<rparr>"

definition sample_search :: text_search where
  "sample_search = \<lparr>ts_matches = \<lambda>q v. True, ts_rank = \<lambda>q v. 0\<rparr>"

text \<open>A concrete size: a fixed frame, a fixed length per item, and the digits of the size itself.\<close>

definition sample_json :: "context_package \<Rightarrow> nat" where
  "sample_json p = 400 + 300 * length (items_of (cp_groups p)) + length (nat_str (cp_serialized_bytes p))"

lemma sample_size_law: "size_law sample_json"
  by (simp add: size_law_def sample_json_def nat_str.simps [of 0])

lemma sample_memories_found:
  "case retrieve_memories sample_search 1 2 sample_retrieval (sample_session sample_memory_db) of
     (Inl e, u) \<Rightarrow> False
   | (Inr (found, as_of), u) \<Rightarrow> as_of = 5 \<and> found =
       [\<lparr>mv_record = sample_memory 50 ''LOCAL_ONLY'', mv_sources = [], mv_relevance = None\<rparr>,
        \<lparr>mv_record = sample_memory 51 ''LOCAL_AND_REMOTE'', mv_sources = memory_sources sample_memory_db,
         mv_relevance = None\<rparr>]"
  by code_simp

definition sample_found :: "uuid \<Rightarrow> memory_model_access \<Rightarrow> provenance_response list \<Rightarrow> retrieval_result" where
  "sample_found u access sources = \<lparr>rv_id = u, rv_workspace_id = 2, rv_project_id = Some 3, rv_task_id = None,
     rv_workflow_run_id = None, rv_kind = FACT, rv_knowledge_state = CONFIRMED_FACT, rv_statement = ''Tests pass'',
     rv_confidence = 90, rv_importance = 3, rv_valid_from = 0, rv_valid_to = None, rv_lifecycle = ACTIVE,
     rv_sensitivity = INTERNAL, rv_model_access = access, rv_created_at = 0, rv_updated_at = 0,
     rv_provenance = sources, rv_lexical_relevance = None\<rparr>"

definition sample_results :: "retrieval_result list" where
  "sample_results = [sample_found 50 LOCAL_ONLY [], sample_found 51 LOCAL_AND_REMOTE
     [\<lparr>pv_id = 60, pv_source_type = DOCUMENT, pv_source_reference_id = Some ''README'', pv_created_at = 0\<rparr>]]"

lemma sample_results_read:
  "map MemoryRetrievalResult
     [\<lparr>mv_record = sample_memory 50 ''LOCAL_ONLY'', mv_sources = [], mv_relevance = None\<rparr>,
      \<lparr>mv_record = sample_memory 51 ''LOCAL_AND_REMOTE'', mv_sources = memory_sources sample_memory_db,
       mv_relevance = None\<rparr>] = map Some sample_results"
  by code_simp

lemma short_numbers:
  "n < 10 \<Longrightarrow> length (nat_str n) = 1"
  "100 \<le> n \<Longrightarrow> n < 1000 \<Longrightarrow> length (nat_str n) = 3"
  "1000 \<le> n \<Longrightarrow> n < 10000 \<Longrightarrow> length (nat_str n) = 4"
  using nat_str_le [of 1 n] nat_str_le [of 2 n] nat_str_le [of 3 n] nat_str_le [of 4 n] nat_str_pos [of n] by (simp_all add: nat_str.simps [of n])

lemma settle_within_four:
  "f 0 = a \<Longrightarrow> f a = b \<Longrightarrow> f b = b \<Longrightarrow> a \<noteq> 0 \<Longrightarrow> a \<noteq> b \<Longrightarrow> settle_size 4 f 0 = Some b"
  by (simp add: eval_nat_numeral)

lemma sample_measured:
  "sample_json (p\<lparr>cp_serialized_bytes := n\<rparr>) = 400 + 300 * length (items_of (cp_groups p)) + length (nat_str n)"
  by (simp add: sample_json_def)

lemma sample_sizes:
  assumes "cp_serialized_bytes p = 0"
  shows "items_of (cp_groups p) = [] \<Longrightarrow> serialized_size sample_json p = Some 403"
    and "items_of (cp_groups p) = [i] \<Longrightarrow> serialized_size sample_json p = Some 703"
    and "items_of (cp_groups p) = [i, j] \<Longrightarrow> serialized_size sample_json p = Some 1004"
  using settle_within_four [where a = 401 and b = 403] settle_within_four [where a = 701 and b = 703]
    settle_within_four [where a = 1001 and b = 1004]
  by (simp_all add: serialized_size_def assms sample_measured short_numbers)

definition sample_items :: "package_item list" where
  "sample_items = map (\<lambda>r. make_item r 32 DEFAULT_CONTEXT_PACKAGE_BOUNDS) sample_results"

definition sample_package :: context_package where
  "sample_package = \<lparr>cp_workspace_id = 2, cp_project_id = Some 3, cp_task_id = None, cp_workflow_run_id = None,
     cp_assembled_at = 9, cp_as_of = 5, cp_groups = (\<lambda>_. [])(FACTS := sample_items), cp_included_count = 2,
     cp_omitted_count = 0, cp_provenance_omitted_count = 0, cp_policy_omitted_count = 0, cp_serialized_bytes = 0,
     cp_bounds = DEFAULT_CONTEXT_PACKAGE_BOUNDS\<rparr>"

lemmas sample_package_defs = sample_package_def sample_items_def sample_results_def sample_found_def
  sample_retrieval_def DEFAULT_CONTEXT_PACKAGE_BOUNDS_def make_item_def items_of_def group_total_def GROUP_NAMES_def
  group_of_def GROUP_BY_KIND_def make_package_def Let_def

lemma sample_steps:
  "assemble_step sample_json 2 sample_retrieval 5 9 2 DEFAULT_CONTEXT_PACKAGE_BOUNDS (sample_results ! 0) (\<lambda>_. [], 0, 0) =
     Inr ((\<lambda>_. [])(FACTS := [sample_items ! 0]), 0, 0)"
  "assemble_step sample_json 2 sample_retrieval 5 9 2 DEFAULT_CONTEXT_PACKAGE_BOUNDS (sample_results ! 1)
     ((\<lambda>_. [])(FACTS := [sample_items ! 0]), 0, 0) = Inr ((\<lambda>_. [])(FACTS := sample_items), 1, 0)"
  by (simp_all add: assemble_step_def sample_package_defs sample_sizes)

lemma sample_assembled:
  "assemble_context_package sample_json sample_results 2 sample_retrieval 5 9 DEFAULT_CONTEXT_PACKAGE_BOUNDS =
     Inr (sample_package\<lparr>cp_serialized_bytes := 1004\<rparr>)"
proof -
  have rs: "sample_results = [sample_results ! 0, sample_results ! 1]" by (simp add: sample_results_def)
  have scope: "list_all (result_in_scope 2 sample_retrieval) sample_results" by (simp add: sample_package_defs result_in_scope_def)
  have two: "length sample_results = 2" by (simp add: sample_results_def)
  have all: "assemble_all (assemble_step sample_json 2 sample_retrieval 5 9 2 DEFAULT_CONTEXT_PACKAGE_BOUNDS)
      sample_results (\<lambda>_. [], 0, 0) = Inr ((\<lambda>_. [])(FACTS := sample_items), 1, 0)"
    by (subst rs) (simp only: assemble_all.simps sample_steps sum.case)
  have make: "make_package 2 sample_retrieval 5 9 ((\<lambda>_. [])(FACTS := sample_items)) 2 0 DEFAULT_CONTEXT_PACKAGE_BOUNDS =
      Inr sample_package" by (simp add: sample_package_defs)
  have "serialized_size sample_json sample_package = Some 1004"
    by (rule sample_sizes(3) [where i = "sample_items ! 0" and j = "sample_items ! 1"]) (simp_all add: sample_package_defs)
  then show ?thesis
    by (simp add: assemble_context_package_def scope two all make sized_package_def)
      (simp add: sample_package_defs)
qed

lemma sample_filtered:
  "\<exists>f. filter_context_package_for_target sample_json (sample_package\<lparr>cp_serialized_bytes := 1004\<rparr>) REMOTE = Inr f \<and>
     items_of (cp_groups f) = [sample_items ! 1]"
  by (simp add: filter_context_package_for_target_def restricted_package_def sized_package_def sample_package_defs eligible_for_def
      evaluate_memory_disclosure_def sample_sizes)

lemma sample_retrieved:
  "\<exists>u. retrieve_context_package sample_json sample_search 1 2 sample_retrieval (Some 9)
       DEFAULT_CONTEXT_PACKAGE_BOUNDS (sample_session sample_memory_db) =
     (Inr (sample_package\<lparr>cp_serialized_bytes := 1004\<rparr>), u)"
proof -
  let ?found = "[\<lparr>mv_record = sample_memory 50 ''LOCAL_ONLY'', mv_sources = [], mv_relevance = None\<rparr>,
        \<lparr>mv_record = sample_memory 51 ''LOCAL_AND_REMOTE'', mv_sources = memory_sources sample_memory_db,
         mv_relevance = None\<rparr>]"
  obtain u where u: "retrieve_memories sample_search 1 2 sample_retrieval (sample_session sample_memory_db) =
      (Inr (?found, 5), u)"
    using sample_memories_found
    by (cases "retrieve_memories sample_search 1 2 sample_retrieval (sample_session sample_memory_db)")
      (auto split: sum.splits)
  have "all_some (map MemoryRetrievalResult ?found) = Some sample_results"
    unfolding all_some_eq by (rule sample_results_read)
  then show ?thesis
    unfolding retrieve_context_package_def bnd_def option.case ret_def u sum.case prod.case
    by (simp add: require_def sample_assembled ret_def)
qed

theorem assemble_returns_witness:
  "\<exists>p. assemble_context_package sample_json sample_results 2 sample_retrieval 5 9 DEFAULT_CONTEXT_PACKAGE_BOUNDS = Inr p"
proof (rule assemble_returns [OF sample_size_law])
  show "list_all (result_in_scope 2 sample_retrieval) sample_results" by (simp add: sample_package_defs result_in_scope_def)
  show "rr_task_id sample_retrieval = None \<or> rr_project_id sample_retrieval \<noteq> None" by (simp add: sample_retrieval_def)
  show "make_package 2 sample_retrieval 5 9 (\<lambda>_. []) (length sample_results) 0 DEFAULT_CONTEXT_PACKAGE_BOUNDS =
      Inr (sample_package\<lparr>cp_groups := \<lambda>_. [], cp_included_count := 0, cp_omitted_count := 2\<rparr>)"
    by (simp add: sample_package_defs)
  show "sized_package sample_json (sample_package\<lparr>cp_groups := \<lambda>_. [], cp_included_count := 0, cp_omitted_count := 2\<rparr>) \<noteq>
      Inl (PythonError ''RuntimeError'')"
    by (simp add: sized_package_def sample_sizes sample_package_defs)
qed

theorem package_within_bounds_witness:
  "in_order sample_results (cp_groups sample_package) \<and>
   sample_json (sample_package\<lparr>cp_serialized_bytes := 1004\<rparr>) \<le> pb_max_serialized_bytes DEFAULT_CONTEXT_PACKAGE_BOUNDS"
  using package_within_bounds [OF sample_assembled] by simp

theorem remote_package_discloses_witness:
  "\<exists>r. backed sample_memory_db 2 5 sample_retrieval (sample_items ! 1) r \<and> me_model_access r = ''LOCAL_AND_REMOTE''"
proof -
  have ok: "constraints (working (sample_session sample_memory_db))" by code_simp
  from sample_retrieved obtain u where run: "retrieve_context_package sample_json sample_search 1 2 sample_retrieval
      (Some 9) DEFAULT_CONTEXT_PACKAGE_BOUNDS (sample_session sample_memory_db) =
      (Inr (sample_package\<lparr>cp_serialized_bytes := 1004\<rparr>), u)" by blast
  from sample_filtered obtain f where f: "filter_context_package_for_target sample_json
      (sample_package\<lparr>cp_serialized_bytes := 1004\<rparr>) REMOTE = Inr f" "items_of (cp_groups f) = [sample_items ! 1]" by blast
  have "cp_as_of f = 5" using filtered_groups(2) [OF f(1)] by (simp add: sample_package_def)
  then show ?thesis using remote_package_discloses [OF run ok f(1)] f(2) by auto
qed

end
