(* ===== verification/Model_Router.thy ===== *)
theory Model_Router
  imports Model_Catalog "HOL-Library.AList"
begin

text \<open>
  The selection of a model for a request (\<open>modules/model_router\<close>): catalog rows and the routes that
  providers manage themselves become one target per identity, each target is judged against the
  request, and the best eligible one is selected. An estimated cost counts units of \<open>10\<^sup>-\<^sup>1\<^sup>6\<close>,
  millionths of the units of a price.
\<close>

section \<open>Contracts\<close>

datatype model_capability = REASONING | CODING | TOOL_CALLING | STRUCTURED_OUTPUT | VISION

definition capability_value :: "model_capability \<Rightarrow> pystr" where
  "capability_value c = (case c of REASONING \<Rightarrow> ''reasoning'' | CODING \<Rightarrow> ''coding''
     | TOOL_CALLING \<Rightarrow> ''tool_calling'' | STRUCTURED_OUTPUT \<Rightarrow> ''structured_output'' | VISION \<Rightarrow> ''vision'')"

definition ALL_CAPABILITIES :: "model_capability list" where
  "ALL_CAPABILITIES = [REASONING, CODING, TOOL_CALLING, STRUCTURED_OUTPUT, VISION]"

datatype cost_policy = LOWEST_COST | PREFER_FREE | FREE_ONLY

datatype routing_outcome = SELECTED | NO_SUITABLE_MODEL

datatype routing_reason = IS_AVAILABLE | CAPABILITIES_SATISFIED | CONTEXT_SATISFIED
  | PREFERRED_MODEL_ACCEPTED | PREFERRED_MODEL_REJECTED | FREE_ALLOWLIST_PREFERRED | FREE_ONLY_SATISFIED
  | LOWEST_KNOWN_ESTIMATED_COST | PRICING_UNKNOWN_DETERMINISTIC_SELECTION | PROVIDER_PREFERENCE_APPLIED
  | DETERMINISTIC_ID_TIE_BREAK | NO_AVAILABLE_MODELS | CONTEXT_UNSATISFIED | CAPABILITY_UNSATISFIED
  | FREE_ONLY_POOL_EMPTY | CONTRACT_ENFORCEMENT_UNSATISFIED

record routing_request =
  rq_required_capabilities :: "model_capability list"
  rq_context_tokens_estimate :: int
  rq_tool_calling_required :: bool
  rq_structured_output_required :: bool
  rq_vision_required :: bool
  rq_minimum_grade :: contract_enforcement_grade
  rq_expected_output_tokens :: "int option"
  rq_cost_policy :: cost_policy
  rq_preferred_provider :: "pystr option"
  rq_preferred_model_id :: "uuid option"

definition routing_request_valid :: "routing_request \<Rightarrow> bool" where
  "routing_request_valid q =
    (length (rq_required_capabilities q) \<le> 5 \<and> distinct (rq_required_capabilities q) \<and>
     1 \<le> rq_context_tokens_estimate q \<and> rq_context_tokens_estimate q \<le> 10000000 \<and>
     opt_all (\<lambda>n. 1 \<le> n \<and> n \<le> 1000000) (rq_expected_output_tokens q) \<and>
     opt_all (\<lambda>p. between 1 64 p \<and> fullmatch PROVIDER_IDENTIFIER p) (rq_preferred_provider q))"

text \<open>The settings the router reads: \<open>model_router_force_model_pair\<close> and the qualifications.\<close>

record router_settings =
  rs_forced_pair :: "(pystr \<times> pystr) option"
  rs_qualifications :: "qualification list"

definition qualifications_by_identity ::
  "qualification list \<Rightarrow> pystr \<times> pystr \<Rightarrow> qualification option" where
  "qualifications_by_identity qs =
     map_of (rev (map (\<lambda>q. ((ql_provider_id q, ql_provider_model_id q), q)) qs))"

section \<open>Targets\<close>

datatype target = Catalog model_definition | Managed managed_route

primrec tg_provider_id :: "target \<Rightarrow> pystr" where
  "tg_provider_id (Catalog m) = md_provider_id m"
| "tg_provider_id (Managed r) = rt_provider_id r"

primrec tg_provider_model_id :: "target \<Rightarrow> pystr" where
  "tg_provider_model_id (Catalog m) = md_provider_model_id m"
| "tg_provider_model_id (Managed r) = rt_provider_model_id r"

primrec tg_free_allowlisted :: "target \<Rightarrow> bool" where
  "tg_free_allowlisted (Catalog m) = md_free_allowlisted m"
| "tg_free_allowlisted (Managed r) = rt_free_allowlisted r"

primrec tg_context_window :: "target \<Rightarrow> int option" where
  "tg_context_window (Catalog m) = md_context_window m"
| "tg_context_window (Managed r) = rt_context_window r"

primrec tg_id :: "target \<Rightarrow> uuid option" where
  "tg_id (Catalog m) = Some (md_id m)"
| "tg_id (Managed r) = None"

primrec is_managed :: "target \<Rightarrow> bool" where
  "is_managed (Catalog m) = False"
| "is_managed (Managed r) = True"

definition identity :: "target \<Rightarrow> pystr \<times> pystr" where
  "identity t = (tg_provider_id t, tg_provider_model_id t)"

record canonical_targets =
  ct_targets :: "target list"
  ct_raw_representation_count :: nat
  ct_duplicate_identity_count :: nat
  ct_provider_managed_precedence_count :: nat

text \<open>
  One turn of the loop over the representations: the dictionary of targets, and how often a route
  took precedence.
\<close>

definition place ::
  "((pystr \<times> pystr) \<times> target) list \<times> nat \<Rightarrow> target \<Rightarrow> ((pystr \<times> pystr) \<times> target) list \<times> nat" where
  "place st t = (case st of (m, n) \<Rightarrow>
     (case map_of m (identity t) of
        None \<Rightarrow> (AList.update (identity t) t m, n)
      | Some existing \<Rightarrow>
          if is_managed t \<and> \<not> is_managed existing then (AList.update (identity t) t m, n + 1)
          else if is_managed existing \<and> \<not> is_managed t then (m, n + 1) else (m, n)))"

definition canonicalize_targets :: "model_definition list \<Rightarrow> managed_route list \<Rightarrow> canonical_targets" where
  "canonicalize_targets catalog_models virtual_routes =
    (let representations = map Catalog catalog_models @ map Managed virtual_routes;
         (m, n) = foldl place ([], 0) representations in
     \<lparr>ct_targets = map snd (sort_key fst m),
      ct_raw_representation_count = length representations,
      ct_duplicate_identity_count = length (filter (\<lambda>k. 1 < count_list (map identity representations) k)
        (remdups (map identity representations))),
      ct_provider_managed_precedence_count = n\<rparr>)"

section \<open>Judging a target\<close>

definition requirements :: "routing_request \<Rightarrow> model_capability set" where
  "requirements q = set (rq_required_capabilities q) \<union>
     (if rq_tool_calling_required q then {TOOL_CALLING} else {}) \<union>
     (if rq_structured_output_required q then {STRUCTURED_OUTPUT} else {}) \<union>
     (if rq_vision_required q then {VISION} else {})"

text \<open>\<open>getattr(model, capability.value)\<close>\<close>

definition catalog_capability :: "model_definition \<Rightarrow> model_capability \<Rightarrow> bool option" where
  "catalog_capability m c = (case c of REASONING \<Rightarrow> md_reasoning m | CODING \<Rightarrow> md_coding m
     | TOOL_CALLING \<Rightarrow> md_tool_calling m | STRUCTURED_OUTPUT \<Rightarrow> md_structured_output m | VISION \<Rightarrow> md_vision m)"

primrec has_capability :: "target \<Rightarrow> model_capability \<Rightarrow> bool" where
  "has_capability (Catalog m) c = (catalog_capability m c = Some True)"
| "has_capability (Managed r) c = (capability_value c \<in> set (rt_capabilities r))"

definition capabilities_satisfied :: "target \<Rightarrow> model_capability set \<Rightarrow> bool" where
  "capabilities_satisfied t required = (\<forall>c \<in> required. has_capability t c)"

definition estimate_cost :: "target \<Rightarrow> routing_request \<Rightarrow> int option" where
  "estimate_cost t q = (case t of Managed _ \<Rightarrow> None | Catalog m \<Rightarrow>
     (case (md_input_price_per_million m, md_currency m) of
        (Some ip, Some _) \<Rightarrow>
          (let total = decimal_mult (rq_context_tokens_estimate q) ip in
           case rq_expected_output_tokens q of
             None \<Rightarrow> Some total
           | Some n \<Rightarrow> map_option (\<lambda>up. decimal_add total (decimal_mult n up)) (md_output_price_per_million m))
      | _ \<Rightarrow> None))"

text \<open>No value: the stored grade is none of the known ones (\<open>ValueError\<close>).\<close>

definition enforcement_grade :: "target \<Rightarrow> qualification option \<Rightarrow> contract_enforcement_grade option" where
  "enforcement_grade t q = (case t of
     Managed r \<Rightarrow> Some (rt_contract_enforcement_grade r)
   | Catalog m \<Rightarrow> (case q of Some q' \<Rightarrow> Some (ql_grade q') | None \<Rightarrow> grade_of (md_contract_enforcement_grade m)))"

definition active_qualification :: "qualification list \<Rightarrow> target \<Rightarrow> qualification option" where
  "active_qualification qs t = (if is_managed t then None
     else (case qualifications_by_identity qs (identity t) of
         Some q \<Rightarrow> if ql_enabled q then Some q else None | None \<Rightarrow> None))"

record candidate =
  cd_model :: target
  cd_estimated_cost :: "int option"
  cd_qualification :: "qualification option"

datatype verdict = Skipped | Context_rejected | Capability_rejected | Enforcement_rejected | Free_rejected
  | Unknown_grade | Eligible candidate

definition in_service :: "target \<Rightarrow> bool" where
  "in_service t = (case t of Catalog m \<Rightarrow> md_status m = ''AVAILABLE'' | Managed r \<Rightarrow> rt_enabled r)"

definition context_too_small :: "target \<Rightarrow> routing_request \<Rightarrow> bool" where
  "context_too_small t q =
    (\<not> is_managed t \<and> tg_context_window t = None \<or>
     \<not> opt_all (\<lambda>n. rq_context_tokens_estimate q \<le> n) (tg_context_window t))"

definition judge_target :: "router_settings \<Rightarrow> routing_request \<Rightarrow> target \<Rightarrow> verdict" where
  "judge_target st q t =
    (if \<not> opt_all (\<lambda>pair. identity t = pair) (rs_forced_pair st) then Skipped
     else if \<not> in_service t then Skipped
     else if context_too_small t q then Context_rejected
     else if \<not> capabilities_satisfied t (requirements q) then Capability_rejected
     else (let qualification = active_qualification (rs_qualifications st) t in
       case enforcement_grade t qualification of
         None \<Rightarrow> Unknown_grade
       | Some grade \<Rightarrow>
           if \<not> satisfies grade (rq_minimum_grade q) then Enforcement_rejected
           else if rq_cost_policy q = FREE_ONLY \<and> \<not> tg_free_allowlisted t then Free_rejected
           else Eligible \<lparr>cd_model = t, cd_estimated_cost = estimate_cost t q,
             cd_qualification = qualification\<rparr>))"

section \<open>Ranking\<close>

type_synonym rank = "nat \<times> nat \<times> int \<times> nat \<times> pystr \<times> pystr \<times> pystr"

definition rank_key :: "routing_request \<Rightarrow> candidate \<Rightarrow> rank" where
  "rank_key q c =
    (let m = cd_model c in
     (if tg_free_allowlisted m then 0 else if rq_cost_policy q = PREFER_FREE then 1 else 0,
      if cd_estimated_cost c \<noteq> None then 0 else 1,
      case cd_estimated_cost c of Some p \<Rightarrow> p | None \<Rightarrow> 0,
      if Some (tg_provider_id m) = rq_preferred_provider q then 0 else 1,
      tg_provider_id m, tg_provider_model_id m,
      case tg_id m of Some u \<Rightarrow> uuid_str u | None \<Rightarrow> tg_provider_model_id m))"

definition first3 :: "rank \<Rightarrow> nat \<times> nat \<times> int" where
  "first3 k = (case k of (a, b, c, _) \<Rightarrow> (a, b, c))"

definition first4 :: "rank \<Rightarrow> nat \<times> nat \<times> int \<times> nat" where
  "first4 k = (case k of (a, b, c, d, _) \<Rightarrow> (a, b, c, d))"

definition ranking_reasons :: "routing_request \<Rightarrow> candidate list \<Rightarrow> candidate \<Rightarrow> routing_reason list" where
  "ranking_reasons q eligible selected =
    (let cost_peers = filter (\<lambda>c. first3 (rank_key q c) = first3 (rank_key q selected)) eligible;
         identity_peers = filter (\<lambda>c. first4 (rank_key q c) = first4 (rank_key q selected)) cost_peers in
     (if rq_cost_policy q = PREFER_FREE \<and> tg_free_allowlisted (cd_model selected) then [FREE_ALLOWLIST_PREFERRED]
      else if rq_cost_policy q = FREE_ONLY then [FREE_ONLY_SATISFIED] else []) @
     (if cd_estimated_cost selected = None then [PRICING_UNKNOWN_DETERMINISTIC_SELECTION]
      else [LOWEST_KNOWN_ESTIMATED_COST]) @
     (if rq_preferred_provider q \<noteq> None \<and> Some (tg_provider_id (cd_model selected)) = rq_preferred_provider q \<and>
         list_ex (\<lambda>c. Some (tg_provider_id (cd_model c)) \<noteq> rq_preferred_provider q) cost_peers
      then [PROVIDER_PREFERENCE_APPLIED] else []) @
     (if 1 < length identity_peers then [DETERMINISTIC_ID_TIE_BREAK] else []))"

definition no_suitable_reasons :: "verdict list \<Rightarrow> routing_reason list" where
  "no_suitable_reasons verdicts =
    (if list_all (\<lambda>v. v = Skipped) verdicts then [NO_AVAILABLE_MODELS]
     else (let reasons =
         (if list_ex (\<lambda>v. v = Context_rejected) verdicts then [CONTEXT_UNSATISFIED] else []) @
         (if list_ex (\<lambda>v. v = Capability_rejected) verdicts then [CAPABILITY_UNSATISFIED] else []) @
         (if list_ex (\<lambda>v. v = Enforcement_rejected) verdicts then [CONTRACT_ENFORCEMENT_UNSATISFIED] else []) @
         (if list_ex (\<lambda>v. v = Free_rejected) verdicts then [FREE_ONLY_POOL_EMPTY] else [])
       in if reasons = [] then [CAPABILITY_UNSATISFIED] else reasons))"

section \<open>The simulation\<close>

record estimated_cost =
  ec_amount :: int
  ec_currency :: pystr
  ec_input_tokens_estimate :: int
  ec_output_tokens_estimate :: "int option"

datatype target_kind = CATALOG_MODEL | VIRTUAL_ROUTE

record selected_model =
  sm_catalog_model_id :: "uuid option"
  sm_provider_id :: pystr
  sm_provider_model_id :: pystr
  sm_display_name :: pystr
  sm_execution_target_class :: pystr
  sm_last_verified_at :: "instant option"
  sm_estimated_cost :: "estimated_cost option"
  sm_target_kind :: target_kind
  sm_route_source :: "pystr option"
  sm_capability_declaration_source :: "pystr option"
  sm_capability_policy :: "pystr option"
  sm_structured_output_capability :: bool
  sm_contract_enforcement_grade :: "contract_enforcement_grade option"
  sm_minimum_grade :: contract_enforcement_grade
  sm_enforcement_metadata_source :: pystr
  sm_qualification_present :: bool
  sm_qualification_source :: "qualification_source option"
  sm_upstream_provider_constraint :: "pystr option"
  sm_provider_allow_fallbacks :: "bool option"
  sm_provider_require_parameters :: bool
  sm_declared_capabilities :: "pystr set"
  sm_context_window :: "int option"
  sm_max_output_tokens :: "int option"
  sm_dynamic_resolution :: bool

record routing_result =
  ro_outcome :: routing_outcome
  ro_selected :: "selected_model option"
  ro_reason_codes :: "routing_reason list"
  ro_eligible_candidate_count :: nat
  ro_minimum_grade :: contract_enforcement_grade

definition estimate_of :: "routing_request \<Rightarrow> candidate \<Rightarrow> estimated_cost option" where
  "estimate_of q c = (case (cd_estimated_cost c, cd_model c) of
     (Some amount, Catalog m) \<Rightarrow> map_option (\<lambda>currency. \<lparr>ec_amount = amount, ec_currency = currency,
       ec_input_tokens_estimate = rq_context_tokens_estimate q,
       ec_output_tokens_estimate = rq_expected_output_tokens q\<rparr>) (md_currency m)
   | _ \<Rightarrow> None)"

definition selected_of :: "routing_request \<Rightarrow> candidate \<Rightarrow> selected_model" where
  "selected_of q c =
    (let t = cd_model c; ql = cd_qualification c in
     \<lparr>sm_catalog_model_id = tg_id t, sm_provider_id = tg_provider_id t,
      sm_provider_model_id = tg_provider_model_id t,
      sm_display_name = (case t of Catalog m \<Rightarrow> md_display_name m | Managed r \<Rightarrow> rt_display_name r),
      sm_execution_target_class = (case t of Catalog m \<Rightarrow> md_execution_target_class m
        | Managed r \<Rightarrow> target_class_value (rt_execution_target_class r)),
      sm_last_verified_at = (case t of Catalog m \<Rightarrow> md_last_verified_at m | Managed _ \<Rightarrow> None),
      sm_estimated_cost = estimate_of q c,
      sm_target_kind = (if is_managed t then VIRTUAL_ROUTE else CATALOG_MODEL),
      sm_route_source = (case t of Catalog _ \<Rightarrow> None | Managed r \<Rightarrow> Some (rt_source r)),
      sm_capability_declaration_source = (case t of Catalog _ \<Rightarrow> None | Managed r \<Rightarrow> Some (rt_capability_source r)),
      sm_capability_policy = (case t of Catalog _ \<Rightarrow> None | Managed r \<Rightarrow> Some (rt_capability_policy r)),
      sm_structured_output_capability = has_capability t STRUCTURED_OUTPUT,
      sm_contract_enforcement_grade = enforcement_grade t ql,
      sm_minimum_grade = rq_minimum_grade q,
      sm_enforcement_metadata_source = (case ql of Some l \<Rightarrow> qualification_source_value (ql_source l)
        | None \<Rightarrow> (case t of Catalog m \<Rightarrow> md_enforcement_metadata_source m
            | Managed r \<Rightarrow> rt_enforcement_metadata_source r)),
      sm_qualification_present = (ql \<noteq> None), sm_qualification_source = map_option ql_source ql,
      sm_upstream_provider_constraint = Option.bind ql ql_upstream_provider,
      sm_provider_allow_fallbacks = map_option (\<lambda>_. False) ql,
      sm_provider_require_parameters = (ql \<noteq> None),
      sm_declared_capabilities = (case t of
          Catalog m \<Rightarrow> capability_value ` set (filter (\<lambda>k. catalog_capability m k = Some True) ALL_CAPABILITIES)
        | Managed r \<Rightarrow> set (rt_capabilities r)),
      sm_context_window = tg_context_window t,
      sm_max_output_tokens = (case t of Catalog m \<Rightarrow> md_max_output_tokens m | Managed r \<Rightarrow> rt_max_output_tokens r),
      sm_dynamic_resolution = (case t of Catalog _ \<Rightarrow> False | Managed r \<Rightarrow> rt_dynamic_resolution r)\<rparr>)"

definition eligible_of :: "verdict list \<Rightarrow> candidate list" where
  "eligible_of verdicts = List.map_filter (\<lambda>v. case v of Eligible c \<Rightarrow> Some c | _ \<Rightarrow> None) verdicts"

definition preferred_of :: "routing_request \<Rightarrow> candidate list \<Rightarrow> candidate option" where
  "preferred_of q eligible = (if rq_preferred_model_id q = None then None
     else first_row (filter (\<lambda>c. tg_id (cd_model c) = rq_preferred_model_id q) eligible))"

definition select_of :: "routing_request \<Rightarrow> candidate list \<Rightarrow> candidate \<times> routing_reason list" where
  "select_of q eligible = (case preferred_of q eligible of
     Some c \<Rightarrow> (c, [PREFERRED_MODEL_ACCEPTED])
   | None \<Rightarrow> (let c = arg_min_list (rank_key q) eligible in
       (c, (if rq_preferred_model_id q \<noteq> None then [PREFERRED_MODEL_REJECTED] else []) @
          ranking_reasons q eligible c)))"

text \<open>\<open>ExecutionTargetClass(...)\<close> of a catalog row, which must know the stored value.\<close>

definition target_class_known :: "target \<Rightarrow> bool" where
  "target_class_known t = (case t of Catalog m \<Rightarrow> one_of [''LOCAL'', ''REMOTE''] (md_execution_target_class m)
     | Managed _ \<Rightarrow> True)"

definition routed :: "router_settings \<Rightarrow> routing_request \<Rightarrow> target list \<Rightarrow> exn + routing_result" where
  "routed st q targets =
    (let verdicts = map (judge_target st q) targets; eligible = eligible_of verdicts in
     if Unknown_grade \<in> set verdicts then Inl (PythonError ''ValueError'')
     else if eligible = []
     then Inr \<lparr>ro_outcome = NO_SUITABLE_MODEL, ro_selected = None, ro_reason_codes = no_suitable_reasons verdicts,
       ro_eligible_candidate_count = 0, ro_minimum_grade = rq_minimum_grade q\<rparr>
     else (let (selected, reasons) = select_of q eligible in
       if \<not> target_class_known (cd_model selected) then Inl (PythonError ''ValueError'')
       else Inr \<lparr>ro_outcome = SELECTED, ro_selected = Some (selected_of q selected),
         ro_reason_codes = [IS_AVAILABLE, CAPABILITIES_SATISFIED, CONTEXT_SATISFIED] @ reasons,
         ro_eligible_candidate_count = length eligible, ro_minimum_grade = rq_minimum_grade q\<rparr>))"

definition simulate_routing ::
  "router_settings \<Rightarrow> uuid \<Rightarrow> uuid \<Rightarrow> routing_request \<Rightarrow> managed_route list \<Rightarrow> routing_result prog" where
  "simulate_routing st tenant_id workspace_id data virtual_routes =
     andthen (require_workspace tenant_id workspace_id)
     (bnd list_routing_candidates (\<lambda>rows.
      case routed st data (ct_targets (canonicalize_targets rows virtual_routes)) of
        Inl e \<Rightarrow> throw e | Inr r \<Rightarrow> ret r))"

section \<open>One target per identity\<close>

text \<open>The target that stands for an identity: the first route that claims it, or the first row.\<close>

definition pick :: "target list \<Rightarrow> pystr \<times> pystr \<Rightarrow> target option" where
  "pick ts k = (case first_row (filter (\<lambda>t. identity t = k \<and> is_managed t) ts) of
     Some t \<Rightarrow> Some t | None \<Rightarrow> first_row (filter (\<lambda>t. identity t = k) ts))"

lemma first_row_snoc:
  "first_row (filter P (xs @ [x])) =
     (case first_row (filter P xs) of Some y \<Rightarrow> Some y | None \<Rightarrow> if P x then Some x else None)"
  by (induction xs) (auto split: option.splits)

lemma pick_snoc:
  "pick (ts @ [t]) k =
    (if identity t \<noteq> k then pick ts k
     else case pick ts k of None \<Rightarrow> Some t | Some e \<Rightarrow> if is_managed t \<and> \<not> is_managed e then Some t else Some e)"
proof (cases "first_row (filter (\<lambda>t. identity t = k \<and> is_managed t) ts)")
  case (Some a)
  moreover from first_row_filter_Some [OF Some] have "is_managed a" by simp
  ultimately show ?thesis by (simp add: pick_def first_row_snoc del: filter_append)
next
  case None
  show ?thesis
  proof (cases "first_row (filter (\<lambda>t. identity t = k) ts)")
    case (Some b)
    from None first_row_filter_Some [OF Some] have "\<not> is_managed b"
      by (auto simp: first_row_filter_None_iff)
    with None Some show ?thesis by (simp add: pick_def first_row_snoc del: filter_append)
  qed (use None in \<open>simp add: pick_def first_row_snoc del: filter_append\<close>)
qed

lemma pick_identity: "pick ts k = Some t \<Longrightarrow> identity t = k \<and> t \<in> set ts"
  by (auto simp: pick_def split: option.splits dest!: first_row_filter_Some)

lemma place_pick:
  "foldl place ([], 0) ts = (m, n) \<Longrightarrow> map_of m = pick ts \<and> distinct (map fst m)"
proof (induction ts arbitrary: m n rule: rev_induct)
  case Nil
  then show ?case by (auto simp: pick_def)
next
  case (snoc t ts)
  obtain m' n' where prev: "foldl place ([], 0) ts = (m', n')" by fastforce
  note IH = snoc.IH [OF prev]
  have "pick (ts @ [t]) = (if pick ts (identity t) = None \<or> is_managed t \<and> \<not> is_managed (the (pick ts (identity t)))
      then (pick ts)(identity t \<mapsto> t) else pick ts)"
    by (auto simp: pick_snoc fun_eq_iff split: option.splits)
  moreover have "place (m', n') t = (m, n)" using snoc.prems prev by simp
  ultimately show ?case using IH
    by (auto simp: place_def update_conv' distinct_update split: option.splits if_splits)
qed

lemma canonical_pick:
  "sorted_wrt (<) (map identity (ct_targets (canonicalize_targets rows routes)))"
  "t \<in> set (ct_targets (canonicalize_targets rows routes)) \<longleftrightarrow>
     pick (map Catalog rows @ map Managed routes) (identity t) = Some t"
proof -
  let ?ts = "map Catalog rows @ map Managed routes"
  obtain m n where m: "foldl place ([], 0) ?ts = (m, n)" by fastforce
  note pick = place_pick [OF m]
  have ct: "ct_targets (canonicalize_targets rows routes) = map snd (sort_key fst m)"
    by (simp only: canonicalize_targets_def Let_def m prod.case canonical_targets.select_convs)
  have entry: "(k, t) \<in> set m \<longleftrightarrow> pick ?ts k = Some t" for k t
    using pick by (metis map_of_eq_Some_iff)
  have ids: "map identity (map snd (sort_key fst m)) = map fst (sort_key fst m)"
    by (auto simp: entry dest: pick_identity)
  have "distinct (map fst (sort_key fst m))" using pick by (simp add: distinct_map)
  then have "sorted_wrt (<) (map fst (sort_key fst m))"
    using sorted_sort_key [of fst m] by (simp add: strict_sorted_iff)
  then show "sorted_wrt (<) (map identity (ct_targets (canonicalize_targets rows routes)))"
    unfolding ct ids .
  have "t \<in> snd ` set m \<longleftrightarrow> pick ?ts (identity t) = Some t"
  proof
    assume "t \<in> snd ` set m"
    then obtain k where "pick ?ts k = Some t" by (auto simp: entry)
    with pick_identity [OF this] show "pick ?ts (identity t) = Some t" by simp
  next
    assume "pick ?ts (identity t) = Some t"
    then have "(identity t, t) \<in> set m" by (simp add: entry)
    then show "t \<in> snd ` set m" by force
  qed
  then show "t \<in> set (ct_targets (canonicalize_targets rows routes)) \<longleftrightarrow> pick ?ts (identity t) = Some t"
    unfolding ct by simp
qed

text \<open>
  C35: The router sees every identity of the catalog and of the providers' routes exactly once, in
  increasing order; a route stands for its identity whatever the catalog says of it, and the first
  representation stands for it otherwise.
\<close>
theorem canonical_targets_reference:
  "sorted_wrt (<) (map identity (ct_targets (canonicalize_targets rows routes))) \<and>
   (\<forall>t. t \<in> set (ct_targets (canonicalize_targets rows routes)) \<longleftrightarrow>
      pick (map Catalog rows @ map Managed routes) (identity t) = Some t)"
  using canonical_pick by blast

section \<open>What is selected\<close>

text \<open>What a target has to offer to be selected at all.\<close>

definition suitable :: "router_settings \<Rightarrow> routing_request \<Rightarrow> target \<Rightarrow> bool" where
  "suitable st q t \<longleftrightarrow>
     (rs_forced_pair st = None \<or> rs_forced_pair st = Some (identity t)) \<and> in_service t \<and>
     (tg_context_window t = None \<and> is_managed t \<or>
      (\<exists>n. tg_context_window t = Some n \<and> rq_context_tokens_estimate q \<le> n)) \<and>
     (\<forall>c \<in> requirements q. has_capability t c) \<and>
     (\<exists>g. enforcement_grade t (active_qualification (rs_qualifications st) t) = Some g \<and> rq_minimum_grade q \<le> g) \<and>
     (rq_cost_policy q = FREE_ONLY \<longrightarrow> tg_free_allowlisted t)"

definition routing_candidate :: "router_settings \<Rightarrow> routing_request \<Rightarrow> target \<Rightarrow> candidate" where
  "routing_candidate st q t = \<lparr>cd_model = t, cd_estimated_cost = estimate_cost t q,
     cd_qualification = active_qualification (rs_qualifications st) t\<rparr>"

lemma judge_suitable:
  "judge_target st q t = Eligible c \<longleftrightarrow> suitable st q t \<and> c = routing_candidate st q t"
proof -
  have forced: "opt_all (\<lambda>pair. identity t = pair) (rs_forced_pair st) \<longleftrightarrow>
      rs_forced_pair st = None \<or> rs_forced_pair st = Some (identity t)"
    by (cases "rs_forced_pair st") auto
  have fits: "\<not> context_too_small t q \<longleftrightarrow> tg_context_window t = None \<and> is_managed t \<or>
      (\<exists>n. tg_context_window t = Some n \<and> rq_context_tokens_estimate q \<le> n)"
    by (cases "tg_context_window t") (auto simp: context_too_small_def)
  have grade: "(\<exists>g. x = Some g \<and> rq_minimum_grade q \<le> g) \<longleftrightarrow> (case x of None \<Rightarrow> False | Some g \<Rightarrow> satisfies g (rq_minimum_grade q))" for x
    by (simp add: less_eq_contract_enforcement_grade_def split: option.splits)
  show ?thesis
    unfolding suitable_def judge_target_def capabilities_satisfied_def [symmetric] fits [symmetric] forced [symmetric] grade
    by (auto simp: routing_candidate_def Let_def split: option.splits)
qed

lemma eligible_suitable:
  "eligible_of (map (judge_target st q) ts) = map (routing_candidate st q) (filter (suitable st q) ts)"
proof (induction ts)
  case (Cons t ts)
  show ?case
  proof (cases "suitable st q t")
    case True
    then have "judge_target st q t = Eligible (routing_candidate st q t)" by (simp add: judge_suitable)
    with True Cons show ?thesis by (simp add: eligible_of_def List.map_filter_simps)
  next
    case False
    then show ?thesis using Cons judge_suitable [of st q t]
      by (cases "judge_target st q t") (auto simp: eligible_of_def List.map_filter_simps)
  qed
qed (simp add: eligible_of_def List.map_filter_simps)

lemma arg_min_list_least: "xs \<noteq> [] \<Longrightarrow> arg_min_list f xs \<in> set xs \<and> (\<forall>x \<in> set xs. f (arg_min_list f xs) \<le> f x)"
  by (simp add: arg_min_list_in f_arg_min_list_f)

text \<open>The best of a pool: the preferred model if it is there, the least rank otherwise.\<close>

definition best_of :: "router_settings \<Rightarrow> routing_request \<Rightarrow> target set \<Rightarrow> target \<Rightarrow> bool" where
  "best_of st q pool t \<longleftrightarrow> t \<in> pool \<and>
    (if \<exists>t' \<in> pool. rq_preferred_model_id q \<noteq> None \<and> tg_id t' = rq_preferred_model_id q
     then tg_id t = rq_preferred_model_id q
     else \<forall>t' \<in> pool. rank_key q (routing_candidate st q t) \<le> rank_key q (routing_candidate st q t'))"

lemma select_best:
  assumes "targets \<noteq> []"
  shows "\<exists>t. fst (select_of q (map (routing_candidate st q) targets)) = routing_candidate st q t \<and> best_of st q (set targets) t"
proof (cases "preferred_of q (map (routing_candidate st q) targets)")
  case None
  let ?c = "arg_min_list (rank_key q) (map (routing_candidate st q) targets)"
  from assms arg_min_list_least [of "map (routing_candidate st q) targets" "rank_key q"]
  obtain t where t: "t \<in> set targets" "?c = routing_candidate st q t"
    and least: "\<forall>t' \<in> set targets. rank_key q ?c \<le> rank_key q (routing_candidate st q t')" by auto
  moreover have "\<not> (\<exists>t' \<in> set targets. rq_preferred_model_id q \<noteq> None \<and> tg_id t' = rq_preferred_model_id q)"
    using None by (auto simp: preferred_of_def first_row_filter_None_iff routing_candidate_def split: if_splits)
  ultimately have "best_of st q (set targets) t" unfolding best_of_def by auto
  with None t(2) show ?thesis unfolding select_of_def by (auto simp: Let_def)
next
  case (Some c)
  then have c: "rq_preferred_model_id q \<noteq> None" "tg_id (cd_model c) = rq_preferred_model_id q"
      "c \<in> set (map (routing_candidate st q) targets)"
    by (auto simp: preferred_of_def split: if_splits dest!: first_row_filter_Some)
  then obtain t where t: "t \<in> set targets" "c = routing_candidate st q t" by auto
  have "cd_model c = t" by (simp add: t(2) routing_candidate_def)
  with c t have "best_of st q (set targets) t" unfolding best_of_def by auto
  with Some t(2) show ?thesis unfolding select_of_def by auto
qed

lemma routed_best:
  assumes "routed st q targets = Inr r"
  shows "case ro_selected r of None \<Rightarrow> {t \<in> set targets. suitable st q t} = {}
    | Some m \<Rightarrow> \<exists>t. best_of st q {t \<in> set targets. suitable st q t} t \<and> m = selected_of q (routing_candidate st q t)"
proof (cases "filter (suitable st q) targets = []")
  case True
  have "ro_selected r = None" using assms True
    by (auto simp: routed_def Let_def eligible_suitable split: if_splits)
  with True show ?thesis by (auto simp: filter_empty_conv)
next
  case False
  from select_best [OF False, of q st] obtain t
    where t: "fst (select_of q (map (routing_candidate st q) (filter (suitable st q) targets))) = routing_candidate st q t"
    and best: "best_of st q (set (filter (suitable st q) targets)) t" by blast
  have "ro_selected r = Some (selected_of q (routing_candidate st q t))"
    using assms False t by (auto simp: routed_def Let_def eligible_suitable split: if_splits prod.splits)
  with best show ?thesis by auto
qed

text \<open>
  C16: The router only reads, and selects well: among the targets that stand for an identity and are
  suitable (in service, the forced pair if one is configured, a context that is known to be large
  enough, every required capability, an enforcement grade at least the minimum, on the free list
  when only free models are allowed) it selects the preferred model when that is one of them, and
  one of least rank otherwise; it selects nothing only when none is suitable.
\<close>
theorem routing_selects_best:
  "case simulate_routing st t w q routes s of
      (Inl e, u) \<Rightarrow> working u = working s \<and> committed u = committed s
    | (Inr r, u) \<Rightarrow> working u = working s \<and> committed u = committed s \<and>
        (\<exists>pool. pool = {x. pick (map Catalog (by_identity (model_definitions (working s))) @ map Managed routes)
            (identity x) = Some x \<and> suitable st q x} \<and>
          (case ro_selected r of None \<Rightarrow> pool = {}
           | Some m \<Rightarrow> \<exists>x. best_of st q pool x \<and> m = selected_of q (routing_candidate st q x)))"
proof -
  let ?rows = "by_identity (model_definitions (working s))"
  let ?ts = "ct_targets (canonicalize_targets ?rows routes)"
  let ?pool = "{x. pick (map Catalog ?rows @ map Managed routes) (identity x) = Some x \<and> suitable st q x}"
  obtain r1 s1 where s1: "require_workspace t w s = (r1, s1)" by fastforce
  then have same: "working s1 = working s" "committed s1 = committed s"
    using require_workspace_check [of t w] by (auto simp: scope_check_def)
  have "set ?ts = {x. pick (map Catalog ?rows @ map Managed routes) (identity x) = Some x}"
    using canonical_pick by blast
  then have pool: "{x \<in> set ?ts. suitable st q x} = ?pool" by auto
  have best: "case ro_selected r of None \<Rightarrow> ?pool = {}
      | Some m \<Rightarrow> \<exists>x. best_of st q ?pool x \<and> m = selected_of q (routing_candidate st q x)"
    if "routed st q ?ts = Inr r" for r
    using routed_best [OF that] unfolding pool .
  show ?thesis
  proof (cases r1)
    case (Inl e)
    with s1 same show ?thesis by (simp add: simulate_routing_def andthen_def bnd_def)
  next
    case (Inr v)
    with s1 have "simulate_routing st t w q routes s = (if fault_at s1 (tick s1) then (Inl SQLAlchemyError, begin_stmt s1)
        else (case routed st q ?ts of Inl e \<Rightarrow> throw e | Inr r \<Rightarrow> ret r) (begin_stmt s1))"
      by (simp add: simulate_routing_def andthen_def bnd_def list_routing_candidates_def query_def same)
    then show ?thesis using same best by (auto simp: throw_def ret_def split: sum.splits)
  qed
qed

end
