(* ===== verification/Model_Usage.thy ===== *)
theory Model_Usage
  imports Model_Catalog Complex_Main
begin

text \<open>
  The accounting of model runs (\<open>modules/model_usage\<close>: schemas, repository, service): a run is
  started with the prices of its model, ends once, and then carries the tokens, the cost and the
  duration that the provider reported. A duration is the number its decimal form denotes.
\<close>

section \<open>Contracts\<close>

datatype model_run_status = RUNNING | SUCCEEDED | FAILED | CANCELLED

definition model_run_status_value :: "model_run_status \<Rightarrow> pystr" where
  "model_run_status_value v = (case v of RUNNING \<Rightarrow> ''RUNNING'' | SUCCEEDED \<Rightarrow> ''SUCCEEDED''
     | FAILED \<Rightarrow> ''FAILED'' | CANCELLED \<Rightarrow> ''CANCELLED'')"

record model_run_start =
  st_model_definition_id :: "uuid option"
  st_provider_id :: "pystr option"
  st_provider_model_id :: "pystr option"
  st_agent_run_id :: "uuid option"
  st_project_id :: "uuid option"
  st_estimated_cost :: "money option"
  st_currency :: "pystr option"
  st_structured_output :: bool
  st_enforcement_grade :: contract_enforcement_grade
  st_minimum_grade :: contract_enforcement_grade
  st_metadata_source :: "pystr option"
  st_qualification_present :: bool
  st_qualification_source :: "qualification_source option"
  st_upstream_constraint :: "pystr option"
  st_allow_fallbacks :: "bool option"
  st_require_parameters :: bool
  st_strategy_tier :: "pystr option"
  st_fingerprint :: "pystr option"
  st_constraint_count :: "int option"
  st_max_output_tokens :: "int option"
  st_budget_source :: "pystr option"
  st_recovery_kind :: pystr
  st_recovery_index :: int

definition STRATEGY_TIERS :: "pystr list" where
  "STRATEGY_TIERS = [''STRICT_SCHEMA'', ''JSON_OBJECT'', ''JSON_INSTRUCTION'']"

definition RECOVERY_KINDS :: "pystr list" where
  "RECOVERY_KINDS = [''INITIAL'', ''TRUNCATION'', ''CONTRACT_REPAIR'', ''TOOL_CONTINUATION'']"

text \<open>\<open>^[a-z_]{1,64}$\<close>\<close>

definition budget_source :: "pystr \<Rightarrow> bool" where
  "budget_source t = (between 1 64 t \<and> list_all (\<lambda>c. lower_az c \<or> c = CHR ''_'') t)"

definition ModelRunStart :: "model_run_start \<Rightarrow> model_run_start option" where
  "ModelRunStart d =
    (let currency = map_option trim (st_currency d) in
     if price_field (st_estimated_cost d) \<and> opt_all (between 3 3) currency \<and>
        opt_all (between 1 64) (st_metadata_source d) \<and> opt_all (between 1 128) (st_upstream_constraint d) \<and>
        opt_all (one_of STRATEGY_TIERS) (st_strategy_tier d) \<and> opt_all fingerprint_format (st_fingerprint d) \<and>
        opt_all (\<lambda>n. 0 \<le> n \<and> n \<le> 16) (st_constraint_count d) \<and>
        opt_all (\<lambda>n. 1 \<le> n \<and> n \<le> 65536) (st_max_output_tokens d) \<and>
        opt_all budget_source (st_budget_source d) \<and> one_of RECOVERY_KINDS (st_recovery_kind d) \<and>
        0 \<le> st_recovery_index d \<and> st_recovery_index d \<le> 1 \<and>
        (st_model_definition_id d \<noteq> None \<or> st_provider_id d \<noteq> None \<and> st_provider_model_id d \<noteq> None) \<and>
        (st_estimated_cost d = None \<longleftrightarrow> currency = None) \<and> opt_all (list_all upper_fixed) currency
     then Some (d\<lparr>st_currency := currency\<rparr>) else None)"

record execution_diagnostics =
  ed_strategy_tier :: pystr
  ed_fingerprint :: pystr
  ed_constraint_count :: int
  ed_max_output_tokens :: int
  ed_budget_source :: pystr

definition execution_diagnostics_valid :: "execution_diagnostics \<Rightarrow> bool" where
  "execution_diagnostics_valid d =
    (one_of STRATEGY_TIERS (ed_strategy_tier d) \<and> fingerprint_format (ed_fingerprint d) \<and>
     0 \<le> ed_constraint_count d \<and> ed_constraint_count d \<le> 16 \<and>
     1 \<le> ed_max_output_tokens d \<and> ed_max_output_tokens d \<le> 65536 \<and> budget_source (ed_budget_source d))"

text \<open>
  \<open>GenerationResult\<close>, what a provider adapter returns; the content is not looked at here.
\<close>

record generation_result =
  gr_provider_id :: pystr
  gr_model_id :: pystr
  gr_resolved_model_id :: "pystr option"
  gr_upstream_provider_id :: "pystr option"
  gr_content :: pystr
  gr_finish_reason :: "pystr option"
  gr_input_tokens :: "int option"
  gr_output_tokens :: "int option"
  gr_total_tokens :: "int option"
  gr_provider_request_id :: "pystr option"
  gr_duration_ms :: "rat option"

definition model_identifier :: "pystr \<Rightarrow> bool" where
  "model_identifier t = between 1 256 t"

definition generation_result_valid :: "generation_result \<Rightarrow> bool" where
  "generation_result_valid g =
    (model_identifier (gr_provider_id g) \<and> model_identifier (gr_model_id g) \<and>
     opt_all model_identifier (gr_resolved_model_id g) \<and> opt_all (between 1 128) (gr_upstream_provider_id g) \<and>
     between 1 1048576 (gr_content g) \<and> opt_all (between 1 128) (gr_finish_reason g) \<and>
     opt_all ((\<le>) 0) (gr_input_tokens g) \<and> opt_all ((\<le>) 0) (gr_output_tokens g) \<and>
     opt_all ((\<le>) 0) (gr_total_tokens g) \<and> opt_all (between 1 128) (gr_provider_request_id g) \<and>
     opt_all ((\<le>) 0) (gr_duration_ms g) \<and>
     fullmatch PROVIDER_ID_PATTERN (gr_provider_id g) \<and> fullmatch MODEL_ID_PATTERN (gr_model_id g) \<and>
     opt_all (fullmatch MODEL_ID_PATTERN) (gr_resolved_model_id g) \<and>
     opt_all (fullmatch UPSTREAM_PROVIDER_PATTERN) (gr_upstream_provider_id g))"

section \<open>The repository\<close>

definition put_model_runs :: "model_run list \<Rightarrow> db \<Rightarrow> db" where
  "put_model_runs rows d = d\<lparr>model_runs := rows\<rparr>"

definition create_model_run :: "(uuid \<Rightarrow> instant \<Rightarrow> model_run) \<Rightarrow> model_run prog" where
  "create_model_run new = bnd uuid4 (\<lambda>u. exec_stmt (\<lambda>now d.
     let r = new u now in (r, put_model_runs (model_runs d @ [r]) d)))"

definition list_scoped_runs :: "uuid \<Rightarrow> uuid \<Rightarrow> nat \<Rightarrow> nat \<Rightarrow> pystr option \<Rightarrow> model_run list prog" where
  "list_scoped_runs tenant_id workspace_id limit offset status =
     query (\<lambda>d. window limit offset (sort_key (\<lambda>r. (- mr_created_at r, mr_id r))
       (filter (\<lambda>r. mr_tenant_id r = tenant_id \<and> mr_workspace_id r = workspace_id \<and>
          opt_all (\<lambda>v. mr_status r = v) status) (model_runs d))))"

definition running_model_run :: "uuid \<Rightarrow> uuid \<Rightarrow> uuid \<Rightarrow> model_run \<Rightarrow> bool" where
  "running_model_run tenant_id workspace_id model_run_id r =
     (mr_id r = model_run_id \<and> mr_tenant_id r = tenant_id \<and> mr_workspace_id r = workspace_id \<and>
      mr_status r = ''RUNNING'')"

definition transition_running ::
  "uuid \<Rightarrow> uuid \<Rightarrow> uuid \<Rightarrow> (model_run \<Rightarrow> model_run) \<Rightarrow> model_run option prog" where
  "transition_running tenant_id workspace_id model_run_id values =
     compare_set model_runs put_model_runs (running_model_run tenant_id workspace_id model_run_id) (\<lambda>_. values)"

section \<open>The service\<close>

definition usage_scope :: "uuid \<Rightarrow> uuid \<Rightarrow> uuid option \<Rightarrow> unit prog" where
  "usage_scope tenant_id workspace_id project_id =
     andthen (require_workspace tenant_id workspace_id) (require_project workspace_id project_id)"

definition usage_error :: "pystr \<Rightarrow> pystr \<Rightarrow> exn" where
  "usage_error code message = ApplicationError code message 400"

text \<open>The route a run starts on, and what is known of its use then.\<close>

definition started_route :: "model_run_start \<Rightarrow> model_route" where
  "started_route d =
     \<lparr>mr_target_structured_output_capability = st_structured_output d,
      mr_contract_enforcement_grade = grade_value (st_enforcement_grade d),
      mr_minimum_contract_enforcement_grade = grade_value (st_minimum_grade d),
      mr_enforcement_metadata_source = st_metadata_source d,
      mr_qualification_present = st_qualification_present d,
      mr_qualification_source = map_option qualification_source_value (st_qualification_source d),
      mr_upstream_provider_constraint = st_upstream_constraint d,
      mr_provider_allow_fallbacks = st_allow_fallbacks d,
      mr_provider_require_parameters = st_require_parameters d,
      mr_contract_strategy_tier = st_strategy_tier d, mr_contract_fingerprint = st_fingerprint d,
      mr_contextual_constraint_count = st_constraint_count d,
      mr_execution_max_output_tokens = st_max_output_tokens d, mr_output_budget_source = st_budget_source d,
      mr_recovery_attempt_kind = st_recovery_kind d, mr_recovery_attempt_index = st_recovery_index d\<rparr>"

definition started_use :: "model_run_start \<Rightarrow> model_definition option \<Rightarrow> model_used" where
  "started_use d model =
     \<lparr>mr_finish_reason = None, mr_truncation_classification = ''NONE'', mr_provider_resolved_model_id = None,
      mr_upstream_provider_id = None, mr_provider_request_id = None, mr_input_tokens = None,
      mr_output_tokens = None, mr_total_tokens = None, mr_estimated_cost = st_estimated_cost d,
      mr_actual_cost = None,
      mr_input_price_per_million_snapshot = Option.bind model md_input_price_per_million,
      mr_output_price_per_million_snapshot = Option.bind model md_output_price_per_million,
      mr_currency = (case st_currency d of Some c \<Rightarrow> Some c | None \<Rightarrow> Option.bind model md_currency),
      mr_duration_ms = None\<rparr>"

definition started_run ::
  "uuid \<Rightarrow> uuid \<Rightarrow> model_run_start \<Rightarrow> model_definition option \<Rightarrow> pystr \<Rightarrow> pystr \<Rightarrow> pystr option \<Rightarrow> instant \<Rightarrow>
     uuid \<Rightarrow> instant \<Rightarrow> model_run" where
  "started_run tenant_id workspace_id d model provider_id provider_model_id corr now u created =
     \<lparr>mr_id = u, mr_tenant_id = tenant_id, mr_workspace_id = workspace_id, mr_project_id = st_project_id d,
      mr_agent_run_id = st_agent_run_id d, mr_model_definition_id = map_option md_id model,
      mr_provider_id = provider_id, mr_provider_model_id = provider_model_id,
      mr_route = started_route d, mr_used = started_use d model,
      mr_status = model_run_status_value RUNNING, mr_correlation_id = corr, mr_failure_code = None,
      mr_started_at = now, mr_completed_at = None, mr_created_at = created, mr_updated_at = created\<rparr>"

definition start_run :: "uuid \<Rightarrow> uuid \<Rightarrow> model_run_start \<Rightarrow> model_run prog" where
  "start_run tenant_id workspace_id d =
     andthen (usage_scope tenant_id workspace_id (st_project_id d))
     (bnd (case st_model_definition_id d of None \<Rightarrow> ret None | Some m \<Rightarrow> catalog_get_model m) (\<lambda>model.
      andthen (only_if (st_model_definition_id d \<noteq> None \<and> model = None) (throw not_found))
      (case (case model of Some m \<Rightarrow> Some (md_provider_id m) | None \<Rightarrow> st_provider_id d,
             case model of Some m \<Rightarrow> Some (md_provider_model_id m) | None \<Rightarrow> st_provider_model_id d) of
         (Some provider_id, Some provider_model_id) \<Rightarrow>
           if st_currency d \<noteq> None \<and> Option.bind model md_currency \<noteq> None \<and>
              st_currency d \<noteq> Option.bind model md_currency
           then throw (usage_error ''model_run_currency_mismatch'' ''Cost currency does not match model pricing'')
           else bnd now_utc (\<lambda>now. bnd get_correlation_id (\<lambda>corr.
                bnd (create_model_run
                  (started_run tenant_id workspace_id d model provider_id provider_model_id corr now)) (\<lambda>run.
                andthen commit (refresh model_runs mr_id run))))
       | _ \<Rightarrow> throw not_found)))"

definition model_run_terminal :: exn where
  "model_run_terminal = ApplicationError ''model_run_terminal'' ''Model run is already terminal'' 409"

definition require_running :: "uuid \<Rightarrow> uuid \<Rightarrow> uuid \<Rightarrow> model_run prog" where
  "require_running tenant_id workspace_id model_run_id =
     andthen (usage_scope tenant_id workspace_id None)
     (bnd (get_model_run tenant_id workspace_id model_run_id) (\<lambda>row. bnd (require not_found row) (\<lambda>run.
      andthen (only_if (mr_status run \<noteq> model_run_status_value RUNNING) (throw model_run_terminal)) (ret run))))"

text \<open>The guarded update that ends every operation on a running model run.\<close>

definition settle :: "uuid \<Rightarrow> uuid \<Rightarrow> uuid \<Rightarrow> (model_run \<Rightarrow> model_run) \<Rightarrow> model_run prog" where
  "settle tenant_id workspace_id model_run_id values =
     bnd (transition_running tenant_id workspace_id model_run_id values) (\<lambda>row.
     bnd (require model_run_terminal row) (\<lambda>updated. andthen commit (ret updated)))"

definition diagnosed :: "execution_diagnostics \<Rightarrow> instant \<Rightarrow> model_run \<Rightarrow> model_run" where
  "diagnosed d now r = r\<lparr>mr_route := (mr_route r)
     \<lparr>mr_contract_strategy_tier := Some (ed_strategy_tier d), mr_contract_fingerprint := Some (ed_fingerprint d),
      mr_contextual_constraint_count := Some (ed_constraint_count d),
      mr_execution_max_output_tokens := Some (ed_max_output_tokens d),
      mr_output_budget_source := Some (ed_budget_source d)\<rparr>, mr_updated_at := now\<rparr>"

definition set_execution_diagnostics ::
  "uuid \<Rightarrow> uuid \<Rightarrow> uuid \<Rightarrow> execution_diagnostics \<Rightarrow> model_run prog" where
  "set_execution_diagnostics tenant_id workspace_id model_run_id data =
     bnd (require_running tenant_id workspace_id model_run_id) (\<lambda>_. bnd now_utc (\<lambda>now.
     settle tenant_id workspace_id model_run_id (diagnosed data now)))"

definition MILLION :: int where
  "MILLION = 1000000"

text \<open>
  The quotient by a million shifts the decimal point and is exact; \<open>quantize\<close> to ten decimals then
  rounds the count of millionths of money units, and raises \<open>InvalidOperation\<close> when the result has
  more digits than the context.
\<close>

definition actual_cost :: "model_run \<Rightarrow> generation_result \<Rightarrow> money option prog" where
  "actual_cost run result =
    (case (gr_input_tokens result, gr_output_tokens result,
           mr_input_price_per_million_snapshot (mr_used run), mr_output_price_per_million_snapshot (mr_used run)) of
       (Some i, Some u, Some ip, Some up) \<Rightarrow>
         (let cost = div_half_even (decimal_add (decimal_mult i ip) (decimal_mult u up)) MILLION in
          if PRECISION \<le> cost then throw (PythonError ''InvalidOperation'')
          else if MAX_MONEY < cost
          then throw (usage_error ''model_run_invalid_usage'' ''Calculated provider cost is invalid'')
          else ret (Some cost))
     | _ \<Rightarrow> ret None)"

text \<open>\<open>^[A-Za-z0-9][A-Za-z0-9._:/+-]{0,127}$\<close>\<close>

definition SAFE_REQUEST_ID :: rx where
  "SAFE_REQUEST_ID = Seq (Cls ascii_alnum) (upto_times 127 (Cls model_char))"

definition MAX_TOKEN_COUNT :: int where
  "MAX_TOKEN_COUNT = 1000000000000"

text \<open>What \<open>mark_succeeded\<close> refuses, in the order it looks; an error, or the total of tokens.\<close>

definition usage_refusal :: "model_run \<Rightarrow> generation_result \<Rightarrow> exn option" where
  "usage_refusal run g =
    (if (gr_provider_id g, gr_model_id g) \<noteq> (mr_provider_id run, mr_provider_model_id run)
     then Some (usage_error ''model_run_identity_mismatch'' ''Provider result identity does not match model run'')
     else if \<not> opt_all (fullmatch SAFE_REQUEST_ID) (gr_provider_request_id g)
     then Some (usage_error ''model_run_invalid_request_id'' ''Provider request identifier is invalid'')
     else if \<not> opt_all (\<lambda>d. d \<le> 86400000) (gr_duration_ms g)
     then Some (usage_error ''model_run_invalid_duration'' ''Provider duration is invalid'')
     else if \<not> list_all (opt_all (\<lambda>n. n \<le> MAX_TOKEN_COUNT))
       [gr_input_tokens g, gr_output_tokens g, gr_total_tokens g]
     then Some (usage_error ''model_run_invalid_usage'' ''Provider token usage is invalid'')
     else (case (gr_total_tokens g, gr_input_tokens g, gr_output_tokens g) of
         (Some t, Some i, Some u) \<Rightarrow> if t \<noteq> i + u
           then Some (usage_error ''model_run_invalid_usage'' ''Provider token usage is inconsistent'') else None
       | _ \<Rightarrow> None))"

definition total_of :: "generation_result \<Rightarrow> int option" where
  "total_of g = (case gr_total_tokens g of Some t \<Rightarrow> Some t
     | None \<Rightarrow> (case (gr_input_tokens g, gr_output_tokens g) of (Some i, Some u) \<Rightarrow> Some (i + u) | _ \<Rightarrow> None))"

text \<open>The column keeps three decimals of a duration: PostgreSQL rounds half away from zero.\<close>

definition duration_column :: "rat \<Rightarrow> int" where
  "duration_column d = floor (1000 * d + 1 / 2)"

definition succeeded ::
  "generation_result \<Rightarrow> pystr \<Rightarrow> money option \<Rightarrow> instant \<Rightarrow> model_run \<Rightarrow> model_run" where
  "succeeded g truncation cost now r = r\<lparr>mr_status := model_run_status_value SUCCEEDED,
     mr_used := (mr_used r)\<lparr>mr_provider_request_id := gr_provider_request_id g,
       mr_finish_reason := gr_finish_reason g, mr_truncation_classification := truncation,
       mr_provider_resolved_model_id := gr_resolved_model_id g,
       mr_upstream_provider_id := gr_upstream_provider_id g, mr_input_tokens := gr_input_tokens g,
       mr_output_tokens := gr_output_tokens g, mr_total_tokens := total_of g, mr_actual_cost := cost,
       mr_duration_ms := map_option duration_column (gr_duration_ms g)\<rparr>,
     mr_completed_at := Some now, mr_updated_at := now\<rparr>"

definition mark_succeeded :: "uuid \<Rightarrow> uuid \<Rightarrow> uuid \<Rightarrow> generation_result \<Rightarrow> pystr \<Rightarrow> model_run prog" where
  "mark_succeeded tenant_id workspace_id model_run_id result truncation =
     bnd (require_running tenant_id workspace_id model_run_id) (\<lambda>run.
     case usage_refusal run result of Some e \<Rightarrow> throw e | None \<Rightarrow>
     bnd now_utc (\<lambda>completed_at. bnd (actual_cost run result) (\<lambda>cost.
     settle tenant_id workspace_id model_run_id (succeeded result truncation cost completed_at))))"

definition failed :: "provider_failure \<Rightarrow> instant \<Rightarrow> model_run \<Rightarrow> model_run" where
  "failed failure now r = r\<lparr>mr_status := model_run_status_value
       (if failure = CANCELLATION then CANCELLED else FAILED),
     mr_failure_code := Some (provider_failure_value failure), mr_completed_at := Some now, mr_updated_at := now\<rparr>"

definition mark_failed :: "uuid \<Rightarrow> uuid \<Rightarrow> uuid \<Rightarrow> provider_failure \<Rightarrow> model_run prog" where
  "mark_failed tenant_id workspace_id model_run_id failure =
     bnd now_utc (\<lambda>completed_at. bnd (require_running tenant_id workspace_id model_run_id) (\<lambda>_.
     settle tenant_id workspace_id model_run_id (failed failure completed_at)))"

definition cancel_model_run :: "uuid \<Rightarrow> uuid \<Rightarrow> uuid \<Rightarrow> model_run prog" where
  "cancel_model_run tenant_id workspace_id model_run_id =
     mark_failed tenant_id workspace_id model_run_id CANCELLATION"

definition usage_get_run :: "uuid \<Rightarrow> uuid \<Rightarrow> uuid \<Rightarrow> model_run prog" where
  "usage_get_run tenant_id workspace_id model_run_id =
     andthen (usage_scope tenant_id workspace_id None)
     (bnd (get_model_run tenant_id workspace_id model_run_id) (require not_found))"

definition usage_list_runs :: "uuid \<Rightarrow> uuid \<Rightarrow> nat \<Rightarrow> nat \<Rightarrow> model_run_status option \<Rightarrow> model_run list prog" where
  "usage_list_runs tenant_id workspace_id limit offset status =
     andthen (usage_scope tenant_id workspace_id None)
     (list_scoped_runs tenant_id workspace_id limit offset (map_option model_run_status_value status))"

section \<open>Effects on the data\<close>

text \<open>What a transition writes into a running row.\<close>

inductive model_move :: "(model_run \<Rightarrow> model_run) \<Rightarrow> bool" where
  "model_move (diagnosed data now)"
| "model_move (succeeded result truncation cost now)"
| "model_move (failed failure now)"

inductive model_step :: "model_run \<Rightarrow> model_run \<Rightarrow> bool" where
  "mr_status r = ''RUNNING'' \<Longrightarrow> model_move f \<Longrightarrow> model_step r (f r)"

inductive_cases model_stepE: "model_step r s"

definition model_final :: "model_run \<Rightarrow> bool" where
  "model_final r = (mr_status r \<noteq> ''RUNNING'')"

interpretation model_lifecycle: lifecycle model_step model_runs model_final
  by unfold_locales (auto simp: model_final_def elim!: model_stepE)

definition move_model_run :: "uuid \<Rightarrow> uuid \<Rightarrow> uuid \<Rightarrow> (model_run \<Rightarrow> model_run) \<Rightarrow> db \<Rightarrow> db" where
  "move_model_run t w i f d = put_model_runs (update_where (running_model_run t w i) f (model_runs d)) d"

lemma model_run_status_values [simp]:
  "model_run_status_value RUNNING = ''RUNNING''" "model_run_status_value SUCCEEDED = ''SUCCEEDED''"
  "model_run_status_value FAILED = ''FAILED''" "model_run_status_value CANCELLED = ''CANCELLED''"
  by (simp_all add: model_run_status_value_def)

lemma put_model_runs_simps [simp]:
  "model_runs (put_model_runs rows d) = rows" "put_model_runs (model_runs d) d = d"
  by (simp_all add: put_model_runs_def)

lemma reads_usage:
  "reads (usage_scope t w p)" "reads (require_running t w i)" "reads (actual_cost r g)"
  "reads (case m of None \<Rightarrow> ret None | Some k \<Rightarrow> catalog_get_model k)"
  unfolding usage_scope_def require_running_def get_model_run_def actual_cost_def Let_def catalog_get_model_def
  by (auto intro!: reads_rules reads_scopes split: option.splits)

context stmt_order
begin

lemma steps_usage_scope: "steps R (usage_scope t w p)"
  unfolding usage_scope_def by (intro steps_rules steps_scopes)

lemma steps_require_running: "steps R (require_running t w i)"
  unfolding require_running_def get_model_run_def
  by (intro steps_rules steps_scopes steps_usage_scope)

lemma steps_actual_cost: "steps R (actual_cost r g)"
  unfolding actual_cost_def Let_def by (auto intro!: steps_rules split: option.splits)

lemma steps_usage_reads: "steps R (usage_get_run t w i)" "steps R (usage_list_runs t w l k st)"
  unfolding usage_get_run_def get_model_run_def usage_list_runs_def list_scoped_runs_def
  by (intro steps_rules stmt_rules steps_scopes steps_usage_scope)+

lemma steps_create_model_run:
  "(\<And>d r. W d (put_model_runs (model_runs d @ [r]) d)) \<Longrightarrow> steps R (create_model_run new)"
  unfolding create_model_run_def Let_def by (intro steps_rules stmt_rules steps_exec) simp

lemma steps_transition_running:
  "(\<And>d. W d (move_model_run t w i f d)) \<Longrightarrow> steps R (transition_running t w i f)"
  unfolding transition_running_def move_model_run_def by (rule steps_compare_set)

end

context store_order
begin

lemma steps_start_run:
  assumes "\<And>d r. W d (put_model_runs (model_runs d @ [r]) d)"
  shows "steps R (start_run t w data)"
  unfolding start_run_def catalog_get_model_def
  by (auto intro!: steps_rules store_rules steps_scopes steps_usage_scope steps_create_model_run steps_commit assms
      split: option.splits)

lemma steps_settle:
  "(\<And>d. W d (move_model_run t w i f d)) \<Longrightarrow> steps R (settle t w i f)"
  unfolding settle_def by (intro steps_rules steps_commit steps_transition_running)

lemma steps_model_moves:
  assumes "\<And>f d. model_move f \<Longrightarrow> W d (move_model_run t w i f d)"
  shows "steps R (set_execution_diagnostics t w i data)" "steps R (mark_succeeded t w i g tr)"
    "steps R (mark_failed t w i failure)" "steps R (cancel_model_run t w i)"
  unfolding set_execution_diagnostics_def mark_succeeded_def mark_failed_def cancel_model_run_def
  by (auto intro!: steps_rules store_rules steps_require_running steps_actual_cost steps_settle assms model_move.intros
      split: option.splits)

end

section \<open>What the calculated cost is\<close>

lemma price_bound:
  assumes "0 \<le> i" "i \<le> MAX_TOKEN_COUNT" "0 \<le> p" "p \<le> MAX_MONEY"
  shows "0 \<le> i * p" and "i * p < 10 ^ 32"
proof -
  have "i * p \<le> MAX_TOKEN_COUNT * MAX_MONEY" using assms by (intro mult_mono) auto
  then show "i * p < 10 ^ 32" by (simp add: MAX_TOKEN_COUNT_def MAX_MONEY_def)
qed (use assms in simp)

text \<open>
  The sum in the 28-digit context is the exact sum when that has at most 28 digits, and stays beyond
  every storable amount when it has more.
\<close>

lemma decimal_sum:
  assumes "0 \<le> a" "a < 10 ^ 32" "0 \<le> b" "b < 10 ^ 32"
  shows "a + b < PRECISION \<Longrightarrow> decimal_add (context_round a) (context_round b) = a + b"
    and "PRECISION \<le> a + b \<Longrightarrow> PRECISION \<le> decimal_add (context_round a) (context_round b)"
    and "decimal_add (context_round a) (context_round b) < 8 * 10 ^ 32"
proof -
  show "decimal_add (context_round a) (context_round b) = a + b" if "a + b < PRECISION"
    using that assms by (simp add: decimal_add_def)
  have n: "0 \<le> context_round a" "0 \<le> context_round b" using assms by (simp_all add: context_round_nonneg)
  show "PRECISION \<le> decimal_add (context_round a) (context_round b)" if big: "PRECISION \<le> a + b"
  proof -
    have "PRECISION \<le> context_round a + context_round b"
    proof (cases "a < PRECISION \<and> b < PRECISION")
      case True
      with big show ?thesis by simp
    next
      case False
      then show ?thesis using n context_round_big [of a] context_round_big [of b] by force
    qed
    then show ?thesis unfolding decimal_add_def by (rule context_round_big)
  qed
  have "context_round (context_round a + context_round b) \<le> 2 * (context_round a + context_round b)"
    using n by (intro context_round_upper) simp
  then show "decimal_add (context_round a) (context_round b) < 8 * 10 ^ 32"
    using context_round_upper [of a] context_round_upper [of b] assms by (simp add: decimal_add_def)
qed

lemma div_half_even_less: "n < 8 * 10 ^ 32 \<Longrightarrow> div_half_even n MILLION < PRECISION"
  using div_half_even_bounds(1) [of MILLION n] by (simp add: MILLION_def PRECISION_def)

lemma div_half_even_big: "PRECISION \<le> n \<Longrightarrow> MAX_MONEY < div_half_even n MILLION"
  using div_half_even_mono [of MILLION PRECISION n]
  by (simp add: MILLION_def PRECISION_def MAX_MONEY_def div_half_even_def)

definition exact_cost :: "int \<Rightarrow> int \<Rightarrow> money \<Rightarrow> money \<Rightarrow> money" where
  "exact_cost i u p q = div_half_even (i * p + u * q) MILLION"

text \<open>
  C14: Whatever is accepted as a token count and a price, the cost calculated with 28-digit decimals
  is the exact amount, tokens times prices over a million, rounded once, half to even, to the ten
  decimals of the column: no intermediate rounding shows, the calculation never fails for lack of
  digits, and an amount is refused exactly when the rounded one exceeds what the column holds. The
  rounding is at most half of the last decimal.
\<close>
theorem actual_cost_exact:
  assumes "gr_input_tokens g = Some i" "gr_output_tokens g = Some u"
    and "mr_input_price_per_million_snapshot (mr_used r) = Some p"
    and "mr_output_price_per_million_snapshot (mr_used r) = Some q"
    and "0 \<le> i" "i \<le> MAX_TOKEN_COUNT" "0 \<le> u" "u \<le> MAX_TOKEN_COUNT"
    and "0 \<le> p" "p \<le> MAX_MONEY" "0 \<le> q" "q \<le> MAX_MONEY"
  shows "actual_cost r g s =
      (if exact_cost i u p q \<le> MAX_MONEY then Inr (Some (exact_cost i u p q))
       else Inl (usage_error ''model_run_invalid_usage'' ''Calculated provider cost is invalid''), s) \<and>
    2 * \<bar>exact_cost i u p q * MILLION - (i * p + u * q)\<bar> \<le> MILLION \<and> 0 \<le> exact_cost i u p q"
proof -
  let ?x = "i * p + u * q"
  define y where "y = decimal_add (decimal_mult i p) (decimal_mult u q)"
  note a = price_bound [OF assms(5,6,9,10)] and b = price_bound [OF assms(7,8,11,12)]
  note sum = decimal_sum [OF a b, folded decimal_mult_def, folded y_def]
  have "div_half_even y MILLION < PRECISION" using sum(3) by (rule div_half_even_less)
  moreover have "y = ?x \<or> MAX_MONEY < div_half_even y MILLION \<and> MAX_MONEY < div_half_even ?x MILLION"
    using sum(1,2) div_half_even_big by (cases "?x < PRECISION") auto
  ultimately have "actual_cost r g s =
      (if exact_cost i u p q \<le> MAX_MONEY then Inr (Some (exact_cost i u p q))
       else Inl (usage_error ''model_run_invalid_usage'' ''Calculated provider cost is invalid''), s)"
    using assms(1-4) by (auto simp: actual_cost_def Let_def y_def [symmetric] exact_cost_def ret_def throw_def)
  moreover have "2 * \<bar>exact_cost i u p q * MILLION - ?x\<bar> \<le> MILLION"
    using div_half_even_bounds [of MILLION ?x] by (simp add: exact_cost_def MILLION_def abs_if)
  moreover have "0 \<le> exact_cost i u p q"
    using a b by (simp add: exact_cost_def div_half_even_nonneg MILLION_def)
  ultimately show ?thesis by blast
qed

section \<open>What the end of a run records\<close>

lemma settle_runs:
  assumes "settle t w i f s = (Inr r, u)"
  shows "\<exists>old. first_row (filter (running_model_run t w i) (model_runs (working s))) = Some old \<and> r = f old \<and>
    committed u = move_model_run t w i f (working s)"
  using assms by (auto simp: settle_def transition_running_def compare_set_runs runs move_model_run_def)

lemma require_running_runs:
  assumes "require_running t w i s = (Inr r, u)"
  shows "first_row (filter (running_model_run t w i) (model_runs (working s))) = Some r"
proof -
  let ?P = "\<lambda>r. mr_id r = i \<and> mr_tenant_id r = t \<and> mr_workspace_id r = w"
  obtain s1 where s1: "usage_scope t w None s = (Inr (), s1)"
    and r: "first_row (filter ?P (model_runs (working s1))) = Some r" "mr_status r = ''RUNNING''"
    using assms by (auto simp: require_running_def get_model_run_def select_one_def runs split: if_splits)
  have "first_row (filter ?P rows) = Some r \<Longrightarrow> first_row (filter (running_model_run t w i) rows) = Some r" for rows
    using r(2) by (induction rows) (auto simp: running_model_run_def split: if_splits)
  then show ?thesis using r(1) readsD(1) [OF reads_usage(1) s1] by simp
qed

lemma mark_succeeded_late: "late (\<lambda>_. False) (mark_succeeded t w i g trunc)"
proof -
  have "late (\<lambda>_. False) (settle t w i f)" for f
    unfolding settle_def transition_running_def
    by (intro late_bnd late_commit_ret quiet.steps_rules quiet.steps_compare_set TrueI)
  then show ?thesis unfolding mark_succeeded_def
    by (auto intro!: late_bnd late_quiet [OF quiet.steps_throw] quiet.steps_require_running quiet.steps_actual_cost
        quiet.stmt_rules split: option.splits)
qed

text \<open>
  C34: A success is recorded only for a run of this scope that is running, whose provider and model
  are those of the result, and whose result passes the checks of the identifiers, the duration and
  the tokens: then exactly that run becomes succeeded with the facts of the result, the total of its
  tokens and the cost calculated from the prices the run was started with, and nothing else changes.
  Every failure leaves the durable data as they were.
\<close>
theorem mark_succeeded_outcome:
  assumes "working s = committed s"
  shows "case mark_succeeded t w i g trunc s of
      (Inl e, u) \<Rightarrow> committed u = committed s
    | (Inr r, u) \<Rightarrow> \<exists>old now cost. old \<in> set (model_runs (committed s)) \<and> running_model_run t w i old \<and>
        usage_refusal old g = None \<and> fst (actual_cost old g s) = Inr cost \<and>
        r = succeeded g trunc cost now old \<and>
        committed u = move_model_run t w i (succeeded g trunc cost now) (committed s)"
proof (cases "mark_succeeded t w i g trunc s")
  case (Pair x u)
  show ?thesis
  proof (cases x)
    case (Inl e)
    with Pair mark_succeeded_late [of t w i g trunc] show ?thesis by (auto simp: late_def)
  next
    case (Inr r)
    with Pair have "mark_succeeded t w i g trunc s = (Inr r, u)" by simp
    from iffD1 [OF Inr_runs(3) this [unfolded mark_succeeded_def]]
    obtain run s1 where run: "require_running t w i s = (Inr run, s1)"
      and rest: "(case usage_refusal run g of Some e \<Rightarrow> throw e | None \<Rightarrow> bnd now_utc (\<lambda>now.
        bnd (actual_cost run g) (\<lambda>cost. settle t w i (succeeded g trunc cost now)))) s1 = (Inr r, u)" by blast
    then have ok: "usage_refusal run g = None" by (auto simp: Inr_runs(2) split: option.splits)
    let ?s2 = "s1\<lparr>tick := Suc (tick s1)\<rparr>" and ?now = "clock_at s1 (tick s1)"
    from rest ok obtain cost s3 where cost: "actual_cost run g ?s2 = (Inr cost, s3)"
      and st: "settle t w i (succeeded g trunc cost ?now) s3 = (Inr r, u)"
      by (auto simp: Inr_runs)
    have w: "working s1 = committed s" "working s3 = working s1"
      using readsD(1) [OF reads_usage(2) run] readsD(1) [OF reads_usage(3) cost] assms by auto
    have first: "first_row (filter (running_model_run t w i) (model_runs (committed s))) = Some run"
      using require_running_runs [OF run] assms by simp
    have "fst (actual_cost run g s) = Inr cost"
      using cost by (auto simp: actual_cost_def Let_def ret_def throw_def split: option.splits if_splits)
    then show ?thesis using Pair Inr settle_runs [OF st] first w ok first_row_filter_Some [OF first] by auto
  qed
qed

section \<open>Concrete instances\<close>

definition sample_start :: model_run_start where
  "sample_start = \<lparr>st_model_definition_id = Some 7, st_provider_id = None, st_provider_model_id = None,
     st_agent_run_id = None, st_project_id = Some 3, st_estimated_cost = None, st_currency = None,
     st_structured_output = False, st_enforcement_grade = UNSUPPORTED, st_minimum_grade = UNSUPPORTED,
     st_metadata_source = None, st_qualification_present = False, st_qualification_source = None,
     st_upstream_constraint = None, st_allow_fallbacks = None, st_require_parameters = False,
     st_strategy_tier = None, st_fingerprint = None, st_constraint_count = None, st_max_output_tokens = None,
     st_budget_source = None, st_recovery_kind = ''INITIAL'', st_recovery_index = 0\<rparr>"

definition sample_usage_db :: db where
  "sample_usage_db = put_model_runs [started_run 1 2 sample_start (Some (catalog_row ''acme'' {} 5 sample_entry 7))
     ''acme'' ''m1'' None 10 30 10] (put_models [catalog_row ''acme'' {} 5 sample_entry 7] sample_db)"

definition sample_result :: generation_result where
  "sample_result = \<lparr>gr_provider_id = ''acme'', gr_model_id = ''m1'', gr_resolved_model_id = None,
     gr_upstream_provider_id = None, gr_content = ''ok'', gr_finish_reason = None, gr_input_tokens = Some 3,
     gr_output_tokens = Some 5, gr_total_tokens = None, gr_provider_request_id = None, gr_duration_ms = None\<rparr>"

lemma sample_usage_ok: "constraints sample_usage_db"
  by code_simp

lemma sample_success:
  "map_sum id (\<lambda>r. (mr_status r, mr_total_tokens (mr_used r), mr_actual_cost (mr_used r)))
     (fst (mark_succeeded 1 2 30 sample_result ''NONE'' (sample_session sample_usage_db))) =
   Inr (''SUCCEEDED'', Some 8, Some 260000)"
  by code_simp

theorem actual_cost_exact_witness:
  "fst (actual_cost (started_run 1 2 sample_start (Some (catalog_row ''acme'' {} 5 sample_entry 7)) ''acme'' ''m1''
     None 10 30 10) sample_result (sample_session sample_usage_db)) = Inr (Some 260000)"
  using actual_cost_exact [where g = sample_result and i = 3 and u = 5 and p = 20000000000 and q = 40000000000
    and s = "sample_session sample_usage_db" and r = "started_run 1 2 sample_start (Some (catalog_row ''acme'' {} 5 sample_entry 7)) ''acme'' ''m1''
     None 10 30 10"]
  by (simp add: sample_result_def started_run_def started_use_def sample_start_def catalog_row_def sample_entry_def
    MAX_TOKEN_COUNT_def MAX_MONEY_def exact_cost_def MILLION_def div_half_even_def)

theorem mark_succeeded_outcome_witness:
  "\<exists>cost now. committed (snd (mark_succeeded 1 2 30 sample_result ''NONE'' (sample_session sample_usage_db))) =
     move_model_run 1 2 30 (succeeded sample_result ''NONE'' cost now) sample_usage_db"
  using mark_succeeded_outcome [where s = "sample_session sample_usage_db" and t = 1 and w = 2 and i = 30
      and g = sample_result and trunc = "''NONE''"] sample_success
  by (auto split: prod.splits sum.splits)

end
