(* ===== verification/Projects_Tasks.thy ===== *)
theory Projects_Tasks
  imports Events
begin

text \<open>
  Projects and tasks (\<open>modules/projects\<close>, \<open>modules/tasks\<close>): the repositories and the
  services with their transactions. Creation appends a runtime event and updates append an audit
  record in the same transaction. A deletion follows the foreign keys: tasks go with their
  project, audit records and events lose the reference, everything else restricts.
\<close>

section \<open>Projects\<close>

definition slug_conflict :: exn where
  "slug_conflict = ApplicationError ''project_slug_conflict''
     ''A project with this slug already exists in the workspace'' 409"

record project_create =
  pc_name :: pystr
  pc_slug :: pystr
  pc_description :: "pystr option"
  pc_status :: pystr

text \<open>A patch: a field that was not set is \<open>None\<close>; a description may be set to null.\<close>

record project_update =
  pu_name :: "pystr option"
  pu_slug :: "pystr option"
  pu_description :: "pystr option option"
  pu_status :: "pystr option"

definition set_field :: "'a option \<Rightarrow> 'a \<Rightarrow> 'a" where
  "set_field new old = (case new of None \<Rightarrow> old | Some v \<Rightarrow> v)"

definition project_changed_fields :: "project_update \<Rightarrow> pystr list" where
  "project_changed_fields u =
     (if pu_description u = None then [] else [''description'']) @
     (if pu_name u = None then [] else [''name'']) @
     (if pu_slug u = None then [] else [''slug'']) @
     (if pu_status u = None then [] else [''status''])"

definition apply_project_update :: "project_update \<Rightarrow> instant \<Rightarrow> project \<Rightarrow> project" where
  "apply_project_update u now r = r\<lparr>pj_name := set_field (pu_name u) (pj_name r),
     pj_slug := set_field (pu_slug u) (pj_slug r),
     pj_description := set_field (pu_description u) (pj_description r),
     pj_status := set_field (pu_status u) (pj_status r), pj_updated_at := now\<rparr>"

definition repository_create_project :: "uuid \<Rightarrow> project_create \<Rightarrow> project prog" where
  "repository_create_project workspace_id data =
     bnd uuid4 (\<lambda>u. exec_stmt (\<lambda>now d.
       let r = \<lparr>pj_id = u, pj_workspace_id = workspace_id, pj_name = pc_name data,
                pj_slug = pc_slug data, pj_description = pc_description data,
                pj_status = pc_status data, pj_created_at = now, pj_updated_at = now\<rparr>
       in (r, d\<lparr>projects := projects d @ [r]\<rparr>)))"

definition repository_list_projects :: "uuid \<Rightarrow> nat \<Rightarrow> nat \<Rightarrow> project list prog" where
  "repository_list_projects workspace_id limit offset =
     query (\<lambda>d. window limit offset (sort_key (\<lambda>r. (pj_created_at r, pj_id r))
       (filter (\<lambda>r. pj_workspace_id r = workspace_id) (projects d))))"

definition repository_update_project :: "uuid \<Rightarrow> uuid \<Rightarrow> project_update \<Rightarrow> project option prog" where
  "repository_update_project workspace_id project_id changes =
     exec_stmt (\<lambda>now d.
       let cond = (\<lambda>r. pj_workspace_id r = workspace_id \<and> pj_id r = project_id);
           rows = update_where cond (apply_project_update changes now) (projects d)
       in (first_row (filter cond rows), d\<lparr>projects := rows\<rparr>))"

text \<open>The referential actions of deleting a set of tasks.\<close>

definition forget_task :: "(uuid \<Rightarrow> bool) \<Rightarrow> uuid option \<Rightarrow> uuid option" where
  "forget_task gone t = (case t of None \<Rightarrow> None | Some k \<Rightarrow> if gone k then None else Some k)"

definition delete_tasks :: "(task \<Rightarrow> bool) \<Rightarrow> db \<Rightarrow> db" where
  "delete_tasks cond d =
    (let gone = (\<lambda>k. list_ex (\<lambda>t. cond t \<and> tk_id t = k) (tasks d)) in
     d\<lparr>tasks := filter (\<lambda>t. \<not> cond t) (tasks d),
       audit_records := map (\<lambda>r. r\<lparr>au_task_id := forget_task gone (au_task_id r)\<rparr>) (audit_records d),
       runtime_events := map (\<lambda>r. r\<lparr>ev_task_id := forget_task gone (ev_task_id r)\<rparr>) (runtime_events d),
       memory_records := map (\<lambda>r. r\<lparr>me_task_id := forget_task gone (me_task_id r)\<rparr>) (memory_records d)\<rparr>)"

definition repository_delete_project :: "uuid \<Rightarrow> uuid \<Rightarrow> bool prog" where
  "repository_delete_project workspace_id project_id =
     exec_stmt (\<lambda>now d.
       let cond = (\<lambda>r. pj_workspace_id r = workspace_id \<and> pj_id r = project_id);
           hit = list_ex cond (projects d);
           d1 = (if hit then delete_tasks (\<lambda>t. tk_project_id t = project_id) d else d);
           gone = (\<lambda>k. hit \<and> k = project_id)
       in (hit, d1\<lparr>projects := filter (\<lambda>r. \<not> cond r) (projects d1),
             audit_records := map (\<lambda>r. r\<lparr>au_project_id := forget_task gone (au_project_id r)\<rparr>)
               (audit_records d1),
             runtime_events := map (\<lambda>r. r\<lparr>ev_project_id := forget_task gone (ev_project_id r)\<rparr>)
               (runtime_events d1),
             memory_records := map (\<lambda>r. r\<lparr>me_project_id := forget_task gone (me_project_id r)\<rparr>)
               (memory_records d1)\<rparr>))"

definition create_project :: "uuid \<Rightarrow> uuid \<Rightarrow> project_create \<Rightarrow> project prog" where
  "create_project tenant_id workspace_id data =
     andthen (require_workspace tenant_id workspace_id)
     (bnd (on_integrity_error slug_conflict
        (bnd (repository_create_project workspace_id data) (\<lambda>project.
         andthen (join_event \<lparr>ec_tenant_id = tenant_id, ec_workspace_id = workspace_id,
             ec_event_type = ''project.created'', ec_source = ''project_service'',
             ec_correlation_id = None, ec_project_id = Some (pj_id project), ec_task_id = None,
             ec_payload = Some (PDict [(PStr ''status'', PStr (pc_status data))])\<rparr>)
        (andthen commit (ret project)))))
      (refresh projects pj_id))"

definition list_projects :: "uuid \<Rightarrow> uuid \<Rightarrow> nat \<Rightarrow> nat \<Rightarrow> project list prog" where
  "list_projects tenant_id workspace_id limit offset =
     andthen (require_workspace tenant_id workspace_id)
       (repository_list_projects workspace_id limit offset)"

definition service_get_project :: "uuid \<Rightarrow> uuid \<Rightarrow> uuid \<Rightarrow> project prog" where
  "service_get_project tenant_id workspace_id project_id =
     andthen (require_workspace tenant_id workspace_id)
       (bnd (get_project workspace_id project_id) (require not_found))"

definition update_project :: "uuid \<Rightarrow> uuid \<Rightarrow> uuid \<Rightarrow> project_update \<Rightarrow> project prog" where
  "update_project tenant_id workspace_id project_id data =
     andthen (require_workspace tenant_id workspace_id)
     (bnd (on_integrity_error slug_conflict
        (bnd (repository_update_project workspace_id project_id data) (\<lambda>row.
         bnd (require not_found row) (\<lambda>project.
         andthen (join_audit ((audit_fields tenant_id workspace_id ''project.update'' ''api'' ''success'')
           \<lparr>ac_project_id := Some project_id, ac_resource_type := Some ''project'',
            ac_resource_id := Some project_id,
            ac_metadata := Some (PDict [(PStr ''changed_fields'',
              PList (map PStr (project_changed_fields data)))])\<rparr>))
        (andthen commit (ret project))))))
      (refresh projects pj_id))"

definition delete_project :: "uuid \<Rightarrow> uuid \<Rightarrow> uuid \<Rightarrow> unit prog" where
  "delete_project tenant_id workspace_id project_id =
     andthen (require_workspace tenant_id workspace_id)
     (bnd (repository_delete_project workspace_id project_id) (\<lambda>deleted.
      andthen (only_if (\<not> deleted) (throw not_found)) commit))"

section \<open>Tasks\<close>

record task_create =
  tc_title :: pystr
  tc_description :: "pystr option"
  tc_status :: pystr

record task_update =
  tu_title :: "pystr option"
  tu_description :: "pystr option option"
  tu_status :: "pystr option"

definition task_changed_fields :: "task_update \<Rightarrow> pystr list" where
  "task_changed_fields u =
     (if tu_description u = None then [] else [''description'']) @
     (if tu_status u = None then [] else [''status'']) @
     (if tu_title u = None then [] else [''title''])"

definition apply_task_update :: "task_update \<Rightarrow> instant \<Rightarrow> task \<Rightarrow> task" where
  "apply_task_update u now r = r\<lparr>tk_title := set_field (tu_title u) (tk_title r),
     tk_description := set_field (tu_description u) (tk_description r),
     tk_status := set_field (tu_status u) (tk_status r), tk_updated_at := now\<rparr>"

definition repository_create_task :: "uuid \<Rightarrow> task_create \<Rightarrow> task prog" where
  "repository_create_task project_id data =
     bnd uuid4 (\<lambda>u. exec_stmt (\<lambda>now d.
       let r = \<lparr>tk_id = u, tk_project_id = project_id, tk_title = tc_title data,
                tk_description = tc_description data, tk_status = tc_status data,
                tk_created_at = now, tk_updated_at = now\<rparr>
       in (r, d\<lparr>tasks := tasks d @ [r]\<rparr>)))"

definition repository_list_tasks :: "uuid \<Rightarrow> nat \<Rightarrow> nat \<Rightarrow> pystr option \<Rightarrow> task list prog" where
  "repository_list_tasks project_id limit offset status =
     query (\<lambda>d. window limit offset (sort_key (\<lambda>r. (tk_created_at r, tk_id r))
       (filter (\<lambda>r. tk_project_id r = project_id \<and> opt_all (\<lambda>v. tk_status r = v) status) (tasks d))))"

definition repository_update_task :: "uuid \<Rightarrow> uuid \<Rightarrow> task_update \<Rightarrow> task option prog" where
  "repository_update_task project_id task_id changes =
     exec_stmt (\<lambda>now d.
       let cond = (\<lambda>r. tk_project_id r = project_id \<and> tk_id r = task_id);
           rows = update_where cond (apply_task_update changes now) (tasks d)
       in (first_row (filter cond rows), d\<lparr>tasks := rows\<rparr>))"

definition repository_delete_task :: "uuid \<Rightarrow> uuid \<Rightarrow> bool prog" where
  "repository_delete_task project_id task_id =
     exec_stmt (\<lambda>now d.
       let cond = (\<lambda>r. tk_project_id r = project_id \<and> tk_id r = task_id)
       in (list_ex cond (tasks d), delete_tasks cond d))"

definition task_require_scope :: "uuid \<Rightarrow> uuid \<Rightarrow> uuid \<Rightarrow> unit prog" where
  "task_require_scope tenant_id workspace_id project_id =
     andthen (require_workspace tenant_id workspace_id)
       (require_project workspace_id (Some project_id))"

definition create_task :: "uuid \<Rightarrow> uuid \<Rightarrow> uuid \<Rightarrow> task_create \<Rightarrow> task prog" where
  "create_task tenant_id workspace_id project_id data =
     andthen (task_require_scope tenant_id workspace_id project_id)
     (bnd (on_integrity_error not_found
        (bnd (repository_create_task project_id data) (\<lambda>task.
         andthen (join_event \<lparr>ec_tenant_id = tenant_id, ec_workspace_id = workspace_id,
             ec_event_type = ''task.created'', ec_source = ''task_service'',
             ec_correlation_id = None, ec_project_id = Some project_id, ec_task_id = Some (tk_id task),
             ec_payload = Some (PDict [(PStr ''status'', PStr (tc_status data))])\<rparr>)
        (andthen commit (ret task)))))
      (refresh tasks tk_id))"

definition list_tasks :: "uuid \<Rightarrow> uuid \<Rightarrow> uuid \<Rightarrow> nat \<Rightarrow> nat \<Rightarrow> pystr option \<Rightarrow> task list prog" where
  "list_tasks tenant_id workspace_id project_id limit offset status =
     andthen (task_require_scope tenant_id workspace_id project_id)
       (repository_list_tasks project_id limit offset status)"

definition service_get_task :: "uuid \<Rightarrow> uuid \<Rightarrow> uuid \<Rightarrow> uuid \<Rightarrow> task prog" where
  "service_get_task tenant_id workspace_id project_id task_id =
     andthen (task_require_scope tenant_id workspace_id project_id)
       (bnd (get_task (Some project_id) task_id) (require not_found))"

definition update_task :: "uuid \<Rightarrow> uuid \<Rightarrow> uuid \<Rightarrow> uuid \<Rightarrow> task_update \<Rightarrow> task prog" where
  "update_task tenant_id workspace_id project_id task_id data =
     andthen (task_require_scope tenant_id workspace_id project_id)
     (bnd (on_integrity_error not_found
        (bnd (repository_update_task project_id task_id data) (\<lambda>row.
         bnd (require not_found row) (\<lambda>task.
         andthen (join_audit ((audit_fields tenant_id workspace_id ''task.update'' ''api'' ''success'')
           \<lparr>ac_project_id := Some project_id, ac_task_id := Some task_id,
            ac_resource_type := Some ''task'', ac_resource_id := Some task_id,
            ac_metadata := Some (PDict [(PStr ''changed_fields'',
              PList (map PStr (task_changed_fields data)))])\<rparr>))
        (andthen commit (ret task))))))
      (refresh tasks tk_id))"

definition delete_task :: "uuid \<Rightarrow> uuid \<Rightarrow> uuid \<Rightarrow> uuid \<Rightarrow> unit prog" where
  "delete_task tenant_id workspace_id project_id task_id =
     andthen (task_require_scope tenant_id workspace_id project_id)
     (bnd (repository_delete_task project_id task_id) (\<lambda>deleted.
      andthen (only_if (\<not> deleted) (throw not_found)) commit))"

section \<open>Effects on the data\<close>

text \<open>What the referential actions of a deletion may do to a record, an event or a memory: forget its scope.\<close>

definition forgets_audit :: "audit_record \<Rightarrow> audit_record \<Rightarrow> bool" where
  "forgets_audit r s \<longleftrightarrow> au_project_id s \<in> {None, au_project_id r} \<and> au_task_id s \<in> {None, au_task_id r} \<and>
     s\<lparr>au_project_id := None, au_task_id := None\<rparr> = r\<lparr>au_project_id := None, au_task_id := None\<rparr>"

definition forgets_event :: "runtime_event \<Rightarrow> runtime_event \<Rightarrow> bool" where
  "forgets_event r s \<longleftrightarrow> ev_project_id s \<in> {None, ev_project_id r} \<and> ev_task_id s \<in> {None, ev_task_id r} \<and>
     s\<lparr>ev_project_id := None, ev_task_id := None\<rparr> = r\<lparr>ev_project_id := None, ev_task_id := None\<rparr>"

definition forgets_memory :: "memory_record \<Rightarrow> memory_record \<Rightarrow> bool" where
  "forgets_memory r s \<longleftrightarrow> me_project_id s \<in> {None, me_project_id r} \<and> me_task_id s \<in> {None, me_task_id r} \<and>
     s\<lparr>me_project_id := None, me_task_id := None\<rparr> = r\<lparr>me_project_id := None, me_task_id := None\<rparr>"

interpretation memory_rows: row_order forgets_memory memory_records
  by unfold_locales (auto simp: forgets_memory_def)

interpretation audit_rows: row_order forgets_audit audit_records
  by unfold_locales (auto simp: forgets_audit_def)

interpretation event_rows: row_order forgets_event runtime_events
  by unfold_locales (auto simp: forgets_event_def)

lemma forget_task_cases: "forget_task gone t \<in> {None, t}"
  by (cases t) (simp_all add: forget_task_def)

lemma forgets_updates [simp]:
  "forgets_audit r (r\<lparr>au_task_id := forget_task gone (au_task_id r)\<rparr>)"
  "forgets_audit r (r\<lparr>au_project_id := forget_task gone (au_project_id r)\<rparr>)"
  "forgets_event q (q\<lparr>ev_task_id := forget_task gone (ev_task_id q)\<rparr>)"
  "forgets_event q (q\<lparr>ev_project_id := forget_task gone (ev_project_id q)\<rparr>)"
  "forgets_memory m (m\<lparr>me_task_id := forget_task gone (me_task_id m)\<rparr>)"
  "forgets_memory m (m\<lparr>me_project_id := forget_task gone (me_project_id m)\<rparr>)"
  using forget_task_cases by (simp_all add: forgets_audit_def forgets_event_def forgets_memory_def)

definition scope_edit :: "db \<Rightarrow> db \<Rightarrow> bool" where
  "scope_edit d e \<longleftrightarrow> (\<exists>ps ts as es ms. list_all2 forgets_audit (audit_records d) as \<and>
     list_all2 forgets_event (runtime_events d) es \<and> list_all2 forgets_memory (memory_records d) ms \<and>
     e = d\<lparr>projects := ps, tasks := ts, audit_records := as, runtime_events := es, memory_records := ms\<rparr>)"

lemma forgets_list [simp]:
  "list_all2 forgets_audit as as" "list_all2 forgets_event es es" "list_all2 forgets_memory ms ms"
  by (simp_all add: list_all2_refl audit_rows.le_refl event_rows.le_refl memory_rows.le_refl)

lemma scope_editI:
  assumes "list_all2 forgets_audit (audit_records d) as" "list_all2 forgets_event (runtime_events d) es"
    and "list_all2 forgets_memory (memory_records d) ms"
  shows "scope_edit d (d\<lparr>projects := ps, tasks := ts, audit_records := as, runtime_events := es, memory_records := ms\<rparr>)"
  unfolding scope_edit_def using assms
  by (intro exI [of _ ps] exI [of _ ts] exI [of _ as] exI [of _ es] exI [of _ ms]) simp

lemma scope_edit_refl: "scope_edit d d"
  using scope_editI [where d = d and as = "audit_records d" and es = "runtime_events d" and ms = "memory_records d" and ps = "projects d" and ts = "tasks d"] by simp

lemma scope_edit_trans: "scope_edit d e \<Longrightarrow> scope_edit e f \<Longrightarrow> scope_edit d f"
  unfolding scope_edit_def
  by (elim exE conjE, rule exI, rule exI, rule exI, rule exI, rule exI, intro conjI)
    (auto intro: list_all2_trans [OF audit_rows.le_trans] list_all2_trans [OF event_rows.le_trans]
      list_all2_trans [OF memory_rows.le_trans])

lemma scope_edit_rows:
  "scope_edit d (d\<lparr>projects := ps\<rparr>)" "scope_edit d (d\<lparr>tasks := ts\<rparr>)"
  using scope_editI [where d = d and as = "audit_records d" and es = "runtime_events d" and ms = "memory_records d" and ps = ps and ts = "tasks d"]
    scope_editI [where d = d and as = "audit_records d" and es = "runtime_events d" and ms = "memory_records d" and ps = "projects d" and ts = ts] by simp_all

lemma scope_edit_forget:
  assumes "\<And>r. forgets_audit r (f r)" and "\<And>r. forgets_event r (g r)" and "\<And>r. forgets_memory r (h r)"
  shows "scope_edit d (d\<lparr>projects := ps, tasks := ts, audit_records := map f (audit_records d),
    runtime_events := map g (runtime_events d), memory_records := map h (memory_records d)\<rparr>)"
  by (rule scope_editI) (simp_all add: list_all2_conv_all_nth assms)

lemma scope_edit_delete_tasks: "scope_edit d (delete_tasks cond d)"
  using scope_edit_forget [where d = d and ps = "projects d"] by (simp add: delete_tasks_def Let_def)

lemma scope_edit_delete_project:
  "scope_edit d (let d1 = if hit then delete_tasks cond d else d
     in d1\<lparr>projects := ps,
        audit_records := map (\<lambda>r. r\<lparr>au_project_id := forget_task gone (au_project_id r)\<rparr>) (audit_records d1),
        runtime_events := map (\<lambda>r. r\<lparr>ev_project_id := forget_task gone (ev_project_id r)\<rparr>) (runtime_events d1),
        memory_records := map (\<lambda>r. r\<lparr>me_project_id := forget_task gone (me_project_id r)\<rparr>) (memory_records d1)\<rparr>)"
proof -
  have "scope_edit d (if hit then delete_tasks cond d else d)"
    by (simp add: scope_edit_delete_tasks scope_edit_refl)
  moreover have "scope_edit d1 (d1\<lparr>projects := ps,
        audit_records := map (\<lambda>r. r\<lparr>au_project_id := forget_task gone (au_project_id r)\<rparr>) (audit_records d1),
        runtime_events := map (\<lambda>r. r\<lparr>ev_project_id := forget_task gone (ev_project_id r)\<rparr>) (runtime_events d1),
        memory_records := map (\<lambda>r. r\<lparr>me_project_id := forget_task gone (me_project_id r)\<rparr>) (memory_records d1)\<rparr>)" for d1
    using scope_edit_forget [where d = d1 and ps = ps and ts = "tasks d1"] by simp
  ultimately show ?thesis unfolding Let_def by (rule scope_edit_trans)
qed

context store_order
begin

lemma steps_projects_tasks:
  assumes "\<And>d r. W d (d\<lparr>audit_records := audit_records d @ [r]\<rparr>)"
    and "\<And>d r. W d (d\<lparr>runtime_events := runtime_events d @ [r]\<rparr>)"
    and "\<And>d e. scope_edit d e \<Longrightarrow> W d e"
  shows "steps R (create_project t w pc)" "steps R (update_project t w p pu)"
    "steps R (delete_project t w p)" "steps R (create_task t w p tc)"
    "steps R (update_task t w p k tu)" "steps R (delete_task t w p k)"
proof -
  have repo: "steps R (repository_create_project w pc)" "steps R (repository_update_project w p pu)"
    "steps R (repository_create_task p tc)" "steps R (repository_update_task p k tu)"
    "steps R (repository_delete_task p k)" "steps R (repository_delete_project w p)"
    unfolding repository_create_project_def repository_update_project_def repository_create_task_def
      repository_update_task_def repository_delete_task_def repository_delete_project_def Let_def
    by (intro steps_rules stmt_rules steps_exec assms(3); simp add: scope_edit_rows
        scope_edit_delete_tasks scope_edit_delete_project [unfolded Let_def])+
  show "steps R (create_project t w pc)" "steps R (update_project t w p pu)"
    "steps R (delete_project t w p)" "steps R (create_task t w p tc)"
    "steps R (update_task t w p k tu)" "steps R (delete_task t w p k)"
    unfolding create_project_def update_project_def delete_project_def create_task_def update_task_def
      delete_task_def task_require_scope_def
    by (intro steps_rules store_rules steps_scopes steps_join_audit steps_join_event repo assms)+
qed

end

end
