(* ===== verification/Tool_Gateway.thy ===== *)
theory Tool_Gateway
  imports Tools
begin

text \<open>
  What the gateway guarantees: a tool runs only with permission and under the policy that holds when
  it runs, a mutation only under an approval granted for exactly this change, and a finished call is
  answered from the store.
\<close>

section \<open>Steps\<close>

definition move_tool_call :: "uuid \<Rightarrow> call_state \<Rightarrow> db \<Rightarrow> db" where
  "move_tool_call i v d = put_tool_calls (update_where (\<lambda>c. tc_id c = i) (apply_call_state v) (tool_calls d)) d"

context stmt_order
begin

lemma steps_host: "steps R get_files" "steps R get_libs" "steps R get_environment" "steps R elapsed_ms"
  by (simp_all add: steps_def get_files_def get_libs_def get_environment_def elapsed_ms_def R_refl R_tick)

lemma steps_gateway_reads:
  "steps R (load_authority t w i m)" "steps R (get_by_key t w i k)" "steps R (prepare_mutation c p)"
  "steps R (locked_call t w a)" "steps R (workflow_link i)"
proof -
  show "steps R (load_authority t w i m)" "steps R (get_by_key t w i k)" "steps R (locked_call t w a)"
    "steps R (workflow_link i)"
    unfolding load_authority_def get_by_key_def locked_call_def get_for_approval_def workflow_link_def Let_def
    by (intro steps_rules stmt_rules steps_scopes)+
  show "steps R (prepare_mutation c p)" unfolding prepare_mutation_def
    by (auto intro!: steps_rules steps_host split: option.splits tool_input.splits)
qed

lemma steps_tool_call_writes:
  "(\<And>d c. W d (d\<lparr>tool_calls := tool_calls d @ [c]\<rparr>)) \<Longrightarrow> steps R (create_tool_call row)"
  "(\<And>d. W d (move_tool_call i v d)) \<Longrightarrow> steps R (set_state i v)"
  unfolding create_tool_call_def set_state_def move_tool_call_def
  by (intro steps_rules stmt_rules steps_exec steps_compare_set; simp)+

end

context store_order
begin

lemma steps_observable:
  assumes "\<And>d r. W d (d\<lparr>audit_records := audit_records d @ [r]\<rparr>)"
    and "\<And>d r. W d (d\<lparr>runtime_events := runtime_events d @ [r]\<rparr>)"
  shows "steps R (observable c e out)"
  unfolding observable_def
  by (intro steps_rules steps_gateway_reads steps_join_event steps_join_audit assms)

lemma steps_gateway_calls:
  assumes "\<And>d r. W d (d\<lparr>audit_records := audit_records d @ [r]\<rparr>)"
    and "\<And>d r. W d (d\<lparr>runtime_events := runtime_events d @ [r]\<rparr>)"
    and "\<And>d i v. W d (move_tool_call i v d)"
  shows "steps R (deny c code decision)" "steps R (finish_call c r)" "steps R (start_call c res)"
    "steps R (reject_prepared_mutation t w a)"
proof -
  show d: "steps R (deny c code decision)" for c code decision unfolding deny_def
    by (intro steps_rules store_rules steps_tool_call_writes steps_observable assms)
  show "steps R (finish_call c r)" unfolding finish_call_def
    by (cases r) (auto intro!: steps_rules store_rules steps_tool_call_writes steps_observable steps_host assms)
  show "steps R (start_call c res)" unfolding start_call_def
    by (intro steps_rules store_rules steps_tool_call_writes assms)
  show "steps R (reject_prepared_mutation t w a)" unfolding reject_prepared_mutation_def
    by (intro steps_rules steps_gateway_reads) (auto intro!: steps_rules d)
qed

lemma steps_ask_approval:
  assumes "\<And>d r. W d (d\<lparr>audit_records := audit_records d @ [r]\<rparr>)"
    and "\<And>d r. W d (d\<lparr>runtime_events := runtime_events d @ [r]\<rparr>)"
    and "\<And>d i v. W d (move_tool_call i v d)"
    and "\<And>d r. W d (d\<lparr>approval_requests := approval_requests d @ [r]\<rparr>)"
  shows "steps R (ask_approval c req decision)"
  unfolding ask_approval_def ApprovalCreate_def
  by (intro steps_rules store_rules steps_create_approval steps_tool_call_writes steps_observable assms)

end

text \<open>Relations that a write to a file of the workspace respects as well.\<close>

locale workspace_order = store_order +
  assumes R_files: "R s (s\<lparr>files := tree\<rparr>)"
begin

lemma steps_apply_tool: "steps R (apply_tool x p)"
proof -
  have "R s (s\<lparr>files := tree, tick := n\<rparr>)" for s tree n
    using R_trans [OF R_files R_tick] by simp
  then show ?thesis
    unfolding steps_def apply_tool_def by (auto simp: R_refl R_tick split: sum.splits evidence.splits bool.splits)
qed

lemma steps_perform: "steps R (perform c i)"
  unfolding perform_def Let_def
  by (cases i) (auto intro!: steps_rules steps_host steps_apply_tool)

lemma steps_execute_proposal:
  assumes "\<And>d r. W d (d\<lparr>audit_records := audit_records d @ [r]\<rparr>)"
    and "\<And>d r. W d (d\<lparr>runtime_events := runtime_events d @ [r]\<rparr>)"
    and "\<And>d i v. W d (move_tool_call i v d)"
    and "\<And>d r. W d (d\<lparr>approval_requests := approval_requests d @ [r]\<rparr>)"
    and "\<And>d c. W d (d\<lparr>tool_calls := tool_calls d @ [c]\<rparr>)"
  shows "steps R (execute_proposal t w i proposal permitted m a)"
    and "steps R (resume_prepared_mutation t w ai)"
proof -
  note calls = steps_gateway_calls [OF assms(1-3)] steps_perform store_rules
  have run: "steps R (run_call c inp decision)" for c inp decision
    unfolding run_call_def by (intro steps_rules calls)
  have "steps R (decide_call c inp req ap)" for c inp req ap
    unfolding decide_call_def
    by (intro steps_rules steps_evaluate steps_is_approval_satisfied steps_ask_approval run calls assms)
  then have "steps R (judge_call run def proposal permitted a tool parsed prepared c)" for run def tool parsed prepared c
    unfolding judge_call_def PolicyEvaluationRequest_def
    by (auto intro!: steps_rules steps_host calls split: option.splits)
  then show "steps R (execute_proposal t w i proposal permitted m a)"
    unfolding execute_proposal_def continue_call_def Let_def
    by (auto intro!: steps_rules steps_host steps_gateway_reads steps_tool_call_writes calls assms split: option.splits prod.splits)
  show "steps R (resume_prepared_mutation t w ai)"
    unfolding resume_prepared_mutation_def resume_call_def current_definition_def apply_approved_def
      authorized_mutation_def PolicyEvaluationRequest_def
    by (auto intro!: steps_rules steps_host steps_gateway_reads steps_scopes calls steps_evaluate
        steps_is_approval_satisfied assms split: option.splits prod.splits sum.splits)
qed

end

text \<open>Relations between the durable data do not look at the files.\<close>

context db_order
begin

lemma lift_is_workspace_order: "workspace_order (lift_order P) P"
  by (rule workspace_order.intro [OF lift_is_order])
    (rule workspace_order_axioms.intro, simp add: lift_order_def P_refl)

end

section \<open>What the gateway leaves alone\<close>

definition authority_of :: "db \<Rightarrow> policy_rule list \<times> approval_request list \<times> agent_definition list \<times> agent_run list" where
  "authority_of d = (policy_rules d, approval_requests d, agent_definitions d, agent_runs d)"

definition gate_step :: "session \<Rightarrow> session \<Rightarrow> bool" where
  "gate_step s t = (files t = files s \<and> libs t = libs s \<and> environment t = environment s \<and>
     lift_order (frozen authority_of) s t \<and> keeps_data_ok s t)"

interpretation authority: db_order "frozen authority_of"
  by unfold_locales (auto simp: frozen_def)

interpretation gate: store_order gate_step "frozen authority_of"
  by unfold_locales
    (auto simp: gate_step_def lift_order_def frozen_def keeps_data_ok_def data_ok_def)

lemma gate_writes:
  "frozen authority_of d (d\<lparr>audit_records := au\<rparr>)" "frozen authority_of d (d\<lparr>runtime_events := ev\<rparr>)"
  "frozen authority_of d (d\<lparr>tool_calls := tc\<rparr>)" "frozen authority_of d (move_tool_call i v d)"
  by (simp_all add: frozen_def authority_of_def move_tool_call_def put_tool_calls_def)

lemmas gate_calls = gate.steps_gateway_calls [OF gate_writes(1,2,4)]
  gate.steps_tool_call_writes(1) [OF gate_writes(3)] gate.steps_gateway_reads gate.steps_host
  gate.store_rules gate.steps_commit gate.steps_evaluate [OF gate_writes(1)] gate.steps_is_approval_satisfied [OF gate_writes(1)]

text \<open>
  \<open>keeps_quiet A m s\<close>: run from \<open>s\<close>, the program changes no file, and hands out no evidence, unless \<open>A\<close>.
\<close>

definition spoke :: "session \<Rightarrow> (exn + gateway_result) \<times> session \<Rightarrow> bool" where
  "spoke s = (\<lambda>(r, t). files t \<noteq> files s \<or> (\<exists>v. r = Inr v \<and> gr_evidence v \<noteq> None))"

definition keeps_quiet :: "bool \<Rightarrow> gateway_result prog \<Rightarrow> session \<Rightarrow> bool" where
  "keeps_quiet A m s = (spoke s (m s) \<longrightarrow> A)"

lemma keeps_quiet_given: "A \<Longrightarrow> keeps_quiet A m s"
  by (simp add: keeps_quiet_def)

lemma keeps_quiet_ret: "gr_evidence v = None \<Longrightarrow> keeps_quiet A (ret v) s"
  by (simp add: keeps_quiet_def spoke_def ret_def)

lemma keeps_quiet_throw: "keeps_quiet A (throw e) s"
  by (simp add: keeps_quiet_def spoke_def throw_def)

lemma keeps_quiet_along:
  assumes "steps R m" and "\<And>s t. R s t \<Longrightarrow> files t = files s"
    and "\<And>a t. m s = (Inr a, t) \<Longrightarrow> R s t \<Longrightarrow> keeps_quiet A (k a) t"
  shows "keeps_quiet A (bnd m k) s"
proof (cases "m s")
  case (Pair r t)
  with assms(1) have g: "R s t" by (auto simp: steps_def dest: spec [of _ s])
  from assms(2) [OF this] have f: "files t = files s" .
  show ?thesis
  proof (cases r)
    case (Inr a)
    with assms(3) [of a t] Pair g f show ?thesis
      by (auto simp: keeps_quiet_def spoke_def bnd_def split: prod.splits)
  qed (use Pair f in \<open>auto simp: keeps_quiet_def spoke_def bnd_def\<close>)
qed

lemma keeps_quiet_bnd:
  "steps gate_step m \<Longrightarrow> (\<And>a t. m s = (Inr a, t) \<Longrightarrow> gate_step s t \<Longrightarrow> keeps_quiet A (k a) t) \<Longrightarrow>
    keeps_quiet A (bnd m k) s"
  by (rule keeps_quiet_along [where R = gate_step]) (auto simp: gate_step_def)

lemma keeps_quiet_andthen:
  "steps gate_step m \<Longrightarrow> (\<And>a t. m s = (Inr a, t) \<Longrightarrow> gate_step s t \<Longrightarrow> keeps_quiet A n t) \<Longrightarrow>
    keeps_quiet A (andthen m n) s"
  unfolding andthen_def by (rule keeps_quiet_bnd)

lemma keeps_quiet_if: "(b \<Longrightarrow> keeps_quiet A m s) \<Longrightarrow> (\<not> b \<Longrightarrow> keeps_quiet A n s) \<Longrightarrow> keeps_quiet A (if b then m else n) s"
  by simp

lemmas quiet_rules = keeps_quiet_ret keeps_quiet_throw keeps_quiet_bnd keeps_quiet_andthen keeps_quiet_if

lemma gateway_result_of_evidence [simp]: "gr_evidence (gateway_result_of c ev code) = ev"
  by (simp add: gateway_result_of_def)

lemma keeps_quiet_deny: "keeps_quiet A (deny c code decision) s"
  unfolding deny_def by (intro quiet_rules gate_calls gate.steps_tool_call_writes gate.steps_observable gate_writes) simp

definition same_files :: "session \<Rightarrow> session \<Rightarrow> bool" where
  "same_files s t = (files t = files s)"

interpretation same_files: store_order same_files "\<lambda>_ _. True"
  by unfold_locales (auto simp: same_files_def)

lemma keeps_quiet_ask: "keeps_quiet A (ask_approval c req decision) s"
proof -
  have f: "steps same_files m \<Longrightarrow> (\<And>a t. keeps_quiet A (k a) t) \<Longrightarrow> keeps_quiet A (bnd m k) s" for m :: "'a prog" and k s
    by (rule keeps_quiet_along [where R = same_files]) (auto simp: same_files_def)
  show ?thesis unfolding ask_approval_def ApprovalCreate_def andthen_def
    by (intro f keeps_quiet_ret same_files.steps_rules same_files.store_rules same_files.steps_create_approval
        same_files.steps_tool_call_writes same_files.steps_observable) simp_all
qed

section \<open>The checks before a call runs\<close>

lemma gate_authority:
  assumes "gate_step s t" and "working s = committed s"
  shows "authority_of (working t) = authority_of (committed s)"
  using assms by (auto simp: gate_step_def lift_order_def frozen_def)

text \<open>
  What the policy and the approvals of a store say of a request: no rule that applies blocks it, and
  a call that needs a confirmation has an approval for exactly this request and this fingerprint.
\<close>

definition current_effect :: "db \<Rightarrow> evaluation_request \<Rightarrow> policy_effect" where
  "current_effect d req = rs_effect (evaluate_rules req (applicable_rules (rq_tenant_id req) (rq_workspace_id req) d))"

definition approved_for :: "db \<Rightarrow> evaluation_request \<Rightarrow> tool_call \<Rightarrow> uuid \<Rightarrow> bool" where
  "approved_for d req c i =
    (\<exists>a \<in> set (approval_requests d). ap_id a = i \<and> ap_status a = ''APPROVED'' \<and>
       exact_scope_matches a req (tc_mutation_fingerprint c))"

lemma current_effect_authority:
  "authority_of d = authority_of e \<Longrightarrow> current_effect d = current_effect e"
  "authority_of d = authority_of e \<Longrightarrow> approved_for d = approved_for e"
  by (auto simp: current_effect_def applicable_rules_def authority_of_def approved_for_def fun_eq_iff)

definition decided :: "session \<Rightarrow> evaluation_request \<Rightarrow> tool_call \<Rightarrow> tool_input \<Rightarrow> uuid option \<Rightarrow> bool" where
  "decided s req c i approval_id =
    (let effect = current_effect (committed s) req in
     effect \<noteq> BLOCK \<and> (is_mutation i \<longrightarrow> effect = REQUIRE_CONFIRMATION) \<and>
     (if tc_status c = ''PENDING_APPROVAL''
      then (\<exists>a. approval_id = Some a \<and> tc_approval_request_id c = Some a \<and> approved_for (committed s) req c a)
      else effect \<noteq> REQUIRE_CONFIRMATION))"

text \<open>A later session of the same request, with nothing changed of what decides.\<close>

definition settled_from :: "session \<Rightarrow> session \<Rightarrow> bool" where
  "settled_from s t = (gate_step s t \<and> working s = committed s \<and> data_ok s)"

lemma settled_start: "working s = committed s \<Longrightarrow> constraints (committed s) \<Longrightarrow> settled_from s s"
  by (simp add: settled_from_def data_ok_def gate.R_refl)

lemma settled_step: "settled_from s t \<Longrightarrow> gate_step t u \<Longrightarrow> settled_from s u"
  unfolding settled_from_def by (blast intro: gate.R_trans)

lemma settled_facts:
  assumes "settled_from s t"
  shows "constraints (working t)" "current_effect (working t) = current_effect (committed s)"
    "approved_for (working t) = approved_for (committed s)"
    "files t = files s" "libs t = libs s" "environment t = environment s"
    "agent_runs (working t) = agent_runs (committed s)"
    "agent_definitions (working t) = agent_definitions (committed s)"
proof -
  have a: "authority_of (working t) = authority_of (committed s)"
    using assms gate_authority unfolding settled_from_def by blast
  show "constraints (working t)" using assms by (auto simp: settled_from_def gate_step_def keeps_data_ok_def data_ok_def)
  show "current_effect (working t) = current_effect (committed s)" "approved_for (working t) = approved_for (committed s)"
    using current_effect_authority [OF a] by simp_all
  show "files t = files s" "libs t = libs s" "environment t = environment s"
    using assms by (simp_all add: settled_from_def gate_step_def)
  show "agent_runs (working t) = agent_runs (committed s)"
    "agent_definitions (working t) = agent_definitions (committed s)"
    using a by (simp_all add: authority_of_def)
qed

lemma evaluate_effect: "evaluate req s = (Inr d, t) \<Longrightarrow> rs_effect d = current_effect (working s) req"
  by (drule evaluate_runs) (simp add: current_effect_def)

lemma refusal_None: "refusal i d = None \<longleftrightarrow>
    rs_effect d \<noteq> BLOCK \<and> (is_mutation i \<longrightarrow> rs_effect d = REQUIRE_CONFIRMATION)"
  by (auto simp: refusal_def)

lemma satisfied_approval:
  assumes "is_approval_satisfied a req (tc_mutation_fingerprint c) s = (Inr True, t)" and "constraints (working s)"
  shows "approved_for (working s) req c a"
  using is_approval_satisfied_runs [OF assms] by (auto simp: approved_for_def scoped_approval_def)

lemma keeps_quiet_decide:
  assumes s: "settled_from s t" and A: "decided s req c i approval_id \<Longrightarrow> A"
  shows "keeps_quiet A (decide_call c i req approval_id) t"
proof -
  have run: "keeps_quiet A (if rs_effect d = REQUIRE_CONFIRMATION then ask_approval c req d else run_call c i d) u"
    if "evaluate req t = (Inr d, u)" "refusal i d = None" "tc_status c \<noteq> ''PENDING_APPROVAL''" for d u
    using that evaluate_effect [OF that(1)] settled_facts(2) [OF s]
    by (auto intro!: keeps_quiet_ask keeps_quiet_given A simp: decided_def refusal_None)
  have approved: "keeps_quiet A (run_call c i d) v"
    if "evaluate req t = (Inr d, u)" "refusal i d = None" "tc_status c = ''PENDING_APPROVAL''"
      "tc_approval_request_id c = Some a" "approval_id = Some a" "gate_step t u"
      "is_approval_satisfied a req (tc_mutation_fingerprint c) u = (Inr True, v)" for d u v a
  proof -
    have u: "settled_from s u" by (rule settled_step [OF s that(6)])
    have "approved_for (committed s) req c a"
      using satisfied_approval [OF that(7) settled_facts(1) [OF u]] settled_facts(3) [OF u] by simp
    then show ?thesis
      using that evaluate_effect [OF that(1)] settled_facts(2) [OF s]
      by (auto intro!: keeps_quiet_given A simp: decided_def refusal_None)
  qed
  show ?thesis
  proof (cases "tc_status c = ''PENDING_APPROVAL''")
    case False
    have "keeps_quiet A (case refusal i d of Some code \<Rightarrow> deny c code (Some d)
        | None \<Rightarrow> if rs_effect d = REQUIRE_CONFIRMATION then ask_approval c req d else run_call c i d) u"
      if "evaluate req t = (Inr d, u)" for d u
      using run [OF that _ False] keeps_quiet_deny by (cases "refusal i d") simp_all
    with False show ?thesis unfolding decide_call_def by (auto intro!: keeps_quiet_bnd gate_calls)
  next
    case True
    have "keeps_quiet A (case refusal i d of Some code \<Rightarrow> deny c code (Some d)
        | None \<Rightarrow> bnd (is_approval_satisfied a req (tc_mutation_fingerprint c)) (\<lambda>satisfied.
            if \<not> satisfied then ret (gateway_result_of c None (Some ''approval_not_satisfied''))
            else run_call c i d)) u"
      if "evaluate req t = (Inr d, u)" "gate_step t u" "tc_approval_request_id c = Some a" "approval_id = Some a" for d u a
    proof (cases "refusal i d")
      case None
      have "keeps_quiet A (if \<not> ok then ret (gateway_result_of c None (Some ''approval_not_satisfied''))
            else run_call c i d) v"
        if "is_approval_satisfied a req (tc_mutation_fingerprint c) u = (Inr ok, v)" for ok v
        using approved [OF \<open>evaluate req t = (Inr d, u)\<close> None True \<open>tc_approval_request_id c = Some a\<close> \<open>approval_id = Some a\<close> \<open>gate_step t u\<close>] that
        by (cases ok) (simp_all add: keeps_quiet_ret)
      with None show ?thesis by (auto intro!: keeps_quiet_bnd gate_calls)
    qed (simp add: keeps_quiet_deny)
    with True show ?thesis unfolding decide_call_def
      by (auto intro!: keeps_quiet_bnd keeps_quiet_ret gate_calls split: option.splits)
  qed
qed

section \<open>A tool runs only with authority\<close>

lemma load_authority_runs:
  assumes "load_authority tenant_id workspace_id i m s = (Inr (run, def), t)"
  shows "run \<in> set (agent_runs (working s)) \<and> scoped_agent_run tenant_id workspace_id i run \<and>
    ar_status run = ''RUNNING'' \<and> def \<in> set (agent_definitions (working s)) \<and>
    scoped_definition tenant_id workspace_id (ar_agent_definition_id run) def \<and> ad_version def = ar_agent_version run"
proof -
  from assms have r: "first_row (filter (scoped_agent_run tenant_id workspace_id i) (agent_runs (working s))) = Some run"
      "ar_status run = ''RUNNING''" "ad_version def = ar_agent_version run"
    and d: "first_row (filter (scoped_definition tenant_id workspace_id (ar_agent_definition_id run))
      (agent_definitions (working s))) = Some def"
    unfolding load_authority_def Let_def
    by (auto simp: Inr_runs Inr_runs_option select_one_def split: if_splits option.splits)
  then show ?thesis using first_row_filter_Some [OF r(1)] first_row_filter_Some [OF d] by simp
qed

lemma reads_gateway: "reads (load_authority t w i m)" "reads (get_by_key t w i k)" "reads (locked_call t w a)"
  unfolding load_authority_def get_by_key_def locked_call_def get_for_approval_def Let_def
  by (intro reads_rules reads_scopes)+

definition authorized_call ::
  "session \<Rightarrow> uuid \<Rightarrow> uuid \<Rightarrow> uuid \<Rightarrow> tool_proposal \<Rightarrow> pystr list \<Rightarrow> uuid option \<Rightarrow> bool" where
  "authorized_call s tenant_id workspace_id agent_run_id proposal permitted_tools approval_id =
    (\<exists>run def tool i c. run \<in> set (agent_runs (committed s)) \<and> def \<in> set (agent_definitions (committed s)) \<and>
      scoped_agent_run tenant_id workspace_id agent_run_id run \<and> ar_status run = ''RUNNING'' \<and>
      scoped_definition tenant_id workspace_id (ar_agent_definition_id run) def \<and>
      ad_version def = ar_agent_version run \<and>
      registry_get (pp_tool_name proposal) = Some tool \<and>
      parsed_input proposal = Some i \<and>
      pp_tool_name proposal \<in> set permitted_tools \<and> rt_required_permission tool \<in> set (ad_permissions def) \<and>
      decided s (policy_request run tool (tc_id c) (environment s)) c i approval_id \<and>
      (tc_status c = ''PENDING_APPROVAL'' \<longrightarrow> c \<in> set (tool_calls (committed s))))"

lemma bnd_host:
  "bnd get_environment k1 t = k1 (environment t) t" "bnd get_libs k2 t = k2 (libs t) t"
  "bnd get_files k3 t = k3 (files t) t"
  by (simp_all add: bnd_def get_environment_def get_libs_def get_files_def)

lemma keeps_quiet_host [simp]:
  "keeps_quiet A (bnd get_environment k1) t = keeps_quiet A (k1 (environment t)) t"
  "keeps_quiet A (bnd get_libs k2) t = keeps_quiet A (k2 (libs t)) t"
  by (simp_all add: keeps_quiet_def bnd_host)

lemma keeps_quiet_judge:
  assumes s: "settled_from s t"
    and A: "\<And>tl i. tool = Some tl \<Longrightarrow> parsed = Some i \<Longrightarrow> pp_tool_name proposal \<in> set permitted_tools \<Longrightarrow>
      rt_required_permission tl \<in> set (ad_permissions def) \<Longrightarrow>
      decided s (policy_request run tl (tc_id c) (environment s)) c i approval_id \<Longrightarrow> A"
  shows "keeps_quiet A (judge_call run def proposal permitted_tools approval_id tool parsed prepared c) t"
proof -
  have "keeps_quiet A (bnd get_environment (\<lambda>env. bnd (PolicyEvaluationRequest (policy_request run tl (tc_id c) env))
      (\<lambda>req. decide_call c i req approval_id))) t"
    if "tool = Some tl" "parsed = Some i" "pp_tool_name proposal \<in> set permitted_tools"
      "rt_required_permission tl \<in> set (ad_permissions def)" for tl i
    using settled_facts(6) [OF s] keeps_quiet_decide [OF s A [OF that]]
    by (simp add: PolicyEvaluationRequest_def keeps_quiet_throw)
  then show ?thesis
    unfolding judge_call_def by (auto intro!: keeps_quiet_deny split: option.splits)
qed

lemma created_call_runs:
  "create_tool_call row s = (Inr c, t) \<Longrightarrow> \<exists>u now. c = row u now \<and>
    working t = (working s)\<lparr>tool_calls := tool_calls (working s) @ [c]\<rparr> \<and> committed t = committed s"
  by (auto simp: create_tool_call_def Inr_runs Inr_runs_exec)

lemma execute_proposal_quiet:
  assumes same: "working s = committed s" and ok: "constraints (committed s)"
    and A: "authorized_call s tenant_id workspace_id agent_run_id proposal permitted_tools approval_id \<Longrightarrow> A"
  shows "keeps_quiet A (execute_proposal tenant_id workspace_id agent_run_id proposal permitted_tools m approval_id) s"
  unfolding execute_proposal_def
proof (rule keeps_quiet_bnd [OF gate_calls(6)], clarsimp, rule keeps_quiet_bnd [OF gate_calls(7)], rule keeps_quiet_bnd [OF gate_calls(8)])
  fix run def t existing u prepared v
  assume l: "load_authority tenant_id workspace_id agent_run_id m s = (Inr (run, def), t)"
    and g: "gate_step s t" "gate_step t u" "gate_step u v"
    and e: "get_by_key tenant_id workspace_id agent_run_id (pp_call_key proposal) t = (Inr existing, u)"
  have v: "settled_from s v"
    using settled_step [OF settled_step [OF settled_step [OF settled_start [OF same ok]]]] g by blast
  have "tool_calls (working t) = tool_calls (committed s)" using readsD(1) [OF reads_gateway(1) l] same by simp
  with e have ex: "c \<in> set (tool_calls (committed s))" if "existing = Some c" for c
    using that by (auto simp: get_by_key_def select_one_def Inr_runs dest!: first_row_filter_Some [OF sym])
  let ?go = "judge_call run def proposal permitted_tools approval_id (registry_get (pp_tool_name proposal)) (parsed_input proposal) prepared"
  have go: "keeps_quiet A (?go c) w"
    if w: "settled_from s w" and c: "tc_status c = ''PENDING_APPROVAL'' \<Longrightarrow> c \<in> set (tool_calls (committed s))" for c w
  proof (rule keeps_quiet_judge [OF w])
    fix tl i
    assume "registry_get (pp_tool_name proposal) = Some tl" "parsed_input proposal = Some i"
      "pp_tool_name proposal \<in> set permitted_tools" "rt_required_permission tl \<in> set (ad_permissions def)"
      "decided s (policy_request run tl (tc_id c) (environment s)) c i approval_id"
    then show A unfolding authorized_call_def using load_authority_runs [OF l] same c
      by (intro A [unfolded authorized_call_def] exI [of _ run] exI [of _ def] exI [of _ tl] exI [of _ i] exI [of _ c]) simp
  qed
  show "keeps_quiet A (bnd get_libs (\<lambda>lib. continue_call run def proposal permitted_tools m approval_id lib existing prepared)) v"
  proof (cases existing)
    case None
    have "keeps_quiet A (andthen commit (?go c)) w"
      if c: "create_tool_call (proposed_call run m proposal tool metadata prepared) v = (Inr c, w)" "gate_step v w" for tool metadata c w
    proof (rule keeps_quiet_andthen)
      fix x y assume "gate_step w y"
      with c v have "settled_from s y" by (blast intro: settled_step)
      moreover have "tc_status c = ''PROPOSED''" using created_call_runs [OF c(1)] by (auto simp: proposed_call_def)
      ultimately show "keeps_quiet A (?go c) y" by (intro go) simp_all
    qed (rule gate_calls)
    with None show ?thesis by (auto simp: continue_call_def Let_def intro!: keeps_quiet_bnd gate_calls)
  next
    case (Some c)
    with go [OF v ex] show ?thesis by (simp add: continue_call_def Let_def keeps_quiet_ret)
  qed
qed

text \<open>
  C2: Through the gateway a tool runs only with authority. Unless the agent run is running in the
  scope of the request, its stored definition is of the version the run was created with and has
  the permission of the tool, the caller permits the tool, no policy rule that holds at this moment
  blocks it, a mutation falls under a confirmation, and a call that falls under one was approved
  for exactly this agent run, action, scope and change, no file changes and no evidence is handed
  out, however the statements fail.
\<close>
theorem tool_runs_only_with_authority:
  assumes "working s = committed s" and "constraints (committed s)"
  shows "case execute_proposal tenant_id workspace_id agent_run_id proposal permitted_tools m approval_id s of
    (r, t) \<Rightarrow> authorized_call s tenant_id workspace_id agent_run_id proposal permitted_tools approval_id \<or>
      files t = files s \<and> (case r of Inr v \<Rightarrow> gr_evidence v = None | Inl e \<Rightarrow> True)"
  using execute_proposal_quiet [OF assms, of tenant_id workspace_id agent_run_id proposal permitted_tools approval_id
      "authorized_call s tenant_id workspace_id agent_run_id proposal permitted_tools approval_id" m]
  by (auto simp: keeps_quiet_def spoke_def split: prod.splits sum.splits)

definition read_proposal :: tool_proposal where
  "read_proposal = \<lparr>pp_call_key = ''call-1'', pp_tool_name = ''workspace.read_file'',
     pp_arguments = Read_input \<lparr>ri_path = ''src/main.py'', ri_max_bytes = 10\<rparr>\<rparr>"

lemma registry_read: "registry_get ''workspace.read_file'' = Some (registered ''workspace.read_file'' ReadFileExecutor READ_ONLY LOW)"
  by (simp add: registry_get_def TRUSTED_TOOL_REGISTRY_def registered_def)

theorem tool_runs_only_with_authority_witness:
  "case execute_proposal 1 2 21 read_proposal [''workspace.read_file''] None None (sample_session sample_agent_db) of
     (r, t) \<Rightarrow> files t = sample_tree \<and> (case r of Inr v \<Rightarrow> gr_evidence v = None | Inl e \<Rightarrow> True)"
proof -
  have "\<not> authorized_call (sample_session sample_agent_db) 1 2 21 read_proposal [''workspace.read_file''] None"
    by (auto simp: authorized_call_def sample_agent_tables sample_definition_def read_proposal_def registry_read registered_def)
  moreover have "files (sample_session sample_agent_db) = sample_tree"
    by (simp add: sample_session_def open_session_def)
  ultimately show ?thesis
    using tool_runs_only_with_authority [of "sample_session sample_agent_db" 1 2 21 read_proposal
        "[''workspace.read_file'']" None None] sample_agent_ok
    by (auto split: prod.splits sum.splits)
qed

section \<open>A finished call is not repeated\<close>

lemma stored_call:
  assumes "constraints d" and "c \<in> set (tool_calls d)"
    and "first_row (filter (\<lambda>c'. tc_tenant_id c' = tc_tenant_id c \<and> tc_workspace_id c' = tc_workspace_id c \<and>
      tc_agent_run_id c' = tc_agent_run_id c \<and> tc_call_key c' = tc_call_key c) (tool_calls d)) = r"
  shows "r = Some c"
proof -
  have "distinct (map (\<lambda>r. (tc_agent_run_id r, tc_call_key r)) (tool_calls d))"
    using assms(1) by (simp add: constraints_def tool_call_table_ok_def)
  then have unique: "c' = c" if "c' \<in> set (tool_calls d)" "tc_agent_run_id c' = tc_agent_run_id c" "tc_call_key c' = tc_call_key c" for c'
    using assms(2) that by (auto simp: distinct_map inj_on_def)
  show ?thesis
  proof (cases r)
    case None
    with assms(2,3) show ?thesis by (auto simp: first_row_filter_None_iff)
  next
    case (Some c')
    with assms(3) unique show ?thesis by (auto dest!: first_row_filter_Some)
  qed
qed

definition calm :: "session \<Rightarrow> session \<Rightarrow> bool" where
  "calm s t = (committed t = committed s \<and> files t = files s)"

interpretation calm: stmt_order calm "\<lambda>_ _. True"
  by unfold_locales (auto simp: calm_def)

definition answers :: "'a prog \<Rightarrow> session \<Rightarrow> ('a \<Rightarrow> bool) \<Rightarrow> bool" where
  "answers m s Q = (case m s of (r, t) \<Rightarrow> calm s t \<and> (case r of Inl e \<Rightarrow> True | Inr v \<Rightarrow> Q v))"

lemma answers_ret: "Q v \<Longrightarrow> answers (ret v) s Q"
  by (simp add: answers_def ret_def calm_def)

lemma answers_bnd:
  assumes "steps calm m" and "\<And>a t. m s = (Inr a, t) \<Longrightarrow> answers (k a) t Q"
  shows "answers (bnd m k) s Q"
proof (cases "m s")
  case (Pair r t)
  with assms(1) have g: "calm s t" by (auto simp: steps_def dest: spec [of _ s])
  show ?thesis
  proof (cases r)
    case (Inr a)
    with assms(2) [of a t] Pair g show ?thesis
      by (auto simp: answers_def bnd_def intro: calm.R_trans split: prod.splits)
  qed (use Pair g in \<open>simp add: answers_def bnd_def\<close>)
qed

text \<open>
  C33: A tool call runs at most once. A proposal whose key names a stored call of the same agent run
  that does not wait for an approval is answered from the stored call: nothing is written, no file
  changes, and no evidence is handed out again.
\<close>
theorem finished_call_not_repeated:
  assumes "working s = committed s" and "constraints (committed s)"
    and "c \<in> set (tool_calls (committed s))" and "tc_status c \<noteq> ''PENDING_APPROVAL''"
    and "tc_call_key c = pp_call_key proposal"
  shows "case execute_proposal (tc_tenant_id c) (tc_workspace_id c) (tc_agent_run_id c) proposal permitted_tools m a s of
    (r, t) \<Rightarrow> committed t = committed s \<and> files t = files s \<and>
      (case r of Inl e \<Rightarrow> True | Inr v \<Rightarrow> gr_evidence v = None \<and> gr_tool_call_id v = uuid_str (tc_id c) \<and>
         gr_status v = tc_status c)"
proof -
  let ?Q = "\<lambda>v. gr_evidence v = None \<and> gr_tool_call_id v = uuid_str (tc_id c) \<and> gr_status v = tc_status c"
  have "answers (execute_proposal (tc_tenant_id c) (tc_workspace_id c) (tc_agent_run_id c) proposal permitted_tools m a) s ?Q"
    unfolding execute_proposal_def
  proof (rule answers_bnd [OF calm.steps_gateway_reads(1)], clarsimp, rule answers_bnd [OF calm.steps_gateway_reads(2)])
    fix run def t existing u
    assume l: "load_authority (tc_tenant_id c) (tc_workspace_id c) (tc_agent_run_id c) m s = (Inr (run, def), t)"
      and e: "get_by_key (tc_tenant_id c) (tc_workspace_id c) (tc_agent_run_id c) (pp_call_key proposal) t = (Inr existing, u)"
    have "working t = committed s" using readsD(1) [OF reads_gateway(1) l] assms(1) by simp
    with e assms(5) have "existing = Some c"
      by (intro stored_call [OF assms(2,3)]) (simp add: get_by_key_def select_one_def Inr_runs)
    with assms(4) show "answers (bnd (prepare_mutation existing (parsed_input proposal)) (\<lambda>prepared. bnd get_libs (\<lambda>lib.
        continue_call run def proposal permitted_tools m a lib existing prepared))) u ?Q"
      by (auto simp: prepare_mutation_def continue_call_def Let_def gateway_result_of_def
          intro!: answers_bnd [OF calm.steps_host(2)] answers_ret)
  qed
  then show ?thesis by (simp add: answers_def calm_def)
qed

definition sample_call :: tool_call where
  "sample_call = \<lparr>tc_id = 30, tc_tenant_id = 1, tc_workspace_id = 2, tc_project_id = Some 3, tc_task_id = Some 4,
     tc_agent_run_id = 21, tc_proposal_model_run_id = None, tc_approval_request_id = None,
     tc_call_key = ''call-1'', tc_tool_id = ''workspace.read_file'', tc_safe_input_metadata = PDict [],
     tc_status = ''BLOCKED'', tc_policy_effect = None, tc_matched_rule_ids = [],
     tc_execution_target_class = ''LOCAL'', tc_side_effect_class = ''READ_ONLY'', tc_result_metadata = None,
     tc_failure_code = Some ''tool_permission_denied'', tc_started_at = None, tc_completed_at = Some 6,
     tc_mutation_fingerprint = None, tc_preimage_sha256 = None, tc_candidate_sha256 = None,
     tc_prepared_mutation = None, tc_created_at = 5\<rparr>"

definition sample_call_db :: db where
  "sample_call_db = sample_agent_db\<lparr>tool_calls := [sample_call]\<rparr>"

lemma sample_call_ok: "constraints sample_call_db"
  by code_simp

theorem finished_call_not_repeated_witness:
  "case execute_proposal 1 2 21 read_proposal [] None None (sample_session sample_call_db) of
     (r, t) \<Rightarrow> committed t = sample_call_db \<and> files t = sample_tree \<and>
       (case r of Inl e \<Rightarrow> True | Inr v \<Rightarrow> gr_evidence v = None \<and> gr_tool_call_id v = uuid_str 30 \<and> gr_status v = ''BLOCKED'')"
  using finished_call_not_repeated [where s = "sample_session sample_call_db" and c = sample_call and
      proposal = read_proposal and permitted_tools = "[]" and m = None and a = None] sample_call_ok
  by (auto simp: sample_call_db_def sample_call_def read_proposal_def sample_session_def open_session_def
      split: prod.splits sum.splits)

section \<open>What is written is what was approved\<close>

lemma applied_change:
  assumes "apply_mutation lib root data prepared = Inr (Inr (ev, tree))" and "tree \<noteq> root"
  shows "\<exists>q before after. readable_contents root q = Some before \<and> tree = put_file root q after \<and>
    entry prepared ''mutation_fingerprint'' =
      Some (PStr (mutation_sha256 lib (as_posix q) (sha256 lib before) (sha256 lib after)))"
  using assms by (auto simp: apply_mutation_def Let_def split: sum.splits option.splits if_splits prod.splits)

lemma perform_change:
  assumes "files (snd (perform c (Replace_input i) s)) \<noteq> files s"
  shows "\<exists>q before after. readable_contents (files s) q = Some before \<and>
    files (snd (perform c (Replace_input i) s)) = put_file (files s) q after \<and>
    entry (case tc_prepared_mutation c of None \<Rightarrow> PDict [] | Some v \<Rightarrow> v) ''mutation_fingerprint'' =
      Some (PStr (mutation_sha256 (libs s) (as_posix q) (sha256 (libs s) before) (sha256 (libs s) after)))"
proof -
  let ?p = "case tc_prepared_mutation c of None \<Rightarrow> PDict [] | Some v \<Rightarrow> v"
  have "files (snd (perform c (Replace_input i) s)) = files (snd (apply_tool i ?p s))"
    by (auto simp: perform_def Let_def bnd_def ret_def get_files_def get_libs_def split: prod.splits sum.splits)
  moreover obtain ev tree where "apply_mutation (libs s) (files s) i ?p = Inr (Inr (ev, tree))"
    "files (snd (apply_tool i ?p s)) = tree"
    using assms calculation
    by (auto simp: apply_tool_def split: sum.splits prod.splits evidence.splits bool.splits if_splits)
  ultimately show ?thesis using applied_change [of "libs s" "files s" i ?p ev tree] assms by simp
qed

text \<open>\<open>changes A m s\<close>: the files after \<open>m\<close> are those of \<open>s\<close> or satisfy \<open>A\<close>.\<close>

definition changes :: "(node \<Rightarrow> bool) \<Rightarrow> 'a prog \<Rightarrow> session \<Rightarrow> bool" where
  "changes A m s = (let tree = files (snd (m s)) in tree = files s \<or> A tree)"

lemma changes_quiet: "steps same_files m \<Longrightarrow> changes A m s"
  by (auto simp: changes_def same_files_def steps_def Let_def)

lemma changes_ret: "changes A (ret v) s"
  by (simp add: changes_def ret_def)

lemma changes_bnd:
  assumes "steps gate_step m" and "\<And>a t. m s = (Inr a, t) \<Longrightarrow> gate_step s t \<Longrightarrow> changes A (k a) t"
  shows "changes A (bnd m k) s"
proof (cases "m s")
  case (Pair r t)
  with assms(1) have g: "gate_step s t" by (auto simp: steps_def dest: spec [of _ s])
  then have f: "files t = files s" by (simp add: gate_step_def)
  show ?thesis
  proof (cases r)
    case (Inr a)
    with assms(2) [of a t] Pair g f show ?thesis by (simp add: changes_def bnd_def)
  qed (use Pair f in \<open>simp add: changes_def bnd_def\<close>)
qed

lemma changes_then:
  assumes "changes A m s" and "\<And>a. steps same_files (k a)"
  shows "changes A (bnd m k) s"
proof -
  have "files (snd (bnd m k s)) = files (snd (m s))"
    using assms(2) by (auto simp: bnd_def steps_def same_files_def split: prod.splits sum.splits)
  with assms(1) show ?thesis by (simp add: changes_def)
qed

lemma changes_host [simp]:
  "changes A (bnd get_environment k1) t = changes A (k1 (environment t)) t"
  "changes A (bnd get_libs k2) t = changes A (k2 (libs t)) t"
  by (simp_all add: changes_def bnd_host)

lemmas same_files_calls = same_files.steps_gateway_calls same_files.steps_rules same_files.store_rules

lemma changes_deny: "changes A (deny c code d) s"
  by (rule changes_quiet [OF same_files.steps_gateway_calls(1)]) simp_all

text \<open>
  A change of one file under an approval: granted for this request, with the fingerprint of the
  path, the contents the file had and the contents it gets.
\<close>

definition approved_write :: "session \<Rightarrow> evaluation_request \<Rightarrow> tool_call \<Rightarrow> uuid \<Rightarrow> node \<Rightarrow> bool" where
  "approved_write s req c approval_id tree =
    (current_effect (committed s) req = REQUIRE_CONFIRMATION \<and>
     (\<exists>a \<in> set (approval_requests (committed s)). \<exists>q before after.
        ap_id a = approval_id \<and> ap_status a = ''APPROVED'' \<and> exact_scope_matches a req (tc_mutation_fingerprint c) \<and>
        readable_contents (files s) q = Some before \<and> tree = put_file (files s) q after \<and>
        ap_mutation_fingerprint a =
          Some (mutation_sha256 (libs s) (as_posix q) (sha256 (libs s) before) (sha256 (libs s) after))))"

text \<open>The stored call, the run and the definition a mutation was applied under.\<close>

definition approved_change :: "session \<Rightarrow> uuid \<Rightarrow> uuid \<Rightarrow> uuid \<Rightarrow> node \<Rightarrow> bool" where
  "approved_change s tenant_id workspace_id approval_id tree =
    (\<exists>c \<in> set (tool_calls (committed s)). \<exists>run \<in> set (agent_runs (committed s)).
     \<exists>def \<in> set (agent_definitions (committed s)). \<exists>tool.
       tc_approval_request_id c = Some approval_id \<and> tc_status c = ''PENDING_APPROVAL'' \<and>
       scoped_agent_run tenant_id workspace_id (tc_agent_run_id c) run \<and> ar_status run = ''WAITING_FOR_APPROVAL'' \<and>
       scoped_definition tenant_id workspace_id (ar_agent_definition_id run) def \<and>
       ad_version def = ar_agent_version run \<and>
       registry_get (tc_tool_id c) = Some tool \<and> rt_required_permission tool \<in> set (ad_permissions def) \<and>
       approved_write s (policy_request run tool (tc_id c) (environment s)) c approval_id tree)"

lemma reads_current_definition: "reads (current_definition t w c run)"
  unfolding current_definition_def by (intro reads_rules reads_scopes)

lemma gate_current_definition: "steps gate_step (current_definition t w c run)"
  unfolding current_definition_def by (intro gate.steps_rules gate.steps_scopes)

lemma check_prepared_Inr:
  assumes "check_prepared lib c def = Inr (t, i)"
  shows "registry_get (tc_tool_id c) = Some t" "rt_executor t = ReplaceTextExecutor"
    "\<exists>a. def = Some a \<and> rt_required_permission t \<in> set (ad_permissions a)"
    "entry_is (case tc_prepared_mutation c of None \<Rightarrow> PDict [] | Some v \<Rightarrow> v) ''mutation_fingerprint'' (tc_mutation_fingerprint c)"
  using assms by (auto simp: check_prepared_def Let_def split: option.splits if_splits)

lemma start_call_prepared:
  assumes "start_call c d s = (Inr c', t)" and "constraints (working s)" and "c \<in> set (tool_calls (working s))"
  shows "tc_prepared_mutation c' = tc_prepared_mutation c"
proof -
  from assms(1) obtain c0 v where c0: "first_row (filter (\<lambda>x. tc_id x = tc_id c) (tool_calls (working s))) = Some c0"
    "c' = apply_call_state v c0"
    by (auto simp: start_call_def set_state_def Inr_runs Inr_runs_option compare_set_runs)
  have "distinct (map tc_id (tool_calls (working s)))"
    using assms(2) by (simp add: constraints_def tool_call_table_ok_def)
  moreover have "c0 \<in> set (tool_calls (working s))" "tc_id c0 = tc_id c" using first_row_filter_Some [OF c0(1)] by simp_all
  ultimately have "c0 = c" using assms(3) by (auto simp: distinct_map inj_on_def)
  with c0(2) show ?thesis by (simp add: apply_call_state_def)
qed

lemma locked_call_runs:
  assumes "locked_call tenant_id workspace_id approval_id s = (Inr (c, run), t)"
  shows "c \<in> set (tool_calls (working s)) \<and> tc_approval_request_id c = Some approval_id \<and>
    run \<in> set (agent_runs (working s)) \<and> scoped_agent_run tenant_id workspace_id (tc_agent_run_id c) run"
proof -
  from assms have c: "first_row (filter (\<lambda>c. tc_tenant_id c = tenant_id \<and> tc_workspace_id c = workspace_id \<and>
      tc_approval_request_id c = Some approval_id) (tool_calls (working s))) = Some c"
    and r: "first_row (filter (scoped_agent_run tenant_id workspace_id (tc_agent_run_id c)) (agent_runs (working s))) = Some run"
    by (auto simp: locked_call_def get_for_approval_def select_one_def Inr_runs Inr_runs_option)
  from first_row_filter_Some [OF c] first_row_filter_Some [OF r] show ?thesis by simp
qed

text \<open>The tool calls stay until the policy was asked.\<close>

interpretation same_calls: db_order "frozen tool_calls"
  by unfold_locales (auto simp: frozen_def)

lemma evaluate_keeps_calls:
  assumes "evaluate req s = (r, t)" and "tool_calls (working s) = tool_calls (committed s)"
  shows "tool_calls (working t) = tool_calls (committed t) \<and> tool_calls (committed t) = tool_calls (committed s)"
  using same_calls.lifted.steps_evaluate [of req] assms
  by (auto simp: frozen_def steps_def lift_order_def dest!: spec [of _ s])

lemma satisfied_keeps_calls:
  assumes "authorized_mutation req a f d s = (r, t)" and "tool_calls (working s) = tool_calls (committed s)"
  shows "tool_calls (working t) = tool_calls (committed t) \<and> tool_calls (committed t) = tool_calls (committed s)"
proof -
  have "steps (lift_order (frozen tool_calls)) (authorized_mutation req a f d)"
    unfolding authorized_mutation_def
    by (intro same_calls.lifted.steps_rules same_calls.lifted.steps_is_approval_satisfied) (simp add: frozen_def)
  with assms show ?thesis by (auto simp: frozen_def steps_def lift_order_def dest!: spec [of _ s])
qed

lemma changes_request: "changes A (k r) s \<Longrightarrow> changes A (bnd (PolicyEvaluationRequest r) k) s"
  by (simp add: PolicyEvaluationRequest_def changes_def throw_def)

lemma granted_runs:
  assumes "authorized_mutation req a (tc_mutation_fingerprint c) d s = (Inr True, t)" and "constraints (working s)"
  shows "rs_effect d = REQUIRE_CONFIRMATION \<and> approved_for (working s) req c a"
  using assms satisfied_approval [OF _ assms(2)]
  by (auto simp: authorized_mutation_def Inr_runs split: if_splits)

lemma gate_authorized: "steps gate_step (authorized_mutation req a f d)"
  unfolding authorized_mutation_def by (intro gate.steps_rules gate_calls)

lemma fingerprint_entry: "entry_is p k column \<Longrightarrow> entry p k = Some (PStr x) \<Longrightarrow> column = Some x"
  by (auto simp: entry_is_def null_or_def split: option.splits)

lemma apply_approved_changes:
  fixes run :: agent_run and t :: registered_tool
  assumes s: "settled_from s0 s" and calls: "tool_calls (working s) = tool_calls (committed s)"
    and c: "c \<in> set (tool_calls (working s))"
    and i: "entry_is (case tc_prepared_mutation c of None \<Rightarrow> PDict [] | Some v \<Rightarrow> v) ''mutation_fingerprint'' (tc_mutation_fingerprint c)"
  defines "req \<equiv> policy_request run t (tc_id c) (environment s0)"
  shows "changes (approved_write s0 req c approval_id) (apply_approved approval_id c run t input) s"
    (is "changes ?A _ _")
proof -
  have written: "changes ?A (perform c' (Replace_input input)) w"
    if e: "evaluate req s = (Inr d, u)" "gate_step s u"
      and g: "authorized_mutation req approval_id (tc_mutation_fingerprint c) d u = (Inr True, v)" "gate_step u v"
      and st: "start_call c d v = (Inr c', w)" "gate_step v w" for d u v c' w
  proof -
    have su: "settled_from s0 u" and sv: "settled_from s0 v" and sw: "settled_from s0 w"
      using settled_step [OF s e(2)] settled_step [OF settled_step [OF s e(2)] g(2)]
        settled_step [OF settled_step [OF settled_step [OF s e(2)] g(2)] st(2)] by auto
    have kept: "tool_calls (working v) = tool_calls (working s)"
      using evaluate_keeps_calls [OF e(1) calls] satisfied_keeps_calls [OF g(1)] calls by simp
    have p: "tc_prepared_mutation c' = tc_prepared_mutation c"
      using start_call_prepared [OF st(1) settled_facts(1) [OF sv]] c kept by simp
    have eff: "current_effect (committed s0) req = REQUIRE_CONFIRMATION" and ap: "approved_for (committed s0) req c approval_id"
      using granted_runs [OF g(1) settled_facts(1) [OF su]] evaluate_effect [OF e(1)]
        settled_facts(2) [OF s] settled_facts(3) [OF su] by simp_all
    show ?thesis
    proof (cases "files (snd (perform c' (Replace_input input) w)) = files w")
      case False
      from perform_change [OF this] obtain q before after where ch: "readable_contents (files w) q = Some before"
        "files (snd (perform c' (Replace_input input) w)) = put_file (files w) q after"
        "entry (case tc_prepared_mutation c of None \<Rightarrow> PDict [] | Some v \<Rightarrow> v) ''mutation_fingerprint'' =
          Some (PStr (mutation_sha256 (libs w) (as_posix q) (sha256 (libs w) before) (sha256 (libs w) after)))"
        unfolding p by blast
      from fingerprint_entry [OF i ch(3)] ap eff ch(1,2) settled_facts(4,5) [OF sw] show ?thesis
        by (auto simp: changes_def Let_def approved_for_def approved_write_def exact_scope_matches_def)
    qed (simp add: changes_def)
  qed
  have env: "environment s = environment s0" by (rule settled_facts(6) [OF s])
  have "steps same_files (finish_call c' r)" for c' r
    by (rule same_files.steps_gateway_calls(2)) simp_all
  note finish = this
  show ?thesis
    unfolding apply_approved_def changes_host env req_def [symmetric]
    by (rule changes_request, rule changes_bnd [OF gate.steps_evaluate [OF gate_writes(1)]])
      (auto intro!: changes_deny changes_bnd [OF gate_authorized] changes_bnd [OF gate.steps_gateway_calls(3) [OF gate_writes(1,2,4)]] changes_then written finish)
qed

text \<open>
  C1: What is written is what was approved. Resuming an approval changes at most one file, and only
  while the stored call waits for this approval, its agent run waits, the stored definition of that
  run has the permission of the tool, the policy that holds at this moment demands a confirmation,
  and the approval was granted for exactly this run, action and scope; the fingerprint of the
  approval is the fingerprint of the path, the contents the file had and the contents it gets.
\<close>
theorem resume_writes_what_was_approved:
  assumes same: "working s = committed s" and ok: "constraints (committed s)"
  shows "case resume_prepared_mutation tenant_id workspace_id approval_id s of
    (r, t) \<Rightarrow> files t = files s \<or> approved_change s tenant_id workspace_id approval_id (files t)"
proof -
  let ?A = "approved_change s tenant_id workspace_id approval_id"
  have "changes ?A (bnd (resume_call tenant_id workspace_id approval_id c run) (\<lambda>result. ret (result, run))) t"
    if l: "locked_call tenant_id workspace_id approval_id s = (Inr (c, run), t)" and g: "gate_step s t" for c run t
  proof (rule changes_then)
    have t: "settled_from s t" by (rule settled_step [OF settled_start [OF same ok] g])
    have st: "working t = committed s" "committed t = committed s" using readsD [OF reads_gateway(3) l] same by simp_all
    note c = locked_call_runs [OF l, unfolded same]
    have "changes ?A (case check_prepared (libs u) c row of Inl code \<Rightarrow> deny c code None
        | Inr (tool, i) \<Rightarrow> apply_approved approval_id c run tool i) u"
      if d: "current_definition tenant_id workspace_id c run t = (Inr row, u)" "gate_step t u"
        and status: "tc_status c = ''PENDING_APPROVAL''" "ar_status run = ''WAITING_FOR_APPROVAL''" for row u
    proof (cases "check_prepared (libs u) c row")
      case (Inr ti)
      obtain tool i where ti: "ti = (tool, i)" by (cases ti)
      note p = check_prepared_Inr [OF Inr [unfolded ti]]
      from p(3) obtain def where def: "row = Some def" "rt_required_permission tool \<in> set (ad_permissions def)" by blast
      have wu: "working u = committed s" "committed u = committed s"
        using readsD [OF reads_current_definition d(1)] st by simp_all
      from d(1) p(1,2) def(1) st have "def \<in> set (agent_definitions (committed s)) \<and>
          scoped_definition tenant_id workspace_id (ar_agent_definition_id run) def \<and> ad_version def = ar_agent_version run"
        by (auto simp: current_definition_def select_one_def Inr_runs dest!: first_row_filter_Some [OF sym])
      then have A: "?A tree" if "approved_write s (policy_request run tool (tc_id c) (environment s)) c approval_id tree" for tree
        unfolding approved_change_def using c status p(1) def(2) that by blast
      have "changes (approved_write s (policy_request run tool (tc_id c) (environment s)) c approval_id)
          (apply_approved approval_id c run tool i) u"
        using c wu by (intro apply_approved_changes settled_step [OF t d(2)] p(4)) simp_all
      with A Inr ti show ?thesis by (auto simp: changes_def Let_def)
    qed (simp add: changes_deny)
    then show "changes ?A (resume_call tenant_id workspace_id approval_id c run) t"
      by (auto simp: resume_call_def intro!: changes_bnd [OF gate_current_definition] changes_ret)
  qed (rule same_files.steps_ret)
  then have "changes ?A (resume_prepared_mutation tenant_id workspace_id approval_id) s"
    unfolding resume_prepared_mutation_def by (intro changes_bnd [OF gate_calls(9)]) auto
  then show ?thesis by (auto simp: changes_def Let_def split: prod.splits)
qed

theorem resume_writes_what_was_approved_witness:
  "case resume_prepared_mutation 1 2 5 (sample_session sample_call_db) of (r, t) \<Rightarrow> files t = sample_tree"
proof -
  have "\<not> approved_change (sample_session sample_call_db) 1 2 5 tree" for tree
    by (auto simp: approved_change_def sample_call_db_def sample_call_def)
  then show ?thesis
    using resume_writes_what_was_approved [of "sample_session sample_call_db" 1 2 5] sample_call_ok
    by (auto simp: sample_session_def open_session_def split: prod.splits)
qed

text \<open>
  The row of the call is read with \<open>FOR UPDATE\<close>, but asking for the policy ends the transaction: a
  decision that needs a confirmation is audited, and the audit record is committed. From there on
  the row is no longer locked.
\<close>

lemma confirmation_ends_transaction:
  assumes "evaluate req s = (Inr d, t)" and "rs_effect d = REQUIRE_CONFIRMATION" and "rs_audit_required d"
  shows "committed t = working t"
  using assms by (auto simp: evaluate_def Inr_runs only_if_def append_record_def runs)

end
