(* ===== verification/Workflow_Progress.thy ===== *)
theory Workflow_Progress
  imports Workflows
begin

text \<open>
  What keeps a workflow run going: a step run waits (\<open>PENDING\<close>) exactly while a step it depends on
  is not completed, and the stored dependencies form no cycle. Every operation of the workflow
  service keeps both, so a run is never stuck.
\<close>

section \<open>Blocked steps\<close>

definition blocked :: "db \<Rightarrow> uuid \<Rightarrow> uuid \<Rightarrow> bool" where
  "blocked d run_id step_id = list_ex (\<lambda>e. sd_workflow_step_id e = step_id \<and>
     list_ex (\<lambda>q. sr_workflow_run_id q = run_id \<and> sr_workflow_step_id q = sd_depends_on_step_id e \<and>
       sr_status q \<noteq> ''COMPLETED'') (workflow_step_runs d)) (step_dependencies d)"

definition row_blocked :: "db \<Rightarrow> workflow_step_run \<Rightarrow> bool" where
  "row_blocked d r = blocked d (sr_workflow_run_id r) (sr_workflow_step_id r)"

lemma blockedI:
  "e \<in> set (step_dependencies d) \<Longrightarrow> q \<in> set (workflow_step_runs d) \<Longrightarrow> sd_workflow_step_id e = k \<Longrightarrow>
   sr_workflow_run_id q = i \<Longrightarrow> sr_workflow_step_id q = sd_depends_on_step_id e \<Longrightarrow>
   sr_status q \<noteq> ''COMPLETED'' \<Longrightarrow> blocked d i k"
  unfolding blocked_def list_ex_iff by blast

text \<open>The query of the service counts the reasons.\<close>

lemma blocked_iff: "blocked d run_id step_id \<longleftrightarrow> incomplete_dependencies run_id step_id d \<noteq> []"
  by (auto simp: blocked_def incomplete_dependencies_def list_ex_iff concat_eq_Nil_conv split: if_splits)

text \<open>
  A step run moves only when nothing blocks it; one that waits is blocked, up to the rows \<open>K\<close>
  that are still to be woken.
\<close>

definition moved :: "workflow_step_run \<Rightarrow> bool" where
  "moved r = (sr_status r \<noteq> ''PENDING'' \<and> sr_status r \<noteq> ''CANCELLED'')"

definition gate_but :: "uuid set \<Rightarrow> db \<Rightarrow> bool" where
  "gate_but K d \<longleftrightarrow> (\<forall>r \<in> set (workflow_step_runs d).
     (moved r \<longrightarrow> \<not> row_blocked d r) \<and>
     (sr_status r = ''PENDING'' \<longrightarrow> row_blocked d r \<or> sr_id r \<in> K))"

definition gate :: "db \<Rightarrow> bool" where
  "gate d = list_all (\<lambda>r. (moved r \<longrightarrow> \<not> row_blocked d r) \<and>
     (sr_status r = ''PENDING'' \<longrightarrow> row_blocked d r)) (workflow_step_runs d)"

lemma gate_iff: "gate d \<longleftrightarrow> gate_but {} d"
  by (simp add: gate_def gate_but_def list_all_iff)

text \<open>What the identity of a step run is made of; no operation changes it.\<close>

definition same_step :: "workflow_step_run \<Rightarrow> workflow_step_run \<Rightarrow> bool" where
  "same_step r s \<longleftrightarrow> sr_id s = sr_id r \<and> sr_workflow_run_id s = sr_workflow_run_id r \<and>
     sr_workflow_step_id s = sr_workflow_step_id r"

lemma same_step_apply [simp]: "same_step r (apply_to_step_run v r)"
  by (simp add: same_step_def apply_to_step_run_def)

lemma status_apply [simp]: "sr_status (apply_to_step_run v r) = fv_status v"
  by (simp add: apply_to_step_run_def)

lemma blocked_same:
  assumes "step_dependencies e = step_dependencies d"
    and "list_all2 (\<lambda>r s. same_step r s \<and> (sr_status s = ''COMPLETED'' \<longleftrightarrow> sr_status r = ''COMPLETED''))
      (workflow_step_runs d) (workflow_step_runs e)"
  shows "blocked e = blocked d"
proof (intro ext)
  fix run_id step_id
  have "list_ex (\<lambda>q. sr_workflow_run_id q = run_id \<and> sr_workflow_step_id q = k \<and>
      sr_status q \<noteq> ''COMPLETED'') (workflow_step_runs e) =
    list_ex (\<lambda>q. sr_workflow_run_id q = run_id \<and> sr_workflow_step_id q = k \<and>
      sr_status q \<noteq> ''COMPLETED'') (workflow_step_runs d)" for k
    using assms(2) by (induction rule: list_all2_induct) (auto simp: same_step_def)
  then show "blocked e run_id step_id = blocked d run_id step_id"
    by (simp add: blocked_def assms(1))
qed

lemma list_all2_update_where:
  "(\<And>r. P r r) \<Longrightarrow> (\<And>r. r \<in> set rows \<Longrightarrow> sel r \<Longrightarrow> P r (f r)) \<Longrightarrow> list_all2 P rows (update_where sel f rows)"
  by (induction rows) auto

text \<open>A move that completes nothing: the reasons stay, so the gate stays.\<close>

lemma gate_move:
  assumes g: "gate_but K d"
    and e: "step_dependencies e = step_dependencies d"
      "workflow_step_runs e = update_where sel f (workflow_step_runs d)"
    and f: "\<And>r. sel r \<Longrightarrow> same_step r (f r) \<and> sr_status r \<noteq> ''COMPLETED'' \<and> sr_status (f r) \<noteq> ''COMPLETED''"
    and ok: "\<And>r. r \<in> set (workflow_step_runs d) \<Longrightarrow> sel r \<Longrightarrow> sr_status (f r) \<noteq> ''PENDING'' \<and> (moved (f r) \<longrightarrow> moved r \<or> \<not> row_blocked d r)"
  shows "gate_but K e"
proof -
  have "list_all2 (\<lambda>r s. same_step r s \<and> (sr_status s = ''COMPLETED'' \<longleftrightarrow> sr_status r = ''COMPLETED''))
      (workflow_step_runs d) (workflow_step_runs e)"
    unfolding e(2) by (rule list_all2_update_where) (use f in \<open>auto simp: same_step_def\<close>)
  from blocked_same [OF e(1) this] have b: "blocked e = blocked d" .
  show ?thesis unfolding gate_but_def
  proof
    fix x assume "x \<in> set (workflow_step_runs e)"
    then obtain r where r: "r \<in> set (workflow_step_runs d)" "sel r \<and> x = f r \<or> \<not> sel r \<and> x = r"
      by (auto simp: e(2) set_update_where)
    have "row_blocked e x = row_blocked d r"
      using r(2) f [of r] by (auto simp: row_blocked_def b same_step_def)
    then show "(moved x \<longrightarrow> \<not> row_blocked e x) \<and> (sr_status x = ''PENDING'' \<longrightarrow> row_blocked e x \<or> sr_id x \<in> K)"
      using r g f [of r] ok [of r] by (auto simp: gate_but_def same_step_def)
  qed
qed

text \<open>Completing a step: only the rows the service then looks at may have become free.\<close>

lemma gate_complete:
  assumes g: "gate_but {} d" and dist: "distinct (map sr_id (workflow_step_runs d))"
    and old: "old \<in> set (workflow_step_runs d)" "step_in_state run_id step_run_id ''RUNNING'' old"
    and e: "step_dependencies e = step_dependencies d"
      "workflow_step_runs e = update_where (step_in_state run_id step_run_id ''RUNNING'')
         (apply_to_step_run v) (workflow_step_runs d)"
    and v: "fv_status v = ''COMPLETED''"
  shows "gate_but (sr_id ` set (pending_rows run_id (sr_workflow_step_id old) e)) e"
proof -
  let ?sel = "step_in_state run_id step_run_id ''RUNNING''"
  have only: "q = old" if "q \<in> set (workflow_step_runs d)" "?sel q" for q
    using that old dist by (auto simp: step_in_state_def distinct_map inj_on_def)
  have less: "blocked d k l" if "blocked e k l" for k l
    using that unfolding blocked_def e list_ex_iff
    by (fastforce simp: set_update_where v step_in_state_def)
  show ?thesis unfolding gate_but_def
  proof
    fix x assume x: "x \<in> set (workflow_step_runs e)"
    then obtain r where r: "r \<in> set (workflow_step_runs d)"
      "?sel r \<and> x = apply_to_step_run v r \<or> \<not> ?sel r \<and> x = r"
      by (auto simp: e(2) set_update_where)
    have key: "sr_workflow_run_id x = sr_workflow_run_id r" "sr_workflow_step_id x = sr_workflow_step_id r"
      using r(2) by (auto simp: apply_to_step_run_def)
    have "\<not> row_blocked e x" if "moved x"
    proof -
      have "moved r" using r(2) that by (auto simp: moved_def step_in_state_def)
      with r(1) g have "\<not> row_blocked d r" by (simp add: gate_but_def)
      with less key show ?thesis by (auto simp: row_blocked_def)
    qed
    moreover have "row_blocked e x \<or> x \<in> set (pending_rows run_id (sr_workflow_step_id old) e)"
      if p: "sr_status x = ''PENDING''"
    proof (rule disjCI)
      assume out: "x \<notin> set (pending_rows run_id (sr_workflow_step_id old) e)"
      have xr: "x = r" using r(2) p v by auto
      with r p g have "row_blocked d r" by (auto simp: gate_but_def)
      then obtain dep q where dq: "dep \<in> set (step_dependencies d)" "q \<in> set (workflow_step_runs d)"
        "sd_workflow_step_id dep = sr_workflow_step_id r" "sr_workflow_run_id q = sr_workflow_run_id r"
        "sr_workflow_step_id q = sd_depends_on_step_id dep" "sr_status q \<noteq> ''COMPLETED''"
        by (auto simp: row_blocked_def blocked_def list_ex_iff)
      have "\<not> ?sel q"
      proof
        assume "?sel q"
        with only dq(2) have "q = old" by blast
        with dq out x xr p old(2) show False
          by (auto simp: pending_rows_def e(1) step_in_state_def)
      qed
      then have "q \<in> set (workflow_step_runs e)" using dq(2) by (auto simp: e(2) set_update_where)
      with dq xr show "row_blocked e x"
        by (auto simp: row_blocked_def blocked_def list_ex_iff e(1))
    qed
    ultimately show "(moved x \<longrightarrow> \<not> row_blocked e x) \<and> (sr_status x = ''PENDING'' \<longrightarrow> row_blocked e x \<or>
        sr_id x \<in> sr_id ` set (pending_rows run_id (sr_workflow_step_id old) e))" by blast
  qed
qed

section \<open>Moving a step\<close>

lemma put_step_runs_fields [simp]:
  "workflow_step_runs (put_step_runs rows d) = rows"
  "step_dependencies (put_step_runs rows d) = step_dependencies d"
  by (simp_all add: put_step_runs_def)

text \<open>The identities of the rows still to be looked at belong to the run and step they name.\<close>

definition named_in :: "uuid \<Rightarrow> workflow_step_run list \<Rightarrow> db \<Rightarrow> bool" where
  "named_in run_id xs d \<longleftrightarrow> (\<forall>x \<in> set xs. \<forall>r \<in> set (workflow_step_runs d). sr_id r = sr_id x \<longrightarrow>
     sr_workflow_run_id r = run_id \<and> sr_workflow_step_id r = sr_workflow_step_id x)"

lemma named_in_move:
  "named_in i xs d \<Longrightarrow> named_in i xs (move_step_run i j expected v d)"
  by (auto simp: named_in_def move_step_run_def set_update_where apply_to_step_run_def)

lemma wake_one:
  assumes "gate_but (insert (sr_id x) K) d" and "named_in run_id (x # xs) d"
    and "blocked d run_id (sr_workflow_step_id x)"
  shows "gate_but K d"
  using assms unfolding gate_but_def named_in_def by (fastforce simp: row_blocked_def)

lemma wake_one_ready:
  assumes g: "gate_but (insert (sr_id x) K) d" and n: "named_in run_id (x # xs) d"
    and free: "\<not> blocked d run_id (sr_workflow_step_id x)"
  shows "gate_but K (move_step_run run_id (sr_id x) PENDING (ready_values now) d)"
proof -
  let ?d = "move_step_run run_id (sr_id x) PENDING (ready_values now) d"
  have "gate_but (insert (sr_id x) K) ?d"
    by (rule gate_move [OF g, where sel = "step_in_state run_id (sr_id x) ''PENDING''"
          and f = "apply_to_step_run (ready_values now)"])
      (use n free in \<open>auto simp: move_step_run_def step_in_state_def row_blocked_def named_in_def\<close>)
  moreover have "sr_id r \<noteq> sr_id x" if "r \<in> set (workflow_step_runs ?d)" "sr_status r = ''PENDING''" for r
    using that n by (auto simp: move_step_run_def set_update_where step_in_state_def named_in_def
        apply_to_step_run_def)
  ultimately show ?thesis by (auto simp: gate_but_def)
qed

lemma named_in_Cons: "named_in i (x # xs) d \<Longrightarrow> named_in i xs d"
  by (auto simp: named_in_def)

lemma yields_wake_one:
  "yields (\<lambda>d. gate_but (sr_id ` set (x # xs)) d \<and> named_in run_id (x # xs) d \<and>
        \<not> blocked d run_id (sr_workflow_step_id x))
     (transition_step_run run_id (sr_id x) (step_run_status_value PENDING) (ready_values now))
     (\<lambda>_ d. gate_but (sr_id ` set xs) d \<and> named_in run_id xs d)"
  unfolding transition_step_run_def
proof (rule yields_compare_set)
  fix d
  assume D: "gate_but (sr_id ` set (x # xs)) d \<and> named_in run_id (x # xs) d \<and>
      \<not> blocked d run_id (sr_workflow_step_id x)"
  let ?d = "move_step_run run_id (sr_id x) PENDING (ready_values now) d"
  have "gate_but (sr_id ` set xs) ?d" by (rule wake_one_ready [where xs = xs]) (use D in simp_all)
  moreover have "named_in run_id xs ?d" using D by (intro named_in_move) (auto dest: named_in_Cons)
  ultimately show "gate_but (sr_id ` set xs) (put_step_runs (update_where
        (step_in_state run_id (sr_id x) (step_run_status_value PENDING))
        (apply_to_step_run (ready_values now)) (workflow_step_runs d)) d) \<and>
      named_in run_id xs (put_step_runs (update_where
        (step_in_state run_id (sr_id x) (step_run_status_value PENDING))
        (apply_to_step_run (ready_values now)) (workflow_step_runs d)) d)"
    by (simp only: move_step_run_def)
qed

lemma yields_wake_dependents:
  "yields (\<lambda>d. gate_but (sr_id ` set xs) d \<and> named_in run_id xs d)
     (wake_dependents run_id now xs) (\<lambda>_. gate)"
proof (induction xs)
  case Nil
  then show ?case unfolding wake_dependents_def for_each.simps
    by (intro yields_ret) (simp add: gate_iff)
next
  case (Cons x xs)
  let ?D = "\<lambda>xs d. gate_but (sr_id ` set xs) d \<and> named_in run_id xs d"
  have one: "yields (?D (x # xs))
      (bnd (incomplete_dependency_count run_id (sr_workflow_step_id x)) (\<lambda>open_count.
       only_if (open_count = 0)
         (bnd (transition_step_run run_id (sr_id x) (step_run_status_value PENDING) (ready_values now))
           (\<lambda>_. ret ())))) (\<lambda>_. ?D xs)"
  proof (rule yields_bnd [where R = "\<lambda>n d. ?D (x # xs) d \<and>
        (n = 0 \<longleftrightarrow> \<not> blocked d run_id (sr_workflow_step_id x))"])
    show "yields (?D (x # xs)) (incomplete_dependency_count run_id (sr_workflow_step_id x))
        (\<lambda>n d. ?D (x # xs) d \<and> (n = 0 \<longleftrightarrow> \<not> blocked d run_id (sr_workflow_step_id x)))"
      unfolding incomplete_dependency_count_def by (rule yields_query) (simp add: blocked_iff)
  next
    fix n :: nat
    show "yields (\<lambda>d. ?D (x # xs) d \<and> (n = 0 \<longleftrightarrow> \<not> blocked d run_id (sr_workflow_step_id x)))
      (only_if (n = 0) (bnd (transition_step_run run_id (sr_id x) (step_run_status_value PENDING)
         (ready_values now)) (\<lambda>_. ret ()))) (\<lambda>_. ?D xs)"
    proof (rule yields_only_if)
      assume "n = 0"
      show "yields (\<lambda>d. ?D (x # xs) d \<and> (n = 0 \<longleftrightarrow> \<not> blocked d run_id (sr_workflow_step_id x)))
        (bnd (transition_step_run run_id (sr_id x) (step_run_status_value PENDING) (ready_values now))
          (\<lambda>_. ret ())) (\<lambda>_. ?D xs)"
        by (rule yields_bnd [OF yields_weaken [OF yields_wake_one] yields_ret])
          (use \<open>n = 0\<close> in simp_all)
    next
      assume "n \<noteq> 0"
      then show "yields (\<lambda>d. ?D (x # xs) d \<and> (n = 0 \<longleftrightarrow> \<not> blocked d run_id (sr_workflow_step_id x)))
        (ret ()) (\<lambda>_. ?D xs)"
        by (intro yields_ret) (auto dest: named_in_Cons intro: wake_one [where xs = xs and run_id = run_id])
    qed
  qed
  show ?case unfolding wake_dependents_def for_each.simps
    by (rule yields_andthen [OF one Cons.IH [unfolded wake_dependents_def]])
qed

lemma step_ids_distinct: "constraints d \<Longrightarrow> distinct (map sr_id (workflow_step_runs d))"
  by (simp add: constraints_def workflow_step_run_table_ok_def)

definition gated :: "db \<Rightarrow> bool" where
  "gated d = (constraints d \<and> gate d)"

lemma named_in_pending: "constraints d \<Longrightarrow> named_in i (pending_rows i k d) d"
  using step_ids_distinct [of d]
  by (auto simp: named_in_def pending_rows_def distinct_map inj_on_def)

lemma yields_pending_dependents:
  "yields (\<lambda>d. constraints d \<and> gate_but (sr_id ` set (pending_rows i k d)) d) (pending_dependents i k)
     (\<lambda>rows d. gate_but (sr_id ` set rows) d \<and> named_in i rows d)"
  unfolding pending_dependents_def by (rule yields_query) (simp add: named_in_pending)

text \<open>The rows the first update of a step transition leaves.\<close>

lemma yields_step_update:
  assumes "(expected, target) \<in> set step_edges"
  shows "yields gated
    (transition_step_run i j (step_run_status_value expected) (step_values expected target fc now))
    (\<lambda>row d. constraints d \<and> (case row of None \<Rightarrow> gate d
       | Some r \<Rightarrow> if target = STEP_COMPLETED
           then gate_but (sr_id ` set (pending_rows i (sr_workflow_step_id r) d)) d else gate d))"
  unfolding transition_step_run_def
proof (rule yields_compare_set)
  fix d
  let ?sel = "step_in_state i j (step_run_status_value expected)"
  let ?f = "apply_to_step_run (step_values expected target fc now)"
  let ?e = "put_step_runs (update_where ?sel ?f (workflow_step_runs d)) d"
  assume d: "gated d" and e: "constraints ?e"
  have c: "constraints d" and g: "gate_but {} d" using d by (simp_all add: gated_def gate_iff)
  show "constraints ?e \<and> (case map_option ?f (first_row (filter ?sel (workflow_step_runs d))) of
      None \<Rightarrow> gate ?e
    | Some r \<Rightarrow> if target = STEP_COMPLETED
        then gate_but (sr_id ` set (pending_rows i (sr_workflow_step_id r) ?e)) ?e else gate ?e)"
  proof (cases "first_row (filter ?sel (workflow_step_runs d))")
    case None
    then have "update_where ?sel ?f (workflow_step_runs d) = workflow_step_runs d"
      by (intro update_where_none) (simp add: first_row_filter_None_iff)
    with None e g show ?thesis by (simp add: gate_iff put_step_runs_def)
  next
    case (Some old)
    note mem = first_row_filter_Some [OF Some]
    show ?thesis
    proof (cases "target = STEP_COMPLETED")
      case True
      with assms have ex: "expected = STEP_RUNNING" by (simp add: step_edges_def)
      have "gate_but (sr_id ` set (pending_rows i (sr_workflow_step_id old) ?e)) ?e"
        by (rule gate_complete [OF g step_ids_distinct [OF c], where step_run_id = j
              and v = "step_values expected target fc now"])
          (use mem in \<open>simp_all add: ex True\<close>)
      with Some True e show ?thesis by (simp add: apply_to_step_run_def)
    next
      case False
      have "gate_but {} ?e"
        by (rule gate_move [OF g, where sel = ?sel and f = ?f])
          (use assms False in \<open>auto simp: step_edges_def step_in_state_def moved_def\<close>)
      with Some False e show ?thesis by (simp add: gate_iff)
    qed
  qed
qed

lemma quiet_step_updates:
  "steps same_committed (transition_step_run i j st v)"
  "steps same_committed (wake_dependents i now rs)"
  unfolding transition_step_run_def wake_dependents_def incomplete_dependency_count_def
  by (intro quiet.steps_rules quiet.stmt_rules quiet.steps_compare_set TrueI)+

lemma quiet_only_if: "steps same_committed m \<Longrightarrow> steps same_committed (only_if b m)"
  by (rule quiet.steps_only_if)

lemma lands_workflow_transition_step:
  "lands gated (workflow_transition_step t w i j expected target fc) gate"
proof (cases "(expected, target) \<in> set step_edges")
  case False
  then show ?thesis unfolding workflow_transition_step_def
    by (simp) (intro lands_quiet quiet.steps_rules quiet.steps_workflow_reads)
next
  case True
  let ?U = "\<lambda>row d. constraints d \<and> (case row of None \<Rightarrow> gate d
       | Some r \<Rightarrow> if target = STEP_COMPLETED
           then gate_but (sr_id ` set (pending_rows i (sr_workflow_step_id r) d)) d else gate d)"
  have wake: "yields (?U (Some r)) (only_if (target = STEP_COMPLETED)
      (bnd (pending_dependents i (sr_workflow_step_id r)) (wake_dependents i now))) (\<lambda>_. gate)" for r now
    by (intro yields_only_if yields_bnd [OF yields_weaken [OF yields_pending_dependents]
          yields_wake_dependents] yields_ret) auto
  have fin: "lands (?U (Some r)) (andthen (only_if (target = STEP_COMPLETED)
      (bnd (pending_dependents i (sr_workflow_step_id r)) (wake_dependents i now)))
      (andthen commit (ret r))) gate" for r now
    by (intro lands_andthen [OF _ wake] lands_commit quiet.steps_rules quiet.steps_workflow_reads
        quiet_step_updates)
  have req: "yields (?U row) (require workflow_step_invalid_transition row) (\<lambda>r. ?U (Some r))" for row
    by (rule yields_require) auto
  have body: "lands gated (bnd now_utc (\<lambda>now.
      bnd (transition_step_run i j (step_run_status_value expected) (step_values expected target fc now)) (\<lambda>row.
      bnd (require workflow_step_invalid_transition row) (\<lambda>r.
      andthen (only_if (target = STEP_COMPLETED)
        (bnd (pending_dependents i (sr_workflow_step_id r)) (wake_dependents i now)))
      (andthen commit (ret r)))))) gate"
    by (intro lands_bnd [OF _ yields_reads [where Q = "\<lambda>_. gated"]]
        lands_bnd [OF _ yields_step_update [OF True]] lands_bnd [OF _ req] fin
        quiet.steps_rules quiet.stmt_rules quiet_step_updates reads_rules)
  show ?thesis unfolding workflow_transition_step_def
    by (intro lands_bnd [OF _ yields_reads [where Q = "\<lambda>_. gated"]]
        lands_andthen [OF _ yields_reads [where Q = "\<lambda>_. gated"]] body
        quiet.steps_rules quiet.steps_workflow_reads reads_rules reads_workflows)
qed

section \<open>Starting a run\<close>

text \<open>The gate only looks at which run, step and status each step run has, and at the dependencies.\<close>

definition gate_view :: "db \<Rightarrow> (uuid \<times> uuid \<times> pystr) list \<times> step_dependency list" where
  "gate_view d = (map (\<lambda>r. (sr_workflow_run_id r, sr_workflow_step_id r, sr_status r)) (workflow_step_runs d),
     step_dependencies d)"

lemma blocked_view:
  "blocked d i k \<longleftrightarrow> list_ex (\<lambda>e. sd_workflow_step_id e = k \<and>
     list_ex (\<lambda>(i', k', st). i' = i \<and> k' = sd_depends_on_step_id e \<and> st \<noteq> ''COMPLETED'')
       (fst (gate_view d))) (snd (gate_view d))"
  by (simp add: blocked_def gate_view_def list_ex_iff)

lemma gate_of_view:
  "gate d \<longleftrightarrow> list_all (\<lambda>(i, k, st). (st \<noteq> ''PENDING'' \<and> st \<noteq> ''CANCELLED'' \<longrightarrow> \<not> blocked d i k) \<and>
     (st = ''PENDING'' \<longrightarrow> blocked d i k)) (fst (gate_view d))"
  by (simp add: gate_def gate_view_def list_all_iff moved_def row_blocked_def)

lemma gate_view_same: "gate_view e = gate_view d \<Longrightarrow> gate e = gate d"
  unfolding gate_of_view [of e] gate_of_view [of d] blocked_view by simp

lemma set_plan_steps: "set (plan_steps p d) = {s \<in> set (workflow_steps d). wt_workflow_plan_id s = p}"
  and set_plan_edges: "set (plan_edges p d) = {e \<in> set (step_dependencies d). sd_workflow_plan_id e = p}"
  by (auto simp: plan_steps_def plan_edges_def)

lemma dependency_steps:
  assumes "constraints d" and "e \<in> set (step_dependencies d)"
  shows "\<exists>a \<in> set (workflow_steps d). wt_id a = sd_workflow_step_id e \<and> wt_workflow_plan_id a = sd_workflow_plan_id e"
    and "\<exists>b \<in> set (workflow_steps d). wt_id b = sd_depends_on_step_id e \<and> wt_workflow_plan_id b = sd_workflow_plan_id e"
proof -
  have "step_dependency_table_ok d" using assms(1) by (simp add: constraints_def)
  then have k: "(sd_workflow_step_id e, sd_workflow_plan_id e) \<in> set (step_plan_keys d)"
    "(sd_depends_on_step_id e, sd_workflow_plan_id e) \<in> set (step_plan_keys d)"
    using assms(2) by (simp_all add: step_dependency_table_ok_def list_all_iff)
  show "\<exists>a \<in> set (workflow_steps d). wt_id a = sd_workflow_step_id e \<and> wt_workflow_plan_id a = sd_workflow_plan_id e"
    using k(1) by (force simp: step_plan_keys_def)
  show "\<exists>b \<in> set (workflow_steps d). wt_id b = sd_depends_on_step_id e \<and> wt_workflow_plan_id b = sd_workflow_plan_id e"
    using k(2) by (force simp: step_plan_keys_def)
qed

lemma step_unique:
  "constraints d \<Longrightarrow> a \<in> set (workflow_steps d) \<Longrightarrow> b \<in> set (workflow_steps d) \<Longrightarrow> wt_id a = wt_id b \<Longrightarrow> a = b"
  by (auto simp: constraints_def workflow_step_table_ok_def distinct_map inj_on_def)

lemma gate_new_run:
  assumes c: "constraints d" and g: "gate d"
    and fresh: "\<forall>q \<in> set (workflow_step_runs d). sr_workflow_run_id q \<noteq> i"
    and len: "length us = length (plan_steps p d)"
  shows "gate (add_step_runs (map (step_run_row i p (map sd_workflow_step_id (plan_edges p d)) now)
      (zip (plan_steps p d) us)) d)"
proof -
  let ?new = "map (step_run_row i p (map sd_workflow_step_id (plan_edges p d)) now) (zip (plan_steps p d) us)"
  let ?e = "add_step_runs ?new d"
  have rows: "workflow_step_runs ?e = workflow_step_runs d @ ?new"
    and deps: "step_dependencies ?e = step_dependencies d" by (simp_all add: add_step_runs_def)
  have new: "sr_workflow_run_id q = i \<and> (\<exists>s \<in> set (plan_steps p d). sr_workflow_step_id q = wt_id s \<and>
      sr_status q = (if wt_id s \<in> sd_workflow_step_id ` set (plan_edges p d) then ''PENDING'' else ''READY''))"
    if "q \<in> set ?new" for q
    using that by (auto simp: step_run_row_def dest!: set_zip_leftD)
  have ex: "\<exists>q \<in> set ?new. sr_workflow_step_id q = wt_id s" if "s \<in> set (plan_steps p d)" for s
  proof -
    from that obtain n where n: "n < length (plan_steps p d)" "s = plan_steps p d ! n"
      by (auto simp: in_set_conv_nth)
    with len have "(s, us ! n) \<in> set (zip (plan_steps p d) us)" by (auto simp: set_zip)
    then have "step_run_row i p (map sd_workflow_step_id (plan_edges p d)) now (s, us ! n) \<in> set ?new"
      unfolding set_map by (rule imageI)
    then show ?thesis by (rule bexI [rotated]) (simp add: step_run_row_def)
  qed
  have old_blocked: "blocked ?e k l = blocked d k l" if "k \<noteq> i" for k l
  proof -
    have "list_ex (\<lambda>q. sr_workflow_run_id q = k \<and> P q) ?new = False" for P
      using that new by (auto simp: list_ex_iff)
    then show ?thesis by (simp only: blocked_def rows deps list_ex_append simp_thms)
  qed
  have new_blocked: "blocked ?e i (wt_id s) \<longleftrightarrow> wt_id s \<in> sd_workflow_step_id ` set (plan_edges p d)"
    if s: "s \<in> set (plan_steps p d)" for s
  proof
    assume "blocked ?e i (wt_id s)"
    then obtain e where e: "e \<in> set (step_dependencies d)" "sd_workflow_step_id e = wt_id s"
      by (auto simp: blocked_def list_ex_iff deps)
    from dependency_steps(1) [OF c e(1)] obtain a where a: "a \<in> set (workflow_steps d)"
      "wt_id a = sd_workflow_step_id e" "wt_workflow_plan_id a = sd_workflow_plan_id e" by blast
    have sw: "s \<in> set (workflow_steps d)" "wt_workflow_plan_id s = p" using s by (auto simp: set_plan_steps)
    have "a = s" by (rule step_unique [OF c a(1) sw(1)]) (simp add: a e)
    with a sw have "sd_workflow_plan_id e = p" by simp
    with e show "wt_id s \<in> sd_workflow_step_id ` set (plan_edges p d)"
      by (auto simp: set_plan_edges intro: image_eqI [of _ _ e])
  next
    assume "wt_id s \<in> sd_workflow_step_id ` set (plan_edges p d)"
    then obtain e where e: "e \<in> set (step_dependencies d)" "sd_workflow_plan_id e = p" "sd_workflow_step_id e = wt_id s"
      by (auto simp: set_plan_edges)
    from dependency_steps(2) [OF c e(1)] e(2) obtain b where "b \<in> set (plan_steps p d)"
      "wt_id b = sd_depends_on_step_id e" by (auto simp: set_plan_steps)
    with ex obtain q where q: "q \<in> set ?new" "sr_workflow_step_id q = sd_depends_on_step_id e" by metis
    from new [OF q(1)] have "sr_workflow_run_id q = i" "sr_status q \<noteq> ''COMPLETED''"
      by (auto split: if_splits)
    moreover have "q \<in> set (workflow_step_runs ?e)" using q(1) by (simp only: rows set_append UnI2)
    ultimately show "blocked ?e i (wt_id s)" using e q(2) by (intro blockedI [of e _ q]) (simp_all add: deps)
  qed
  have "(moved r \<longrightarrow> \<not> row_blocked ?e r) \<and> (sr_status r = ''PENDING'' \<longrightarrow> row_blocked ?e r)"
    if r: "r \<in> set (workflow_step_runs ?e)" for r
  proof (cases "r \<in> set (workflow_step_runs d)")
    case True
    with g fresh old_blocked show ?thesis by (auto simp: gate_iff gate_but_def row_blocked_def)
  next
    case False
    with r have "r \<in> set ?new" by (simp add: rows)
    from new [OF this] obtain s where s: "s \<in> set (plan_steps p d)" "sr_workflow_run_id r = i"
      "sr_workflow_step_id r = wt_id s"
      "sr_status r = (if wt_id s \<in> sd_workflow_step_id ` set (plan_edges p d) then ''PENDING'' else ''READY'')"
      by blast
    with new_blocked [OF s(1)] show ?thesis by (auto simp: row_blocked_def moved_def)
  qed
  then show ?thesis by (simp add: gate_iff gate_but_def)
qed

lemma add_workflow_run_fields [simp]:
  "workflow_step_runs (add_workflow_run r d) = workflow_step_runs d"
  "step_dependencies (add_workflow_run r d) = step_dependencies d"
  "workflow_steps (add_workflow_run r d) = workflow_steps d"
  "plan_steps p (add_workflow_run r d) = plan_steps p d" "plan_edges p (add_workflow_run r d) = plan_edges p d"
  by (simp_all add: add_workflow_run_def put_workflow_runs_def plan_steps_def plan_edges_def)

text \<open>The run that was just inserted has no step runs yet.\<close>

lemma new_run_fresh:
  assumes "constraints d" and "constraints (add_workflow_run r d)" and "q \<in> set (workflow_step_runs d)"
  shows "sr_workflow_run_id q \<noteq> wr_id r"
proof -
  have "wr_id r \<notin> wr_id ` set (workflow_runs d)"
    using assms(2) by (simp add: constraints_def workflow_run_table_ok_def add_workflow_run_def put_workflow_runs_def)
  moreover have "sr_workflow_run_id q \<in> wr_id ` set (workflow_runs d)"
    using assms(1,3) by (force simp: constraints_def workflow_step_run_table_ok_def list_all_iff)
  ultimately show ?thesis by metis
qed

lemma yields_collect_uuid4: "yields D (collect xs (\<lambda>_. uuid4)) (\<lambda>us d. length us = length xs \<and> D d)"
proof (induction xs)
  case (Cons x xs)
  then show ?case unfolding collect.simps
    by (intro yields_bnd [where R = "\<lambda>_. D"] yields_bnd [OF Cons.IH] yields_ret yields_reads reads_basic) simp_all
qed (simp add: yields_def Inr_runs)

lemma quiet_workflow_inserts:
  "steps same_committed (insert_workflow_run t w p corr)" "steps same_committed (insert_step_runs i k deps ss)"
  "steps same_committed (insert_plan t w k j v cr data)" "steps same_committed (insert_steps i items)"
  "steps same_committed (insert_dependencies es)"
  by (intro quiet.steps_insert_workflow_run quiet.steps_insert_step_runs quiet.steps_insert_plan
      quiet.steps_insert_steps quiet.steps_insert_dependencies TrueI)+

text \<open>What creating a run knows of the data: the graph it read, and that its run is new.\<close>

definition graph_read :: "uuid \<Rightarrow> workflow_step list \<Rightarrow> step_dependency list \<Rightarrow> db \<Rightarrow> bool" where
  "graph_read p ss es d \<longleftrightarrow> gated d \<and> ss = plan_steps p d \<and> es = plan_edges p d"

definition run_is_new :: "uuid \<Rightarrow> workflow_step list \<Rightarrow> step_dependency list \<Rightarrow> workflow_run \<Rightarrow> db \<Rightarrow> bool" where
  "run_is_new p ss es r d \<longleftrightarrow> graph_read p ss es d \<and>
     (\<forall>q \<in> set (workflow_step_runs d). sr_workflow_run_id q \<noteq> wr_id r)"

lemma yields_plan_graph:
  "yields gated (plan_graph plan) (\<lambda>x. graph_read (wp_id plan) (fst x) (snd x))"
proof -
  have "yields gated (steps_for_plan p) (\<lambda>ss d. gated d \<and> ss = plan_steps p d)" for p
    unfolding steps_for_plan_def by (rule yields_query) simp
  moreover have "yields (\<lambda>d. gated d \<and> ss = plan_steps p d) (dependencies_for_plan p) (graph_read p ss)" for p ss
    unfolding dependencies_for_plan_def by (rule yields_query) (simp add: graph_read_def)
  ultimately show ?thesis unfolding plan_graph_def by (intro yields_bnd yields_ret) auto
qed

lemma yields_insert_workflow_run:
  "yields (graph_read p ss es) (insert_workflow_run t w plan corr) (run_is_new p ss es)"
proof -
  have *: "run_is_new p ss es r (add_workflow_run r d)"
    if "graph_read p ss es d" "constraints (add_workflow_run r d)" for r d
    using that new_run_fresh [of d r] gate_view_same [of "add_workflow_run r d" d]
    by (auto simp: graph_read_def run_is_new_def gated_def gate_view_def)
  show ?thesis unfolding insert_workflow_run_def Let_def add_workflow_run_def [symmetric]
    by (rule yields_bnd [where R = "\<lambda>_. graph_read p ss es"], intro yields_reads reads_basic, assumption,
        rule yields_exec) (auto intro: *)
qed

lemma yields_insert_step_runs:
  "yields (run_is_new p ss es r) (insert_step_runs (wr_id r) p (map sd_workflow_step_id es) ss) (\<lambda>_. gate)"
  unfolding insert_step_runs_def add_step_runs_def [symmetric]
  by (rule yields_bnd [OF yields_collect_uuid4], rule yields_exec)
    (auto simp: run_is_new_def graph_read_def gated_def intro!: gate_new_run)

lemma lands_workflow_create_run: "lands gated (workflow_create_run t w i) gate"
proof -
  have fin: "lands (graph_read (wp_id plan) ss es) (andthen (only_if (ss = []) (throw e))
     (bnd (lift_sum (rebuild_spec plan ss es)) (\<lambda>spec.
      bnd (lift_sum (validate_graph spec)) (\<lambda>_.
      bnd get_correlation_id (\<lambda>corr.
      bnd (insert_workflow_run t w plan corr) (\<lambda>run.
      andthen (insert_step_runs (wr_id run) (wp_id plan) (map sd_workflow_step_id es) ss)
     (andthen commit (refresh workflow_runs wr_id run)))))))) gate" for plan ss es e
    by (intro lands_bnd [OF _ yields_insert_workflow_run] lands_reads lands_reads_then lands_andthen [OF _ yields_insert_step_runs]
        lands_commit quiet.steps_rules quiet.stmt_rules quiet_workflow_inserts quiet.steps_lift_sum
        reads_rules reads_lift_sum)
  show ?thesis unfolding workflow_create_run_def
    by (intro lands_reads lands_bnd [OF _ yields_plan_graph] quiet.steps_workflow_reads reads_workflows)
      (auto intro!: fin split: prod.splits)
qed

section \<open>Storing a plan\<close>

definition dep_relation :: "step_dependency list \<Rightarrow> (uuid \<times> uuid) set" where
  "dep_relation es = set (map (\<lambda>e. (sd_depends_on_step_id e, sd_workflow_step_id e)) es)"

definition acyclic_plans :: "db \<Rightarrow> bool" where
  "acyclic_plans d = acyclic (dep_relation (step_dependencies d))"

lemma wf_dep_relation: "wf (dep_relation es) \<longleftrightarrow> acyclic (dep_relation es)"
  by (auto simp: dep_relation_def intro: finite_acyclic_wf wf_acyclic)

lemma validate_graph_acyclic:
  assumes "validate_graph data = Inr order" and "distinct (step_keys data)"
  shows "acyclic (dep_edges data)"
  using validate_graph_reference [OF assms(2)] reference_order_Some [OF assms(2)] assms(1) by auto

text \<open>The steps of the plan are stored under new identifiers and distinct keys.\<close>

definition steps_stored :: "step_create list \<Rightarrow> workflow_step list \<Rightarrow> db \<Rightarrow> bool" where
  "steps_stored items rows d \<longleftrightarrow> gated d \<and> acyclic_plans d \<and>
     map wt_step_key rows = map sc_step_key items \<and>
     distinct (map wt_id rows) \<and> distinct (map wt_step_key rows) \<and>
     (\<forall>q \<in> set (workflow_step_runs d). sr_workflow_step_id q \<notin> wt_id ` set rows) \<and>
     (\<forall>e \<in> set (step_dependencies d). sd_workflow_step_id e \<notin> wt_id ` set rows)"

lemma add_steps_fields [simp]:
  "workflow_steps (add_steps rs d) = workflow_steps d @ rs"
  "workflow_step_runs (add_steps rs d) = workflow_step_runs d"
  "step_dependencies (add_steps rs d) = step_dependencies d"
  by (simp_all add: add_steps_def)

lemma steps_stored_new:
  assumes g: "gated d" and a: "acyclic_plans d" and c: "constraints (add_steps rows d)"
    and keys: "map wt_step_key rows = map sc_step_key items"
    and plan: "\<forall>r \<in> set rows. wt_workflow_plan_id r = p"
  shows "steps_stored items rows (add_steps rows d)"
proof -
  have cd: "constraints d" using g by (simp add: gated_def)
  have ok: "workflow_step_table_ok (add_steps rows d)" using c by (simp add: constraints_def)
  then have ids: "distinct (map wt_id rows)" "wt_id ` set (workflow_steps d) \<inter> wt_id ` set rows = {}"
    and pk: "distinct (map (\<lambda>r. (wt_workflow_plan_id r, wt_step_key r)) rows)"
    by (simp_all add: workflow_step_table_ok_def)
  have "map (\<lambda>r. (wt_workflow_plan_id r, wt_step_key r)) rows = map (Pair p) (map wt_step_key rows)"
    using plan by simp
  with pk have dk: "distinct (map wt_step_key rows)" by (simp only: distinct_map)
  have runs: "sr_workflow_step_id q \<in> wt_id ` set (workflow_steps d)" if "q \<in> set (workflow_step_runs d)" for q
  proof -
    have "workflow_step_run_table_ok d" using cd by (simp add: constraints_def)
    then have "(sr_workflow_step_id q, sr_workflow_plan_id q) \<in> set (step_plan_keys d)"
      using that by (simp add: workflow_step_run_table_ok_def list_all_iff)
    then show ?thesis by (force simp: step_plan_keys_def)
  qed
  have deps: "sd_workflow_step_id e \<in> wt_id ` set (workflow_steps d)" if "e \<in> set (step_dependencies d)" for e
    using dependency_steps(1) [OF cd that] by force
  have "gate (add_steps rows d)"
    using g gate_view_same [of "add_steps rows d" d] by (simp add: gated_def gate_view_def)
  with c a keys ids dk runs deps show ?thesis
    unfolding steps_stored_def gated_def acyclic_plans_def by fastforce
qed

lemma step_row_fields:
  "length us = length items \<Longrightarrow>
   map wt_step_key (map (step_row p now) (zip [0..<length items] (zip items us))) = map sc_step_key items"
  "r \<in> set (map (step_row p now) (zip ns (zip items us))) \<Longrightarrow> wt_workflow_plan_id r = p"
  by (auto simp: step_row_def comp_def split_beta intro!: nth_equalityI)

lemma yields_insert_steps:
  "yields (\<lambda>d. gated d \<and> acyclic_plans d) (insert_steps p items) (steps_stored items)"
  unfolding insert_steps_def Let_def add_steps_def [symmetric]
  by (rule yields_bnd [OF yields_collect_uuid4], rule yields_exec)
    (auto intro!: steps_stored_new [where p = p] simp: step_row_fields simp del: set_map map_map)

text \<open>The dependency rows are the edges of the plan, from key to identifier.\<close>

lemma by_key_Some: "by_key rows k = Some i \<Longrightarrow> \<exists>r \<in> set rows. wt_step_key r = k \<and> wt_id r = i"
  unfolding by_key_def by (drule map_of_SomeD) auto

lemma list_all2_right: "list_all2 P xs ys \<Longrightarrow> y \<in> set ys \<Longrightarrow> \<exists>x \<in> set xs. P x y"
  by (induction rule: list_all2_induct) auto

lemma dependency_rows_edges:
  assumes "dependency_rows p rows items = Inr es" and "e \<in> set es"
  shows "\<exists>a \<in> set rows. \<exists>b \<in> set rows. wt_id a = sd_depends_on_step_id e \<and> wt_id b = sd_workflow_step_id e \<and>
    (\<exists>i \<in> set items. sc_step_key i = wt_step_key b \<and> wt_step_key a \<in> set (sc_depends_on i))"
proof -
  let ?edges = "concat (map (\<lambda>i. map (\<lambda>k. (sc_step_key i, k)) (sort (sc_depends_on i))) items)"
  let ?f = "\<lambda>(k, dep). case (by_key rows k, by_key rows dep) of
      (Some a, Some b) \<Rightarrow> Some \<lparr>sd_workflow_plan_id = p, sd_workflow_step_id = a, sd_depends_on_step_id = b\<rparr>
    | _ \<Rightarrow> None"
  from assms(1) have "those (map ?f ?edges) = Some es"
    by (simp add: dependency_rows_def Let_def split: option.splits)
  then have "list_all2 (\<lambda>x y. ?f x = Some y) ?edges es" by (simp only: those_map_Some)
  from list_all2_right [OF this assms(2)] obtain x where x: "x \<in> set ?edges" "?f x = Some e"
    by blast
  obtain k dep where kd: "x = (k, dep)" by (cases x)
  from x(2) kd have "by_key rows k = Some (sd_workflow_step_id e)"
    "by_key rows dep = Some (sd_depends_on_step_id e)" by (auto split: option.splits)
  from this [THEN by_key_Some] x(1) kd show ?thesis by fastforce
qed

lemma add_dependencies_keeps:
  assumes st: "steps_stored (pl_steps data) rows d" and v: "validate_graph data = Inr order"
    and es: "dependency_rows p rows (pl_steps data) = Inr es"
  shows "gate (add_dependencies es d) \<and> acyclic_plans (add_dependencies es d)"
proof
  let ?e = "add_dependencies es d"
  have fields: "workflow_step_runs ?e = workflow_step_runs d"
    "step_dependencies ?e = step_dependencies d @ es" by (simp_all add: add_dependencies_def)
  note edge = dependency_rows_edges [OF es]
  have "blocked ?e i k = blocked d i k" if "k \<notin> wt_id ` set rows" for i k
  proof -
    have "list_ex (\<lambda>e. sd_workflow_step_id e = k \<and> P e) es = False" for P
      using edge that by (force simp: list_ex_iff)
    then show ?thesis by (simp only: blocked_def fields list_ex_append simp_thms)
  qed
  then show "gate ?e"
    using st by (auto simp: steps_stored_def gated_def gate_iff gate_but_def row_blocked_def fields)
  have keys: "distinct (step_keys data)" using st unfolding steps_stored_def step_keys_def by metis
  let ?key = "\<lambda>i. the (map_of (map (\<lambda>r. (wt_id r, wt_step_key r)) rows) i)"
  have key: "?key (wt_id r) = wt_step_key r" if "r \<in> set rows" for r
  proof -
    have "map_of (map (\<lambda>r. (wt_id r, wt_step_key r)) rows) (wt_id r) = Some (wt_step_key r)"
      using st that by (intro map_of_is_SomeI) (auto simp: steps_stored_def comp_def)
    then show ?thesis by simp
  qed
  have "wf (dep_edges data)"
    using validate_graph_acyclic [OF v keys] by (intro finite_acyclic_wf) (simp_all add: dep_edges_def)
  moreover have "dep_relation es \<subseteq> inv_image (dep_edges data) ?key"
  proof
    fix x assume "x \<in> dep_relation es"
    then obtain e where e: "e \<in> set es" "x = (sd_depends_on_step_id e, sd_workflow_step_id e)"
      by (auto simp: dep_relation_def)
    from edge [OF e(1)] obtain a b i where ab: "a \<in> set rows" "b \<in> set rows" "x = (wt_id a, wt_id b)"
      "i \<in> set (pl_steps data)" "sc_step_key i = wt_step_key b" "wt_step_key a \<in> set (sc_depends_on i)"
      using e(2) by metis
    then have "(wt_step_key a, wt_step_key b) \<in> dep_edges data" by (force simp: dep_edges_def)
    with ab key show "x \<in> inv_image (dep_edges data) ?key" by (simp add: inv_image_def)
  qed
  ultimately have new: "wf (dep_relation es)" by (rule wf_subset [OF wf_inv_image])
  have old: "wf (dep_relation (step_dependencies d))"
    using st by (simp add: steps_stored_def acyclic_plans_def wf_dep_relation)
  have "Domain (dep_relation es) \<inter> Range (dep_relation (step_dependencies d)) = {}"
  proof (rule ccontr)
    assume "Domain (dep_relation es) \<inter> Range (dep_relation (step_dependencies d)) \<noteq> {}"
    then obtain e o' where eo: "e \<in> set es" "o' \<in> set (step_dependencies d)"
      "sd_depends_on_step_id e = sd_workflow_step_id o'"
      unfolding dep_relation_def by fastforce
    from edge [OF eo(1)] have "sd_depends_on_step_id e \<in> wt_id ` set rows" by force
    with eo st show False by (simp add: steps_stored_def)
  qed
  from wf_Un [OF new old this] show "acyclic_plans ?e"
    by (simp add: acyclic_plans_def fields wf_dep_relation [symmetric]) (simp add: dep_relation_def Un_commute)
qed

text \<open>What the operations keep: the gate, and plans without cycles.\<close>

definition flow_ok :: "db \<Rightarrow> bool" where
  "flow_ok d \<longleftrightarrow> gate d \<and> acyclic_plans d"

definition flow_sound :: "db \<Rightarrow> bool" where
  "flow_sound d \<longleftrightarrow> constraints d \<and> flow_ok d"

lemma flow_ok_view: "gate_view e = gate_view d \<Longrightarrow> flow_ok e = flow_ok d"
  using gate_view_same [of e d] by (simp add: flow_ok_def acyclic_plans_def gate_view_def)

lemma yields_lift_sum: "(\<And>a d. x = Inr a \<Longrightarrow> D d \<Longrightarrow> Q a d) \<Longrightarrow> yields D (lift_sum x) Q"
  by (cases x) (auto simp: lift_sum_def yields_def Inr_runs)

lemma yields_transaction: "yields D m Q \<Longrightarrow> yields D (transaction e m) Q"
  by (auto simp: yields_def Inr_runs_handler)

lemma yields_join_audit:
  assumes "\<And>d r. D d \<Longrightarrow> D (d\<lparr>audit_records := audit_records d @ [r]\<rparr>)"
  shows "yields D (join_audit a) (\<lambda>_. D)"
  using assms join_audit_runs [of a] by (fastforce simp: yields_def)

lemma yields_insert_plan:
  "yields flow_sound (insert_plan t w k p v cr data) (\<lambda>_. flow_sound)"
  unfolding insert_plan_def Let_def
  by (rule yields_bnd [where R = "\<lambda>_. flow_sound"], intro yields_reads reads_basic, assumption,
      rule yields_exec) (auto simp: flow_sound_def gate_view_def intro: flow_ok_view [THEN iffD1, rotated])

lemma yields_insert_dependencies:
  assumes "validate_graph data = Inr order" and "dependency_rows p rows (pl_steps data) = Inr es"
  shows "yields (steps_stored (pl_steps data) rows) (insert_dependencies es) (\<lambda>_. flow_ok)"
proof (cases "es = []")
  case True
  then show ?thesis unfolding insert_dependencies_def if_P [OF True]
    by (intro yields_ret) (simp add: steps_stored_def gated_def flow_ok_def)
next
  case False
  then show ?thesis using add_dependencies_keeps [OF _ assms]
    unfolding insert_dependencies_def add_dependencies_def
    by (auto intro!: yields_exec simp: flow_ok_def)
qed

lemma lands_create_plan_rows:
  "lands flow_sound (workflow_create_plan_rows t w k p v cr data action) flow_ok"
proof -
  let ?V = "\<lambda>d. flow_sound d \<and> (\<exists>order. validate_graph data = Inr order)"
  let ?S = "\<lambda>rows d. steps_stored (pl_steps data) rows d \<and> (\<exists>order. validate_graph data = Inr order)"
  let ?E = "\<lambda>pid rows es d. ?S rows d \<and> dependency_rows pid rows (pl_steps data) = Inr es"
  have plan: "yields ?V (insert_plan t w k p v cr data) (\<lambda>_. ?V)"
    using yields_insert_plan [of t w k p v cr data] by (auto simp: yields_def)
  have ss: "yields ?V (insert_steps pid (pl_steps data)) ?S" for pid
    using yields_insert_steps [of pid "pl_steps data"]
    by (auto simp: yields_def flow_sound_def flow_ok_def gated_def)
  have dr: "yields (?S rows) (lift_sum (dependency_rows pid rows (pl_steps data))) (?E pid rows)" for pid rows
    by (rule yields_lift_sum) simp
  have ed: "yields (?E pid rows es) (transaction audit_persistence_failed (insert_dependencies es))
      (\<lambda>_. flow_ok)" for pid rows es
    by (rule yields_transaction) (use yields_insert_dependencies in \<open>fastforce simp: yields_def\<close>)
  have aud: "yields flow_ok (join_audit a) (\<lambda>_. flow_ok)" for a
    by (rule yields_join_audit) (auto simp: gate_view_def intro: flow_ok_view [THEN iffD1, rotated])
  have vg: "yields flow_sound (lift_sum (validate_graph data)) (\<lambda>_. ?V)"
    by (rule yields_lift_sum) auto
  have va: "yields ?V (validate_assignments t w data) (\<lambda>_. ?V)"
    by (intro yields_reads reads_validate_assignments)
  have quiet_audit: "steps same_committed (join_audit a)" for a
    by (rule quiet.steps_join_audit) simp
  show ?thesis unfolding workflow_create_plan_rows_def
    by (intro lands_bnd [OF _ vg] lands_andthen [OF _ va] lands_bnd [OF _ plan] lands_bnd [OF _ ss]
        lands_bnd [OF _ dr] lands_andthen [OF _ ed] lands_andthen [OF _ aud] lands_commit
        quiet.steps_lift_sum quiet.steps_workflow_reads quiet_workflow_inserts quiet.steps_transaction
        quiet_audit quiet.steps_refresh)
qed

lemma lands_workflow_plans:
  "lands flow_sound (workflow_create_plan t w k data) flow_ok"
  "lands flow_sound (workflow_create_version t w k i data cr) flow_ok"
  unfolding workflow_create_plan_def workflow_create_version_def
  by (intro lands_reads lands_reads_then lands_on_integrity_error lands_create_plan_rows quiet.steps_workflow_reads quiet.steps_rules
      reads_workflows reads_rules)+

text \<open>The operations that leave the dependencies alone.\<close>

interpretation same_dependencies: db_order "frozen step_dependencies"
  by unfold_locales (auto simp: frozen_def)

interpretation same_view: db_order "frozen gate_view"
  by unfold_locales (auto simp: frozen_def)

definition keeps_flow :: "'a prog \<Rightarrow> bool" where
  "keeps_flow m \<longleftrightarrow> (\<forall>s. working s = committed s \<longrightarrow> flow_sound (committed s) \<longrightarrow>
     flow_ok (committed (snd (m s))))"

lemma keeps_flow_lands: "lands flow_sound m flow_ok \<Longrightarrow> keeps_flow m"
  unfolding keeps_flow_def by (metis landsD flow_sound_def prod.collapse)

lemma keeps_flow_gate:
  assumes "lands gated m gate" and "steps (lift_order (frozen step_dependencies)) m"
  shows "keeps_flow m"
  unfolding keeps_flow_def
proof (intro allI impI)
  fix s :: session assume s: "working s = committed s" and ok: "flow_sound (committed s)"
  have "frozen step_dependencies (committed s) (committed (snd (m s)))"
    by (rule same_dependencies.lift_result [OF assms(2)]) (simp add: s frozen_def)
  moreover have "committed (snd (m s)) = committed s \<or> gate (committed (snd (m s)))"
    by (rule landsD [OF assms(1), of s "fst (m s)"])
      (use s ok in \<open>simp_all add: gated_def flow_sound_def flow_ok_def\<close>)
  ultimately show "flow_ok (committed (snd (m s)))"
    using ok by (auto simp: frozen_def flow_sound_def flow_ok_def acyclic_plans_def)
qed

lemma keeps_flow_frozen:
  assumes "steps (lift_order (frozen gate_view)) m"
  shows "keeps_flow m"
  unfolding keeps_flow_def
proof (intro allI impI)
  fix s :: session assume s: "working s = committed s" and ok: "flow_sound (committed s)"
  have "frozen gate_view (committed s) (committed (snd (m s)))"
    by (rule same_view.lift_result [OF assms]) (simp add: s frozen_def)
  then have "flow_ok (committed (snd (m s))) = flow_ok (committed s)"
    by (intro flow_ok_view) (simp add: frozen_def)
  with ok show "flow_ok (committed (snd (m s)))" by (simp add: flow_sound_def)
qed

lemma keeps_flow_step:
  "keeps_flow (workflow_transition_step t w i j expected target fc)"
  "keeps_flow (workflow_create_run t w p)"
proof -
  show "keeps_flow (workflow_transition_step t w i j expected target fc)"
    by (intro keeps_flow_gate lands_workflow_transition_step
        same_dependencies.lifted.steps_workflow_transition_step) (simp_all add: frozen_def move_step_run_def)
  show "keeps_flow (workflow_create_run t w p)"
    by (intro keeps_flow_gate lands_workflow_create_run same_dependencies.lifted.steps_workflow_create_run)
      (simp_all add: frozen_def add_step_runs_def)
qed

lemma gate_view_move_run: "gate_view (move_workflow_run t w i expected target fc now d) = gate_view d"
  by (simp add: gate_view_def move_workflow_run_def put_workflow_runs_def)

lemma gate_view_link: "gate_view (link_step_run j a now d) = gate_view d"
  by (simp add: gate_view_def link_step_run_def map_update_where)

lemma keeps_flow_others:
  "keeps_flow (workflow_start_run t w i)" "keeps_flow (workflow_complete_run t w i)"
  "keeps_flow (workflow_fail_run t w i code)" "keeps_flow (workflow_cancel_run t w i)"
  "keeps_flow (workflow_link_agent_run t w i j a)"
  by (intro keeps_flow_frozen same_view.lifted.steps_workflow_moves same_view.lifted.steps_workflow_cancel_run
      same_view.lifted.steps_workflow_link_agent_run; simp add: frozen_def gate_view_move_run gate_view_link)+

section \<open>A run is never stuck\<close>

lemma waits_for_unfinished:
  assumes g: "gate d" and ac: "acyclic_plans d" and r: "r \<in> set (workflow_step_runs d)"
    and i: "sr_workflow_run_id r = i" "sr_status r \<noteq> ''COMPLETED''"
  shows "\<exists>q \<in> set (workflow_step_runs d). sr_workflow_run_id q = i \<and>
    sr_status q \<noteq> ''COMPLETED'' \<and> sr_status q \<noteq> ''PENDING''"
proof -
  let ?open = "{k. \<exists>q \<in> set (workflow_step_runs d). sr_workflow_run_id q = i \<and> sr_workflow_step_id q = k \<and>
      sr_status q \<noteq> ''COMPLETED''}"
  have "wf (dep_relation (step_dependencies d))"
    using ac by (simp add: acyclic_plans_def wf_dep_relation)
  moreover have "sr_workflow_step_id r \<in> ?open" using r i by blast
  ultimately obtain k where k: "k \<in> ?open"
    "\<And>l. (l, k) \<in> dep_relation (step_dependencies d) \<Longrightarrow> l \<notin> ?open"
    by (metis (no_types, lifting) wfE_min)
  from k(1) obtain q where q: "q \<in> set (workflow_step_runs d)" "sr_workflow_run_id q = i"
    "sr_workflow_step_id q = k" "sr_status q \<noteq> ''COMPLETED''" by blast
  have "\<not> row_blocked d q"
  proof
    assume "row_blocked d q"
    then obtain e p where e: "e \<in> set (step_dependencies d)" "p \<in> set (workflow_step_runs d)"
      "sd_workflow_step_id e = k" "sr_workflow_run_id p = i"
      "sr_workflow_step_id p = sd_depends_on_step_id e" "sr_status p \<noteq> ''COMPLETED''"
      using q by (auto simp: row_blocked_def blocked_def list_ex_iff)
    then have "(sd_depends_on_step_id e, k) \<in> dep_relation (step_dependencies d)"
      by (auto simp: dep_relation_def)
    with k(2) e show False by blast
  qed
  with g q have "sr_status q \<noteq> ''PENDING''" by (auto simp: gate_iff gate_but_def)
  with q show ?thesis by blast
qed

lemma open_step_somewhere:
  assumes "flow_sound d" and "r \<in> set (workflow_step_runs d)" "sr_workflow_run_id r = i" "sr_status r \<noteq> ''COMPLETED''"
  shows "\<exists>q \<in> set (workflow_step_runs d). sr_workflow_run_id q = i \<and>
    sr_status q \<in> {''READY'', ''RUNNING'', ''WAITING_FOR_APPROVAL'', ''FAILED'', ''CANCELLED''}"
proof -
  from waits_for_unfinished [OF _ _ assms(2-4)] assms(1) obtain q where q: "q \<in> set (workflow_step_runs d)"
    "sr_workflow_run_id q = i" "sr_status q \<noteq> ''COMPLETED''" "sr_status q \<noteq> ''PENDING''"
    by (auto simp: flow_sound_def flow_ok_def)
  have "workflow_step_run_checks q"
    using assms(1) q(1) by (simp add: flow_sound_def constraints_def workflow_step_run_table_ok_def list_all_iff)
  with q show ?thesis by (auto simp: workflow_step_run_checks_def)
qed

section \<open>A small plan in progress\<close>

lemma sample_flow_sound: "flow_sound sample_flow_db"
proof -
  note sample_flow_constraints
  moreover have "gate sample_flow_db" by code_simp
  moreover have "dep_relation (step_dependencies sample_flow_db) = {(31, 32)}"
    by (simp add: dep_relation_def sample_flow_db_def)
  then have "acyclic_plans sample_flow_db"
    unfolding acyclic_plans_def by (intro wf_acyclic wf_subset [OF wf_less_than]) simp
  ultimately show ?thesis by (simp add: flow_sound_def flow_ok_def)
qed

section \<open>Properties\<close>

text \<open>
  C12: Moving a step keeps the gate of every run. On data where step runs wait exactly for
  dependencies that are not completed and no plan is cyclic, a transition of a step (with the
  wake-up of its dependents when it completes) leaves such data, whether it succeeds or fails.
\<close>
theorem transition_step_keeps_flow:
  assumes "working s = committed s" and "constraints (committed s)" and "flow_ok (committed s)"
  shows "flow_ok (committed (snd (workflow_transition_step tenant_id workspace_id run_id step_run_id
    expected target failure_code s)))"
  using keeps_flow_step(1) assms by (auto simp: keeps_flow_def flow_sound_def)

theorem transition_step_keeps_flow_witness:
  "flow_ok (committed (snd (workflow_transition_step 1 2 34 35 STEP_RUNNING STEP_COMPLETED None
     (sample_session sample_flow_db))))"
  by (rule transition_step_keeps_flow) (use sample_flow_sound in \<open>simp_all add: flow_sound_def\<close>)

text \<open>
  C21: Storing a plan or a new version of it, and starting a run of a stored plan, keep the gate
  and add no cycle: the graph validation before the insert is what makes the stored graph
  acyclic, and the steps of a new run that wait are exactly those with a dependency.
\<close>
theorem plans_and_runs_keep_flow:
  assumes "working s = committed s" and "constraints (committed s)" and "flow_ok (committed s)"
  shows "flow_ok (committed (snd (workflow_create_plan tenant_id workspace_id task_id data s))) \<and>
    flow_ok (committed (snd (workflow_create_version tenant_id workspace_id task_id plan_id data
      change_reason s))) \<and>
    flow_ok (committed (snd (workflow_create_run tenant_id workspace_id plan_id s)))"
  using assms keeps_flow_lands [OF lands_workflow_plans(1)] keeps_flow_lands [OF lands_workflow_plans(2)]
    keeps_flow_step(2) by (auto simp: keeps_flow_def flow_sound_def)

theorem plans_and_runs_keep_flow_witness:
  "flow_ok (committed (snd (workflow_create_run 1 2 30 (sample_session sample_flow_db))))"
  using plans_and_runs_keep_flow [of "sample_session sample_flow_db"] sample_flow_sound
  by (simp add: flow_sound_def)

end
