(* ===== verification/Workflow_Roundtrip.thy ===== *)
theory Workflow_Roundtrip
  imports Workflow_Progress
begin

text \<open>
  From a validated plan to its rows and back: what \<open>create_plan\<close> stores, \<open>create_run\<close> rebuilds.
\<close>

section \<open>A stored plan can be read back\<close>

text \<open>
  The same plan up to the order in which a step lists its dependencies (the query returns them by
  identifier).
\<close>

definition same_plan :: "plan_create \<Rightarrow> plan_create \<Rightarrow> bool" where
  "same_plan a b \<longleftrightarrow> pl_title b = pl_title a \<and> pl_summary b = pl_summary a \<and>
     list_all2 (\<lambda>s t. \<exists>ds. mset ds = mset (sc_depends_on s) \<and>
       t = s\<lparr>sc_depends_on := ds\<rparr>) (pl_steps a) (pl_steps b)"

lemma same_plan_keys:
  assumes "same_plan a b"
  shows "step_keys b = step_keys a" and "plan_create_valid a \<Longrightarrow> plan_create_valid b"
    and "k \<in> set (step_keys a) \<Longrightarrow> distinct (step_keys a) \<Longrightarrow> set (deps_of b k) = set (deps_of a k)"
    and "list_all (good_refs keys) (pl_steps b) = list_all (good_refs keys) (pl_steps a)"
proof -
  let ?P = "\<lambda>s t. \<exists>ds. mset ds = mset (sc_depends_on s) \<and> t = s\<lparr>sc_depends_on := ds\<rparr>"
  have all: "list_all2 ?P (pl_steps a) (pl_steps b)" using assms by (simp add: same_plan_def)
  let ?Q = "\<lambda>s t. sc_step_key t = sc_step_key s \<and> set (sc_depends_on t) = set (sc_depends_on s) \<and>
      length (sc_depends_on t) = length (sc_depends_on s) \<and> (step_create_valid s \<longrightarrow> step_create_valid t)"
  have one: "sc_step_key t = sc_step_key s \<and> set (sc_depends_on t) = set (sc_depends_on s) \<and>
      length (sc_depends_on t) = length (sc_depends_on s) \<and>
      (step_create_valid s \<longrightarrow> step_create_valid t)" if "?P s t" for s t
  proof -
    from that obtain ds where m: "mset ds = mset (sc_depends_on s)" and t: "t = s\<lparr>sc_depends_on := ds\<rparr>"
      by blast
    have "set ds = set (sc_depends_on s)" "length ds = length (sc_depends_on s)"
      "distinct ds = distinct (sc_depends_on s)"
      using m by (auto dest: mset_eq_setD mset_eq_length mset_eq_imp_distinct_iff)
    then show ?thesis unfolding t by (simp add: step_create_valid_def list_all_iff)
  qed
  have q: "list_all2 ?Q (pl_steps a) (pl_steps b)" by (rule list_all2_mono [OF all one])
  show keys: "step_keys b = step_keys a"
    unfolding step_keys_def using q
    by (induction rule: list_all2_induct) auto
  show "plan_create_valid b" if "plan_create_valid a"
  proof -
    have "list_all step_create_valid xs \<longrightarrow> list_all step_create_valid ys \<and>
        map (\<lambda>s. length (sc_depends_on s)) ys = map (\<lambda>s. length (sc_depends_on s)) xs"
      if "list_all2 ?Q xs ys" for xs ys
      using that by (induction rule: list_all2_induct) auto
    from this [OF q] that assms all keys show ?thesis
      by (auto simp: plan_create_valid_def same_plan_def step_keys_def dest: list_all2_lengthD)
  qed
  show "list_all (good_refs keys) (pl_steps b) = list_all (good_refs keys) (pl_steps a)"
    using q by (induction rule: list_all2_induct) (auto simp: good_refs_def)
  show "set (deps_of b k) = set (deps_of a k)" if k: "k \<in> set (step_keys a)" "distinct (step_keys a)"
  proof -
    from k(1) obtain n where n: "n < length (pl_steps a)" "k = sc_step_key (pl_steps a ! n)"
      by (auto simp: step_keys_def in_set_conv_nth)
    have nb: "n < length (pl_steps b)" using n q by (simp add: list_all2_lengthD)
    have o: "?Q (pl_steps a ! n) (pl_steps b ! n)" using list_all2_nthD [OF q n(1)] .
    have "deps_of a k = sc_depends_on (pl_steps a ! n)"
      using deps_of_step [OF k(2), of "pl_steps a ! n"] n by simp
    moreover have "deps_of b k = sc_depends_on (pl_steps b ! n)"
      using deps_of_step [of b "pl_steps b ! n"] n nb o k(2) keys by simp
    ultimately show ?thesis using o by simp
  qed
qed

lemma same_plan_order:
  assumes "same_plan a b" and "distinct (step_keys a)"
  shows "reference_order b = reference_order a"
proof -
  note k = same_plan_keys [OF assms(1)]
  have "greedy n (step_keys b) (deps_of b) [] = greedy n (step_keys a) (deps_of a) []" for n
    by (rule greedy_same) (use k assms(2) in auto)
  then show ?thesis by (simp add: reference_order_def Let_def k(1,4))
qed

text \<open>The rows of a plan: the k-th step is stored at position k under the k-th identifier.\<close>

definition rows_of :: "uuid \<Rightarrow> instant \<Rightarrow> step_create list \<Rightarrow> uuid list \<Rightarrow> workflow_step list" where
  "rows_of p now items us = map (step_row p now) (zip [0..<length items] (zip items us))"

lemma rows_of_nth:
  "length us = length items \<Longrightarrow> k < length items \<Longrightarrow>
   rows_of p now items us ! k = step_row p now (k, items ! k, us ! k)"
  by (simp add: rows_of_def)

lemma length_rows_of [simp]: "length us = length items \<Longrightarrow> length (rows_of p now items us) = length items"
  by (simp add: rows_of_def)

lemma map_of_rev_nth:
  assumes "distinct (map f xs)" and "k < length xs"
  shows "map_of (rev (map (\<lambda>x. (f x, g x)) xs)) (f (xs ! k)) = Some (g (xs ! k))"
proof -
  have "map fst (rev (map (\<lambda>x. (f x, g x)) xs)) = rev (map f xs)" by (simp add: rev_map comp_def)
  with assms(1) have "distinct (map fst (rev (map (\<lambda>x. (f x, g x)) xs)))" by simp
  then show ?thesis using assms(2) by (intro map_of_is_SomeI) auto
qed

lemma those_map_some: "(\<And>x. x \<in> set xs \<Longrightarrow> f x = Some (g x)) \<Longrightarrow> those (map f xs) = Some (map g xs)"
  by (induction xs) auto

lemma filter_concat_one:
  assumes "k < length xs" and "\<And>j y. j < length xs \<Longrightarrow> y \<in> set (h (xs ! j)) \<Longrightarrow> P y = (j = k)"
  shows "filter P (concat (map h xs)) = h (xs ! k)"
proof -
  have z: "filter P (concat (map h zs)) = []" if "\<And>j. j < length zs \<Longrightarrow> \<exists>i < length xs. i \<noteq> k \<and> zs ! j = xs ! i" for zs
    using that assms(2) by (fastforce simp: filter_empty_conv in_set_conv_nth)
  have "xs = take k xs @ xs ! k # drop (Suc k) xs" using assms(1) by (rule id_take_nth_drop)
  then have "filter P (concat (map h xs)) =
      filter P (concat (map h (take k xs))) @ filter P (h (xs ! k)) @ filter P (concat (map h (drop (Suc k) xs)))"
    by (metis concat.simps(2) concat_append filter_append list.simps(9) map_append)
  moreover have "filter P (concat (map h (take k xs))) = []"
  proof (rule z)
    fix j assume "j < length (take k xs)"
    then show "\<exists>i < length xs. i \<noteq> k \<and> take k xs ! j = xs ! i" by (intro exI [of _ j]) simp
  qed
  moreover have "filter P (concat (map h (drop (Suc k) xs))) = []"
  proof (rule z)
    fix j assume "j < length (drop (Suc k) xs)"
    then show "\<exists>i < length xs. i \<noteq> k \<and> drop (Suc k) xs ! j = xs ! i"
      by (intro exI [of _ "Suc k + j"]) simp
  qed
  moreover have "filter P (h (xs ! k)) = h (xs ! k)" using assms by (auto simp: filter_id_conv)
  ultimately show ?thesis by simp
qed

text \<open>What building the dependency rows computes, and what reading them back returns.\<close>

lemma dependency_rows_explicit:
  assumes "dependency_rows p rows items = Inr es"
  shows "es = concat (map (\<lambda>i. map (\<lambda>dep. \<lparr>sd_workflow_plan_id = p,
      sd_workflow_step_id = the (by_key rows (sc_step_key i)),
      sd_depends_on_step_id = the (by_key rows dep)\<rparr>) (sort (sc_depends_on i))) items)"
proof -
  let ?edges = "concat (map (\<lambda>i. map (\<lambda>k. (sc_step_key i, k)) (sort (sc_depends_on i))) items)"
  let ?f = "\<lambda>(k, dep). case (by_key rows k, by_key rows dep) of
      (Some a, Some b) \<Rightarrow> Some \<lparr>sd_workflow_plan_id = p, sd_workflow_step_id = a, sd_depends_on_step_id = b\<rparr>
    | _ \<Rightarrow> None"
  let ?g = "\<lambda>(k, dep). \<lparr>sd_workflow_plan_id = p, sd_workflow_step_id = the (by_key rows k),
      sd_depends_on_step_id = the (by_key rows dep)\<rparr>"
  from assms have "those (map ?f ?edges) = Some es"
    by (simp add: dependency_rows_def Let_def split: option.splits)
  then have "list_all2 (\<lambda>x y. ?f x = Some y) ?edges es" by (simp only: those_map_Some)
  then have "list_all2 (\<lambda>x y. y = ?g x) ?edges es"
    by (rule list_all2_mono) (auto split: option.splits)
  then have "es = map ?g ?edges"
    by (induction rule: list_all2_induct) auto
  then show ?thesis by (simp add: map_concat comp_def)
qed

lemma rebuild_stored:
  assumes v: "plan_create_valid data" and refs: "refs_in_plan data"
    and rows: "rows = rows_of p now (pl_steps data) us" and us: "length us = length (pl_steps data)" "distinct us"
    and es: "dependency_rows p rows (pl_steps data) = Inr es" and perm: "mset es' = mset es"
    and plan: "wp_title plan = pl_title data" "wp_summary plan = pl_summary data"
  shows "\<exists>spec. rebuild_spec plan rows es' = Inr spec \<and> same_plan data spec"
proof -
  let ?items = "pl_steps data"
  let ?id = "\<lambda>k. the (by_key rows k)"
  have len: "length rows = length ?items" using rows us by simp
  have nth: "wt_id (rows ! k) = us ! k" "wt_step_key (rows ! k) = sc_step_key (?items ! k)"
    if "k < length ?items" for k
    using that us by (simp_all add: rows rows_of_nth step_row_def)
  have mids: "map wt_id rows = us" by (rule nth_equalityI) (use len us nth in simp_all)
  have mkeys: "map wt_step_key rows = map sc_step_key ?items" by (rule nth_equalityI) (use len nth in simp_all)
  have dk: "distinct (map wt_step_key rows)" using v by (simp add: mkeys plan_create_valid_def)
  have id: "by_key rows (sc_step_key (?items ! k)) = Some (us ! k)" if "k < length ?items" for k
    using map_of_rev_nth [OF dk, of k wt_id] that len nth [OF that] by (simp add: by_key_def)
  have key: "step_key_of rows (us ! k) = Some (sc_step_key (?items ! k))" if "k < length ?items" for k
    using map_of_rev_nth [of wt_id rows k wt_step_key] that len us mids nth [OF that]
    by (simp add: step_key_of_def)
  have returns: "step_key_of rows (?id dep) = Some dep" if "dep \<in> set (sc_depends_on (?items ! k))" "k < length ?items" for k dep
  proof -
    have "dep \<in> set (step_keys data)" using refs that by (auto simp: refs_in_plan_def list_all_iff)
    then obtain j where "j < length ?items" "dep = sc_step_key (?items ! j)"
      by (auto simp: step_keys_def in_set_conv_nth)
    with id key show ?thesis by simp
  qed
  have one: "\<exists>ds. rebuilt_step rows es' (rows ! k) = Some (raw_of_step ((?items ! k)\<lparr>sc_depends_on := ds\<rparr>)) \<and>
      mset ds = mset (sc_depends_on (?items ! k))" if k: "k < length ?items" for k
  proof -
    let ?P = "\<lambda>e. sd_workflow_step_id e = us ! k"
    let ?row = "\<lambda>i dep. \<lparr>sd_workflow_plan_id = p, sd_workflow_step_id = ?id (sc_step_key i),
        sd_depends_on_step_id = ?id dep\<rparr>"
    have "filter ?P es = map (?row (?items ! k)) (sort (sc_depends_on (?items ! k)))"
      unfolding dependency_rows_explicit [OF es]
      by (rule filter_concat_one [OF k, where h = "\<lambda>i. map (?row i) (sort (sc_depends_on i))"])
        (use id us k in \<open>auto simp: nth_eq_iff_index_eq\<close>)
    then have m: "mset (filter ?P es') = mset (map (?row (?items ! k)) (sort (sc_depends_on (?items ! k))))"
      using perm by (metis mset_filter)
    let ?ds = "map (\<lambda>e. the (step_key_of rows (sd_depends_on_step_id e))) (filter ?P es')"
    have "mset ?ds = mset (map (\<lambda>e. the (step_key_of rows (sd_depends_on_step_id e)))
        (map (?row (?items ! k)) (sort (sc_depends_on (?items ! k)))))"
      using arg_cong [OF m, of "image_mset (\<lambda>e. the (step_key_of rows (sd_depends_on_step_id e)))"]
      unfolding mset_map [symmetric] .
    also have "\<dots> = mset (map (\<lambda>dep. dep) (sort (sc_depends_on (?items ! k))))"
      unfolding map_map by (rule arg_cong [where f = mset], rule map_cong) (use returns k in auto)
    finally have ds: "mset ?ds = mset (sc_depends_on (?items ! k))" by simp
    have "step_key_of rows (sd_depends_on_step_id e) = Some (the (step_key_of rows (sd_depends_on_step_id e)))"
      if "e \<in> set (filter ?P es')" for e
      using mset_eq_setD [OF m] that returns k by fastforce
    then have "those (map (\<lambda>e. step_key_of rows (sd_depends_on_step_id e)) (filter ?P es')) = Some ?ds"
      by (rule those_map_some)
    with ds k us nth [OF k] show ?thesis
      by (intro exI [of _ ?ds]) (simp add: rebuilt_step_def raw_of_step_def rows rows_of_nth step_row_def)
  qed
  then obtain f where f: "\<And>k. k < length ?items \<Longrightarrow>
      rebuilt_step rows es' (rows ! k) = Some (raw_of_step ((?items ! k)\<lparr>sc_depends_on := f k\<rparr>)) \<and>
      mset (f k) = mset (sc_depends_on (?items ! k))" by metis
  define ss where "ss = map (\<lambda>k. (?items ! k)\<lparr>sc_depends_on := f k\<rparr>) [0..<length ?items]"
  define spec where "spec = data\<lparr>pl_steps := ss\<rparr>"
  have same: "same_plan data spec"
    using f by (auto simp: same_plan_def spec_def ss_def list_all2_conv_all_nth)
  have "list_all2 (\<lambda>r x. rebuilt_step rows es' r = Some x) rows (map raw_of_step ss)"
    using f len by (auto simp: list_all2_conv_all_nth ss_def)
  then have "those (map (rebuilt_step rows es') rows) = Some (map raw_of_step ss)"
    by (simp only: those_map_Some)
  moreover have "WorkflowPlanCreate (raw_of_plan spec) = Some spec"
    using WorkflowPlanCreate_raw same_plan_keys(2) [OF same v] .
  ultimately show ?thesis
    using same plan by (auto simp: rebuild_spec_def raw_of_plan_def spec_def)
qed

lemma plan_fresh:
  assumes "constraints d" and "constraints (add_plan r d)"
  shows "\<forall>x \<in> set (workflow_steps d). wt_workflow_plan_id x \<noteq> wp_id r"
    and "\<forall>e \<in> set (step_dependencies d). sd_workflow_plan_id e \<noteq> wp_id r"
proof -
  have new: "wp_id r \<notin> wp_id ` set (workflow_plans d)"
    using assms(2) by (simp add: constraints_def workflow_plan_table_ok_def add_plan_def)
  have "workflow_step_table_ok d" "step_dependency_table_ok d" using assms(1) by (simp_all add: constraints_def)
  then have "references (Some \<circ> wt_workflow_plan_id) (workflow_steps d) (map wp_id (workflow_plans d))"
    "references (Some \<circ> sd_workflow_plan_id) (step_dependencies d) (map wp_id (workflow_plans d))"
    by (simp_all add: workflow_step_table_ok_def step_dependency_table_ok_def)
  then have old: "\<forall>x \<in> set (workflow_steps d). wt_workflow_plan_id x \<in> wp_id ` set (workflow_plans d)"
    "\<forall>e \<in> set (step_dependencies d). sd_workflow_plan_id e \<in> wp_id ` set (workflow_plans d)"
    by (simp_all add: references_iff)
  show "\<forall>x \<in> set (workflow_steps d). wt_workflow_plan_id x \<noteq> wp_id r" using old(1) new by metis
  show "\<forall>e \<in> set (step_dependencies d). sd_workflow_plan_id e \<noteq> wp_id r" using old(2) new by metis
qed

lemma sorted_rows_of:
  assumes "length us = length items"
  shows "sort_key (\<lambda>r. (wt_position r, wt_id r)) (rows_of p now items us) = rows_of p now items us"
proof (rule sort_key_id_if_sorted)
  show "sorted (map (\<lambda>r. (wt_position r, wt_id r)) (rows_of p now items us))"
    unfolding sorted_iff_nth_mono_less using assms
    by (auto simp: rows_of_nth step_row_def less_eq_prod_def)
qed

lemma Inr_runs_lift_sum: "lift_sum x s = (Inr a, t) \<longleftrightarrow> x = Inr a \<and> t = s"
  by (cases x) (auto simp: lift_sum_def Inr_runs)

lemma insert_plan_runs:
  assumes "insert_plan t w k p v cr data s = (Inr r, u)"
  shows "wp_title r = pl_title data \<and> wp_summary r = pl_summary data \<and>
    working u = add_plan r (working s) \<and> constraints (working u)"
  using assms by (auto simp: insert_plan_def runs Let_def add_plan_def)

lemma insert_steps_runs:
  assumes "insert_steps p items s = (Inr rows, u)"
  shows "\<exists>now us. length us = length items \<and> rows = rows_of p now items us \<and>
    working u = add_steps rows (working s) \<and> constraints (working u)"
proof -
  from assms obtain us s1 where us: "collect items (\<lambda>_. uuid4) s = (Inr us, s1)"
    and ex: "exec_stmt (\<lambda>now d. let rows = map (step_row p now) (zip [0..<length items] (zip items us))
       in (rows, d\<lparr>workflow_steps := workflow_steps d @ rows\<rparr>)) s1 = (Inr rows, u)"
    by (auto simp: insert_steps_def Inr_runs)
  have "reads (collect xs (\<lambda>_. uuid4))" for xs :: "step_create list"
    by (induction xs) (auto intro!: reads_rules)
  with us have w: "working s1 = working s" by (metis readsD(1))
  have "length us = length items"
    using yieldsD [OF yields_collect_uuid4 us, of "\<lambda>_. True"] by simp
  with ex w show ?thesis
    by (auto simp: Inr_runs_exec Let_def rows_of_def add_steps_def)
qed

lemma insert_dependencies_runs:
  "insert_dependencies es s = (Inr u, t) \<Longrightarrow> working t = add_dependencies es (working s)"
  by (auto simp: insert_dependencies_def runs add_dependencies_def split: if_splits)

text \<open>A plan that was created: its row, the rows of its steps and of their dependencies.\<close>

lemma create_plan_runs:
  assumes same: "working s = committed s"
    and run: "workflow_create_plan t w k data s = (Inr plan, u)"
  obtains order now us rows es where
    "validate_graph data = Inr order" "wp_title plan = pl_title data" "wp_summary plan = pl_summary data"
    "length us = length (pl_steps data)" "rows = rows_of (wp_id plan) now (pl_steps data) us"
    "dependency_rows (wp_id plan) rows (pl_steps data) = Inr es"
    "constraints (add_plan plan (committed s))" "constraints (add_steps rows (add_plan plan (committed s)))"
    "workflow_plans (committed u) = workflow_plans (committed s) @ [plan]"
    "workflow_steps (committed u) = workflow_steps (committed s) @ rows"
    "step_dependencies (committed u) = step_dependencies (committed s) @ es" "working u = committed u"
proof -
  from run obtain project s1 s2 s3 order plan0 s5 rows s6 es s7 s8 s9 where
    sc: "workflow_task_scope t w k s = (Inr project, s1)" and
    la: "latest_plan t w k s1 = (Inr None, s2)" and
    vg: "validate_graph data = Inr order" and
    va: "validate_assignments t w data s2 = (Inr (), s3)" and
    ip: "insert_plan t w k project 1 None data s3 = (Inr plan0, s5)" and
    ins: "insert_steps (wp_id plan0) (pl_steps data) s5 = (Inr rows, s6)" and
    dr: "dependency_rows (wp_id plan0) rows (pl_steps data) = Inr es" and
    id: "insert_dependencies es s6 = (Inr (), s7)" and
    ja: "join_audit (plan_audit t w project k ''workflow.plan.created'' plan0) s7 = (Inr (), s8)" and
    co: "commit s8 = (Inr (), s9)" and
    re: "refresh workflow_plans wp_id plan0 s9 = (Inr plan, u)"
    unfolding workflow_create_plan_def workflow_create_plan_rows_def Inr_runs Inr_runs_handler
      Inr_runs_only_if Inr_runs_lift_sum by (auto split: if_splits)
  have w3: "working s3 = committed s"
    using readsD(1) [OF reads_workflows(2) sc] readsD(1) [OF reads_workflows(3) la]
      readsD(1) [OF reads_validate_assignments va] same by simp
  note plan0 = insert_plan_runs [OF ip]
  obtain now us where us: "length us = length (pl_steps data)"
    and rows: "rows = rows_of (wp_id plan0) now (pl_steps data) us"
    and w6: "working s6 = add_steps rows (working s5)" "constraints (working s6)"
    using insert_steps_runs [OF ins] by blast
  have w5: "working s5 = add_plan plan0 (committed s)" "constraints (add_plan plan0 (committed s))"
    using plan0 w3 by auto
  have w9: "workflow_plans (working s9) = workflow_plans (committed s) @ [plan0]"
    "workflow_steps (working s9) = workflow_steps (committed s) @ rows"
    "step_dependencies (working s9) = step_dependencies (committed s) @ es" "committed s9 = working s9"
    using join_audit_runs [OF ja] insert_dependencies_runs [OF id] w6(1) w5(1) co
    by (auto simp: Inr_runs add_dependencies_def add_steps_def add_plan_def)
  have u: "committed u = working s9" "working u = working s9"
    using re w9(4) by (simp_all add: Inr_runs_refresh)
  have "distinct (map wp_id (workflow_plans (committed s) @ [plan0]))"
    using w5(2) by (simp add: constraints_def workflow_plan_table_ok_def add_plan_def)
  from filter_distinct_key [OF this, of plan0] re w9(1) have p: "plan = plan0"
    by (simp add: Inr_runs_refresh)
  show thesis
    by (rule that [OF vg _ _ us _ dr [folded p]]) (use p plan0 rows w5 w6 w9 u in simp_all)
qed

text \<open>
  C23: A plan that was created can be run: what \<open>create_run\<close> rebuilds from the stored rows is the
  submitted plan, up to the order in which a step lists its dependencies, so it passes the
  contract and the graph validation again, with the same order of the steps.
\<close>
theorem created_plan_rebuilds:
  assumes "working s = committed s" and "constraints (committed s)" and "plan_create_valid data"
  shows "case workflow_create_plan tenant_id workspace_id task_id data s of
      (Inl e, u) \<Rightarrow> True
    | (Inr plan, u) \<Rightarrow> \<exists>spec. same_plan data spec \<and> validate_graph spec = validate_graph data \<and>
        rebuild_spec plan (plan_steps (wp_id plan) (committed u)) (plan_edges (wp_id plan) (committed u)) =
          Inr spec"
proof (cases "workflow_create_plan tenant_id workspace_id task_id data s")
  case (Pair x u)
  show ?thesis
  proof (cases x)
    case (Inr plan)
    with Pair have run: "workflow_create_plan tenant_id workspace_id task_id data s = (Inr plan, u)" by simp
    let ?p = "wp_id plan" and ?items = "pl_steps data"
    obtain order now us rows es where
      vg: "validate_graph data = Inr order" and
      plan: "wp_title plan = pl_title data" "wp_summary plan = pl_summary data" and
      us: "length us = length ?items" and rows: "rows = rows_of ?p now ?items us" and
      dr: "dependency_rows ?p rows ?items = Inr es" and
      ok: "constraints (add_plan plan (committed s))" "constraints (add_steps rows (add_plan plan (committed s)))" and
      cu: "workflow_steps (committed u) = workflow_steps (committed s) @ rows"
        "step_dependencies (committed u) = step_dependencies (committed s) @ es"
      by (rule create_plan_runs [OF assms(1) run]) blast
    note fresh = plan_fresh [OF assms(2), of plan]
    have plan_of: "\<forall>r \<in> set rows. wt_workflow_plan_id r = ?p" using step_row_fields(2) by (simp add: rows rows_of_def)
    have ss: "plan_steps ?p (committed u) = rows"
      using fresh(1) ok(1) plan_of sorted_rows_of [OF us, of ?p now, folded rows]
      by (simp add: plan_steps_def cu)
    have "filter (\<lambda>e. sd_workflow_plan_id e = ?p) es = es"
      using dependency_rows_explicit [OF dr] by (auto simp: filter_id_conv)
    then have "mset (plan_edges ?p (committed u)) = mset es"
      using fresh(2) ok(1) by (simp add: plan_edges_def cu)
    moreover have "distinct us"
    proof -
      have "map wt_id rows = us" using us by (intro nth_equalityI) (simp_all add: rows rows_of_nth step_row_def)
      then show ?thesis
        using ok(2) by (simp add: constraints_def workflow_step_table_ok_def add_steps_def)
    qed
    moreover have dk: "distinct (step_keys data)" using assms(3) by (simp add: plan_create_valid_def step_keys_def)
    then have ro: "reference_order data = Some order" and "refs_in_plan data"
      using validate_graph_reference [OF dk] reference_order_Some [OF dk] vg by auto
    ultimately obtain spec where spec: "same_plan data spec"
      "rebuild_spec plan rows (plan_edges ?p (committed u)) = Inr spec"
      using rebuild_stored [OF assms(3) _ rows us _ dr, of "plan_edges ?p (committed u)" plan] plan by auto
    have "reference_order spec = Some order" using same_plan_order [OF spec(1) dk] ro by simp
    then have "validate_graph spec = Inr order"
      using validate_graph_reference [of spec] same_plan_keys(1) [OF spec(1)] dk by (auto split: sum.splits)
    with spec ss Pair Inr vg show ?thesis by auto
  qed (use Pair in simp)
qed

lemma sample_plan_valid: "plan_create_valid sample_plan"
  by code_simp

theorem created_plan_rebuilds_witness:
  "case workflow_create_plan 1 2 4 sample_plan (sample_session sample_db) of
      (Inl e, u) \<Rightarrow> True
    | (Inr plan, u) \<Rightarrow> \<exists>spec. same_plan sample_plan spec \<and> validate_graph spec = validate_graph sample_plan \<and>
        rebuild_spec plan (plan_steps (wp_id plan) (committed u)) (plan_edges (wp_id plan) (committed u)) =
          Inr spec"
  by (rule created_plan_rebuilds [OF _ _ sample_plan_valid]) (simp_all add: sample_ok)

end
