(* ===== verification/Development.thy ===== *)
theory Development
  imports Workflow_Roundtrip
begin

text \<open>
  The trusted development agents (\<open>modules/developer_manager\<close>, \<open>developer_worker\<close>, \<open>qa_worker\<close>: the
  constants and \<open>resolve_definition\<close> of their services), the fixed development workflow over them
  (\<open>create_development_workflow\<close> of \<open>modules/workflows/service.py\<close>) and the bootstrap of the local
  scope that stores them (\<open>bootstrap.py\<close>).
\<close>

section \<open>The trusted definitions\<close>

record trusted_agent =
  ta_slug :: pystr
  ta_name :: pystr
  ta_version :: int
  ta_category :: pystr
  ta_mission :: pystr
  ta_capabilities :: "pystr list"
  ta_permissions :: "pystr list"

definition DEVELOPER_MANAGER :: trusted_agent where
  "DEVELOPER_MANAGER = \<lparr>ta_slug = ''developer_manager'', ta_name = ''Developer Manager'', ta_version = 1,
     ta_category = ''development'',
     ta_mission = ''Coordinate bounded software-development decomposition and review recommendations '' @
       ''without executing work or exercising orchestration or policy authority.'',
     ta_capabilities = [''code_review_planning'', ''implementation_planning'',
       ''software_architecture'', ''task_decomposition''],
     ta_permissions = []\<rparr>"

definition DEVELOPER_WORKER :: trusted_agent where
  "DEVELOPER_WORKER = \<lparr>ta_slug = ''developer_worker'', ta_name = ''Developer Worker'', ta_version = 3,
     ta_category = ''development'',
     ta_mission = ''Execute one bounded software-development assignment and return a validated '' @
       ''implementation result; workspace mutation remains server-owned and requires Policy '' @
       ''plus explicit human approval.'',
     ta_capabilities = [''code_reasoning'', ''debugging'', ''software_implementation'', ''test_planning''],
     ta_permissions = [''workspace.list_files'', ''workspace.read_file'', ''workspace.search_text'',
       ''workspace.replace_text'']\<rparr>"

definition QA_WORKER :: trusted_agent where
  "QA_WORKER = \<lparr>ta_slug = ''qa_worker'', ta_name = ''QA Worker'', ta_version = 1,
     ta_category = ''quality'',
     ta_mission = ''Evaluate one bounded software-development result against explicit acceptance criteria '' @
       ''and return a validated QA assessment without executing tests or exercising authority.'',
     ta_capabilities = [''acceptance_validation'', ''defect_analysis'', ''quality_assurance'',
       ''regression_planning'', ''security_review_planning''],
     ta_permissions = []\<rparr>"

definition agent_unavailable :: "trusted_agent \<Rightarrow> nat \<Rightarrow> exn" where
  "agent_unavailable a status =
     ApplicationError (ta_slug a @ ''_unavailable'') (ta_name a @ '' is unavailable'') status"

text \<open>The three services resolve their definition alike; only the constants differ.\<close>

definition resolve_definition :: "trusted_agent \<Rightarrow> uuid \<Rightarrow> uuid \<Rightarrow> agent_definition prog" where
  "resolve_definition a tenant_id workspace_id =
     bnd (latest_definition tenant_id workspace_id (ta_slug a) True) (\<lambda>found.
     bnd (require (agent_unavailable a 404) found) (\<lambda>d.
     andthen (only_if (ad_status d \<noteq> agent_definition_status_value ENABLED)
       (throw (agent_unavailable a 409))) (ret d)))"

definition trusted_definition :: "trusted_agent \<Rightarrow> agent_definition \<Rightarrow> bool" where
  "trusted_definition a d =
     (ad_version d = ta_version a \<and> ad_name d = ta_name a \<and> ad_category d = Some (ta_category a) \<and>
      ad_mission d = ta_mission a \<and> ad_capabilities d = ta_capabilities a \<and>
      ad_permissions d = ta_permissions a)"

section \<open>The development workflow\<close>

text \<open>
  Text that looks executable or addressed elsewhere (\<open>_UNSAFE_HANDOFF\<close>), searched without regard
  to the case of ASCII letters. \<open>followed\<close> is the part \<open>\b(?:sudo|curl|wget)\s\<close> of the pattern.
\<close>

fun command_word :: "bool \<Rightarrow> pystr \<Rightarrow> bool" where
  "command_word boundary [] = False"
| "command_word boundary (c # cs) =
    (boundary \<and> list_ex (\<lambda>w. startswith (c # cs) w \<and>
        (case drop (length w) (c # cs) of [] \<Rightarrow> False | x # _ \<Rightarrow> isspace x))
       [''sudo'', ''curl'', ''wget''] \<or>
     command_word (\<not> word_char c) cs)"

definition unsafe_handoff :: "pystr \<Rightarrow> bool" where
  "unsafe_handoff t =
    (let l = lower t in
     list_ex (\<lambda>p. contains p l)
       [''http://'', ''https://'', ''data:'', '';base64,'', ''```'', ''$('', ''&&'', ''||''] \<or>
     command_word True l)"

record development_create =
  dw_objective :: pystr
  dw_acceptance_criteria :: "pystr list"

definition development_create_valid :: "development_create \<Rightarrow> bool" where
  "development_create_valid r =
    (stripped 1500 (dw_objective r) \<and> \<not> unsafe_handoff (dw_objective r) \<and>
     1 \<le> length (dw_acceptance_criteria r) \<and> length (dw_acceptance_criteria r) \<le> 24 \<and>
     list_all (stripped 1000) (dw_acceptance_criteria r) \<and> distinct (dw_acceptance_criteria r) \<and>
     \<not> list_ex unsafe_handoff (dw_acceptance_criteria r))"

definition development_step ::
  "pystr \<Rightarrow> pystr \<Rightarrow> pystr \<Rightarrow> agent_definition \<Rightarrow> pystr list \<Rightarrow> raw_step" where
  "development_step key title capability d deps =
     \<lparr>rs_step_key = key, rs_title = title, rs_step_type = ''AGENT_TASK'',
      rs_assigned_capability = Some capability, rs_agent_definition_id = Some (ad_id d),
      rs_risk_level = Some ''LOW'', rs_depends_on = deps\<rparr>"

definition development_plan ::
  "agent_definition \<Rightarrow> agent_definition \<Rightarrow> agent_definition \<Rightarrow> raw_plan" where
  "development_plan manager developer qa =
     \<lparr>rp_title = ''Development workflow'',
      rp_summary = Some ''Fixed governed Manager to Developer Worker to QA Worker workflow'',
      rp_steps =
        [development_step ''manager_plan'' ''Plan development assignment'' ''implementation_planning'' manager [],
         development_step ''developer_execute'' ''Execute development assignment''
           ''software_implementation'' developer [''manager_plan''],
         development_step ''qa_validate'' ''Validate development result'' ''acceptance_validation'' qa
           [''developer_execute'']]\<rparr>"

definition development_workflow_unavailable :: exn where
  "development_workflow_unavailable = ApplicationError ''development_workflow_unavailable''
     ''Trusted development agents are unavailable'' 409"

definition first_step_run ::
  "(workflow_step_run \<times> workflow_step) list \<Rightarrow> workflow_step_run prog" where
  "first_step_run rows = require (PythonError ''IndexError'') (map_option fst (first_row rows))"

definition create_development_workflow ::
  "uuid \<Rightarrow> uuid \<Rightarrow> uuid \<Rightarrow> uuid \<Rightarrow> development_create \<Rightarrow> (workflow_plan \<times> workflow_run) prog" where
  "create_development_workflow tenant_id workspace_id project_id task_id data =
     bnd (workflow_task_scope tenant_id workspace_id task_id) (\<lambda>scoped_project.
     andthen (only_if (scoped_project \<noteq> project_id) (throw not_found))
    (bnd (resolve_definition DEVELOPER_MANAGER tenant_id workspace_id) (\<lambda>manager.
     bnd (resolve_definition DEVELOPER_WORKER tenant_id workspace_id) (\<lambda>developer.
     bnd (resolve_definition QA_WORKER tenant_id workspace_id) (\<lambda>qa.
     andthen (only_if (\<not> (trusted_definition DEVELOPER_MANAGER manager \<and>
          trusted_definition DEVELOPER_WORKER developer \<and> trusted_definition QA_WORKER qa))
        (throw development_workflow_unavailable))
    (bnd (require ValidationError (WorkflowPlanCreate (development_plan manager developer qa))) (\<lambda>spec.
     bnd (workflow_create_plan tenant_id workspace_id task_id spec) (\<lambda>plan.
     bnd (workflow_create_run tenant_id workspace_id (wp_id plan)) (\<lambda>run.
     bnd (ordered_step_runs (wr_id run)) (\<lambda>ordered.
     bnd (first_step_run ordered) (\<lambda>manager_step_run.
     bnd (add_handoff (\<lambda>u. \<lparr>ho_id = u, ho_workflow_run_id = wr_id run, ho_workflow_plan_id = wp_id plan,
        ho_source_step_run_id = None, ho_destination_step_run_id = sr_id manager_step_run,
        ho_handoff_type = ''DEVELOPMENT_REQUEST'', ho_objective = dw_objective data,
        ho_acceptance_criteria = dw_acceptance_criteria data, ho_evidence_items = []\<rparr>)) (\<lambda>_.
     andthen commit (ret (plan, run))))))))))))))"

section \<open>Bootstrap\<close>

record settings =
  st_production :: bool
  st_tenant_id :: uuid
  st_tenant_name :: pystr
  st_tenant_slug :: pystr
  st_workspace_id :: uuid
  st_workspace_name :: pystr
  st_workspace_slug :: pystr

definition BootstrapError :: exn where
  "BootstrapError = PythonError ''BootstrapError''"

definition definition_version ::
  "uuid \<Rightarrow> uuid \<Rightarrow> pystr \<Rightarrow> int \<Rightarrow> agent_definition option prog" where
  "definition_version tenant_id workspace_id slug version =
     select_one agent_definitions (\<lambda>r. same_role tenant_id workspace_id slug r \<and> ad_version r = version)"

definition insert_definition ::
  "uuid \<Rightarrow> uuid \<Rightarrow> trusted_agent \<Rightarrow> int \<Rightarrow> agent_definition prog" where
  "insert_definition tenant_id workspace_id a version =
     bnd uuid4 (\<lambda>u. exec_stmt (\<lambda>now d.
       let r = \<lparr>ad_id = u, ad_tenant_id = tenant_id, ad_workspace_id = workspace_id,
          ad_name = ta_name a, ad_slug = ta_slug a, ad_version = version, ad_status = ''ENABLED'',
          ad_category = Some (ta_category a), ad_mission = ta_mission a,
          ad_capabilities = ta_capabilities a, ad_permissions = ta_permissions a,
          ad_created_at = now\<rparr>
       in (r, add_definition r d)))"

text \<open>The fields a definition is compared on; the version constant of the agent plays no part.\<close>

definition as_bootstrapped :: "trusted_agent \<Rightarrow> agent_definition \<Rightarrow> bool" where
  "as_bootstrapped a d =
     (ad_name d = ta_name a \<and> ad_status d = ''ENABLED'' \<and> ad_category d = Some (ta_category a) \<and>
      ad_mission d = ta_mission a \<and> ad_capabilities d = ta_capabilities a)"

definition bootstrap_agent_definition :: "uuid \<Rightarrow> uuid \<Rightarrow> trusted_agent \<Rightarrow> agent_definition prog" where
  "bootstrap_agent_definition tenant_id workspace_id a =
     bnd (definition_version tenant_id workspace_id (ta_slug a) 1) (\<lambda>first.
     bnd (case first of
         Some d \<Rightarrow>
           if ad_permissions d = [] \<and> ta_permissions a \<noteq> []
           then if \<not> as_bootstrapped a d then throw BootstrapError
             else bnd (definition_version tenant_id workspace_id (ta_slug a) 2) (\<lambda>second. ret (2, second))
           else ret (1, first)
       | None \<Rightarrow> ret (1, first)) (\<lambda>(target_version, found).
     bnd (case found of None \<Rightarrow> insert_definition tenant_id workspace_id a target_version
                      | Some d \<Rightarrow> ret d) (\<lambda>d.
     andthen (only_if (\<not> (as_bootstrapped a d \<and> ad_version d = target_version \<and>
         ad_permissions d = ta_permissions a)) (throw BootstrapError)) (ret d))))"

text \<open>\<open>insert(...).on_conflict_do_nothing()\<close>: a row that collides on a unique key is left out.\<close>

definition insert_tenant :: "tenant \<Rightarrow> unit prog" where
  "insert_tenant r = exec_stmt (\<lambda>now d.
     ((), if list_ex (\<lambda>t. tn_id t = tn_id r \<or> tn_slug t = tn_slug r) (tenants d) then d
          else d\<lparr>tenants := tenants d @ [r]\<rparr>))"

definition insert_workspace :: "workspace \<Rightarrow> unit prog" where
  "insert_workspace r = exec_stmt (\<lambda>now d.
     ((), if list_ex (\<lambda>w. ws_id w = ws_id r \<or>
               (ws_tenant_id w, ws_slug w) = (ws_tenant_id r, ws_slug r)) (workspaces d) then d
          else d\<lparr>workspaces := workspaces d @ [r]\<rparr>))"

definition get_workspace_by_tenant_and_slug :: "uuid \<Rightarrow> pystr \<Rightarrow> workspace option prog" where
  "get_workspace_by_tenant_and_slug tenant_id slug =
     select_one workspaces (\<lambda>w. ws_tenant_id w = tenant_id \<and> ws_slug w = slug)"

record bootstrap_result =
  br_tenant :: tenant
  br_workspace :: workspace
  br_developer_manager :: agent_definition
  br_developer_worker :: agent_definition
  br_qa_worker :: agent_definition

definition bootstrap_local_scope :: "settings \<Rightarrow> bootstrap_result prog" where
  "bootstrap_local_scope st =
     andthen (only_if (st_production st) (throw BootstrapError))
    (andthen (insert_tenant \<lparr>tn_id = st_tenant_id st, tn_name = st_tenant_name st, tn_slug = st_tenant_slug st\<rparr>)
    (bnd (select_one tenants (\<lambda>t. tn_id t = st_tenant_id st)) (\<lambda>found.
     bnd (require BootstrapError found) (\<lambda>tn.
     andthen (only_if ((tn_name tn, tn_slug tn) \<noteq> (st_tenant_name st, st_tenant_slug st)) (throw BootstrapError))
    (andthen (insert_workspace \<lparr>ws_id = st_workspace_id st, ws_tenant_id = tn_id tn,
        ws_name = st_workspace_name st, ws_slug = st_workspace_slug st\<rparr>)
    (bnd (get_workspace_by_tenant_and_slug (tn_id tn) (st_workspace_slug st)) (\<lambda>found.
     bnd (require BootstrapError found) (\<lambda>ws.
     andthen (only_if ((ws_id ws, ws_name ws) \<noteq> (st_workspace_id st, st_workspace_name st)) (throw BootstrapError))
    (bnd (bootstrap_agent_definition (tn_id tn) (ws_id ws) DEVELOPER_MANAGER) (\<lambda>dm.
     bnd (bootstrap_agent_definition (tn_id tn) (ws_id ws) DEVELOPER_WORKER) (\<lambda>dw.
     bnd (bootstrap_agent_definition (tn_id tn) (ws_id ws) QA_WORKER) (\<lambda>qa.
     ret \<lparr>br_tenant = tn, br_workspace = ws, br_developer_manager = dm, br_developer_worker = dw,
       br_qa_worker = qa\<rparr>))))))))))))"

text \<open>\<open>run_bootstrap\<close>: one transaction, committed only when nothing was raised.\<close>

definition run_bootstrap :: "settings \<Rightarrow> bootstrap_result prog" where
  "run_bootstrap st =
     catch (bnd (bootstrap_local_scope st) (\<lambda>r. andthen commit (ret r))) (\<lambda>e. andthen rollback (throw e))"

section \<open>What the operations leave alone\<close>

lemma reads_resolve: "reads (resolve_definition a t w)"
  unfolding resolve_definition_def latest_definition_def agent_unavailable_def by (intro reads_rules)

lemma reads_definition_version: "reads (definition_version t w slug v)"
  unfolding definition_version_def by (intro reads_scopes)

lemma resolve_definition_runs:
  assumes "resolve_definition a t w s = (Inr d, u)"
  shows "latest_of t w (ta_slug a) True (working s) = Some d \<and> ad_status d = ''ENABLED'' \<and>
    working u = working s \<and> committed u = committed s"
  using assms readsD [OF reads_resolve assms]
  by (auto simp: resolve_definition_def latest_definition_def runs agent_definition_status_value_def
      split: if_splits)

lemma latest_of_Some:
  "latest_of t w slug excl d = Some r \<Longrightarrow> r \<in> set (agent_definitions d) \<and> same_role t w slug r"
  unfolding latest_of_def by (drule first_row_in) auto

context store_order
begin

lemma steps_create_development_workflow:
  assumes "\<And>d r. W d (d\<lparr>audit_records := audit_records d @ [r]\<rparr>)"
    and "\<And>d r. W d (add_plan r d)" and "\<And>d rs. W d (add_steps rs d)"
    and "\<And>d es. W d (add_dependencies es d)" and "\<And>d r. W d (add_workflow_run r d)"
    and "\<And>d rs. W d (add_step_runs rs d)"
    and "\<And>d r. W d (d\<lparr>step_handoffs := step_handoffs d @ [r]\<rparr>)"
  shows "steps R (create_development_workflow t w p k data)"
proof -
  have "steps R (add_handoff f)" for f
    unfolding add_handoff_def Let_def by (intro steps_rules stmt_rules steps_exec) (simp add: assms)
  then show ?thesis
    unfolding create_development_workflow_def resolve_definition_def latest_definition_def
      ordered_step_runs_def first_step_run_def
    by (intro steps_rules store_rules steps_workflow_reads steps_workflow_plans(1)
        steps_workflow_create_run assms)
qed

lemma steps_run_bootstrap:
  assumes "\<And>d r. W d (add_definition r d)" and "\<And>d rs. W d (d\<lparr>tenants := tenants d @ rs\<rparr>)"
    and "\<And>d rs. W d (d\<lparr>workspaces := workspaces d @ rs\<rparr>)"
  shows "steps R (run_bootstrap st)"
proof -
  have same: "W d d" for d using assms(2) [of d "[]"] by simp
  have "steps R (insert_tenant r)" "steps R (insert_workspace q)" for r q
    unfolding insert_tenant_def insert_workspace_def
    by (intro steps_exec; simp add: assms same)+
  moreover have "steps R (bootstrap_agent_definition t w a)" for t w a
    unfolding bootstrap_agent_definition_def definition_version_def insert_definition_def
    by (auto intro!: steps_rules stmt_rules steps_scopes steps_exec assms simp: Let_def split: prod.splits)
  ultimately show ?thesis
    unfolding run_bootstrap_def bootstrap_local_scope_def get_workspace_by_tenant_and_slug_def
    by (intro steps_rules store_rules steps_scopes)
qed

end

section \<open>Runs that settle\<close>

text \<open>
  On the data \<open>d\<close> the program returns \<open>v\<close>, unless a statement fails, and leaves the data at \<open>d\<close>
  either way.
\<close>

definition at_rest :: "db \<Rightarrow> session \<Rightarrow> bool" where
  "at_rest d s = (working s = d \<and> committed s = d)"

definition settles :: "db \<Rightarrow> 'a prog \<Rightarrow> 'a \<Rightarrow> bool" where
  "settles d m v = triple (at_rest d) m (\<lambda>a s. a = v \<and> at_rest d s)
     (\<lambda>e s. e = SQLAlchemyError \<and> at_rest d s)"

lemma settlesD:
  "settles d m v \<Longrightarrow> at_rest d s \<Longrightarrow> case m s of (Inr a, t) \<Rightarrow> a = v \<and> at_rest d t
    | (Inl e, t) \<Rightarrow> e = SQLAlchemyError \<and> at_rest d t"
  by (simp add: settles_def triple_def)

lemma settles_ret: "a = v \<Longrightarrow> settles d (ret a) v"
  by (simp add: settles_def triple_ret)

lemma settles_bnd: "settles d m a \<Longrightarrow> settles d (k a) v \<Longrightarrow> settles d (bnd m k) v"
  unfolding settles_def
  by (rule triple_bnd, assumption) (auto simp: triple_def)

lemma settles_andthen: "settles d m a \<Longrightarrow> settles d n v \<Longrightarrow> settles d (andthen m n) v"
  unfolding andthen_def by (rule settles_bnd)

lemma settles_only_if: "\<not> b \<Longrightarrow> settles d (only_if b m) ()"
  by (simp add: settles_ret)

lemma settles_require: "x = Some v \<Longrightarrow> settles d (require e x) v"
  by (simp add: settles_ret)

lemma settles_query: "q d = v \<Longrightarrow> settles d (query q) v"
  by (auto simp: settles_def triple_def query_def at_rest_def)

lemma settles_select_one: "first_row (filter P (T d)) = v \<Longrightarrow> settles d (select_one T P) v"
  unfolding select_one_def by (rule settles_query)

lemma settles_exec:
  "(\<And>now. f now d = (v, d)) \<Longrightarrow> constraints d \<Longrightarrow> settles d (exec_stmt f) v"
  by (auto simp: settles_def triple_def exec_stmt_def at_rest_def Let_def)

lemma settles_commit: "settles d commit ()"
  by (auto simp: settles_def triple_def commit_def at_rest_def)

section \<open>What bootstrap leaves\<close>

definition versions :: "uuid \<Rightarrow> uuid \<Rightarrow> pystr \<Rightarrow> int \<Rightarrow> agent_definition list \<Rightarrow> agent_definition option" where
  "versions t w slug v rows = first_row (filter (\<lambda>r. same_role t w slug r \<and> ad_version r = v) rows)"

definition settled_agent ::
  "uuid \<Rightarrow> uuid \<Rightarrow> trusted_agent \<Rightarrow> agent_definition \<Rightarrow> agent_definition list \<Rightarrow> bool" where
  "settled_agent t w a r rows \<longleftrightarrow> as_bootstrapped a r \<and> ad_permissions r = ta_permissions a \<and>
     (versions t w (ta_slug a) 1 rows = Some r \<and> ad_version r = 1 \<or>
      (\<exists>old. versions t w (ta_slug a) 1 rows = Some old \<and> ad_permissions old = [] \<and>
         ta_permissions a \<noteq> [] \<and> as_bootstrapped a old \<and>
         versions t w (ta_slug a) 2 rows = Some r \<and> ad_version r = 2))"

lemma versions_append:
  "\<forall>r \<in> set new. ad_slug r \<noteq> slug \<Longrightarrow> versions t w slug v (rows @ new) = versions t w slug v rows"
  by (simp add: versions_def same_role_def)

lemma settled_agent_append:
  "\<forall>r \<in> set new. ad_slug r \<noteq> ta_slug a \<Longrightarrow>
   settled_agent t w a x (rows @ new) = settled_agent t w a x rows"
  by (simp add: settled_agent_def versions_append)

lemma settles_bootstrap_agent:
  assumes "settled_agent t w a r (agent_definitions d)"
  shows "settles d (bootstrap_agent_definition t w a) r"
proof -
  have dv: "settles d (definition_version t w (ta_slug a) v) (versions t w (ta_slug a) v (agent_definitions d))" for v
    unfolding definition_version_def versions_def by (rule settles_select_one) simp
  have r: "as_bootstrapped a r" "ad_permissions r = ta_permissions a"
    using assms by (simp_all add: settled_agent_def)
  from assms consider (one) "versions t w (ta_slug a) 1 (agent_definitions d) = Some r" "ad_version r = 1"
      "\<not> (ad_permissions r = [] \<and> ta_permissions a \<noteq> [])"
    | (two) old where "versions t w (ta_slug a) 1 (agent_definitions d) = Some old"
      "ad_permissions old = [] \<and> ta_permissions a \<noteq> []" "as_bootstrapped a old"
      "versions t w (ta_slug a) 2 (agent_definitions d) = Some r" "ad_version r = 2"
    by (auto simp: settled_agent_def)
  then show ?thesis
  proof cases
    case one
    then show ?thesis unfolding bootstrap_agent_definition_def
      by (intro settles_bnd [OF dv]) (auto simp: r intro: settles_ret)
  next
    case two
    then show ?thesis unfolding bootstrap_agent_definition_def
      by (intro settles_bnd [OF dv])
        (auto simp: r intro!: settles_bnd [OF settles_bnd [OF dv settles_ret]] settles_ret)
  qed
qed

lemma bootstrap_agent_runs:
  assumes run: "bootstrap_agent_definition t w a s = (Inr r, u)"
  shows "\<exists>new. agent_definitions (working u) = agent_definitions (working s) @ new \<and>
    (\<forall>x \<in> set new. ad_slug x = ta_slug a \<and> ad_version x \<in> {1, 2}) \<and>
    tenants (working u) = tenants (working s) \<and> workspaces (working u) = workspaces (working s) \<and>
    settled_agent t w a r (agent_definitions (working u))"
proof -
  let ?rows = "agent_definitions (working s)"
  have dv: "definition_version t w (ta_slug a) v s' = (Inr x, s'') \<Longrightarrow> working s' = working s \<Longrightarrow>
      x = versions t w (ta_slug a) v ?rows \<and> working s'' = working s" for v x s' s''
    by (auto simp: definition_version_def select_one_def versions_def Inr_runs)
  from run obtain first s1 target found s2 s3 where
    f: "definition_version t w (ta_slug a) 1 s = (Inr first, s1)" and
    g: "(case first of
         Some d \<Rightarrow>
           if ad_permissions d = [] \<and> ta_permissions a \<noteq> []
           then if \<not> as_bootstrapped a d then throw BootstrapError
             else bnd (definition_version t w (ta_slug a) 2) (\<lambda>second. ret (2, second))
           else ret (1, first)
       | None \<Rightarrow> ret (1, first)) s1 = (Inr (target, found), s2)" and
    i: "(case found of None \<Rightarrow> insert_definition t w a target | Some d \<Rightarrow> ret d) s2 = (Inr r, u)" and
    ok: "as_bootstrapped a r" "ad_version r = target" "ad_permissions r = ta_permissions a"
    unfolding bootstrap_agent_definition_def by (auto simp: runs split: if_splits)
  note f = dv [OF f refl]
  have g': "working s2 = working s \<and> found = versions t w (ta_slug a) target ?rows \<and>
      (target = 1 \<or> target = 2 \<and> (\<exists>old. versions t w (ta_slug a) 1 ?rows = Some old \<and>
         ad_permissions old = [] \<and> ta_permissions a \<noteq> [] \<and> as_bootstrapped a old))"
    using g f by (auto simp: runs split: option.splits if_splits dest!: dv)
  show ?thesis
  proof (cases found)
    case (Some d)
    with i have "r = d" "u = s2" by (simp_all add: Inr_runs)
    moreover have "settled_agent t w a r ?rows"
      using ok g' Some \<open>r = d\<close> unfolding settled_agent_def by (cases "target = 1") auto
    ultimately show ?thesis using g' by (intro exI [of _ "[]"]) simp
  next
    case None
    with i g' have add: "working u = add_definition r (working s)" "ad_slug r = ta_slug a"
      "same_role t w (ta_slug a) r"
      by (auto simp: insert_definition_def runs Let_def same_role_def)
    have one: "versions t w (ta_slug a) target (?rows @ [r]) = Some r"
      using None g' add ok by (auto simp: versions_def first_row_filter_None_iff)
    have keep: "versions t w (ta_slug a) 1 (?rows @ [r]) = versions t w (ta_slug a) 1 ?rows"
      if "target = 2" using that ok by (simp add: versions_def)
    have "settled_agent t w a r (?rows @ [r])"
      using ok g' one keep unfolding settled_agent_def by (cases "target = 1") auto
    with add ok g' show ?thesis
      by (intro exI [of _ "[r]"]) (auto simp: add_definition_def)
  qed
qed

lemma settles_or_rollback:
  assumes "settles d m v"
  shows "settles d (catch m (\<lambda>e. andthen rollback (throw e))) v"
  unfolding settles_def triple_def
proof (intro allI impI)
  fix s assume "at_rest d s"
  with assms have "case m s of (Inr a, t) \<Rightarrow> a = v \<and> at_rest d t | (Inl e, t) \<Rightarrow> e = SQLAlchemyError \<and> at_rest d t"
    by (simp add: settles_def triple_def)
  then show "case catch m (\<lambda>e. andthen rollback (throw e)) s of (Inr a, t) \<Rightarrow> a = v \<and> at_rest d t
      | (Inl e, t) \<Rightarrow> e = SQLAlchemyError \<and> at_rest d t"
    by (cases "m s"; cases "fst (m s)")
      (auto simp: catch_def andthen_def bnd_def rollback_def throw_def at_rest_def)
qed

definition settled_scope :: "settings \<Rightarrow> bootstrap_result \<Rightarrow> db \<Rightarrow> bool" where
  "settled_scope st r d \<longleftrightarrow> \<not> st_production st \<and>
     first_row (filter (\<lambda>t. tn_id t = st_tenant_id st) (tenants d)) = Some (br_tenant r) \<and>
     tn_name (br_tenant r) = st_tenant_name st \<and> tn_slug (br_tenant r) = st_tenant_slug st \<and>
     first_row (filter (\<lambda>w. ws_tenant_id w = tn_id (br_tenant r) \<and> ws_slug w = st_workspace_slug st)
       (workspaces d)) = Some (br_workspace r) \<and>
     ws_id (br_workspace r) = st_workspace_id st \<and> ws_name (br_workspace r) = st_workspace_name st \<and>
     settled_agent (tn_id (br_tenant r)) (ws_id (br_workspace r)) DEVELOPER_MANAGER
       (br_developer_manager r) (agent_definitions d) \<and>
     settled_agent (tn_id (br_tenant r)) (ws_id (br_workspace r)) DEVELOPER_WORKER
       (br_developer_worker r) (agent_definitions d) \<and>
     settled_agent (tn_id (br_tenant r)) (ws_id (br_workspace r)) QA_WORKER
       (br_qa_worker r) (agent_definitions d)"

lemma settles_insert_tenant:
  "constraints d \<Longrightarrow> t \<in> set (tenants d) \<Longrightarrow> tn_id t = tn_id r \<Longrightarrow> settles d (insert_tenant r) ()"
  unfolding insert_tenant_def by (intro settles_exec) (auto simp: list_ex_iff)

lemma settles_insert_workspace:
  "constraints d \<Longrightarrow> w \<in> set (workspaces d) \<Longrightarrow> ws_id w = ws_id r \<Longrightarrow> settles d (insert_workspace r) ()"
  unfolding insert_workspace_def by (intro settles_exec) (auto simp: list_ex_iff)

lemma settles_bootstrap:
  assumes c: "constraints d" and s: "settled_scope st r d"
  shows "settles d (run_bootstrap st) r"
proof -
  have tn: "br_tenant r \<in> set (tenants d)" "tn_id (br_tenant r) = st_tenant_id st"
    and ws: "br_workspace r \<in> set (workspaces d)"
    using s by (auto simp: settled_scope_def dest!: first_row_filter_Some)
  have "settles d (bootstrap_local_scope st) r"
    unfolding bootstrap_local_scope_def get_workspace_by_tenant_and_slug_def
    using s [unfolded settled_scope_def]
    by (intro settles_andthen [OF settles_only_if] settles_andthen [OF settles_insert_tenant [OF c tn(1)]]
        settles_andthen [OF settles_insert_workspace [OF c ws]]
        settles_bnd [OF settles_select_one] settles_bnd [OF settles_require]
        settles_bnd [OF settles_bootstrap_agent [where a = DEVELOPER_MANAGER and r = "br_developer_manager r"]]
        settles_bnd [OF settles_bootstrap_agent [where a = DEVELOPER_WORKER and r = "br_developer_worker r"]]
        settles_bnd [OF settles_bootstrap_agent [where a = QA_WORKER and r = "br_qa_worker r"]])
      (auto simp: tn intro!: settles_ret bootstrap_result.equality)
  then show ?thesis unfolding run_bootstrap_def
    by (intro settles_or_rollback settles_bnd [where a = r] settles_andthen [OF settles_commit]
        settles_ret refl)
qed

lemma bootstrap_runs:
  assumes run: "run_bootstrap st s = (Inr r, u)"
  shows "settled_scope st r (committed u) \<and> working u = committed u \<and>
    (\<exists>new. agent_definitions (committed u) = agent_definitions (working s) @ new \<and>
       (\<forall>x \<in> set new. ad_version x \<in> {1, 2}))"
proof -
  from run have "bnd (bootstrap_local_scope st) (\<lambda>r. andthen commit (ret r)) s = (Inr r, u)"
    by (auto simp: run_bootstrap_def catch_def andthen_def bnd_def rollback_def throw_def
        split: prod.splits sum.splits)
  then obtain s7 where scope: "bootstrap_local_scope st s = (Inr r, s7)" and c: "commit s7 = (Inr (), u)"
    by (auto simp: Inr_runs)
  from scope obtain s1 s2 tn s3 s4 ws dm s5 dw s6 qa where
    np: "\<not> st_production st" and
    t1: "insert_tenant \<lparr>tn_id = st_tenant_id st, tn_name = st_tenant_name st, tn_slug = st_tenant_slug st\<rparr> s
      = (Inr (), s1)" and
    t2: "select_one tenants (\<lambda>t. tn_id t = st_tenant_id st) s1 = (Inr (Some tn), s2)" and
    t3: "(tn_name tn, tn_slug tn) = (st_tenant_name st, st_tenant_slug st)" and
    w1: "insert_workspace \<lparr>ws_id = st_workspace_id st, ws_tenant_id = tn_id tn,
        ws_name = st_workspace_name st, ws_slug = st_workspace_slug st\<rparr> s2 = (Inr (), s3)" and
    w2: "get_workspace_by_tenant_and_slug (tn_id tn) (st_workspace_slug st) s3 = (Inr (Some ws), s4)" and
    w3: "(ws_id ws, ws_name ws) = (st_workspace_id st, st_workspace_name st)" and
    dm: "bootstrap_agent_definition (tn_id tn) (ws_id ws) DEVELOPER_MANAGER s4 = (Inr dm, s5)" and
    dw: "bootstrap_agent_definition (tn_id tn) (ws_id ws) DEVELOPER_WORKER s5 = (Inr dw, s6)" and
    qa: "bootstrap_agent_definition (tn_id tn) (ws_id ws) QA_WORKER s6 = (Inr qa, s7)" and
    r: "r = \<lparr>br_tenant = tn, br_workspace = ws, br_developer_manager = dm, br_developer_worker = dw,
       br_qa_worker = qa\<rparr>"
    unfolding bootstrap_local_scope_def by (auto simp: runs split: if_splits)
  have 1: "agent_definitions (working s4) = agent_definitions (working s)"
    "tenants (working s4) = tenants (working s1)" "workspaces (working s4) = workspaces (working s3)"
    "first_row (filter (\<lambda>t. tn_id t = st_tenant_id st) (tenants (working s1))) = Some tn"
    "first_row (filter (\<lambda>w. ws_tenant_id w = tn_id tn \<and> ws_slug w = st_workspace_slug st)
       (workspaces (working s3))) = Some ws"
    using t1 t2 w1 w2
    by (auto simp: insert_tenant_def insert_workspace_def select_one_def
        get_workspace_by_tenant_and_slug_def runs split: if_splits)
  obtain n1 n2 n3 where n:
    "agent_definitions (working s5) = agent_definitions (working s4) @ n1"
    "\<forall>x \<in> set n1. ad_slug x = ta_slug DEVELOPER_MANAGER \<and> ad_version x \<in> {1, 2}"
    "tenants (working s5) = tenants (working s4)" "workspaces (working s5) = workspaces (working s4)"
    "settled_agent (tn_id tn) (ws_id ws) DEVELOPER_MANAGER dm (agent_definitions (working s5))"
    "agent_definitions (working s6) = agent_definitions (working s5) @ n2"
    "\<forall>x \<in> set n2. ad_slug x = ta_slug DEVELOPER_WORKER \<and> ad_version x \<in> {1, 2}"
    "tenants (working s6) = tenants (working s5)" "workspaces (working s6) = workspaces (working s5)"
    "settled_agent (tn_id tn) (ws_id ws) DEVELOPER_WORKER dw (agent_definitions (working s6))"
    "agent_definitions (working s7) = agent_definitions (working s6) @ n3"
    "\<forall>x \<in> set n3. ad_slug x = ta_slug QA_WORKER \<and> ad_version x \<in> {1, 2}"
    "tenants (working s7) = tenants (working s6)" "workspaces (working s7) = workspaces (working s6)"
    "settled_agent (tn_id tn) (ws_id ws) QA_WORKER qa (agent_definitions (working s7))"
    using bootstrap_agent_runs [OF dm] bootstrap_agent_runs [OF dw] bootstrap_agent_runs [OF qa] by blast
  have slugs: "ta_slug DEVELOPER_MANAGER = ''developer_manager''" "ta_slug DEVELOPER_WORKER = ''developer_worker''"
    "ta_slug QA_WORKER = ''qa_worker''"
    by (simp_all add: DEVELOPER_MANAGER_def DEVELOPER_WORKER_def QA_WORKER_def)
  have o: "\<forall>x \<in> set (n2 @ n3). ad_slug x \<noteq> ta_slug DEVELOPER_MANAGER"
    "\<forall>x \<in> set n3. ad_slug x \<noteq> ta_slug DEVELOPER_WORKER"
    using n(7,12) slugs by auto
  have "settled_agent (tn_id tn) (ws_id ws) DEVELOPER_MANAGER dm (agent_definitions (working s7))"
    using n(5) settled_agent_append [OF o(1)] by (simp add: n(6,11))
  moreover have "settled_agent (tn_id tn) (ws_id ws) DEVELOPER_WORKER dw (agent_definitions (working s7))"
    using n(10) settled_agent_append [OF o(2)] by (simp add: n(11))
  ultimately have "settled_scope st r (working s7)"
    using np t3 w3 1 n by (simp add: settled_scope_def r)
  then show ?thesis using c n 1 by (intro conjI exI [of _ "n1 @ n2 @ n3"]) (auto simp: Inr_runs)
qed

section \<open>What a created plan has written\<close>

text \<open>The plan is new, and so are the rows of its steps, which name the agents of the request in its order.\<close>

definition plan_stored :: "uuid \<Rightarrow> uuid \<Rightarrow> uuid \<Rightarrow> plan_create \<Rightarrow> workflow_plan \<Rightarrow> db \<Rightarrow> db \<Rightarrow> bool" where
  "plan_stored t w k data plan d e \<longleftrightarrow>
     wp_tenant_id plan = t \<and> wp_workspace_id plan = w \<and> wp_task_id plan = k \<and>
     workflow_plans e = workflow_plans d @ [plan] \<and>
     (\<exists>rows. workflow_steps e = workflow_steps d @ rows \<and>
        map (\<lambda>r. (wt_workflow_plan_id r, wt_step_key r, wt_agent_definition_id r)) rows =
        map (\<lambda>i. (wp_id plan, sc_step_key i, sc_agent_definition_id i)) (pl_steps data))"

lemma rows_of_agents:
  "length us = length items \<Longrightarrow>
   map (\<lambda>r. (wt_workflow_plan_id r, wt_step_key r, wt_agent_definition_id r)) (rows_of p now items us) =
   map (\<lambda>i. (p, sc_step_key i, sc_agent_definition_id i)) items"
  by (intro nth_equalityI) (simp_all add: rows_of_nth step_row_def)

lemma lands_create_plan:
  "lands (\<lambda>x. x = d) (workflow_create_plan t w k data) (\<lambda>e. \<exists>plan. plan_stored t w k data plan d e)"
proof -
  let ?P = "\<lambda>plan x. wp_tenant_id plan = t \<and> wp_workspace_id plan = w \<and> wp_task_id plan = k \<and>
    x = add_plan plan d"
  let ?S = "\<lambda>plan x. plan_stored t w k data plan d x"
  have plan: "yields (\<lambda>x. x = d) (insert_plan t w k p v cr data) ?P" for p v cr
    by (auto simp: yields_def insert_plan_def runs Let_def add_plan_def)
  have rows: "yields (?P plan) (insert_steps (wp_id plan) (pl_steps data)) (\<lambda>_. ?S plan)" for plan
    unfolding yields_def
    by (auto dest!: insert_steps_runs simp: plan_stored_def add_plan_def add_steps_def rows_of_agents)
  have edges: "yields (?S plan) (transaction e (insert_dependencies es)) (\<lambda>_. ?S plan)" for plan e es
    by (rule yields_transaction)
      (auto simp: yields_def plan_stored_def add_dependencies_def dest!: insert_dependencies_runs)
  have audited: "yields (?S plan) (join_audit a) (\<lambda>_. ?S plan)" for plan a
    by (rule yields_join_audit) (simp add: plan_stored_def)
  have quiet_audit: "steps same_committed (join_audit a)" for a
    by (rule quiet.steps_join_audit) simp
  have "lands (\<lambda>x. x = d) (workflow_create_plan_rows t w k p v cr data action)
      (\<lambda>e. \<exists>plan. plan_stored t w k data plan d e)" for p v cr action
    unfolding workflow_create_plan_rows_def
    by (rule lands_reads [OF quiet.steps_lift_sum reads_lift_sum],
        rule lands_reads_then [OF quiet.steps_workflow_reads(13) reads_validate_assignments],
        rule lands_bnd [OF quiet_workflow_inserts(3) plan], rule lands_bnd [OF quiet_workflow_inserts(4) rows],
        rule lands_reads [OF quiet.steps_lift_sum reads_lift_sum],
        rule lands_andthen [OF quiet.steps_transaction [OF quiet_workflow_inserts(5)] edges],
        rule lands_andthen [OF quiet_audit audited], rule lands_commit [OF quiet.steps_refresh]) blast
  then show ?thesis
    unfolding workflow_create_plan_def
    by (intro lands_reads lands_reads_then lands_on_integrity_error quiet.steps_workflow_reads quiet.steps_rules
        reads_workflows reads_rules)
qed

lemma create_plan_stored:
  assumes "working s = committed s" and "workflow_create_plan t w k data s = (Inr plan, u)"
  shows "plan_stored t w k data plan (committed s) (committed u) \<and> working u = committed u"
proof -
  from create_plan_runs [OF assms] have "workflow_plans (committed u) = workflow_plans (committed s) @ [plan]"
    and u: "working u = committed u" by blast+
  moreover from landsD [OF lands_create_plan assms(2,1)]
  have "committed u = committed s \<or> (\<exists>p. plan_stored t w k data p (committed s) (committed u))" .
  ultimately show ?thesis by (auto simp: plan_stored_def)
qed

text \<open>The steps of the fixed plan, whatever agents it names.\<close>

lemma development_plan_steps:
  assumes "WorkflowPlanCreate (development_plan manager developer qa) = Some spec"
  shows "map (\<lambda>i. (sc_step_key i, sc_agent_definition_id i)) (pl_steps spec) =
    [(''manager_plan'', Some (ad_id manager)), (''developer_execute'', Some (ad_id developer)),
     (''qa_validate'', Some (ad_id qa))]"
  using assms
  by (auto simp: WorkflowPlanCreate_def WorkflowStepCreate_def development_plan_def development_step_def
      split: option.splits if_splits)

lemma development_plan_stored:
  assumes "WorkflowPlanCreate (development_plan manager developer qa) = Some spec"
    and "plan_stored t w k spec plan d e"
  shows "\<exists>rows. workflow_steps e = workflow_steps d @ rows \<and>
    map (\<lambda>r. (wt_workflow_plan_id r, wt_step_key r, wt_agent_definition_id r)) rows =
    [(wp_id plan, ''manager_plan'', Some (ad_id manager)),
     (wp_id plan, ''developer_execute'', Some (ad_id developer)),
     (wp_id plan, ''qa_validate'', Some (ad_id qa))]"
proof -
  have "map (\<lambda>i. (wp_id plan, sc_step_key i, sc_agent_definition_id i)) (pl_steps spec) =
      map (\<lambda>x. (wp_id plan, x)) (map (\<lambda>i. (sc_step_key i, sc_agent_definition_id i)) (pl_steps spec))"
    by simp
  also note development_plan_steps [OF assms(1)]
  finally show ?thesis using assms(2) by (auto simp: plan_stored_def)
qed

section \<open>The rest of the creation leaves the plan alone\<close>

definition plan_rows :: "db \<Rightarrow> workflow_plan list \<times> workflow_step list" where
  "plan_rows d = (workflow_plans d, workflow_steps d)"

interpretation same_plans: db_order "frozen plan_rows"
  by unfold_locales (auto simp: frozen_def)

definition start_development ::
  "uuid \<Rightarrow> uuid \<Rightarrow> development_create \<Rightarrow> workflow_plan \<Rightarrow> (workflow_plan \<times> workflow_run) prog" where
  "start_development tenant_id workspace_id data plan =
     bnd (workflow_create_run tenant_id workspace_id (wp_id plan)) (\<lambda>run.
     bnd (ordered_step_runs (wr_id run)) (\<lambda>ordered.
     bnd (first_step_run ordered) (\<lambda>manager_step_run.
     bnd (add_handoff (\<lambda>u. \<lparr>ho_id = u, ho_workflow_run_id = wr_id run, ho_workflow_plan_id = wp_id plan,
        ho_source_step_run_id = None, ho_destination_step_run_id = sr_id manager_step_run,
        ho_handoff_type = ''DEVELOPMENT_REQUEST'', ho_objective = dw_objective data,
        ho_acceptance_criteria = dw_acceptance_criteria data, ho_evidence_items = []\<rparr>)) (\<lambda>_.
     andthen commit (ret (plan, run))))))"

lemma start_development_keeps:
  assumes "start_development t w data plan s = (r, u)" and "working s = committed s"
  shows "plan_rows (committed u) = plan_rows (committed s)"
proof -
  have "steps (lift_order (frozen plan_rows)) (add_handoff f)" for f
    unfolding add_handoff_def Let_def
    by (intro same_plans.lifted.steps_rules same_plans.lifted.stmt_rules same_plans.lifted.steps_exec)
      (simp add: frozen_def plan_rows_def)
  then have "steps (lift_order (frozen plan_rows)) (start_development t w data plan)"
    unfolding start_development_def ordered_step_runs_def first_step_run_def
    by (intro same_plans.lifted.steps_rules same_plans.lifted.store_rules
        same_plans.lifted.steps_workflow_create_run) (simp_all add: frozen_def plan_rows_def add_workflow_run_def add_step_runs_def
          put_workflow_runs_def put_step_runs_def)
  from same_plans.lift_result [OF this, of s] assms show ?thesis by (simp add: frozen_def)
qed

lemma start_development_plan:
  "start_development t w data plan s = (Inr x, u) \<Longrightarrow> fst x = plan"
  by (auto simp: start_development_def Inr_runs)

lemma plan_stored_rows: "plan_rows e = plan_rows e' \<Longrightarrow> plan_stored t w k data plan d e = plan_stored t w k data plan d e'"
  by (simp add: plan_stored_def plan_rows_def)

text \<open>The current version of an agent: enabled, and in every field the definition the code names.\<close>

definition current_agent :: "uuid \<Rightarrow> uuid \<Rightarrow> trusted_agent \<Rightarrow> agent_definition \<Rightarrow> db \<Rightarrow> bool" where
  "current_agent t w a x d \<longleftrightarrow> latest_of t w (ta_slug a) True d = Some x \<and> ad_status x = ''ENABLED'' \<and>
     trusted_definition a x"

definition development_stored ::
  "uuid \<Rightarrow> uuid \<Rightarrow> uuid \<Rightarrow> uuid \<Rightarrow> workflow_plan \<Rightarrow> db \<Rightarrow> db \<Rightarrow> bool" where
  "development_stored t w p k plan d e \<longleftrightarrow> (p, k) \<in> set (task_scopes t w k d) \<and>
     (\<exists>manager developer qa. current_agent t w DEVELOPER_MANAGER manager d \<and>
        current_agent t w DEVELOPER_WORKER developer d \<and> current_agent t w QA_WORKER qa d \<and>
        wp_tenant_id plan = t \<and> wp_workspace_id plan = w \<and> wp_task_id plan = k \<and>
        workflow_plans e = workflow_plans d @ [plan] \<and>
        (\<exists>rows. workflow_steps e = workflow_steps d @ rows \<and>
           map (\<lambda>r. (wt_workflow_plan_id r, wt_step_key r, wt_agent_definition_id r)) rows =
           [(wp_id plan, ''manager_plan'', Some (ad_id manager)),
            (wp_id plan, ''developer_execute'', Some (ad_id developer)),
            (wp_id plan, ''qa_validate'', Some (ad_id qa))]))"

text \<open>The creation up to the plan: it reads, and goes on only over agents that are trusted.\<close>

lemma create_development_cases:
  assumes run: "create_development_workflow t w p k data s = (r, u)"
  obtains "committed u = committed s" "isl r"
  | manager developer qa spec s1 where "working s1 = working s" "committed s1 = committed s"
      "(p, k) \<in> set (task_scopes t w k (working s))"
      "current_agent t w DEVELOPER_MANAGER manager (working s)"
      "current_agent t w DEVELOPER_WORKER developer (working s)" "current_agent t w QA_WORKER qa (working s)"
      "WorkflowPlanCreate (development_plan manager developer qa) = Some spec"
      "bnd (workflow_create_plan t w k spec) (start_development t w data) s1 = (r, u)"
proof -
  let ?rest = "\<lambda>spec. bnd (workflow_create_plan t w k spec) (start_development t w data)"
  define head where "head = bnd (workflow_task_scope t w k) (\<lambda>scoped_project.
     andthen (only_if (scoped_project \<noteq> p) (throw not_found))
    (bnd (resolve_definition DEVELOPER_MANAGER t w) (\<lambda>manager.
     bnd (resolve_definition DEVELOPER_WORKER t w) (\<lambda>developer.
     bnd (resolve_definition QA_WORKER t w) (\<lambda>qa.
     andthen (only_if (\<not> (trusted_definition DEVELOPER_MANAGER manager \<and>
          trusted_definition DEVELOPER_WORKER developer \<and> trusted_definition QA_WORKER qa))
        (throw development_workflow_unavailable))
     (require ValidationError (WorkflowPlanCreate (development_plan manager developer qa))))))))"
  have eq: "create_development_workflow t w p k data = bnd head ?rest"
    unfolding create_development_workflow_def head_def start_development_def andthen_def bnd_assoc ..
  have reads: "reads head" unfolding head_def development_workflow_unavailable_def
    by (intro reads_rules reads_workflows reads_resolve)
  have quiet: "steps same_committed head"
    unfolding head_def resolve_definition_def latest_definition_def development_workflow_unavailable_def
    by (intro quiet.steps_rules quiet.stmt_rules quiet.steps_workflow_reads)
  obtain x s1 where h: "head s = (x, s1)" by (cases "head s")
  then have c: "committed s1 = committed s"
    using quiet by (auto simp: steps_def same_committed_def dest: spec [of _ s])
  show thesis
  proof (cases x)
    case (Inl e)
    with h run eq c that(1) show thesis by (auto simp: bnd_def)
  next
    case (Inr spec)
    from h [unfolded Inr head_def] obtain v s2 manager s3 developer s4 qa where
      sc: "workflow_task_scope t w k s = (Inr p, v)" and
      m: "resolve_definition DEVELOPER_MANAGER t w v = (Inr manager, s2)" and
      dv: "resolve_definition DEVELOPER_WORKER t w s2 = (Inr developer, s3)" and
      q: "resolve_definition QA_WORKER t w s3 = (Inr qa, s4)" and
      ok: "trusted_definition DEVELOPER_MANAGER manager" "trusted_definition DEVELOPER_WORKER developer"
        "trusted_definition QA_WORKER qa" and
      spec: "WorkflowPlanCreate (development_plan manager developer qa) = Some spec"
      by (auto simp: runs split: if_splits)
    have v: "working v = working s" by (rule readsD(1) [OF reads_workflows(2) sc])
    obtain k' where "(p, k') \<in> set (task_scopes t w k (working s))"
      using sc by (auto simp: workflow_task_scope_def get_task_scope_def runs split: if_splits dest!: first_row_in)
    then have "(p, k) \<in> set (task_scopes t w k (working s))" by (auto simp: task_scopes_def)
    moreover have "current_agent t w DEVELOPER_MANAGER manager (working s)"
      "current_agent t w DEVELOPER_WORKER developer (working s)" "current_agent t w QA_WORKER qa (working s)"
      using resolve_definition_runs [OF m] resolve_definition_runs [OF dv] resolve_definition_runs [OF q] ok v
      by (simp_all add: current_agent_def)
    moreover have "working s1 = working s" using readsD(1) [OF reads] h Inr by blast
    moreover have "bnd (workflow_create_plan t w k spec) (start_development t w data) s1 = (r, u)"
      using h run Inr by (simp add: eq bnd_def)
    ultimately show thesis using that(2) c spec by blast
  qed
qed

section \<open>Properties\<close>

text \<open>
  C30: Bootstrap is idempotent: once it has succeeded, running it again with the same settings
  changes nothing and returns the same rows, or fails with a database error.
\<close>
theorem bootstrap_idempotent:
  assumes "constraints (committed s)" and "working s = committed s"
    and "run_bootstrap st s = (Inr r, t)"
    and "working again = committed again" and "committed again = committed t"
  shows "case run_bootstrap st again of
      (Inl e, u) \<Rightarrow> e = SQLAlchemyError \<and> committed u = committed t
    | (Inr r', u) \<Rightarrow> r' = r \<and> committed u = committed t"
proof -
  have "steps keeps_data_ok (run_bootstrap st)" by (intro data.steps_run_bootstrap TrueI)
  with assms(1-3) have "data_ok t"
    by (auto simp: steps_def keeps_data_ok_def data_ok_def dest: spec [of _ s])
  then have "constraints (committed t)" by (simp add: data_ok_def)
  with bootstrap_runs [OF assms(3)] have "settles (committed t) (run_bootstrap st) r"
    by (blast intro: settles_bootstrap)
  moreover have "at_rest (committed t) again" using assms(4,5) by (simp add: at_rest_def)
  ultimately show ?thesis
    by (cases "run_bootstrap st again"; cases "fst (run_bootstrap st again)")
      (auto dest!: settlesD simp: at_rest_def)
qed

lemma create_development_workflow_agents:
  assumes "create_development_workflow t w p k data s = (Inr x, u)" and "a \<in> {DEVELOPER_MANAGER, DEVELOPER_WORKER, QA_WORKER}"
  shows "\<exists>d. latest_of t w (ta_slug a) True (working s) = Some d \<and> ad_status d = ''ENABLED'' \<and> trusted_definition a d"
  using assms(1)
proof (cases rule: create_development_cases)
  case (2 manager developer qa spec s1)
  with assms(2) show ?thesis by (auto simp: current_agent_def)
qed simp

text \<open>
  C31: On a store that bootstrap has set up, and where no version 3 of the Developer Worker was put
  by other means, the development workflow cannot be created: bootstrap stores version 1 or 2 of
  the Developer Worker, the workflow trusts version 3 alone.
\<close>
theorem bootstrap_leaves_no_development_workflow:
  assumes "working s = committed s" and "run_bootstrap st s = (Inr r, t)"
    and "\<forall>d \<in> set (agent_definitions (committed s)). ad_slug d = ''developer_worker'' \<longrightarrow> ad_version d \<noteq> 3"
    and "working later = committed t"
  shows "case create_development_workflow tenant_id workspace_id project_id task_id data later of
      (Inl e, u) \<Rightarrow> True | (Inr x, u) \<Rightarrow> False"
proof (cases "create_development_workflow tenant_id workspace_id project_id task_id data later")
  case (Pair x u)
  show ?thesis
  proof (cases x)
    case (Inr y)
    with Pair create_development_workflow_agents [of tenant_id workspace_id project_id task_id data later y u
        DEVELOPER_WORKER]
    obtain d where "latest_of tenant_id workspace_id ''developer_worker'' True (working later) = Some d"
      and v: "ad_version d = 3"
      by (auto simp: trusted_definition_def DEVELOPER_WORKER_def)
    then have "d \<in> set (agent_definitions (committed t))" "ad_slug d = ''developer_worker''"
      using assms(4) by (auto simp: same_role_def dest!: latest_of_Some)
    with bootstrap_runs [OF assms(2)] v assms(1,3) have False by fastforce
    then show ?thesis ..
  qed (use Pair in simp)
qed

text \<open>
  C29: The development workflow runs trusted agents only. However its creation ends, the durable data are
  as before, or the task belongs to the given project, the current versions of the three agents were
  enabled and agreed with the constants of the code in every field, and exactly one plan of the task was
  stored, with exactly the three steps of the workflow, each assigned to its agent. If the creation
  returns, that plan is the one it returns.
\<close>
theorem development_workflow_trusted:
  assumes "working s = committed s"
  shows "case create_development_workflow tenant_id workspace_id project_id task_id data s of
      (Inl e, u) \<Rightarrow> committed u = committed s \<or>
        (\<exists>plan. development_stored tenant_id workspace_id project_id task_id plan (committed s) (committed u))
    | (Inr x, u) \<Rightarrow>
        development_stored tenant_id workspace_id project_id task_id (fst x) (committed s) (committed u)"
proof -
  obtain r u where run: "create_development_workflow tenant_id workspace_id project_id task_id data s = (r, u)"
    by (cases "create_development_workflow tenant_id workspace_id project_id task_id data s")
  from run show ?thesis
  proof (cases rule: create_development_cases)
    case (2 manager developer qa spec s1)
    obtain x s2 where plan: "workflow_create_plan tenant_id workspace_id task_id spec s1 = (x, s2)"
      by (cases "workflow_create_plan tenant_id workspace_id task_id spec s1")
    have stored: "development_stored tenant_id workspace_id project_id task_id plan (committed s) e"
      if "plan_stored tenant_id workspace_id task_id spec plan (committed s) e" for plan e
      unfolding development_stored_def
      by (intro conjI, use 2(3) assms in simp, rule exI [of _ manager], rule exI [of _ developer], rule exI [of _ qa])
        (use that 2(4-6) assms development_plan_stored [OF 2(7) that] in \<open>simp add: plan_stored_def\<close>)
    show ?thesis
    proof (cases x)
      case (Inl e)
      with plan 2(8) have "r = Inl e" "u = s2" by (simp_all add: bnd_def)
      moreover from landsD [OF lands_create_plan plan] 2(1,2) assms
      have "committed s2 = committed s \<or> (\<exists>p. plan_stored tenant_id workspace_id task_id spec p (committed s) (committed s2))"
        by simp
      ultimately show ?thesis using stored run by auto
    next
      case (Inr q)
      with plan 2(8) have rest: "start_development tenant_id workspace_id data q s2 = (r, u)" by (simp add: bnd_def)
      have "plan_stored tenant_id workspace_id task_id spec q (committed s) (committed s2)" "working s2 = committed s2"
        using create_plan_stored [of s1 tenant_id workspace_id task_id spec q s2] plan Inr 2(1,2) assms by simp_all
      with start_development_keeps [OF rest] plan_stored_rows
      have "plan_stored tenant_id workspace_id task_id spec q (committed s) (committed u)" by metis
      then have "development_stored tenant_id workspace_id project_id task_id q (committed s) (committed u)"
        by (rule stored)
      with start_development_plan rest run show ?thesis by (cases r) auto
    qed
  qed (use run in \<open>cases r; simp\<close>)
qed

lemma worker_permissions_unsorted: "\<not> sorted (ta_permissions DEVELOPER_WORKER)"
  by code_simp

text \<open>What storing a definition has added: one row, with the permissions of the request.\<close>

definition definition_added :: "definition_fields \<Rightarrow> db \<Rightarrow> db \<Rightarrow> bool" where
  "definition_added data d e \<longleftrightarrow> (\<exists>r. ad_permissions r = df_permissions data \<and>
     agent_definitions e = agent_definitions d @ [r])"

lemma lands_definition_rows:
  "lands (\<lambda>x. x = d) (bnd (agent_repository_create_definition t w slug v data) (\<lambda>row.
     andthen (join_audit (a row)) (andthen commit (refresh agent_definitions ad_id row)))) (definition_added data d)"
proof -
  have stored: "yields (\<lambda>x. x = d) (agent_repository_create_definition t w slug v data) (\<lambda>_. definition_added data d)"
    by (auto simp: yields_def agent_repository_create_definition_def runs Let_def definition_added_def)
  have audited: "yields (definition_added data d) (join_audit b) (\<lambda>_. definition_added data d)" for b
    by (rule yields_join_audit) (simp add: definition_added_def)
  show ?thesis
    by (rule lands_bnd [OF quiet.steps_agent_repository_create_definition [OF TrueI] stored],
        rule lands_andthen [OF quiet.steps_join_audit [OF TrueI] audited],
        rule lands_commit [OF quiet.steps_refresh])
qed

lemma lands_agent_definitions:
  "lands (\<lambda>x. x = d) (agent_create_definition t w slug data) (definition_added data d)"
  "lands (\<lambda>x. x = d) (agent_create_version t w i data) (definition_added data d)"
  unfolding agent_create_definition_def agent_create_version_def latest_definition_def
    repository_get_definition_def agent_slug_exists_def
  by (intro lands_reads lands_reads_then lands_on_integrity_error lands_definition_rows quiet.steps_rules
      quiet.stmt_rules quiet.steps_scopes quiet.steps_agent_scope reads_rules reads_scopes reads_agent_scope)+

text \<open>
  C32: No definition that came through the API is the trusted Developer Worker. Both ways to store one,
  creating a definition and creating a version of one, leave the trusted definitions of the Developer
  Worker in the durable data as they were, however they end: the contract sorts the permissions, and the
  trusted list is not sorted.
\<close>
theorem api_definition_never_trusted_worker:
  assumes "DefinitionFields submitted = Some data" and "working s = committed s"
    and "u \<in> {snd (agent_create_definition tenant_id workspace_id slug data s),
      snd (agent_create_version tenant_id workspace_id definition_id data s)}"
  shows "filter (trusted_definition DEVELOPER_WORKER) (agent_definitions (committed u)) =
    filter (trusted_definition DEVELOPER_WORKER) (agent_definitions (committed s))"
proof -
  have "sorted (df_permissions data)"
    using assms(1) items_field_stable [OF _ SOURCE_PATTERN_chars no_empty_identifier(2)]
    by (auto simp: DefinitionFields_def split: option.splits)
  then have "df_permissions data \<noteq> ta_permissions DEVELOPER_WORKER"
    using worker_permissions_unsorted by auto
  moreover have "committed u = committed s \<or> definition_added data (committed s) (committed u)"
    using assms(2,3) landsD [OF lands_agent_definitions(1)] landsD [OF lands_agent_definitions(2)]
    by (metis insertE prod.collapse singletonD)
  ultimately show ?thesis by (auto simp: definition_added_def trusted_definition_def)
qed

section \<open>Concrete instances\<close>

definition sample_settings :: settings where
  "sample_settings = \<lparr>st_production = False, st_tenant_id = 1, st_tenant_name = ''Local'',
     st_tenant_slug = ''local'', st_workspace_id = 2, st_workspace_name = ''Main'',
     st_workspace_slug = ''main''\<rparr>"

definition booted :: session where
  "booted = snd (run_bootstrap sample_settings (sample_session empty_db))"

definition boot_result :: bootstrap_result where
  "boot_result = projr (fst (run_bootstrap sample_settings (sample_session empty_db)))"

lemma booted_run: "run_bootstrap sample_settings (sample_session empty_db) = (Inr boot_result, booted)"
proof -
  have "\<not> isl (fst (run_bootstrap sample_settings (sample_session empty_db)))" by code_simp
  then show ?thesis by (simp add: booted_def boot_result_def prod_eq_iff)
qed

lemma booted_at_rest: "working booted = committed booted"
  using bootstrap_runs [OF booted_run] by simp

theorem bootstrap_idempotent_witness:
  "case run_bootstrap sample_settings booted of
     (Inl e, u) \<Rightarrow> e = SQLAlchemyError \<and> committed u = committed booted
   | (Inr r, u) \<Rightarrow> r = boot_result \<and> committed u = committed booted"
  by (rule bootstrap_idempotent [OF _ _ booted_run]) (simp_all add: booted_at_rest constraints_empty)

theorem bootstrap_leaves_no_development_workflow_witness:
  "case create_development_workflow 1 2 3 4 \<lparr>dw_objective = ''Ship'', dw_acceptance_criteria = [''Works'']\<rparr> booted of
     (Inl e, u) \<Rightarrow> True | (Inr x, u) \<Rightarrow> False"
  by (rule bootstrap_leaves_no_development_workflow [OF _ booted_run])
    (simp_all add: booted_at_rest empty_db_def)

definition trusted_row :: "trusted_agent \<Rightarrow> uuid \<Rightarrow> agent_definition" where
  "trusted_row a i = \<lparr>ad_id = i, ad_tenant_id = 1, ad_workspace_id = 2, ad_name = ta_name a,
     ad_slug = ta_slug a, ad_version = ta_version a, ad_status = ''ENABLED'',
     ad_category = Some (ta_category a), ad_mission = ta_mission a,
     ad_capabilities = ta_capabilities a, ad_permissions = ta_permissions a, ad_created_at = 0\<rparr>"

definition trusted_db :: db where
  "trusted_db = sample_db\<lparr>agent_definitions :=
     [trusted_row DEVELOPER_MANAGER 21, trusted_row DEVELOPER_WORKER 22, trusted_row QA_WORKER 23]\<rparr>"

theorem development_workflow_trusted_witness:
  "case create_development_workflow 1 2 3 4 \<lparr>dw_objective = ''Ship'', dw_acceptance_criteria = [''Works'']\<rparr>
      (sample_session trusted_db) of
     (Inl e, u) \<Rightarrow> False
   | (Inr x, u) \<Rightarrow> map wt_agent_definition_id (workflow_steps (committed u)) = [Some 21, Some 22, Some 23] \<and>
       workflow_plans (committed u) = [fst x]"
proof -
  let ?run = "create_development_workflow 1 2 3 4 \<lparr>dw_objective = ''Ship'', dw_acceptance_criteria = [''Works'']\<rparr>
    (sample_session trusted_db)"
  have "\<not> isl (fst ?run)" by code_simp
  then obtain x u where run: "?run = (Inr x, u)" by (cases ?run; cases "fst ?run") auto
  have agents: "latest_of 1 2 ''developer_manager'' True trusted_db = Some (trusted_row DEVELOPER_MANAGER 21)"
    "latest_of 1 2 ''developer_worker'' True trusted_db = Some (trusted_row DEVELOPER_WORKER 22)"
    "latest_of 1 2 ''qa_worker'' True trusted_db = Some (trusted_row QA_WORKER 23)"
    by code_simp+
  have slugs: "ta_slug DEVELOPER_MANAGER = ''developer_manager''" "ta_slug DEVELOPER_WORKER = ''developer_worker''"
    "ta_slug QA_WORKER = ''qa_worker''"
    by (simp_all add: DEVELOPER_MANAGER_def DEVELOPER_WORKER_def QA_WORKER_def)
  have ids: "ad_id (trusted_row a i) = i" for a i by (simp add: trusted_row_def)
  have none: "workflow_plans trusted_db = []" "workflow_steps trusted_db = []"
    by (simp_all add: trusted_db_def sample_db_def empty_db_def)
  from development_workflow_trusted [where s = "sample_session trusted_db" and tenant_id = 1
      and workspace_id = 2 and project_id = 3 and task_id = 4
      and data = "\<lparr>dw_objective = ''Ship'', dw_acceptance_criteria = [''Works'']\<rparr>"]
  have "development_stored 1 2 3 4 (fst x) trusted_db (committed u)" by (simp add: run del: One_nat_def)
  with run show ?thesis
    by (auto simp: development_stored_def current_agent_def slugs agents ids none map_eq_Cons_conv simp del: One_nat_def)
qed

theorem api_definition_never_trusted_worker_witness:
  "filter (trusted_definition DEVELOPER_WORKER) (agent_definitions (committed
     (snd (agent_create_definition 1 2 ''developer_worker'' sample_fields (sample_session trusted_db))))) =
   [trusted_row DEVELOPER_WORKER 22]"
proof -
  have "DefinitionFields sample_fields = Some sample_fields" by code_simp
  moreover have "filter (trusted_definition DEVELOPER_WORKER) (agent_definitions trusted_db) = [trusted_row DEVELOPER_WORKER 22]"
    by code_simp
  ultimately show ?thesis
    using api_definition_never_trusted_worker [where submitted = sample_fields and data = sample_fields
        and s = "sample_session trusted_db" and tenant_id = 1 and workspace_id = 2 and slug = "''developer_worker''"]
    by simp
qed

end
