(* ===== verification/Requests.thy ===== *)
theory Requests
  imports Model_Usage Projects_Tasks Approvals Tool_Gateway Development Memories
begin

text \<open>
  The requests a deployment serves, one after the other: every operation of the services that
  changes state, the writes they make, and what any number of them leaves.
\<close>

section \<open>Operations and the stores they reach\<close>

datatype operation =
    Bootstrap settings
  | Create_project uuid uuid project_create
  | Update_project uuid uuid uuid project_update
  | Delete_project uuid uuid uuid
  | Create_task uuid uuid uuid task_create
  | Update_task uuid uuid uuid uuid task_update
  | Delete_task uuid uuid uuid uuid
  | Append_audit audit_create "instant option"
  | Append_event event_create "instant option"
  | Create_rule rule_create
  | Create_approval uuid uuid approval_create
  | Approve uuid uuid uuid
  | Reject uuid uuid uuid
  | Create_definition uuid uuid pystr definition_fields
  | Create_definition_version uuid uuid uuid definition_fields
  | Create_agent_run uuid uuid agent_run_create
  | Start_agent_run uuid uuid uuid
  | Succeed_agent_run uuid uuid uuid
  | Suspend_agent_run uuid uuid uuid
  | Resume_agent_run uuid uuid uuid
  | Fail_agent_run uuid uuid uuid pystr
  | Fail_waiting_agent_run uuid uuid uuid pystr
  | Cancel_agent_run uuid uuid uuid
  | Create_plan uuid uuid uuid plan_create
  | Create_plan_version uuid uuid uuid uuid plan_create pystr
  | Create_development_workflow uuid uuid uuid uuid development_create
  | Create_workflow_run uuid uuid uuid
  | Start_workflow_run uuid uuid uuid
  | Complete_workflow_run uuid uuid uuid
  | Fail_workflow_run uuid uuid uuid pystr
  | Cancel_workflow_run uuid uuid uuid
  | Transition_step uuid uuid uuid uuid step_run_status step_run_status "pystr option"
  | Link_agent_run uuid uuid uuid uuid uuid
  | Execute_tool uuid uuid uuid tool_proposal "pystr list" "uuid option" "uuid option"
  | Resume_mutation uuid uuid uuid
  | Reject_mutation uuid uuid uuid
  | Refresh_provider uuid uuid pystr "catalog_source list" "(pystr \<times> pystr) set"
  | Start_model_run uuid uuid model_run_start
  | Diagnose_model_run uuid uuid uuid execution_diagnostics
  | Mark_model_run_succeeded uuid uuid uuid generation_result pystr
  | Mark_model_run_failed uuid uuid uuid provider_failure
  | Cancel_model_run uuid uuid uuid
  | Create_memory uuid uuid memory_create

text \<open>The answer of an operation plays no part in what follows.\<close>

definition answered :: "'a prog \<Rightarrow> unit prog" where
  "answered m = bnd m (\<lambda>_. ret ())"

fun serve :: "operation \<Rightarrow> unit prog" where
  "serve (Bootstrap st) = answered (run_bootstrap st)"
| "serve (Create_project t w data) = answered (create_project t w data)"
| "serve (Update_project t w p data) = answered (update_project t w p data)"
| "serve (Delete_project t w p) = delete_project t w p"
| "serve (Create_task t w p data) = answered (create_task t w p data)"
| "serve (Update_task t w p k data) = answered (update_task t w p k data)"
| "serve (Delete_task t w p k) = delete_task t w p k"
| "serve (Append_audit data occurred) = answered (append_record data occurred True)"
| "serve (Append_event data occurred) = answered (append_event data occurred True)"
| "serve (Create_rule data) = answered (create_rule data)"
| "serve (Create_approval t w data) = answered (create_approval t w data True)"
| "serve (Approve t w a) = answered (approve t w a)"
| "serve (Reject t w a) = answered (reject t w a)"
| "serve (Create_definition t w slug data) = answered (agent_create_definition t w slug data)"
| "serve (Create_definition_version t w i data) = answered (agent_create_version t w i data)"
| "serve (Create_agent_run t w data) = answered (agent_create_run t w data)"
| "serve (Start_agent_run t w i) = answered (agent_start_run t w i)"
| "serve (Succeed_agent_run t w i) = answered (agent_succeed_run t w i)"
| "serve (Suspend_agent_run t w i) = answered (agent_suspend_run t w i)"
| "serve (Resume_agent_run t w i) = answered (agent_resume_run t w i)"
| "serve (Fail_agent_run t w i c) = answered (agent_fail_run t w i c)"
| "serve (Fail_waiting_agent_run t w i c) = answered (agent_fail_waiting_run t w i c)"
| "serve (Cancel_agent_run t w i) = answered (agent_cancel_run t w i)"
| "serve (Create_plan t w k data) = answered (workflow_create_plan t w k data)"
| "serve (Create_plan_version t w k i data cr) = answered (workflow_create_version t w k i data cr)"
| "serve (Create_development_workflow t w p k data) = answered (create_development_workflow t w p k data)"
| "serve (Create_workflow_run t w i) = answered (workflow_create_run t w i)"
| "serve (Start_workflow_run t w i) = answered (workflow_start_run t w i)"
| "serve (Complete_workflow_run t w i) = answered (workflow_complete_run t w i)"
| "serve (Fail_workflow_run t w i c) = answered (workflow_fail_run t w i c)"
| "serve (Cancel_workflow_run t w i) = answered (workflow_cancel_run t w i)"
| "serve (Transition_step t w i j expected target c) =
     answered (workflow_transition_step t w i j expected target c)"
| "serve (Link_agent_run t w i j a) = answered (workflow_link_agent_run t w i j a)"
| "serve (Execute_tool t w i proposal permitted m a) = answered (execute_proposal t w i proposal permitted m a)"
| "serve (Resume_mutation t w a) = answered (resume_prepared_mutation t w a)"
| "serve (Reject_mutation t w a) = answered (reject_prepared_mutation t w a)"
| "serve (Refresh_provider t w p sources allow) = answered (refresh_provider t w p sources allow)"
| "serve (Start_model_run t w data) = answered (start_run t w data)"
| "serve (Diagnose_model_run t w i data) = answered (set_execution_diagnostics t w i data)"
| "serve (Mark_model_run_succeeded t w i result tr) = answered (mark_succeeded t w i result tr)"
| "serve (Mark_model_run_failed t w i failure) = answered (mark_failed t w i failure)"
| "serve (Cancel_model_run t w i) = answered (cancel_model_run t w i)"
| "serve (Create_memory t w data) = answered (create_memory t w data)"

text \<open>
  A request runs on a session of its own that starts on the durable data; whatever the statements
  do, however it ends, what it leaves durable is the store of the next request.
\<close>

inductive reaches :: "db \<Rightarrow> db \<Rightarrow> bool" for start where
  start: "reaches start start"
| serve: "reaches start d \<Longrightarrow> working s = d \<Longrightarrow> committed s = d \<Longrightarrow>
    reaches start (committed (snd (serve op s)))"

section \<open>The writes\<close>

inductive db_write :: "db \<Rightarrow> db \<Rightarrow> bool" where
  "db_write d (d\<lparr>audit_records := audit_records d @ [au]\<rparr>)"
| "db_write d (d\<lparr>runtime_events := runtime_events d @ [ev]\<rparr>)"
| "scope_edit d e \<Longrightarrow> db_write d e"
| "db_write d (d\<lparr>tenants := tenants d @ tn\<rparr>)"
| "db_write d (d\<lparr>workspaces := workspaces d @ ws\<rparr>)"
| "db_write d (d\<lparr>policy_rules := policy_rules d @ [pr]\<rparr>)"
| "db_write d (d\<lparr>approval_requests := approval_requests d @ [ap]\<rparr>)"
| "target \<in> {APPROVED, REJECTED} \<Longrightarrow> db_write d (d\<lparr>approval_requests :=
     update_where (pending_approval i) (decided_row (approval_status_value target) now) (approval_requests d)\<rparr>)"
| "db_write d (add_definition ad d)"
| "db_write d (put_agent_runs (agent_runs d @ [ar]) d)"
| "(agent_from, agent_to) \<in> agent_edges \<Longrightarrow> db_write d (move_agent_run t w i agent_from agent_to fc now d)"
| "db_write d (add_plan wp d)"
| "db_write d (add_steps wts d)"
| "db_write d (add_dependencies sds d)"
| "db_write d (add_workflow_run wr d)"
| "db_write d (add_step_runs srs d)"
| "(run_from, run_to) \<in> run_edges \<Longrightarrow> db_write d (move_workflow_run t w i run_from run_to fc now d)"
| "(step_from, step_to) \<in> set step_edges \<Longrightarrow>
    db_write d (move_step_run i j step_from (step_values step_from step_to fc now) d)"
| "db_write d (move_step_run i j PENDING (ready_values now) d)"
| "db_write d (link_step_run j a now d)"
| "db_write d (d\<lparr>step_handoffs := step_handoffs d @ [ho]\<rparr>)"
| "db_write d (d\<lparr>tool_calls := tool_calls d @ [tc]\<rparr>)"
| "db_write d (move_tool_call i cs d)"
| "catalog_edit d e \<Longrightarrow> db_write d e"
| "db_write d (put_model_runs (model_runs d @ [mr]) d)"
| "model_move f \<Longrightarrow> db_write d (move_model_run t w i f d)"
| "db_write d (d\<lparr>memory_records := memory_records d @ [me]\<rparr>)"
| "db_write d (d\<lparr>memory_sources := memory_sources d @ mos\<rparr>)"

lemmas db_write_intros = db_write.intros

context store_order
begin

lemma steps_answered: "steps R m \<Longrightarrow> steps R (answered m)"
  unfolding answered_def by (intro steps_rules)

lemma steps_create_rule:
  "(\<And>d r. W d (d\<lparr>policy_rules := policy_rules d @ [r]\<rparr>)) \<Longrightarrow> steps R (create_rule data)"
  unfolding create_rule_def tenant_exists_def repository_create_rule_def Let_def
  by (intro steps_rules store_rules steps_scopes steps_exec) simp

text \<open>The four operations that delete nothing write no more than a project or task and the logs.\<close>

lemma steps_projects_tasks_kept:
  assumes "\<And>d r. W d (d\<lparr>audit_records := audit_records d @ [r]\<rparr>)"
    and "\<And>d r. W d (d\<lparr>runtime_events := runtime_events d @ [r]\<rparr>)"
    and "\<And>d ps. W d (d\<lparr>projects := ps\<rparr>)" and "\<And>d ts. W d (d\<lparr>tasks := ts\<rparr>)"
  shows "steps R (create_project t w pc)" "steps R (update_project t w p pu)"
    "steps R (create_task t w p tc)" "steps R (update_task t w p k tu)"
proof -
  have repo: "steps R (repository_create_project w pc)" "steps R (repository_update_project w p pu)"
    "steps R (repository_create_task p tc)" "steps R (repository_update_task p k tu)"
    unfolding repository_create_project_def repository_update_project_def repository_create_task_def
      repository_update_task_def Let_def
    by (intro steps_rules stmt_rules steps_exec; simp add: assms)+
  show "steps R (create_project t w pc)" "steps R (update_project t w p pu)"
    "steps R (create_task t w p tc)" "steps R (update_task t w p k tu)"
    unfolding create_project_def update_project_def create_task_def update_task_def task_require_scope_def
    by (intro steps_rules store_rules steps_scopes steps_join_audit steps_join_event repo assms)+
qed

end

context workspace_order
begin

lemma steps_serve:
  assumes w: "\<And>d e. db_write d e \<Longrightarrow> W d e"
  shows "steps R (serve op)"
  by (cases op; simp only: serve.simps approve_def reject_def)
    (intro steps_answered steps_run_bootstrap steps_projects_tasks steps_append_record steps_append_event
      steps_create_rule steps_create_approval steps_decide
      steps_agent_definitions steps_agent_create_run steps_agent_moves steps_workflow_plans
      steps_create_development_workflow steps_workflow_create_run steps_workflow_moves
      steps_workflow_cancel_run steps_workflow_transition_step steps_workflow_link_agent_run
      steps_execute_proposal steps_gateway_calls steps_refresh_provider steps_start_run steps_model_moves steps_create_memory
      w db_write_intros; simp)+

end

lemmas write_defs = add_definition_def put_agent_runs_def add_plan_def add_steps_def add_dependencies_def
  add_workflow_run_def put_workflow_runs_def add_step_runs_def put_step_runs_def move_agent_run_def
  put_model_runs_def move_model_run_def
  move_workflow_run_def move_step_run_def link_step_run_def

text \<open>The requests that delete no project and no task only ever add to the logs.\<close>

definition grows_logs :: "db \<Rightarrow> db \<Rightarrow> bool" where
  "grows_logs d e \<longleftrightarrow> prefix (audit_records d) (audit_records e) \<and>
     prefix (runtime_events d) (runtime_events e) \<and> prefix (memory_records d) (memory_records e)"

interpretation logs: db_order grows_logs
  by unfold_locales (auto simp: grows_logs_def dest: prefix_order.trans)

definition kept_write :: "db \<Rightarrow> db \<Rightarrow> bool" where
  "kept_write d e \<longleftrightarrow> db_write d e \<and> grows_logs d e"

lemmas plain_writes = db_write.intros(1,2,4-23,25-28)

lemma catalog_logs: "grows_logs d (put_models ms d)"
  by (simp add: grows_logs_def put_models_def)

lemma kept_writes:
  "kept_write d (d\<lparr>audit_records := audit_records d @ [au]\<rparr>)"
  "kept_write d (d\<lparr>runtime_events := runtime_events d @ [ev]\<rparr>)"
  "kept_write d (d\<lparr>tenants := tenants d @ tn\<rparr>)"
  "kept_write d (d\<lparr>workspaces := workspaces d @ ws\<rparr>)"
  "kept_write d (d\<lparr>policy_rules := policy_rules d @ [pr]\<rparr>)"
  "kept_write d (d\<lparr>approval_requests := approval_requests d @ [ap]\<rparr>)"
  "target \<in> {APPROVED, REJECTED} \<Longrightarrow> kept_write d (d\<lparr>approval_requests :=
    update_where (pending_approval i) (decided_row (approval_status_value target) now) (approval_requests d)\<rparr>)"
  "kept_write d (add_definition ad d)"
  "kept_write d (put_agent_runs (agent_runs d @ [ar]) d)"
  "(agent_from, agent_to) \<in> agent_edges \<Longrightarrow> kept_write d (move_agent_run t w i
    agent_from agent_to fc now d)"
  "kept_write d (add_plan wp d)"
  "kept_write d (add_steps wts d)"
  "kept_write d (add_dependencies sds d)"
  "kept_write d (add_workflow_run wr d)"
  "kept_write d (add_step_runs srs d)"
  "(run_from, run_to) \<in> run_edges \<Longrightarrow> kept_write d (move_workflow_run t w i run_from
    run_to fc now d)"
  "(step_from, step_to) \<in> set step_edges \<Longrightarrow> kept_write d (move_step_run i j step_from
    (step_values step_from step_to fc now) d)"
  "kept_write d (move_step_run i j PENDING (ready_values now) d)"
  "kept_write d (link_step_run j a now d)"
  "kept_write d (d\<lparr>step_handoffs := step_handoffs d @ [ho]\<rparr>)"
  "kept_write d (d\<lparr>tool_calls := tool_calls d @ [tc]\<rparr>)"
  "kept_write d (move_tool_call i cs d)"
  "kept_write d (put_model_runs (model_runs d @ [mr]) d)"
  "model_move f \<Longrightarrow> kept_write d (move_model_run t w i f d)"
  "kept_write d (d\<lparr>memory_records := memory_records d @ [me]\<rparr>)"
  "kept_write d (d\<lparr>memory_sources := memory_sources d @ mos\<rparr>)"
  unfolding kept_write_def
  by (intro conjI plain_writes; simp add: grows_logs_def write_defs move_tool_call_def put_tool_calls_def)+

lemma kept_edits:
  "kept_write d (d\<lparr>projects := ps\<rparr>)" "kept_write d (d\<lparr>tasks := ts\<rparr>)"
  "catalog_edit d e \<Longrightarrow> kept_write d e"
proof -
  show "kept_write d (d\<lparr>projects := ps\<rparr>)" "kept_write d (d\<lparr>tasks := ts\<rparr>)"
    by (simp_all add: kept_write_def grows_logs_def db_write.intros(3) scope_edit_rows)
  assume c: "catalog_edit d e"
  then have "e = put_models (model_definitions e) d" by (simp add: catalog_edit_def)
  then have "grows_logs d e" by (metis (no_types, lifting) catalog_logs)
  with c show "kept_write d e" by (simp add: kept_write_def db_write.intros(24))
qed

definition deletes_scope :: "operation \<Rightarrow> bool" where
  "deletes_scope op = (case op of Delete_project t w p \<Rightarrow> True | Delete_task t w p k \<Rightarrow> True | _ \<Rightarrow> False)"

context workspace_order
begin

lemma steps_serve_kept:
  assumes w: "\<And>d e. kept_write d e \<Longrightarrow> W d e" and "\<not> deletes_scope op"
  shows "steps R (serve op)"
  using assms(2)
  by (cases op; simp only: serve.simps approve_def reject_def deletes_scope_def operation.case simp_thms)
    (intro steps_answered steps_run_bootstrap steps_projects_tasks_kept steps_append_record steps_append_event
      steps_create_rule steps_create_approval steps_decide
      steps_agent_definitions steps_agent_create_run steps_agent_moves steps_workflow_plans
      steps_create_development_workflow steps_workflow_create_run steps_workflow_moves
      steps_workflow_cancel_run steps_workflow_transition_step steps_workflow_link_agent_run
      steps_execute_proposal steps_gateway_calls steps_refresh_provider steps_start_run steps_model_moves steps_create_memory
      w kept_writes kept_edits(1,2) kept_edits(3); simp)+

end

section \<open>What every request leaves in place\<close>

text \<open>
  The rows of a step run keep their identity, and a finished one keeps its outcome (the link to its
  agent run may still be set).
\<close>

definition step_kept :: "workflow_step_run \<Rightarrow> workflow_step_run \<Rightarrow> bool" where
  "step_kept r s \<longleftrightarrow> same_step r s \<and> (step_final r \<longrightarrow> step_outcome s = step_outcome r)"

interpretation step_rows: row_order step_kept workflow_step_runs
  by unfold_locales (auto simp: step_kept_def same_step_def step_final_def step_outcome_def)

definition call_kept :: "tool_call \<Rightarrow> tool_call \<Rightarrow> bool" where
  "call_kept c c' \<longleftrightarrow> tc_id c' = tc_id c \<and> tc_agent_run_id c' = tc_agent_run_id c \<and> tc_call_key c' = tc_call_key c \<and>
     tc_tool_id c' = tc_tool_id c \<and> tc_mutation_fingerprint c' = tc_mutation_fingerprint c \<and>
     tc_prepared_mutation c' = tc_prepared_mutation c"

interpretation call_rows: row_order call_kept tool_calls
  by unfold_locales (auto simp: call_kept_def)

definition history :: "db \<Rightarrow> db \<Rightarrow> bool" where
  "history d e \<longleftrightarrow>
     evolves forgets_audit audit_records d e \<and> evolves forgets_event runtime_events d e \<and>
     evolves (approval_step\<^sup>*\<^sup>*) approval_requests d e \<and> evolves (agent_step\<^sup>*\<^sup>*) agent_runs d e \<and>
     evolves (workflow_step_rel\<^sup>*\<^sup>*) workflow_runs d e \<and> evolves step_kept workflow_step_runs d e \<and>
     grows tenants d e \<and> grows workspaces d e \<and> grows policy_rules d e \<and> grows agent_definitions d e \<and>
     grows workflow_plans d e \<and> grows workflow_steps d e \<and> grows step_dependencies d e \<and>
     grows step_handoffs d e \<and> evolves call_kept tool_calls d e \<and>
     evolves model_kept model_definitions d e \<and> evolves (model_step\<^sup>*\<^sup>*) model_runs d e \<and>
     evolves forgets_memory memory_records d e \<and> grows memory_sources d e"

interpretation history: db_order history
proof
  show "history d d" for d
    by (simp add: history_def grows_def audit_rows.P_refl event_rows.P_refl approvals.P_refl
        agent_lifecycle.P_refl workflow_lifecycle.P_refl step_rows.P_refl call_rows.P_refl model_rows.P_refl model_lifecycle.P_refl memory_rows.P_refl)
  show "history d f" if "history d e" "history e f" for d e f
    using that by (auto simp: history_def grows_def dest: prefix_order.trans intro: audit_rows.P_trans
        event_rows.P_trans approvals.P_trans agent_lifecycle.P_trans workflow_lifecycle.P_trans step_rows.P_trans call_rows.P_trans model_rows.P_trans model_lifecycle.P_trans memory_rows.P_trans)
qed

lemmas same_rows = audit_rows.evolves_same event_rows.evolves_same approvals.evolves_same
  agent_lifecycle.evolves_same workflow_lifecycle.evolves_same step_rows.evolves_same call_rows.evolves_same model_rows.evolves_same model_lifecycle.evolves_same memory_rows.evolves_same

lemmas more_rows = audit_rows.evolves_append event_rows.evolves_append approvals.evolves_append
  agent_lifecycle.evolves_append workflow_lifecycle.evolves_append step_rows.evolves_append call_rows.evolves_append model_rows.evolves_append model_lifecycle.evolves_append memory_rows.evolves_append

lemma step_kept_moves:
  "(expected, target) \<in> set step_edges \<Longrightarrow> step_in_state i j (step_run_status_value expected) r \<Longrightarrow>
     step_kept r (apply_to_step_run (step_values expected target fc now) r)"
  "step_in_state i j ''PENDING'' r \<Longrightarrow> step_kept r (apply_to_step_run (ready_values now) r)"
  "step_kept r (r\<lparr>sr_agent_run_id := a, sr_updated_at := now\<rparr>)"
  by (auto simp: step_kept_def same_step_def step_final_def step_in_state_def step_edges_def
      apply_to_step_run_def step_outcome_def)

lemma db_write_history: "db_write d e \<Longrightarrow> history d e"
proof (induction rule: db_write.induct)
  case (3 d e)
  then show ?case
    by (auto simp: scope_edit_def history_def grows_def same_rows) (auto simp: evolves_def)
next
  case (8 target d i now)
  then have "evolves (approval_step\<^sup>*\<^sup>*) approval_requests d (d\<lparr>approval_requests :=
      update_where (pending_approval i) (decided_row (approval_status_value target) now) (approval_requests d)\<rparr>)"
    by (intro approvals.evolves_step [where sel = "pending_approval i"
          and f = "decided_row (approval_status_value target) now"])
      (auto simp: approval_step_def pending_approval_def)
  then show ?case by (simp add: history_def grows_def same_rows)
next
  case (11 expected target d t w i fc now)
  then have "evolves (agent_step\<^sup>*\<^sup>*) agent_runs d (move_agent_run t w i expected target fc now d)"
    by (intro agent_lifecycle.evolves_step [where sel = "run_in_state t w i expected"
          and f = "apply_run_values (transition_values expected target fc now)"])
      (auto simp: move_agent_run_def put_agent_runs_def run_in_state_def intro: agent_step.move)
  then show ?case by (simp add: history_def grows_def same_rows write_defs)
next
  case (17 expected target d t w i fc now)
  then have "evolves (workflow_step_rel\<^sup>*\<^sup>*) workflow_runs d (move_workflow_run t w i expected target fc now d)"
    by (intro workflow_lifecycle.evolves_step [where sel = "workflow_in_state t w i (workflow_run_status_value expected)"
          and f = "apply_to_workflow_run (workflow_values target fc now)"])
      (auto simp: move_workflow_run_def put_workflow_runs_def workflow_in_state_def intro: workflow_step_rel.intros)
  then show ?case by (simp add: history_def grows_def same_rows write_defs)
next
  case (18 expected target d i j fc now)
  then have "evolves step_kept workflow_step_runs d
      (move_step_run i j expected (step_values expected target fc now) d)"
    by (intro step_rows.evolves_update [where sel = "step_in_state i j (step_run_status_value expected)"
          and f = "apply_to_step_run (step_values expected target fc now)"])
      (auto simp: move_step_run_def put_step_runs_def intro: step_kept_moves)
  then show ?case by (simp add: history_def grows_def same_rows write_defs)
next
  case (19 d i j now)
  have "evolves step_kept workflow_step_runs d (move_step_run i j PENDING (ready_values now) d)"
    by (intro step_rows.evolves_update [where sel = "step_in_state i j ''PENDING''"
          and f = "apply_to_step_run (ready_values now)"])
      (auto simp: move_step_run_def put_step_runs_def intro: step_kept_moves)
  then show ?case by (simp add: history_def grows_def same_rows write_defs)
next
  case (20 d j a now)
  have "evolves step_kept workflow_step_runs d (link_step_run j a now d)"
    by (intro step_rows.evolves_update [where sel = "\<lambda>r. sr_id r = j \<and> sr_agent_run_id r = None"
          and f = "\<lambda>r. r\<lparr>sr_agent_run_id := Some a, sr_updated_at := now\<rparr>"])
      (auto simp: link_step_run_def put_step_runs_def intro: step_kept_moves)
  then show ?case by (simp add: history_def grows_def same_rows write_defs)
next
  case (23 d i v)
  have "evolves call_kept tool_calls d (move_tool_call i v d)"
    by (intro call_rows.evolves_update [where sel = "\<lambda>c. tc_id c = i" and f = "apply_call_state v"])
      (auto simp: move_tool_call_def put_tool_calls_def call_kept_def apply_call_state_def)
  then show ?case by (simp add: history_def grows_def same_rows move_tool_call_def put_tool_calls_def)
next
  case (24 d e)
  then have e: "e = put_models (model_definitions e) d" and kept: "evolves model_kept model_definitions d e"
    by (auto simp: catalog_edit_def)
  from kept show ?case by (subst e, subst (asm) e) (simp add: history_def grows_def same_rows put_models_def)
next
  case (26 f d t w i)
  then have "evolves (model_step\<^sup>*\<^sup>*) model_runs d (move_model_run t w i f d)"
    by (intro model_lifecycle.evolves_step [where sel = "running_model_run t w i" and f = f])
      (auto simp: move_model_run_def running_model_run_def intro: model_step.intros)
  then show ?case by (simp add: history_def grows_def same_rows move_model_run_def put_model_runs_def)
qed (simp add: history_def grows_def same_rows write_defs; (rule more_rows, simp)?)+

interpretation any_data: workspace_order keeps_data_ok "\<lambda>_ _. True"
  by unfold_locales (simp add: keeps_data_ok_def data_ok_def)

lemma serve_keeps:
  assumes "working s = committed s" and "constraints (committed s)"
  shows "constraints (committed (snd (serve op s)))" and "history (committed s) (committed (snd (serve op s)))"
proof -
  have "steps keeps_data_ok (serve op)" by (rule any_data.steps_serve) simp
  then show "constraints (committed (snd (serve op s)))"
    using assms by (auto simp: steps_def keeps_data_ok_def data_ok_def)
  have "steps (lift_order history) (serve op)" by (rule workspace_order.steps_serve [OF history.lift_is_workspace_order]) (rule db_write_history)
  then show "history (committed s) (committed (snd (serve op s)))"
    using history.lift_result [of "serve op" s] assms(1) by (simp add: history.P_refl)
qed

lemma reaches_keeps:
  assumes "reaches d e" and "constraints d"
  shows "constraints e \<and> history d e"
  using assms
proof (induction rule: reaches.induct)
  case start
  then show ?case by (simp add: history.P_refl)
next
  case (serve f s op)
  then have "working s = committed s" "constraints (committed s)" "history d (committed s)" by simp_all
  with serve_keeps [of s op] show ?case by (blast intro: history.P_trans)
qed

lemma serve_keeps_logs:
  assumes "working s = committed s" and "\<not> deletes_scope op"
  shows "grows_logs (committed s) (committed (snd (serve op s)))"
proof -
  have "steps (lift_order grows_logs) (serve op)"
    by (rule workspace_order.steps_serve_kept [OF logs.lift_is_workspace_order]) (use assms(2) in \<open>simp_all add: kept_write_def\<close>)
  then show ?thesis using logs.lift_result [of "serve op" s] assms(1) by (simp add: logs.P_refl)
qed

section \<open>The workflow invariant\<close>

text \<open>
  A program that starts on durable data and, when it returns, ends with nothing uncommitted: such
  programs keep the workflow invariant one after the other.
\<close>

definition keeps_sound :: "'a prog \<Rightarrow> bool" where
  "keeps_sound m \<longleftrightarrow> (\<forall>s. working s = committed s \<longrightarrow> flow_sound (committed s) \<longrightarrow>
     flow_sound (committed (snd (m s))) \<and> (\<forall>a t. m s = (Inr a, t) \<longrightarrow> working t = committed t))"

lemma keeps_sound_bnd:
  assumes m: "keeps_sound m" and k: "\<And>a. keeps_sound (k a)"
  shows "keeps_sound (bnd m k)"
  unfolding keeps_sound_def
proof (intro allI impI)
  fix s :: session assume s: "working s = committed s" "flow_sound (committed s)"
  obtain x t where mt: "m s = (x, t)" by (cases "m s")
  from m have "flow_sound (committed (snd (m s))) \<and> (\<forall>a t. m s = (Inr a, t) \<longrightarrow> working t = committed t)"
    unfolding keeps_sound_def using s by blast
  then have t: "flow_sound (committed t)" "x = Inr a \<Longrightarrow> working t = committed t" for a
    unfolding mt by simp_all
  show "flow_sound (committed (snd (bnd m k s))) \<and>
      (\<forall>a t. bnd m k s = (Inr a, t) \<longrightarrow> working t = committed t)"
  proof (cases x)
    case (Inr a)
    have eq: "bnd m k s = k a t" using mt Inr by (simp add: bnd_def)
    show ?thesis unfolding eq
      using k [of a] t(1) t(2) [OF Inr] unfolding keeps_sound_def by blast
  next
    case (Inl e)
    with mt have "bnd m k s = (Inl e, t)" by (simp add: bnd_def)
    with t(1) show ?thesis by simp
  qed
qed

lemma keeps_sound_reads:
  assumes "reads m" and "steps same_committed m"
  shows "keeps_sound m"
  unfolding keeps_sound_def
proof (intro allI impI)
  fix s :: session assume s: "working s = committed s" "flow_sound (committed s)"
  have "committed (snd (m s)) = committed s" using assms(2) by (simp add: steps_def same_committed_def)
  then show "flow_sound (committed (snd (m s))) \<and> (\<forall>a t. m s = (Inr a, t) \<longrightarrow> working t = committed t)"
    using s assms(1) by (auto simp: reads_def)
qed

lemma keeps_sound_flow:
  assumes "keeps_flow m" and "steps keeps_data_ok m"
    and "\<And>s a t. m s = (Inr a, t) \<Longrightarrow> working t = committed t"
  shows "keeps_sound m"
  unfolding keeps_sound_def
proof (intro allI impI)
  fix s :: session assume s: "working s = committed s" "flow_sound (committed s)"
  then have "flow_ok (committed (snd (m s)))" using assms(1) by (simp add: keeps_flow_def)
  moreover have "keeps_data_ok s (snd (m s))" using assms(2) by (simp add: steps_def)
  ultimately show "flow_sound (committed (snd (m s))) \<and> (\<forall>a t. m s = (Inr a, t) \<longrightarrow> working t = committed t)"
    using s assms(3) by (simp add: keeps_data_ok_def data_ok_def flow_sound_def)
qed

lemma flow_parts_settle:
  "workflow_create_plan t w k data s = (Inr plan, u) \<Longrightarrow> working u = committed u"
  "workflow_create_run t w i s = (Inr run, u) \<Longrightarrow> working u = committed u"
  unfolding workflow_create_plan_def workflow_create_plan_rows_def workflow_create_run_def
  by (auto simp: runs Inr_runs_lift_sum split: prod.splits if_splits)

lemma keeps_sound_plans:
  "keeps_sound (workflow_create_plan t w k data)" "keeps_sound (workflow_create_run t w i)"
  by (intro keeps_sound_flow keeps_flow_lands lands_workflow_plans data.steps_workflow_plans TrueI;
      erule flow_parts_settle)
    (intro keeps_sound_flow keeps_flow_step data.steps_workflow_create_run TrueI;
      erule flow_parts_settle)

lemma keeps_sound_handoff:
  "keeps_sound (bnd (ordered_step_runs i) (\<lambda>ordered. bnd (first_step_run ordered) (\<lambda>r.
     bnd (add_handoff (f r)) (\<lambda>_. andthen commit (ret x)))))"
proof (rule keeps_sound_flow)
  show "keeps_flow (bnd (ordered_step_runs i) (\<lambda>ordered. bnd (first_step_run ordered) (\<lambda>r.
     bnd (add_handoff (f r)) (\<lambda>_. andthen commit (ret x)))))"
    unfolding ordered_step_runs_def first_step_run_def add_handoff_def Let_def
    by (intro keeps_flow_frozen same_view.lifted.steps_rules same_view.lifted.store_rules
        same_view.lifted.steps_exec) (simp add: frozen_def gate_view_def)
  show "steps keeps_data_ok (bnd (ordered_step_runs i) (\<lambda>ordered. bnd (first_step_run ordered) (\<lambda>r.
     bnd (add_handoff (f r)) (\<lambda>_. andthen commit (ret x)))))"
    unfolding ordered_step_runs_def first_step_run_def add_handoff_def Let_def
    by (intro data.steps_rules data.store_rules data.steps_exec TrueI)
qed (auto simp: runs)

lemma reads_development:
  "keeps_sound (workflow_task_scope t w k)" "keeps_sound (resolve_definition a t w)"
  "keeps_sound (only_if b (throw e))" "keeps_sound (require e x)"
proof -
  have "steps same_committed (resolve_definition a t w)"
    unfolding resolve_definition_def latest_definition_def
    by (intro quiet.steps_rules quiet.stmt_rules)
  then show "keeps_sound (resolve_definition a t w)" by (intro keeps_sound_reads reads_resolve)
qed (intro keeps_sound_reads reads_workflows reads_rules quiet.steps_workflow_reads quiet.steps_rules)+

lemma keeps_sound_development: "keeps_sound (create_development_workflow t w p k data)"
  unfolding create_development_workflow_def andthen_def [of "only_if _ _"]
  by (intro keeps_sound_bnd keeps_sound_plans keeps_sound_handoff reads_development)

lemma keeps_flow_sound:
  "keeps_sound m \<Longrightarrow> keeps_flow m"
  unfolding keeps_sound_def keeps_flow_def flow_sound_def by blast

lemma keeps_flow_answered: "keeps_flow m \<Longrightarrow> keeps_flow (answered m)"
  unfolding keeps_flow_def answered_def bnd_def ret_def by (auto split: prod.splits sum.splits)

text \<open>The writes that do not touch what the gate and the plans' graphs are read from.\<close>

lemma scope_edit_view: "scope_edit d e \<Longrightarrow> gate_view e = gate_view d"
  by (auto simp: scope_edit_def gate_view_def)

lemma catalog_edit_view: "catalog_edit d e \<Longrightarrow> gate_view e = gate_view d"
  unfolding catalog_edit_def by (erule conjE, erule ssubst) (simp add: put_models_def gate_view_def)

lemma serve_keeps_flow: "keeps_flow (serve op)"
  by (cases op; simp only: serve.simps approve_def reject_def)
    ((intro keeps_flow_answered keeps_flow_step keeps_flow_others
        keeps_flow_lands [OF lands_workflow_plans(1)] keeps_flow_lands [OF lands_workflow_plans(2)]
        keeps_flow_sound [OF keeps_sound_development]; fail) |
     (intro keeps_flow_answered keeps_flow_frozen same_view.lifted.steps_run_bootstrap
        store_order.steps_projects_tasks [OF same_view.lift_is_order] same_view.lifted.steps_append_record
        same_view.lifted.steps_append_event same_view.lifted.steps_create_rule
        store_order.steps_create_approval [OF same_view.lift_is_order]
        store_order.steps_decide [OF same_view.lift_is_order]
        same_view.lifted.steps_agent_definitions same_view.lifted.steps_agent_create_run
        same_view.lifted.steps_agent_moves
        workspace_order.steps_execute_proposal [OF db_order.lift_is_workspace_order [OF same_view.db_order_axioms]]
        store_order.steps_gateway_calls [OF same_view.lift_is_order]
        store_order.steps_refresh_provider [OF same_view.lift_is_order]
        store_order.steps_start_run [OF same_view.lift_is_order]
        store_order.steps_model_moves [OF same_view.lift_is_order]
        store_order.steps_create_memory [OF same_view.lift_is_order];
      simp add: frozen_def scope_edit_view catalog_edit_view; simp add: gate_view_def write_defs move_tool_call_def put_tool_calls_def))+

lemma reaches_flow_sound:
  assumes "reaches d e" and "flow_sound d"
  shows "flow_sound e"
  using assms
proof (induction rule: reaches.induct)
  case (serve f s op)
  then have s: "working s = committed s" "flow_sound (committed s)" by simp_all
  then have "flow_ok (committed (snd (serve op s)))"
    using serve_keeps_flow [of op] unfolding keeps_flow_def by blast
  with serve_keeps(1) [OF s(1), of op] s(2) show ?case by (simp add: flow_sound_def)
qed

lemma empty_flow_sound: "flow_sound empty_db"
  unfolding flow_sound_def
  by (rule conjI [OF constraints_empty])
    (simp add: flow_ok_def gate_def acyclic_plans_def dep_relation_def empty_db_def acyclic_def)

end
