(* ===== verification/Workspace_Bounds.thy ===== *)
theory Workspace_Bounds
  imports Workspace
begin

text \<open>
  What the reading tools let out of a workspace, and what the replacement of text does to it.
\<close>

section \<open>Paths that may be named\<close>

text \<open>A path below the root that is not denied and on which no part is a link.\<close>

definition open_path :: "node \<Rightarrow> pystr list \<Rightarrow> bool" where
  "open_path root q = (\<not> denied q \<and> \<not> crosses_symlink root q \<and> node_at root q \<noteq> None)"

definition file_contents :: "node \<Rightarrow> pystr list \<Rightarrow> bytes option" where
  "file_contents root q = (case node_at root q of Some (Regular _ data) \<Rightarrow> Some data | _ \<Rightarrow> None)"

fun item_of :: "node \<Rightarrow> pystr list \<Rightarrow> item \<Rightarrow> bool" where
  "item_of root q (Dir_item p) = (p = as_posix q \<and> (\<exists>n. node_at root q = Some n \<and> is_dir n))"
| "item_of root q (File_item p k) =
     (p = as_posix q \<and> (\<exists>data. file_contents root q = Some data \<and> k = length data))"

definition shown :: "node \<Rightarrow> pystr list \<Rightarrow> nat \<Rightarrow> item \<Rightarrow> bool" where
  "shown root at depth i =
    (\<exists>q. prefix at q \<and> length q \<le> length at + Suc depth \<and> open_path root q \<and> item_of root q i)"

lemma shown_deeper:
  assumes "shown root (at @ [name]) b i"
  shows "shown root at (Suc b) i"
proof -
  from assms obtain q where q: "prefix (at @ [name]) q" "length q \<le> length (at @ [name]) + Suc b"
    "open_path root q" "item_of root q i" unfolding shown_def by blast
  have "prefix at q" using q(1) by (meson append_prefixD)
  moreover have "length q \<le> length at + Suc (Suc b)" using q(2) by simp
  ultimately show ?thesis unfolding shown_def using q(3,4) by blast
qed

section \<open>Listing\<close>

text \<open>The entries of the directory under visit, as the tree has them.\<close>

definition entries_at :: "node \<Rightarrow> pystr list \<Rightarrow> (pystr \<times> node) list \<Rightarrow> bool" where
  "entries_at root at es =
    (\<not> crosses_symlink root at \<and> (\<forall>(name, n) \<in> set es. node_at root (at @ [name]) = Some n \<and> tree_ok n))"

lemma entries_at_Cons:
  "entries_at root at ((name, n) # es) \<longleftrightarrow>
    \<not> crosses_symlink root at \<and> node_at root (at @ [name]) = Some n \<and> tree_ok n \<and> entries_at root at es"
  by (auto simp: entries_at_def)

lemma entries_at_directory:
  assumes "node_at root at = Some (Directory r es)" "tree_ok (Directory r es)" "\<not> crosses_symlink root at"
  shows "entries_at root at (by_name es)"
proof -
  have "node_at root (at @ [name]) = Some n \<and> tree_ok n" if m: "(name, n) \<in> set es" for name n
  proof -
    have "map_of es name = Some n" using m assms(2) by simp
    then show ?thesis using assms(1,2) m by (auto simp: node_at_append child_def list_all_iff)
  qed
  with assms(3) show ?thesis by (auto simp: entries_at_def by_name_def)
qed

definition listed :: "node \<Rightarrow> pystr list \<Rightarrow> nat \<Rightarrow> nat \<Rightarrow> item list \<Rightarrow> item list \<Rightarrow> bool" where
  "listed root at depth limit found found' =
    (length found' \<le> limit \<and> (\<exists>new. found' = found @ new \<and> (\<forall>i \<in> set new. shown root at depth i)))"

lemma listed_refl: "length found \<le> limit \<Longrightarrow> listed root at depth limit found found"
  by (simp add: listed_def)

lemma listed_trans: "listed root at depth limit a b \<Longrightarrow> listed root at depth limit b c \<Longrightarrow> listed root at depth limit a c"
  by (auto simp: listed_def)

lemma listed_below: "listed root (at @ [name]) b limit f f' \<Longrightarrow> listed root at (Suc b) limit f f'"
  by (auto simp: listed_def intro: shown_deeper)

lemma listed_entry:
  assumes "open_path root (at @ [name])" "item_of root (at @ [name]) i" "length found < limit"
  shows "listed root at depth limit found (found @ [i])"
proof -
  have "shown root at depth i" unfolding shown_def using assms(1,2) by (intro exI [of _ "at @ [name]"]) simp
  with assms(3) show ?thesis by (simp add: listed_def)
qed

lemma visit_children_listed:
  "visit_children limit below at es st = Inr (found', ended) \<Longrightarrow> length (fst st) \<le> limit \<Longrightarrow>
    entries_at root at es \<Longrightarrow> listed root at below limit (fst st) found'"
proof (induction limit below at es st arbitrary: found' ended rule: visit_children.induct)
  case (1 limit below at st)
  then show ?case by (simp add: listed_refl)
next
  case (2 limit below at name n rest found truncated)
  let ?rel = "at @ [name]"
  have e: "\<not> crosses_symlink root at" "node_at root ?rel = Some n" "tree_ok n" "entries_at root at rest"
    using 2(11) by (simp_all add: entries_at_Cons)
  show ?case
  proof (cases "denied ?rel \<or> is_symlink n")
    case True
    with 2(1) [OF refl True] 2(9-10) e(4) show ?thesis by simp
  next
    case False
    note visible = this
    show ?thesis
    proof (cases "limit \<le> length found")
      case True
      with 2(9,10) visible show ?thesis by (simp add: listed_refl)
    next
      case False
      with visible e(1,2) have open_path: "open_path root ?rel"
        by (simp add: open_path_def crosses_symlink_append link_at_def)
      show ?thesis
      proof (cases n)
        case (Directory r es)
        let ?f = "found @ [Dir_item (as_posix ?rel)]"
        have new: "listed root at below limit found ?f"
          using listed_entry [OF open_path] False Directory e(2) by (simp add: is_dir_def)
        then have len: "length ?f \<le> limit" unfolding listed_def by blast
        consider (leaf) "below = 0 \<or> truncated" "visit_children limit below at rest (?f, truncated) = Inr (found', ended)"
          | (deep) b st where "below = Suc b" "\<not> truncated" "r"
              "visit_children limit b ?rel (by_name es) (?f, truncated) = Inr st"
              "visit_children limit below at rest st = Inr (found', ended)"
          using 2(9) visible False Directory by (auto simp: Let_def split: nat.splits if_splits sum.splits)
        then show ?thesis
        proof cases
          case leaf
          then have "listed root at below limit ?f found'"
            using 2(2) [OF refl visible False Directory refl _ leaf(2)]
              2(3) [OF refl visible False Directory refl _ _ leaf(2)] len e(4) by (cases below) auto
          with new show ?thesis unfolding fst_conv by (rule listed_trans)
        next
          case (deep b st)
          obtain f1 c1 where st: "st = (f1, c1)" by (cases st)
          have "entries_at root ?rel (by_name es)"
            using e(2,3) open_path Directory by (intro entries_at_directory) (simp_all add: open_path_def)
          from 2(4) [OF refl visible False Directory refl deep(1,2) _ deep(4) [unfolded st] _ this] deep(3) len
          have "listed root ?rel b limit ?f f1" by simp
          then have l1: "listed root at below limit ?f f1" unfolding deep(1) by (rule listed_below)
          then have "length f1 \<le> limit" by (simp add: listed_def)
          with 2(5) [OF refl visible False Directory refl deep(1,2) _ deep(4,5)] deep(3) e(4) st
          have "listed root at below limit f1 found'" by simp
          with new l1 show ?thesis unfolding fst_conv by (blast intro: listed_trans)
        qed
      next
        case (Regular r data)
        let ?f = "found @ [File_item (as_posix ?rel) (length data)]"
        have new: "listed root at below limit found ?f"
          using listed_entry [OF open_path] False Regular e(2) by (simp add: file_contents_def)
        then have "length ?f \<le> limit" unfolding listed_def by blast
        with 2(6) [OF refl visible False Regular _ _ e(4)] 2(9) visible False Regular
        have "listed root at below limit ?f found'" by simp
        with new show ?thesis unfolding fst_conv by (rule listed_trans)
      next
        case (Symlink t)
        with visible show ?thesis by (simp add: is_symlink_def)
      next
        case Special
        with 2(8) [OF refl visible False Special _ _ e(4)] 2(9,10) visible False show ?thesis by simp
      qed
    qed
  qed
qed

section \<open>Searching\<close>

lemma rglob_below:
  "(q, n) \<in> set (rglob at d) \<Longrightarrow> node_at root at = Some d \<Longrightarrow> tree_ok d \<Longrightarrow> \<not> crosses_symlink root at \<Longrightarrow>
    prefix at q \<and> node_at root q = Some n \<and> (is_symlink n \<or> \<not> crosses_symlink root q)"
proof (induction at d rule: rglob.induct)
  case (1 at r es)
  from 1(2) obtain name m where m: "(name, m) \<in> set es" and
    q: "(q, n) = (at @ [name], m) \<or> (q, n) \<in> set (rglob (at @ [name]) m)" and r: r by (auto split: if_splits)
  have child: "node_at root (at @ [name]) = Some m" "tree_ok m"
    using 1(3,4) m by (auto simp: node_at_append child_def list_all_iff)
  show ?case
  proof (cases "(q, n) \<in> set (rglob (at @ [name]) m)")
    case True
    then have "\<not> is_symlink m" by (cases m) (simp_all add: is_symlink_def)
    with 1(5) child have "\<not> crosses_symlink root (at @ [name])"
      by (simp add: crosses_symlink_append link_at_def)
    with 1(1) [OF r m refl True child] show ?thesis by (meson append_prefixD)
  next
    case False
    with q child 1(5) show ?thesis by (auto simp: crosses_symlink_append link_at_def)
  qed
qed simp_all

text \<open>A match quotes a line of a file that may be named, has at most 64 KiB and is UTF-8 without NUL.\<close>

definition searched :: "node \<Rightarrow> pystr list \<Rightarrow> pystr list \<Rightarrow> utext \<Rightarrow> bool" where
  "searched root base q t =
    (prefix base q \<and> open_path root q \<and>
     (\<exists>data. readable_contents root q = Some data \<and> length data \<le> 65536 \<and> byte 0 \<notin> set data \<and>
        utf8_decode data = Some t))"

fun quotes :: "node \<Rightarrow> pystr list \<Rightarrow> utext \<Rightarrow> pystr \<times> nat \<times> utext \<times> bool \<Rightarrow> bool" where
  "quotes root base needle (p, k, snippet, shortened) =
    (\<exists>q t. searched root base q t \<and> p = as_posix q \<and> 1 \<le> k \<and> k \<le> length (splitlines t) \<and>
       contains_sub needle (splitlines t ! (k - 1)) \<and> snippet = take 300 (splitlines t ! (k - 1)) \<and>
       shortened = (300 < length (splitlines t ! (k - 1))))"

definition quoted :: "node \<Rightarrow> pystr list \<Rightarrow> utext \<Rightarrow> nat \<Rightarrow> (pystr \<times> nat \<times> utext \<times> bool) list \<Rightarrow> bool" where
  "quoted root base needle limit found = (length found \<le> limit \<and> (\<forall>m \<in> set found. quotes root base needle m))"

lemma dropped_line:
  assumes "drop (k - 1) ls = line # rest" "1 \<le> k"
  shows "k \<le> length ls" "ls ! (k - 1) = line" "drop k ls = rest"
proof -
  have "k - 1 < length ls" using assms(1) by (metis drop_all list.distinct(1) not_le)
  with assms show "k \<le> length ls" "ls ! (k - 1) = line" "drop k ls = rest"
    using Cons_nth_drop_Suc [of "k - 1" ls] by auto
qed

lemma search_lines_quoted:
  assumes t: "searched root base q t"
  shows "search_lines limit needle (as_posix q) k ls found = (found', ended) \<Longrightarrow> 1 \<le> k \<Longrightarrow>
    drop (k - 1) (splitlines t) = ls \<Longrightarrow> quoted root base needle limit found \<Longrightarrow> length found < limit \<Longrightarrow>
    quoted root base needle limit found' \<and> (ended \<or> length found' < limit)"
proof (induction ls arbitrary: k found)
  case (Cons line ls)
  note k = dropped_line [OF Cons.prems(3,2)]
  let ?m = "(as_posix q, k, take MAX_SNIPPET_CHARACTERS line, MAX_SNIPPET_CHARACTERS < length line)"
  have next_line: "drop (Suc k - 1) (splitlines t) = ls" using k(3) by simp
  show ?case
  proof (cases "contains_sub needle line")
    case True
    have "quotes root base needle ?m"
      using t k True Cons.prems(2) by (auto simp: MAX_SNIPPET_CHARACTERS_def)
    then have q: "quoted root base needle limit (found @ [?m])"
      using Cons.prems(4,5) by (simp add: quoted_def)
    show ?thesis
      using Cons.IH [OF _ _ next_line q] Cons.prems(1) True q by (auto simp: Let_def split: if_splits)
  qed (use Cons.IH [OF _ _ next_line Cons.prems(4,5)] Cons.prems(1) in simp)
qed simp

lemma search_files_quoted:
  "search_files limit needle files scanned found = (found', scanned', ended) \<Longrightarrow>
    \<forall>(q, n) \<in> set files. \<forall>t. search_text n = Some t \<longrightarrow> searched root base q t \<Longrightarrow>
    quoted root base needle limit found \<Longrightarrow> length found < limit \<Longrightarrow> quoted root base needle limit found'"
proof (induction limit needle files scanned found rule: search_files.induct)
  case (2 limit needle q n rest scanned found)
  show ?case
  proof (cases "MAX_SCANNED_FILES < Suc scanned")
    case False
    show ?thesis
    proof (cases "search_text n")
      case None
      with 2 False show ?thesis by simp
    next
      case (Some t)
      obtain f1 e1 where l: "search_lines limit needle (as_posix q) 1 (splitlines t) found = (f1, e1)"
        by fastforce
      have "searched root base q t" using 2(4) Some by simp
      from search_lines_quoted [OF this l _ _ 2(5,6)]
      have "quoted root base needle limit f1 \<and> (e1 \<or> length f1 < limit)" by simp
      with 2(2) [OF False Some l [symmetric]] 2(3,4) False Some l show ?thesis by (cases e1) auto
    qed
  qed (use 2 in simp)
qed simp

section \<open>The evidence of the reading tools\<close>

lemma search_text_Some:
  "search_text n = Some t \<longleftrightarrow> (\<exists>data. n = Regular True data \<and> length data \<le> 65536 \<and> byte 0 \<notin> set data \<and>
     utf8_decode data = Some t)"
  by (cases n) (auto simp: search_text_def MAX_SEARCH_FILE_BYTES_def split: bool.splits)

lemma node_at_tree_ok: "node_at n q = Some m \<Longrightarrow> tree_ok n \<Longrightarrow> tree_ok m"
proof (induction n q rule: node_at.induct)
  case (2 n p ps)
  then show ?case by (cases n) (auto simp: child_def list_all_iff dest!: map_of_SomeD split: option.splits)
qed simp

definition list_evidence :: "node \<Rightarrow> list_input \<Rightarrow> evidence \<Rightarrow> bool" where
  "list_evidence root data ev =
    (\<exists>dir found ended. ev = Listing (as_posix dir) found ended \<and> open_path root dir \<and>
       length found \<le> li_max_results data \<and> (\<forall>i \<in> set found. shown root dir (li_max_depth data) i))"

definition read_evidence :: "node \<Rightarrow> read_input \<Rightarrow> evidence \<Rightarrow> bool" where
  "read_evidence root data ev =
    (\<exists>q contents t k. open_path root q \<and> readable_contents root q = Some contents \<and>
       k = min (ri_max_bytes data) (length contents) \<and> utf8_encode t = take k contents \<and>
       byte 0 \<notin> set (take k contents) \<and> ev = Content (as_posix q) t k (k < length contents))"

definition search_evidence :: "node \<Rightarrow> search_input \<Rightarrow> evidence \<Rightarrow> bool" where
  "search_evidence root data ev =
    (\<exists>base found ended. ev = Matches (as_posix base) found ended \<and> open_path root base \<and>
       quoted root base (codes (si_query data)) (si_max_results data) found)"

lemma list_files_evidence:
  assumes "tree_ok root" and "list_files root data = Inr (ev, meta)"
  shows "list_evidence root data ev"
proof -
  from assms(2) obtain dir n found ended where r: "resolve root (li_path data) True = Inr dir"
    and n: "node_at root dir = Some n" and open_path: "open_path root dir"
    and v: "visit (li_max_results data) (li_max_depth data) dir n = Inr (found, ended)"
    and ev: "ev = Listing (as_posix dir) found ended"
    by (auto simp: list_files_def resolve_iff open_path_def split: sum.splits)
  then obtain es where es: "n = Directory True es"
    "visit_children (li_max_results data) (li_max_depth data) dir (by_name es) ([], False) = Inr (found, ended)"
    by (auto simp: visit_def split: node.splits bool.splits)
  have "entries_at root dir (by_name es)"
    using n es(1) open_path node_at_tree_ok [OF n assms(1)] by (intro entries_at_directory) (auto simp: open_path_def)
  from visit_children_listed [OF es(2) _ this] show ?thesis
    unfolding list_evidence_def using open_path ev by (auto simp: listed_def)
qed

lemma read_file_evidence:
  assumes "read_file sha root data = Inr (ev, meta)"
  shows "read_evidence root data ev"
proof -
  from assms obtain q contents t where r: "resolve root (ri_path data) False = Inr q"
    and c: "node_at root q = Some (Regular True contents)" and open_path: "open_path root q"
    and z: "byte 0 \<notin> set (take (ri_max_bytes data) (take (Suc (ri_max_bytes data)) contents))"
    and t: "utf8_decode (take (ri_max_bytes data) (take (Suc (ri_max_bytes data)) contents)) = Some t"
    and ev: "ev = Content (as_posix q) t (length (take (ri_max_bytes data) (take (Suc (ri_max_bytes data)) contents)))
      (ri_max_bytes data < length (take (Suc (ri_max_bytes data)) contents))"
    by (auto simp: read_file_def resolve_iff open_path_def Let_def
        split: sum.splits node.splits bool.splits if_splits option.splits)
  let ?k = "min (ri_max_bytes data) (length contents)"
  have k: "take (ri_max_bytes data) (take (Suc (ri_max_bytes data)) contents) = take ?k contents"
    by (simp add: min_def)
  have "utf8_encode t = take ?k contents" using t unfolding k utf8_roundtrip by simp
  moreover have "ev = Content (as_posix q) t ?k (?k < length contents)" unfolding ev by (auto simp: min_def)
  ultimately show ?thesis
    unfolding read_evidence_def using open_path c z [unfolded k] by (auto simp: readable_contents_def)
qed

lemma search_workspace_evidence:
  assumes "tree_ok root" and "1 \<le> si_max_results data" and "search_workspace sha root data = Inr (ev, meta)"
  shows "search_evidence root data ev"
proof -
  from assms(3) obtain base n where r: "resolve root (si_path data) True = Inr base"
    and n: "node_at root base = Some n" and open_path: "open_path root base"
    by (auto simp: search_workspace_def resolve_iff open_path_def split: sum.splits)
  let ?files = "filter searchable (sort_key (\<lambda>(path, _). casefold (as_posix path)) (rglob base n))"
  obtain found scanned ended where f: "search_files (si_max_results data) (codes (si_query data)) ?files 0 [] =
      (found, scanned, ended)" by (metis prod_cases3)
  have ev: "ev = Matches (as_posix base) found ended" using assms(3) r n f by (simp add: search_workspace_def Let_def)
  have below: "searched root base q t" if q: "(q, m) \<in> set ?files" and t: "search_text m = Some t" for q m t
  proof -
    have m: "\<not> denied q" "is_file m" and g: "(q, m) \<in> set (rglob base n)" using q by (auto simp: searchable_def)
    have "prefix base q \<and> node_at root q = Some m \<and> (is_symlink m \<or> \<not> crosses_symlink root q)"
      using rglob_below [OF g n node_at_tree_ok [OF n assms(1)]] open_path by (simp add: open_path_def)
    with m t show ?thesis
      by (auto simp: searched_def open_path_def search_text_Some readable_contents_def is_symlink_def)
  qed
  have "quoted root base (codes (si_query data)) (si_max_results data) found"
    using below by (intro search_files_quoted [OF f]) (use assms(2) in \<open>auto simp: quoted_def\<close>)
  then show ?thesis unfolding search_evidence_def using ev open_path by blast
qed

text \<open>
  C15: What the reading tools let out is bounded and stays inside the open part of the workspace. A
  listing has at most as many entries as asked for, each an existing file or directory, with its
  size, not deeper than asked for; a reading is a prefix of the file of at most the bytes asked for,
  valid UTF-8 without NUL, marked truncated exactly when the file is longer; a search gives at most
  as many matches as asked for, each a line, cut at 300 characters, that contains the query in a file of at most
  64 KiB under the base. No path handed out contains a denied name or crosses a link.
\<close>
theorem workspace_disclosure_bounded:
  assumes "tree_ok root"
  shows "(\<forall>data ev meta. list_files root data = Inr (ev, meta) \<longrightarrow> list_evidence root data ev) \<and>
    (\<forall>data ev meta. read_file sha root data = Inr (ev, meta) \<longrightarrow> read_evidence root data ev) \<and>
    (\<forall>data ev meta. search_input_valid data \<and> search_workspace sha root data = Inr (ev, meta) \<longrightarrow>
       search_evidence root data ev)"
  using list_files_evidence [OF assms] read_file_evidence search_workspace_evidence [OF assms]
  by (simp add: search_input_valid_def) blast

lemma sample_tree_ok: "tree_ok sample_tree"
  by code_simp

lemma sample_listing:
  "list_files sample_tree \<lparr>li_path = ''.'', li_max_depth = 1, li_max_results = 5\<rparr> =
    Inr (Listing ''.'' [Dir_item ''src'', File_item ''src/main.py'' 5] False,
      PDict [(PStr ''base_path'', PStr ''.''), (PStr ''result_count'', PInt 2), (PStr ''truncated'', PBool False)])"
  by code_simp

theorem workspace_disclosure_bounded_witness:
  "list_evidence sample_tree \<lparr>li_path = ''.'', li_max_depth = 1, li_max_results = 5\<rparr>
     (Listing ''.'' [Dir_item ''src'', File_item ''src/main.py'' 5] False)"
  using workspace_disclosure_bounded [OF sample_tree_ok, of "\<lambda>_. []"] sample_listing by blast

section \<open>Replacing text\<close>

text \<open>
  What a workspace is to the replacement: the contents of the files that can be read, by path. The
  replacement of text is the update of one of them.
\<close>

definition candidate_of :: "replace_input \<Rightarrow> utext \<Rightarrow> bytes" where
  "candidate_of data t = utf8_encode (replace_sub (codes (re_search data)) (codes (re_replacement data)) t)"

definition prepared_from :: "tool_lib \<Rightarrow> replace_input \<Rightarrow> pystr list \<Rightarrow> bytes \<Rightarrow> bytes \<Rightarrow> pyval \<Rightarrow> bool" where
  "prepared_from lib data q before after prepared =
    (entry prepared ''preimage_sha256'' = Some (PStr (sha256 lib before)) \<and>
     entry prepared ''candidate_sha256'' = Some (PStr (sha256 lib after)) \<and>
     entry prepared ''mutation_fingerprint'' =
       Some (PStr (mutation_sha256 lib (as_posix q) (sha256 lib before) (sha256 lib after))) \<and>
     text_entry prepared ''search'' = Some (re_search data) \<and>
     text_entry prepared ''replacement'' = Some (re_replacement data) \<and>
     count_entry prepared ''expected_matches'' = Some (int (re_expected_matches data)))"

lemma prepare_runs:
  assumes "prepare lib root data = Inr prepared"
  obtains q before t where "resolve root (re_path data) False = Inr q" "readable_contents root q = Some before"
    "utf8_decode before = Some t" "count_sub (codes (re_search data)) t = re_expected_matches data"
    "length before \<le> MAX_MUTATION_FILE_BYTES" "length (candidate_of data t) \<le> MAX_MUTATION_FILE_BYTES"
    "prepared_from lib data q before (candidate_of data t) prepared"
proof -
  from assms obtain q before t where r: "resolve root (re_path data) False = Inr q"
      "readable_contents root q = Some before" "utf8_decode before = Some t"
      "count_sub (codes (re_search data)) t = re_expected_matches data" "length before \<le> MAX_MUTATION_FILE_BYTES"
    by (auto simp: prepare_def Let_def not_less split: sum.splits option.splits if_splits)
  with assms have "length (candidate_of data t) \<le> MAX_MUTATION_FILE_BYTES \<and>
      prepared_from lib data q before (candidate_of data t) prepared"
    by (auto simp: prepare_def Let_def candidate_of_def prepared_from_def entry_def text_entry_def count_entry_def
        not_less split: if_splits prod.splits)
  with r that show ?thesis by blast
qed

lemma resolved_file:
  assumes "resolve root p False = Inr q" "readable_contents root q = Some b"
  shows "node_at root q = Some (Regular True b)"
  using assms(2) by (auto simp: readable_contents_def split: option.splits node.splits bool.splits)

lemma put_file_contents:
  assumes "node_at root q = Some (Regular r b)"
  shows "readable_contents (put_file root q data) = (readable_contents root)(q \<mapsto> data)"
proof
  fix p
  show "readable_contents (put_file root q data) p = ((readable_contents root)(q \<mapsto> data)) p"
    using node_at_put_file_same [OF assms, of data] put_file_other [OF assms, of p data]
    by (cases "p = q") (simp_all add: readable_contents_def)
qed

lemma apply_prepared:
  assumes p: "prepared_from lib data q before (candidate_of data t) prepared"
    and t: "utf8_decode before = Some t" "count_sub (codes (re_search data)) t = re_expected_matches data"
    and r: "resolve root (re_path data) False = Inr q" "readable_contents root q = Some contents"
  shows "apply_mutation lib root data prepared =
    (if sha256 lib contents = sha256 lib (candidate_of data t) then Inr (Inr (Applied (as_posix q) True, root))
     else if sha256 lib contents \<noteq> sha256 lib before then Inr (Inl ''stale_preimage'')
     else apply_mutation lib root data prepared)"
  using p r by (simp add: apply_mutation_def prepared_from_def)

lemma apply_unchanged:
  assumes p: "prepared_from lib data q before (candidate_of data t) prepared"
    and t: "utf8_decode before = Some t" "count_sub (codes (re_search data)) t = re_expected_matches data"
    and r: "resolve root (re_path data) False = Inr q" "readable_contents root q = Some before"
    and "sha256 lib before \<noteq> sha256 lib (candidate_of data t)"
  shows "apply_mutation lib root data prepared =
    Inr (Inr (Applied (as_posix q) False, put_file root q (candidate_of data t)))"
  using assms by (simp add: apply_mutation_def prepared_from_def mutation_target_def Let_def candidate_of_def)

text \<open>
  C9: A prepared replacement, applied, is one update of the contents of the workspace, and is applied
  once. After \<open>prepare\<close> the file is the UTF-8 text of the demanded number of matches and
  the result of the replacement has at most 64 KiB. Applied to the unchanged workspace it
  replaces all of the matches in this file and changes no other; applied again it changes nothing
  and says so; applied to a file that has other contents (by the digest) it fails with
  \<open>stale_preimage\<close> and changes nothing.
\<close>
theorem prepared_mutation_refines_update:
  assumes "prepare lib root data = Inr prepared"
  shows "\<exists>q before t. readable_contents root q = Some before \<and> utf8_decode before = Some t \<and>
    count_sub (codes (re_search data)) t = re_expected_matches data \<and>
    length (candidate_of data t) \<le> 65536 \<and>
    (sha256 lib before \<noteq> sha256 lib (candidate_of data t) \<longrightarrow>
      (\<exists>after. apply_mutation lib root data prepared = Inr (Inr (Applied (as_posix q) False, after)) \<and>
         readable_contents after = (readable_contents root)(q \<mapsto> candidate_of data t) \<and>
         apply_mutation lib after data prepared = Inr (Inr (Applied (as_posix q) True, after)))) \<and>
    (\<forall>other contents. resolve other (re_path data) False = Inr q \<and> readable_contents other q = Some contents \<and>
       sha256 lib contents \<notin> {sha256 lib before, sha256 lib (candidate_of data t)} \<longrightarrow>
       apply_mutation lib other data prepared = Inr (Inl ''stale_preimage''))"
proof -
  from prepare_runs [OF assms] obtain q before t where r: "resolve root (re_path data) False = Inr q"
    and b: "readable_contents root q = Some before" and t: "utf8_decode before = Some t"
      "count_sub (codes (re_search data)) t = re_expected_matches data"
    and l: "length (candidate_of data t) \<le> MAX_MUTATION_FILE_BYTES"
    and p: "prepared_from lib data q before (candidate_of data t) prepared" .
  let ?after = "put_file root q (candidate_of data t)"
  have view: "readable_contents ?after = (readable_contents root)(q \<mapsto> candidate_of data t)"
    by (rule put_file_contents [OF resolved_file [OF r b]])
  have again: "apply_mutation lib ?after data prepared = Inr (Inr (Applied (as_posix q) True, ?after))"
    using apply_prepared [OF p t, of ?after "candidate_of data t"] view r by (simp add: resolve_put_file)
  have once: "apply_mutation lib root data prepared = Inr (Inr (Applied (as_posix q) False, ?after))"
    if "sha256 lib before \<noteq> sha256 lib (candidate_of data t)" by (rule apply_unchanged [OF p t r b that])
  have stale: "apply_mutation lib other data prepared = Inr (Inl ''stale_preimage'')"
    if "resolve other (re_path data) False = Inr q \<and> readable_contents other q = Some contents \<and>
       sha256 lib contents \<notin> {sha256 lib before, sha256 lib (candidate_of data t)}" for other contents
    using apply_prepared [OF p t, of other contents] that by simp
  show ?thesis
    using b t l view again once stale by (intro exI [of _ q] exI [of _ before] exI [of _ t]) (auto simp: MAX_MUTATION_FILE_BYTES_def)
qed

definition sample_replacement :: replace_input where
  "sample_replacement = \<lparr>re_path = ''src/main.py'', re_search = ''1'', re_replacement = ''2'', re_expected_matches = 1\<rparr>"

definition sample_prepared :: pyval where
  "sample_prepared = (case prepare sample_lib sample_tree sample_replacement of Inr v \<Rightarrow> v | Inl _ \<Rightarrow> PNone)"

lemma sample_replacement_parts:
  "resolve sample_tree ''src/main.py'' False = Inr [''src'', ''main.py'']"
  "readable_contents sample_tree [''src'', ''main.py''] = Some ''x = 1''"
  "utf8_decode ''x = 1'' = Some [120, 32, 61, 32, 49]"
  "count_sub (codes ''1'') [120, 32, 61, 32, 49] = 1"
  "utf8_encode (replace_sub (codes ''1'') (codes ''2'') [120, 32, 61, 32, 49]) = ''x = 2''"
  "List.member ''x = 1'' (byte 0) = False"
  by code_simp+

lemma sample_prepared_eq: "prepare sample_lib sample_tree sample_replacement = Inr sample_prepared"
proof -
  have "\<exists>v. prepare sample_lib sample_tree sample_replacement = Inr v"
    by (simp only: prepare_def sample_replacement_def replace_input.simps sample_replacement_parts sum.case option.case Let_def)
      (simp add: MAX_MUTATION_FILE_BYTES_def MAX_DIFF_BYTES_def sample_lib_def)
  then show ?thesis by (auto simp: sample_prepared_def)
qed

theorem prepared_mutation_refines_update_witness:
  "\<exists>q before t. readable_contents sample_tree q = Some before \<and> utf8_decode before = Some t \<and>
     length (candidate_of sample_replacement t) \<le> 65536"
  using prepared_mutation_refines_update [OF sample_prepared_eq] by blast

end
