(* ===== verification/Spec2Isabelle.thy ===== *)
theory Spec2Isabelle
  imports QA_Contracts Context_Packages Model_Router Requests Workspace_Bounds Tool_Gateway
begin

text \<open>
  Novalton OS is a multi-tenant control plane for governed agents: a FastAPI service over PostgreSQL
  (\<open>src/apps/api/src/novalton_api\<close>). Each module has a repository (statements), a service (checks,
  transactions) and pydantic schemas (contracts). People define projects, tasks, policy rules and agents;
  workflows order the steps agents take; every consequential action is judged by policy, may need a human
  approval, and leaves an audit record or a runtime event. This library models the services, not the web
  layer: each operation is a program over a database session, translated with its guards, its statements,
  its commits and its exceptions, in the order the code has them. File names below are relative to
  \<open>novalton_api/modules\<close> unless they start with \<open>core\<close> or \<open>infrastructure\<close>.

  \<^bold>\<open>Foundations.\<close> \<open>Prelude\<close>: names, exceptions and lemmas on tables and lists. \<open>Pyval\<close>, \<open>Regex\<close>,
  \<open>Utf8\<close>: Python values and string methods, the regular expressions with their language, UTF-8.
  \<open>Schema\<close>: a record for every ORM class the services use (the \<open>models.py\<close> files), the checks, keys and
  references of each table, and \<open>constraints\<close>, what PostgreSQL enforces on a write. \<open>Runtime\<close>
  (\<open>core/database.py\<close>, \<open>core/context.py\<close>): the session with its durable and its open data, programs,
  statements that may fail, commit, rollback and the services' transaction boundary. Its locales state what
  the proofs rely on once: \<open>session_order\<close>, \<open>stmt_order\<close>, \<open>store_order\<close> and \<open>db_order\<close> (a relation every
  primitive step respects holds across every program), \<open>row_order\<close> and \<open>lifecycle\<close> (rows that only move
  forward and stay when final), \<open>guarded_update\<close> (an update whose guard names the expected state has one
  winner among racing requests); each component interprets them on its own tables.
  \<open>Scopes\<close> (\<open>workspaces/queries.py\<close>): lookups by owner and key.

  \<^bold>\<open>Logs, projects, policy, approvals.\<close> \<open>Safe_Json\<close>, \<open>Audit_Log\<close> (\<open>audit\<close>) and \<open>Events\<close>
  (\<open>runtime_events\<close>): validated metadata and payloads, appends that join the caller's transaction,
  bounded retrieval, the event stream. \<open>Projects_Tasks\<close> (\<open>projects\<close>, \<open>tasks\<close>): all operations with their
  referential actions. \<open>Policy\<close> (\<open>policy\<close>): matching, restrictive combination, evaluation with its audit
  record, simulation. \<open>Approvals\<close> (\<open>approvals\<close>): creation, the one human decision, the check of prior
  authority. Shown: a policy blocks exactly when an applicable rule is invalid or says so and else takes the
  most restrictive effect; an approval counts exactly for its exact scope while no rule blocks; one decision
  wins; and what a decision, or the creation of a request, has stored however it ends.

  \<^bold>\<open>Agents and workflows.\<close> \<open>Agents\<close> (\<open>agents\<close>: schemas, repository, service): versioned definitions and the
  lifecycle of runs. \<open>Workflow_Graph\<close>, \<open>Workflows\<close>, \<open>Workflow_Progress\<close>, \<open>Workflow_Roundtrip\<close>
  (\<open>workflows\<close>): plan contracts, the validation of the dependency graph (Kahn's algorithm with a sorted
  worklist), plans and versions, runs, step transitions and the waking of dependents. Shown: the validation
  accepts exactly the acyclic plans, computes a reference order, and never raises \<open>KeyError\<close>; a stored plan
  is rebuilt as submitted; a step waits exactly while a dependency is open, so a run is never stuck.
  \<open>Development\<close> (\<open>developer_manager\<close>, \<open>developer_worker\<close>, \<open>qa_worker\<close>: services; \<open>bootstrap.py\<close>): the
  trusted agents, the fixed workflow over them, the bootstrap of the local scope. Shown: the workflow is
  stored only with steps assigned to trusted agents, and no definition from the API becomes one. \<open>Agent_Contracts\<close>,
  \<open>Worker_Contracts\<close>, \<open>QA_Contracts\<close> (the \<open>contracts.py\<close> files): the validators of what agents are given
  and return. Shown: validation is idempotent (a judgement \<open>stable\<close>, composed field by field), a proposed plan
  is ordered as the workflow engine would, and the summary of a challenged assessment can always be built.

  \<^bold>\<open>Tools.\<close> \<open>Workspace\<close>, \<open>Workspace_Bounds\<close> (\<open>tools/executor.py\<close>): the four executors over a file tree.
  \<open>Tools\<close>, \<open>Tool_Gateway\<close> (\<open>tools/service.py\<close>, \<open>repository.py\<close>, \<open>contracts.py\<close>): proposals, authority,
  policy, approval, execution, and the resumption of approved mutations. Shown: a tool runs only with
  permission and under the policy in force, a file changes only under an approval for exactly that change,
  what is read is bounded and inside the workspace, a finished call is not repeated, and a replacement refines
  one update of the map from paths to contents.

  \<^bold>\<open>Models and memory.\<close> \<open>Model_Catalog\<close> (\<open>infrastructure/providers\<close>: contracts, catalog, registry;
  \<open>model_catalog\<close>), \<open>Money\<close>, \<open>Model_Usage\<close> (\<open>model_usage\<close>), \<open>Model_Router\<close> (\<open>model_router\<close>), \<open>Memories\<close>,
  \<open>Context_Packages\<close> (\<open>memories\<close>). Shown: a refresh is one atomic update of the catalog or none; costs are
  exact up to one rounding; routing picks a least-ranked suitable target; a package for a remote target holds
  only memories that may leave, within its bounds, and its size, which counts its own digits, settles.

  \<^bold>\<open>The whole.\<close> \<open>Requests\<close> collects every operation that changes state into one type of requests; this
  theory shows what any sequence of them, however each fails, leaves: every constraint holds and no run is
  stuck, outcomes are final, logs only grow.

  \<^bold>\<open>Assumed of the outside world.\<close> Nothing about which statements fail, what \<open>uuid4\<close>, the clocks, the
  settings or the files are: these are arbitrary readings of the session, indexed by a tick. A statement that
  fails has no effect; a commit that fails leaves the durable data alone; a rollback does not fail; a write of
  a file is atomic and may fail. Checks are evaluated on the result of each writing statement. Code that is
  not in the repository is an argument: \<open>urlsplit\<close> and \<open>parse_qsl\<close>, SHA-256, \<open>difflib\<close>, the text search of
  PostgreSQL, the number of bytes of pydantic's JSON, what a catalog source answers. Text in the
  database is Latin-1 (a \<open>string\<close>); files hold arbitrary code points. Column collation is code point
  order. Money counts units of \<open>10\<^sup>-\<^sup>1\<^sup>0\<close>, durations thousandths, confidences hundredths.

  \<^bold>\<open>Bounds.\<close> Recursion is structural or has a termination proof. The one retry loop, the size of a context
  package, has the four attempts of the code, which \<open>assemble_returns\<close> shows to be enough. The reference
  order of a plan runs as many rounds as the plan has steps, enough because each round takes one.

  \<^bold>\<open>Left out of the modelled parts.\<close> Response models and log records, which copy values; the lengths of
  VARCHAR columns and the key order of jsonb; row locks (each request has its own session; races are modelled
  as racing guarded updates); time stamps nothing reads.

  \<^bold>\<open>Not modelled.\<close> Agent execution and the orchestrator (\<open>agents/execution.py\<close>, \<open>orchestrator\<close>,
  \<open>approvals/mutation_resume.py\<close>), which compose the services above with a provider's answers and prompts;
  \<open>git_changesets\<close> and \<open>github_publications\<close> (git subprocesses, lock files, network); the provider
  adapters (HTTP); routes, operator view, configuration, logging and middleware (glue); migrations, scripts,
  the verification hosts of \<open>src/infra/verification\<close> and the web front end.
\<close>

section \<open>Properties of the whole\<close>

text \<open>
  C3: Whatever requests a deployment serves, in whatever order and however they fail: every store
  that is reached from the empty one satisfies every constraint of the tables, the stored plans
  have no cycle, and a step of a workflow run waits exactly while one of its dependencies is not
  completed.
\<close>
theorem reachable_stores_sound:
  assumes "reaches empty_db d"
  shows "constraints d \<and> flow_ok d"
  using reaches_flow_sound [OF assms empty_flow_sound] by (simp add: flow_sound_def)

lemma booted_reached: "reaches empty_db (committed booted)"
  using reaches.serve [OF reaches.start, of "sample_session empty_db" empty_db "Bootstrap sample_settings"]
  by (simp add: answered_def bnd_def booted_run ret_def)

theorem reachable_stores_sound_witness: "constraints (committed booted) \<and> flow_ok (committed booted)"
  by (rule reachable_stores_sound [OF booted_reached])

text \<open>
  C6: What is decided stays decided, whatever requests follow: an approval or a rejection, the end
  of an agent run, of a workflow run and of a model run with its accounts stay in the store
  unchanged, and the outcome of a finished step does not change.
\<close>
theorem outcomes_are_final:
  assumes "reaches d e" and "constraints d"
  shows "(\<forall>a \<in> set (approval_requests d). ap_status a \<noteq> ''PENDING'' \<longrightarrow> a \<in> set (approval_requests e)) \<and>
    (\<forall>r \<in> set (agent_runs d). agent_final r \<longrightarrow> r \<in> set (agent_runs e)) \<and>
    (\<forall>r \<in> set (workflow_runs d). run_final r \<longrightarrow> r \<in> set (workflow_runs e)) \<and>
    (\<forall>r \<in> set (model_runs d). model_final r \<longrightarrow> r \<in> set (model_runs e)) \<and>
    (\<forall>r \<in> set (workflow_step_runs d). step_final r \<longrightarrow>
       (\<exists>s \<in> set (workflow_step_runs e). step_outcome s = step_outcome r))"
proof -
  have h: "history d e" using reaches_keeps [OF assms] by simp
  show ?thesis
  proof (intro conjI ballI impI)
    fix a assume "a \<in> set (approval_requests d)" "ap_status a \<noteq> ''PENDING''"
    with h show "a \<in> set (approval_requests e)" unfolding history_def by (blast intro: approvals.final_kept)
  next
    fix r assume "r \<in> set (agent_runs d)" "agent_final r"
    with h show "r \<in> set (agent_runs e)" unfolding history_def by (blast intro: agent_lifecycle.final_kept)
  next
    fix r assume "r \<in> set (workflow_runs d)" "run_final r"
    with h show "r \<in> set (workflow_runs e)" unfolding history_def by (blast intro: workflow_lifecycle.final_kept)
  next
    fix r assume "r \<in> set (model_runs d)" "model_final r"
    with h show "r \<in> set (model_runs e)" unfolding history_def by (blast intro: model_lifecycle.final_kept)
  next
    fix r assume r: "r \<in> set (workflow_step_runs d)" "step_final r"
    from h have "evolves step_kept workflow_step_runs d e" by (simp add: history_def)
    from step_rows.evolves_row [OF this r(1)]
    show "\<exists>s \<in> set (workflow_step_runs e). step_outcome s = step_outcome r"
      using r(2) by (auto simp: step_kept_def)
  qed
qed

definition sample_decided :: db where
  "sample_decided = sample_agent_db\<lparr>agent_runs :=
     [apply_run_values (transition_values agent_run_status.RUNNING agent_run_status.SUCCEEDED None 9) sample_agent_run]\<rparr>"

theorem outcomes_are_final_witness:
  "\<forall>op. apply_run_values (transition_values agent_run_status.RUNNING agent_run_status.SUCCEEDED None 9) sample_agent_run \<in>
     set (agent_runs (committed (snd (serve op (sample_session sample_decided)))))"
proof
  fix op
  have r: "reaches sample_decided (committed (snd (serve op (sample_session sample_decided))))"
    by (rule reaches.serve [OF reaches.start]) simp_all
  have "constraints sample_decided" by code_simp
  from outcomes_are_final [OF r this] show "apply_run_values (transition_values agent_run_status.RUNNING agent_run_status.SUCCEEDED None 9)
      sample_agent_run \<in> set (agent_runs (committed (snd (serve op (sample_session sample_decided)))))"
    by (simp add: sample_decided_def agent_final_def)
qed

text \<open>
  C13: The logs and the versioned data are append-only, whatever requests follow: no audit record,
  no runtime event and no memory disappears, moves or changes, except that its references to a project
  and a task may be cleared; and a request that deletes no project and no task does not even clear a
  reference, but leaves every stored record as it is. The sources of the memories, tenants, workspaces,
  policy rules, agent definitions, workflow plans, their steps and dependencies and the handoffs are only
  added, after the stored ones.
\<close>
theorem logs_are_append_only:
  assumes "reaches d e" and "constraints d"
  shows "(\<exists>kept new. audit_records e = kept @ new \<and> list_all2 forgets_audit (audit_records d) kept) \<and>
    (\<exists>kept new. runtime_events e = kept @ new \<and> list_all2 forgets_event (runtime_events d) kept) \<and>
    (\<exists>kept new. memory_records e = kept @ new \<and> list_all2 forgets_memory (memory_records d) kept) \<and>
    (\<forall>s op. working s = e \<and> committed s = e \<and> \<not> deletes_scope op \<longrightarrow>
       grows_logs e (committed (snd (serve op s)))) \<and>
    prefix (memory_sources d) (memory_sources e) \<and>
    prefix (tenants d) (tenants e) \<and> prefix (workspaces d) (workspaces e) \<and>
    prefix (policy_rules d) (policy_rules e) \<and> prefix (agent_definitions d) (agent_definitions e) \<and>
    prefix (workflow_plans d) (workflow_plans e) \<and> prefix (workflow_steps d) (workflow_steps e) \<and>
    prefix (step_dependencies d) (step_dependencies e) \<and> prefix (step_handoffs d) (step_handoffs e)"
proof -
  have "grows_logs e (committed (snd (serve op s)))"
    if "working s = e" "committed s = e" "\<not> deletes_scope op" for s op
    using serve_keeps_logs [of s op] that by simp
  with reaches_keeps [OF assms] show ?thesis by (simp add: history_def grows_def evolves_def)
qed

text \<open>A store with a record in each log, of the task that exists there.\<close>

definition sample_record :: audit_record where
  "sample_record = \<lparr>au_id = 60, au_tenant_id = 1, au_workspace_id = 2, au_action = ''task.create'',
     au_actor_type = ''local_user'', au_actor_id = None, au_outcome = ''success'',
     au_resource_type = Some ''task'', au_resource_id = Some 4, au_project_id = Some 3, au_task_id = Some 4,
     au_correlation_id = None, au_occurred_at = 5, au_metadata_json = None\<rparr>"

definition sample_log_db :: db where
  "sample_log_db = sample_db\<lparr>audit_records := [sample_record]\<rparr>"

theorem logs_are_append_only_witness:
  "\<forall>op. (\<exists>r. hd (audit_records (committed (snd (serve op (sample_session sample_log_db))))) = r \<and>
        forgets_audit sample_record r) \<and>
     (\<not> deletes_scope op \<longrightarrow>
       hd (audit_records (committed (snd (serve op (sample_session sample_log_db))))) = sample_record)"
proof
  fix op
  let ?e = "committed (snd (serve op (sample_session sample_log_db)))"
  have r: "reaches sample_log_db ?e" by (rule reaches.serve [OF reaches.start]) simp_all
  have ok: "constraints sample_log_db" by code_simp
  have one: "audit_records sample_log_db = [sample_record]" by (simp add: sample_log_db_def)
  from logs_are_append_only [OF r ok] obtain kept new where "audit_records ?e = kept @ new"
    "list_all2 forgets_audit [sample_record] kept" unfolding one by blast
  then have "forgets_audit sample_record (hd (audit_records ?e))" by (auto simp: list_all2_Cons1)
  moreover have "hd (audit_records ?e) = sample_record" if "\<not> deletes_scope op"
  proof -
    have "grows_logs sample_log_db ?e"
      using logs_are_append_only [OF reaches.start ok] that by simp
    then show ?thesis by (auto simp: grows_logs_def one prefix_def)
  qed
  ultimately show "(\<exists>r. hd (audit_records ?e) = r \<and> forgets_audit sample_record r) \<and>
      (\<not> deletes_scope op \<longrightarrow> hd (audit_records ?e) = sample_record)" by simp
qed

text \<open>
  C11: A run is never stuck, in any store that requests lead to from a sound one. Its steps are all
  completed, or some step of it is ready, running or waiting for an approval, or a step has failed or was
  cancelled: no sequence of requests leaves a run whose remaining steps all wait for one another, or for
  steps that are completed.
\<close>
theorem workflow_run_never_stuck:
  assumes "reaches start d" and "flow_sound start"
  shows "(\<forall>r \<in> set (workflow_step_runs d). sr_workflow_run_id r = run_id \<longrightarrow> sr_status r = ''COMPLETED'') \<or>
    (\<exists>r \<in> set (workflow_step_runs d). sr_workflow_run_id r = run_id \<and>
       sr_status r \<in> {''READY'', ''RUNNING'', ''WAITING_FOR_APPROVAL'', ''FAILED'', ''CANCELLED''})"
  using open_step_somewhere [OF reaches_flow_sound [OF assms]] by blast

theorem workflow_run_never_stuck_witness:
  "\<forall>op. let d = committed (snd (serve op (sample_session sample_flow_db))) in
    (\<forall>r \<in> set (workflow_step_runs d). sr_workflow_run_id r = 34 \<longrightarrow> sr_status r = ''COMPLETED'') \<or>
    (\<exists>r \<in> set (workflow_step_runs d). sr_workflow_run_id r = 34 \<and>
       sr_status r \<in> {''READY'', ''RUNNING'', ''WAITING_FOR_APPROVAL'', ''FAILED'', ''CANCELLED''})"
proof
  fix op
  have "reaches sample_flow_db (committed (snd (serve op (sample_session sample_flow_db))))"
    by (rule reaches.serve [OF reaches.start]) simp_all
  from workflow_run_never_stuck [OF this sample_flow_sound, of 34] show "let d = committed (snd (serve op (sample_session sample_flow_db))) in
    (\<forall>r \<in> set (workflow_step_runs d). sr_workflow_run_id r = 34 \<longrightarrow> sr_status r = ''COMPLETED'') \<or>
    (\<exists>r \<in> set (workflow_step_runs d). sr_workflow_run_id r = 34 \<and>
       sr_status r \<in> {''READY'', ''RUNNING'', ''WAITING_FOR_APPROVAL'', ''FAILED'', ''CANCELLED''})"
    unfolding Let_def .
qed

end
